(* ===== verification/Prelude.thy ===== *)
theory Prelude
  imports Main "HOL-Library.AList" "HOL-Library.Char_ord" "HOL-Library.List_Lexorder"
begin

text \<open>
  The prelude of the development: results and actions with exceptions, the Hoare-style triples
  the component proofs use, Python strings and dictionaries.

  A Python expression that may raise is a value of \<open>'e + 'a\<close> (\<open>Inl\<close> is the raised
  exception).  A Python statement that also changes state is an \<open>action\<close>: it takes the
  state, and returns the result or the raised exception together with the state at that moment (an
  exception does not undo earlier assignments).
\<close>

section \<open>Collections\<close>

named_theorems triples \<open>rules for proving a triple, one per construct of the action language\<close>
named_theorems action_simps \<open>the effect of the primitive actions on a state\<close>
named_theorems dict_simps \<open>lookup and update of Python dictionaries\<close>

section \<open>Results\<close>

definition bindE :: "'e + 'a \<Rightarrow> ('a \<Rightarrow> 'e + 'b) \<Rightarrow> 'e + 'b" where
  "bindE m k = (case m of Inl e \<Rightarrow> Inl e | Inr x \<Rightarrow> k x)"

definition raise_if :: "bool \<Rightarrow> 'e \<Rightarrow> 'e + unit" where
  "raise_if c e = (if c then Inl e else Inr ())"

lemma bindE_simps [simp]:
  "bindE (Inl e) k = Inl e"
  "bindE (Inr x) k = k x"
  by (simp_all add: bindE_def)

lemma bindE_eq_Inr [simp]: "bindE m k = Inr y \<longleftrightarrow> (\<exists>x. m = Inr x \<and> k x = Inr y)"
  by (cases m) (auto simp: bindE_def)

lemma bindE_eq_Inl: "bindE m k = Inl e \<longleftrightarrow> m = Inl e \<or> (\<exists>x. m = Inr x \<and> k x = Inl e)"
  by (cases m) (auto simp: bindE_def)

lemma raise_if_Inr [simp]: "raise_if c e = Inr u \<longleftrightarrow> \<not> c"
  by (simp add: raise_if_def)

lemma raise_if_Inl [simp]: "raise_if c e = Inl e' \<longleftrightarrow> c \<and> e = e'"
  by (simp add: raise_if_def)

lemma raise_if_simps [simp]: "raise_if True e = Inl e" "raise_if False e = Inr ()"
  by (simp_all add: raise_if_def)

text \<open>A Python comprehension whose body may raise: left to right, stopping at the first exception.\<close>

fun mapE :: "('a \<Rightarrow> 'e + 'b) \<Rightarrow> 'a list \<Rightarrow> 'e + 'b list" where
  "mapE f [] = Inr []"
| "mapE f (x # xs) = bindE (f x) (\<lambda>y. bindE (mapE f xs) (\<lambda>ys. Inr (y # ys)))"

lemma mapE_length: "mapE f xs = Inr ys \<Longrightarrow> length ys = length xs"
  by (induction xs arbitrary: ys) auto

lemma mapE_Inr_iff: "mapE f xs = Inr ys \<longleftrightarrow> list_all2 (\<lambda>x y. f x = Inr y) xs ys"
  by (induction xs arbitrary: ys) (auto simp: list_all2_Cons1)

section \<open>Actions\<close>

type_synonym ('s, 'e, 'a) action = "'s \<Rightarrow> ('e + 'a) \<times> 's"

definition ret :: "'a \<Rightarrow> ('s, 'e, 'a) action" where
  "ret x = (\<lambda>s. (Inr x, s))"

definition raise :: "'e \<Rightarrow> ('s, 'e, 'a) action" where
  "raise e = (\<lambda>s. (Inl e, s))"

definition bindA :: "('s, 'e, 'a) action \<Rightarrow> ('a \<Rightarrow> ('s, 'e, 'b) action) \<Rightarrow> ('s, 'e, 'b) action" where
  "bindA m k = (\<lambda>s. case m s of (Inl e, s') \<Rightarrow> (Inl e, s') | (Inr x, s') \<Rightarrow> k x s')"

text \<open>\<open>try: m / except: h e\<close>; the handler re-raises what it does not catch.\<close>

definition tryA :: "('s, 'e, 'a) action \<Rightarrow> ('e \<Rightarrow> ('s, 'e, 'a) action) \<Rightarrow> ('s, 'e, 'a) action" where
  "tryA m h = (\<lambda>s. case m s of (Inl e, s') \<Rightarrow> h e s' | (Inr x, s') \<Rightarrow> (Inr x, s'))"

text \<open>\<open>try: m / finally: f\<close>: an exception of the cleanup replaces the result.\<close>

definition finallyA :: "('s, 'e, 'a) action \<Rightarrow> ('s, 'e, unit) action \<Rightarrow> ('s, 'e, 'a) action" where
  "finallyA m f =
     (\<lambda>s. case m s of (r, s1) \<Rightarrow>
        (case f s1 of (Inl e, s2) \<Rightarrow> (Inl e, s2) | (Inr _, s2) \<Rightarrow> (r, s2)))"

text \<open>\<open>try: m / except BaseException: c; raise\<close>.\<close>

definition on_error :: "('s, 'e, 'a) action \<Rightarrow> ('s, 'e, unit) action \<Rightarrow> ('s, 'e, 'a) action" where
  "on_error m c = tryA m (\<lambda>e. bindA c (\<lambda>_. raise e))"

definition getA :: "('s \<Rightarrow> 'a) \<Rightarrow> ('s, 'e, 'a) action" where
  "getA f = (\<lambda>s. (Inr (f s), s))"

definition modA :: "('s \<Rightarrow> 's) \<Rightarrow> ('s, 'e, unit) action" where
  "modA f = (\<lambda>s. (Inr (), f s))"

definition liftE :: "'e + 'a \<Rightarrow> ('s, 'e, 'a) action" where
  "liftE r = (\<lambda>s. (r, s))"

abbreviation thenA :: "('s, 'e, 'a) action \<Rightarrow> ('s, 'e, 'b) action \<Rightarrow> ('s, 'e, 'b) action" where
  "thenA m k \<equiv> bindA m (\<lambda>_. k)"

lemma ret_apply [action_simps]: "ret x s = (Inr x, s)" by (simp add: ret_def)
lemma raise_apply [action_simps]: "raise e s = (Inl e, s)" by (simp add: raise_def)
lemma getA_apply [action_simps]: "getA f s = (Inr (f s), s)" by (simp add: getA_def)
lemma modA_apply [action_simps]: "modA f s = (Inr (), f s)" by (simp add: modA_def)
lemma liftE_apply [action_simps]: "liftE r s = (r, s)" by (simp add: liftE_def)

lemma bindA_ret [simp]: "bindA (ret x) k = k x"
  by (simp add: bindA_def fun_eq_iff action_simps)

lemma bindA_Inr: "bindA m k s = (Inr y, t) \<longleftrightarrow> (\<exists>x u. m s = (Inr x, u) \<and> k x u = (Inr y, t))"
  by (auto simp: bindA_def split: prod.splits sum.splits)

lemma bindA_raise [simp]: "bindA (raise e) k = raise e"
  by (simp add: bindA_def fun_eq_iff action_simps)

lemma bindA_liftE [simp]:
  "bindA (liftE (Inl e)) k = raise e"
  "bindA (liftE (Inr x)) k = k x"
  by (simp_all add: bindA_def fun_eq_iff action_simps)

lemma bindA_assoc: "bindA (bindA m k) h = bindA m (\<lambda>x. bindA (k x) h)"
  by (auto simp: bindA_def fun_eq_iff split: prod.splits sum.splits)

section \<open>Triples\<close>

text \<open>
  \<open>triple P m Q E\<close>: started in a state where \<open>P\<close> holds, \<open>m\<close> either returns with
  \<open>Q\<close> or raises with \<open>E\<close>.  Actions are total functions, so the triple also says that
  \<open>m\<close> returns or raises.  \<open>keeps I m\<close> is the special case of an invariant.
\<close>

definition triple ::
  "('s \<Rightarrow> bool) \<Rightarrow> ('s, 'e, 'a) action \<Rightarrow> ('a \<Rightarrow> 's \<Rightarrow> bool) \<Rightarrow> ('e \<Rightarrow> 's \<Rightarrow> bool) \<Rightarrow> bool" where
  "triple P m Q E \<longleftrightarrow>
     (\<forall>s. P s \<longrightarrow> (case m s of (Inl e, s') \<Rightarrow> E e s' | (Inr x, s') \<Rightarrow> Q x s'))"

definition keeps :: "('s \<Rightarrow> bool) \<Rightarrow> ('s, 'e, 'a) action \<Rightarrow> bool" where
  "keeps I m \<longleftrightarrow> (\<forall>s. I s \<longrightarrow> I (snd (m s)))"

lemma tripleD_ret: "triple P m Q E \<Longrightarrow> P s \<Longrightarrow> m s = (Inr x, s') \<Longrightarrow> Q x s'"
  by (force simp: triple_def)

lemma tripleD_raise: "triple P m Q E \<Longrightarrow> P s \<Longrightarrow> m s = (Inl e, s') \<Longrightarrow> E e s'"
  by (force simp: triple_def)

lemma tripleI:
  assumes "\<And>s x s'. P s \<Longrightarrow> m s = (Inr x, s') \<Longrightarrow> Q x s'"
    and "\<And>s e s'. P s \<Longrightarrow> m s = (Inl e, s') \<Longrightarrow> E e s'"
  shows "triple P m Q E"
  using assms by (auto simp: triple_def split: prod.splits sum.splits)

lemma triple_conseq:
  assumes "triple P' m Q' E'" and "\<And>s. P s \<Longrightarrow> P' s"
    and "\<And>x s. Q' x s \<Longrightarrow> Q x s" and "\<And>e s. E' e s \<Longrightarrow> E e s"
  shows "triple P m Q E"
  using assms unfolding triple_def by (force split: prod.splits sum.splits)

lemma triple_pre: "triple P' m Q E \<Longrightarrow> (\<And>s. P s \<Longrightarrow> P' s) \<Longrightarrow> triple P m Q E"
  by (rule triple_conseq)

lemma triple_ret [triples]: "(\<And>s. P s \<Longrightarrow> Q x s) \<Longrightarrow> triple P (ret x) Q E"
  by (simp add: triple_def action_simps)

lemma triple_raise [triples]: "(\<And>s. P s \<Longrightarrow> E e s) \<Longrightarrow> triple P (raise e) Q E"
  by (simp add: triple_def action_simps)

lemma triple_bind [triples]:
  assumes "triple P m R E" and "\<And>x. triple (R x) (k x) Q E"
  shows "triple P (bindA m k) Q E"
  using assms unfolding triple_def bindA_def
  by (fastforce split: prod.splits sum.splits)

lemma triple_try [triples]:
  assumes "triple P m Q R" and "\<And>e. triple (R e) (h e) Q E"
  shows "triple P (tryA m h) Q E"
  using assms unfolding triple_def tryA_def
  by (fastforce split: prod.splits sum.splits)

lemma triple_get [triples]: "(\<And>s. P s \<Longrightarrow> Q (f s) s) \<Longrightarrow> triple P (getA f) Q E"
  by (simp add: triple_def action_simps)

lemma triple_mod [triples]: "(\<And>s. P s \<Longrightarrow> Q () (f s)) \<Longrightarrow> triple P (modA f) Q E"
  by (simp add: triple_def action_simps)

lemma triple_lift [triples]:
  assumes "\<And>x s. r = Inr x \<Longrightarrow> P s \<Longrightarrow> Q x s" and "\<And>e s. r = Inl e \<Longrightarrow> P s \<Longrightarrow> E e s"
  shows "triple P (liftE r) Q E"
  using assms by (auto simp: triple_def action_simps split: sum.splits)

lemma triple_bind_lift:
  assumes "\<And>x. triple P (k x) Q E" and "\<And>e s. P s \<Longrightarrow> E e s"
  shows "triple P (bindA (liftE r) k) Q E"
  using assms by (cases r) (auto intro: triple_raise)

lemma triple_if [triples]:
  assumes "c \<Longrightarrow> triple P m Q E" and "\<not> c \<Longrightarrow> triple P n Q E"
  shows "triple P (if c then m else n) Q E"
  using assms by simp

text \<open>Reasoning from one starting state.\<close>

lemma triple_pointwise: "(\<And>s. P s \<Longrightarrow> triple (\<lambda>t. t = s) m Q E) \<Longrightarrow> triple P m Q E"
  by (auto simp: triple_def)

lemma triple_at_get:
  "triple (\<lambda>t. t = s) (k (f s)) Q E \<Longrightarrow> triple (\<lambda>t. t = s) (bindA (getA f) k) Q E"
  by (simp add: triple_def bindA_def action_simps)

lemma keeps_triple: "keeps I m \<longleftrightarrow> triple I m (\<lambda>_. I) (\<lambda>_. I)"
  unfolding keeps_def triple_def by (intro iff_allI) (auto split: prod.splits sum.splits)

lemma keepsD: "keeps I m \<Longrightarrow> I s \<Longrightarrow> m s = (r, s') \<Longrightarrow> I s'"
  by (force simp: keeps_def)

lemma keeps_ret [triples]: "keeps I (ret x)" by (simp add: keeps_def action_simps)
lemma keeps_raise [triples]: "keeps I (raise e)" by (simp add: keeps_def action_simps)
lemma keeps_get [triples]: "keeps I (getA f)" by (simp add: keeps_def action_simps)
lemma keeps_lift [triples]: "keeps I (liftE r)" by (simp add: keeps_def action_simps)
lemma keeps_mod: "(\<And>s. I s \<Longrightarrow> I (f s)) \<Longrightarrow> keeps I (modA f)" by (simp add: keeps_def action_simps)

lemma keeps_bind [triples]:
  assumes "keeps I m" and "\<And>x. keeps I (k x)"
  shows "keeps I (bindA m k)"
  using assms unfolding keeps_def bindA_def
  by (fastforce split: prod.splits sum.splits)

lemma keeps_try [triples]:
  assumes "keeps I m" and "\<And>e. keeps I (h e)"
  shows "keeps I (tryA m h)"
  using assms unfolding keeps_def tryA_def
  by (fastforce split: prod.splits sum.splits)

lemma keeps_finally [triples]: "keeps I m \<Longrightarrow> keeps I f \<Longrightarrow> keeps I (finallyA m f)"
  unfolding keeps_def finallyA_def by (fastforce split: prod.splits sum.splits)

lemma keeps_on_error [triples]: "keeps I m \<Longrightarrow> keeps I f \<Longrightarrow> keeps I (on_error m f)"
  unfolding on_error_def by (intro keeps_try keeps_bind keeps_raise)

lemma keeps_if [triples]: "(c \<Longrightarrow> keeps I m) \<Longrightarrow> (\<not> c \<Longrightarrow> keeps I n) \<Longrightarrow> keeps I (if c then m else n)"
  by simp

lemma keeps_option [triples]:
  "(x = None \<Longrightarrow> keeps I m) \<Longrightarrow> (\<And>y. x = Some y \<Longrightarrow> keeps I (k y)) \<Longrightarrow>
   keeps I (case x of None \<Rightarrow> m | Some y \<Rightarrow> k y)"
  by (cases x) auto

section \<open>Python strings\<close>

text \<open>
  A Python \<open>str\<close> is represented by its UTF-8 bytes, a lone surrogate by the three bytes
  CPython's \<open>surrogatepass\<close> handler gives it.  The representation is injective and keeps the
  code-point order, so \<open>=\<close> and \<open><\<close> on \<open>string\<close> are Python's, and \<open>length\<close> is
  \<open>len(s.encode("utf-8"))\<close> whenever that call succeeds.
\<close>

definition byte_of :: "char \<Rightarrow> nat" where
  "byte_of c = of_char c"

definition is_cont :: "char \<Rightarrow> bool" where
  "is_cont c \<longleftrightarrow> 128 \<le> byte_of c \<and> byte_of c < 192"

text \<open>\<open>len(s)\<close>: the number of code points is the number of lead bytes.\<close>

definition str_len :: "string \<Rightarrow> nat" where
  "str_len s = length (filter (\<lambda>c. \<not> is_cont c) s)"

fun has_surrogate :: "string \<Rightarrow> bool" where
  "has_surrogate (c # d # s) \<longleftrightarrow> (byte_of c = 237 \<and> 160 \<le> byte_of d) \<or> has_surrogate (d # s)"
| "has_surrogate _ \<longleftrightarrow> False"

text \<open>\<open>s.encode("utf-8")\<close> is \<open>None\<close> where Python raises \<open>UnicodeEncodeError\<close>.\<close>

definition utf8_encode :: "string \<Rightarrow> string option" where
  "utf8_encode s = (if has_surrogate s then None else Some s)"

definition is_ascii :: "string \<Rightarrow> bool" where
  "is_ascii s \<longleftrightarrow> list_all (\<lambda>c. byte_of c < 128) s"

definition is_lower_hex_char :: "char \<Rightarrow> bool" where
  "is_lower_hex_char c \<longleftrightarrow> c \<in> set ''0123456789abcdef''"

lemma str_len_le: "str_len s \<le> length s"
  by (simp add: str_len_def)

lemma utf8_encode_Some [simp]: "utf8_encode s = Some t \<longleftrightarrow> \<not> has_surrogate s \<and> t = s"
  by (auto simp: utf8_encode_def)

lemma has_surrogate_ascii: "is_ascii s \<Longrightarrow> \<not> has_surrogate s"
  by (induction s rule: has_surrogate.induct) (auto simp: is_ascii_def)

section \<open>Python dictionaries\<close>

text \<open>
  A Python \<open>dict\<close> with string keys is an association list in insertion order.
  \<open>d[k] = v\<close> is \<open>AList.update k v d\<close>: an existing key keeps its place, a new one is
  appended.  \<open>d.update(e)\<close> assigns the items of \<open>e\<close> in order.
\<close>

definition keys :: "(string \<times> 'v) list \<Rightarrow> string list" where
  "keys d = map fst d"

definition dict_update :: "('k \<times> 'v) list \<Rightarrow> ('k \<times> 'v) list \<Rightarrow> ('k \<times> 'v) list" where
  "dict_update d e = fold (\<lambda>(k, v) acc. AList.update k v acc) e d"

text \<open>\<open>set(d) == {k1, ..., kn}\<close> and \<open>set(d) <= {k1, ..., kn}\<close>.\<close>

definition keys_are :: "(string \<times> 'v) list \<Rightarrow> string list \<Rightarrow> bool" where
  "keys_are d ks \<longleftrightarrow> set (keys d) = set ks"

definition keys_within :: "(string \<times> 'v) list \<Rightarrow> string list \<Rightarrow> bool" where
  "keys_within d ks \<longleftrightarrow> set (keys d) \<subseteq> set ks"

definition has_keys :: "(string \<times> 'v) list \<Rightarrow> string list \<Rightarrow> bool" where
  "has_keys d ks \<longleftrightarrow> set ks \<subseteq> set (keys d)"

lemma map_of_update [dict_simps]:
  "map_of (AList.update k v d) k' = (if k' = k then Some v else map_of d k')"
  by (simp add: update_conv')

lemma map_of_dict_update [dict_simps]: "map_of (dict_update d e) = map_of d ++ map_of (rev e)"
proof (induction e arbitrary: d)
  case Nil
  then show ?case by (simp add: dict_update_def)
next
  case (Cons p e)
  obtain k v where p: "p = (k, v)" by (cases p)
  have "map_of (dict_update d (p # e)) = map_of (dict_update (AList.update k v d) e)"
    by (simp add: dict_update_def p)
  also have "\<dots> = (map_of d)(k \<mapsto> v) ++ map_of (rev e)"
    by (simp only: Cons.IH update_conv')
  finally show ?case by (simp add: p)
qed

lemma keys_update [dict_simps]: "set (keys (AList.update k v d)) = insert k (set (keys d))"
  by (simp add: keys_def dom_update)

lemma in_keys_iff: "k \<in> set (keys d) \<longleftrightarrow> map_of d k \<noteq> None"
  by (simp add: keys_def map_of_eq_None_iff)

lemma keys_dict_update [dict_simps]: "set (keys (dict_update d e)) = set (keys d) \<union> set (keys e)"
proof -
  have "k \<in> set (keys (dict_update d e)) \<longleftrightarrow> k \<in> set (keys d) \<union> set (keys e)" for k
  proof -
    have "map_of (rev e) k = None \<longleftrightarrow> k \<notin> set (keys e)"
      by (simp add: map_of_eq_None_iff keys_def)
    then show ?thesis
      by (simp only: in_keys_iff map_of_dict_update map_add_None Un_iff) (auto simp: in_keys_iff)
  qed
  then show ?thesis by blast
qed

lemma map_of_map_prod: "map_of (map (map_prod id f) d) k = map_option f (map_of d k)"
  by (induction d) auto

lemma distinct_keys_update: "distinct (keys d) \<Longrightarrow> distinct (keys (AList.update k v d))"
  by (simp add: keys_def distinct_update)

end
