(* ===== verification/Json.thy ===== *)
theory Json
  imports Prelude
begin

text \<open>
  JSON values as Python holds them after \<open>json.loads\<close>, Python's \<open>==\<close> on them, and
  \<open>json.dumps(..., sort_keys=True, separators=(",", ":"))\<close>.  This is the part of the language
  and of its standard library the client, its journal and the process boundaries share; it models
  no file of the repository by itself.

  Not modelled: the interpreter's own limits (recursion depth, digits of an \<open>int\<close>).  The
  shortest decimal text of a finite float (\<open>float.__repr__\<close>) is a parameter of the printer.
\<close>

section \<open>Values\<close>

text \<open>A double: a dyadic rational \<open>m * 2 ^ e\<close>, the negative zero, an infinity or a NaN.\<close>

datatype pyfloat = Dyadic int int | NegZero | PosInf | NegInf | NaN

datatype json =
    JNull
  | JBool bool
  | JInt int
  | JFloat pyfloat
  | JStr string
  | JArr "json list"
  | JObj "(string \<times> json) list"

type_synonym dict = "(string \<times> json) list"

text \<open>\<open>d.get(k)\<close>.\<close>

definition get :: "dict \<Rightarrow> string \<Rightarrow> json" where
  "get d k = (case map_of d k of None \<Rightarrow> JNull | Some v \<Rightarrow> v)"

text \<open>\<open>k in d\<close>.\<close>

definition has :: "dict \<Rightarrow> string \<Rightarrow> bool" where
  "has d k \<longleftrightarrow> map_of d k \<noteq> None"

lemma get_update [dict_simps]:
  "get (AList.update k v d) k' = (if k' = k then v else get d k')"
  by (simp add: get_def dict_simps)

lemma has_update [dict_simps]: "has (AList.update k v d) k' \<longleftrightarrow> k' = k \<or> has d k'"
  by (simp add: has_def dict_simps)

lemma map_of_rev_None: "map_of (rev e) k = None \<longleftrightarrow> map_of e k = None"
  by (simp add: map_of_eq_None_iff)

lemma get_dict_update [dict_simps]:
  "get (dict_update d e) k = (if has e k then get (rev e) k else get d k)"
proof (cases "map_of e k")
  case None
  then have "map_of (rev e) k = None" by (simp add: map_of_rev_None)
  with None show ?thesis by (simp add: get_def has_def map_of_dict_update map_add_def)
next
  case (Some v)
  then have "map_of (rev e) k \<noteq> None" by (simp add: map_of_rev_None)
  then obtain w where "map_of (rev e) k = Some w" by blast
  with Some show ?thesis by (simp add: get_def has_def map_of_dict_update map_add_def)
qed

lemma has_dict_update [dict_simps]: "has (dict_update d e) k \<longleftrightarrow> has d k \<or> has e k"
proof -
  have "map_of (rev e) k = None \<longleftrightarrow> map_of e k = None" by (rule map_of_rev_None)
  then show ?thesis
    unfolding has_def map_of_dict_update map_add_def by (cases "map_of (rev e) k") auto
qed

lemma get_not_has: "\<not> has d k \<Longrightarrow> get d k = JNull"
  by (simp add: has_def get_def)

lemma has_keysI: "has d k \<longleftrightarrow> k \<in> set (keys d)"
  by (simp add: has_def in_keys_iff)

lemma get_in_set: "get d k = v \<Longrightarrow> v \<noteq> JNull \<Longrightarrow> (k, v) \<in> set d"
  by (auto simp: get_def split: option.splits dest: map_of_SomeD)

section \<open>Python equality\<close>

text \<open>Numbers compare by value, booleans are the integers 0 and 1, a NaN equals nothing.\<close>

fun as_number :: "json \<Rightarrow> pyfloat option" where
  "as_number (JBool b) = Some (Dyadic (if b then 1 else 0) 0)"
| "as_number (JInt i) = Some (Dyadic i 0)"
| "as_number (JFloat f) = Some f"
| "as_number _ = None"

fun num_eq :: "pyfloat \<Rightarrow> pyfloat \<Rightarrow> bool" where
  "num_eq (Dyadic m e) (Dyadic m' e') =
     (m * 2 ^ nat (e - min e e') = m' * 2 ^ nat (e' - min e e'))"
| "num_eq NegZero NegZero = True"
| "num_eq NegZero (Dyadic m _) = (m = 0)"
| "num_eq (Dyadic m _) NegZero = (m = 0)"
| "num_eq PosInf PosInf = True"
| "num_eq NegInf NegInf = True"
| "num_eq _ _ = False"

text \<open>Dictionaries compare without regard to order, lists element by element.\<close>

fun py_eq :: "json \<Rightarrow> json \<Rightarrow> bool"
  and py_eq_list :: "json list \<Rightarrow> json list \<Rightarrow> bool"
  and py_eq_items :: "(string \<times> json) list \<Rightarrow> (string \<times> json) list \<Rightarrow> bool"
where
  "py_eq (JObj xs) (JObj ys) = (length xs = length ys \<and> py_eq_items xs ys)"
| "py_eq (JArr xs) (JArr ys) = py_eq_list xs ys"
| "py_eq (JStr s) (JStr t) = (s = t)"
| "py_eq JNull JNull = True"
| "py_eq a b = (case (as_number a, as_number b) of
     (Some x, Some y) \<Rightarrow> num_eq x y | _ \<Rightarrow> False)"
| "py_eq_list [] [] = True"
| "py_eq_list (x # xs) (y # ys) = (py_eq x y \<and> py_eq_list xs ys)"
| "py_eq_list _ _ = False"
| "py_eq_items [] ys = True"
| "py_eq_items ((k, v) # xs) ys =
     ((case map_of ys k of None \<Rightarrow> False | Some w \<Rightarrow> py_eq v w) \<and> py_eq_items xs ys)"

text \<open>
  Comparisons with a string or with \<open>None\<close> are structural.
\<close>

lemma py_eq_str [simp]: "py_eq (JStr s) x \<longleftrightarrow> x = JStr s" "py_eq x (JStr s) \<longleftrightarrow> x = JStr s"
  by (cases x; force)+

lemma py_eq_null [simp]: "py_eq JNull x \<longleftrightarrow> x = JNull" "py_eq x JNull \<longleftrightarrow> x = JNull"
  by (cases x; force)+

lemma py_eq_int [simp]: "py_eq (JInt i) (JInt j) \<longleftrightarrow> i = j"
  by simp

text \<open>
  Membership in a set of strings hashes its operand: a list or a dictionary raises
  \<open>TypeError\<close> (\<open>None\<close> here).
\<close>

fun in_strings :: "json \<Rightarrow> string list \<Rightarrow> bool option" where
  "in_strings (JArr _) ks = None"
| "in_strings (JObj _) ks = None"
| "in_strings (JStr s) ks = Some (s \<in> set ks)"
| "in_strings _ ks = Some False"

lemma in_strings_True [simp]:
  "in_strings v ks = Some True \<longleftrightarrow> (\<exists>s. v = JStr s \<and> s \<in> set ks)"
  by (cases v) auto

section \<open>Printing\<close>

fun codepoints :: "string \<Rightarrow> nat list" where
  "codepoints [] = []"
| "codepoints (a # s) =
     (if byte_of a < 192 then byte_of a # codepoints s
      else if byte_of a < 224 then
        (case s of
           b # s' \<Rightarrow> ((byte_of a - 192) * 64 + (byte_of b - 128)) # codepoints s'
         | _ \<Rightarrow> [byte_of a])
      else if byte_of a < 240 then
        (case s of
           b # c # s' \<Rightarrow>
             ((byte_of a - 224) * 4096 + (byte_of b - 128) * 64 + (byte_of c - 128))
             # codepoints s'
         | _ \<Rightarrow> [byte_of a])
      else
        (case s of
           b # c # d # s' \<Rightarrow>
             ((byte_of a - 240) * 262144 + (byte_of b - 128) * 4096
               + (byte_of c - 128) * 64 + (byte_of d - 128))
             # codepoints s'
         | _ \<Rightarrow> [byte_of a]))"

definition hex_digit :: "nat \<Rightarrow> char" where
  "hex_digit n = ''0123456789abcdef'' ! (n mod 16)"

definition hex4 :: "nat \<Rightarrow> string" where
  "hex4 n = [hex_digit (n div 4096), hex_digit (n div 256), hex_digit (n div 16), hex_digit n]"

text \<open>One code point inside a JSON string literal, \<open>ensure_ascii\<close> on.\<close>

definition escape_codepoint :: "nat \<Rightarrow> string" where
  "escape_codepoint n =
     (if n = 34 then [CHR 0x5C, CHR 0x22]
      else if n = 92 then [CHR 0x5C, CHR 0x5C]
      else if n = 10 then [CHR 0x5C, CHR ''n'']
      else if n = 13 then [CHR 0x5C, CHR ''r'']
      else if n = 9 then [CHR 0x5C, CHR ''t'']
      else if n = 12 then [CHR 0x5C, CHR ''f'']
      else if n = 8 then [CHR 0x5C, CHR ''b'']
      else if 32 \<le> n \<and> n < 127 then [char_of n]
      else if n < 65536 then CHR 0x5C # CHR ''u'' # hex4 n
      else CHR 0x5C # CHR ''u'' # hex4 (55296 + (n - 65536) div 1024)
           @ CHR 0x5C # CHR ''u'' # hex4 (56320 + (n - 65536) mod 1024))"

definition dump_string :: "string \<Rightarrow> string" where
  "dump_string s = CHR 0x22 # concat (map escape_codepoint (codepoints s)) @ [CHR 0x22]"

fun nat_text :: "nat \<Rightarrow> string" where
  "nat_text n =
     (if n < 10 then [char_of (48 + n)] else nat_text (n div 10) @ [char_of (48 + n mod 10)])"

declare nat_text.simps [simp del]

definition int_text :: "int \<Rightarrow> string" where
  "int_text i = (if i < 0 then CHR ''-'' # nat_text (nat (- i)) else nat_text (nat i))"

text \<open>\<open>sort_keys=True\<close>: every object with its keys in order.\<close>

primrec canon :: "json \<Rightarrow> json" where
  "canon JNull = JNull"
| "canon (JBool b) = JBool b"
| "canon (JInt i) = JInt i"
| "canon (JFloat f) = JFloat f"
| "canon (JStr s) = JStr s"
| "canon (JArr xs) = JArr (map canon xs)"
| "canon (JObj xs) = JObj (sort_key fst (map (map_prod id canon) xs))"

fun dump :: "(pyfloat \<Rightarrow> string) \<Rightarrow> json \<Rightarrow> string"
  and dump_list :: "(pyfloat \<Rightarrow> string) \<Rightarrow> json list \<Rightarrow> string"
  and dump_items :: "(pyfloat \<Rightarrow> string) \<Rightarrow> (string \<times> json) list \<Rightarrow> string"
where
  "dump fr JNull = ''null''"
| "dump fr (JBool b) = (if b then ''true'' else ''false'')"
| "dump fr (JInt i) = int_text i"
| "dump fr (JFloat f) = (case f of
     NaN \<Rightarrow> ''NaN'' | PosInf \<Rightarrow> ''Infinity'' | NegInf \<Rightarrow> ''-Infinity'' | _ \<Rightarrow> fr f)"
| "dump fr (JStr s) = dump_string s"
| "dump fr (JArr xs) = ''['' @ dump_list fr xs @ '']''"
| "dump fr (JObj xs) = ''{'' @ dump_items fr xs @ ''}''"
| "dump_list fr [] = ''''"
| "dump_list fr [x] = dump fr x"
| "dump_list fr (x # y # xs) = dump fr x @ '','' @ dump_list fr (y # xs)"
| "dump_items fr [] = ''''"
| "dump_items fr [(k, v)] = dump_string k @ '':'' @ dump fr v"
| "dump_items fr ((k, v) # p # xs) =
     dump_string k @ '':'' @ dump fr v @ '','' @ dump_items fr (p # xs)"

fun nonfinite :: "json \<Rightarrow> bool" and nonfinite_list :: "json list \<Rightarrow> bool"
  and nonfinite_items :: "(string \<times> json) list \<Rightarrow> bool"
where
  "nonfinite (JFloat f) = (f \<in> {PosInf, NegInf, NaN})"
| "nonfinite (JArr xs) = nonfinite_list xs"
| "nonfinite (JObj xs) = nonfinite_items xs"
| "nonfinite _ = False"
| "nonfinite_list [] = False"
| "nonfinite_list (x # xs) = (nonfinite x \<or> nonfinite_list xs)"
| "nonfinite_items [] = False"
| "nonfinite_items ((k, v) # xs) = (nonfinite v \<or> nonfinite_items xs)"

text \<open>
  \<open>json.dumps(v, sort_keys=True, separators=(",", ":"), allow_nan=False)\<close>; \<open>None\<close> is the
  \<open>ValueError\<close> for a value that JSON has no text for.  The text is ASCII.
\<close>

definition json_dumps :: "(pyfloat \<Rightarrow> string) \<Rightarrow> json \<Rightarrow> string option" where
  "json_dumps fr v = (if nonfinite v then None else Some (dump fr (canon v)))"

text \<open>
  The \<open>object_pairs_hook\<close> every reader of the repository uses: an object that names a member
  twice is refused.
\<close>

fun unique_object_into :: "(string \<times> 'v) list \<Rightarrow> (string \<times> 'v) list \<Rightarrow> (string \<times> 'v) list option" where
  "unique_object_into acc [] = Some acc"
| "unique_object_into acc ((k, v) # ps) =
     (if k \<in> set (keys acc) then None else unique_object_into (AList.update k v acc) ps)"

definition unique_object :: "(string \<times> 'v) list \<Rightarrow> (string \<times> 'v) list option" where
  "unique_object ps = unique_object_into [] ps"

lemma update_new_key: "k \<notin> set (keys d) \<Longrightarrow> AList.update k v d = d @ [(k, v)]"
  by (induction d) (auto simp: keys_def)

lemma unique_object_into_eq:
  "unique_object_into acc ps =
     (if distinct (keys ps) \<and> set (keys ps) \<inter> set (keys acc) = {} then Some (acc @ ps) else None)"
proof (induction ps arbitrary: acc)
  case Nil
  then show ?case by (simp add: keys_def)
next
  case (Cons p ps)
  obtain k v where p: "p = (k, v)" by (cases p)
  show ?case
  proof (cases "k \<in> set (keys acc)")
    case True
    then show ?thesis by (simp add: p keys_def)
  next
    case False
    have "set (keys (acc @ [(k, v)])) = insert k (set (keys acc))" by (auto simp: keys_def)
    moreover have "keys ((k, v) # ps) = k # keys ps" by (simp add: keys_def)
    ultimately show ?thesis using False by (auto simp: p Cons.IH update_new_key)
  qed
qed

text \<open>The hook accepts exactly the pair lists without a repeated key, and returns them unchanged.\<close>

lemma unique_object_iff: "unique_object ps = (if distinct (keys ps) then Some ps else None)"
  by (simp add: unique_object_def unique_object_into_eq keys_def)

text \<open>
  The hook sees every object of the text: as one check of the raw value, no object in it repeats a
  member.
\<close>

fun unique_members :: "json \<Rightarrow> bool" and unique_members_list :: "json list \<Rightarrow> bool"
  and unique_members_items :: "(string \<times> json) list \<Rightarrow> bool"
where
  "unique_members (JObj d) \<longleftrightarrow> unique_object d \<noteq> None \<and> unique_members_items d"
| "unique_members (JArr xs) \<longleftrightarrow> unique_members_list xs"
| "unique_members _ \<longleftrightarrow> True"
| "unique_members_list [] \<longleftrightarrow> True"
| "unique_members_list (x # xs) \<longleftrightarrow> unique_members x \<and> unique_members_list xs"
| "unique_members_items [] \<longleftrightarrow> True"
| "unique_members_items ((k, v) # xs) \<longleftrightarrow> unique_members v \<and> unique_members_items xs"

section \<open>The printed text is ASCII\<close>

lemma is_ascii_simps [simp]:
  "is_ascii []" "is_ascii (c # s) \<longleftrightarrow> byte_of c < 128 \<and> is_ascii s"
  "is_ascii (s @ t) \<longleftrightarrow> is_ascii s \<and> is_ascii t"
  by (simp_all add: is_ascii_def)

lemma nat_text_ascii: "is_ascii (nat_text n)"
proof (induction n rule: nat_text.induct)
  case (1 n)
  then show ?case by (subst nat_text.simps) (auto simp: byte_of_def)
qed

lemma int_text_ascii [simp]: "is_ascii (int_text i)"
  by (simp add: int_text_def nat_text_ascii byte_of_def)

lemma hex_digit_ascii: "byte_of (hex_digit n) < 128"
proof -
  have "hex_digit n \<in> set ''0123456789abcdef''"
    unfolding hex_digit_def by (rule nth_mem) simp
  then show ?thesis by (auto simp: byte_of_def)
qed

lemma escape_codepoint_ascii: "is_ascii (escape_codepoint n)"
proof -
  have "is_ascii (hex4 m)" for m by (simp add: hex4_def hex_digit_ascii)
  then show ?thesis by (simp add: escape_codepoint_def byte_of_def)
qed

lemma dump_string_ascii [simp]: "is_ascii (dump_string s)"
proof -
  have "is_ascii (concat (map escape_codepoint ns))" for ns
    by (induction ns) (simp_all add: escape_codepoint_ascii)
  then show ?thesis by (simp add: dump_string_def byte_of_def)
qed

lemma dump_ascii:
  assumes "\<And>f. is_ascii (fr f)"
  shows "is_ascii (dump fr v)" and "is_ascii (dump_list fr xs)" and "is_ascii (dump_items fr ms)"
  using assms
  by (induction fr v and fr xs and fr ms rule: dump_dump_list_dump_items.induct)
    (auto simp: byte_of_def split: pyfloat.split)

text \<open>What is printed has no control character, whatever the value.\<close>

definition visible :: "char \<Rightarrow> bool" where
  "visible c \<longleftrightarrow> 32 \<le> byte_of c \<and> byte_of c < 127"

lemma visible_eq: "visible = (\<lambda>c. 32 \<le> byte_of c \<and> byte_of c < 127)"
  by (simp add: visible_def fun_eq_iff)

lemma visible_literals [simp]: "list_all visible ''0123456789abcdef''"
  by (simp add: visible_def byte_of_def)

lemma nat_text_printable [simp]: "list_all visible (nat_text n)"
proof (induction n rule: nat_text.induct)
  case (1 n)
  then show ?case by (subst nat_text.simps) (auto simp: visible_eq byte_of_def)
qed

lemma int_text_printable [simp]: "list_all visible (int_text i)"
  unfolding int_text_def using nat_text_printable by (simp add: visible_eq byte_of_def)

lemma hex_digit_printable [simp]: "visible (hex_digit n)"
proof -
  have "hex_digit n \<in> set ''0123456789abcdef''"
    unfolding hex_digit_def by (rule nth_mem) simp
  then show ?thesis using visible_literals unfolding list_all_iff by blast
qed

lemma escape_codepoint_printable: "list_all visible (escape_codepoint n)"
proof -
  have "list_all visible (hex4 m)" for m by (simp add: hex4_def)
  moreover have "visible (char_of n)" if "32 \<le> n" "n < 127"
    using that by (simp add: visible_def byte_of_def)
  ultimately show ?thesis unfolding escape_codepoint_def
    by (auto simp: visible_eq byte_of_def)
qed

lemma dump_string_printable [simp]: "list_all visible (dump_string s)"
proof -
  have "list_all visible (concat (map escape_codepoint ns))" for ns
    by (induction ns) (simp_all add: escape_codepoint_printable)
  then show ?thesis by (simp add: dump_string_def visible_eq byte_of_def)
qed

lemma dump_printable:
  assumes "\<And>f. list_all visible (fr f)"
  shows "list_all visible (dump fr v)" and "list_all visible (dump_list fr xs)"
    and "list_all visible (dump_items fr ms)"
  using assms int_text_printable dump_string_printable
  by (induction fr v and fr xs and fr ms rule: dump_dump_list_dump_items.induct)
    (auto simp: visible_eq byte_of_def simp del: int_text_printable dump_string_printable
      split: pyfloat.split)

lemma printable_ascii: "list_all visible s \<Longrightarrow> is_ascii s"
  by (auto simp: visible_def is_ascii_def list_all_iff)

lemma printable_no_control: "list_all visible s \<Longrightarrow> byte_of c < 32 \<Longrightarrow> c \<notin> set s"
  by (auto simp: visible_def list_all_iff)

end
