(* ===== verification/ClientErrors.thy ===== *)
theory ClientErrors
  imports Json
begin

text \<open>
  The exceptions of the topology client (\<open>client/journal.py\<close>, \<open>client/workflow.py\<close>,
  \<open>client/transport.py\<close>, \<open>client/profile.py\<close>) and the built-in ones its code can raise
  on the values it handles.  \<open>ClientAuthorizationError\<close> is a subclass of
  \<open>ClientTransportError\<close>, which is why the handlers that catch the latter re-raise the former
  first.
\<close>

datatype client_exn =
    JournalError string
  | ClientInputError string
  | ClientTransportError string
  | ClientAuthorizationError
  | ClientConfigurationError string
  | PyTypeError
  | PyKeyError
  | PyUnicodeEncodeError
  | PyOSError
  | PyValueError
  | PyHTTPException

text \<open>
  \<open>except ClientAuthorizationError: raise\<close> followed by
  \<open>except (ClientInputError, ClientTransportError)\<close>.
\<close>

fun input_or_transport :: "client_exn \<Rightarrow> bool" where
  "input_or_transport (ClientInputError _) = True"
| "input_or_transport (ClientTransportError _) = True"
| "input_or_transport _ = False"

text \<open>\<open>v in {...}\<close> for a set of strings: an unhashable operand raises \<open>TypeError\<close>.\<close>

definition member_of :: "json \<Rightarrow> string list \<Rightarrow> client_exn + bool" where
  "member_of v ks = (case in_strings v ks of None \<Rightarrow> Inl PyTypeError | Some b \<Rightarrow> Inr b)"

text \<open>\<open>if v not in {...}: raise e\<close>; the value of \<open>v\<close> is then one of the strings.\<close>

definition known_string :: "json \<Rightarrow> string list \<Rightarrow> client_exn \<Rightarrow> client_exn + string" where
  "known_string v ks e =
     bindE (member_of v ks)
       (\<lambda>ok. case v of JStr s \<Rightarrow> if ok then Inr s else Inl e | _ \<Rightarrow> Inl e)"

lemma member_of_str [simp]: "member_of (JStr s) ks = Inr (s \<in> set ks)"
  by (simp add: member_of_def)

lemma member_of_True [simp]: "member_of v ks = Inr True \<longleftrightarrow> (\<exists>s. v = JStr s \<and> s \<in> set ks)"
  by (auto simp: member_of_def split: option.splits)

lemma known_string_Inr [simp]:
  "known_string v ks e = Inr s \<longleftrightarrow> v = JStr s \<and> s \<in> set ks"
  by (cases v) (auto simp: known_string_def member_of_def)

lemma known_string_str [simp]:
  "known_string (JStr s) ks e = (if s \<in> set ks then Inr s else Inl e)"
  by (simp add: known_string_def)

end
