(* ===== verification/Journal.thy ===== *)
theory Journal
  imports ClientErrors
begin

text \<open>
  The journal documents of the topology client: \<open>_validate_journal\<close> and its helpers in
  \<open>client/journal.py\<close>.  A journal is the dictionary the client keeps in memory and the store
  writes to disk; \<open>validate_journal\<close> is run on every document read and on every document
  written.  The lemmas at the end say what an accepted document promises: its phase, the
  coordinates that phase needs, and that a pending request is bound to those coordinates.
\<close>

section \<open>The closed vocabulary\<close>

definition JOURNAL_SCHEMA :: string where "JOURNAL_SCHEMA = ''cpk.client-invocation.v1''"
definition RESULT_SCHEMA :: string where "RESULT_SCHEMA = ''cpk.client-result.v1''"
definition MAXIMUM_JOURNAL_BYTES :: nat where "MAXIMUM_JOURNAL_BYTES = 1048576"
definition MAXIMUM_REQUEST_RECORDS :: nat where "MAXIMUM_REQUEST_RECORDS = 128"

definition JOURNAL_KEYS :: "string list" where
  "JOURNAL_KEYS =
     [''schema'', ''operation_ref'', ''target'', ''desired'', ''phase'', ''pending_request'',
      ''coordinates'', ''request_history'', ''last_result'']"

definition PHASES :: "string list" where
  "PHASES =
     [''planning'', ''prepared'', ''no-changes'', ''approved'', ''admitted'', ''claimed'',
      ''started'', ''executing'', ''executed'', ''advanced'', ''converged'',
      ''attention-required'']"

definition PLAN_COORDINATES :: "string list" where
  "PLAN_COORDINATES =
     [''plan_id'', ''session_id'', ''base_graph_id'', ''base_realized_projection_id'',
      ''desired_graph_id'', ''desired_realized_projection_id'', ''desired_graph_revision'']"

definition COORDINATE_KEYS :: "string list" where
  "COORDINATE_KEYS = PLAN_COORDINATES @
     [''approval_request_id'', ''approval_state'', ''execution_request_id'', ''run_id'',
      ''claim_generation'', ''run_status'', ''coordinator_status'', ''effects_attempted'',
      ''activity_id'', ''advanced_graph_id'', ''advanced_projection_id'', ''advanced_revision'']"

definition INTEGER_COORDINATES :: "string list" where
  "INTEGER_COORDINATES =
     [''desired_graph_revision'', ''claim_generation'', ''effects_attempted'', ''advanced_revision'']"

definition MUTATION_ROLES :: "(string \<times> string) list" where
  "MUTATION_ROLES =
     [(''command.deployment.prepare'', ''operator''),
      (''command.approval.decide'', ''approver''),
      (''command.deployment.admit'', ''operator''),
      (''command.run.claim'', ''worker''),
      (''command.run.start'', ''worker''),
      (''command.deployment.execute'', ''worker''),
      (''command.graph.advance-current'', ''worker'')]"

definition PENDING_PHASES :: "(string \<times> string list) list" where
  "PENDING_PHASES =
     [(''command.deployment.prepare'', [''planning'']),
      (''command.approval.decide'', [''prepared'']),
      (''command.deployment.admit'', [''prepared'', ''approved'']),
      (''command.run.claim'', [''admitted'']),
      (''command.run.start'', [''claimed'']),
      (''command.deployment.execute'', [''started'', ''executing'']),
      (''command.graph.advance-current'', [''executed''])]"

text \<open>The keys of the body and of the path parameters of a pending request, by route.\<close>

definition body_keys :: "(string \<times> string list) list" where
  "body_keys =
     [(''command.deployment.prepare'',
        [''expected_current'', ''expected_desired'', ''expected_desired_graph_revision'',
         ''title'', ''idempotency_key'']),
      (''command.approval.decide'', [''session_id'', ''decision'', ''idempotency_key'']),
      (''command.deployment.admit'',
        [''session_id'', ''approval_request_id'', ''readiness'', ''idempotency_key'']),
      (''command.run.claim'', [''lease_duration_seconds'', ''idempotency_key'']),
      (''command.run.start'', [''claim_generation'', ''idempotency_key'']),
      (''command.deployment.execute'', [''claim_generation'', ''max_effects'', ''idempotency_key'']),
      (''command.graph.advance-current'',
        [''plan_id'', ''claim_generation'', ''expected_current_graph_id'',
         ''expected_current_realized_projection_id'', ''desired_graph_id'',
         ''desired_realized_projection_id'', ''expected_desired_graph_revision'',
         ''idempotency_key''])]"

definition path_keys :: "(string \<times> string list) list" where
  "path_keys =
     [(''command.deployment.prepare'', [''workspace_id'']),
      (''command.approval.decide'', [''workspace_id'', ''approval_id'']),
      (''command.deployment.admit'', [''workspace_id'', ''plan_id'']),
      (''command.run.claim'', [''workspace_id'', ''run_id'']),
      (''command.run.start'', [''workspace_id'', ''run_id'']),
      (''command.deployment.execute'', [''workspace_id'', ''run_id'']),
      (''command.graph.advance-current'', [''workspace_id'', ''run_id''])]"

definition required_by_phase :: "(string \<times> string list) list" where
  "required_by_phase =
     [(''approved'', [''approval_request_id'', ''approval_state'']),
      (''admitted'', [''execution_request_id'']),
      (''claimed'', [''execution_request_id'', ''run_id'', ''claim_generation'']),
      (''started'', [''execution_request_id'', ''run_id'', ''claim_generation'', ''run_status'']),
      (''executing'',
        [''execution_request_id'', ''run_id'', ''claim_generation'', ''run_status'',
         ''coordinator_status'', ''effects_attempted'']),
      (''executed'',
        [''execution_request_id'', ''run_id'', ''claim_generation'', ''run_status'',
         ''coordinator_status'', ''effects_attempted'']),
      (''advanced'',
        [''execution_request_id'', ''run_id'', ''claim_generation'', ''run_status'',
         ''coordinator_status'', ''effects_attempted'', ''advanced_graph_id'',
         ''advanced_projection_id'', ''advanced_revision'']),
      (''converged'',
        [''execution_request_id'', ''run_id'', ''claim_generation'', ''run_status'',
         ''coordinator_status'', ''effects_attempted'', ''advanced_graph_id'',
         ''advanced_projection_id'', ''advanced_revision''])]"

definition table :: "(string \<times> string list) list \<Rightarrow> string \<Rightarrow> string list" where
  "table t k = (case map_of t k of None \<Rightarrow> [] | Some v \<Rightarrow> v)"

section \<open>Scalars\<close>

text \<open>
  \<open>canonical_operation_ref\<close>: \<open>UUID(value)\<close> accepts several spellings, but the result is
  printed again and compared with the value, so what passes is the canonical lower-case spelling of
  a version 4 identifier of the RFC 4122 variant (\<open>UUID.version\<close> is \<open>None\<close> for the
  others).
\<close>

definition is_canonical_uuid4 :: "string \<Rightarrow> bool" where
  "is_canonical_uuid4 s \<longleftrightarrow>
     length s = 36 \<and>
     list_all (\<lambda>(i, c). if i \<in> {8, 13, 18, 23} then c = CHR ''-'' else is_lower_hex_char c)
       (enumerate 0 s) \<and>
     s ! 14 = CHR ''4'' \<and> s ! 19 \<in> set ''89ab''"

definition canonical_operation_ref :: "json \<Rightarrow> client_exn + string" where
  "canonical_operation_ref v =
     (case v of
        JStr s \<Rightarrow>
          if is_canonical_uuid4 s then Inr s
          else Inl (JournalError ''operation reference is invalid'')
      | _ \<Rightarrow> Inl (JournalError ''operation reference is invalid''))"

text \<open>\<open>_is_uuid4\<close>: the call returns the value itself, so no exception is the same as equality.\<close>

definition is_uuid4 :: "json \<Rightarrow> bool" where
  "is_uuid4 v = (case canonical_operation_ref v of Inl _ \<Rightarrow> False | Inr s \<Rightarrow> v = JStr s)"

fun is_text :: "json \<Rightarrow> bool" where
  "is_text (JStr s) =
     (case utf8_encode s of None \<Rightarrow> False | Some b \<Rightarrow> 0 < length b \<and> length b \<le> 512)"
| "is_text _ = False"

fun is_sha256 :: "json \<Rightarrow> bool" where
  "is_sha256 (JStr s) = (str_len s = 64 \<and> list_all is_lower_hex_char s)"
| "is_sha256 _ = False"

text \<open>\<open>type(v) is int\<close> with a lower bound: booleans and floats are refused.\<close>

fun int_at_least :: "int \<Rightarrow> json \<Rightarrow> bool" where
  "int_at_least m (JInt i) = (m \<le> i)"
| "int_at_least m _ = False"

fun valid_pointer :: "json \<Rightarrow> bool" where
  "valid_pointer (JObj d) =
     (keys_are d [''authored_graph_id'', ''realized_projection_id''] \<and> list_all (\<lambda>(k, v). is_text v) d)"
| "valid_pointer _ = False"

fun valid_change_target :: "json \<Rightarrow> bool" where
  "valid_change_target (JObj d) =
     (has d ''kind'' \<and> keys_within d [''kind'', ''node_id'', ''runtime_id'', ''edge_id''] \<and>
      list_all (\<lambda>(k, v). is_text v) d)"
| "valid_change_target _ = False"

text \<open>\<open>Path(p).is_absolute()\<close> on POSIX.\<close>

fun is_absolute_path :: "json \<Rightarrow> bool" where
  "is_absolute_path (JStr (c # _)) = (c = CHR ''/'')"
| "is_absolute_path _ = False"

fun as_dict :: "json \<Rightarrow> client_exn \<Rightarrow> client_exn + dict" where
  "as_dict (JObj d) e = Inr d"
| "as_dict _ e = Inl e"

lemma as_dict_Inr [simp]: "as_dict v e = Inr d \<longleftrightarrow> v = JObj d"
  by (cases v) auto

section \<open>The pending request\<close>

definition pending_error :: client_exn where
  "pending_error = JournalError ''operation journal pending request is invalid''"

text \<open>The checks of \<open>body\<close> and \<open>path_parameters\<close> against the journal's coordinates.\<close>

definition prepare_body_valid :: "json \<Rightarrow> json \<Rightarrow> dict \<Rightarrow> bool" where
  "prepare_body_valid source desired body \<longleftrightarrow>
     py_eq source desired \<and>
     valid_pointer (get body ''expected_current'') \<and>
     (get body ''expected_desired'' = JNull \<or> valid_pointer (get body ''expected_desired'')) \<and>
     int_at_least 0 (get body ''expected_desired_graph_revision'') \<and>
     is_text (get body ''title'')"

definition pending_bound :: "string \<Rightarrow> dict \<Rightarrow> dict \<Rightarrow> dict \<Rightarrow> bool" where
  "pending_bound route path body c =
     (if route = ''command.approval.decide'' then
        py_eq (get path ''approval_id'') (get c ''approval_request_id'') \<and>
        py_eq (get body ''session_id'') (get c ''session_id'') \<and>
        get body ''decision'' = JStr ''approved''
      else if route = ''command.deployment.admit'' then
        py_eq (get path ''plan_id'') (get c ''plan_id'') \<and>
        py_eq (get body ''session_id'') (get c ''session_id'') \<and>
        py_eq (get body ''approval_request_id'') (get c ''approval_request_id'') \<and>
        py_eq (get body ''readiness'') (JArr [])
      else if route = ''command.run.claim'' then
        py_eq (get path ''run_id'') (get c ''execution_request_id'') \<and>
        (case get body ''lease_duration_seconds'' of
           JInt i \<Rightarrow> 1 \<le> i \<and> i \<le> 86400 | _ \<Rightarrow> False)
      else if route \<in> {''command.run.start'', ''command.deployment.execute''} then
        py_eq (get path ''run_id'') (get c ''run_id'') \<and>
        py_eq (get body ''claim_generation'') (get c ''claim_generation'') \<and>
        (route \<noteq> ''command.deployment.execute'' \<or> py_eq (get body ''max_effects'') (JInt 1))
      else
        py_eq (get path ''run_id'') (get c ''run_id'') \<and>
        py_eq (get body ''plan_id'') (get c ''plan_id'') \<and>
        py_eq (get body ''claim_generation'') (get c ''claim_generation'') \<and>
        py_eq (get body ''expected_current_graph_id'') (get c ''base_graph_id'') \<and>
        py_eq (get body ''expected_current_realized_projection_id'')
          (get c ''base_realized_projection_id'') \<and>
        py_eq (get body ''desired_graph_id'') (get c ''desired_graph_id'') \<and>
        py_eq (get body ''desired_realized_projection_id'')
          (get c ''desired_realized_projection_id'') \<and>
        py_eq (get body ''expected_desired_graph_revision'') (get c ''desired_graph_revision''))"

definition PENDING_KEYS :: "string list" where
  "PENDING_KEYS =
     [''route_id'', ''path_parameters'', ''credential_role'', ''idempotency_key'', ''body'',
      ''body_sha256'', ''desired_source'']"

definition validate_pending ::
  "json \<Rightarrow> string \<Rightarrow> dict \<Rightarrow> dict \<Rightarrow> dict \<Rightarrow> client_exn + unit" where
  "validate_pending pending phase target desired c =
     bindE (as_dict pending pending_error) (\<lambda>p.
     bindE (raise_if (\<not> keys_are p PENDING_KEYS) pending_error) (\<lambda>_.
     bindE (known_string (get p ''route_id'') (keys MUTATION_ROLES) pending_error) (\<lambda>route.
     bindE (raise_if
        (get p ''credential_role'' \<noteq> JStr (the (map_of MUTATION_ROLES route)) \<or>
         phase \<notin> set (table PENDING_PHASES route) \<or>
         \<not> is_uuid4 (get p ''idempotency_key'') \<or>
         \<not> is_sha256 (get p ''body_sha256'')) pending_error) (\<lambda>_.
     bindE (as_dict (get p ''path_parameters'') pending_error) (\<lambda>path.
     bindE (as_dict (get p ''body'') pending_error) (\<lambda>body.
     bindE (raise_if (\<not> py_eq (get body ''idempotency_key'') (get p ''idempotency_key''))
        pending_error) (\<lambda>_.
     bindE (raise_if
        (\<not> keys_are body (table body_keys route) \<or> \<not> keys_are path (table path_keys route))
        pending_error) (\<lambda>_.
     bindE (raise_if (\<not> py_eq (get path ''workspace_id'') (get target ''workspace_id''))
        (JournalError ''operation journal pending target is invalid'')) (\<lambda>_.
     if route = ''command.deployment.prepare'' then
       raise_if (\<not> prepare_body_valid (get p ''desired_source'') (JObj desired) body)
         (JournalError ''operation journal prepare request is invalid'')
     else
       bindE (raise_if (get p ''desired_source'' \<noteq> JNull) pending_error) (\<lambda>_.
       raise_if (\<not> pending_bound route path body c)
         (JournalError ''operation journal pending coordinates are invalid'')))))))))))"

section \<open>The last result\<close>

definition result_error :: client_exn where
  "result_error = JournalError ''operation journal result is invalid''"

definition RESULT_REQUIRED :: "string list" where
  "RESULT_REQUIRED =
     [''schema'', ''status'', ''operation_ref'', ''workspace_id'', ''execution'', ''advancement'',
      ''observation'', ''changes'', ''next'']"

definition RESULT_OPTIONAL :: "string list" where
  "RESULT_OPTIONAL =
     [''plan_id'', ''approval_request_id'', ''run_id'', ''required_scope'', ''destructive'']"

definition RESULT_STATUSES :: "string list" where
  "RESULT_STATUSES =
     [''planned'', ''running'', ''no-changes'', ''converged'', ''attention-required'']"

definition RESULT_EXECUTIONS :: "string list" where
  "RESULT_EXECUTIONS =
     [''not-started'', ''running'', ''succeeded'', ''blocked'', ''failed'', ''unsupported'',
      ''uncertain'', ''unverified'']"

definition RESULT_ADVANCEMENTS :: "string list" where
  "RESULT_ADVANCEMENTS = [''not-attempted'', ''advanced'', ''unchanged'', ''unverified'']"

fun change_valid :: "json \<Rightarrow> bool" where
  "change_valid (JObj c) =
     (keys_are c [''activity_id'', ''operation'', ''target''] \<and>
      is_text (get c ''activity_id'') \<and> is_text (get c ''operation'') \<and>
      valid_change_target (get c ''target''))"
| "change_valid _ = False"

fun changes_valid :: "json \<Rightarrow> bool" where
  "changes_valid (JArr xs) = (length xs \<le> MAXIMUM_REQUEST_RECORDS \<and> list_all change_valid xs)"
| "changes_valid _ = False"

fun next_valid :: "json \<Rightarrow> bool" where
  "next_valid (JObj d) =
     (keys_within d [''command'', ''public_read''] \<and> list_all (\<lambda>(k, v). is_text v) d)"
| "next_valid _ = False"

definition validate_result ::
  "json \<Rightarrow> string \<Rightarrow> dict \<Rightarrow> dict \<Rightarrow> client_exn + unit" where
  "validate_result result operation_ref target c =
     bindE (as_dict result result_error) (\<lambda>r.
     bindE (raise_if
        (\<not> has_keys r RESULT_REQUIRED \<or> \<not> keys_within r (RESULT_REQUIRED @ RESULT_OPTIONAL) \<or>
         get r ''schema'' \<noteq> JStr RESULT_SCHEMA \<or>
         get r ''operation_ref'' \<noteq> JStr operation_ref \<or>
         \<not> py_eq (get r ''workspace_id'') (get target ''workspace_id'')) result_error) (\<lambda>_.
     bindE (known_string (get r ''status'') RESULT_STATUSES result_error) (\<lambda>_.
     bindE (known_string (get r ''execution'') RESULT_EXECUTIONS result_error) (\<lambda>_.
     bindE (known_string (get r ''advancement'') RESULT_ADVANCEMENTS result_error) (\<lambda>_.
     bindE (as_dict (get r ''observation'') result_error) (\<lambda>obs.
     bindE (raise_if (\<not> keys_are obs [''health'', ''freshness'']) result_error) (\<lambda>_.
     bindE (known_string (get obs ''health'') [''healthy'', ''unhealthy'', ''unknown'']
        result_error) (\<lambda>_.
     bindE (known_string (get obs ''freshness'') [''fresh'', ''stale'', ''unknown'']
        result_error) (\<lambda>_.
     bindE (raise_if (\<not> changes_valid (get r ''changes'')) result_error) (\<lambda>_.
     bindE (raise_if (\<not> next_valid (get r ''next'')) result_error) (\<lambda>_.
     bindE (raise_if
        (\<not> list_all (\<lambda>n. has r n \<longrightarrow> py_eq (get r n) (get c n))
            [''plan_id'', ''approval_request_id'', ''run_id''])
        (JournalError ''operation journal result coordinates are invalid'')) (\<lambda>_.
     bindE (raise_if (has r ''required_scope'' \<and> \<not> is_text (get r ''required_scope'')) result_error) (\<lambda>_.
     raise_if (has r ''destructive'' \<and> \<not> (case get r ''destructive'' of JBool _ \<Rightarrow> True | _ \<Rightarrow> False))
       result_error)))))))))))))"

section \<open>The journal\<close>

definition target_valid :: "dict \<Rightarrow> bool" where
  "target_valid t \<longleftrightarrow>
     keys_are t [''endpoint_sha256'', ''workspace_id''] \<and>
     is_sha256 (get t ''endpoint_sha256'') \<and> is_text (get t ''workspace_id'')"

definition desired_valid :: "dict \<Rightarrow> bool" where
  "desired_valid d \<longleftrightarrow>
     keys_are d [''path'', ''size'', ''sha256''] \<and> is_absolute_path (get d ''path'') \<and>
     int_at_least 0 (get d ''size'') \<and>
     (case get d ''size'' of JInt i \<Rightarrow> i \<le> 65536 | _ \<Rightarrow> False) \<and>
     is_sha256 (get d ''sha256'')"

definition coordinate_valid :: "string \<times> json \<Rightarrow> bool" where
  "coordinate_valid kv = (case kv of (k, v) \<Rightarrow>
     if k \<in> set INTEGER_COORDINATES then int_at_least 0 v else is_text v)"

definition coordinates_error :: client_exn where
  "coordinates_error = JournalError ''operation journal coordinates are invalid''"

definition phase_coordinates_error :: client_exn where
  "phase_coordinates_error = JournalError ''operation journal phase coordinates are invalid''"

text \<open>The coordinates a phase needs, and the relations it promises between them.\<close>

definition validate_phase :: "string \<Rightarrow> dict \<Rightarrow> client_exn + unit" where
  "validate_phase phase c =
     bindE (raise_if (phase = ''planning'' \<and> c \<noteq> []) phase_coordinates_error) (\<lambda>_.
     bindE (raise_if (phase \<notin> {''planning'', ''attention-required''} \<and> \<not> has c ''plan_id'')
        phase_coordinates_error) (\<lambda>_.
     bindE (raise_if
        (phase \<in> {''no-changes'', ''approved'', ''admitted'', ''claimed'', ''started'',
           ''executing'', ''executed'', ''advanced'', ''converged''} \<and>
         \<not> has_keys c PLAN_COORDINATES) phase_coordinates_error) (\<lambda>_.
     bindE (raise_if (\<not> has_keys c (table required_by_phase phase)) phase_coordinates_error) (\<lambda>_.
     bindE (raise_if
        (phase \<in> {''executed'', ''advanced'', ''converged''} \<and>
         (get c ''run_status'' \<noteq> JStr ''succeeded'' \<or>
          get c ''coordinator_status'' \<noteq> JStr ''completed''))
        (JournalError ''operation journal terminal coordinates are invalid'')) (\<lambda>_.
     bindE (raise_if (phase = ''started'' \<and> get c ''run_status'' \<noteq> JStr ''running'')
        (JournalError ''operation journal run coordinates are invalid'')) (\<lambda>_.
     bindE (raise_if
        (phase = ''executing'' \<and>
         (get c ''run_status'' \<noteq> JStr ''running'' \<or>
          get c ''coordinator_status'' \<noteq> JStr ''progressed''))
        (JournalError ''operation journal run coordinates are invalid'')) (\<lambda>_.
     raise_if
       (phase \<in> {''advanced'', ''converged''} \<and>
        (\<not> py_eq (get c ''advanced_graph_id'') (get c ''desired_graph_id'') \<or>
         \<not> py_eq (get c ''advanced_projection_id'') (get c ''desired_realized_projection_id'') \<or>
         \<not> py_eq (get c ''advanced_revision'') (get c ''desired_graph_revision'')))
       (JournalError ''operation journal advancement coordinates are invalid''))))))))"

definition history_error :: client_exn where
  "history_error = JournalError ''operation journal request history is invalid''"

definition validate_record :: "json \<Rightarrow> client_exn + unit" where
  "validate_record record =
     bindE (as_dict record history_error) (\<lambda>r.
     bindE (raise_if
        (\<not> keys_are r [''route_id'', ''idempotency_key'', ''body_sha256'', ''response''])
        history_error) (\<lambda>_.
     bindE (known_string (get r ''route_id'') (keys MUTATION_ROLES) history_error) (\<lambda>_.
     raise_if
       (\<not> is_uuid4 (get r ''idempotency_key'') \<or> \<not> is_sha256 (get r ''body_sha256'') \<or>
        \<not> (case get r ''response'' of JObj _ \<Rightarrow> True | _ \<Rightarrow> False)) history_error)))"

definition validate_history :: "json \<Rightarrow> client_exn + unit" where
  "validate_history history =
     (case history of
        JArr rs \<Rightarrow>
          if MAXIMUM_REQUEST_RECORDS < length rs
          then Inl (JournalError ''operation journal request budget is exhausted'')
          else bindE (mapE validate_record rs) (\<lambda>_. Inr ())
      | _ \<Rightarrow> Inl (JournalError ''operation journal request budget is exhausted''))"

definition validate_journal :: "json \<Rightarrow> string \<Rightarrow> client_exn + unit" where
  "validate_journal value operation_ref =
     bindE (as_dict value (JournalError ''operation journal is invalid'')) (\<lambda>j.
     bindE (raise_if (\<not> keys_are j JOURNAL_KEYS) (JournalError ''operation journal is invalid'')) (\<lambda>_.
     bindE (raise_if
        (get j ''schema'' \<noteq> JStr JOURNAL_SCHEMA \<or> get j ''operation_ref'' \<noteq> JStr operation_ref)
        (JournalError ''operation journal identity is invalid'')) (\<lambda>_.
     bindE (as_dict (get j ''target'') (JournalError ''operation journal target is invalid'')) (\<lambda>target.
     bindE (raise_if (\<not> target_valid target)
        (JournalError ''operation journal target is invalid'')) (\<lambda>_.
     bindE (as_dict (get j ''desired'')
        (JournalError ''operation journal desired reference is invalid'')) (\<lambda>desired.
     bindE (raise_if (\<not> desired_valid desired)
        (JournalError ''operation journal desired reference is invalid'')) (\<lambda>_.
     bindE (known_string (get j ''phase'') PHASES
        (JournalError ''operation journal phase is invalid'')) (\<lambda>phase.
     bindE (as_dict (get j ''coordinates'') coordinates_error) (\<lambda>c.
     bindE (raise_if (\<not> keys_within c COORDINATE_KEYS) coordinates_error) (\<lambda>_.
     bindE (raise_if (\<not> list_all coordinate_valid c) coordinates_error) (\<lambda>_.
     bindE (validate_phase phase c) (\<lambda>_.
     bindE (if get j ''pending_request'' = JNull then Inr ()
            else validate_pending (get j ''pending_request'') phase target desired c) (\<lambda>_.
     bindE (validate_history (get j ''request_history'')) (\<lambda>_.
     if get j ''last_result'' = JNull then Inr ()
     else validate_result (get j ''last_result'') operation_ref target c))))))))))))))"

end
