(* ===== verification/ClientValues.thy ===== *)
theory ClientValues
  imports Journal
begin

text \<open>
  The pure half of \<open>client/workflow.py\<close>: the result record, the readers of public JSON
  (\<open>_text\<close>, \<open>_integer\<close>, \<open>_mapping\<close>, ...), the projection of a response onto the
  journal's coordinates, the phase after a response and the check that a response is bound to its
  request.
\<close>

definition MAXIMUM_DESIRED_BYTES :: nat where "MAXIMUM_DESIRED_BYTES = 65536"
definition MAXIMUM_PUBLIC_PAGES :: nat where "MAXIMUM_PUBLIC_PAGES = 16"
definition MAXIMUM_PAGE_ITEMS :: nat where "MAXIMUM_PAGE_ITEMS = 100"
definition MAXIMUM_CURSOR_BYTES :: nat where "MAXIMUM_CURSOR_BYTES = 16384"

definition ATTENTION_STATUSES :: "string list" where
  "ATTENTION_STATUSES =
     [''blocked'', ''failed'', ''unsupported'', ''uncertain'', ''in-flight'']"

section \<open>Readers of public JSON\<close>

definition item :: "dict \<Rightarrow> string \<Rightarrow> client_exn + json" where
  "item d k = (case map_of d k of None \<Rightarrow> Inl PyKeyError | Some v \<Rightarrow> Inr v)"

text \<open>
  \<open>_text_coordinate\<close>: the byte bound is checked on \<open>value.encode("utf-8")\<close>, which raises
  \<open>UnicodeEncodeError\<close> on a lone surrogate.
\<close>

fun text_coordinate :: "json \<Rightarrow> client_exn + string" where
  "text_coordinate (JStr s) =
     (if s = [] then Inl (ClientInputError ''public coordinate is invalid'')
      else case utf8_encode s of
        None \<Rightarrow> Inl PyUnicodeEncodeError
      | Some b \<Rightarrow>
          if 512 < length b then Inl (ClientInputError ''public coordinate is invalid'') else Inr s)"
| "text_coordinate _ = Inl (ClientInputError ''public coordinate is invalid'')"

definition text_of :: "dict \<Rightarrow> string \<Rightarrow> client_exn + string" where
  "text_of d k = text_coordinate (get d k)"

definition public_error :: "string \<Rightarrow> client_exn" where
  "public_error name = ClientInputError (''public '' @ name @ '' is invalid'')"

definition mapping :: "dict \<Rightarrow> string \<Rightarrow> client_exn + dict" where
  "mapping d k = as_dict (get d k) (public_error k)"

definition integer_of :: "dict \<Rightarrow> string \<Rightarrow> int \<Rightarrow> client_exn + int" where
  "integer_of d k m =
     (case get d k of JInt i \<Rightarrow> if i < m then Inl (public_error k) else Inr i
      | _ \<Rightarrow> Inl (public_error k))"

definition boolean_of :: "dict \<Rightarrow> string \<Rightarrow> client_exn + bool" where
  "boolean_of d k = (case get d k of JBool b \<Rightarrow> Inr b | _ \<Rightarrow> Inl (public_error k))"

definition bounded_text :: "string \<Rightarrow> string \<Rightarrow> nat \<Rightarrow> client_exn + string" where
  "bounded_text v name m =
     (if v = [] then Inl (ClientInputError (name @ '' is invalid''))
      else case utf8_encode v of
        None \<Rightarrow> Inl PyUnicodeEncodeError
      | Some b \<Rightarrow> if m < length b then Inl (ClientInputError (name @ '' is invalid'')) else Inr v)"

definition canonical_digest ::
  "(pyfloat \<Rightarrow> string) \<Rightarrow> (string \<Rightarrow> string) \<Rightarrow> dict \<Rightarrow> client_exn + string" where
  "canonical_digest fr sha d =
     (case json_dumps fr (JObj d) of
        None \<Rightarrow> Inl (ClientInputError ''public request is invalid'')
      | Some raw \<Rightarrow>
          if MAXIMUM_DESIRED_BYTES < length raw
          then Inl (ClientInputError ''public request exceeds its contract'')
          else Inr (sha raw))"

lemma text_coordinate_Inr [simp]:
  "text_coordinate v = Inr s \<longleftrightarrow> v = JStr s \<and> is_text (JStr s)"
  by (cases v) (auto simp: utf8_encode_def)

lemma text_of_Inr [simp]: "text_of d k = Inr s \<longleftrightarrow> get d k = JStr s \<and> is_text (JStr s)"
  by (simp add: text_of_def)

lemma mapping_Inr [simp]: "mapping d k = Inr e \<longleftrightarrow> get d k = JObj e"
  by (simp add: mapping_def)

lemma integer_of_Inr [simp]: "integer_of d k m = Inr i \<longleftrightarrow> get d k = JInt i \<and> m \<le> i"
  by (auto simp: integer_of_def split: json.splits)

lemma boolean_of_Inr [simp]: "boolean_of d k = Inr b \<longleftrightarrow> get d k = JBool b"
  by (auto simp: boolean_of_def split: json.splits)

section \<open>The journal dictionary\<close>

definition coordinates :: "dict \<Rightarrow> client_exn + dict" where
  "coordinates j = as_dict (get j ''coordinates'') coordinates_error"

text \<open>
  The dictionary \<open>_coordinates(journal)\<close> returns is the one inside the journal, so every
  assignment to it is an assignment to the journal.
\<close>

definition put_coordinates :: "dict \<Rightarrow> dict \<Rightarrow> dict" where
  "put_coordinates c j = AList.update ''coordinates'' (JObj c) j"

definition set_coordinate :: "string \<Rightarrow> json \<Rightarrow> dict \<Rightarrow> dict" where
  "set_coordinate k v j =
     (case get j ''coordinates'' of JObj c \<Rightarrow> put_coordinates (AList.update k v c) j | _ \<Rightarrow> j)"

lemma coordinates_Inr [simp]: "coordinates j = Inr c \<longleftrightarrow> get j ''coordinates'' = JObj c"
  by (simp add: coordinates_def)

definition new_journal :: "string \<Rightarrow> string \<Rightarrow> string \<Rightarrow> dict \<Rightarrow> dict" where
  "new_journal target_digest workspace operation_ref desired =
     [(''schema'', JStr JOURNAL_SCHEMA),
      (''operation_ref'', JStr operation_ref),
      (''target'', JObj [(''endpoint_sha256'', JStr target_digest), (''workspace_id'', JStr workspace)]),
      (''desired'', JObj desired),
      (''phase'', JStr ''planning''),
      (''pending_request'', JNull),
      (''coordinates'', JObj []),
      (''request_history'', JArr []),
      (''last_result'', JNull)]"

definition next_read :: "dict \<Rightarrow> client_exn + string" where
  "next_read j =
     bindE (coordinates j) (\<lambda>c.
       if has c ''run_id'' then Inr ''read.run-events''
       else if has c ''plan_id'' then Inr ''read.plan-detail''
       else Inr ''read.workspace'')"

section \<open>The result\<close>

record client_result =
  r_status :: string
  r_operation_ref :: string
  r_workspace_id :: string
  r_plan_id :: "string option"
  r_approval_request_id :: "string option"
  r_run_id :: "string option"
  r_execution :: string
  r_advancement :: string
  r_health :: string
  r_freshness :: string
  r_required_scope :: "string option"
  r_destructive :: "bool option"
  r_changes :: "json list"
  r_next_command :: "string option"
  r_next_public_read :: "string option"

definition optional_item :: "string \<Rightarrow> json option \<Rightarrow> dict" where
  "optional_item k v = (case v of None \<Rightarrow> [] | Some x \<Rightarrow> [(k, x)])"

definition descriptor :: "client_result \<Rightarrow> dict" where
  "descriptor r =
     [(''schema'', JStr RESULT_SCHEMA),
      (''status'', JStr (r_status r)),
      (''operation_ref'', JStr (r_operation_ref r)),
      (''workspace_id'', JStr (r_workspace_id r)),
      (''execution'', JStr (r_execution r)),
      (''advancement'', JStr (r_advancement r)),
      (''observation'', JObj [(''health'', JStr (r_health r)), (''freshness'', JStr (r_freshness r))]),
      (''changes'', JArr (r_changes r)),
      (''next'', JObj
        (optional_item ''command'' (map_option JStr (r_next_command r)) @
         optional_item ''public_read'' (map_option JStr (r_next_public_read r))))] @
     optional_item ''plan_id'' (map_option JStr (r_plan_id r)) @
     optional_item ''approval_request_id'' (map_option JStr (r_approval_request_id r)) @
     optional_item ''run_id'' (map_option JStr (r_run_id r)) @
     optional_item ''required_scope'' (map_option JStr (r_required_scope r)) @
     optional_item ''destructive'' (map_option JBool (r_destructive r))"

definition exit_code :: "client_result \<Rightarrow> int" where
  "exit_code r = (if r_status r = ''attention-required'' then 4 else 0)"

fun string_or_none :: "json \<Rightarrow> string option" where
  "string_or_none (JStr s) = Some s"
| "string_or_none _ = None"

text \<open>\<open>_status_from_journal\<close>.\<close>

definition journal_status :: "bool \<Rightarrow> string \<Rightarrow> string" where
  "journal_status attention phase =
     (if attention then ''attention-required''
      else if phase = ''no-changes'' then ''no-changes''
      else if phase = ''converged'' then ''converged''
      else if phase = ''attention-required'' then ''attention-required''
      else if phase \<in> {''claimed'', ''started'', ''executing'', ''executed'', ''advanced''}
      then ''running''
      else ''planned'')"

definition journal_execution :: "string \<Rightarrow> string" where
  "journal_execution phase =
     (if phase \<in> {''executed'', ''advanced'', ''converged''} then ''succeeded''
      else if phase \<in> {''claimed'', ''started'', ''executing''} then ''running''
      else ''not-started'')"

definition journal_advancement :: "string \<Rightarrow> string" where
  "journal_advancement phase =
     (if phase \<in> {''advanced'', ''converged''} then ''advanced''
      else if phase = ''no-changes'' then ''unchanged''
      else ''not-attempted'')"

definition status_from_journal ::
  "string \<Rightarrow> dict \<Rightarrow> bool \<Rightarrow> string option \<Rightarrow> string option \<Rightarrow> string option \<Rightarrow> json list \<Rightarrow>
   dict option \<Rightarrow> client_exn + client_result" where
  "status_from_journal workspace j attention execution advancement next changes approval =
     bindE (coordinates j) (\<lambda>c.
     bindE (text_of j ''phase'') (\<lambda>phase.
     bindE (case approval of None \<Rightarrow> Inr None
            | Some a \<Rightarrow> bindE (text_of a ''required_scope'') (\<lambda>s. Inr (Some s))) (\<lambda>scope.
     bindE (case approval of None \<Rightarrow> Inr None
            | Some a \<Rightarrow> bindE (boolean_of a ''destructive'') (\<lambda>b. Inr (Some b))) (\<lambda>destructive.
     bindE (text_of j ''operation_ref'') (\<lambda>operation_ref.
     Inr \<lparr>r_status = journal_status attention phase,
          r_operation_ref = operation_ref,
          r_workspace_id = workspace,
          r_plan_id = string_or_none (get c ''plan_id''),
          r_approval_request_id = string_or_none (get c ''approval_request_id''),
          r_run_id = string_or_none (get c ''run_id''),
          r_execution = (case execution of None \<Rightarrow> journal_execution phase | Some e \<Rightarrow> e),
          r_advancement = (case advancement of None \<Rightarrow> journal_advancement phase | Some a \<Rightarrow> a),
          r_health = ''unknown'',
          r_freshness = ''unknown'',
          r_required_scope = scope,
          r_destructive = destructive,
          r_changes = changes,
          r_next_command =
            (if journal_status attention phase = ''planned'' then Some ''cpk apply'' else None),
          r_next_public_read = next\<rparr>)))))"

section \<open>The plan\<close>

definition PROJECTED_TARGET :: "string list" where
  "PROJECTED_TARGET = [''kind'', ''node_id'', ''runtime_id'', ''edge_id'']"

definition plan_change :: "json \<Rightarrow> client_exn + json" where
  "plan_change activity =
     bindE (as_dict activity (ClientInputError ''public plan activities are invalid'')) (\<lambda>a.
     bindE (mapping a ''operation'') (\<lambda>operation.
     bindE (mapping operation ''target'') (\<lambda>target.
     bindE (mapE (\<lambda>(k, v). bindE (text_coordinate v) (\<lambda>s. Inr (k, JStr s)))
              (filter (\<lambda>(k, v). k \<in> set PROJECTED_TARGET) target)) (\<lambda>projected.
     bindE (raise_if (\<not> has projected ''kind'')
              (ClientInputError ''public plan activity target is invalid'')) (\<lambda>_.
     bindE (text_of a ''activity_id'') (\<lambda>activity_id.
     bindE (text_of operation ''kind'') (\<lambda>kind.
     Inr (JObj [(''activity_id'', JStr activity_id), (''operation'', JStr kind),
                (''target'', JObj projected)]))))))))"

definition plan_changes :: "dict \<Rightarrow> client_exn + json list" where
  "plan_changes plan =
     bindE (mapping plan ''payload'') (\<lambda>payload.
       case (case map_of payload ''activities'' of None \<Rightarrow> JArr [] | Some v \<Rightarrow> v) of
         JArr activities \<Rightarrow> mapE plan_change activities
       | _ \<Rightarrow> Inl (ClientInputError ''public plan activities are invalid''))"

definition plan_result ::
  "dict \<Rightarrow> dict \<Rightarrow> dict option \<Rightarrow> string \<Rightarrow> json list \<Rightarrow> client_exn + client_result" where
  "plan_result j plan approval preparation changes =
     bindE (case approval of None \<Rightarrow> Inr None
            | Some a \<Rightarrow> bindE (text_of a ''required_scope'') (\<lambda>s. Inr (Some s))) (\<lambda>scope.
     bindE (case approval of None \<Rightarrow> Inr None
            | Some a \<Rightarrow> bindE (boolean_of a ''destructive'') (\<lambda>b. Inr (Some b))) (\<lambda>destructive.
     bindE (text_of j ''operation_ref'') (\<lambda>operation_ref.
     bindE (mapping j ''target'') (\<lambda>target.
     bindE (text_of target ''workspace_id'') (\<lambda>workspace.
     bindE (text_of plan ''plan_id'') (\<lambda>plan_id.
     bindE (case approval of None \<Rightarrow> Inr None
            | Some a \<Rightarrow> bindE (text_of a ''request_id'') (\<lambda>s. Inr (Some s))) (\<lambda>request_id.
     Inr \<lparr>r_status =
            (if preparation = ''no-changes'' then ''no-changes''
             else if preparation = ''review-blocked'' then ''attention-required''
             else ''planned''),
          r_operation_ref = operation_ref,
          r_workspace_id = workspace,
          r_plan_id = Some plan_id,
          r_approval_request_id = request_id,
          r_run_id = None,
          r_execution = ''not-started'',
          r_advancement = (if preparation = ''no-changes'' then ''unchanged'' else ''not-attempted''),
          r_health = ''unknown'',
          r_freshness = ''unknown'',
          r_required_scope = scope,
          r_destructive = destructive,
          r_changes = changes,
          r_next_command = (if preparation = ''approval-required'' then Some ''cpk apply'' else None),
          r_next_public_read = Some ''read.plan-detail''\<rparr>)))))))"

text \<open>\<open>_pointer\<close>: the graph pointer of a workspace, \<open>None\<close> where it has none.\<close>

definition pointer :: "dict \<Rightarrow> string \<Rightarrow> client_exn + dict option" where
  "pointer workspace prefix =
     (if get workspace (prefix @ ''_graph_id'') = JNull then
        (if get workspace (prefix @ ''_realized_projection_id'') \<noteq> JNull
         then Inl (ClientInputError ''workspace graph pointer is invalid'')
         else Inr None)
      else
        bindE (text_coordinate (get workspace (prefix @ ''_graph_id''))) (\<lambda>g.
        bindE (text_coordinate (get workspace (prefix @ ''_realized_projection_id''))) (\<lambda>p.
        Inr (Some [(''authored_graph_id'', JStr g), (''realized_projection_id'', JStr p)]))))"

text \<open>\<open>_validate_plan\<close> and \<open>_validate_approval\<close>.\<close>

definition validate_plan :: "dict \<Rightarrow> dict \<Rightarrow> client_exn + unit" where
  "validate_plan j plan =
     bindE (coordinates j) (\<lambda>c.
       raise_if (\<not> list_all (\<lambda>n. has c n \<longrightarrow> py_eq (get plan n) (get c n)) PLAN_COORDINATES)
         (ClientInputError ''prepared plan coordinates are stale''))"

definition validate_approval :: "dict \<Rightarrow> string \<Rightarrow> dict \<Rightarrow> client_exn + unit" where
  "validate_approval plan approval_id approval =
     bindE (raise_if
        (get approval ''request_id'' \<noteq> JStr approval_id \<or>
         \<not> py_eq (get approval ''session_id'') (get plan ''session_id''))
        (ClientInputError ''prepared approval coordinates are stale'')) (\<lambda>_.
     bindE (known_string (get approval ''required_scope'')
              [''plan:approve'', ''plan:approve-destructive'']
              (ClientInputError ''prepared approval coordinates are stale'')) (\<lambda>scope.
     raise_if (get approval ''destructive'' \<noteq> JBool (scope = ''plan:approve-destructive''))
       (ClientInputError ''prepared approval coordinates are stale'')))"

section \<open>Responses\<close>

definition response_coordinates :: "string \<Rightarrow> dict \<Rightarrow> client_exn + dict" where
  "response_coordinates route r =
     (if route = ''command.deployment.prepare'' then
        bindE (text_of r ''plan_id'') (\<lambda>p.
        if has r ''approval_request_id'' then
          bindE (text_of r ''approval_request_id'') (\<lambda>a.
          Inr [(''plan_id'', JStr p), (''approval_request_id'', JStr a)])
        else Inr [(''plan_id'', JStr p)])
      else if route = ''command.approval.decide'' then
        bindE (text_of r ''state'') (\<lambda>s. Inr [(''approval_state'', JStr s)])
      else if route = ''command.deployment.admit'' then
        bindE (text_of r ''execution_request_id'') (\<lambda>e. Inr [(''execution_request_id'', JStr e)])
      else if route = ''command.run.claim'' then
        bindE (text_of r ''run_id'') (\<lambda>run.
        bindE (integer_of r ''claim_generation'' 1) (\<lambda>g.
        Inr [(''run_id'', JStr run), (''claim_generation'', JInt g)]))
      else if route = ''command.run.start'' then
        bindE (text_of r ''run_status'') (\<lambda>s. Inr [(''run_status'', JStr s)])
      else if route = ''command.deployment.execute'' then
        bindE (text_of r ''run_id'') (\<lambda>run.
        bindE (text_of r ''run_status'') (\<lambda>rs.
        bindE (text_of r ''coordinator_status'') (\<lambda>cs.
        bindE (integer_of r ''effects_attempted'' 0) (\<lambda>n.
        bindE (if get r ''activity_id'' \<noteq> JNull
               then bindE (text_of r ''activity_id'') (\<lambda>a. Inr [(''activity_id'', JStr a)])
               else Inr []) (\<lambda>act.
        Inr ([(''run_id'', JStr run), (''run_status'', JStr rs), (''coordinator_status'', JStr cs),
              (''effects_attempted'', JInt n)] @ act))))))
      else if route = ''command.graph.advance-current'' then
        bindE (text_of r ''to_graph_id'') (\<lambda>g.
        bindE (text_of r ''to_realized_projection_id'') (\<lambda>p.
        bindE (integer_of r ''desired_graph_revision'' 0) (\<lambda>n.
        Inr [(''advanced_graph_id'', JStr g), (''advanced_projection_id'', JStr p),
             (''advanced_revision'', JInt n)])))
      else Inl (ClientInputError ''public mutation route is unsupported''))"

definition phase_after :: "string \<Rightarrow> dict \<Rightarrow> client_exn + string" where
  "phase_after route r =
     (if route = ''command.deployment.prepare'' then Inr ''prepared''
      else if route = ''command.approval.decide'' then Inr ''approved''
      else if route = ''command.deployment.admit'' then Inr ''admitted''
      else if route = ''command.run.claim'' then Inr ''claimed''
      else if route = ''command.run.start'' then Inr ''started''
      else if route = ''command.deployment.execute'' then
        (if get r ''coordinator_status'' = JStr ''completed'' then Inr ''executed''
         else if get r ''coordinator_status'' = JStr ''progressed'' then Inr ''executing''
         else Inr ''attention-required'')
      else if route = ''command.graph.advance-current'' then Inr ''advanced''
      else Inl (ClientInputError ''public mutation route is unsupported''))"

text \<open>\<open>effects <= body.get("max_effects", -1)\<close>.\<close>

fun int_le_float :: "int \<Rightarrow> pyfloat \<Rightarrow> bool" where
  "int_le_float i (Dyadic m e) = (if 0 \<le> e then i \<le> m * 2 ^ nat e else i * 2 ^ nat (- e) \<le> m)"
| "int_le_float i NegZero = (i \<le> 0)"
| "int_le_float i PosInf = True"
| "int_le_float i NegInf = False"
| "int_le_float i NaN = False"

definition int_le :: "int \<Rightarrow> json \<Rightarrow> client_exn + bool" where
  "int_le i v = (case as_number v of None \<Rightarrow> Inl PyTypeError | Some f \<Rightarrow> Inr (int_le_float i f))"

definition execute_outcome_bound :: "dict \<Rightarrow> client_exn + bool" where
  "execute_outcome_bound r =
     (if get r ''coordinator_status'' = JStr ''completed'' \<and>
         get r ''run_status'' = JStr ''succeeded'' \<and> get r ''activity_id'' = JNull
      then Inr True
      else
        bindE (member_of (get r ''coordinator_status'') [''progressed'', ''in-flight'']) (\<lambda>ongoing.
        if ongoing \<and> get r ''run_status'' = JStr ''running'' \<and> is_text (get r ''activity_id'')
        then Inr True
        else if get r ''coordinator_status'' = JStr ''failed'' \<and> get r ''run_status'' = JStr ''failed''
        then Inr True
        else if get r ''coordinator_status'' = JStr ''unsupported'' \<and>
                get r ''run_status'' = JStr ''failed'' \<and>
                get r ''effects_attempted'' = JInt 1 \<and> is_text (get r ''activity_id'')
        then Inr True
        else if get r ''coordinator_status'' \<in> {JStr ''uncertain'', JStr ''blocked''}
        then member_of (get r ''run_status'') [''running'', ''failed'']
        else Inr False))"

definition response_is_bound ::
  "string \<Rightarrow> dict \<Rightarrow> dict \<Rightarrow> dict \<Rightarrow> dict \<Rightarrow> string \<Rightarrow> client_exn + bool" where
  "response_is_bound route r pending body c workspace =
     (case get pending ''path_parameters'' of
        JObj path \<Rightarrow>
          (if route = ''command.deployment.prepare'' then
             Inr (get r ''workspace_id'' = JStr workspace)
           else if route = ''command.approval.decide'' then
             Inr (py_eq (get r ''request_id'') (get path ''approval_id'') \<and>
                  get r ''state'' = JStr ''approved'')
           else if route = ''command.deployment.admit'' then
             Inr (is_text (get r ''execution_request_id''))
           else if route = ''command.run.claim'' then
             Inr (py_eq (get r ''execution_request_id'') (get path ''run_id'') \<and>
                  is_text (get r ''run_id'') \<and> get r ''run_status'' = JStr ''claimed'' \<and>
                  int_at_least 1 (get r ''claim_generation''))
           else if route = ''command.run.start'' then
             Inr (py_eq (get r ''execution_request_id'') (get c ''execution_request_id'') \<and>
                  py_eq (get r ''run_id'') (get path ''run_id'') \<and>
                  get r ''run_status'' = JStr ''running'' \<and>
                  py_eq (get r ''claim_generation'') (get body ''claim_generation''))
           else if route = ''command.deployment.execute'' then
             (case get r ''effects_attempted'' of
                JInt effects \<Rightarrow>
                  if py_eq (get r ''run_id'') (get path ''run_id'') \<and> 0 \<le> effects then
                    bindE (int_le effects
                             (case map_of body ''max_effects'' of None \<Rightarrow> JInt (- 1) | Some v \<Rightarrow> v))
                      (\<lambda>le. if le then execute_outcome_bound r else Inr False)
                  else Inr False
              | _ \<Rightarrow> Inr False)
           else if route = ''command.graph.advance-current'' then
             Inr (py_eq (get r ''from_graph_id'') (get body ''expected_current_graph_id'') \<and>
                  py_eq (get r ''from_realized_projection_id'')
                    (get body ''expected_current_realized_projection_id'') \<and>
                  py_eq (get r ''to_graph_id'') (get body ''desired_graph_id'') \<and>
                  py_eq (get r ''to_realized_projection_id'')
                    (get body ''desired_realized_projection_id'') \<and>
                  py_eq (get r ''desired_graph_revision'')
                    (get body ''expected_desired_graph_revision''))
           else Inr False)
      | _ \<Rightarrow> Inr False)"

end
