(* ===== verification/Workflow.thy ===== *)
theory Workflow
  imports ClientValues
begin

text \<open>
  \<open>TopologyClient\<close> of \<open>client/workflow.py\<close>: planning, applying and observing a topology
  through the public routes.

  The collaborators the constructor injects are fields of \<open>client_env\<close>: the transport answers a
  request from the requests sent before it (any server, any network), the journal store is a record of
  operations on a state of its own, the identity factory is a sequence.  The state of one invocation
  is the journal dictionary the method holds, the store, and the trace of what the client has done:
  requests sent, journals written and journals loaded, in order.
\<close>

section \<open>Environment and state\<close>

record request =
  q_route :: string
  q_path :: "(string \<times> string) list"
  q_payload :: dict
  q_role :: string

datatype event =
    Sent request
  | Wrote string dict
  | Loaded string dict

text \<open>A file as \<open>_read_desired\<close> sees it: its kind, its reported size and its bytes.\<close>

record desired_file =
  f_regular :: bool
  f_size :: nat
  f_bytes :: string

record 'st client_env =
  workspace_id :: string
  target_digest :: string
  transport :: "request list \<Rightarrow> request \<Rightarrow> client_exn + dict"
  identity_factory :: "nat \<Rightarrow> string"
  store_read :: "string \<Rightarrow> 'st \<Rightarrow> (client_exn + dict) \<times> 'st"
  store_create :: "string \<Rightarrow> dict \<Rightarrow> 'st \<Rightarrow> (client_exn + unit) \<times> 'st"
  store_write :: "string \<Rightarrow> dict \<Rightarrow> 'st \<Rightarrow> (client_exn + unit) \<times> 'st"
  store_lock :: "string \<Rightarrow> 'st \<Rightarrow> (client_exn + unit) \<times> 'st"
  store_unlock :: "string \<Rightarrow> 'st \<Rightarrow> (client_exn + unit) \<times> 'st"
  absolute_path :: "string \<Rightarrow> string"
  files :: "string \<Rightarrow> desired_file option"
  json_loads :: "string \<Rightarrow> json option"
  sha256 :: "string \<Rightarrow> string"
  float_repr :: "pyfloat \<Rightarrow> string"

record 'st client_state =
  journal :: dict
  store :: 'st
  trace :: "event list"
  identities :: nat

type_synonym ('st, 'a) client = "('st client_state, client_exn, 'a) action"

text \<open>A helper that returns either a value or the result its caller has to return at once.\<close>

datatype 'a flow = Return client_result | Next 'a

definition bindF ::
  "('s, 'e, 'a flow) action \<Rightarrow> ('a \<Rightarrow> ('s, 'e, 'b flow) action) \<Rightarrow> ('s, 'e, 'b flow) action" where
  "bindF m k = bindA m (\<lambda>f. case f of Return r \<Rightarrow> ret (Return r) | Next x \<Rightarrow> k x)"

definition next_value :: "('s, 'e, 'a) action \<Rightarrow> ('s, 'e, 'a flow) action" where
  "next_value m = bindA m (\<lambda>x. ret (Next x))"

definition return_value :: "('s, 'e, client_result) action \<Rightarrow> ('s, 'e, 'a flow) action" where
  "return_value m = bindA m (\<lambda>r. ret (Return r))"

fun requests :: "event list \<Rightarrow> request list" where
  "requests [] = []"
| "requests (Sent q # es) = q # requests es"
| "requests (_ # es) = requests es"

section \<open>Primitive steps\<close>

definition log_event :: "event \<Rightarrow> 'st client_state \<Rightarrow> 'st client_state" where
  "log_event e s = s\<lparr>trace := trace s @ [e]\<rparr>"

definition call :: "'st client_env \<Rightarrow> request \<Rightarrow> ('st, dict) client" where
  "call env q = (\<lambda>s. (transport env (requests (trace s)) q, log_event (Sent q) s))"

definition put :: "string \<Rightarrow> json \<Rightarrow> ('st, unit) client" where
  "put k v = modA (\<lambda>s. s\<lparr>journal := AList.update k v (journal s)\<rparr>)"

definition write_with ::
  "(string \<Rightarrow> dict \<Rightarrow> 'st \<Rightarrow> (client_exn + unit) \<times> 'st) \<Rightarrow> string \<Rightarrow> ('st, unit) client" where
  "write_with w operation_ref =
     (\<lambda>s. case w operation_ref (journal s) (store s) of
        (Inl e, st) \<Rightarrow> (Inl e, s\<lparr>store := st\<rparr>)
      | (Inr _, st) \<Rightarrow> (Inr (), log_event (Wrote operation_ref (journal s)) (s\<lparr>store := st\<rparr>)))"

text \<open>\<open>self.journal.write(_text(journal, "operation_ref"), journal)\<close>.\<close>

definition write_journal :: "'st client_env \<Rightarrow> ('st, unit) client" where
  "write_journal env =
     bindA (getA journal) (\<lambda>j.
     bindA (liftE (text_of j ''operation_ref'')) (\<lambda>op.
     write_with (store_write env) op))"

definition on_store :: "('st \<Rightarrow> (client_exn + 'a) \<times> 'st) \<Rightarrow> ('st, 'a) client" where
  "on_store f = (\<lambda>s. case f (store s) of (r, st) \<Rightarrow> (r, s\<lparr>store := st\<rparr>))"

text \<open>\<open>with self.journal.mutation_lock(op): body\<close>.\<close>

definition with_lock :: "'st client_env \<Rightarrow> string \<Rightarrow> ('st, 'a) client \<Rightarrow> ('st, 'a) client" where
  "with_lock env op body =
     thenA (on_store (store_lock env op)) (finallyA body (on_store (store_unlock env op)))"

definition new_identity :: "'st client_env \<Rightarrow> ('st, string) client" where
  "new_identity env =
     (\<lambda>s. (canonical_operation_ref (JStr (identity_factory env (identities s))),
           s\<lparr>identities := identities s + 1\<rparr>))"

text \<open>
  \<open>except ClientAuthorizationError: raise / except (ClientInputError, ClientTransportError): h\<close>.
\<close>

definition attempt :: "('s, client_exn, 'a) action \<Rightarrow> ('s, client_exn, 'a) action \<Rightarrow> ('s, client_exn, 'a) action" where
  "attempt m h = tryA m (\<lambda>e. if input_or_transport e then h else raise e)"

section \<open>Reads\<close>

definition read_route ::
  "'st client_env \<Rightarrow> string \<Rightarrow> (string \<times> string) list \<Rightarrow> dict \<Rightarrow> ('st, dict) client" where
  "read_route env route path payload =
     call env \<lparr>q_route = route, q_path = path, q_payload = payload, q_role = ''operator''\<rparr>"

definition read_workspace :: "'st client_env \<Rightarrow> ('st, dict) client" where
  "read_workspace env =
     bindA (read_route env ''read.workspace'' [(''workspace_id'', workspace_id env)] [])
       (\<lambda>v. liftE (mapping v ''workspace''))"

definition plan_detail :: "'st client_env \<Rightarrow> string \<Rightarrow> ('st, dict) client" where
  "plan_detail env plan_id =
     bindA (read_route env ''read.plan-detail''
              [(''workspace_id'', workspace_id env), (''plan_id'', plan_id)] [])
       (\<lambda>v. liftE (mapping v ''plan''))"

definition approval_detail :: "'st client_env \<Rightarrow> string \<Rightarrow> ('st, dict) client" where
  "approval_detail env approval_id =
     bindA (read_route env ''read.approval-detail''
              [(''workspace_id'', workspace_id env), (''approval_id'', approval_id)] [])
       (\<lambda>v. liftE (mapping v ''approval''))"

definition current_graph :: "'st client_env \<Rightarrow> ('st, dict) client" where
  "current_graph env = read_route env ''read.current-graph'' [(''workspace_id'', workspace_id env)] []"

text \<open>
  \<open>_page\<close>: the loop over at most \<open>n\<close> more pages.  \<open>seen\<close> holds the printed cursors.
\<close>

fun page_loop ::
  "'st client_env \<Rightarrow> string \<Rightarrow> (string \<times> string) list \<Rightarrow> nat \<Rightarrow> json list \<Rightarrow> dict option \<Rightarrow>
   string list \<Rightarrow> ('st, json list) client" where
  "page_loop env route path 0 items cursor seen =
     raise (ClientInputError ''public history page budget is exhausted'')"
| "page_loop env route path (Suc n) items cursor seen =
     bindA (read_route env route path
              ((''limit'', JInt (int MAXIMUM_PAGE_ITEMS)) #
               (case cursor of None \<Rightarrow> [] | Some c \<Rightarrow> [(''after'', JObj c)]))) (\<lambda>page.
     case get page ''items'' of
       JArr batch \<Rightarrow>
         if MAXIMUM_PAGE_ITEMS < length batch
         then raise (ClientInputError ''public history page is invalid'')
         else
           (case get page ''next_cursor'' of
              JNull \<Rightarrow> ret (items @ batch)
            | JObj c \<Rightarrow>
                (case json_dumps (float_repr env) (JObj c) of
                   None \<Rightarrow> raise (ClientInputError ''public history cursor is invalid'')
                 | Some key \<Rightarrow>
                     if MAXIMUM_CURSOR_BYTES < length key \<or> key \<in> set seen
                     then raise (ClientInputError ''public history cursor is invalid'')
                     else page_loop env route path n (items @ batch) (Some c) (key # seen))
            | _ \<Rightarrow> raise (ClientInputError ''public history cursor is invalid''))
     | _ \<Rightarrow> raise (ClientInputError ''public history page is invalid''))"

definition read_pages :: "'st client_env \<Rightarrow> string \<Rightarrow> (string \<times> string) list \<Rightarrow> ('st, json list) client" where
  "read_pages env route path = page_loop env route path MAXIMUM_PUBLIC_PAGES [] None []"

definition read_desired :: "'st client_env \<Rightarrow> string \<Rightarrow> client_exn + dict \<times> dict" where
  "read_desired env path =
     (let absolute = absolute_path env path in
      case files env absolute of
        None \<Rightarrow> Inl (ClientInputError ''desired graph file is unavailable'')
      | Some f \<Rightarrow>
          if \<not> f_regular f \<or> MAXIMUM_DESIRED_BYTES < f_size f
          then Inl (ClientInputError ''desired graph file is invalid'')
          else
            let raw = take (MAXIMUM_DESIRED_BYTES + 1) (f_bytes f) in
            if MAXIMUM_DESIRED_BYTES < length raw
            then Inl (ClientInputError ''desired graph exceeds the public request bound'')
            else
              (case json_loads env raw of
                 None \<Rightarrow> Inl (ClientInputError ''desired graph document is invalid'')
               | Some (JObj d) \<Rightarrow>
                   Inr ([(''path'', JStr absolute), (''size'', JInt (int (length raw))),
                         (''sha256'', JStr (sha256 env raw))], d)
               | Some _ \<Rightarrow> Inl (ClientInputError ''desired graph document must be an object'')))"

section \<open>Attention\<close>

definition attention ::
  "'st client_env \<Rightarrow> string \<Rightarrow> string \<Rightarrow> string \<Rightarrow> bool \<Rightarrow> ('st, client_result) client" where
  "attention env execution advancement next persist =
     bindA (getA journal) (\<lambda>j.
     bindA (liftE (status_from_journal (workspace_id env) j True (Some execution) (Some advancement)
                     (Some next) [] None)) (\<lambda>result.
     thenA (put ''last_result'' (JObj (descriptor result)))
       (thenA (if persist then write_journal env else ret ())
         (ret result))))"

text \<open>\<open>_attention(journal, ..., next_public_read=_next_read(journal))\<close>.\<close>

definition attention_here ::
  "'st client_env \<Rightarrow> string \<Rightarrow> string \<Rightarrow> bool \<Rightarrow> ('st, client_result) client" where
  "attention_here env execution advancement persist =
     bindA (getA journal) (\<lambda>j.
     bindA (liftE (next_read j)) (\<lambda>next. attention env execution advancement next persist))"

section \<open>Mutations\<close>

text \<open>The unresolved outcome of a mutation, by its route.\<close>

definition unresolved_execution :: "string \<Rightarrow> string" where
  "unresolved_execution route =
     (if route \<in> {''command.run.start'', ''command.deployment.execute''} then ''unverified''
      else ''not-started'')"

definition unresolved_advancement :: "string \<Rightarrow> string" where
  "unresolved_advancement route =
     (if route = ''command.graph.advance-current'' then ''unverified'' else ''not-attempted'')"

text \<open>The arguments of \<open>transport.call\<close> in \<open>_dispatch_pending\<close>.\<close>

definition pending_request :: "dict \<Rightarrow> dict \<Rightarrow> client_exn + request" where
  "pending_request pending body =
     bindE (text_of pending ''route_id'') (\<lambda>route.
     bindE (mapping pending ''path_parameters'') (\<lambda>path.
     bindE (mapE (\<lambda>(k, v). bindE (text_coordinate v) (\<lambda>s. Inr (k, s))) path) (\<lambda>p.
     bindE (text_of pending ''credential_role'') (\<lambda>role.
     Inr \<lparr>q_route = route, q_path = p, q_payload = body, q_role = role\<rparr>))))"

text \<open>Recording an accepted response: history, coordinates, phase, then the write.\<close>

definition record_response :: "'st client_env \<Rightarrow> string \<Rightarrow> dict \<Rightarrow> dict \<Rightarrow> ('st, dict flow) client" where
  "record_response env route pending response =
     bindA (liftE (response_coordinates route response)) (\<lambda>projection.
     bindA (getA journal) (\<lambda>j.
     bindA (liftE (item j ''request_history'')) (\<lambda>history.
     case history of
       JArr rs \<Rightarrow>
         if MAXIMUM_REQUEST_RECORDS \<le> length rs
         then return_value (attention_here env ''not-started'' ''not-attempted'' False)
         else
           bindA (liftE (text_of pending ''idempotency_key'')) (\<lambda>key.
           bindA (liftE (text_of pending ''body_sha256'')) (\<lambda>digest.
           thenA (put ''request_history'' (JArr (rs @
                    [JObj [(''route_id'', JStr route), (''idempotency_key'', JStr key),
                           (''body_sha256'', JStr digest), (''response'', JObj projection)]])))
             (bindA (liftE (coordinates j)) (\<lambda>c.
              thenA (put ''coordinates'' (JObj (dict_update c projection)))
                (thenA (put ''pending_request'' JNull)
                  (bindA (liftE (phase_after route response)) (\<lambda>phase.
                   thenA (put ''phase'' (JStr phase))
                     (thenA (write_journal env) (ret (Next response))))))))))
     | _ \<Rightarrow> return_value (attention_here env ''not-started'' ''not-attempted'' False))))"

definition dispatch_pending :: "'st client_env \<Rightarrow> dict \<Rightarrow> ('st, dict flow) client" where
  "dispatch_pending env body =
     bindA (getA journal) (\<lambda>j.
     bindA (liftE (mapping j ''pending_request'')) (\<lambda>pending.
     bindF
       (tryA (bindA (liftE (pending_request pending body)) (\<lambda>q. next_value (call env q)))
         (\<lambda>e. case e of
            ClientTransportError _ \<Rightarrow>
              bindA (liftE (text_of pending ''route_id'')) (\<lambda>route.
              return_value (attention_here env (unresolved_execution route)
                              (unresolved_advancement route) False))
          | _ \<Rightarrow> raise e)) (\<lambda>response.
     bindA (liftE (text_of pending ''route_id'')) (\<lambda>route.
     bindA (liftE (coordinates j)) (\<lambda>c.
     bindA (liftE (response_is_bound route response pending body c (workspace_id env))) (\<lambda>bound.
     if bound then record_response env route pending response
     else return_value (attention_here env (unresolved_execution route)
                          (unresolved_advancement route) False)))))))"

definition mutate ::
  "'st client_env \<Rightarrow> string \<Rightarrow> (string \<times> string) list \<Rightarrow> dict \<Rightarrow> string \<Rightarrow> dict option \<Rightarrow>
   ('st, dict flow) client" where
  "mutate env route path body role source =
     bindA (getA journal) (\<lambda>j.
     bindA (liftE (item j ''request_history'')) (\<lambda>history.
     if (case history of JArr rs \<Rightarrow> MAXIMUM_REQUEST_RECORDS \<le> length rs | _ \<Rightarrow> True)
     then return_value (attention_here env ''not-started'' ''not-attempted'' True)
     else
       bindA (liftE (canonical_digest (float_repr env) (sha256 env) body)) (\<lambda>digest.
       bindA (if route = ''command.deployment.prepare'' \<and> source = None
              then raise (JournalError ''prepare source reference is missing'') else ret ()) (\<lambda>_.
       bindA (liftE (text_of body ''idempotency_key'')) (\<lambda>key.
       thenA (put ''pending_request'' (JObj
                [(''route_id'', JStr route),
                 (''path_parameters'', JObj (map (map_prod id JStr) path)),
                 (''credential_role'', JStr role),
                 (''idempotency_key'', JStr key),
                 (''body'', JObj (if route = ''command.deployment.prepare''
                                 then AList.delete ''desired_graph'' body else body)),
                 (''body_sha256'', JStr digest),
                 (''desired_source'', (case source of None \<Rightarrow> JNull | Some d \<Rightarrow> JObj d))]))
         (thenA (write_journal env) (dispatch_pending env body)))))))"

text \<open>The body to send again: that of a preparation is completed from the verified file.\<close>

definition replay_body :: "'st client_env \<Rightarrow> dict \<Rightarrow> dict \<Rightarrow> ('st, dict flow) client" where
  "replay_body env pending body =
     (if get pending ''route_id'' = JStr ''command.deployment.prepare'' then
        bindA (liftE (mapping pending ''desired_source'')) (\<lambda>source.
        bindA (liftE (text_of source ''path'')) (\<lambda>path.
        bindA (liftE (read_desired env path)) (\<lambda>verified.
        if \<not> py_eq (JObj (fst verified)) (JObj source)
        then return_value (attention env ''unverified'' ''not-attempted'' ''read.workspace'' True)
        else ret (Next (AList.update ''desired_graph'' (JObj (snd verified)) body)))))
      else ret (Next body))"

text \<open>Only a body with the recorded digest is sent again.\<close>

definition replay_checked :: "'st client_env \<Rightarrow> dict \<Rightarrow> dict \<Rightarrow> ('st, dict flow) client" where
  "replay_checked env pending body =
     bindA (liftE (canonical_digest (float_repr env) (sha256 env) body)) (\<lambda>digest.
     if get pending ''body_sha256'' \<noteq> JStr digest
     then return_value (attention_here env ''unverified'' ''not-attempted'' True)
     else dispatch_pending env body)"

definition replay_pending :: "'st client_env \<Rightarrow> ('st, dict flow) client" where
  "replay_pending env =
     bindA (getA journal) (\<lambda>j.
     bindA (liftE (item j ''pending_request'')) (\<lambda>p.
     bindA (liftE (as_dict p (JournalError ''operation has no pending request''))) (\<lambda>pending.
     bindA (liftE (mapping pending ''body'')) (\<lambda>body.
     bindF (replay_body env pending body) (replay_checked env pending)))))"

end
