(* ===== verification/TopologyClient.thy ===== *)
theory TopologyClient
  imports Workflow
begin

text \<open>
  The operations of \<open>TopologyClient\<close>: \<open>plan\<close>, \<open>resume_prepare\<close>, \<open>apply\<close> and
  \<open>status\<close>.  \<open>apply\<close> is one long method; here every stage of it is a definition of its own
  that either goes on or returns the result of the whole call, in the order of the source.
\<close>

section \<open>Loading and observing\<close>

definition load_journal :: "'st client_env \<Rightarrow> string \<Rightarrow> ('st, unit) client" where
  "load_journal env op =
     bindA (\<lambda>s. case store_read env op (store s) of
              (Inl e, st) \<Rightarrow> (Inl e, s\<lparr>store := st\<rparr>)
            | (Inr j, st) \<Rightarrow> (Inr j, log_event (Loaded op j) (s\<lparr>store := st\<rparr>))) (\<lambda>j.
     bindA (liftE (mapping j ''target'')) (\<lambda>target.
     bindA (if get target ''endpoint_sha256'' \<noteq> JStr (target_digest env) \<or>
               get target ''workspace_id'' \<noteq> JStr (workspace_id env)
            then raise (JournalError ''operation target does not match the selected profile'')
            else ret ()) (\<lambda>_.
     modA (\<lambda>s. s\<lparr>journal := j\<rparr>))))"

text \<open>
  The local variables \<open>_public_status\<close> assigns inside its \<open>try\<close> block: the handler sees the
  values they had when the exception was raised, so they are part of the state here.
\<close>

record status_locals =
  sl_execution :: "string option"
  sl_advancement :: "string option"
  sl_approval_problem :: bool
  sl_changes :: "json list"
  sl_plan :: "dict option"
  sl_approval :: "dict option"

definition fresh_locals :: status_locals where
  "fresh_locals = \<lparr>sl_execution = None, sl_advancement = None, sl_approval_problem = False,
     sl_changes = [], sl_plan = None, sl_approval = None\<rparr>"

type_synonym ('st, 'a) status_action =
  "('st client_state \<times> status_locals, client_exn, 'a) action"

definition in_client :: "('st, 'a) client \<Rightarrow> ('st, 'a) status_action" where
  "in_client m = (\<lambda>(s, l). case m s of (r, s') \<Rightarrow> (r, (s', l)))"

definition set_local :: "(status_locals \<Rightarrow> status_locals) \<Rightarrow> ('st, unit) status_action" where
  "set_local f = modA (\<lambda>(s, l). (s, f l))"

definition get_local :: "(status_locals \<Rightarrow> 'a) \<Rightarrow> ('st, 'a) status_action" where
  "get_local f = getA (\<lambda>(s, l). f l)"

definition run_execution :: "json \<Rightarrow> client_exn + string" where
  "run_execution run_status =
     (if run_status = JStr ''succeeded'' then Inr ''succeeded''
      else if run_status = JStr ''failed'' then Inr ''failed''
      else bindE (member_of run_status [''queued'', ''claimed'', ''running''])
             (\<lambda>m. Inr (if m then ''running'' else ''unverified'')))"

definition observe_plan :: "'st client_env \<Rightarrow> dict \<Rightarrow> dict \<Rightarrow> ('st, unit) status_action" where
  "observe_plan env j c =
     (if has c ''plan_id'' then
        bindA (liftE (text_of c ''plan_id'')) (\<lambda>plan_id.
        bindA (in_client (plan_detail env plan_id)) (\<lambda>plan.
        thenA (set_local (\<lambda>l. l\<lparr>sl_plan := Some plan\<rparr>))
          (bindA (liftE (validate_plan j plan)) (\<lambda>_.
           bindA (liftE (plan_changes plan)) (\<lambda>changes.
           set_local (\<lambda>l. l\<lparr>sl_changes := changes\<rparr>))))))
      else ret ())"

definition observe_approval :: "'st client_env \<Rightarrow> dict \<Rightarrow> ('st, unit) status_action" where
  "observe_approval env c =
     (if has c ''approval_request_id'' then
        bindA (get_local sl_plan) (\<lambda>p.
        case p of
          None \<Rightarrow> raise (ClientInputError ''public plan coordinates are invalid'')
        | Some plan \<Rightarrow>
            bindA (liftE (text_of c ''approval_request_id'')) (\<lambda>approval_id.
            bindA (in_client (approval_detail env approval_id)) (\<lambda>approval.
            thenA (set_local (\<lambda>l. l\<lparr>sl_approval := Some approval\<rparr>))
              (bindA (liftE (validate_approval plan approval_id approval)) (\<lambda>_.
               bindA (liftE (member_of (get approval ''state'') [''pending'', ''approved''])) (\<lambda>m.
               set_local (\<lambda>l. l\<lparr>sl_approval_problem := \<not> m\<rparr>)))))))
      else ret ())"

definition observe_run ::
  "'st client_env \<Rightarrow> dict \<Rightarrow> dict \<Rightarrow> ('st, unit flow) status_action" where
  "observe_run env j c =
     (case get c ''run_id'' of
        JStr run_id \<Rightarrow>
          bindA (liftE (text_of c ''plan_id'')) (\<lambda>plan_id.
          bindA (in_client (read_pages env ''read.plan-runs''
                   [(''workspace_id'', workspace_id env), (''plan_id'', plan_id)])) (\<lambda>items.
          let matching = filter (\<lambda>i. case i of JObj d \<Rightarrow> get d ''run_id'' = JStr run_id | _ \<Rightarrow> False) items in
          case matching of
            [JObj d] \<Rightarrow>
              bindA (liftE (run_execution (get d ''status''))) (\<lambda>execution.
              thenA (set_local (\<lambda>l. l\<lparr>sl_execution := Some execution\<rparr>))
                (bindA (in_client (read_pages env ''read.run-events''
                   [(''workspace_id'', workspace_id env), (''run_id'', run_id)])) (\<lambda>_.
                 ret (Next ()))))
          | _ \<Rightarrow>
              return_value (liftE (status_from_journal (workspace_id env) j True
                (Some ''unverified'') (Some ''unverified'') (Some ''read.plan-runs'') [] None))))
      | _ \<Rightarrow> ret (Next ()))"

definition observe_graph ::
  "'st client_env \<Rightarrow> dict \<Rightarrow> dict option \<Rightarrow> ('st, unit) status_action" where
  "observe_graph env c current =
     bindA (case get c ''desired_graph_id'' of
              JStr _ \<Rightarrow>
                bindA (in_client (current_graph env)) (\<lambda>observed.
                bindA (liftE (text_of observed ''graph_id'')) (\<lambda>g.
                bindA (liftE (text_of observed ''realized_projection_id'')) (\<lambda>p.
                ret (Some [(''authored_graph_id'', JStr g), (''realized_projection_id'', JStr p)]))))
            | _ \<Rightarrow> ret current) (\<lambda>now.
     (case (now, get c ''desired_graph_id'', get c ''desired_realized_projection_id'') of
        (Some cur, JStr g, JStr p) \<Rightarrow>
          if py_eq (JObj cur)
               (JObj [(''authored_graph_id'', JStr g), (''realized_projection_id'', JStr p)])
          then set_local (\<lambda>l. l\<lparr>sl_advancement := Some ''advanced''\<rparr>) else ret ()
      | _ \<Rightarrow> ret ()))"

definition observe :: "'st client_env \<Rightarrow> dict \<Rightarrow> dict \<Rightarrow> ('st, unit flow) status_action" where
  "observe env j c =
     bindA (in_client (read_workspace env)) (\<lambda>workspace.
     bindA (liftE (pointer workspace ''current'')) (\<lambda>current.
     thenA (observe_plan env j c)
       (thenA (observe_approval env c)
         (bindF (observe_run env j c) (\<lambda>_.
          next_value (observe_graph env c current))))))"

text \<open>The result of \<open>_public_status\<close> after the block, without and with a pending request.\<close>

definition status_settled ::
  "'st client_env \<Rightarrow> dict \<Rightarrow> string \<Rightarrow> status_locals \<Rightarrow> client_exn + client_result" where
  "status_settled env j next l =
     bindE (text_of j ''phase'') (\<lambda>phase.
     let attention =
           sl_approval_problem l \<or>
           sl_execution l \<in> {Some ''failed'', Some ''unverified''} \<or>
           phase \<in> {''advanced'', ''converged''} \<and> sl_advancement l \<noteq> Some ''advanced'' in
     status_from_journal (workspace_id env) j attention (sl_execution l) (sl_advancement l)
       (if attention then Some next else None) (sl_changes l) (sl_approval l))"

definition status_pending ::
  "'st client_env \<Rightarrow> dict \<Rightarrow> json \<Rightarrow> string \<Rightarrow> status_locals \<Rightarrow> client_exn + client_result" where
  "status_pending env j pending next l =
     (let route = (case pending of JObj p \<Rightarrow> get p ''route_id'' | _ \<Rightarrow> JNull) in
      bindE (member_of route [''command.run.start'', ''command.deployment.execute'']) (\<lambda>starts.
      status_from_journal (workspace_id env) j True
        (if starts then Some ''unverified'' else sl_execution l)
        (if route = JStr ''command.graph.advance-current'' then Some ''unverified''
         else sl_advancement l)
        (Some next) (sl_changes l) (sl_approval l)))"

definition public_status :: "'st client_env \<Rightarrow> ('st, client_result) client" where
  "public_status env =
     bindA (getA journal) (\<lambda>j.
     bindA (liftE (coordinates j)) (\<lambda>c.
     let pending = get j ''pending_request'' in
     bindA (liftE (next_read j)) (\<lambda>next s.
     case observe env j c (s, fresh_locals) of
       (Inr (Return r), (s', l)) \<Rightarrow> (Inr r, s')
     | (Inr (Next _), (s', l)) \<Rightarrow>
         ((if pending \<noteq> JNull then status_pending env j pending next l
           else status_settled env j next l), s')
     | (Inl e, (s', l)) \<Rightarrow>
         ((if input_or_transport e then
             status_from_journal (workspace_id env) j True
               (if pending \<noteq> JNull then Some ''unverified'' else sl_execution l)
               (if pending \<noteq> JNull then Some ''unverified'' else sl_advancement l)
               (Some next) (sl_changes l) (sl_approval l)
           else Inl e), s'))))"

definition status_operation :: "'st client_env \<Rightarrow> json \<Rightarrow> ('st, client_result) client" where
  "status_operation env ref =
     bindA (liftE (canonical_operation_ref ref)) (\<lambda>op.
     thenA (load_journal env op) (public_status env))"

section \<open>Preparing a plan\<close>

text \<open>\<open>_record_plan_coordinates\<close>: name by name, each read before it is assigned.\<close>

fun record_texts :: "string list \<Rightarrow> dict \<Rightarrow> ('st, unit) client" where
  "record_texts [] plan = ret ()"
| "record_texts (n # ns) plan =
     bindA (liftE (text_of plan n)) (\<lambda>v.
     thenA (modA (\<lambda>s. s\<lparr>journal := set_coordinate n (JStr v) (journal s)\<rparr>)) (record_texts ns plan))"

definition record_plan_coordinates :: "dict \<Rightarrow> ('st, unit) client" where
  "record_plan_coordinates plan =
     thenA (record_texts
              [''plan_id'', ''session_id'', ''base_graph_id'', ''base_realized_projection_id'',
               ''desired_graph_id'', ''desired_realized_projection_id''] plan)
       (bindA (liftE (integer_of plan ''desired_graph_revision'' 0)) (\<lambda>i.
        modA (\<lambda>s. s\<lparr>journal := set_coordinate ''desired_graph_revision'' (JInt i) (journal s)\<rparr>)))"

text \<open>The plan, validated, with its changes; and the approval the coordinates name.\<close>

definition prepared_plan :: "'st client_env \<Rightarrow> string \<Rightarrow> ('st, (dict \<times> json list) flow) client" where
  "prepared_plan env plan_id =
     attempt
       (bindA (plan_detail env plan_id) (\<lambda>plan.
        bindA (getA journal) (\<lambda>j.
        bindA (liftE (validate_plan j plan)) (\<lambda>_.
        bindA (liftE (plan_changes plan)) (\<lambda>changes. ret (Next (plan, changes)))))))
       (return_value (attention env ''unverified'' ''not-attempted'' ''read.plan-detail'' True))"

definition prepared_approval :: "'st client_env \<Rightarrow> dict \<Rightarrow> ('st, dict option flow) client" where
  "prepared_approval env plan =
     bindA (getA journal) (\<lambda>j.
     bindA (liftE (coordinates j)) (\<lambda>c.
     if has c ''approval_request_id'' then
       attempt
         (bindA (liftE (text_of c ''approval_request_id'')) (\<lambda>approval_id.
          bindA (approval_detail env approval_id) (\<lambda>approval.
          bindA (liftE (validate_approval plan approval_id approval)) (\<lambda>_.
          ret (Next (Some approval))))))
         (return_value (attention env ''unverified'' ''not-attempted'' ''read.approval-detail'' True))
     else ret (Next None)))"

definition finish_prepare :: "'st client_env \<Rightarrow> dict \<Rightarrow> ('st, client_result flow) client" where
  "finish_prepare env prepared =
     bindA (liftE (text_of prepared ''status'')) (\<lambda>st.
     if st \<notin> {''no-changes'', ''review-blocked'', ''approval-required''}
     then return_value (attention env ''not-started'' ''not-attempted'' ''read.workspace'' True)
     else
       bindA (liftE (text_of prepared ''plan_id'')) (\<lambda>plan_id.
       bindA (getA journal) (\<lambda>j.
       bindA (liftE (coordinates j)) (\<lambda>_.
       thenA (modA (\<lambda>s. s\<lparr>journal := set_coordinate ''plan_id'' (JStr plan_id) (journal s)\<rparr>))
         (thenA (if has prepared ''approval_request_id'' then
                   bindA (liftE (text_of prepared ''approval_request_id'')) (\<lambda>a.
                   modA (\<lambda>s. s\<lparr>journal := set_coordinate ''approval_request_id'' (JStr a) (journal s)\<rparr>))
                 else ret ())
           (bindF (prepared_plan env plan_id) (\<lambda>(plan, changes).
            thenA (record_plan_coordinates plan)
              (bindF (prepared_approval env plan) (\<lambda>approval.
               thenA (put ''phase'' (JStr
                        (if st = ''no-changes'' then ''no-changes''
                         else if st = ''review-blocked'' then ''attention-required''
                         else ''prepared'')))
                 (bindA (getA journal) (\<lambda>j.
                  bindA (liftE (plan_result j plan approval st changes)) (\<lambda>result.
                  thenA (put ''last_result'' (JObj (descriptor result)))
                    (thenA (write_journal env) (ret (Next result)))))))))))))))"

text \<open>A method body that returns a \<open>flow\<close> of results returns the result either way.\<close>

definition finish :: "('st, client_result flow) client \<Rightarrow> ('st, client_result) client" where
  "finish m = bindA m (\<lambda>f. case f of Return r \<Rightarrow> ret r | Next r \<Rightarrow> ret r)"

definition plan_operation :: "'st client_env \<Rightarrow> string \<Rightarrow> string \<Rightarrow> ('st, client_result) client" where
  "plan_operation env desired_path title =
     bindA (liftE (read_desired env desired_path)) (\<lambda>(source, desired).
     bindA (new_identity env) (\<lambda>op.
     bindA (read_workspace env) (\<lambda>workspace.
     bindA (liftE (pointer workspace ''current'')) (\<lambda>current.
     case current of
       None \<Rightarrow> raise (ClientInputError ''workspace has no current graph'')
     | Some cur \<Rightarrow>
         bindA (liftE (pointer workspace ''desired'')) (\<lambda>expected.
         bindA (liftE (integer_of workspace ''desired_graph_revision'' 0)) (\<lambda>revision.
         bindA (liftE (bounded_text title ''title'' 512)) (\<lambda>t.
         bindA (new_identity env) (\<lambda>key.
         thenA (modA (\<lambda>s. s\<lparr>journal := new_journal (target_digest env) (workspace_id env) op source\<rparr>))
           (with_lock env op
             (thenA (write_with (store_create env) op)
               (finish
                 (bindF (mutate env ''command.deployment.prepare''
                           [(''workspace_id'', workspace_id env)]
                           [(''desired_graph'', JObj desired),
                            (''expected_current'', JObj cur),
                            (''expected_desired'',
                               (case expected of None \<Rightarrow> JNull | Some e \<Rightarrow> JObj e)),
                            (''expected_desired_graph_revision'', JInt revision),
                            (''title'', JStr t),
                            (''idempotency_key'', JStr key)]
                           ''operator'' (Some source))
                   (finish_prepare env)))))))))))))"

definition resume_prepare :: "'st client_env \<Rightarrow> json \<Rightarrow> ('st, client_result) client" where
  "resume_prepare env ref =
     bindA (liftE (canonical_operation_ref ref)) (\<lambda>op.
     with_lock env op
       (thenA (load_journal env op)
         (bindA (getA journal) (\<lambda>j.
          bindA (liftE (item j ''pending_request'')) (\<lambda>pending.
          bindA (case pending of
                   JObj p \<Rightarrow>
                     if get p ''route_id'' = JStr ''command.deployment.prepare'' then ret ()
                     else raise (ClientInputError ''operation has no pending prepare request'')
                 | _ \<Rightarrow> raise (ClientInputError ''operation has no pending prepare request'')) (\<lambda>_.
          finish (bindF (replay_pending env) (finish_prepare env))))))))"

end
