(* ===== verification/Apply.thy ===== *)
theory Apply
  imports TopologyClient
begin

text \<open>
  \<open>TopologyClient.apply\<close>: from the confirmation of the plan to the observed convergence.  Every
  stage is a definition; \<open>bindF\<close> goes on to the next stage unless the stage returned the result
  of the call.
\<close>

record confirmation =
  execute_plan :: string
  approve_plan :: "string option"
  approve_destructive_plan :: "string option"

section \<open>Reading before acting\<close>

definition apply_plan_detail :: "'st client_env \<Rightarrow> string \<Rightarrow> ('st, dict flow) client" where
  "apply_plan_detail env plan_id =
     attempt
       (bindA (plan_detail env plan_id) (\<lambda>plan.
        bindA (getA journal) (\<lambda>j.
        bindA (liftE (validate_plan j plan)) (\<lambda>_. ret (Next plan)))))
       (return_value (attention env ''unverified'' ''not-attempted'' ''read.plan-detail'' True))"

text \<open>The session coordinate is missing only when the operation stopped right after preparation.\<close>

definition apply_record_plan :: "'st client_env \<Rightarrow> string \<Rightarrow> dict \<Rightarrow> ('st, unit) client" where
  "apply_record_plan env op plan =
     bindA (getA journal) (\<lambda>j.
     bindA (liftE (coordinates j)) (\<lambda>c.
     if has c ''session_id'' then ret ()
     else thenA (record_plan_coordinates plan) (write_with (store_write env) op)))"

text \<open>
  The approval: an approved one needs nothing, a pending one needs the confirmation of its own kind
  for exactly this plan.  The value is whether a decision is still to be sent.
\<close>

definition confirm_pending ::
  "'st client_env \<Rightarrow> confirmation \<Rightarrow> string \<Rightarrow> json \<Rightarrow> dict \<Rightarrow> ('st, bool flow) client" where
  "confirm_pending env args plan_id pending_route approval =
     bindA (liftE (boolean_of approval ''destructive'')) (\<lambda>destructive.
     let supplied = (if destructive then approve_destructive_plan args else approve_plan args);
         wrong = (if destructive then approve_plan args else approve_destructive_plan args) in
     if supplied \<noteq> Some plan_id then raise (ClientInputError ''exact plan approval is required'')
     else if wrong \<noteq> None then raise (ClientInputError ''approval kind does not match the plan'')
     else
       bindA (liftE (if pending_route = JNull then Inr True
                     else member_of pending_route [''command.approval.decide''])) (\<lambda>allowed.
       if allowed then ret (Next True)
       else return_value (attention env ''not-started'' ''not-attempted'' ''read.approval-detail'' True)))"

definition apply_approval ::
  "'st client_env \<Rightarrow> confirmation \<Rightarrow> dict \<Rightarrow> string \<Rightarrow> json \<Rightarrow> json \<Rightarrow> ('st, bool flow) client" where
  "apply_approval env args plan plan_id pending_route approval_id =
     (if approval_id = JNull then ret (Next False)
      else
        bindF
          (attempt
            (bindA (liftE (text_coordinate approval_id)) (\<lambda>aid.
             bindA (approval_detail env aid) (\<lambda>approval.
             bindA (liftE (validate_approval plan aid approval)) (\<lambda>_. ret (Next approval)))))
            (return_value
              (attention env ''unverified'' ''not-attempted'' ''read.approval-detail'' True)))
          (\<lambda>approval.
           if get approval ''state'' = JStr ''pending''
           then confirm_pending env args plan_id pending_route approval
           else if get approval ''state'' \<noteq> JStr ''approved''
           then return_value
                  (attention env ''not-started'' ''not-attempted'' ''read.approval-detail'' True)
           else ret (Next False)))"

definition apply_progress :: "'st client_env \<Rightarrow> json \<Rightarrow> ('st, unit flow) client" where
  "apply_progress env pending =
     bindA (getA journal) (\<lambda>j.
     bindA (liftE (coordinates j)) (\<lambda>c.
     if \<not> has c ''run_id'' then ret (Next ())
     else
       bindA (public_status env) (\<lambda>observed.
       bindA (getA journal) (\<lambda>j.
       if pending = JNull \<and> r_status observed = ''attention-required'' then ret (Return observed)
       else if get j ''phase'' \<in> {JStr ''executed'', JStr ''advanced'', JStr ''converged''} \<and>
               r_execution observed \<noteq> ''succeeded''
       then return_value (attention env ''unverified'' ''not-attempted'' ''read.plan-runs'' True)
       else if get j ''phase'' \<in> {JStr ''advanced'', JStr ''converged''} \<and>
               r_advancement observed \<noteq> ''advanced''
       then return_value (attention env ''succeeded'' ''unverified'' ''read.current-graph'' True)
       else ret (Next ())))))"

section \<open>The mutations\<close>

definition apply_replay :: "'st client_env \<Rightarrow> json \<Rightarrow> ('st, unit flow) client" where
  "apply_replay env pending =
     bindF (if pending = JNull then ret (Next ())
            else bindF (replay_pending env) (\<lambda>_. ret (Next ()))) (\<lambda>_.
     bindA (getA journal) (\<lambda>j.
     if get j ''phase'' = JStr ''no-changes'' then
       return_value (liftE (status_from_journal (workspace_id env) j False None None None [] None))
     else if get j ''phase'' = JStr ''attention-required'' then
       return_value (liftE (status_from_journal (workspace_id env) j True None None None [] None))
     else ret (Next ())))"

definition apply_decide ::
  "'st client_env \<Rightarrow> dict \<Rightarrow> json \<Rightarrow> json \<Rightarrow> bool \<Rightarrow> ('st, unit flow) client" where
  "apply_decide env plan pending_route approval_id approval_pending =
     (if \<not> (approval_pending \<and> pending_route = JNull) then ret (Next ())
      else if approval_id = JNull then raise (JournalError ''approval coordinate is missing'')
      else
        bindA (liftE (text_coordinate approval_id)) (\<lambda>aid.
        bindA (liftE (text_of plan ''session_id'')) (\<lambda>session.
        bindA (new_identity env) (\<lambda>key.
        bindF (mutate env ''command.approval.decide''
                 [(''workspace_id'', workspace_id env), (''approval_id'', aid)]
                 [(''session_id'', JStr session), (''decision'', JStr ''approved''),
                  (''idempotency_key'', JStr key)]
                 ''approver'' None) (\<lambda>decided.
        if get decided ''state'' \<noteq> JStr ''approved''
        then return_value
               (attention env ''not-started'' ''not-attempted'' ''read.approval-detail'' True)
        else ret (Next ()))))))"

definition apply_admit ::
  "'st client_env \<Rightarrow> dict \<Rightarrow> string \<Rightarrow> json \<Rightarrow> ('st, unit flow) client" where
  "apply_admit env plan plan_id approval_id =
     bindA (getA journal) (\<lambda>j.
     bindA (liftE (coordinates j)) (\<lambda>c.
     if has c ''execution_request_id'' then ret (Next ())
     else
       bindA (liftE (text_of plan ''session_id'')) (\<lambda>session.
       bindA (liftE (text_coordinate approval_id)) (\<lambda>aid.
       bindA (new_identity env) (\<lambda>key.
       bindF (mutate env ''command.deployment.admit''
                [(''workspace_id'', workspace_id env), (''plan_id'', plan_id)]
                [(''session_id'', JStr session), (''approval_request_id'', JStr aid),
                 (''readiness'', JArr []), (''idempotency_key'', JStr key)]
                ''operator'' None) (\<lambda>_. ret (Next ())))))))"

definition apply_claim :: "'st client_env \<Rightarrow> ('st, unit flow) client" where
  "apply_claim env =
     bindA (getA journal) (\<lambda>j.
     bindA (liftE (coordinates j)) (\<lambda>c.
     if has c ''run_id'' then ret (Next ())
     else
       bindA (liftE (text_of c ''execution_request_id'')) (\<lambda>request_id.
       bindA (new_identity env) (\<lambda>key.
       bindF (mutate env ''command.run.claim''
                [(''workspace_id'', workspace_id env), (''run_id'', request_id)]
                [(''lease_duration_seconds'', JInt 1800), (''idempotency_key'', JStr key)]
                ''worker'' None) (\<lambda>_. ret (Next ()))))))"

text \<open>The run and the fence the remaining mutations name.\<close>

definition apply_run :: "('st, string \<times> int) client" where
  "apply_run =
     bindA (getA journal) (\<lambda>j.
     bindA (liftE (coordinates j)) (\<lambda>c.
     bindA (liftE (text_of c ''run_id'')) (\<lambda>run_id.
     bindA (liftE (integer_of c ''claim_generation'' 1)) (\<lambda>generation.
     ret (run_id, generation)))))"

definition apply_start :: "'st client_env \<Rightarrow> string \<Rightarrow> int \<Rightarrow> ('st, unit flow) client" where
  "apply_start env run_id generation =
     bindA (getA journal) (\<lambda>j.
     if get j ''phase'' \<notin> {JStr ''claimed'', JStr ''prepared'', JStr ''approved'', JStr ''admitted''}
     then ret (Next ())
     else
       bindA (new_identity env) (\<lambda>key.
       bindF (mutate env ''command.run.start''
                [(''workspace_id'', workspace_id env), (''run_id'', run_id)]
                [(''claim_generation'', JInt generation), (''idempotency_key'', JStr key)]
                ''worker'' None) (\<lambda>started.
       if get started ''run_status'' \<noteq> JStr ''running''
       then return_value (attention env ''not-started'' ''not-attempted'' ''read.plan-runs'' True)
       else ret (Next ()))))"

text \<open>\<open>for _ in range(MAXIMUM_REQUEST_RECORDS)\<close> with its \<open>else\<close> branch.\<close>

fun execute_loop :: "'st client_env \<Rightarrow> string \<Rightarrow> int \<Rightarrow> nat \<Rightarrow> ('st, unit flow) client" where
  "execute_loop env run_id generation 0 =
     return_value (attention env ''running'' ''not-attempted'' ''read.run-events'' True)"
| "execute_loop env run_id generation (Suc n) =
     bindA (new_identity env) (\<lambda>key.
     bindF (mutate env ''command.deployment.execute''
              [(''workspace_id'', workspace_id env), (''run_id'', run_id)]
              [(''claim_generation'', JInt generation), (''max_effects'', JInt 1),
               (''idempotency_key'', JStr key)]
              ''worker'' None) (\<lambda>executed.
     bindA (liftE (text_of executed ''coordinator_status'')) (\<lambda>st.
     if st = ''completed'' then
       (if get executed ''run_status'' \<noteq> JStr ''succeeded''
        then return_value (attention env ''not-started'' ''not-attempted'' ''read.plan-runs'' True)
        else ret (Next ()))
     else if st \<noteq> ''progressed'' then
       return_value (attention env
         (if st = ''in-flight'' then ''running''
          else if st \<in> set ATTENTION_STATUSES then st else ''unverified'')
         ''not-attempted'' ''read.run-events'' True)
     else execute_loop env run_id generation n)))"

definition apply_execute :: "'st client_env \<Rightarrow> string \<Rightarrow> int \<Rightarrow> ('st, unit flow) client" where
  "apply_execute env run_id generation =
     bindA (getA journal) (\<lambda>j.
     if get j ''phase'' \<in> {JStr ''executed'', JStr ''advanced'', JStr ''converged''}
     then ret (Next ())
     else execute_loop env run_id generation MAXIMUM_REQUEST_RECORDS)"

text \<open>
  Advancing the current graph: only from exactly the base the plan was made for.
\<close>

definition apply_advance ::
  "'st client_env \<Rightarrow> dict \<Rightarrow> string \<Rightarrow> string \<Rightarrow> int \<Rightarrow> ('st, unit flow) client" where
  "apply_advance env plan plan_id run_id generation =
     bindA (getA journal) (\<lambda>j.
     bindA (liftE (coordinates j)) (\<lambda>_.
     if get j ''phase'' = JStr ''advanced'' then ret (Next ())
     else
       bindF
         (attempt
           (bindA (read_workspace env) (\<lambda>workspace.
            bindA (liftE (pointer workspace ''current'')) (\<lambda>current. ret (Next current))))
           (return_value (attention env ''succeeded'' ''unverified'' ''read.current-graph'' True)))
         (\<lambda>current.
          case current of
            None \<Rightarrow>
              return_value (attention env ''not-started'' ''unverified'' ''read.current-graph'' True)
          | Some cur \<Rightarrow>
              bindA (liftE (text_of plan ''base_graph_id'')) (\<lambda>bg.
              bindA (liftE (text_of plan ''base_realized_projection_id'')) (\<lambda>bp.
              if \<not> py_eq (JObj cur)
                     (JObj [(''authored_graph_id'', JStr bg), (''realized_projection_id'', JStr bp)])
              then return_value
                     (attention env ''succeeded'' ''unverified'' ''read.current-graph'' True)
              else
                bindA (liftE (text_of cur ''authored_graph_id'')) (\<lambda>cg.
                bindA (liftE (text_of cur ''realized_projection_id'')) (\<lambda>cp.
                bindA (liftE (text_of plan ''desired_graph_id'')) (\<lambda>dg.
                bindA (liftE (text_of plan ''desired_realized_projection_id'')) (\<lambda>dp.
                bindA (liftE (integer_of plan ''desired_graph_revision'' 0)) (\<lambda>revision.
                bindA (new_identity env) (\<lambda>key.
                bindF (mutate env ''command.graph.advance-current''
                         [(''workspace_id'', workspace_id env), (''run_id'', run_id)]
                         [(''plan_id'', JStr plan_id), (''claim_generation'', JInt generation),
                          (''expected_current_graph_id'', JStr cg),
                          (''expected_current_realized_projection_id'', JStr cp),
                          (''desired_graph_id'', JStr dg),
                          (''desired_realized_projection_id'', JStr dp),
                          (''expected_desired_graph_revision'', JInt revision),
                          (''idempotency_key'', JStr key)]
                         ''worker'' None) (\<lambda>_. ret (Next ())))))))))))))"

text \<open>Convergence is claimed only for the graph the server reports.\<close>

definition apply_converge :: "'st client_env \<Rightarrow> string \<Rightarrow> dict \<Rightarrow> ('st, client_result flow) client" where
  "apply_converge env op plan =
     bindF
       (attempt (bindA (current_graph env) (\<lambda>observed. ret (Next observed)))
         (return_value (attention env ''succeeded'' ''unverified'' ''read.current-graph'' True)))
       (\<lambda>observed.
        if \<not> py_eq (get observed ''graph_id'') (get plan ''desired_graph_id'') \<or>
           \<not> py_eq (get observed ''realized_projection_id'')
                (get plan ''desired_realized_projection_id'')
        then return_value
               (attention env ''not-started'' ''unverified'' ''read.current-graph'' True)
        else
          thenA (put ''phase'' (JStr ''converged''))
            (bindA (getA journal) (\<lambda>j.
             bindA (liftE (status_from_journal (workspace_id env) j False None None None [] None))
               (\<lambda>result.
             thenA (put ''last_result'' (JObj (descriptor result)))
               (thenA (write_with (store_write env) op) (ret (Next result)))))))"

section \<open>The method\<close>

definition pending_route_of :: "json \<Rightarrow> json" where
  "pending_route_of pending = (case pending of JObj p \<Rightarrow> get p ''route_id'' | _ \<Rightarrow> JNull)"

text \<open>The stages after the plan has been read and recorded.\<close>

definition apply_stages ::
  "'st client_env \<Rightarrow> string \<Rightarrow> confirmation \<Rightarrow> json \<Rightarrow> string \<Rightarrow> dict \<Rightarrow> ('st, client_result flow) client"
where
  "apply_stages env op args pending plan_id plan =
     bindA (getA journal) (\<lambda>j.
     bindA (liftE (coordinates j)) (\<lambda>c.
     let approval_id = get c ''approval_request_id''; route = pending_route_of pending in
     bindF (apply_approval env args plan plan_id route approval_id) (\<lambda>approval_pending.
     bindF (apply_progress env pending) (\<lambda>_.
     bindF (apply_replay env pending) (\<lambda>_.
     bindF (apply_decide env plan route approval_id approval_pending) (\<lambda>_.
     bindF (apply_admit env plan plan_id approval_id) (\<lambda>_.
     bindF (apply_claim env) (\<lambda>_.
     bindA apply_run (\<lambda>(run_id, generation).
     bindF (apply_start env run_id generation) (\<lambda>_.
     bindF (apply_execute env run_id generation) (\<lambda>_.
     bindF (apply_advance env plan plan_id run_id generation) (\<lambda>_.
     apply_converge env op plan))))))))))))"

definition apply_locked ::
  "'st client_env \<Rightarrow> string \<Rightarrow> confirmation \<Rightarrow> ('st, client_result) client" where
  "apply_locked env op args =
     thenA (load_journal env op)
       (bindA (getA journal) (\<lambda>j.
        bindA (liftE (item j ''pending_request'')) (\<lambda>pending.
        if pending_route_of pending = JStr ''command.deployment.prepare''
        then raise (ClientInputError ''pending preparation must be resumed with plan'')
        else
          bindA (liftE (coordinates j)) (\<lambda>c.
          bindA (liftE (text_of c ''plan_id'')) (\<lambda>plan_id.
          if execute_plan args \<noteq> plan_id
          then raise (ClientInputError ''execution confirmation does not match the prepared plan'')
          else
            finish
              (bindF (apply_plan_detail env plan_id) (\<lambda>plan.
               thenA (apply_record_plan env op plan)
                 (apply_stages env op args pending plan_id plan))))))))"

definition apply_operation ::
  "'st client_env \<Rightarrow> json \<Rightarrow> confirmation \<Rightarrow> ('st, client_result) client" where
  "apply_operation env ref args =
     bindA (liftE (canonical_operation_ref ref)) (\<lambda>op.
     if execute_plan args = []
     then raise (ClientInputError ''exact plan execution confirmation is required'')
     else with_lock env op (apply_locked env op args))"

end
