(* ===== verification/ClientSafety.thy ===== *)
theory ClientSafety
  imports Apply
begin

text \<open>
  What the client promises about the requests it sends.  The interface \<open>journal_store\<close> states
  what the client needs of its store; \<open>trace_ok\<close> states on the trace that every mutation sent was
  recorded beforehand, in a journal that validates and whose pending request is that mutation.  The
  lemmas show, operation by operation, that every stage of the client keeps it.
\<close>

section \<open>The interface of the journal store\<close>

locale journal_store =
  fixes rd :: "string \<Rightarrow> 'st \<Rightarrow> (client_exn + dict) \<times> 'st"
    and cr :: "string \<Rightarrow> dict \<Rightarrow> 'st \<Rightarrow> (client_exn + unit) \<times> 'st"
    and wr :: "string \<Rightarrow> dict \<Rightarrow> 'st \<Rightarrow> (client_exn + unit) \<times> 'st"
  assumes read_valid: "rd op st = (Inr j, st') \<Longrightarrow> validate_journal (JObj j) op = Inr ()"
    and create_valid: "cr op j st = (Inr u, st') \<Longrightarrow> validate_journal (JObj j) op = Inr ()"
    and write_valid: "wr op j st = (Inr u, st') \<Longrightarrow> validate_journal (JObj j) op = Inr ()"

section \<open>The trace property\<close>

definition is_mutation :: "request \<Rightarrow> bool" where
  "is_mutation q \<longleftrightarrow> q_route q \<in> set (keys MUTATION_ROLES)"

text \<open>
  The pending request of a journal is this request.  The body of a preparation is recorded without
  the desired graph it is completed with, so there the digest identifies it.
\<close>

definition recorded_body :: "'st client_env \<Rightarrow> dict \<Rightarrow> dict \<Rightarrow> bool" where
  "recorded_body env p body \<longleftrightarrow>
     (\<exists>d. get p ''body_sha256'' = JStr d \<and>
          canonical_digest (float_repr env) (sha256 env) body = Inr d) \<and>
     (get p ''route_id'' \<noteq> JStr ''command.deployment.prepare'' \<longrightarrow> get p ''body'' = JObj body)"

definition records :: "'st client_env \<Rightarrow> dict \<Rightarrow> request \<Rightarrow> bool" where
  "records env j q \<longleftrightarrow>
     (\<exists>p. get j ''pending_request'' = JObj p \<and>
        get p ''route_id'' = JStr (q_route q) \<and>
        get p ''credential_role'' = JStr (q_role q) \<and>
        get p ''path_parameters'' = JObj (map (map_prod id JStr) (q_path q)) \<and>
        recorded_body env p (q_payload q))"

fun last_journal :: "(string \<times> dict) option \<Rightarrow> event list \<Rightarrow> (string \<times> dict) option" where
  "last_journal l [] = l"
| "last_journal l (Wrote op j # es) = last_journal (Some (op, j)) es"
| "last_journal l (Loaded op j # es) = last_journal (Some (op, j)) es"
| "last_journal l (Sent q # es) = last_journal l es"

definition event_ok :: "'st client_env \<Rightarrow> (string \<times> dict) option \<Rightarrow> event \<Rightarrow> bool" where
  "event_ok env l e \<longleftrightarrow>
     (case e of
        Sent q \<Rightarrow> is_mutation q \<longrightarrow> (\<exists>op j. l = Some (op, j) \<and> records env j q)
      | Wrote op j \<Rightarrow> validate_journal (JObj j) op = Inr ()
      | Loaded op j \<Rightarrow> validate_journal (JObj j) op = Inr ())"

fun trace_ok :: "'st client_env \<Rightarrow> (string \<times> dict) option \<Rightarrow> event list \<Rightarrow> bool" where
  "trace_ok env l [] \<longleftrightarrow> True"
| "trace_ok env l (e # es) \<longleftrightarrow> event_ok env l e \<and> trace_ok env (last_journal l [e]) es"

lemma last_journal_append [simp]: "last_journal l (es @ fs) = last_journal (last_journal l es) fs"
  by (induction l es rule: last_journal.induct) auto

lemma trace_ok_append [simp]:
  "trace_ok env l (es @ fs) \<longleftrightarrow> trace_ok env l es \<and> trace_ok env (last_journal l es) fs"
proof (induction es arbitrary: l)
  case Nil
  then show ?case by simp
next
  case (Cons e es)
  have "last_journal l (e # es) = last_journal (last_journal l [e]) es"
    using last_journal_append [of l "[e]" es] by simp
  then show ?case by (simp add: Cons.IH)
qed

text \<open>The reading of \<open>trace_ok\<close> that needs no recursion.\<close>

lemma trace_okD:
  assumes "trace_ok env None (pre @ Sent q # post)" and "is_mutation q"
  shows "\<exists>op j. last_journal None pre = Some (op, j) \<and> records env j q"
  using assms by (auto simp: event_ok_def)

lemma last_journal_valid:
  assumes "trace_ok env l es" and "last_journal l es = Some (op, j)"
    and "\<And>op j. l = Some (op, j) \<Longrightarrow> validate_journal (JObj j) op = Inr ()"
  shows "validate_journal (JObj j) op = Inr ()"
  using assms
  by (induction l es rule: last_journal.induct) (auto simp: event_ok_def)

section \<open>Invariants of one invocation\<close>

definition Inv :: "'st client_env \<Rightarrow> 'st client_state \<Rightarrow> bool" where
  "Inv env s \<longleftrightarrow> trace_ok env None (trace s)"

text \<open>The journal in memory and the last one on disk agree on the pending request.\<close>

definition Sync :: "'st client_env \<Rightarrow> 'st client_state \<Rightarrow> bool" where
  "Sync env s \<longleftrightarrow>
     Inv env s \<and>
     (\<exists>op j. last_journal None (trace s) = Some (op, j) \<and>
             get j ''pending_request'' = get (journal s) ''pending_request'')"

lemma Inv_store [simp]: "Inv env (s\<lparr>store := st\<rparr>) = Inv env s"
  by (simp add: Inv_def)

definition steady :: "'st client_env \<Rightarrow> ('st, 'a) client \<Rightarrow> bool" where
  "steady env m \<longleftrightarrow> triple (Sync env) m (\<lambda>_. Sync env) (\<lambda>_. Inv env)"

lemma Sync_Inv: "Sync env s \<Longrightarrow> Inv env s"
  by (simp add: Sync_def)

lemma steady_ret [triples]: "steady env (ret x)"
  and steady_raise [triples]: "steady env (raise e)"
  and steady_get [triples]: "steady env (getA f)"
  and steady_lift [triples]: "steady env (liftE r)"
  by (auto simp: steady_def intro!: triples intro: Sync_Inv)

lemma steady_bind [triples]:
  "steady env m \<Longrightarrow> (\<And>x. steady env (k x)) \<Longrightarrow> steady env (bindA m k)"
  unfolding steady_def by (rule triple_bind)

lemma steady_bindF [triples]:
  "steady env m \<Longrightarrow> (\<And>x. steady env (k x)) \<Longrightarrow> steady env (bindF m k)"
  unfolding bindF_def by (intro steady_bind) (auto split: flow.splits intro: steady_ret)

lemma steady_next_value [triples]: "steady env m \<Longrightarrow> steady env (next_value m)"
  unfolding next_value_def by (intro triples)

lemma steady_return_value [triples]: "steady env m \<Longrightarrow> steady env (return_value m)"
  unfolding return_value_def by (intro triples)

lemma steady_if [triples]:
  "(c \<Longrightarrow> steady env m) \<Longrightarrow> (\<not> c \<Longrightarrow> steady env n) \<Longrightarrow> steady env (if c then m else n)"
  by simp

lemma steady_finish [triples]: "steady env m \<Longrightarrow> steady env (finish m)"
  unfolding finish_def by (intro steady_bind) (auto split: flow.splits intro: steady_ret)

lemma keeps_steady: "keeps (Sync env) m \<Longrightarrow> steady env m"
  unfolding keeps_triple steady_def by (erule triple_conseq) (auto intro: Sync_Inv)

text \<open>A guarded block that only reads keeps \<open>Sync\<close> also when it raises.\<close>

lemma steady_attempt [triples]:
  "keeps (Sync env) m \<Longrightarrow> steady env h \<Longrightarrow> steady env (attempt m h)"
  unfolding attempt_def steady_def keeps_triple
  by (rule triple_try) (auto intro!: triples intro: Sync_Inv)

section \<open>Reads\<close>

lemma keeps_bindF [triples]: "keeps I m \<Longrightarrow> (\<And>x. keeps I (k x)) \<Longrightarrow> keeps I (bindF m k)"
  unfolding bindF_def by (intro keeps_bind) (auto split: flow.splits intro: keeps_ret)

lemma keeps_next_value [triples]: "keeps I m \<Longrightarrow> keeps I (next_value m)"
  unfolding next_value_def by (intro triples)

lemma keeps_return_value [triples]: "keeps I m \<Longrightarrow> keeps I (return_value m)"
  unfolding return_value_def by (intro triples)

text \<open>
  A predicate on the client's state that a request to a read route does not disturb is kept by
  every read.
\<close>

definition read_stable :: "('st client_state \<Rightarrow> bool) \<Rightarrow> bool" where
  "read_stable I \<longleftrightarrow>
     (\<forall>s q. I s \<longrightarrow> \<not> is_mutation q \<longrightarrow> q_role q = ''operator'' \<longrightarrow> I (log_event (Sent q) s))"

lemma keeps_read_route:
  assumes "read_stable I" and "r \<notin> set (keys MUTATION_ROLES)"
  shows "keeps I (read_route env r path payload)"
  using assms by (auto simp: keeps_def read_route_def call_def read_stable_def is_mutation_def)

lemma read_routes [simp]:
  "''read.workspace'' \<notin> set (keys MUTATION_ROLES)"
  "''read.plan-detail'' \<notin> set (keys MUTATION_ROLES)"
  "''read.approval-detail'' \<notin> set (keys MUTATION_ROLES)"
  "''read.current-graph'' \<notin> set (keys MUTATION_ROLES)"
  "''read.plan-runs'' \<notin> set (keys MUTATION_ROLES)"
  "''read.run-events'' \<notin> set (keys MUTATION_ROLES)"
  by (simp_all add: keys_def MUTATION_ROLES_def)

lemma keeps_reads [triples]:
  assumes "read_stable I"
  shows "keeps I (read_workspace env)" and "keeps I (plan_detail env p)"
    and "keeps I (approval_detail env a)" and "keeps I (current_graph env)"
  using assms
  by (auto simp: read_workspace_def plan_detail_def approval_detail_def current_graph_def
      intro!: triples keeps_read_route)

lemma keeps_page_loop:
  assumes "read_stable I" and "r \<notin> set (keys MUTATION_ROLES)"
  shows "keeps I (page_loop env r path n items cursor seen)"
proof (induction n arbitrary: items cursor seen)
  case 0
  then show ?case unfolding page_loop.simps by (rule keeps_raise)
next
  case (Suc n)
  show ?case
    unfolding page_loop.simps
    by (intro keeps_bind keeps_read_route assms)
       (auto split: json.split option.split intro!: keeps_raise keeps_ret Suc.IH)
qed

lemma keeps_read_pages:
  "read_stable I \<Longrightarrow> r \<notin> set (keys MUTATION_ROLES) \<Longrightarrow> keeps I (read_pages env r path)"
  unfolding read_pages_def by (rule keeps_page_loop)

text \<open>The observation block of \<open>_public_status\<close>.\<close>

abbreviation lifted :: "('st client_state \<Rightarrow> bool) \<Rightarrow> 'st client_state \<times> status_locals \<Rightarrow> bool" where
  "lifted I \<equiv> (\<lambda>(s, l). I s)"

lemma keeps_in_client [triples]: "keeps I m \<Longrightarrow> keeps (lifted I) (in_client m)"
  by (auto simp: keeps_def in_client_def split: prod.splits)

lemma keeps_set_local [triples]: "keeps (lifted I) (set_local f)"
  by (auto simp: keeps_def set_local_def action_simps split: prod.splits)

lemma keeps_get_local [triples]: "keeps (lifted I) (get_local f)"
  by (auto simp: keeps_def get_local_def action_simps)

lemma keeps_observe_parts:
  assumes "read_stable I"
  shows "keeps (lifted I) (observe_plan env j c)"
    and "keeps (lifted I) (observe_approval env c)"
    and "keeps (lifted I) (observe_run env j c)"
    and "keeps (lifted I) (observe_graph env c current)"
  unfolding observe_plan_def observe_approval_def observe_run_def observe_graph_def Let_def
  by (auto split: option.split json.split list.split
      intro!: triples keeps_read_pages assms)

lemma keeps_observe: "read_stable I \<Longrightarrow> keeps (lifted I) (observe env j c)"
  unfolding observe_def by (intro triples keeps_observe_parts)

lemma keeps_public_status: 
  assumes "read_stable I"
  shows "keeps I (public_status env)"
proof -
  have "I (snd (case observe env j c (s, l) of
         (Inr (Return r), (s', l)) \<Rightarrow> (Inr r, s')
       | (Inr (Next _), (s', l)) \<Rightarrow> (f s' l, s')
       | (Inl e, (s', l)) \<Rightarrow> (g e l, s')))" if "I s" for j c s l
      and f :: "'a client_state \<Rightarrow> status_locals \<Rightarrow> client_exn + client_result" and g
  proof -
    obtain r s' l' where *: "observe env j c (s, l) = (r, (s', l'))" by (metis prod.exhaust)
    have "I s'"
      using keepsD [OF keeps_observe [OF assms] _ *] that by auto
    then show ?thesis by (auto simp: * split: sum.split flow.split)
  qed
  then show ?thesis
    unfolding public_status_def Let_def
    by (intro keeps_bind keeps_get keeps_lift) (simp add: keeps_def)
qed

section \<open>Writes\<close>

text \<open>
  \<open>commits\<close>: whatever the journal in memory, the block ends with the store and the memory in
  agreement, or raises.
\<close>

definition commits :: "'st client_env \<Rightarrow> ('st, 'a) client \<Rightarrow> bool" where
  "commits env m \<longleftrightarrow> triple (Inv env) m (\<lambda>_. Sync env) (\<lambda>_. Inv env)"

lemma commits_steady: "commits env m \<Longrightarrow> steady env m"
  unfolding commits_def steady_def by (erule triple_pre) (rule Sync_Inv)

lemma commits_put [triples]: "commits env m \<Longrightarrow> commits env (thenA (put k v) m)"
  unfolding commits_def put_def
  by (rule triple_bind [where R = "\<lambda>_. Inv env"]) (auto intro!: triple_mod simp: Inv_def)

lemma commits_lift [triples]: "(\<And>x. commits env (k x)) \<Longrightarrow> commits env (bindA (liftE r) k)"
  unfolding commits_def
  by (rule triple_bind [where R = "\<lambda>_. Inv env"]) (auto intro!: triple_lift)

lemma commits_get [triples]: "(\<And>x. commits env (k x)) \<Longrightarrow> commits env (bindA (getA f) k)"
  unfolding commits_def
  by (rule triple_bind [where R = "\<lambda>_. Inv env"]) (auto intro!: triple_get)

lemma commits_then [triples]: "commits env m \<Longrightarrow> steady env n \<Longrightarrow> commits env (thenA m n)"
  unfolding commits_def steady_def by (rule triple_bind)

lemma commits_raise [triples]: "commits env (raise e)"
  unfolding commits_def by (rule triple_raise)

lemma steady_put [triples]: "k \<noteq> ''pending_request'' \<Longrightarrow> steady env (put k v)"
  by (rule keeps_steady) (auto simp: keeps_def put_def action_simps Sync_def Inv_def dict_simps)

lemma read_stable_Sync [simp]: "read_stable (Sync env)"
  by (auto simp: read_stable_def Sync_def Inv_def log_event_def event_ok_def)

lemma steady_new_identity [triples]: "steady env (new_identity env)"
  by (rule keeps_steady) (auto simp: keeps_def new_identity_def Sync_def Inv_def)

definition uses_store ::
  "'st client_env \<Rightarrow> (string \<Rightarrow> 'st \<Rightarrow> (client_exn + dict) \<times> 'st) \<Rightarrow>
   (string \<Rightarrow> dict \<Rightarrow> 'st \<Rightarrow> (client_exn + unit) \<times> 'st) \<Rightarrow>
   (string \<Rightarrow> dict \<Rightarrow> 'st \<Rightarrow> (client_exn + unit) \<times> 'st) \<Rightarrow> bool" where
  "uses_store env r c w \<longleftrightarrow> store_read env = r \<and> store_create env = c \<and> store_write env = w"

lemma commits_write_with:
  assumes "\<And>op j st st' u. w op j st = (Inr u, st') \<Longrightarrow> validate_journal (JObj j) op = Inr ()"
  shows "commits env (write_with w op)"
  unfolding commits_def
proof (rule tripleI)
  fix s :: "'a client_state" and x s'
  assume s: "Inv env s" "write_with w op s = (Inr x, s')"
  then obtain st where w: "w op (journal s) (store s) = (Inr (), st)"
    and s': "s' = log_event (Wrote op (journal s)) (s\<lparr>store := st\<rparr>)"
    by (auto simp: write_with_def split: prod.splits sum.splits)
  have "validate_journal (JObj (journal s)) op = Inr ()" by (rule assms [OF w])
  then show "Sync env s'"
    using s by (auto simp: s' Sync_def Inv_def log_event_def event_ok_def)
next
  fix s :: "'a client_state" and e s'
  assume "Inv env s" "write_with w op s = (Inl e, s')"
  then show "Inv env s'"
    by (auto simp: write_with_def Inv_def split: prod.splits sum.splits)
qed

context journal_store
begin

lemma commits_write_journal:
  assumes "uses_store env rd cr wr"
  shows "commits env (write_journal env)"
  using assms unfolding write_journal_def uses_store_def
  by (auto intro!: triples commits_write_with write_valid)

lemma steady_attention:
  assumes "uses_store env rd cr wr"
  shows "steady env (attention env ex ad nx persist)"
    and "steady env (attention_here env ex ad persist)"
proof -
  show *: "steady env (attention env ex ad nx persist)" for nx
    unfolding attention_def
    by (auto intro!: triples commits_steady [OF commits_write_journal [OF assms]])
  show "steady env (attention_here env ex ad persist)"
    unfolding attention_here_def by (intro triples *)
qed

lemma steady_record_response:
  assumes "uses_store env rd cr wr"
  shows "steady env (record_response env route pending response)"
proof -
  have commit: "commits env (thenA (put k1 v1) (bindA (liftE r1) (\<lambda>c. thenA (put k2 (f c))
      (thenA (put k3 v3) (bindA (liftE r2) (\<lambda>phase.
      thenA (put k4 (g phase)) (thenA (write_journal env) (ret x))))))))"
    for k1 v1 and r1 :: "client_exn + dict" and k2 f k3 v3 and r2 :: "client_exn + string"
      and k4 g and x :: "dict flow"
    by (intro triples commits_write_journal assms)
  show ?thesis
    unfolding record_response_def
    by (auto split: json.split
        intro!: triples steady_attention [OF assms] commits_steady [OF commit])
qed

end

section \<open>Dispatching a recorded request\<close>

text \<open>
  The request \<open>_dispatch_pending\<close> sends is the pending one as soon as its body has the recorded
  digest.
\<close>

lemma pending_request_records:
  assumes "pending_request p body = Inr q" and "get j ''pending_request'' = JObj p"
    and "recorded_body env p body"
  shows "records env j q"
proof -
  from assms(1) obtain route path ps role where
    q: "q = \<lparr>q_route = route, q_path = ps, q_payload = body, q_role = role\<rparr>"
    and p: "get p ''route_id'' = JStr route" "get p ''path_parameters'' = JObj path"
      "get p ''credential_role'' = JStr role"
    and ps: "mapE (\<lambda>(k, v). bindE (text_coordinate v) (\<lambda>s. Inr (k, s))) path = Inr ps"
    by (auto simp: pending_request_def)
  from ps have "path = map (map_prod id JStr) ps"
    unfolding mapE_Inr_iff by (induction rule: list_all2_induct) auto
  with assms q p show ?thesis by (auto simp: records_def)
qed

lemma keeps_call_recorded:
  assumes "pending_request p body = Inr q"
    and "recorded_body env p body"
  shows "keeps (\<lambda>s. Sync env s \<and> get (journal s) ''pending_request'' = JObj p) (call env q)"
  unfolding keeps_def
proof (intro allI impI)
  fix s :: "'a client_state"
  assume s: "Sync env s \<and> get (journal s) ''pending_request'' = JObj p"
  then have sync: "Sync env s" and p: "get (journal s) ''pending_request'' = JObj p"
    by blast+
  from sync obtain op j where last: "last_journal None (trace s) = Some (op, j)"
    and same: "get j ''pending_request'' = get (journal s) ''pending_request''"
    unfolding Sync_def by blast
  have "records env j q"
    by (rule pending_request_records [OF assms(1) _ assms(2)]) (simp only: same p)
  then have ok: "event_ok env (last_journal None (trace s)) (Sent q)"
    unfolding event_ok_def last by auto
  have "Sync env (log_event (Sent q) s)"
    using sync ok last same unfolding Sync_def Inv_def log_event_def by simp
  then show "Sync env (snd (call env q s)) \<and>
      get (journal (snd (call env q s))) ''pending_request'' = JObj p"
    using p by (simp add: call_def log_event_def)
qed

lemma keeps_guarded_call:
  assumes "recorded_body env p body"
  shows "keeps (\<lambda>s. Sync env s \<and> get (journal s) ''pending_request'' = JObj p)
     (bindA (liftE (pending_request p body)) (\<lambda>q. next_value (call env q)))"
proof (cases "pending_request p body")
  case (Inl e)
  then show ?thesis by (simp add: keeps_raise)
next
  case (Inr q)
  then show ?thesis by (simp add: keeps_next_value keeps_call_recorded [OF Inr assms])
qed

context journal_store
begin

lemma steady_transport_handler:
  assumes "uses_store env rd cr wr"
  shows "steady env (case e of
            ClientTransportError _ \<Rightarrow>
              bindA (liftE (text_of p ''route_id'')) (\<lambda>route.
              return_value (attention_here env (unresolved_execution route)
                              (unresolved_advancement route) False))
          | _ \<Rightarrow> raise e)"
  by (cases e) (simp_all add: steady_raise steady_bind steady_lift steady_return_value
      steady_attention [OF assms])

lemma steady_response:
  assumes "uses_store env rd cr wr"
  shows "steady env (case f of Return r \<Rightarrow> ret (Return r) | Next response \<Rightarrow>
       bindA (liftE (text_of p ''route_id'')) (\<lambda>route.
       bindA (liftE (coordinates j)) (\<lambda>c.
       bindA (liftE (response_is_bound route response p body c (workspace_id env))) (\<lambda>bound.
       if bound then record_response env route p response
       else return_value (attention_here env (unresolved_execution route)
                            (unresolved_advancement route) False)))))"
proof (cases f)
  case (Return r)
  then show ?thesis by (simp add: steady_ret)
next
  case (Next response)
  show ?thesis
    unfolding Next flow.case
    by (intro steady_bind steady_lift steady_if steady_return_value
        steady_attention [OF assms] steady_record_response [OF assms])
qed

lemma triple_dispatch_pending:
  assumes "uses_store env rd cr wr"
  shows "triple
     (\<lambda>s. Sync env s \<and> (\<exists>p. get (journal s) ''pending_request'' = JObj p \<and> recorded_body env p body))
     (dispatch_pending env body) (\<lambda>_. Sync env) (\<lambda>_. Inv env)"
proof (rule triple_pointwise, elim conjE exE)
  fix s p
  assume s: "Sync env s" "get (journal s) ''pending_request'' = JObj p"
    and d: "recorded_body env p body"
  define J where "J = (\<lambda>s. Sync env s \<and> get (journal s) ''pending_request'' = JObj p)"
  have mapped: "mapping (journal s) ''pending_request'' = Inr p" using s by simp
  have "keeps J (bindA (liftE (pending_request p body)) (\<lambda>q. next_value (call env q)))"
    unfolding J_def by (rule keeps_guarded_call [OF d])
  then have call: "triple (\<lambda>t. t = s)
         (bindA (liftE (pending_request p body)) (\<lambda>q. next_value (call env q)))
         (\<lambda>_. Sync env) (\<lambda>_. Sync env)"
    unfolding keeps_triple by (rule triple_conseq) (simp_all add: J_def s)
  show "triple (\<lambda>t. t = s) (dispatch_pending env body) (\<lambda>_. Sync env) (\<lambda>_. Inv env)"
    unfolding dispatch_pending_def
    apply (rule triple_at_get, unfold mapped bindA_liftE bindF_def)
    apply (rule triple_bind [where R = "\<lambda>_. Sync env"])
     apply (rule triple_try [OF call])
     apply (rule steady_transport_handler [OF assms, unfolded steady_def])
    apply (rule steady_response [OF assms, unfolded steady_def])
    done
qed

end

section \<open>The composed operations\<close>

lemma triple_conj_keeps:
  assumes "triple P m Q E" and "keeps K m"
  shows "triple (\<lambda>s. P s \<and> K s) m (\<lambda>x s. Q x s \<and> K s) E"
  using assms unfolding triple_def keeps_def
  by (fastforce split: prod.splits sum.splits)

lemma keeps_journal_write_journal: "keeps (\<lambda>s. K (journal s)) (write_journal env)"
  unfolding write_journal_def
  by (intro keeps_bind keeps_get keeps_lift)
     (auto simp: keeps_def write_with_def log_event_def split: prod.splits sum.splits)

lemma triple_load_journal:
  assumes "\<And>op st j st'. store_read env op st = (Inr j, st') \<Longrightarrow> validate_journal (JObj j) op = Inr ()"
  shows "triple (Inv env) (load_journal env op) (\<lambda>_. Sync env) (\<lambda>_. Inv env)"
proof (rule tripleI)
  fix s :: "'a client_state" and x s'
  assume s: "Inv env s" "load_journal env op s = (Inr x, s')"
  then obtain j st where r: "store_read env op (store s) = (Inr j, st)"
    and s': "s' = (log_event (Loaded op j) (s\<lparr>store := st\<rparr>))\<lparr>journal := j\<rparr>"
    by (auto simp: load_journal_def bindA_def action_simps split: prod.splits sum.splits if_splits)
  show "Sync env s'"
    using s assms [OF r] by (auto simp: s' Sync_def Inv_def log_event_def event_ok_def)
next
  fix s :: "'a client_state" and e s'
  assume s: "Inv env s" "load_journal env op s = (Inl e, s')"
  show "Inv env s'"
  proof (cases "store_read env op (store s)")
    case (Pair r st)
    show ?thesis
    proof (cases r)
      case (Inl e')
      with s Pair show ?thesis
        by (auto simp: load_journal_def bindA_def Inv_def)
    next
      case (Inr j)
      with Pair have "validate_journal (JObj j) op = Inr ()" by (auto intro: assms)
      with s Pair Inr show ?thesis
        by (auto simp: load_journal_def bindA_def action_simps Inv_def log_event_def event_ok_def
            split: sum.splits if_splits)
    qed
  qed
qed

lemma keeps_on_store [triples]: "keeps (Inv env) (on_store f)"
  by (auto simp: keeps_def on_store_def split: prod.split)

lemma keeps_with_lock: "keeps (Inv env) m \<Longrightarrow> keeps (Inv env) (with_lock env op m)"
  unfolding with_lock_def by (intro triples)

lemma triple_bindF:
  assumes "triple P m (\<lambda>f s. case f of Return r \<Rightarrow> Q (Return r) s | Next x \<Rightarrow> R x s) E"
    and "\<And>x. triple (R x) (k x) Q E"
  shows "triple P (bindF m k) Q E"
  unfolding bindF_def
  by (rule triple_bind [OF assms(1)]) (auto split: flow.split intro!: triple_ret assms(2))

context journal_store
begin

lemma steady_mutate:
  assumes "uses_store env rd cr wr"
  shows "steady env (mutate env route path body role source)"
proof (cases "canonical_digest (float_repr env) (sha256 env) body")
  case (Inl e)
  then show ?thesis
    unfolding mutate_def
    by (auto intro!: steady_bind steady_get steady_lift steady_raise steady_return_value
        steady_attention [OF assms])
next
  case (Inr d)
  have send: "steady env (thenA (put ''pending_request'' (JObj p))
      (thenA (write_journal env) (dispatch_pending env body)))"
    if "recorded_body env p body" for p
  proof -
    define K where "K = (\<lambda>j. get j ''pending_request'' = JObj p)"
    have "triple (Sync env) (put ''pending_request'' (JObj p))
        (\<lambda>_ s. Inv env s \<and> K (journal s)) (\<lambda>_. Inv env)"
      unfolding put_def
      by (rule triple_mod) (simp add: Sync_def Inv_def K_def dict_simps)
    moreover have "triple (\<lambda>s. Inv env s \<and> K (journal s)) (write_journal env)
        (\<lambda>_ s. Sync env s \<and> K (journal s)) (\<lambda>_. Inv env)"
      by (rule triple_conj_keeps [OF commits_write_journal [OF assms, unfolded commits_def]
            keeps_journal_write_journal])
    moreover have "triple (\<lambda>s. Sync env s \<and> K (journal s)) (dispatch_pending env body)
        (\<lambda>_. Sync env) (\<lambda>_. Inv env)"
      by (rule triple_pre [OF triple_dispatch_pending [OF assms]])
         (use that in \<open>auto simp: K_def\<close>)
    ultimately show ?thesis
      unfolding steady_def by (blast intro: triple_bind)
  qed
  show ?thesis
    unfolding mutate_def Inr bindA_liftE
    by (intro steady_bind steady_get steady_lift steady_if steady_return_value
        steady_attention [OF assms] steady_raise steady_ret send)
       (use Inr in \<open>simp_all add: recorded_body_def get_def\<close>)
qed

lemma triple_replay_checked:
  assumes "uses_store env rd cr wr"
    and "get p ''route_id'' \<noteq> JStr ''command.deployment.prepare'' \<Longrightarrow> get p ''body'' = JObj body"
  shows "triple (\<lambda>s. Sync env s \<and> get (journal s) ''pending_request'' = JObj p)
     (replay_checked env p body) (\<lambda>_. Sync env) (\<lambda>_. Inv env)"
proof (cases "canonical_digest (float_repr env) (sha256 env) body")
  case (Inl e)
  then show ?thesis
    unfolding replay_checked_def by (auto intro!: triple_raise intro: Sync_Inv)
next
  case (Inr d)
  have "triple (\<lambda>s. Sync env s \<and> get (journal s) ''pending_request'' = JObj p)
      (dispatch_pending env body) (\<lambda>_. Sync env) (\<lambda>_. Inv env)" if "get p ''body_sha256'' = JStr d"
    by (rule triple_pre [OF triple_dispatch_pending [OF assms(1)]])
       (use that Inr assms(2) in \<open>auto simp: recorded_body_def\<close>)
  moreover have "triple (\<lambda>s. Sync env s \<and> get (journal s) ''pending_request'' = JObj p)
      (return_value (attention_here env ''unverified'' ''not-attempted'' True))
      (\<lambda>_. Sync env) (\<lambda>_. Inv env)"
    by (rule triple_pre
        [OF steady_return_value [OF steady_attention(2) [OF assms(1)], unfolded steady_def]]) simp
  ultimately show ?thesis unfolding replay_checked_def Inr bindA_liftE by auto
qed

lemma triple_replay_body:
  assumes "uses_store env rd cr wr" and "get p ''body'' = JObj body"
  shows "triple (\<lambda>s. Sync env s \<and> get (journal s) ''pending_request'' = JObj p)
     (replay_body env p body)
     (\<lambda>f s. case f of Return r \<Rightarrow> Sync env s
          | Next b \<Rightarrow>
              (Sync env s \<and> get (journal s) ''pending_request'' = JObj p) \<and>
              (get p ''route_id'' \<noteq> JStr ''command.deployment.prepare'' \<longrightarrow> get p ''body'' = JObj b))
     (\<lambda>_. Inv env)" (is "triple ?J _ ?Q _")
proof -
  have stop: "triple ?J (return_value (attention env ex ad nx True)) ?Q (\<lambda>_. Inv env)" for ex ad nx
  proof -
    have "triple ?J (attention env ex ad nx True) (\<lambda>_. Sync env) (\<lambda>_. Inv env)"
      by (rule triple_pre [OF steady_attention(1) [OF assms(1), unfolded steady_def]]) simp
    then show ?thesis
      unfolding return_value_def by (rule triple_bind) (auto intro!: triple_ret)
  qed
  show ?thesis
    unfolding replay_body_def
    by (intro triple_if triple_bind_lift stop triple_ret) (use assms(2) in \<open>auto intro: Sync_Inv\<close>)
qed

lemma steady_replay_pending:
  assumes "uses_store env rd cr wr"
  shows "steady env (replay_pending env)"
  unfolding steady_def
proof (rule triple_pointwise)
  fix s assume s: "Sync env s"
  define j where "j = journal s"
  have rest: "triple (\<lambda>t. t = s) (bindA (liftE (mapping p ''body'')) (\<lambda>body.
      bindF (replay_body env p body) (replay_checked env p))) (\<lambda>_. Sync env) (\<lambda>_. Inv env)"
    if that_p: "get (journal s) ''pending_request'' = JObj p" for p
  proof -
    have "triple (\<lambda>s. Sync env s \<and> get (journal s) ''pending_request'' = JObj p)
        (bindF (replay_body env p body) (replay_checked env p)) (\<lambda>_. Sync env) (\<lambda>_. Inv env)"
      if body: "get p ''body'' = JObj body" for body
      by (rule triple_bindF [OF triple_conseq [OF triple_replay_body [OF assms body]]
            triple_pointwise])
         (auto split: flow.splits intro: triple_pre [OF triple_replay_checked [OF assms]])
    note body = this
    have "triple (\<lambda>t. t = s)
        (bindF (replay_body env p body) (replay_checked env p)) (\<lambda>_. Sync env) (\<lambda>_. Inv env)"
      if "get p ''body'' = JObj body" for body
      by (rule triple_pre [OF body [OF that]]) (simp add: s that_p)
    then have run: "triple (\<lambda>t. t = s)
        (bindF (replay_body env p body) (replay_checked env p)) (\<lambda>_. Sync env) (\<lambda>_. Inv env)"
      if "mapping p ''body'' = Inr body" for body
      using that by simp
    show ?thesis
    proof (cases "mapping p ''body''")
      case (Inl e)
      then show ?thesis by (auto intro!: triple_raise Sync_Inv [OF s])
    next
      case (Inr body)
      show ?thesis unfolding Inr bindA_liftE by (rule run [OF Inr])
    qed
  qed
  have "item j ''pending_request'' = Inr v \<Longrightarrow> get j ''pending_request'' = v" for v
    by (auto simp: item_def get_def split: option.splits)
  note item_get = this
  show "triple (\<lambda>t. t = s) (replay_pending env) (\<lambda>_. Sync env) (\<lambda>_. Inv env)"
  proof (cases "item (journal s) ''pending_request''")
    case (Inl e)
    then show ?thesis
      unfolding replay_pending_def
      by (intro triple_at_get) (auto intro!: triple_raise Sync_Inv [OF s])
  next
    case (Inr v)
    show ?thesis
    proof (cases v)
      case (JObj p)
      then have "get (journal s) ''pending_request'' = JObj p"
        using Inr item_get by (simp add: j_def)
      then show ?thesis
        unfolding replay_pending_def
        by (intro triple_at_get) (use rest Inr JObj in \<open>simp\<close>)
    qed (use Inr in \<open>auto simp: replay_pending_def intro!: triple_at_get triple_raise Sync_Inv [OF s]\<close>)
  qed
qed

section \<open>Every stage keeps the agreement\<close>

lemma steady_set_coordinate [triples]:
  "steady env (modA (\<lambda>s. s\<lparr>journal := set_coordinate n v (journal s)\<rparr>))"
proof -
  have "get (set_coordinate n v j) ''pending_request'' = get j ''pending_request''" for j
    by (auto simp: set_coordinate_def put_coordinates_def get_def dict_simps split: json.split)
  then show ?thesis
    by (intro keeps_steady) (simp add: keeps_def action_simps Sync_def Inv_def)
qed

lemma steady_record_texts [triples]: "steady env (record_texts ns plan)"
  by (induction ns plan rule: record_texts.induct) (auto intro!: triples)

lemma steady_record_plan_coordinates [triples]: "steady env (record_plan_coordinates plan)"
  unfolding record_plan_coordinates_def by (intro triples)

lemmas steady_writes =
  steady_attention steady_mutate steady_replay_pending
  commits_steady [OF commits_write_journal]

lemma steady_prepared_plan:
  assumes "uses_store env rd cr wr"
  shows "steady env (prepared_plan env plan_id)"
  unfolding prepared_plan_def
  by (intro triples keeps_reads steady_writes assms read_stable_Sync)

lemma steady_prepared_approval:
  assumes "uses_store env rd cr wr"
  shows "steady env (prepared_approval env plan)"
  unfolding prepared_approval_def
  by (intro triples keeps_reads steady_writes assms read_stable_Sync)

lemma steady_finish_prepare:
  assumes "uses_store env rd cr wr"
  shows "steady env (finish_prepare env prepared)"
  unfolding finish_prepare_def
  by (intro triples steady_prepared_plan steady_prepared_approval steady_writes assms)
     (auto intro!: triples steady_prepared_plan steady_prepared_approval steady_writes assms)

lemma steady_apply_plan_detail:
  assumes "uses_store env rd cr wr"
  shows "steady env (apply_plan_detail env plan_id)"
  unfolding apply_plan_detail_def
  by (intro triples keeps_reads steady_writes assms read_stable_Sync)

lemma steady_apply_record_plan:
  assumes "uses_store env rd cr wr"
  shows "steady env (apply_record_plan env op plan)"
proof -
  have "steady env (write_with (store_write env) op)"
    using assms unfolding uses_store_def
    by (auto intro!: commits_steady commits_write_with write_valid)
  then show ?thesis unfolding apply_record_plan_def by (intro triples)
qed

lemma steady_confirm_pending:
  assumes "uses_store env rd cr wr"
  shows "steady env (confirm_pending env args plan_id route approval)"
  unfolding confirm_pending_def Let_def by (intro triples steady_writes assms)

lemma steady_apply_approval:
  assumes "uses_store env rd cr wr"
  shows "steady env (apply_approval env args plan plan_id route aid)"
  unfolding apply_approval_def
  by (intro triples keeps_reads steady_writes steady_confirm_pending assms read_stable_Sync)

lemma steady_apply_progress:
  assumes "uses_store env rd cr wr"
  shows "steady env (apply_progress env pending)"
  unfolding apply_progress_def
  by (intro triples keeps_steady [OF keeps_public_status] steady_writes assms read_stable_Sync)

lemma steady_apply_replay:
  assumes "uses_store env rd cr wr"
  shows "steady env (apply_replay env pending)"
  unfolding apply_replay_def by (intro triples steady_writes assms)

lemma steady_apply_decide:
  assumes "uses_store env rd cr wr"
  shows "steady env (apply_decide env plan route aid pending)"
  unfolding apply_decide_def by (intro triples steady_writes assms)

lemma steady_apply_admit:
  assumes "uses_store env rd cr wr"
  shows "steady env (apply_admit env plan plan_id aid)"
  unfolding apply_admit_def by (intro triples steady_writes assms)

lemma steady_apply_claim:
  assumes "uses_store env rd cr wr"
  shows "steady env (apply_claim env)"
  unfolding apply_claim_def by (intro triples steady_writes assms)

lemma steady_apply_run [triples]: "steady env apply_run"
  unfolding apply_run_def by (intro triples)

lemma steady_apply_start:
  assumes "uses_store env rd cr wr"
  shows "steady env (apply_start env run_id g)"
  unfolding apply_start_def by (intro triples steady_writes assms)

lemma steady_execute_loop:
  assumes "uses_store env rd cr wr"
  shows "steady env (execute_loop env run_id g n)"
  by (induction n) (auto intro!: triples steady_writes assms)

lemma steady_apply_execute:
  assumes "uses_store env rd cr wr"
  shows "steady env (apply_execute env run_id g)"
  unfolding apply_execute_def by (intro triples steady_execute_loop assms)

lemma steady_apply_advance:
  assumes "uses_store env rd cr wr"
  shows "steady env (apply_advance env plan plan_id run_id g)"
  unfolding apply_advance_def
  by (intro triples keeps_reads steady_writes assms read_stable_Sync)
     (auto split: option.split intro!: triples steady_writes assms)

lemma steady_apply_converge:
  assumes "uses_store env rd cr wr"
  shows "steady env (apply_converge env op plan)"
proof -
  have "steady env (write_with (store_write env) op)"
    using assms unfolding uses_store_def
    by (auto intro!: commits_steady commits_write_with write_valid)
  then show ?thesis
    unfolding apply_converge_def
    by (intro triples keeps_reads steady_writes assms read_stable_Sync) simp_all
qed

lemmas steady_stages =
  steady_apply_plan_detail steady_apply_record_plan steady_apply_approval steady_apply_progress
  steady_apply_replay steady_apply_decide steady_apply_admit steady_apply_claim steady_apply_start
  steady_apply_execute steady_apply_advance steady_apply_converge

lemma steady_apply_stages:
  assumes "uses_store env rd cr wr"
  shows "steady env (apply_stages env op args pending plan_id plan)"
  unfolding apply_stages_def Let_def
  by (intro triples steady_stages assms) (auto intro!: triples steady_stages assms)

text \<open>Opening an operation, from disk or by creating it, establishes the agreement.\<close>

lemma keeps_opened:
  assumes "commits env m" and "steady env n"
  shows "keeps (Inv env) (thenA m n)"
  using assms unfolding keeps_triple commits_def steady_def
  by (intro triple_bind) (auto elim!: triple_conseq intro: Sync_Inv)

lemma commits_load_journal:
  assumes "uses_store env rd cr wr"
  shows "commits env (load_journal env op)"
  using assms unfolding commits_def uses_store_def
  by (auto intro!: triple_load_journal read_valid)

lemma read_stable_Inv [simp]: "read_stable (Inv env)"
  by (auto simp: read_stable_def Inv_def log_event_def event_ok_def)

lemma keeps_new_identity [triples]: "keeps (Inv env) (new_identity env)"
  by (auto simp: keeps_def new_identity_def Inv_def)

lemma keeps_plan_operation:
  assumes "uses_store env rd cr wr"
  shows "keeps (Inv env) (plan_operation env path title)"
proof -
  have create: "commits env (write_with (store_create env) op)" for op
    using assms unfolding uses_store_def by (auto intro!: commits_write_with create_valid)
  have journal: "keeps (Inv env) (modA (\<lambda>s. s\<lparr>journal := j\<rparr>))" for j
    by (rule keeps_mod) (simp add: Inv_def)
  have body: "keeps (Inv env) (with_lock env op (thenA (write_with (store_create env) op)
      (finish (bindF (mutate env r p b ro so) (finish_prepare env)))))" for op r p b ro so
    by (intro keeps_with_lock keeps_opened create triples steady_writes steady_finish_prepare assms)
  show ?thesis
    unfolding plan_operation_def
    by (auto intro!: triples keeps_reads journal body split: option.split)
qed

lemma keeps_resume_prepare:
  assumes "uses_store env rd cr wr"
  shows "keeps (Inv env) (resume_prepare env ref)"
  unfolding resume_prepare_def
  by (intro keeps_bind keeps_lift keeps_with_lock keeps_opened commits_load_journal assms)
     (auto intro!: triples steady_writes steady_finish_prepare assms split: json.split)

lemma keeps_apply_operation:
  assumes "uses_store env rd cr wr"
  shows "keeps (Inv env) (apply_operation env ref args)"
  unfolding apply_operation_def apply_locked_def
  by (intro keeps_bind keeps_lift keeps_if keeps_raise keeps_with_lock keeps_opened
      commits_load_journal assms)
     (intro triples steady_stages steady_apply_stages assms)

lemma keeps_status_operation:
  assumes "uses_store env rd cr wr"
  shows "keeps (Inv env) (status_operation env ref)"
  unfolding status_operation_def
  by (intro keeps_bind keeps_lift keeps_opened commits_load_journal assms
      keeps_steady [OF keeps_public_status] read_stable_Sync)

text \<open>
  The four operations of the client, as one: whatever the server answers, every mutation in the
  trace was recorded by a validated journal before it was sent.
\<close>

lemma operations_keep_Inv:
  assumes "uses_store env rd cr wr"
    and "m \<in> {plan_operation env path title, resume_prepare env ref, apply_operation env ref args,
               status_operation env ref}"
    and "trace s = []" and "m s = (r, s')"
  shows "trace_ok env None (trace s')"
proof -
  have "keeps (Inv env) m"
    using assms(1,2) by (auto intro: keeps_plan_operation keeps_resume_prepare
        keeps_apply_operation keeps_status_operation)
  moreover have "Inv env s" using assms(3) by (simp add: Inv_def)
  ultimately show ?thesis using assms(4) by (metis keepsD Inv_def)
qed

end

section \<open>What a recorded mutation looks like\<close>

text \<open>The pending request of a valid journal, taken apart.\<close>

lemma valid_pending_request:
  assumes "validate_journal (JObj j) op = Inr ()" and "get j ''pending_request'' = JObj p"
  obtains route phase target desired c path body where
    "get j ''phase'' = JStr phase" and "get j ''target'' = JObj target"
    and "get j ''desired'' = JObj desired" and "get j ''coordinates'' = JObj c"
    and "get p ''route_id'' = JStr route" and "route \<in> set (keys MUTATION_ROLES)"
    and "get p ''credential_role'' = JStr (the (map_of MUTATION_ROLES route))"
    and "phase \<in> set (table PENDING_PHASES route)"
    and "is_uuid4 (get p ''idempotency_key'')"
    and "get p ''path_parameters'' = JObj path" and "get p ''body'' = JObj body"
    and "py_eq (get body ''idempotency_key'') (get p ''idempotency_key'')"
    and "keys_are path (table path_keys route)"
    and "py_eq (get path ''workspace_id'') (get target ''workspace_id'')"
    and "route \<noteq> ''command.deployment.prepare'' \<Longrightarrow> pending_bound route path body c"
    and "validate_phase phase c = Inr ()"
proof -
  obtain target desired phase c where j:
    "get j ''phase'' = JStr phase" "get j ''target'' = JObj target"
    "get j ''desired'' = JObj desired" "get j ''coordinates'' = JObj c"
    "validate_phase phase c = Inr ()"
    and v: "validate_pending (JObj p) phase target desired c = Inr ()"
    using assms by (auto simp: validate_journal_def)
  then show ?thesis
    using that [OF j(1-4)] unfolding validate_pending_def
    by (auto split: if_splits)
qed

lemma records_valid:
  assumes "trace_ok env None (pre @ Sent q # post)" and "is_mutation q"
  obtains op j where "last_journal None pre = Some (op, j)"
    and "validate_journal (JObj j) op = Inr ()" and "records env j q"
proof -
  obtain op j where j: "last_journal None pre = Some (op, j)" "records env j q"
    using trace_okD [OF assms] by blast
  moreover have "trace_ok env None pre" using assms(1) by simp
  ultimately show ?thesis using last_journal_valid that by blast
qed

end
