(* ===== verification/FileSystem.thy ===== *)
theory FileSystem
  imports Prelude "HOL-Library.Word"
begin

unbundle bit_operations_syntax

text \<open>
  The part of POSIX the program's private files rest on: \<open>client/journal.py\<close> and
  \<open>client/profile.py\<close> call \<open>os.open\<close>, \<open>os.fstat\<close>, \<open>os.link\<close>,
  \<open>os.replace\<close>, \<open>fcntl.flock\<close> and so on directly.

  A path is the list of its components below the root directory.  A directory entry names an inode,
  an inode holds kind, owner, mode and data.  One device is modelled, so the identity
  \<open>(st_dev, st_ino)\<close> is the inode number.  Every system call is one step: before it, other
  processes may have changed the file system (\<open>world\<close>), then it may fail for a reason outside
  the model (\<open>fault\<close>), and a read or a write may transfer fewer bytes than asked
  (\<open>transfer\<close>).  A lock belongs to an open file description of this process or to another
  process (\<open>None\<close>).  \<open>history\<close> records the file system after every step: it is what a crash
  or a concurrent reader can observe.
\<close>

section \<open>Inodes and names\<close>

datatype os_error = ENOENT | EEXIST | EWOULDBLOCK | EOTHER

type_synonym path = "string list"
type_synonym mode = "12 word"

datatype kind = Regular | Directory | Symlink path | Special

record inode =
  i_kind :: kind
  i_uid :: nat
  i_mode :: mode
  i_data :: string
  i_mtime :: nat

record file_system =
  names :: "path \<Rightarrow> nat option"
  inodes :: "nat \<Rightarrow> inode"
  next_ino :: nat
  locked :: "(nat \<times> nat option) list"

text \<open>
  The kernel's walk along a path: \<open>cur\<close> has been resolved.  Symbolic links on the way are
  followed, at most \<open>n\<close> of them; the last component is followed only when asked for
  (\<open>O_NOFOLLOW\<close> and \<open>lstat\<close> do not).
\<close>

fun walk :: "file_system \<Rightarrow> bool \<Rightarrow> nat \<Rightarrow> path \<Rightarrow> path \<Rightarrow> os_error + path" where
  "walk f follow n cur [] = Inr cur"
| "walk f follow n cur (c # rest) =
     (if rest = [] \<and> \<not> follow then Inr (cur @ [c])
      else
        (case names f (cur @ [c]) of
           None \<Rightarrow> if rest = [] then Inr (cur @ [c]) else Inl ENOENT
         | Some i \<Rightarrow>
             (case i_kind (inodes f i) of
                Symlink target \<Rightarrow>
                  (case n of 0 \<Rightarrow> Inl EOTHER | Suc m \<Rightarrow> walk f follow m [] (target @ rest))
              | Directory \<Rightarrow> walk f follow n (cur @ [c]) rest
              | _ \<Rightarrow> if rest = [] then Inr (cur @ [c]) else Inl EOTHER)))"

definition SYMLOOP_MAX :: nat where "SYMLOOP_MAX = 40"

definition at_path :: "file_system \<Rightarrow> bool \<Rightarrow> path \<Rightarrow> os_error + path" where
  "at_path f follow p = walk f follow SYMLOOP_MAX [] p"

definition ino_at :: "file_system \<Rightarrow> bool \<Rightarrow> path \<Rightarrow> os_error + nat" where
  "ino_at f follow p =
     bindE (at_path f follow p) (\<lambda>q. case names f q of None \<Rightarrow> Inl ENOENT | Some i \<Rightarrow> Inr i)"

definition is_directory :: "file_system \<Rightarrow> path \<Rightarrow> bool" where
  "is_directory f q \<longleftrightarrow>
     (case names f q of None \<Rightarrow> False | Some i \<Rightarrow> i_kind (inodes f i) = Directory)"

text \<open>Every proper prefix of the path is a real directory.\<close>

definition plain_path :: "file_system \<Rightarrow> path \<Rightarrow> bool" where
  "plain_path f p \<longleftrightarrow>
     (\<forall>k \<in> {0<..<length p}. is_directory f (take k p))"

lemma walk_plain:
  assumes "\<forall>k \<in> {0<..<length p}. is_directory f (cur @ take k p)"
  shows "walk f False n cur p = Inr (cur @ p)"
  using assms
proof (induction p arbitrary: cur)
  case Nil
  then show ?case by simp
next
  case (Cons c p)
  show ?case
  proof (cases "p = []")
    case False
    then have "1 \<in> {0<..<length (c # p)}" by (cases p) auto
    with Cons.prems have d: "is_directory f (cur @ [c])"
      by (metis One_nat_def take_Suc_Cons take_0)
    have "\<forall>k \<in> {0<..<length p}. is_directory f ((cur @ [c]) @ take k p)"
    proof
      fix k assume "k \<in> {0<..<length p}"
      then have "Suc k \<in> {0<..<length (c # p)}" by auto
      with Cons.prems show "is_directory f ((cur @ [c]) @ take k p)"
        by (metis append.assoc append_Cons append_Nil take_Suc_Cons)
    qed
    from Cons.IH [OF this] False d show ?thesis
      by (auto simp: is_directory_def split: option.splits)
  qed simp
qed

lemma at_path_plain: "plain_path f p \<Longrightarrow> at_path f False p = Inr p"
  unfolding at_path_def plain_path_def using walk_plain [of p f "[]"] by simp

section \<open>System calls\<close>

text \<open>An exception of a function that calls the system: an \<open>OSError\<close> or one of its own.\<close>

datatype 'e os_exn = OSErr os_error | Exn 'e

record os_env =
  my_uid :: nat
  umask :: mode
  world :: "nat \<Rightarrow> file_system \<Rightarrow> file_system"
  fault :: "nat \<Rightarrow> bool"
  transfer :: "nat \<Rightarrow> nat"

text \<open>
  A descriptor is an open file description: the inode and the moment it was opened.  Its offset is
  passed by the caller.
\<close>

type_synonym descriptor = "nat \<times> nat"

record os =
  fs :: file_system
  clock :: nat
  descriptors :: "descriptor list"
  history :: "file_system list"

type_synonym ('e, 'a) os_action = "(os, 'e os_exn, 'a) action"

definition begin_call :: "os_env \<Rightarrow> os \<Rightarrow> os" where
  "begin_call env s = s\<lparr>fs := world env (clock s) (fs s), clock := clock s + 1\<rparr>"

definition observed :: "os \<Rightarrow> os" where
  "observed s = s\<lparr>history := history s @ [fs s]\<rparr>"

definition syscall :: "os_env \<Rightarrow> (os \<Rightarrow> (os_error + 'a) \<times> os) \<Rightarrow> ('e, 'a) os_action" where
  "syscall env f =
     (\<lambda>s. let s1 = begin_call env s in
        if fault env (clock s) then (Inl (OSErr EOTHER), observed s1)
        else
          (case f s1 of
             (Inl e, s2) \<Rightarrow> (Inl (OSErr e), observed s2)
           | (Inr x, s2) \<Rightarrow> (Inr x, observed s2)))"

record stat =
  st_ino :: nat
  st_kind :: kind
  st_uid :: nat
  st_mode :: mode
  st_size :: nat
  st_mtime :: nat

definition stat_of :: "file_system \<Rightarrow> nat \<Rightarrow> stat" where
  "stat_of f i =
     \<lparr>st_ino = i, st_kind = i_kind (inodes f i), st_uid = i_uid (inodes f i),
      st_mode = i_mode (inodes f i), st_size = length (i_data (inodes f i)),
      st_mtime = i_mtime (inodes f i)\<rparr>"

text \<open>\<open>os.lstat\<close> and \<open>os.stat\<close>, which follows a final symbolic link.\<close>

definition sys_stat :: "os_env \<Rightarrow> bool \<Rightarrow> path \<Rightarrow> ('e, stat) os_action" where
  "sys_stat env follow p =
     syscall env (\<lambda>s. (bindE (ino_at (fs s) follow p) (\<lambda>i. Inr (stat_of (fs s) i)), s))"

abbreviation sys_lstat :: "os_env \<Rightarrow> path \<Rightarrow> ('e, stat) os_action" where
  "sys_lstat env \<equiv> sys_stat env False"

definition sys_fstat :: "os_env \<Rightarrow> descriptor \<Rightarrow> ('e, stat) os_action" where
  "sys_fstat env d = syscall env (\<lambda>s. (Inr (stat_of (fs s) (fst d)), s))"

definition opened :: "nat \<Rightarrow> os \<Rightarrow> (os_error + descriptor) \<times> os" where
  "opened i s = (Inr (i, clock s), s\<lparr>descriptors := (i, clock s) # descriptors s\<rparr>)"

definition is_link :: "file_system \<Rightarrow> nat \<Rightarrow> bool" where
  "is_link f i \<longleftrightarrow> (case i_kind (inodes f i) of Symlink _ \<Rightarrow> True | _ \<Rightarrow> False)"

text \<open>\<open>os.open(p, O_RDONLY)\<close>, with \<open>O_NOFOLLOW\<close> unless \<open>follow\<close>.\<close>

definition sys_open :: "os_env \<Rightarrow> bool \<Rightarrow> path \<Rightarrow> ('e, descriptor) os_action" where
  "sys_open env follow p = syscall env (\<lambda>s.
     case ino_at (fs s) follow p of
       Inl e \<Rightarrow> (Inl e, s)
     | Inr i \<Rightarrow> if is_link (fs s) i then (Inl EOTHER, s) else opened i s)"

definition parent_is_directory :: "file_system \<Rightarrow> path \<Rightarrow> bool" where
  "parent_is_directory f q \<longleftrightarrow> butlast q = [] \<or> is_directory f (butlast q)"

text \<open>A new entry for a new inode.\<close>

definition new_entry :: "os_env \<Rightarrow> kind \<Rightarrow> mode \<Rightarrow> path \<Rightarrow> os \<Rightarrow> os" where
  "new_entry env k m q s =
     (let f = fs s; i = next_ino f in
      s\<lparr>fs := f\<lparr>names := (names f)(q \<mapsto> i),
                inodes := (inodes f)(i := \<lparr>i_kind = k, i_uid = my_uid env,
                             i_mode = m AND NOT (umask env), i_data = [], i_mtime = clock s\<rparr>),
                next_ino := i + 1\<rparr>\<rparr>)"

text \<open>\<open>os.open(p, O_CREAT | O_EXCL | O_NOFOLLOW, m)\<close>.\<close>

definition sys_create :: "os_env \<Rightarrow> path \<Rightarrow> mode \<Rightarrow> ('e, descriptor) os_action" where
  "sys_create env p m = syscall env (\<lambda>s.
     case at_path (fs s) False p of
       Inl e \<Rightarrow> (Inl e, s)
     | Inr q \<Rightarrow>
         if names (fs s) q \<noteq> None then (Inl EEXIST, s)
         else if \<not> parent_is_directory (fs s) q then (Inl ENOENT, s)
         else opened (next_ino (fs s)) (new_entry env Regular m q s))"

text \<open>\<open>os.open(p, O_RDWR | O_CREAT | O_NOFOLLOW, m)\<close>.\<close>

definition sys_open_create :: "os_env \<Rightarrow> path \<Rightarrow> mode \<Rightarrow> ('e, descriptor) os_action" where
  "sys_open_create env p m = syscall env (\<lambda>s.
     case at_path (fs s) False p of
       Inl e \<Rightarrow> (Inl e, s)
     | Inr q \<Rightarrow>
         (case names (fs s) q of
            Some i \<Rightarrow>
              if is_link (fs s) i \<or> i_kind (inodes (fs s) i) = Directory then (Inl EOTHER, s)
              else opened i s
          | None \<Rightarrow>
              if \<not> parent_is_directory (fs s) q then (Inl ENOENT, s)
              else opened (next_ino (fs s)) (new_entry env Regular m q s)))"

definition sys_mkdir :: "os_env \<Rightarrow> path \<Rightarrow> mode \<Rightarrow> ('e, unit) os_action" where
  "sys_mkdir env p m = syscall env (\<lambda>s.
     case at_path (fs s) False p of
       Inl e \<Rightarrow> (Inl e, s)
     | Inr q \<Rightarrow>
         if q = [] \<or> names (fs s) q \<noteq> None then (Inl EEXIST, s)
         else if \<not> parent_is_directory (fs s) q then (Inl ENOENT, s)
         else (Inr (), new_entry env Directory m q s))"

text \<open>A read returns at least one byte before the end of the file, a write may transfer none.\<close>

definition sys_read :: "os_env \<Rightarrow> descriptor \<Rightarrow> nat \<Rightarrow> nat \<Rightarrow> ('e, string) os_action" where
  "sys_read env d off n = syscall env (\<lambda>s.
     (Inr (take (min n (max 1 (transfer env (clock s)))) (drop off (i_data (inodes (fs s) (fst d))))), s))"

definition set_data :: "nat \<Rightarrow> string \<Rightarrow> os \<Rightarrow> os" where
  "set_data i b s =
     (let f = fs s in
      s\<lparr>fs := f\<lparr>inodes := (inodes f)(i := (inodes f i)\<lparr>i_data := b, i_mtime := clock s\<rparr>)\<rparr>\<rparr>)"

definition sys_write :: "os_env \<Rightarrow> descriptor \<Rightarrow> nat \<Rightarrow> string \<Rightarrow> ('e, nat) os_action" where
  "sys_write env d off b = syscall env (\<lambda>s.
     let k = min (length b) (transfer env (clock s)); old = i_data (inodes (fs s) (fst d)) in
     (Inr k, set_data (fst d) (take off old @ take k b @ drop (off + k) old) s))"

definition sys_fsync :: "os_env \<Rightarrow> descriptor \<Rightarrow> ('e, unit) os_action" where
  "sys_fsync env d = syscall env (\<lambda>s. (Inr (), s))"

text \<open>
  The descriptor is released, with its lock, also when \<open>close\<close> reports an error; closing it a
  second time is an error.
\<close>

definition unflock :: "descriptor \<Rightarrow> os \<Rightarrow> os" where
  "unflock d s = s\<lparr>fs := (fs s)\<lparr>locked := filter (\<lambda>l. l \<noteq> (fst d, Some (snd d))) (locked (fs s))\<rparr>\<rparr>"

definition sys_close :: "os_env \<Rightarrow> descriptor \<Rightarrow> ('e, unit) os_action" where
  "sys_close env d =
     (\<lambda>s. if d \<in> set (descriptors s)
         then syscall env (\<lambda>s. (Inr (), s)) (unflock d (s\<lparr>descriptors := remove1 d (descriptors s)\<rparr>))
         else syscall env (\<lambda>s. (Inl EOTHER, s)) s)"

definition set_name :: "path \<Rightarrow> nat option \<Rightarrow> os \<Rightarrow> os" where
  "set_name p i s = (let f = fs s in s\<lparr>fs := f\<lparr>names := (names f)(p := i)\<rparr>\<rparr>)"

text \<open>\<open>os.link(src, dst, follow_symlinks=False)\<close>: never over an existing entry.\<close>

definition sys_link :: "os_env \<Rightarrow> path \<Rightarrow> path \<Rightarrow> ('e, unit) os_action" where
  "sys_link env src dst = syscall env (\<lambda>s.
     case ino_at (fs s) False src of
       Inl e \<Rightarrow> (Inl e, s)
     | Inr i \<Rightarrow>
         (case at_path (fs s) False dst of
            Inl e \<Rightarrow> (Inl e, s)
          | Inr q \<Rightarrow>
              if names (fs s) q \<noteq> None then (Inl EEXIST, s)
              else if \<not> parent_is_directory (fs s) q then (Inl ENOENT, s)
              else (Inr (), set_name q (Some i) s)))"

text \<open>\<open>os.replace(src, dst)\<close> of a file: one step, and nothing at all between two names of one file.\<close>

definition sys_replace :: "os_env \<Rightarrow> path \<Rightarrow> path \<Rightarrow> ('e, unit) os_action" where
  "sys_replace env src dst = syscall env (\<lambda>s.
     case (at_path (fs s) False src, at_path (fs s) False dst) of
       (Inl e, _) \<Rightarrow> (Inl e, s)
     | (_, Inl e) \<Rightarrow> (Inl e, s)
     | (Inr p, Inr q) \<Rightarrow>
         (case names (fs s) p of
            None \<Rightarrow> (Inl ENOENT, s)
          | Some i \<Rightarrow>
              if names (fs s) q = Some i then (Inr (), s)
              else if is_directory (fs s) q then (Inl EOTHER, s)
              else if \<not> parent_is_directory (fs s) q then (Inl ENOENT, s)
              else (Inr (), set_name p None (set_name q (Some i) s))))"

definition sys_unlink :: "os_env \<Rightarrow> path \<Rightarrow> ('e, unit) os_action" where
  "sys_unlink env p = syscall env (\<lambda>s.
     case at_path (fs s) False p of
       Inl e \<Rightarrow> (Inl e, s)
     | Inr q \<Rightarrow>
         if names (fs s) q = None then (Inl ENOENT, s) else (Inr (), set_name q None s))"

text \<open>\<open>fcntl.flock(d, LOCK_EX | LOCK_NB)\<close> and \<open>fcntl.flock(d, LOCK_UN)\<close>.\<close>

definition sys_flock :: "os_env \<Rightarrow> descriptor \<Rightarrow> ('e, unit) os_action" where
  "sys_flock env d = syscall env (\<lambda>s.
     if \<exists>l \<in> set (locked (fs s)). fst l = fst d \<and> snd l \<noteq> Some (snd d) then (Inl EWOULDBLOCK, s)
     else
       (Inr (), s\<lparr>fs := (fs s)\<lparr>locked := List.insert (fst d, Some (snd d)) (locked (fs s))\<rparr>\<rparr>))"

definition sys_unflock :: "os_env \<Rightarrow> descriptor \<Rightarrow> ('e, unit) os_action" where
  "sys_unflock env d = syscall env (\<lambda>s. (Inr (), unflock d s))"

end
