(* ===== verification/JournalStore.thy ===== *)
theory JournalStore
  imports ClientSafety FileSystem
begin

unbundle bit_operations_syntax

text \<open>
  \<open>JournalStore\<close> of \<open>client/journal.py\<close>: the private directory of operation journals, read
  and written with the system calls of \<open>FileSystem\<close>, and the lock that keeps two invocations from
  changing one operation.
\<close>

section \<open>The store\<close>

record store_env =
  kernel :: os_env
  state_directory :: path
  parse_json :: "string \<Rightarrow> json option"
  print_float :: "pyfloat \<Rightarrow> string"

definition root_path :: "store_env \<Rightarrow> path" where
  "root_path env = state_directory env @ [''invocations'']"

definition journal_path :: "store_env \<Rightarrow> string \<Rightarrow> path" where
  "journal_path env op = root_path env @ [op @ ''.json'']"

definition partial_path :: "store_env \<Rightarrow> string \<Rightarrow> path" where
  "partial_path env op = root_path env @ [op @ ''.json.part'']"

definition lock_path :: "store_env \<Rightarrow> string \<Rightarrow> path" where
  "lock_path env op = root_path env @ [op @ ''.lock'']"

type_synonym 'a disk = "(client_exn, 'a) os_action"

definition journal_error :: "string \<Rightarrow> (os, client_exn os_exn, 'a) action" where
  "journal_error m = raise (Exn (JournalError m))"

definition check :: "bool \<Rightarrow> string \<Rightarrow> unit disk" where
  "check c m = (if c then ret () else journal_error m)"

definition lift_exn :: "'e + 'a \<Rightarrow> (os, 'e os_exn, 'a) action" where
  "lift_exn r = (case r of Inl e \<Rightarrow> raise (Exn e) | Inr x \<Rightarrow> ret x)"

text \<open>\<open>except OSError as error: raise JournalError(m)\<close>.\<close>

definition os_to_journal :: "'a disk \<Rightarrow> string \<Rightarrow> 'a disk" where
  "os_to_journal a m = tryA a (\<lambda>e. case e of OSErr _ \<Rightarrow> journal_error m | Exn _ \<Rightarrow> raise e)"

text \<open>\<open>except FileNotFoundError\<close>, \<open>except BlockingIOError\<close>, \<open>except FileExistsError\<close>.\<close>

definition on_errno :: "os_error \<Rightarrow> 'a disk \<Rightarrow> 'a disk \<Rightarrow> 'a disk" where
  "on_errno n a h = tryA a (\<lambda>e. if e = OSErr n then h else raise e)"

section \<open>Directories\<close>

fun reject_symlink_components :: "os_env \<Rightarrow> path \<Rightarrow> path \<Rightarrow> unit disk" where
  "reject_symlink_components k done [] = ret ()"
| "reject_symlink_components k done (c # rest) =
     bindA (on_errno ENOENT (bindA (sys_lstat k (done @ [c])) (\<lambda>i. ret (Some i))) (ret None)) (\<lambda>info.
     case info of
       Some i \<Rightarrow>
         (case st_kind i of
            Symlink _ \<Rightarrow> journal_error ''state path contains a symlink''
          | _ \<Rightarrow> reject_symlink_components k (done @ [c]) rest)
     | None \<Rightarrow> reject_symlink_components k (done @ [c]) rest)"

text \<open>
  \<open>Path.mkdir(mode, parents, exist_ok=True)\<close> on the reversed path: a missing parent is made
  with the default mode, an existing directory is accepted.
\<close>

definition accept_directory :: "os_env \<Rightarrow> path \<Rightarrow> client_exn os_exn \<Rightarrow> unit disk" where
  "accept_directory k p e =
     bindA (tryA (bindA (sys_stat k True p) (\<lambda>i. ret (st_kind i = Directory))) (\<lambda>_. ret False))
       (\<lambda>d. if d then ret () else raise e)"

definition mkdir_one :: "os_env \<Rightarrow> path \<Rightarrow> mode \<Rightarrow> unit disk" where
  "mkdir_one k p m =
     tryA (sys_mkdir k p m) (\<lambda>e. if e = OSErr ENOENT then raise e else accept_directory k p e)"

fun mkdir_parents :: "os_env \<Rightarrow> path \<Rightarrow> mode \<Rightarrow> unit disk" where
  "mkdir_parents k [] m = ret ()"
| "mkdir_parents k (c # up) m =
     tryA (sys_mkdir k (rev (c # up)) m) (\<lambda>e.
       if e = OSErr ENOENT
       then thenA (mkdir_parents k up 511) (mkdir_one k (rev (c # up)) m)
       else accept_directory k (rev (c # up)) e)"

definition initialize :: "store_env \<Rightarrow> unit disk" where
  "initialize env =
     (let k = kernel env; root = root_path env in
      thenA (reject_symlink_components k [] root)
        (thenA (mkdir_parents k (rev root) 448)
          (thenA (reject_symlink_components k [] root)
            (bindA (sys_lstat k root) (\<lambda>i.
             check (st_kind i = Directory \<and> st_uid i = my_uid k \<and> st_mode i AND 63 = 0)
               ''state directory is unsafe'')))))"

section \<open>The lock\<close>

text \<open>The cleanup of \<open>mutation_lock\<close>, and its part before the \<open>yield\<close>.\<close>

definition release_lock :: "store_env \<Rightarrow> descriptor \<Rightarrow> unit disk" where
  "release_lock env d = finallyA (sys_unflock (kernel env) d) (sys_close (kernel env) d)"

definition acquire_lock :: "store_env \<Rightarrow> string \<Rightarrow> descriptor disk" where
  "acquire_lock env op =
     (let k = kernel env in
      bindA (lift_exn (canonical_operation_ref (JStr op))) (\<lambda>op.
      thenA (initialize env)
        (bindA (os_to_journal (sys_open_create k (lock_path env op) 384)
                  ''operation lock is unavailable'') (\<lambda>d.
         thenA
           (on_error
             (bindA (sys_fstat k d) (\<lambda>i.
              thenA (check (st_kind i = Regular \<and> st_uid i = my_uid k \<and> st_mode i = 384)
                       ''operation lock is unsafe'')
                (on_errno EWOULDBLOCK (sys_flock k d)
                  (journal_error ''operation is already being changed''))))
             (release_lock env d))
           (ret d)))))"

section \<open>Reading\<close>

text \<open>\<open>while remaining: chunk = os.read(descriptor, remaining)\<close> until an empty chunk.\<close>

function read_chunks :: "os_env \<Rightarrow> descriptor \<Rightarrow> nat \<Rightarrow> nat \<Rightarrow> (os, 'e os_exn, string) action" where
  "read_chunks k d off remaining =
     (if remaining = 0 then ret []
      else
        bindA (sys_read k d off remaining) (\<lambda>chunk.
        if chunk = [] then ret []
        else
          bindA (read_chunks k d (off + length chunk) (remaining - length chunk)) (\<lambda>rest.
          ret (chunk @ rest))))"
  by pat_completeness auto
termination by (relation "measure (\<lambda>(k, d, off, remaining). remaining)") auto

definition read_operation :: "store_env \<Rightarrow> string \<Rightarrow> dict disk" where
  "read_operation env op =
     (let k = kernel env in
      bindA (lift_exn (canonical_operation_ref (JStr op))) (\<lambda>op.
      thenA (initialize env)
        (bindA (os_to_journal (sys_open k False (journal_path env op))
                  ''operation journal is unavailable'') (\<lambda>d.
         bindA
           (finallyA
             (bindA (sys_fstat k d) (\<lambda>first.
              thenA (check (st_kind first = Regular \<and> st_uid first = my_uid k \<and>
                            st_mode first = 384 \<and> st_size first \<le> MAXIMUM_JOURNAL_BYTES)
                       ''operation journal is unsafe'')
                (bindA (read_chunks k d 0 (MAXIMUM_JOURNAL_BYTES + 1)) (\<lambda>raw.
                 bindA (sys_fstat k d) (\<lambda>after.
                 thenA (check (length raw \<le> MAXIMUM_JOURNAL_BYTES \<and> st_ino first = st_ino after \<and>
                               st_size first = st_size after \<and> st_mtime first = st_mtime after)
                          ''operation journal changed during read'')
                   (ret raw))))))
             (sys_close k d)) (\<lambda>raw.
         bindA (case parse_json env raw of
                  None \<Rightarrow> journal_error ''operation journal is invalid''
                | Some v \<Rightarrow> thenA (lift_exn (validate_journal v op)) (ret v)) (\<lambda>v.
         case v of JObj j \<Rightarrow> ret j | _ \<Rightarrow> journal_error ''operation journal is invalid''))))))"

section \<open>Writing\<close>

text \<open>\<open>_encode_journal\<close>; the ASCII text of \<open>json.dumps\<close> always encodes.\<close>

definition encode_journal :: "store_env \<Rightarrow> string \<Rightarrow> dict \<Rightarrow> client_exn + string" where
  "encode_journal env op value =
     bindE (validate_journal (JObj value) op) (\<lambda>_.
     case json_dumps (print_float env) (JObj value) of
       None \<Rightarrow> Inl (JournalError ''operation journal is invalid'')
     | Some raw \<Rightarrow>
         if MAXIMUM_JOURNAL_BYTES < length raw
         then Inl (JournalError ''operation journal exceeds its bound'')
         else Inr raw)"

function write_all :: "os_env \<Rightarrow> descriptor \<Rightarrow> nat \<Rightarrow> string \<Rightarrow> unit disk" where
  "write_all k d off rest =
     (if rest = [] then ret ()
      else
        bindA (sys_write k d off rest) (\<lambda>count.
        if count = 0 then raise (OSErr EOTHER)
        else write_all k d (off + count) (drop count rest)))"
  by pat_completeness auto
termination by (relation "measure (\<lambda>(k, d, off, rest). length rest)") auto

declare read_chunks.simps [simp del] write_all.simps [simp del]

text \<open>The partial is removed only while its name still leads to the inode this process made.\<close>

definition unlink_owned_partial :: "os_env \<Rightarrow> path \<Rightarrow> nat \<Rightarrow> unit disk" where
  "unlink_owned_partial k p identity =
     bindA (on_errno ENOENT (bindA (sys_lstat k p) (\<lambda>i. ret (Some i))) (ret None)) (\<lambda>info.
     case info of
       None \<Rightarrow> ret ()
     | Some i \<Rightarrow>
         if st_ino i = identity \<and> st_kind i = Regular then sys_unlink k p else ret ())"

definition write_owned_partial :: "os_env \<Rightarrow> path \<Rightarrow> string \<Rightarrow> (descriptor \<times> nat) disk" where
  "write_owned_partial k p raw =
     bindA (os_to_journal (sys_create k p 384) ''journal partial is unavailable'') (\<lambda>d.
     bindA (on_error (sys_fstat k d) (sys_close k d)) (\<lambda>i.
     thenA
       (on_error
         (thenA (check (st_kind i = Regular \<and> st_mode i = 384) ''journal partial is unsafe'')
           (thenA (write_all k d 0 raw) (sys_fsync k d)))
         (thenA (sys_close k d) (unlink_owned_partial k p (st_ino i))))
       (ret (d, st_ino i))))"

definition sync_directory :: "os_env \<Rightarrow> path \<Rightarrow> unit disk" where
  "sync_directory k root =
     bindA (sys_open k True root) (\<lambda>d. finallyA (sys_fsync k d) (sys_close k d))"

text \<open>
  The \<open>try\<close> block \<open>create\<close> and \<open>write\<close> share, around what each does with the finished
  partial.  A failing \<open>close\<close> leaves \<open>descriptor\<close> set, so the cleanup closes it again.
\<close>

definition publish :: "os_env \<Rightarrow> path \<Rightarrow> descriptor \<times> nat \<Rightarrow> unit disk \<Rightarrow> unit disk" where
  "publish k p owned act =
     bindA (tryA (thenA (sys_close k (fst owned)) (ret True)) (\<lambda>_. ret False)) (\<lambda>closed.
     finallyA
       (os_to_journal (if closed then act else raise (OSErr EOTHER))
         ''operation journal could not be persisted'')
       (thenA (if closed then ret () else sys_close k (fst owned))
         (unlink_owned_partial k p (snd owned))))"

definition create_operation :: "store_env \<Rightarrow> string \<Rightarrow> dict \<Rightarrow> unit disk" where
  "create_operation env op value =
     (let k = kernel env in
      bindA (lift_exn (canonical_operation_ref (JStr op))) (\<lambda>op.
      thenA (initialize env)
        (bindA (lift_exn (encode_journal env op value)) (\<lambda>raw.
         bindA (write_owned_partial k (partial_path env op) raw) (\<lambda>owned.
         publish k (partial_path env op) owned
           (thenA
             (on_errno EEXIST (sys_link k (partial_path env op) (journal_path env op))
               (journal_error ''operation reference already exists''))
             (sync_directory k (root_path env))))))))"

definition validated_journal_identity :: "os_env \<Rightarrow> path \<Rightarrow> nat disk" where
  "validated_journal_identity k p =
     bindA (os_to_journal (sys_open k False p) ''operation journal is unavailable'') (\<lambda>d.
     finallyA
       (bindA (sys_fstat k d) (\<lambda>i.
        thenA (check (st_kind i = Regular \<and> st_uid i = my_uid k \<and> st_mode i = 384)
                 ''operation journal is unsafe'')
          (ret (st_ino i))))
       (sys_close k d))"

definition write_operation :: "store_env \<Rightarrow> string \<Rightarrow> dict \<Rightarrow> unit disk" where
  "write_operation env op value =
     (let k = kernel env in
      bindA (lift_exn (canonical_operation_ref (JStr op))) (\<lambda>op.
      thenA (initialize env)
        (bindA (lift_exn (encode_journal env op value)) (\<lambda>raw.
         bindA (validated_journal_identity k (journal_path env op)) (\<lambda>existing.
         bindA (write_owned_partial k (partial_path env op) raw) (\<lambda>owned.
         publish k (partial_path env op) owned
           (bindA (sys_lstat k (journal_path env op)) (\<lambda>current.
            thenA (check (st_ino current = existing \<and> st_kind current = Regular)
                     ''operation journal changed before replacement'')
              (thenA (sys_replace k (partial_path env op) (journal_path env op))
                (sync_directory k (root_path env)))))))))))"

section \<open>The store as the client uses it\<close>

text \<open>
  The state between two calls: the operating system, and the descriptor of the lock this invocation
  holds (the local variable of the suspended context manager).
\<close>

type_synonym disk_state = "os \<times> descriptor option"

definition store_call :: "'a disk \<Rightarrow> disk_state \<Rightarrow> (client_exn + 'a) \<times> disk_state" where
  "store_call m = (\<lambda>(s, held).
     case m s of
       (Inl (OSErr _), s') \<Rightarrow> (Inl PyOSError, (s', held))
     | (Inl (Exn e), s') \<Rightarrow> (Inl e, (s', held))
     | (Inr x, s') \<Rightarrow> (Inr x, (s', held)))"

definition disk_read :: "store_env \<Rightarrow> string \<Rightarrow> disk_state \<Rightarrow> (client_exn + dict) \<times> disk_state" where
  "disk_read env op = store_call (read_operation env op)"

definition disk_create ::
  "store_env \<Rightarrow> string \<Rightarrow> dict \<Rightarrow> disk_state \<Rightarrow> (client_exn + unit) \<times> disk_state" where
  "disk_create env op j = store_call (create_operation env op j)"

definition disk_write ::
  "store_env \<Rightarrow> string \<Rightarrow> dict \<Rightarrow> disk_state \<Rightarrow> (client_exn + unit) \<times> disk_state" where
  "disk_write env op j = store_call (write_operation env op j)"

definition disk_lock :: "store_env \<Rightarrow> string \<Rightarrow> disk_state \<Rightarrow> (client_exn + unit) \<times> disk_state" where
  "disk_lock env op st =
     (case store_call (acquire_lock env op) st of
        (Inl e, st') \<Rightarrow> (Inl e, st')
      | (Inr d, (s, _)) \<Rightarrow> (Inr (), (s, Some d)))"

definition disk_unlock :: "store_env \<Rightarrow> string \<Rightarrow> disk_state \<Rightarrow> (client_exn + unit) \<times> disk_state" where
  "disk_unlock env op st =
     (case snd st of
        None \<Rightarrow> (Inr (), st)
      | Some d \<Rightarrow>
          (case store_call (release_lock env d) st of (r, (s, _)) \<Rightarrow> (r, (s, None))))"

text \<open>\<open>TopologyClient(profile)\<close> with the default \<open>JournalStore(profile.state_directory)\<close>.\<close>

definition on_disk :: "store_env \<Rightarrow> disk_state client_env \<Rightarrow> disk_state client_env" where
  "on_disk se env =
     env\<lparr>store_read := disk_read se, store_create := disk_create se, store_write := disk_write se,
         store_lock := disk_lock se, store_unlock := disk_unlock se\<rparr>"

lemma lift_exn_Inr: "lift_exn r s = (Inr x, t) \<longleftrightarrow> r = Inr x \<and> t = s"
  by (auto simp: lift_exn_def action_simps split: sum.splits)

lemma canonical_ref_same: "canonical_operation_ref (JStr op) = Inr op' \<longleftrightarrow> is_canonical_uuid4 op \<and> op' = op"
  by (auto simp: canonical_operation_ref_def)

lemma store_call_Inr: "store_call m st = (Inr x, st') \<Longrightarrow> \<exists>s'. m (fst st) = (Inr x, s')"
  by (cases st) (auto simp: store_call_def split: prod.splits sum.splits os_exn.splits)

text \<open>What every returned value satisfies.\<close>

definition yields :: "('a \<Rightarrow> bool) \<Rightarrow> ('s, 'e, 'a) action \<Rightarrow> bool" where
  "yields Q m \<longleftrightarrow> (\<forall>s x s'. m s = (Inr x, s') \<longrightarrow> Q x)"

lemma yields_last: "(\<And>x. yields Q (k x)) \<Longrightarrow> yields Q (bindA m k)"
  unfolding yields_def bindA_Inr by blast

lemma yields_lift: "(\<And>x. r = Inr x \<Longrightarrow> yields Q (k x)) \<Longrightarrow> yields Q (bindA (lift_exn r) k)"
  unfolding yields_def bindA_Inr lift_exn_Inr by blast

lemma yields_ret: "Q x \<Longrightarrow> yields Q (ret x)"
  by (simp add: yields_def action_simps)

lemma yields_error [simp]: "yields Q (journal_error m)"
  by (simp add: yields_def journal_error_def action_simps)

lemma read_operation_valid:
  assumes "read_operation env op s = (Inr j, s')"
  shows "validate_journal (JObj j) op = Inr ()"
proof -
  have parse: "yields (\<lambda>v. validate_journal v op = Inr ())
      (case parse_json env raw of
         None \<Rightarrow> journal_error ''operation journal is invalid''
       | Some v \<Rightarrow> thenA (lift_exn (validate_journal v op)) (ret v))" for raw
    by (auto split: option.split intro!: yields_lift yields_ret)
  have last: "yields (\<lambda>j. validate_journal (JObj j) op = Inr ()) (bindA
      (case parse_json env raw of
         None \<Rightarrow> journal_error ''operation journal is invalid''
       | Some v \<Rightarrow> thenA (lift_exn (validate_journal v op)) (ret v))
      (\<lambda>v. case v of JObj j \<Rightarrow> ret j | _ \<Rightarrow> journal_error ''operation journal is invalid''))"
    (is "yields _ (bindA ?m ?k)") for raw
    unfolding yields_def bindA_Inr
  proof (intro allI impI, elim exE conjE)
    fix s j t v u assume m: "?m s = (Inr v, u)" and k: "?k v u = (Inr j, t)"
    have "validate_journal v op = Inr ()" using parse [of raw] m unfolding yields_def by blast
    moreover have "v = JObj j"
      using k by (cases v) (simp_all add: action_simps journal_error_def)
    ultimately show "validate_journal (JObj j) op = Inr ()" by simp
  qed
  have "yields (\<lambda>j. validate_journal (JObj j) op = Inr ()) (read_operation env op)"
    unfolding read_operation_def Let_def
    by (rule yields_lift, simp only: canonical_ref_same, elim conjE, hypsubst)
       (rule yields_last, rule yields_last, rule yields_last, rule last)
  then show ?thesis using assms by (auto simp: yields_def)
qed

lemma write_operation_valid:
  assumes "write_operation env op j s = (Inr u, s')"
  shows "validate_journal (JObj j) op = Inr ()"
proof -
  obtain raw where "encode_journal env op j = Inr raw"
    using assms unfolding write_operation_def Let_def bindA_Inr lift_exn_Inr canonical_ref_same
    by blast
  then show ?thesis by (simp add: encode_journal_def)
qed

lemma create_operation_valid:
  assumes "create_operation env op j s = (Inr u, s')"
  shows "validate_journal (JObj j) op = Inr ()"
proof -
  obtain raw where "encode_journal env op j = Inr raw"
    using assms unfolding create_operation_def Let_def bindA_Inr lift_exn_Inr canonical_ref_same
    by blast
  then show ?thesis by (simp add: encode_journal_def)
qed

interpretation disk: journal_store "disk_read se" "disk_create se" "disk_write se"
  for se :: store_env
  by unfold_locales
     (auto simp: disk_read_def disk_create_def disk_write_def
       dest!: store_call_Inr intro: read_operation_valid create_operation_valid write_operation_valid)

lemma uses_on_disk: "uses_store (on_disk se env) (disk_read se) (disk_create se) (disk_write se)"
  by (simp add: uses_store_def on_disk_def)

end
