(* ===== verification/Cli.thy ===== *)
theory Cli
  imports Apply
begin

text \<open>
  The command line of the client (\<open>client/cli.py\<close>): the parsed commands, the operation each one
  runs, the exit status of every outcome and what is printed.
\<close>

section \<open>Commands\<close>

text \<open>
  What \<open>argparse\<close> can produce: \<open>plan\<close> has exactly one of a desired graph and
  \<open>--resume\<close>, \<open>apply\<close> at most one of the two approvals.
\<close>

datatype command =
    Plan "string option" "string option" string
  | Apply string confirmation
  | Status string

definition run_command :: "'st client_env \<Rightarrow> command \<Rightarrow> ('st, client_result) client" where
  "run_command env cmd =
     (case cmd of
        Plan resume desired title \<Rightarrow>
          (case resume of
             Some ref \<Rightarrow> resume_prepare env (JStr ref)
           | None \<Rightarrow>
               (case desired of
                  Some path \<Rightarrow> plan_operation env path title
                | None \<Rightarrow>
                    raise (ClientInputError ''desired graph or operation resume is required'')))
      | Apply ref args \<Rightarrow> apply_operation env (JStr ref) args
      | Status ref \<Rightarrow> status_operation env (JStr ref))"

section \<open>Outcomes\<close>

text \<open>
  The message and exit status of an exception \<open>main\<close> catches; \<open>None\<close> is one it does not
  catch, which ends the process with a traceback and status 1.
\<close>

fun caught :: "client_exn \<Rightarrow> (string \<times> int) option" where
  "caught ClientAuthorizationError = Some (''cpk-server authorization was refused'', 3)"
| "caught (ClientInputError m) = Some (m, 2)"
| "caught (ClientConfigurationError m) = Some (m, 5)"
| "caught (JournalError m) = Some (m, 5)"
| "caught (ClientTransportError m) = Some (m, 5)"
| "caught _ = None"

definition main_status :: "client_exn + client_result \<Rightarrow> int" where
  "main_status r =
     (case r of
        Inr result \<Rightarrow> exit_code result
      | Inl e \<Rightarrow> (case caught e of Some (_, n) \<Rightarrow> n | None \<Rightarrow> 1))"

section \<open>Output\<close>

text \<open>
  The lines of \<open>_render\<close>.  \<open>show_value\<close> is Python's \<open>str\<close> of a JSON value.
\<close>

definition optional_line :: "string \<Rightarrow> string option \<Rightarrow> string list" where
  "optional_line label v = (case v of None \<Rightarrow> [] | Some s \<Rightarrow> [label @ s])"

definition change_line :: "(json \<Rightarrow> string) \<Rightarrow> json \<Rightarrow> string" where
  "change_line show_value change =
     (case change of
        JObj c \<Rightarrow>
          ''change: '' @
          concat (case map show_value
                   (List.map_filter (map_of c) [''operation'', ''target'']) of
                    [] \<Rightarrow> []
                  | x # xs \<Rightarrow> x # concat (map (\<lambda>y. ['' '', y]) xs))
      | _ \<Rightarrow> ''change: '')"

definition render ::
  "(pyfloat \<Rightarrow> string) \<Rightarrow> (json \<Rightarrow> string) \<Rightarrow> bool \<Rightarrow> client_result \<Rightarrow> string list" where
  "render fr show_value json_output r =
     (if json_output then [dump fr (canon (JObj (descriptor r)))]
      else
        [''status: '' @ r_status r, ''operation: '' @ r_operation_ref r] @
        optional_line ''plan: '' (r_plan_id r) @
        optional_line ''run: '' (r_run_id r) @
        [''execution: '' @ r_execution r, ''advancement: '' @ r_advancement r] @
        optional_line ''required authorization: '' (r_required_scope r) @
        optional_line ''destructive: ''
          (map_option (\<lambda>d. if d then ''yes'' else ''no'') (r_destructive r)) @
        map (change_line show_value) (r_changes r) @
        optional_line ''next public read: '' (r_next_public_read r))"

definition error_line :: "(pyfloat \<Rightarrow> string) \<Rightarrow> bool \<Rightarrow> string \<Rightarrow> string" where
  "error_line fr json_output message =
     (if json_output
      then dump fr (canon (JObj [(''schema'', JStr ''cpk.client-error.v1''),
             (''status'', JStr ''error''), (''message'', JStr message)]))
      else ''cpk: '' @ message)"

end
