(* ===== verification/ClientProperties.thy ===== *)
theory ClientProperties
  imports JournalStore Cli "HOL-Library.Code_Target_Numeral"
begin

text \<open>
  The properties of the client that runs on its own journal store (\<open>on_disk\<close>), with the concrete
  invocation the witnesses use.
\<close>

section \<open>A concrete invocation\<close>

text \<open>An idle machine on which every system call succeeds.\<close>

definition calm_kernel :: os_env where
  "calm_kernel =
     \<lparr>my_uid = 1000, umask = 18, world = (\<lambda>_ f. f), fault = (\<lambda>_. False), transfer = (\<lambda>_. 65536)\<rparr>"

definition private_directory :: inode where
  "private_directory =
     \<lparr>i_kind = Directory, i_uid = 1000, i_mode = 448, i_data = [], i_mtime = 0\<rparr>"

definition private_file :: inode where
  "private_file = \<lparr>i_kind = Regular, i_uid = 1000, i_mode = 384, i_data = ''x'', i_mtime = 0\<rparr>"

definition sample_ref :: string where
  "sample_ref = ''00000000-0000-4000-8000-000000000000''"

definition sample_digest :: string where
  "sample_digest = replicate 64 (CHR ''0'')"

definition sample_files :: file_system where
  "sample_files =
     \<lparr>names = (\<lambda>p. if p \<in> {[''s''], [''s'', ''invocations'']} then Some 0
                else if p = [''s'', ''invocations'', sample_ref @ ''.json''] then Some 1
                else if p = [''s'', ''invocations'', sample_ref @ ''.lock''] then Some 2
                else None),
      inodes = (\<lambda>i. if i = 0 then private_directory else private_file),
      next_ino = 3, locked = []\<rparr>"

definition sample_source :: dict where
  "sample_source =
     [(''path'', JStr ''/g''), (''size'', JInt 2), (''sha256'', JStr sample_digest)]"

text \<open>An operation whose preparation was sent and never answered.\<close>

definition sample_journal :: dict where
  "sample_journal =
     AList.update ''pending_request''
       (JObj
         [(''route_id'', JStr ''command.deployment.prepare''),
          (''path_parameters'', JObj [(''workspace_id'', JStr ''w'')]),
          (''credential_role'', JStr ''operator''),
          (''idempotency_key'', JStr sample_ref),
          (''body'', JObj
            [(''expected_current'', JObj
               [(''authored_graph_id'', JStr ''g1''), (''realized_projection_id'', JStr ''p1'')]),
             (''expected_desired'', JNull),
             (''expected_desired_graph_revision'', JInt 0),
             (''title'', JStr ''t''),
             (''idempotency_key'', JStr sample_ref)]),
          (''body_sha256'', JStr sample_digest),
          (''desired_source'', JObj sample_source)])
       (new_journal sample_digest ''w'' sample_ref sample_source)"

definition sample_store :: store_env where
  "sample_store =
     \<lparr>kernel = calm_kernel, state_directory = [''s''], parse_json = (\<lambda>_. Some (JObj sample_journal)),
      print_float = (\<lambda>_. ''0.0'')\<rparr>"

text \<open>The server does not answer; the file of the desired graph is unchanged.\<close>

definition sample_env :: "disk_state client_env" where
  "sample_env =
     \<lparr>workspace_id = ''w'', target_digest = sample_digest,
      transport = (\<lambda>_ _. Inl (ClientTransportError ''cpk-server request could not be verified'')),
      identity_factory = (\<lambda>_. sample_ref),
      store_read = disk_read sample_store, store_create = disk_create sample_store,
      store_write = disk_write sample_store, store_lock = disk_lock sample_store,
      store_unlock = disk_unlock sample_store, absolute_path = (\<lambda>p. p),
      files = (\<lambda>_. Some \<lparr>f_regular = True, f_size = 2, f_bytes = ''{}''\<rparr>),
      json_loads = (\<lambda>_. Some (JObj [])), sha256 = (\<lambda>_. sample_digest), float_repr = (\<lambda>_. ''0.0'')\<rparr>"

definition sample_state :: "disk_state client_state" where
  "sample_state =
     \<lparr>journal = [], store = (\<lparr>fs = sample_files, clock = 0, descriptors = [], history = []\<rparr>, None),
      trace = [], identities = 0\<rparr>"

definition sample_run :: "(client_exn + client_result) \<times> disk_state client_state" where
  "sample_run = run_command (on_disk sample_store sample_env) (Plan (Some sample_ref) None ''t'') sample_state"

definition event_route :: "event \<Rightarrow> string" where
  "event_route e = (case e of Sent q \<Rightarrow> ''sent '' @ q_route q | Wrote op j \<Rightarrow> ''wrote'' | Loaded op j \<Rightarrow> ''loaded'')"

text \<open>The invocation loads the journal and sends the preparation it records.\<close>

lemma sample_run_events:
  "map event_route (trace (snd sample_run)) = [''loaded'', ''sent command.deployment.prepare'']"
  by code_simp

lemma sample_run_sent:
  obtains op j q where "trace (snd sample_run) = [Loaded op j, Sent q]"
    and "q_route q = ''command.deployment.prepare''"
proof -
  obtain e f where t: "trace (snd sample_run) = [e, f]" "event_route e = ''loaded''"
    "event_route f = ''sent command.deployment.prepare''"
    using sample_run_events by (auto simp: map_eq_Cons_conv)
  then show ?thesis
    using that by (cases e; cases f) (auto simp: event_route_def)
qed

section \<open>Mutations\<close>

lemma run_command_trace_ok:
  assumes "trace s = []" and "run_command (on_disk se env) cmd s = (r, s')"
  shows "trace_ok (on_disk se env) None (trace s')"
proof -
  have "keeps (Inv (on_disk se env)) (run_command (on_disk se env) cmd)"
    unfolding run_command_def
    by (auto split: command.split option.split
        intro: keeps_raise disk.keeps_plan_operation [OF uses_on_disk]
          disk.keeps_resume_prepare [OF uses_on_disk]
          disk.keeps_apply_operation [OF uses_on_disk] disk.keeps_status_operation [OF uses_on_disk])
  moreover have "Inv (on_disk se env) s" using assms(1) by (simp add: Inv_def)
  ultimately show ?thesis using assms(2) by (metis keepsD Inv_def)
qed

text \<open>
  C1.  Write-ahead: whatever the server answers and the file system does, when a command of the client
  sends a mutation, the last journal it wrote or loaded before that is valid, and its pending request
  is exactly this mutation: same route, credential role, path parameters and body digest, and the same
  body except for the desired graph of a preparation, which is recorded by its source file.
\<close>

theorem mutations_recorded_before_sent:
  assumes "trace s = []" and "run_command (on_disk se env) cmd s = (r, s')"
    and "trace s' = pre @ Sent q # post" and "is_mutation q"
  shows "\<exists>op j. last_journal None pre = Some (op, j) \<and>
           validate_journal (JObj j) op = Inr () \<and> records (on_disk se env) j q"
  using run_command_trace_ok [OF assms(1,2)] assms(3,4) by (metis records_valid)

lemma mutations_recorded_before_sent_witness:
  "\<exists>op j q. trace (snd sample_run) = [Loaded op j, Sent q] \<and> is_mutation q \<and>
     records (on_disk sample_store sample_env) j q"
proof (rule sample_run_sent)
  fix op j q
  assume t: "trace (snd sample_run) = [Loaded op j, Sent q]"
    and q: "q_route q = ''command.deployment.prepare''"
  have m: "is_mutation q" by (simp add: is_mutation_def q MUTATION_ROLES_def keys_def)
  have "\<exists>op' j'. last_journal None [Loaded op j] = Some (op', j') \<and>
      validate_journal (JObj j') op' = Inr () \<and> records (on_disk sample_store sample_env) j' q"
    by (rule mutations_recorded_before_sent
        [of sample_state sample_store sample_env "Plan (Some sample_ref) None ''t''"
            "fst sample_run" "snd sample_run" _ q "[]"])
       (simp_all add: t [unfolded sample_run_def] m sample_run_def, simp add: sample_state_def)
  with t m show ?thesis by auto
qed

text \<open>
  C2.  Every mutation carries the credential role of its route, names the workspace of the recorded
  target and the path parameters of its route, and is sent in a phase that allows the route.
\<close>

theorem mutations_credentialed:
  assumes "trace s = []" and "run_command (on_disk se env) cmd s = (r, s')"
    and "trace s' = pre @ Sent q # post" and "is_mutation q"
  shows "map_of MUTATION_ROLES (q_route q) = Some (q_role q) \<and>
    set (keys (q_path q)) = set (table path_keys (q_route q)) \<and>
    (\<exists>op j target phase. last_journal None pre = Some (op, j) \<and>
       get j ''phase'' = JStr phase \<and> phase \<in> set (table PENDING_PHASES (q_route q)) \<and>
       get j ''target'' = JObj target \<and>
       map_option JStr (map_of (q_path q) ''workspace_id'') = Some (get target ''workspace_id''))"
proof -
  obtain op j where last: "last_journal None pre = Some (op, j)"
    and valid: "validate_journal (JObj j) op = Inr ()" and rec: "records (on_disk se env) j q"
    using run_command_trace_ok [OF assms(1,2)] assms(3,4) by (metis records_valid)
  obtain p where p: "get j ''pending_request'' = JObj p" "get p ''route_id'' = JStr (q_route q)"
    "get p ''credential_role'' = JStr (q_role q)"
    "get p ''path_parameters'' = JObj (map (map_prod id JStr) (q_path q))"
    using rec by (auto simp: records_def)
  from valid p(1) obtain phase target where v: "get j ''phase'' = JStr phase"
    "get j ''target'' = JObj target"
    "get p ''credential_role'' = JStr (the (map_of MUTATION_ROLES (q_route q)))"
    "phase \<in> set (table PENDING_PHASES (q_route q))"
    "keys_are (map (map_prod id JStr) (q_path q)) (table path_keys (q_route q))"
    "py_eq (get (map (map_prod id JStr) (q_path q)) ''workspace_id'') (get target ''workspace_id'')"
    by (rule valid_pending_request) (use p that in auto)
  have role: "map_of MUTATION_ROLES (q_route q) = Some (q_role q)"
    using assms(4) p(3) v(3) by (auto simp: is_mutation_def in_keys_iff)
  have keys: "set (keys (q_path q)) = set (table path_keys (q_route q))"
    using v(5) by (simp add: keys_are_def keys_def)
  have "''workspace_id'' \<in> set (table path_keys (q_route q))"
    using assms(4) by (auto simp: is_mutation_def keys_def MUTATION_ROLES_def table_def path_keys_def)
  then obtain w where w: "map_of (q_path q) ''workspace_id'' = Some w"
    using keys by (metis in_keys_iff not_None_eq)
  then have "get target ''workspace_id'' = JStr w"
    using v(6) by (simp add: get_def map_of_map_prod)
  with last v role keys w show ?thesis by auto
qed

lemma mutations_credentialed_witness:
  "\<exists>q \<in> {q. Sent q \<in> set (trace (snd sample_run))}.
     q_role q = ''operator'' \<and> set (keys (q_path q)) = {''workspace_id''}"
proof (rule sample_run_sent)
  fix op j q
  assume t: "trace (snd sample_run) = [Loaded op j, Sent q]"
    and q: "q_route q = ''command.deployment.prepare''"
  have m: "is_mutation q" by (simp add: is_mutation_def q MUTATION_ROLES_def keys_def)
  have "map_of MUTATION_ROLES (q_route q) = Some (q_role q) \<and>
      set (keys (q_path q)) = set (table path_keys (q_route q))"
    using mutations_credentialed
        [of sample_state sample_store sample_env "Plan (Some sample_ref) None ''t''"
            "fst sample_run" "snd sample_run" "[Loaded op j]" q "[]"]
    by (simp add: t [unfolded sample_run_def] m sample_run_def) (simp add: sample_state_def)
  with t q show ?thesis by (auto simp: MUTATION_ROLES_def table_def path_keys_def)
qed

text \<open>
  C3.  A request to advance the current graph is recorded only for a run that has succeeded, and it is
  pinned to the recorded coordinates: the run, the plan, the claim generation, the base graph it
  expects and the desired graph it installs.
\<close>

theorem advance_request_pinned:
  assumes "validate_journal (JObj j) op = Inr ()" and "records env j q"
    and "q_route q = ''command.graph.advance-current''"
  shows "\<exists>c. get j ''phase'' = JStr ''executed'' \<and> get j ''coordinates'' = JObj c \<and>
     get c ''run_status'' = JStr ''succeeded'' \<and> get c ''coordinator_status'' = JStr ''completed'' \<and>
     map_option JStr (map_of (q_path q) ''run_id'') = Some (get c ''run_id'') \<and>
     py_eq (get (q_payload q) ''plan_id'') (get c ''plan_id'') \<and>
     py_eq (get (q_payload q) ''claim_generation'') (get c ''claim_generation'') \<and>
     py_eq (get (q_payload q) ''expected_current_graph_id'') (get c ''base_graph_id'') \<and>
     py_eq (get (q_payload q) ''expected_current_realized_projection_id'')
       (get c ''base_realized_projection_id'') \<and>
     py_eq (get (q_payload q) ''desired_graph_id'') (get c ''desired_graph_id'') \<and>
     py_eq (get (q_payload q) ''desired_realized_projection_id'')
       (get c ''desired_realized_projection_id'')"
proof -
  obtain p where p: "get j ''pending_request'' = JObj p" "get p ''route_id'' = JStr (q_route q)"
    "get p ''path_parameters'' = JObj (map (map_prod id JStr) (q_path q))"
    "get p ''body'' = JObj (q_payload q)"
    using assms(2,3) by (auto simp: records_def recorded_body_def)
  from assms(1) p(1) obtain phase c where v: "get j ''phase'' = JStr phase"
    "get j ''coordinates'' = JObj c" "phase \<in> set (table PENDING_PHASES (q_route q))"
    "keys_are (map (map_prod id JStr) (q_path q)) (table path_keys (q_route q))"
    "pending_bound (q_route q) (map (map_prod id JStr) (q_path q)) (q_payload q) c"
    "validate_phase phase c = Inr ()"
    by (rule valid_pending_request) (use p assms(3) that in auto)
  have phase: "phase = ''executed''"
    using v(3) by (simp add: assms(3) table_def PENDING_PHASES_def)
  have "''run_id'' \<in> set (keys (q_path q))"
    using v(4) by (simp add: assms(3) keys_are_def keys_def table_def path_keys_def)
  then obtain run where run: "map_of (q_path q) ''run_id'' = Some run" by (auto simp: in_keys_iff)
  then have "get c ''run_id'' = JStr run"
    using v(5) by (simp add: assms(3) pending_bound_def get_def map_of_map_prod)
  moreover have "get c ''run_status'' = JStr ''succeeded''"
    "get c ''coordinator_status'' = JStr ''completed''"
    using v(6) by (simp_all add: phase validate_phase_def)
  ultimately show ?thesis
    using v(1,2,5) run phase by (simp add: assms(3) pending_bound_def)
qed

text \<open>A journal whose run has succeeded, about to advance the current graph.\<close>

definition sample_advance :: request where
  "sample_advance =
     \<lparr>q_route = ''command.graph.advance-current'',
      q_path = [(''workspace_id'', ''w''), (''run_id'', ''r'')],
      q_payload =
        [(''plan_id'', JStr ''p''), (''claim_generation'', JInt 1),
         (''expected_current_graph_id'', JStr ''g1''),
         (''expected_current_realized_projection_id'', JStr ''p1''),
         (''desired_graph_id'', JStr ''g2''), (''desired_realized_projection_id'', JStr ''p2''),
         (''expected_desired_graph_revision'', JInt 3), (''idempotency_key'', JStr sample_ref)],
      q_role = ''worker''\<rparr>"

definition sample_advance_pending :: dict where
  "sample_advance_pending =
         [(''route_id'', JStr ''command.graph.advance-current''),
          (''path_parameters'', JObj [(''workspace_id'', JStr ''w''), (''run_id'', JStr ''r'')]),
          (''credential_role'', JStr ''worker''),
          (''idempotency_key'', JStr sample_ref),
          (''body'', JObj (q_payload sample_advance)),
          (''body_sha256'', JStr sample_digest),
          (''desired_source'', JNull)]"

definition sample_executed :: dict where
  "sample_executed =
     AList.update ''phase'' (JStr ''executed'')
      (AList.update ''coordinates'' (JObj
        [(''plan_id'', JStr ''p''), (''session_id'', JStr ''s''), (''base_graph_id'', JStr ''g1''),
         (''base_realized_projection_id'', JStr ''p1''), (''desired_graph_id'', JStr ''g2''),
         (''desired_realized_projection_id'', JStr ''p2''), (''desired_graph_revision'', JInt 3),
         (''execution_request_id'', JStr ''e''), (''run_id'', JStr ''r''),
         (''claim_generation'', JInt 1), (''run_status'', JStr ''succeeded''),
         (''coordinator_status'', JStr ''completed''), (''effects_attempted'', JInt 2)])
       (AList.update ''pending_request'' (JObj sample_advance_pending)
        (new_journal sample_digest ''w'' sample_ref sample_source)))"

lemma sample_executed_valid: "validate_journal (JObj sample_executed) sample_ref = Inr ()"
  by code_simp

lemma sample_advance_digest:
  "canonical_digest (float_repr sample_env) (sha256 sample_env) (q_payload sample_advance)
     = Inr sample_digest"
  by code_simp

lemma sample_executed_pending:
  "get sample_executed ''pending_request'' = JObj sample_advance_pending"
  by code_simp

lemma advance_request_pinned_witness:
  "\<exists>c. get sample_executed ''coordinates'' = JObj c \<and> get c ''run_status'' = JStr ''succeeded''"
proof -
  have "records sample_env sample_executed sample_advance"
    unfolding records_def recorded_body_def sample_executed_pending
    using sample_advance_digest
    by (simp add: sample_advance_pending_def get_def sample_advance_def)
  from advance_request_pinned [OF sample_executed_valid this] show ?thesis
    by (auto simp: sample_advance_def)
qed

section \<open>Reading the status\<close>

text \<open>An event that changes nothing: a read with the operator credential, or loading the journal.\<close>

definition read_only_event :: "event \<Rightarrow> bool" where
  "read_only_event e \<longleftrightarrow>
     (case e of
        Sent q \<Rightarrow> \<not> is_mutation q \<and> q_role q = ''operator''
      | Wrote op j \<Rightarrow> False
      | Loaded op j \<Rightarrow> True)"

lemma keeps_load_journal:
  assumes "\<And>s op j. I s \<Longrightarrow> I (log_event (Loaded op j) s)"
    and "\<And>s st. I s \<Longrightarrow> I (s\<lparr>store := st\<rparr>)" and "\<And>s j. I s \<Longrightarrow> I (s\<lparr>journal := j\<rparr>)"
  shows "keeps I (load_journal env op)"
  unfolding load_journal_def
proof (rule keeps_bind)
  show "keeps I (\<lambda>s. case store_read env op (store s) of
      (Inl e, st) \<Rightarrow> (Inl e, s\<lparr>store := st\<rparr>)
    | (Inr j, st) \<Rightarrow> (Inr j, log_event (Loaded op j) (s\<lparr>store := st\<rparr>)))"
    by (auto simp: keeps_def assms(1,2) split: prod.split sum.split)
qed (intro triples keeps_mod assms(3))

text \<open>
  C4.  \<open>status\<close> changes nothing: every request it sends is a read with the operator credential,
  and it writes no journal, whatever the server answers.
\<close>

theorem status_only_reads:
  "\<exists>es. trace (snd (run_command env (Status ref) s)) = trace s @ es \<and> list_all read_only_event es"
proof -
  define I where "I = (\<lambda>t :: 'a client_state. \<exists>es. trace t = trace s @ es \<and> list_all read_only_event es)"
  have "I (log_event e t)" if "I t" "read_only_event e" for e t
    using that by (auto simp: I_def log_event_def)
  then have "read_stable I" and "\<And>op j t. I t \<Longrightarrow> I (log_event (Loaded op j) t)"
    by (auto simp: read_stable_def read_only_event_def)
  then have "keeps I (status_operation env (JStr ref))"
    unfolding status_operation_def
    by (intro keeps_bind keeps_lift keeps_public_status keeps_load_journal) (auto simp: I_def)
  moreover have "I s" by (simp add: I_def)
  ultimately have "I (snd (run_command env (Status ref) s))"
    by (simp add: run_command_def keeps_def)
  then show ?thesis by (simp add: I_def)
qed

end
