(* ===== verification/JournalDisk.thy ===== *)
theory JournalDisk
  imports JournalStore
begin

text \<open>
  What the journal store promises about the files themselves, whichever system calls fail: at every
  moment the journal's name leads to the old journal or to the complete new one.
\<close>

section \<open>Watching the file system\<close>

text \<open>No other process touches the file system.\<close>

definition quiet :: "os_env \<Rightarrow> bool" where
  "quiet k \<longleftrightarrow> (\<forall>n f. world k n f = f)"

text \<open>Every file system seen so far satisfies \<open>G\<close>, the present one \<open>P\<close>.\<close>

definition watched :: "(file_system \<Rightarrow> bool) \<Rightarrow> (file_system \<Rightarrow> bool) \<Rightarrow> os \<Rightarrow> bool" where
  "watched G P s \<longleftrightarrow> (\<forall>f \<in> set (history s). G f) \<and> P (fs s)"

text \<open>A predicate that implies \<open>G\<close> and does not look at the locks.\<close>

definition lasting :: "(file_system \<Rightarrow> bool) \<Rightarrow> (file_system \<Rightarrow> bool) \<Rightarrow> bool" where
  "lasting G P \<longleftrightarrow> (\<forall>f. P f \<longrightarrow> G f) \<and> (\<forall>f l. P (f\<lparr>locked := l\<rparr>) = P f)"

lemma watched_mono: "watched G P s \<Longrightarrow> (\<And>f. P f \<Longrightarrow> Q f) \<Longrightarrow> watched G Q s"
  by (simp add: watched_def)

lemma triple_syscall:
  assumes "quiet k"
    and "\<And>s. history (snd (g s)) = history s"
    and "\<And>s x s'. P (fs s) \<Longrightarrow> g s = (Inr x, s') \<Longrightarrow> Q x (fs s') \<and> G (fs s')"
    and "\<And>s e s'. P (fs s) \<Longrightarrow> g s = (Inl e, s') \<Longrightarrow> E (fs s') \<and> G (fs s')"
    and "\<And>f. P f \<Longrightarrow> E f \<and> G f"
  shows "triple (watched G P) (syscall k g) (\<lambda>x. watched G (Q x)) (\<lambda>_. watched G E)"
proof -
  define b where "b s = begin_call k s" for s
  have b: "fs (b s) = fs s" "history (b s) = history s" for s
    using assms(1) by (simp_all add: b_def begin_call_def quiet_def)
  show ?thesis
  proof (rule tripleI)
    fix s x s' assume s: "watched G P s" "syscall k g s = (Inr x, s')"
    then obtain s2 where g: "g (b s) = (Inr x, s2)" and s': "s' = observed s2"
      by (auto simp: syscall_def b_def Let_def split: if_splits prod.splits sum.splits)
    have "history s2 = history s" using assms(2) [of "b s"] b g by simp
    then show "watched G (Q x) s'"
      using s assms(3) [of "b s", OF _ g] b by (auto simp: watched_def s' observed_def)
  next
    fix s e s' assume s: "watched G P s" "syscall k g s = (Inl e, s')"
    then consider "s' = observed (b s)" | n s2 where "g (b s) = (Inl n, s2)" "s' = observed s2"
      by (auto simp: syscall_def b_def Let_def split: if_splits prod.splits sum.splits)
    then show "watched G E s'"
    proof cases
      case 1
      then show ?thesis
        using s assms(5) [of "fs s"] b by (auto simp: watched_def observed_def)
    next
      case 2
      have "history s2 = history s" using assms(2) [of "b s"] b 2 by simp
      then show ?thesis
        using s assms(4) [of "b s", OF _ 2(1)] b by (auto simp: watched_def 2(2) observed_def)
    qed
  qed
qed

lemma keeps_syscall:
  assumes "quiet k" and "lasting G P"
    and "\<And>s. history (snd (g s)) = history s" and "\<And>s. fs (snd (g s)) = fs s"
  shows "keeps (watched G P) (syscall k g)"
proof -
  have same: "fs s' = fs s" if "g s = (r, s')" for r s s'
    using assms(4) [of s] that by simp
  have "triple (watched G P) (syscall k g) (\<lambda>_. watched G P) (\<lambda>_. watched G P)"
    by (rule triple_syscall [OF assms(1,3)]) (use assms(2) same in \<open>auto simp: lasting_def\<close>)
  then show ?thesis by (simp add: keeps_triple)
qed

text \<open>The calls that leave the directory tree as it is.\<close>

lemma keeps_observing_calls [triples]:
  assumes "quiet k" and "lasting G P"
  shows "keeps (watched G P) (sys_stat k b p)" and "keeps (watched G P) (sys_fstat k d)"
    and "keeps (watched G P) (sys_open k b p)" and "keeps (watched G P) (sys_read k d off n)"
    and "keeps (watched G P) (sys_fsync k d)"
  unfolding sys_stat_def sys_fstat_def sys_open_def sys_read_def sys_fsync_def
  by (intro keeps_syscall assms; auto simp: opened_def split: sum.split)+

lemma keeps_close [triples]:
  assumes "quiet k" and "lasting G P"
  shows "keeps (watched G P) (sys_close k d)"
  unfolding keeps_def
proof (intro allI impI)
  fix s assume s: "watched G P s"
  define t where "t = unflock d (s\<lparr>descriptors := remove1 d (descriptors s)\<rparr>)"
  have "P (fs t)" using assms(2) s unfolding t_def unflock_def lasting_def watched_def by simp
  then have "watched G P t" using s by (simp add: watched_def t_def unflock_def)
  then show "watched G P (snd (sys_close k d s))"
    using s unfolding sys_close_def t_def [symmetric]
    by (auto intro!: keeps_syscall [OF assms, unfolded keeps_def, rule_format])
qed

lemma keeps_wrappers [triples]:
  "keeps I a \<Longrightarrow> keeps I h \<Longrightarrow> keeps I (on_errno n a h)"
  "keeps I a \<Longrightarrow> keeps I (os_to_journal a m)"
  "keeps I (check c m)" "keeps I (journal_error m)" "keeps I (lift_exn r)"
  unfolding on_errno_def os_to_journal_def check_def journal_error_def lift_exn_def
  by (auto intro!: triples split: os_exn.split sum.split)

lemma keeps_reject [triples]:
  assumes "quiet k" and "lasting G P"
  shows "keeps (watched G P) (reject_symlink_components k done p)"
proof (induction p arbitrary: "done")
  case (Cons c p)
  show ?case
    unfolding reject_symlink_components.simps
    by (intro keeps_bind)
       (auto split: option.split kind.split intro!: triples Cons.IH assms)
qed (simp add: keeps_ret)

lemma keeps_accept_directory [triples]:
  assumes "quiet k" and "lasting G P"
  shows "keeps (watched G P) (accept_directory k p e)"
  unfolding accept_directory_def by (intro triples assms)

lemma keeps_read_chunks [triples]:
  assumes "quiet k" and "lasting G P"
  shows "keeps (watched G P) (read_chunks k d off n)"
  using assms(1)
proof (induction k d off n rule: read_chunks.induct)
  case (1 k d off n)
  show ?case
    by (subst read_chunks.simps) (intro triples assms(2) 1)
qed

lemma keeps_sync_directory [triples]:
  assumes "quiet k" and "lasting G P"
  shows "keeps (watched G P) (sync_directory k p)"
  unfolding sync_directory_def by (intro triples assms)

lemma keeps_journal_identity [triples]:
  assumes "quiet k" and "lasting G P"
  shows "keeps (watched G P) (validated_journal_identity k p)"
  unfolding validated_journal_identity_def by (intro triples assms)

section \<open>The state directory\<close>

text \<open>The journal, its partial and the directory they share.\<close>

lemma sibling_plain:
  assumes "plain_path f (root @ [a])"
  shows "plain_path f (root @ [b])"
  using assms by (auto simp: plain_path_def)

lemma prefix_directory:
  assumes "plain_path f (root @ [a])" and "0 < n" and "n \<le> length root"
  shows "is_directory f (take n root)" and "at_path f False (take n root) = Inr (take n root)"
proof -
  show "is_directory f (take n root)"
    using assms by (auto simp: plain_path_def)
  have "plain_path f (take n root)"
    using assms by (auto simp: plain_path_def min_def)
  then show "at_path f False (take n root) = Inr (take n root)" by (rule at_path_plain)
qed

lemma mkdir_existing:
  assumes "quiet k" and "lasting G P" and "\<And>f. P f \<Longrightarrow> plain_path f (root @ [a])"
    and "0 < n" and "n \<le> length root"
  shows "triple (watched G P) (sys_mkdir k (take n root) m) (\<lambda>_ _. False) (\<lambda>_. watched G P)"
proof -
  define g where "g = (\<lambda>s. case at_path (fs s) False (take n root) of
       Inl e \<Rightarrow> (Inl e, s)
     | Inr q \<Rightarrow>
         if q = [] \<or> names (fs s) q \<noteq> None then (Inl EEXIST, s)
         else if \<not> parent_is_directory (fs s) q then (Inl ENOENT, s)
         else (Inr (), new_entry k Directory m q s))"
  have exists: "g s = (Inl EEXIST, s)" if "P (fs s)" for s
  proof -
    have "is_directory (fs s) (take n root)" "at_path (fs s) False (take n root) = Inr (take n root)"
      using prefix_directory [OF assms(3) [OF that] assms(4,5)] by simp_all
    then show ?thesis by (auto simp: g_def is_directory_def split: option.splits)
  qed
  have "triple (watched G P) (syscall k g) (\<lambda>_. watched G (\<lambda>_. False)) (\<lambda>_. watched G P)"
  proof (rule triple_syscall [OF assms(1)])
    show "history (snd (g s)) = history s" for s
      by (simp add: g_def new_entry_def Let_def split: sum.split)
  qed (use assms(2) exists in \<open>auto simp: lasting_def\<close>)
  then show ?thesis
    unfolding sys_mkdir_def g_def [symmetric]
    by (rule triple_conseq) (auto simp: watched_def)
qed

lemma keeps_accept:
  assumes "quiet k" and "lasting G P"
  shows "triple (watched G P) (accept_directory k p e) (\<lambda>_. watched G P) (\<lambda>_. watched G P)"
  using keeps_accept_directory [OF assms] unfolding keeps_triple .

lemma keeps_mkdir_parents:
  assumes "quiet k" and "lasting G P" and "\<And>f. P f \<Longrightarrow> plain_path f (root @ [a])"
  shows "keeps (watched G P) (mkdir_parents k (rev (take n root)) m)"
  using assms
proof (induction n arbitrary: m)
  case 0
  then show ?case by (simp add: keeps_ret)
next
  case (Suc n)
  show ?case
  proof (cases "n < length root")
    case False
    then show ?thesis using Suc by simp
  next
    case True
    have split: "rev (take (Suc n) root) = root ! n # rev (take n root)"
      using True by (simp add: take_Suc_conv_app_nth)
    have path: "rev (root ! n # rev (take n root)) = take (Suc n) root"
      using split by (metis rev_rev_ident)
    have make: "triple (watched G P) (sys_mkdir k (take (Suc n) root) mm) (\<lambda>_. watched G P)
        (\<lambda>_. watched G P)" for mm
      by (rule triple_conseq [OF mkdir_existing [OF Suc.prems]]) (use True in auto)
    then have "keeps (watched G P) (sys_mkdir k (take (Suc n) root) mm)" for mm
      by (simp add: keeps_triple)
    then show ?thesis
      unfolding split mkdir_parents.simps path mkdir_one_def
      by (intro triples Suc.IH Suc.prems)
  qed
qed

lemma keeps_initialize:
  assumes "quiet (kernel env)" and "lasting G P"
    and "\<And>f. P f \<Longrightarrow> plain_path f (journal_path env op)"
  shows "keeps (watched G P) (initialize env)"
proof -
  have "keeps (watched G P) (mkdir_parents (kernel env) (rev (take (length (root_path env)) (root_path env))) m)"
    for m
    by (rule keeps_mkdir_parents [OF assms(1,2)]) (use assms(3) in \<open>simp add: journal_path_def\<close>)
  then show ?thesis
    unfolding initialize_def Let_def by (intro triples assms(1,2)) simp_all
qed

section \<open>The journal and its partial\<close>

text \<open>Every directory entry names an allocated inode, and the way to the journal is plain.\<close>

definition tree_ok :: "store_env \<Rightarrow> string \<Rightarrow> file_system \<Rightarrow> bool" where
  "tree_ok env op f \<longleftrightarrow>
     (\<forall>q i. names f q = Some i \<longrightarrow> i < next_ino f) \<and> plain_path f (journal_path env op)"

text \<open>
  \<open>before env op old f\<close>: the name of the journal still means what it meant at the start,
  \<open>old\<close> (no file, or an inode with its content).  \<open>partly d b\<close>: besides, the partial is
  a file of its own that holds \<open>b\<close>.  \<open>replaced w old raw\<close>: the journal is the complete
  new text, which is allowed over an old one only for a write (\<open>w\<close>).
\<close>

definition before :: "store_env \<Rightarrow> string \<Rightarrow> (nat \<times> inode) option \<Rightarrow> file_system \<Rightarrow> bool" where
  "before env op old f \<longleftrightarrow>
     tree_ok env op f \<and>
     (case old of
        None \<Rightarrow> names f (journal_path env op) = None
      | Some (i, n) \<Rightarrow> names f (journal_path env op) = Some i \<and> inodes f i = n)"

definition partly ::
  "store_env \<Rightarrow> string \<Rightarrow> (nat \<times> inode) option \<Rightarrow> descriptor \<Rightarrow> string \<Rightarrow> file_system \<Rightarrow> bool" where
  "partly env op old d b f \<longleftrightarrow>
     before env op old f \<and> names f (partial_path env op) = Some (fst d) \<and>
     i_data (inodes f (fst d)) = b \<and> i_kind (inodes f (fst d)) = Regular \<and>
     (\<forall>i n. old = Some (i, n) \<longrightarrow> i \<noteq> fst d)"

definition replaced ::
  "store_env \<Rightarrow> string \<Rightarrow> bool \<Rightarrow> (nat \<times> inode) option \<Rightarrow> string \<Rightarrow> file_system \<Rightarrow> bool" where
  "replaced env op w old raw f \<longleftrightarrow>
     (w \<or> old = None) \<and> tree_ok env op f \<and>
     (\<exists>i. names f (journal_path env op) = Some i \<and> i_data (inodes f i) = raw)"

definition old_or_new ::
  "store_env \<Rightarrow> string \<Rightarrow> bool \<Rightarrow> (nat \<times> inode) option \<Rightarrow> string \<Rightarrow> file_system \<Rightarrow> bool" where
  "old_or_new env op w old raw f \<longleftrightarrow> before env op old f \<or> replaced env op w old raw f"

lemma lasting_states [simp]:
  "lasting (old_or_new env op w old raw) (before env op old)"
  "lasting (old_or_new env op w old raw) (partly env op old d b)"
  "lasting (old_or_new env op w old raw) (replaced env op w old raw)"
  "lasting (old_or_new env op w old raw) (old_or_new env op w old raw)"
  by (auto simp: lasting_def old_or_new_def before_def partly_def replaced_def tree_ok_def
      plain_path_def is_directory_def split: option.splits)

lemma partial_not_journal [simp]: "partial_path env op \<noteq> journal_path env op"
  by (simp add: partial_path_def journal_path_def)

lemma old_or_new_tree: "old_or_new env op w old raw f \<Longrightarrow> tree_ok env op f"
  by (auto simp: old_or_new_def before_def replaced_def)

lemma tree_ok_plain: "tree_ok env op f \<Longrightarrow> plain_path f (journal_path env op)"
  by (simp add: tree_ok_def)

lemma partial_at_path:
  assumes "tree_ok env op f"
  shows "at_path f False (partial_path env op) = Inr (partial_path env op)"
    and "at_path f False (journal_path env op) = Inr (journal_path env op)"
proof -
  have "plain_path f (partial_path env op)"
    using tree_ok_plain [OF assms] unfolding journal_path_def partial_path_def by (rule sibling_plain)
  then show "at_path f False (partial_path env op) = Inr (partial_path env op)"
    by (rule at_path_plain)
  show "at_path f False (journal_path env op) = Inr (journal_path env op)"
    using tree_ok_plain [OF assms] by (rule at_path_plain)
qed

text \<open>The names of the partial and of the journal are no directories on the way to either.\<close>

lemma plain_path_names:
  assumes "length q = length (journal_path env op)"
  shows "plain_path (f\<lparr>names := (names f)(q := x)\<rparr>) (journal_path env op)
    = plain_path f (journal_path env op)"
proof -
  have "take k (journal_path env op) \<noteq> q" if "k < length (journal_path env op)" for k
    using assms that by (metis length_take min_less_iff_conj order_less_irrefl)
  moreover have "is_directory (f\<lparr>names := (names f)(q := x)\<rparr>) p = is_directory f p" if "p \<noteq> q" for p
    using that by (simp add: is_directory_def split: option.split)
  ultimately show ?thesis by (auto simp: plain_path_def)
qed

lemma tree_ok_names:
  assumes "tree_ok env op f" and "length q = length (journal_path env op)"
    and "\<And>i. x = Some i \<Longrightarrow> i < next_ino f"
  shows "tree_ok env op (f\<lparr>names := (names f)(q := x)\<rparr>)"
  using assms by (auto simp: tree_ok_def plain_path_names)

lemma partial_length [simp]: "length (partial_path env op) = length (journal_path env op)"
  by (simp add: partial_path_def journal_path_def)

section \<open>The partial\<close>

lemma unlink_partial_name:
  "before env op old f \<Longrightarrow> before env op old (f\<lparr>names := (names f)(partial_path env op := None)\<rparr>)"
  "replaced env op w old raw f \<Longrightarrow>
     replaced env op w old raw (f\<lparr>names := (names f)(partial_path env op := None)\<rparr>)"
  by (auto simp: before_def replaced_def intro: tree_ok_names
      simp: partial_not_journal [symmetric] split: option.splits)

definition settled :: "store_env \<Rightarrow> string \<Rightarrow> (file_system \<Rightarrow> bool) \<Rightarrow> bool" where
  "settled env op P \<longleftrightarrow>
     (\<forall>f. P f \<longrightarrow> tree_ok env op f \<and>
          P (f\<lparr>names := (names f)(partial_path env op := None)\<rparr>))"

lemma settled_states [simp]:
  "settled env op (before env op old)"
  "settled env op (replaced env op w old raw)"
  "settled env op (old_or_new env op w old raw)"
proof -
  have tree: "before env op old f \<Longrightarrow> tree_ok env op f" "replaced env op w old raw f \<Longrightarrow> tree_ok env op f"
    for f by (simp_all add: before_def replaced_def)
  show before: "settled env op (before env op old)"
    unfolding settled_def by (blast intro: tree(1) unlink_partial_name(1))
  show replaced: "settled env op (replaced env op w old raw)"
    unfolding settled_def by (blast intro: tree(2) unlink_partial_name(2))
  show "settled env op (old_or_new env op w old raw)"
    using before replaced unfolding settled_def old_or_new_def by blast
qed

lemma keeps_unlink_partial:
  assumes "quiet k" and "lasting G P" and "settled env op P"
  shows "keeps (watched G P) (unlink_owned_partial k (partial_path env op) i)"
proof -
  have "triple (watched G P) (sys_unlink k (partial_path env op)) (\<lambda>_. watched G P) (\<lambda>_. watched G P)"
    unfolding sys_unlink_def
  proof (rule triple_syscall [OF assms(1)])
    fix s x s'
    assume P: "P (fs s)" and g: "(case at_path (fs s) False (partial_path env op) of
        Inl e \<Rightarrow> (Inl e, s)
      | Inr q \<Rightarrow> if names (fs s) q = None then (Inl ENOENT, s) else (Inr (), set_name q None s)) = (Inr x, s')"
    have "s' = set_name (partial_path env op) None s"
      using g partial_at_path(1) assms(3) P by (auto simp: settled_def split: if_splits)
    then show "P (fs s') \<and> G (fs s')"
      using assms(2,3) P by (auto simp: settled_def lasting_def set_name_def Let_def)
  qed (use assms(2) in \<open>auto simp: lasting_def set_name_def Let_def split: sum.splits if_splits\<close>)
  then show ?thesis
    unfolding unlink_owned_partial_def
    by (intro triples assms(1,2)) (auto split: option.split intro!: triples simp: keeps_triple)
qed

text \<open>Creating the partial, and filling it.\<close>

lemma before_new_entry:
  assumes "before env op old f"
  shows "partly env op old (next_ino f, c) []
     (f\<lparr>names := (names f)(partial_path env op \<mapsto> next_ino f),
        inodes := (inodes f)(next_ino f := \<lparr>i_kind = Regular, i_uid = u, i_mode = m, i_data = [], i_mtime = t\<rparr>),
        next_ino := next_ino f + 1\<rparr>)" (is "partly _ _ _ _ _ ?f")
proof -
  have tree: "tree_ok env op f" using assms by (simp add: before_def)
  then have sound: "names f q = Some i \<Longrightarrow> i < next_ino f" for q i by (auto simp: tree_ok_def)
  have "is_directory ?f q" if "is_directory f q" "q \<noteq> partial_path env op" for q
    using that sound by (auto simp: is_directory_def split: option.splits)
  moreover have "take k (journal_path env op) \<noteq> partial_path env op"
    if "k < length (journal_path env op)" for k
    using that by (metis length_take min_less_iff_conj order_less_irrefl partial_length)
  ultimately have "plain_path ?f (journal_path env op)"
    using tree by (auto simp: tree_ok_def plain_path_def)
  moreover have "i < next_ino f + 1" if "names f q = Some i" for q i
    using sound [OF that] by simp
  ultimately have "tree_ok env op ?f" by (auto simp: tree_ok_def)
  then show ?thesis
    using assms sound by (auto simp: partly_def before_def partial_not_journal [symmetric] split: option.splits)
qed

lemma triple_create_partial:
  assumes "quiet k"
  shows "triple (watched (old_or_new env op w old raw) (before env op old))
     (sys_create k (partial_path env op) m)
     (\<lambda>d. watched (old_or_new env op w old raw) (partly env op old d []))
     (\<lambda>_. watched (old_or_new env op w old raw) (before env op old))"
  unfolding sys_create_def
proof (rule triple_syscall [OF assms])
  fix s d s'
  assume b: "before env op old (fs s)"
    and g: "(case at_path (fs s) False (partial_path env op) of
        Inl e \<Rightarrow> (Inl e, s)
      | Inr q \<Rightarrow>
          if names (fs s) q \<noteq> None then (Inl EEXIST, s)
          else if \<not> parent_is_directory (fs s) q then (Inl ENOENT, s)
          else opened (next_ino (fs s)) (new_entry k Regular m q s)) = (Inr d, s')"
  have tree: "tree_ok env op (fs s)" using b by (simp add: before_def)
  have new: "opened (next_ino (fs s)) (new_entry k Regular m (partial_path env op) s) = (Inr d, s')"
    using g partial_at_path(1) [OF tree] by (auto split: if_splits)
  have "partly env op old d [] (fs s')"
    using new before_new_entry [OF b] by (auto simp: opened_def new_entry_def Let_def)
  then show "partly env op old d [] (fs s') \<and> old_or_new env op w old raw (fs s')"
    by (simp add: partly_def old_or_new_def)
qed (auto simp: opened_def new_entry_def Let_def old_or_new_def split: sum.splits if_splits)

lemma partly_write:
  assumes "partly env op old d b f"
  shows "partly env op old d b'
     (f\<lparr>inodes := (inodes f)(fst d := (inodes f (fst d))\<lparr>i_data := b', i_mtime := t\<rparr>)\<rparr>)"
    (is "partly _ _ _ _ _ ?f")
proof -
  have "is_directory ?f q" if "is_directory f q" for q
    using that by (auto simp: is_directory_def split: option.splits)
  then have "tree_ok env op ?f"
    using assms by (auto simp: partly_def before_def tree_ok_def plain_path_def)
  then show ?thesis
    using assms by (auto simp: partly_def before_def split: option.splits)
qed

lemma triple_write:
  assumes "quiet k"
  shows "triple (watched (old_or_new env op w old raw) (partly env op old d (take off raw)))
     (sys_write k d off (drop off raw))
     (\<lambda>n. watched (old_or_new env op w old raw) (partly env op old d (take (off + n) raw)))
     (\<lambda>_. watched (old_or_new env op w old raw) (before env op old))"
  unfolding sys_write_def
proof (rule triple_syscall [OF assms])
  fix s n s'
  assume p: "partly env op old d (take off raw) (fs s)"
    and g: "(let m = min (length (drop off raw)) (transfer k (clock s));
          old = i_data (inodes (fs s) (fst d)) in
        (Inr m, set_data (fst d) (take off old @ take m (drop off raw) @ drop (off + m) old) s)) = (Inr n, s')"
  have "take off (take off raw) @ take n (drop off raw) @ drop (off + n) (take off raw) = take (off + n) raw"
    by (simp add: take_add)
  then have "partly env op old d (take (off + n) raw) (fs s')"
    using g p partly_write [OF p] by (auto simp: Let_def set_data_def partly_def)
  then show "partly env op old d (take (off + n) raw) (fs s') \<and> old_or_new env op w old raw (fs s')"
    by (simp add: partly_def old_or_new_def)
qed (auto simp: set_data_def Let_def partly_def old_or_new_def)

lemma triple_write_all:
  assumes "quiet k"
  shows "triple (watched (old_or_new env op w old raw) (partly env op old d (take off raw)))
     (write_all k d off (drop off raw))
     (\<lambda>_. watched (old_or_new env op w old raw) (partly env op old d raw))
     (\<lambda>_. watched (old_or_new env op w old raw) (before env op old))"
  using assms
proof (induction k d off "drop off raw" rule: write_all.induct)
  case (1 k d off)
  have stop: "watched (old_or_new env op w old raw) (partly env op old d b) s \<Longrightarrow>
      watched (old_or_new env op w old raw) (before env op old) s" for b s
    by (erule watched_mono) (simp add: partly_def)
  show ?case
  proof (cases "drop off raw = []")
    case True
    then show ?thesis
      by (subst write_all.simps) (auto intro!: triple_ret)
  next
    case False
    have "triple (watched (old_or_new env op w old raw) (partly env op old d (take (off + n) raw)))
        (if n = 0 then raise (OSErr EOTHER) else write_all k d (off + n) (drop n (drop off raw)))
        (\<lambda>_. watched (old_or_new env op w old raw) (partly env op old d raw))
        (\<lambda>_. watched (old_or_new env op w old raw) (before env op old))" for n
    proof (rule triple_if)
      assume "n \<noteq> 0"
      moreover have same: "drop n (drop off raw) = drop (off + n) raw" by (simp add: add.commute)
      ultimately show "triple (watched (old_or_new env op w old raw) (partly env op old d (take (off + n) raw)))
          (write_all k d (off + n) (drop n (drop off raw)))
          (\<lambda>_. watched (old_or_new env op w old raw) (partly env op old d raw))
          (\<lambda>_. watched (old_or_new env op w old raw) (before env op old))"
        unfolding same by (intro 1(1) [OF False] 1(2)) (simp_all add: add.commute)
    qed (auto intro!: triple_raise stop)
    then show ?thesis
      by (subst write_all.simps, simp only: False if_False)
         (rule triple_bind [OF triple_write [OF 1(2)]])
  qed
qed

text \<open>Observing calls with a state that is known to be partly written.\<close>

lemma keeps_to_error:
  assumes "keeps (watched G P) m" and "\<And>f. P f \<Longrightarrow> E f"
  shows "triple (watched G P) m (\<lambda>_. watched G P) (\<lambda>_. watched G E)"
  using assms(1) unfolding keeps_triple
  by (rule triple_conseq) (auto intro: watched_mono assms(2))

lemma triple_on_error:
  assumes "triple P m Q (\<lambda>_. E)" and "keeps E c"
  shows "triple P (on_error m c) Q (\<lambda>_. E)"
  unfolding on_error_def
  by (rule triple_try [OF assms(1)])
     (rule triple_bind [OF assms(2) [unfolded keeps_triple]], simp add: triple_raise)

lemma triple_os_to_journal:
  assumes "triple P m Q (\<lambda>_. E)"
  shows "triple P (os_to_journal m msg) Q (\<lambda>_. E)"
  unfolding os_to_journal_def journal_error_def
  by (rule triple_try [OF assms]) (auto split: os_exn.split intro!: triple_raise)

lemma triple_finally:
  assumes "triple P m Q (\<lambda>_. E)" and "\<And>x. triple (Q x) c (\<lambda>_. Q x) (\<lambda>_. E)" and "keeps E c"
  shows "triple P (finallyA m c) Q (\<lambda>_. E)"
proof -
  have "case finallyA m c s of (Inl e, t) \<Rightarrow> E t | (Inr x, t) \<Rightarrow> Q x t" if "P s" for s
  proof -
    obtain r s1 where m: "m s = (r, s1)" by fastforce
    obtain r2 s2 where c: "c s1 = (r2, s2)" by fastforce
    show ?thesis
    proof (cases r)
      case (Inl e)
      then have "E s1" using tripleD_raise [OF assms(1) that] m by blast
      then have "E s2" using keepsD [OF assms(3) _ c] by simp
      then show ?thesis by (cases r2) (simp_all add: finallyA_def m c Inl)
    next
      case (Inr x)
      then have q: "Q x s1" using tripleD_ret [OF assms(1) that] m by blast
      show ?thesis
        using tripleD_ret [OF assms(2) q] tripleD_raise [OF assms(2) q] c
        by (cases r2) (auto simp: finallyA_def m Inr)
    qed
  qed
  then show ?thesis by (simp add: triple_def)
qed

lemma partly_before: "partly env op old d b f \<Longrightarrow> before env op old f"
  by (simp add: partly_def)

lemma triple_write_partial:
  assumes "quiet k"
  shows "triple (watched (old_or_new env op w old raw) (before env op old))
     (write_owned_partial k (partial_path env op) raw)
     (\<lambda>owned. watched (old_or_new env op w old raw) (partly env op old (fst owned) raw))
     (\<lambda>_. watched (old_or_new env op w old raw) (before env op old))"
proof -
  let ?G = "old_or_new env op w old raw" and ?B = "before env op old"
  have close: "keeps (watched ?G ?B) (sys_close k d)" for d by (intro triples assms) simp
  have cleanup: "keeps (watched ?G ?B) (thenA (sys_close k d) (unlink_owned_partial k (partial_path env op) i))"
    for d i by (intro triples close keeps_unlink_partial assms) simp_all
  have fill: "triple (watched ?G (partly env op old d []))
      (thenA (check c m) (thenA (write_all k d 0 raw) (sys_fsync k d)))
      (\<lambda>_. watched ?G (partly env op old d raw)) (\<lambda>_. watched ?G ?B)" for c m d
  proof -
    have writing: "triple (watched ?G (partly env op old d [])) (write_all k d 0 raw)
        (\<lambda>_. watched ?G (partly env op old d raw)) (\<lambda>_. watched ?G ?B)"
      using triple_write_all [OF assms, where off = 0 and d = d and raw = raw] by simp
    have obs: "keeps (watched ?G (partly env op old d [])) (check c m)" by (intro triples)
    have sync: "keeps (watched ?G (partly env op old d raw)) (sys_fsync k d)"
      by (intro triples assms) simp
    show ?thesis
      by (rule triple_bind [OF keeps_to_error [OF obs partly_before]
            triple_bind [OF writing keeps_to_error [OF sync partly_before]]])
  qed
  have stat: "triple (watched ?G (partly env op old d [])) (on_error (sys_fstat k d) (sys_close k d))
      (\<lambda>_. watched ?G (partly env op old d [])) (\<lambda>_. watched ?G ?B)" for d
    by (intro triple_on_error keeps_to_error close triples assms) (auto intro: partly_before)
  show ?thesis
    unfolding write_owned_partial_def
    by (rule triple_bind [OF triple_os_to_journal [OF triple_create_partial [OF assms]]],
        rule triple_bind [OF stat], rule triple_bind [OF triple_on_error [OF fill cleanup]])
       (simp add: triple_ret)
qed

text \<open>The block around the finished partial.\<close>

lemma triple_publish:
  assumes "quiet k" and "lasting G P" and "lasting G A" and "lasting G N"
    and "settled env op A" and "settled env op N" and "\<And>f. P f \<Longrightarrow> A f" and "\<And>f. N f \<Longrightarrow> A f"
    and "triple (watched G P) act (\<lambda>_. watched G N) (\<lambda>_. watched G A)"
  shows "triple (watched G P) (publish k (partial_path env op) owned act)
     (\<lambda>_. watched G N) (\<lambda>_. watched G A)"
proof -
  have close: "triple (watched G P)
      (tryA (thenA (sys_close k (fst owned)) (ret True)) (\<lambda>_. ret False))
      (\<lambda>_. watched G P) (\<lambda>_. watched G A)"
    by (intro keeps_to_error triples assms)
  have body: "triple (watched G P)
      (os_to_journal (if closed then act else raise (OSErr EOTHER)) m)
      (\<lambda>_. watched G N) (\<lambda>_. watched G A)" for closed m
    by (rule triple_os_to_journal) (auto intro!: triple_raise assms(9) elim: watched_mono intro: assms(7))
  have cleanup: "keeps (watched G X) (thenA (if closed then ret () else sys_close k (fst owned))
      (unlink_owned_partial k (partial_path env op) (snd owned)))"
    if "lasting G X" "settled env op X" for X closed
    by (intro triples keeps_unlink_partial assms(1) that)
  show ?thesis
    unfolding publish_def
    by (rule triple_bind [OF close], rule triple_finally [OF body])
       (intro keeps_to_error cleanup assms; assumption?)+
qed

section \<open>Publishing\<close>

lemma partly_replaced:
  assumes "w \<or> old = None" and "partly env op old d raw f"
  shows "replaced env op w old raw (f\<lparr>names := (names f)(journal_path env op \<mapsto> fst d)\<rparr>)"
    and "replaced env op w old raw
      (f\<lparr>names := (names f)(journal_path env op \<mapsto> fst d, partial_path env op := None)\<rparr>)"
proof -
  have tree: "tree_ok env op f" and p: "names f (partial_path env op) = Some (fst d)"
    using assms(2) by (auto simp: partly_def before_def)
  then have "fst d < next_ino f" by (auto simp: tree_ok_def)
  then show 1: "replaced env op w old raw (f\<lparr>names := (names f)(journal_path env op \<mapsto> fst d)\<rparr>)"
    using assms tree by (auto simp: replaced_def partly_def intro: tree_ok_names)
  from unlink_partial_name(2) [OF 1]
  show "replaced env op w old raw
      (f\<lparr>names := (names f)(journal_path env op \<mapsto> fst d, partial_path env op := None)\<rparr>)"
    by simp
qed

lemma triple_replace:
  assumes "quiet k" and "w \<or> old = None"
  shows "triple (watched (old_or_new env op w old raw) (partly env op old d raw))
     (sys_replace k (partial_path env op) (journal_path env op))
     (\<lambda>_. watched (old_or_new env op w old raw) (replaced env op w old raw))
     (\<lambda>_. watched (old_or_new env op w old raw) (before env op old))"
  unfolding sys_replace_def
proof (rule triple_syscall [OF assms(1)])
  fix s u s'
  assume p: "partly env op old d raw (fs s)"
    and g: "(case (at_path (fs s) False (partial_path env op), at_path (fs s) False (journal_path env op)) of
       (Inl e, _) \<Rightarrow> (Inl e, s)
     | (_, Inl e) \<Rightarrow> (Inl e, s)
     | (Inr p, Inr q) \<Rightarrow>
         (case names (fs s) p of
            None \<Rightarrow> (Inl ENOENT, s)
          | Some i \<Rightarrow>
              if names (fs s) q = Some i then (Inr (), s)
              else if is_directory (fs s) q then (Inl EOTHER, s)
              else if \<not> parent_is_directory (fs s) q then (Inl ENOENT, s)
              else (Inr (), set_name p None (set_name q (Some i) s)))) = (Inr u, s')"
  have tree: "tree_ok env op (fs s)" using p by (simp add: partly_def before_def)
  have fresh: "names (fs s) (journal_path env op) \<noteq> Some (fst d)"
    using p by (auto simp: partly_def before_def split: option.splits)
  have "fs s' = (fs s)\<lparr>names := (names (fs s))
      (journal_path env op \<mapsto> fst d, partial_path env op := None)\<rparr>"
    using g p fresh partial_at_path [OF tree]
    by (auto simp: partly_def set_name_def Let_def split: if_splits)
  then have "replaced env op w old raw (fs s')" using partly_replaced(2) [OF assms(2) p] by simp
  then show "replaced env op w old raw (fs s') \<and> old_or_new env op w old raw (fs s')"
    by (simp add: old_or_new_def)
qed (auto simp: set_name_def Let_def partly_def old_or_new_def
      split: sum.splits option.splits if_splits)

lemma triple_link:
  assumes "quiet k"
  shows "triple (watched (old_or_new env op w old raw) (partly env op old d raw))
     (sys_link k (partial_path env op) (journal_path env op))
     (\<lambda>_. watched (old_or_new env op w old raw) (replaced env op w old raw))
     (\<lambda>_. watched (old_or_new env op w old raw) (before env op old))"
  unfolding sys_link_def
proof (rule triple_syscall [OF assms])
  fix s u s'
  assume p: "partly env op old d raw (fs s)"
    and g: "(case ino_at (fs s) False (partial_path env op) of
       Inl e \<Rightarrow> (Inl e, s)
     | Inr i \<Rightarrow>
         (case at_path (fs s) False (journal_path env op) of
            Inl e \<Rightarrow> (Inl e, s)
          | Inr q \<Rightarrow>
              if names (fs s) q \<noteq> None then (Inl EEXIST, s)
              else if \<not> parent_is_directory (fs s) q then (Inl ENOENT, s)
              else (Inr (), set_name q (Some i) s))) = (Inr u, s')"
  have tree: "tree_ok env op (fs s)" using p by (simp add: partly_def before_def)
  have "names (fs s) (journal_path env op) = None" and
    "fs s' = (fs s)\<lparr>names := (names (fs s))(journal_path env op \<mapsto> fst d)\<rparr>"
    using g p partial_at_path [OF tree]
    by (auto simp: partly_def ino_at_def set_name_def Let_def split: if_splits)
  moreover from this(1) have "old = None"
    using p by (auto simp: partly_def before_def split: option.splits)
  ultimately have "replaced env op w old raw (fs s')"
    using partly_replaced(1) [OF _ p] by simp
  then show "replaced env op w old raw (fs s') \<and> old_or_new env op w old raw (fs s')"
    by (simp add: old_or_new_def)
qed (auto simp: set_name_def Let_def partly_def old_or_new_def
      split: sum.splits option.splits if_splits)

section \<open>The operations\<close>

text \<open>The state an operation starts in: the tree is as it should be and nothing has been seen yet.\<close>

definition at_start :: "store_env \<Rightarrow> string \<Rightarrow> os \<Rightarrow> bool" where
  "at_start env op s \<longleftrightarrow> tree_ok env op (fs s) \<and> history s = []"

definition journal_entry :: "store_env \<Rightarrow> string \<Rightarrow> file_system \<Rightarrow> (nat \<times> inode) option" where
  "journal_entry env op f = map_option (\<lambda>i. (i, inodes f i)) (names f (journal_path env op))"

lemma at_start_before:
  "at_start env op s \<Longrightarrow> watched G (before env op (journal_entry env op (fs s))) s"
  by (simp add: at_start_def watched_def before_def journal_entry_def split: option.split)

lemma triple_lift_exn:
  assumes "\<And>x. r = Inr x \<Longrightarrow> triple P (k x) Q E" and "\<And>e s. P s \<Longrightarrow> E e s"
  shows "triple P (bindA (lift_exn r) k) Q E"
proof (cases r)
  case (Inl e)
  then show ?thesis by (simp add: lift_exn_def triple_raise assms(2))
next
  case (Inr x)
  then show ?thesis by (simp add: lift_exn_def assms(1))
qed

lemma watched_old_or_new:
  "watched G (before env op old) s \<Longrightarrow> watched G (old_or_new env op w old raw) s"
  "watched G (replaced env op w old raw) s \<Longrightarrow> watched G (old_or_new env op w old raw) s"
  by (auto elim!: watched_mono simp: old_or_new_def)

lemma triple_prefix:
  assumes "quiet (kernel env)" and "lasting G (before env op old)"
    and "\<And>s. watched G (before env op old) s \<Longrightarrow> E s"
    and "\<And>raw. encode_journal env op v = Inr raw \<Longrightarrow>
      triple (watched G (before env op old)) (act raw) Q (\<lambda>_. E)"
  shows "triple (watched G (before env op old))
     (thenA (initialize env) (bindA (lift_exn (encode_journal env op v)) act)) Q (\<lambda>_. E)"
proof (rule triple_bind)
  have "keeps (watched G (before env op old)) (initialize env)"
    by (rule keeps_initialize [OF assms(1,2), where op = op]) (simp add: before_def tree_ok_def)
  then show "triple (watched G (before env op old)) (initialize env)
      (\<lambda>_. watched G (before env op old)) (\<lambda>_. E)"
    unfolding keeps_triple by (rule triple_conseq) (simp_all add: assms(3))
  show "triple (watched G (before env op old)) (bindA (lift_exn (encode_journal env op v)) act) Q (\<lambda>_. E)"
    by (rule triple_lift_exn) (simp_all add: assms(3,4))
qed

lemma triple_write_operation:
  assumes "quiet (kernel env)" and "encode_journal env op v = Inr raw \<or> isl (encode_journal env op v)"
  shows "triple (watched (old_or_new env op True old raw) (before env op old))
     (write_operation env op v)
     (\<lambda>_. watched (old_or_new env op True old raw) (replaced env op True old raw))
     (\<lambda>_. watched (old_or_new env op True old raw) (old_or_new env op True old raw))"
    (is "triple (watched ?G ?B) _ (\<lambda>_. watched ?G ?N) (\<lambda>_. watched ?G ?G)")
proof -
  let ?k = "kernel env"
  have err: "watched ?G ?B s \<Longrightarrow> watched ?G ?G s" for s by (rule watched_old_or_new)
  have act: "triple (watched ?G (partly env op old d raw))
      (bindA (sys_lstat ?k (journal_path env op)) (\<lambda>current.
       thenA (check (c current) m)
         (thenA (sys_replace ?k (partial_path env op) (journal_path env op))
           (sync_directory ?k (root_path env)))))
      (\<lambda>_. watched ?G ?N) (\<lambda>_. watched ?G ?G)" for d c m
  proof -
    have p: "partly env op old d raw f \<Longrightarrow> ?G f" and n: "?N f \<Longrightarrow> ?G f" for f
      by (simp_all add: partly_def old_or_new_def)
    have stat: "keeps (watched ?G (partly env op old d raw)) (sys_lstat ?k (journal_path env op))"
      and chk: "keeps (watched ?G (partly env op old d raw)) (check b m)" for b
      by (intro triples assms; simp)+
    have sync: "keeps (watched ?G ?N) (sync_directory ?k (root_path env))"
      by (intro triples assms) simp
    have swap: "triple (watched ?G (partly env op old d raw))
        (sys_replace ?k (partial_path env op) (journal_path env op))
        (\<lambda>_. watched ?G ?N) (\<lambda>_. watched ?G ?G)"
      by (rule triple_conseq [OF triple_replace [OF assms(1)]]) (auto intro: err)
    show ?thesis
      by (rule triple_bind [OF keeps_to_error [OF stat p]
            triple_bind [OF keeps_to_error [OF chk p]
              triple_bind [OF swap keeps_to_error [OF sync n]]]])
  qed
  have publish: "triple (watched ?G (partly env op old (fst owned) raw))
      (publish ?k (partial_path env op) owned
        (bindA (sys_lstat ?k (journal_path env op)) (\<lambda>current.
         thenA (check (c current) m)
           (thenA (sys_replace ?k (partial_path env op) (journal_path env op))
             (sync_directory ?k (root_path env))))))
      (\<lambda>_. watched ?G ?N) (\<lambda>_. watched ?G ?G)" for owned c m
    by (rule triple_publish [OF assms(1) _ _ _ _ _ _ _ act])
       (simp_all add: partly_def old_or_new_def lasting_states [unfolded old_or_new_def] settled_states [unfolded old_or_new_def])
  have identity: "triple (watched ?G ?B) (validated_journal_identity ?k (journal_path env op))
      (\<lambda>_. watched ?G ?B) (\<lambda>_. watched ?G ?G)"
    by (rule keeps_to_error [OF keeps_journal_identity [OF assms(1)]]) (simp_all add: old_or_new_def)
  have partial: "triple (watched ?G ?B) (write_owned_partial ?k (partial_path env op) raw)
      (\<lambda>owned. watched ?G (partly env op old (fst owned) raw)) (\<lambda>_. watched ?G ?G)"
    by (rule triple_conseq [OF triple_write_partial [OF assms(1)]], assumption, assumption)
       (rule err)
  show ?thesis
    unfolding write_operation_def Let_def
  proof (rule triple_lift_exn)
    fix op' assume "canonical_operation_ref (JStr op) = Inr op'"
    then have [simp]: "op' = op" by (simp add: canonical_ref_same)
    show "triple (watched ?G ?B) (thenA (initialize env)
        (bindA (lift_exn (encode_journal env op' v)) (\<lambda>raw.
         bindA (validated_journal_identity ?k (journal_path env op')) (\<lambda>existing.
         bindA (write_owned_partial ?k (partial_path env op') raw) (\<lambda>owned.
         publish ?k (partial_path env op') owned
           (bindA (sys_lstat ?k (journal_path env op')) (\<lambda>current.
            thenA (check (st_ino current = existing \<and> st_kind current = Regular)
                     ''operation journal changed before replacement'')
              (thenA (sys_replace ?k (partial_path env op') (journal_path env op'))
                (sync_directory ?k (root_path env)))))))))) (\<lambda>_. watched ?G ?N) (\<lambda>_. watched ?G ?G)"
      unfolding \<open>op' = op\<close>
    proof (rule triple_prefix [OF assms(1)])
      fix raw' assume "encode_journal env op v = Inr raw'"
      then have same: "raw' = raw" using assms(2) by auto
      show "triple (watched ?G ?B)
         (bindA (validated_journal_identity ?k (journal_path env op)) (\<lambda>existing.
          bindA (write_owned_partial ?k (partial_path env op) raw') (\<lambda>owned.
          publish ?k (partial_path env op) owned
            (bindA (sys_lstat ?k (journal_path env op)) (\<lambda>current.
             thenA (check (st_ino current = existing \<and> st_kind current = Regular)
                      ''operation journal changed before replacement'')
               (thenA (sys_replace ?k (partial_path env op) (journal_path env op))
                 (sync_directory ?k (root_path env)))))))) (\<lambda>_. watched ?G ?N) (\<lambda>_. watched ?G ?G)"
        unfolding same by (rule triple_bind [OF identity], rule triple_bind [OF partial], rule publish)
    qed (simp_all add: err)
  next
    fix s assume "watched ?G ?B s"
    then show "watched ?G ?G s" by (rule err)
  qed
qed

lemma triple_create_operation:
  assumes "quiet (kernel env)" and "encode_journal env op v = Inr raw \<or> isl (encode_journal env op v)"
  shows "triple (watched (old_or_new env op False old raw) (before env op old))
     (create_operation env op v)
     (\<lambda>_. watched (old_or_new env op False old raw) (replaced env op False old raw))
     (\<lambda>_. watched (old_or_new env op False old raw) (old_or_new env op False old raw))"
    (is "triple (watched ?G ?B) _ (\<lambda>_. watched ?G ?N) (\<lambda>_. watched ?G ?G)")
proof -
  let ?k = "kernel env"
  have err: "watched ?G ?B s \<Longrightarrow> watched ?G ?G s" for s by (rule watched_old_or_new)
  have act: "triple (watched ?G (partly env op old d raw))
      (thenA
         (on_errno EEXIST (sys_link ?k (partial_path env op) (journal_path env op)) (journal_error m))
         (sync_directory ?k (root_path env)))
      (\<lambda>_. watched ?G ?N) (\<lambda>_. watched ?G ?G)" for d m
  proof -
    have n: "?N f \<Longrightarrow> ?G f" for f by (simp add: old_or_new_def)
    have sync: "keeps (watched ?G ?N) (sync_directory ?k (root_path env))"
      by (intro triples assms) simp
    have link: "triple (watched ?G (partly env op old d raw))
        (on_errno EEXIST (sys_link ?k (partial_path env op) (journal_path env op)) (journal_error m))
        (\<lambda>_. watched ?G ?N) (\<lambda>_. watched ?G ?G)"
      unfolding on_errno_def journal_error_def
      by (rule triple_try [OF triple_link [OF assms(1)]]) (auto intro!: triple_raise err)
    show ?thesis by (rule triple_bind [OF link keeps_to_error [OF sync n]])
  qed
  have publish: "triple (watched ?G (partly env op old (fst owned) raw))
      (publish ?k (partial_path env op) owned
        (thenA
           (on_errno EEXIST (sys_link ?k (partial_path env op) (journal_path env op)) (journal_error m))
           (sync_directory ?k (root_path env))))
      (\<lambda>_. watched ?G ?N) (\<lambda>_. watched ?G ?G)" for owned m
    by (rule triple_publish [OF assms(1) _ _ _ _ _ _ _ act])
       (simp_all add: partly_def old_or_new_def lasting_states [unfolded old_or_new_def] settled_states [unfolded old_or_new_def])
  have partial: "triple (watched ?G ?B) (write_owned_partial ?k (partial_path env op) raw)
      (\<lambda>owned. watched ?G (partly env op old (fst owned) raw)) (\<lambda>_. watched ?G ?G)"
    by (rule triple_conseq [OF triple_write_partial [OF assms(1)]], assumption, assumption)
       (rule err)
  show ?thesis
    unfolding create_operation_def Let_def
  proof (rule triple_lift_exn)
    fix op' assume "canonical_operation_ref (JStr op) = Inr op'"
    then have [simp]: "op' = op" by (simp add: canonical_ref_same)
    show "triple (watched ?G ?B) (thenA (initialize env)
        (bindA (lift_exn (encode_journal env op' v)) (\<lambda>raw.
         bindA (write_owned_partial ?k (partial_path env op') raw) (\<lambda>owned.
         publish ?k (partial_path env op') owned
           (thenA
             (on_errno EEXIST (sys_link ?k (partial_path env op') (journal_path env op'))
               (journal_error ''operation reference already exists''))
             (sync_directory ?k (root_path env)))))))
        (\<lambda>_. watched ?G ?N) (\<lambda>_. watched ?G ?G)"
      unfolding \<open>op' = op\<close>
    proof (rule triple_prefix [OF assms(1)])
      fix raw' assume "encode_journal env op v = Inr raw'"
      then have same: "raw' = raw" using assms(2) by auto
      show "triple (watched ?G ?B)
         (bindA (write_owned_partial ?k (partial_path env op) raw') (\<lambda>owned.
          publish ?k (partial_path env op) owned
            (thenA
              (on_errno EEXIST (sys_link ?k (partial_path env op) (journal_path env op))
                (journal_error ''operation reference already exists''))
              (sync_directory ?k (root_path env))))) (\<lambda>_. watched ?G ?N) (\<lambda>_. watched ?G ?G)"
        unfolding same by (rule triple_bind [OF partial], rule publish)
    qed (simp_all add: err)
  next
    fix s assume "watched ?G ?B s"
    then show "watched ?G ?G s" by (rule err)
  qed
qed

text \<open>From the triples to one run.\<close>

lemma watched_run:
  assumes "triple (watched G (before env op old)) m (\<lambda>_. watched G N) (\<lambda>_. watched G A)"
    and "at_start env op s" and "old = journal_entry env op (fs s)" and "m s = (r, s')"
  shows "\<forall>f \<in> set (history s'). G f" and "r = Inr u \<Longrightarrow> N (fs s')"
proof -
  have s: "watched G (before env op old) s" using at_start_before [OF assms(2)] assms(3) by simp
  show "\<forall>f \<in> set (history s'). G f"
    using tripleD_ret [OF assms(1) s] tripleD_raise [OF assms(1) s] assms(4)
    by (cases r) (auto simp: watched_def)
  show "r = Inr u \<Longrightarrow> N (fs s')"
    using tripleD_ret [OF assms(1) s] assms(4) by (auto simp: watched_def)
qed

lemma old_or_new_entry:
  assumes "old_or_new env op w (journal_entry env op g) raw f"
  shows "journal_entry env op f = journal_entry env op g \<or>
     (w \<or> journal_entry env op g = None) \<and>
     (\<exists>i n. journal_entry env op f = Some (i, n) \<and> i_data n = raw)"
  using assms
  by (auto simp: old_or_new_def before_def replaced_def journal_entry_def split: option.splits)

text \<open>
  Whatever fails on the way, every file system seen during a write shows under the journal's name the
  old inode with its old content, or an inode that holds the complete new text; a write that returns
  leaves the new text.
\<close>

lemma write_entries:
  assumes "quiet (kernel env)" and "at_start env op s" and "write_operation env op v s = (r, s')"
    and "encode_journal env op v = Inr raw \<or> isl (encode_journal env op v)"
  shows "f \<in> set (history s') \<Longrightarrow>
      journal_entry env op f = journal_entry env op (fs s) \<or>
      (\<exists>i n. journal_entry env op f = Some (i, n) \<and> i_data n = raw)"
    and "r = Inr u \<Longrightarrow> \<exists>i n. journal_entry env op (fs s') = Some (i, n) \<and> i_data n = raw"
proof -
  note run = watched_run [OF triple_write_operation [OF assms(1,4)] assms(2) refl assms(3)]
  show "f \<in> set (history s') \<Longrightarrow>
      journal_entry env op f = journal_entry env op (fs s) \<or>
      (\<exists>i n. journal_entry env op f = Some (i, n) \<and> i_data n = raw)"
    using run(1) old_or_new_entry by blast
  show "r = Inr u \<Longrightarrow> \<exists>i n. journal_entry env op (fs s') = Some (i, n) \<and> i_data n = raw"
    using run(2) by (auto simp: replaced_def journal_entry_def)
qed

lemma create_entries:
  assumes "quiet (kernel env)" and "at_start env op s" and "create_operation env op v s = (r, s')"
    and "encode_journal env op v = Inr raw \<or> isl (encode_journal env op v)"
  shows "f \<in> set (history s') \<Longrightarrow>
      journal_entry env op f = journal_entry env op (fs s) \<or>
      journal_entry env op (fs s) = None \<and>
      (\<exists>i n. journal_entry env op f = Some (i, n) \<and> i_data n = raw)"
    and "r = Inr u \<Longrightarrow> journal_entry env op (fs s) = None \<and>
      (\<exists>i n. journal_entry env op (fs s') = Some (i, n) \<and> i_data n = raw)"
proof -
  note run = watched_run [OF triple_create_operation [OF assms(1,4)] assms(2) refl assms(3)]
  show "f \<in> set (history s') \<Longrightarrow>
      journal_entry env op f = journal_entry env op (fs s) \<or>
      journal_entry env op (fs s) = None \<and>
      (\<exists>i n. journal_entry env op f = Some (i, n) \<and> i_data n = raw)"
    using run(1) old_or_new_entry [where w = False] by fastforce
  show "r = Inr u \<Longrightarrow> journal_entry env op (fs s) = None \<and>
      (\<exists>i n. journal_entry env op (fs s') = Some (i, n) \<and> i_data n = raw)"
    using run(2) by (auto simp: replaced_def journal_entry_def)
qed

text \<open>Without a text to write there is nothing but the old entry.\<close>

lemma only_old_or_encoded:
  assumes "\<And>raw. encode_journal env op v = Inr raw \<or> isl (encode_journal env op v) \<Longrightarrow>
      P \<or> Q \<and> (\<exists>i n. e = Some (i, n) \<and> i_data n = raw)"
  shows "P \<or> Q \<and> (\<exists>i n. e = Some (i, n) \<and> encode_journal env op v = Inr (i_data n))"
proof (cases "encode_journal env op v")
  case (Inl x)
  show ?thesis
  proof (cases e)
    case None
    then show ?thesis using assms [of "[]"] Inl by simp
  next
    case (Some p)
    then show ?thesis using assms [of "CHR ''x'' # i_data (snd p)"] Inl by auto
  qed
next
  case (Inr raw)
  then show ?thesis using assms [of raw] by auto
qed

lemma encoded_if_returned:
  assumes "write_operation env op v s = (Inr u, s') \<or> create_operation env op v s = (Inr u, s')"
  obtains raw where "encode_journal env op v = Inr raw"
  using assms
  unfolding write_operation_def create_operation_def Let_def bindA_Inr lift_exn_Inr canonical_ref_same
  by blast

end
