(* ===== verification/JournalLocks.thy ===== *)
theory JournalLocks
  imports JournalStore
begin

text \<open>
  What the journal store promises about locks and descriptors.  Here other processes may do anything
  and every system call may fail.
\<close>

section \<open>The lock\<close>

lemma flock_sole_holder:
  "triple (\<lambda>_. True) (sys_flock k d)
     (\<lambda>_ s. (fst d, Some (snd d)) \<in> set (locked (fs s)) \<and>
        (\<forall>l \<in> set (locked (fs s)). fst l = fst d \<longrightarrow> snd l = Some (snd d))) (\<lambda>_ _. True)"
  by (auto simp: triple_def sys_flock_def syscall_def observed_def Let_def)

lemma anything: "triple (\<lambda>_. True) m (\<lambda>_ _. True) (\<lambda>_ _. True)"
  by (auto simp: triple_def split: prod.split sum.split)

lemma triple_success:
  "(\<And>x. triple (\<lambda>_. True) (k x) Q (\<lambda>_ _. True)) \<Longrightarrow> triple (\<lambda>_. True) (bindA m k) Q (\<lambda>_ _. True)"
  by (rule triple_bind [OF anything])

lemma acquire_lock_sole_holder:
  assumes "acquire_lock env op s = (Inr d, s')"
  shows "(fst d, Some (snd d)) \<in> set (locked (fs s'))"
    and "\<forall>l \<in> set (locked (fs s')). fst l = fst d \<longrightarrow> snd l = Some (snd d)"
proof -
  let ?Q = "\<lambda>d s. (fst d, Some (snd d)) \<in> set (locked (fs s)) \<and>
     (\<forall>l \<in> set (locked (fs s)). fst l = fst d \<longrightarrow> snd l = Some (snd d))"
  have flock: "triple (\<lambda>_. True) (on_errno EWOULDBLOCK (sys_flock k d) (journal_error m))
      (\<lambda>_. ?Q d) (\<lambda>_ _. True)" for k d m
    unfolding on_errno_def journal_error_def
    by (rule triple_try [OF flock_sole_holder]) (auto intro!: triple_raise)
  have guarded: "triple (\<lambda>_. True)
      (on_error (bindA m (\<lambda>i. thenA (check (c i) e) (on_errno EWOULDBLOCK (sys_flock k d) (journal_error e'))))
        r) (\<lambda>_. ?Q d) (\<lambda>_ _. True)" for m :: "stat disk" and c e e' k d r
    unfolding on_error_def
    by (rule triple_try [OF triple_success [OF triple_success [OF flock]]])
       (auto intro!: triple_success triple_raise)
  have "triple (\<lambda>_. True) (acquire_lock env op) ?Q (\<lambda>_ _. True)"
    unfolding acquire_lock_def Let_def
    by (rule triple_success, rule triple_success, rule triple_success, rule triple_bind [OF guarded])
       (auto intro: triple_ret)
  from tripleD_ret [OF this _ assms]
  show "(fst d, Some (snd d)) \<in> set (locked (fs s'))"
    and "\<forall>l \<in> set (locked (fs s')). fst l = fst d \<longrightarrow> snd l = Some (snd d)" by simp_all
qed

section \<open>Descriptors\<close>

text \<open>The open descriptors are \<open>D\<close>, each opened in the past and none twice.\<close>

definition fds :: "descriptor list \<Rightarrow> os \<Rightarrow> bool" where
  "fds D s \<longleftrightarrow> descriptors s = D \<and> distinct D \<and> (\<forall>d \<in> set D. snd d \<le> clock s)"

lemma syscall_eq:
  assumes "g (begin_call k s) = (r, t)"
  shows "syscall k g s =
     (if fault k (clock s) then (Inl (OSErr EOTHER), observed (begin_call k s))
      else (case r of Inl e \<Rightarrow> (Inl (OSErr e), observed t) | Inr x \<Rightarrow> (Inr x, observed t)))"
  using assms by (cases r) (simp_all add: syscall_def)

lemma syscall_fds:
  assumes "\<And>s. descriptors (snd (g s)) = descriptors s" and "\<And>s. clock (snd (g s)) = clock s"
  shows "keeps (fds D) (syscall k g)"
  unfolding keeps_def
proof (intro allI impI)
  fix s assume s: "fds D s"
  obtain r s2 where g: "g (begin_call k s) = (r, s2)" by fastforce
  have "descriptors s2 = descriptors s" "clock s2 = clock s + 1"
    using assms [of "begin_call k s"] g by (simp_all add: begin_call_def)
  then show "fds D (snd (syscall k g s))"
    using s by (cases r) (auto simp: syscall_eq [where g = g, OF g] fds_def observed_def begin_call_def le_SucI)
qed

lemma keeps_fds [triples]:
  "keeps (fds D) (sys_stat k b p)" "keeps (fds D) (sys_fstat k d)" "keeps (fds D) (sys_mkdir k p m)"
  "keeps (fds D) (sys_read k d off n)" "keeps (fds D) (sys_write k d off w)"
  "keeps (fds D) (sys_fsync k d)" "keeps (fds D) (sys_link k p q)" "keeps (fds D) (sys_replace k p q)"
  "keeps (fds D) (sys_unlink k p)" "keeps (fds D) (sys_flock k d)" "keeps (fds D) (sys_unflock k d)"
  unfolding sys_stat_def sys_fstat_def sys_mkdir_def sys_read_def sys_write_def sys_fsync_def
    sys_link_def sys_replace_def sys_unlink_def sys_flock_def sys_unflock_def
  by (intro syscall_fds;
      auto simp: new_entry_def set_data_def set_name_def unflock_def Let_def
        split: sum.split option.split)+

lemma opening_fds:
  assumes "\<And>s. (\<exists>e. g s = (Inl e, s)) \<or> (\<exists>i t. descriptors t = descriptors s \<and> clock t = clock s \<and> g s = opened i t)"
  shows "triple (fds D) (syscall k g) (\<lambda>d. fds (d # D)) (\<lambda>_. fds D)"
proof (rule tripleI)
  fix s d s' assume s: "fds D s" and run: "syscall k g s = (Inr d, s')"
  consider e where "g (begin_call k s) = (Inl e, begin_call k s)"
    | i t where "descriptors t = descriptors s" "clock t = clock s + 1" "g (begin_call k s) = opened i t"
    using assms [of "begin_call k s"] by (auto simp: begin_call_def)
  then show "fds (d # D) s'"
  proof cases
    case 1
    then show ?thesis using run by (auto simp: syscall_eq [where g = g, OF 1] split: if_splits)
  next
    case 2
    then have g: "g (begin_call k s) = (Inr (i, clock t), t\<lparr>descriptors := (i, clock t) # descriptors t\<rparr>)"
      by (simp add: opened_def)
    show ?thesis
      using run s 2 by (auto simp: syscall_eq [where g = g, OF g] fds_def observed_def split: if_splits)
  qed
next
  fix s e s' assume s: "fds D s" and run: "syscall k g s = (Inl e, s')"
  obtain r t where g: "g (begin_call k s) = (r, t)" by fastforce
  have "s' = observed (begin_call k s)"
    using assms [of "begin_call k s"] run g
    by (auto simp: syscall_eq [where g = g, OF g] opened_def split: if_splits)
  with s show "fds D s'"
    by (auto simp: fds_def observed_def begin_call_def le_SucI)
qed

lemma new_entry_fields [simp]:
  "descriptors (new_entry k q m p s) = descriptors s" "clock (new_entry k q m p s) = clock s"
  by (simp_all add: new_entry_def Let_def)

lemma openedI:
  "descriptors u = descriptors s \<Longrightarrow> clock u = clock s \<Longrightarrow>
   \<exists>i t. descriptors t = descriptors s \<and> clock t = clock s \<and> opened j u = opened i t"
  by blast

lemma triple_open_fds:
  "triple (fds D) (sys_open k b p) (\<lambda>d. fds (d # D)) (\<lambda>_. fds D)"
  "triple (fds D) (sys_create k p m) (\<lambda>d. fds (d # D)) (\<lambda>_. fds D)"
  "triple (fds D) (sys_open_create k p m) (\<lambda>d. fds (d # D)) (\<lambda>_. fds D)"
  unfolding sys_open_def sys_create_def sys_open_create_def
  by (rule opening_fds; auto simp: new_entry_fields split: sum.split option.split intro!: openedI)+

lemma close_fds: "fds (d # D) s \<Longrightarrow> fds D (snd (sys_close k d s))"
  unfolding sys_close_def
  by (auto simp: fds_def [of "d # D"] intro!: syscall_fds [unfolded keeps_def, rule_format])
     (auto simp: fds_def unflock_def)

lemma close_fdsD: "sys_close k d s = (r, t) \<Longrightarrow> fds (d # D) s \<Longrightarrow> fds D t"
  by (metis close_fds snd_conv)

lemma triple_close_fds: "triple (fds (d # D)) (sys_close k d) (\<lambda>_. fds D) (\<lambda>_. fds D)"
  by (rule tripleI) (metis close_fds snd_conv)+

lemma keeps_wrapped [triples]:
  "keeps I a \<Longrightarrow> keeps I h \<Longrightarrow> keeps I (on_errno n a h)"
  "keeps I a \<Longrightarrow> keeps I (os_to_journal a m)"
  "keeps I (check c m)" "keeps I (journal_error m)" "keeps I (lift_exn r)"
  unfolding on_errno_def os_to_journal_def check_def journal_error_def lift_exn_def
  by (auto intro!: triples split: os_exn.split sum.split)

text \<open>A block that opens a descriptor and closes it in its \<open>finally\<close>.\<close>

lemma opened_and_closed:
  assumes "triple (fds D) m (\<lambda>d. fds (d # D)) (\<lambda>_. fds D)" and "\<And>d. keeps (fds (d # D)) (body d)"
  shows "keeps (fds D) (bindA m (\<lambda>d. finallyA (body d) (sys_close k d)))"
  unfolding keeps_triple
proof (rule triple_bind [OF assms(1)])
  fix d
  have "fds D (snd (finallyA (body d) (sys_close k d) s))" if s: "fds (d # D) s" for s
  proof -
    obtain r s1 where b: "body d s = (r, s1)" by fastforce
    have "fds (d # D) s1" using keepsD [OF assms(2) s b] .
    then show ?thesis by (auto simp: finallyA_def b split: prod.split sum.split intro: close_fdsD)
  qed
  then show "triple (fds (d # D)) (finallyA (body d) (sys_close k d)) (\<lambda>_. fds D) (\<lambda>_. fds D)"
    by (intro tripleI) (metis snd_conv)+
qed

lemma triple_os_to_journal_fds:
  "triple P m Q (\<lambda>_. E) \<Longrightarrow> triple P (os_to_journal m msg) Q (\<lambda>_. E)"
  unfolding os_to_journal_def journal_error_def
  by (erule triple_try) (auto split: os_exn.split intro!: triple_raise)

lemma keeps_fds_directories [triples]:
  "keeps (fds D) (reject_symlink_components k done p)"
  "keeps (fds D) (accept_directory k q e)"
  "keeps (fds D) (mkdir_parents k rp m)"
  "keeps (fds D) (initialize env)"
proof -
  show reject: "keeps (fds D) (reject_symlink_components k done p)" for "done" p k
    by (induction k "done" p rule: reject_symlink_components.induct)
       (auto intro!: triples split: option.split kind.split)
  show accept: "keeps (fds D) (accept_directory k q e)" for k q e
    unfolding accept_directory_def by (intro triples)
  show mkdir: "keeps (fds D) (mkdir_parents k rp m)" for k rp m
    by (induction k rp m rule: mkdir_parents.induct)
       (auto simp: mkdir_one_def intro!: triples accept)
  show "keeps (fds D) (initialize env)"
    unfolding initialize_def Let_def by (intro triples reject mkdir)
qed

lemma keeps_fds_loops [triples]:
  "keeps (fds D) (read_chunks k d off n)" "keeps (fds D) (write_all k d off b)"
proof -
  show "keeps (fds D) (read_chunks k d off n)"
  proof (induction k d off n rule: read_chunks.induct)
    case (1 k d off n)
    show ?case by (subst read_chunks.simps) (intro triples 1)
  qed
  show "keeps (fds D) (write_all k d off b)"
  proof (induction k d off b rule: write_all.induct)
    case (1 k d off b)
    show ?case by (subst write_all.simps) (intro triples 1)
  qed
qed

lemma keeps_fds_small [triples]:
  "keeps (fds D) (unlink_owned_partial k p i)"
  "keeps (fds D) (sync_directory k p)"
  "keeps (fds D) (validated_journal_identity k p)"
  unfolding unlink_owned_partial_def sync_directory_def validated_journal_identity_def
  by (auto intro!: triples opened_and_closed triple_open_fds triple_os_to_journal_fds
      split: option.split)

lemma keeps_fds_read_operation: "keeps (fds D) (read_operation env op)"
proof -
  have block: "keeps (fds D) (bindA (os_to_journal (sys_open k b p) m)
      (\<lambda>d. bindA (finallyA (body d) (sys_close k d)) rest))"
    if "\<And>d. keeps (fds (d # D)) (body d)" "\<And>x. keeps (fds D) (rest x)"
    for k b p m rest and body :: "descriptor \<Rightarrow> string disk"
  proof -
    have "keeps (fds D) (bindA (bindA (os_to_journal (sys_open k b p) m)
        (\<lambda>d. finallyA (body d) (sys_close k d))) rest)"
      by (intro keeps_bind [OF opened_and_closed] triple_os_to_journal_fds triple_open_fds that)
    then show ?thesis by (simp add: bindA_assoc)
  qed
  have last: "keeps (fds D) (case v of JObj j \<Rightarrow> ret j | _ \<Rightarrow> journal_error m)" for v m
    by (auto intro!: triples split: json.split)
  show ?thesis
    unfolding read_operation_def Let_def
    by (intro keeps_bind [OF keeps_wrapped(5)] keeps_bind [OF keeps_fds_directories(4)] block)
       (auto intro!: triples last split: option.split)
qed

lemma triple_write_partial_fds:
  "triple (fds D) (write_owned_partial k p raw) (\<lambda>owned. fds (fst owned # D)) (\<lambda>_. fds D)"
proof -
  have stat: "triple (fds (d # D)) (on_error (sys_fstat k d) (sys_close k d)) (\<lambda>_. fds (d # D)) (\<lambda>_. fds D)" for d
    unfolding on_error_def
    by (rule triple_try [OF keeps_fds(2) [unfolded keeps_triple]], rule triple_bind [OF triple_close_fds])
       (simp add: triple_raise)
  have fill: "triple (fds (d # D)) (on_error (thenA (check c m) (thenA (write_all k d 0 raw) (sys_fsync k d)))
      (thenA (sys_close k d) (unlink_owned_partial k p i))) (\<lambda>_. fds (d # D)) (\<lambda>_. fds D)" for d c m i
    unfolding on_error_def
  proof (rule triple_try)
    have "keeps (fds (d # D)) (thenA (check c m) (thenA (write_all k d 0 raw) (sys_fsync k d)))"
      by (intro triples)
    then show "triple (fds (d # D)) (thenA (check c m) (thenA (write_all k d 0 raw) (sys_fsync k d)))
        (\<lambda>_. fds (d # D)) (\<lambda>_. fds (d # D))" unfolding keeps_triple .
    fix e
    show "triple (fds (d # D)) (thenA (thenA (sys_close k d) (unlink_owned_partial k p i)) (raise e))
        (\<lambda>_. fds (d # D)) (\<lambda>_. fds D)"
      by (rule triple_bind [OF triple_bind [OF triple_close_fds
            keeps_fds_small(1) [unfolded keeps_triple]]]) (simp add: triple_raise)
  qed
  show ?thesis
    unfolding write_owned_partial_def
    by (rule triple_bind [OF triple_os_to_journal_fds [OF triple_open_fds(2)]],
        rule triple_bind [OF stat], rule triple_bind [OF fill]) (simp add: triple_ret)
qed

lemma publish_fds:
  assumes "keeps (fds D) act" and "fst owned \<notin> set D"
  shows "triple (fds (fst owned # D)) (publish k p owned act) (\<lambda>_. fds D) (\<lambda>_. fds D)"
proof -
  have first: "triple (fds (fst owned # D))
      (tryA (thenA (sys_close k (fst owned)) (ret True)) (\<lambda>_. ret False)) (\<lambda>_. fds D) (\<lambda>_. fds D)"
    by (rule triple_try [OF triple_bind [OF triple_close_fds]]) (auto intro: triple_ret)
  have again: "keeps (fds D) (sys_close k (fst owned))"
    unfolding keeps_def
  proof (intro allI impI)
    fix s assume s: "fds D s"
    then have "fst owned \<notin> set (descriptors s)" using assms(2) by (simp add: fds_def)
    then show "fds D (snd (sys_close k (fst owned) s))"
      unfolding sys_close_def
      by (auto intro!: syscall_fds [unfolded keeps_def, rule_format] s)
  qed
  have "keeps (fds D) (finallyA
       (os_to_journal (if closed then act else raise (OSErr EOTHER)) m)
       (thenA (if closed then ret () else sys_close k (fst owned)) (unlink_owned_partial k p (snd owned))))"
    for closed m
    by (intro triples assms again)
  then show ?thesis
    unfolding publish_def keeps_triple by (intro triple_bind [OF first])
qed

lemma publish_partial_fds:
  assumes "keeps (fds D) act"
  shows "keeps (fds D) (bindA (write_owned_partial k p raw) (\<lambda>owned. publish k p owned act))"
  unfolding keeps_triple
proof (rule triple_bind [OF triple_write_partial_fds], rule triple_pointwise)
  fix owned :: "descriptor \<times> nat" and s assume s: "fds (fst owned # D) s"
  then have "fst owned \<notin> set D" by (simp add: fds_def)
  from publish_fds [OF assms this] show "triple (\<lambda>t. t = s) (publish k p owned act) (\<lambda>_. fds D) (\<lambda>_. fds D)"
    by (rule triple_pre) (simp add: s)
qed

lemma keeps_fds_write_operation: "keeps (fds D) (write_operation env op v)"
  and keeps_fds_create_operation: "keeps (fds D) (create_operation env op v)"
  unfolding write_operation_def create_operation_def Let_def
  by (intro keeps_bind [OF keeps_wrapped(5)] keeps_bind [OF keeps_fds_directories(4)]
        keeps_bind [OF keeps_fds_small(3)] publish_partial_fds, intro triples)+

end
