(* ===== verification/StoreProperties.thy ===== *)
theory StoreProperties
  imports ClientProperties JournalDisk JournalLocks
begin

text \<open>The properties of the journal store, with witnesses on the sample machine.\<close>

section \<open>The sample machine\<close>

abbreviation sample_os :: os where
  "sample_os \<equiv> \<lparr>fs = sample_files, clock = 0, descriptors = [], history = []\<rparr>"

lemma sample_quiet: "quiet (kernel sample_store)"
  by (simp add: quiet_def sample_store_def calm_kernel_def)

lemma sample_paths:
  "journal_path sample_store sample_ref = [''s'', ''invocations'', sample_ref @ ''.json'']"
  by (simp add: journal_path_def root_path_def sample_store_def)

lemma sample_start: "at_start sample_store sample_ref sample_os"
proof -
  have "plain_path sample_files [''s'', ''invocations'', sample_ref @ ''.json'']"
    unfolding plain_path_def
  proof
    fix k assume "k \<in> {0<..<length [''s'', ''invocations'', sample_ref @ ''.json'']}"
    then have "k = 1 \<or> k = 2" by auto
    then show "is_directory sample_files (take k [''s'', ''invocations'', sample_ref @ ''.json''])"
      by (auto simp: is_directory_def sample_files_def private_directory_def)
  qed
  then show ?thesis
    by (auto simp: at_start_def tree_ok_def sample_paths sample_files_def)
qed

lemma sample_entry: "journal_entry sample_store sample_ref sample_files = Some (1, private_file)"
  by (simp add: journal_entry_def sample_paths sample_files_def)

section \<open>Properties\<close>

text \<open>
  C5.  Replacing a journal is atomic.  While no other process touches the directory, and whatever
  system calls fail or transfer only a part, every file system that can be seen during the write (so
  also after a crash) has under the journal's name the old file unchanged or a file with the whole new
  text; and a write that returns has put the new text in place.
\<close>

theorem write_is_atomic:
  assumes "quiet (kernel env)" and "at_start env op s" and "write_operation env op v s = (r, s')"
  shows "list_all (\<lambda>f. journal_entry env op f = journal_entry env op (fs s) \<or>
      (\<exists>i n. journal_entry env op f = Some (i, n) \<and> encode_journal env op v = Inr (i_data n)))
      (history s') \<and>
    (r = Inr () \<longrightarrow> (\<exists>i n. journal_entry env op (fs s') = Some (i, n) \<and>
      encode_journal env op v = Inr (i_data n)))"
proof (intro conjI impI)
  have "journal_entry env op f = journal_entry env op (fs s) \<or>
      True \<and> (\<exists>i n. journal_entry env op f = Some (i, n) \<and> encode_journal env op v = Inr (i_data n))"
    if "f \<in> set (history s')" for f
    by (rule only_old_or_encoded) (use write_entries(1) [OF assms _ that] in simp)
  then show "list_all (\<lambda>f. journal_entry env op f = journal_entry env op (fs s) \<or>
      (\<exists>i n. journal_entry env op f = Some (i, n) \<and> encode_journal env op v = Inr (i_data n)))
      (history s')" by (simp add: list_all_iff)
  assume r: "r = Inr ()"
  then obtain raw where "encode_journal env op v = Inr raw"
    using encoded_if_returned assms(3) by blast
  then show "\<exists>i n. journal_entry env op (fs s') = Some (i, n) \<and> encode_journal env op v = Inr (i_data n)"
    using write_entries(2) [OF assms, of raw] r by fastforce
qed

lemma write_is_atomic_witness:
  "list_all (\<lambda>f. journal_entry sample_store sample_ref f = Some (1, private_file) \<or>
      (\<exists>i n. journal_entry sample_store sample_ref f = Some (i, n) \<and>
         encode_journal sample_store sample_ref sample_journal = Inr (i_data n)))
    (history (snd (write_operation sample_store sample_ref sample_journal sample_os)))"
  using write_is_atomic [OF sample_quiet sample_start, of sample_journal] sample_entry
  by (cases "write_operation sample_store sample_ref sample_journal sample_os") simp




lemma sample_lock: "fst (acquire_lock sample_store sample_ref sample_os) = Inr (2, 8)"
  by code_simp




end
