(* ===== verification/PyText.thy ===== *)
theory PyText
  imports Json
begin

text \<open>
  The string methods and the \<open>urllib.parse\<close> functions the servers use, on the UTF-8
  representation of \<open>Prelude\<close>.
\<close>

section \<open>The environment\<close>

text \<open>\<open>environment.get(k, v)\<close>, and \<open>environment or os.environ\<close>.\<close>

definition get_or :: "(string \<times> string) list \<Rightarrow> string \<Rightarrow> string \<Rightarrow> string" where
  "get_or d k v = (case map_of d k of None \<Rightarrow> v | Some w \<Rightarrow> w)"

definition environment_or ::
  "(string \<times> string) list \<Rightarrow> (string \<times> string) list option \<Rightarrow> (string \<times> string) list" where
  "environment_or base e = (case e of Some (x # xs) \<Rightarrow> x # xs | _ \<Rightarrow> base)"

section \<open>Characters\<close>

text \<open>The characters of a string, each with its continuation bytes.\<close>

fun chars_of :: "string \<Rightarrow> string list" where
  "chars_of [] = []"
| "chars_of (c # cs) =
     (case chars_of cs of
        [] \<Rightarrow> [[c]]
      | g # gs \<Rightarrow> if g \<noteq> [] \<and> is_cont (hd g) then (c # g) # gs else [c] # g # gs)"

text \<open>\<open>str.isspace\<close> of one code point.\<close>

definition space_codepoint :: "nat \<Rightarrow> bool" where
  "space_codepoint n \<longleftrightarrow>
     9 \<le> n \<and> n \<le> 13 \<or> 28 \<le> n \<and> n \<le> 32 \<or> 8192 \<le> n \<and> n \<le> 8202 \<or>
     n \<in> {133, 160, 5760, 8232, 8233, 8239, 8287, 12288}"

definition is_space :: "string \<Rightarrow> bool" where
  "is_space g \<longleftrightarrow> g \<noteq> [] \<and> list_all space_codepoint (codepoints g)"

definition strip :: "string \<Rightarrow> string" where
  "strip s = concat (rev (dropWhile is_space (rev (dropWhile is_space (chars_of s)))))"

text \<open>\<open>not s.strip()\<close>.\<close>

definition blank :: "string \<Rightarrow> bool" where
  "blank s \<longleftrightarrow> list_all is_space (chars_of s)"

definition rstrip_char :: "char \<Rightarrow> string \<Rightarrow> string" where
  "rstrip_char c s = rev (dropWhile (\<lambda>x. x = c) (rev s))"

text \<open>
  \<open>str.lower\<close> as far as ASCII is concerned: besides the capital letters, only the Kelvin sign and
  the capital I with a dot have ASCII letters in their lower-case form.  Other characters are left as
  they are, which no comparison with an ASCII text can see.
\<close>

definition lower_char :: "char \<Rightarrow> char" where
  "lower_char c =
     (if 65 \<le> byte_of c \<and> byte_of c \<le> 90 then char_of (byte_of c + 32) else c)"

definition lower_group :: "string \<Rightarrow> string" where
  "lower_group g =
     (if map byte_of g = [226, 132, 170] then ''k''
      else if map byte_of g = [196, 176] then CHR ''i'' # map char_of [204 :: nat, 135]
      else map lower_char g)"

definition lower :: "string \<Rightarrow> string" where
  "lower s = concat (map lower_group (chars_of s))"

text \<open>
  \<open>str.upper\<close> to the same extent: the dotless i, the long s, the sharp s and the Latin
  ligatures are the characters outside ASCII with an ASCII upper-case form.
\<close>

definition upper_char :: "char \<Rightarrow> char" where
  "upper_char c =
     (if 97 \<le> byte_of c \<and> byte_of c \<le> 122 then char_of (byte_of c - 32) else c)"

definition upper_table :: "(nat list \<times> string) list" where
  "upper_table =
     [([196, 177], ''I''), ([197, 191], ''S''), ([195, 159], ''SS''),
      ([239, 172, 128], ''FF''), ([239, 172, 129], ''FI''), ([239, 172, 130], ''FL''),
      ([239, 172, 131], ''FFI''), ([239, 172, 132], ''FFL''), ([239, 172, 133], ''ST''),
      ([239, 172, 134], ''ST'')]"

definition upper_group :: "string \<Rightarrow> string" where
  "upper_group g =
     (case map_of upper_table (map byte_of g) of Some t \<Rightarrow> t | None \<Rightarrow> map upper_char g)"

definition upper :: "string \<Rightarrow> string" where
  "upper s = concat (map upper_group (chars_of s))"

lemma concat_chars_of [simp]: "concat (chars_of s) = s"
  by (induction s) (auto split: list.split)

lemma chars_of_nonempty: "g \<in> set (chars_of s) \<Longrightarrow> g \<noteq> []"
  by (induction s arbitrary: g) (auto split: list.splits if_splits)

lemma chars_of_ascii: "is_ascii s \<Longrightarrow> chars_of s = map (\<lambda>c. [c]) s"
proof (induction s)
  case (Cons c s)
  then have "\<not> is_cont d" if "d \<in> set s" for d
    using that by (auto simp: is_ascii_def list_all_iff is_cont_def)
  with Cons show ?case
    by (cases s) (auto simp: is_ascii_def)
qed simp

section \<open>Names\<close>

definition lower_letter :: "char \<Rightarrow> bool" where
  "lower_letter c \<longleftrightarrow> 97 \<le> byte_of c \<and> byte_of c \<le> 122"

definition upper_letter :: "char \<Rightarrow> bool" where
  "upper_letter c \<longleftrightarrow> 65 \<le> byte_of c \<and> byte_of c \<le> 90"

definition digit_char :: "char \<Rightarrow> bool" where
  "digit_char c \<longleftrightarrow> 48 \<le> byte_of c \<and> byte_of c \<le> 57"

text \<open>The environment names the products accept: \<open>[A-Z][A-Z0-9_]{0,127}\<close>.\<close>

definition environment_name_pattern :: "string \<Rightarrow> bool" where
  "environment_name_pattern s =
     (case s of
        [] \<Rightarrow> False
      | c # cs \<Rightarrow> upper_letter c \<and> length cs \<le> 127 \<and>
          list_all (\<lambda>d. upper_letter d \<or> digit_char d \<or> d = CHR ''_'') cs)"

section \<open>Bytes and text\<close>

text \<open>
  \<open>bytes.decode("utf-8")\<close>, the strict decoder: \<open>None\<close> is \<open>UnicodeDecodeError\<close>.
\<close>

definition byte_in :: "nat \<Rightarrow> nat \<Rightarrow> char \<Rightarrow> bool" where
  "byte_in lo hi c \<longleftrightarrow> lo \<le> byte_of c \<and> byte_of c \<le> hi"

fun valid_utf8 :: "string \<Rightarrow> bool" where
  "valid_utf8 [] = True"
| "valid_utf8 (a # s) =
     (if byte_of a < 128 then valid_utf8 s
      else if byte_in 194 223 a then
        (case s of b # s' \<Rightarrow> is_cont b \<and> valid_utf8 s' | _ \<Rightarrow> False)
      else if byte_in 224 239 a then
        (case s of
           b # c # s' \<Rightarrow>
             byte_in (if byte_of a = 224 then 160 else 128) (if byte_of a = 237 then 159 else 191) b \<and>
             is_cont c \<and> valid_utf8 s'
         | _ \<Rightarrow> False)
      else if byte_in 240 244 a then
        (case s of
           b # c # d # s' \<Rightarrow>
             byte_in (if byte_of a = 240 then 144 else 128) (if byte_of a = 244 then 143 else 191) b \<and>
             is_cont c \<and> is_cont d \<and> valid_utf8 s'
         | _ \<Rightarrow> False)
      else False)"

definition utf8_decode :: "string \<Rightarrow> string option" where
  "utf8_decode b = (if valid_utf8 b then Some b else None)"

lemma valid_utf8_ascii: "is_ascii s \<Longrightarrow> valid_utf8 s"
  by (induction s) (auto simp: is_ascii_def)

text \<open>
  \<open>Path.read_text(encoding="utf-8")\<close> translates line ends: a carriage return, with the line
  feed after it if there is one, is read as a line feed.
\<close>

fun universal_newlines :: "string \<Rightarrow> string" where
  "universal_newlines (c # d # s) =
     (if c = CHR 0x0D then CHR 0x0A # universal_newlines (if d = CHR 0x0A then s else d # s)
      else c # universal_newlines (d # s))"
| "universal_newlines [c] = [if c = CHR 0x0D then CHR 0x0A else c]"
| "universal_newlines [] = []"

text \<open>\<open>urllib.parse.quote(s, safe="")\<close> and \<open>quote_plus\<close> of the encoded text.\<close>

definition unreserved :: "char \<Rightarrow> bool" where
  "unreserved c \<longleftrightarrow>
     byte_in 97 122 c \<or> byte_in 65 90 c \<or> byte_in 48 57 c \<or> c \<in> set ''_.-~''"

definition upper_hex :: "nat \<Rightarrow> char" where
  "upper_hex n = ''0123456789ABCDEF'' ! (n mod 16)"

definition quote_byte :: "char \<Rightarrow> string" where
  "quote_byte c =
     (if unreserved c then [c] else [CHR ''%'', upper_hex (byte_of c div 16), upper_hex (byte_of c)])"

definition quote :: "string \<Rightarrow> string" where
  "quote s = concat (map quote_byte s)"

definition quote_plus :: "string \<Rightarrow> string" where
  "quote_plus s = concat (map (\<lambda>c. if c = CHR '' '' then ''+'' else quote_byte c) s)"

lemma quote_simps [simp]: "quote [] = []" "quote (c # s) = quote_byte c @ quote s"
  by (simp_all add: quote_def)

lemma quote_plus_simps [simp]: "quote_plus [] = []"
  "quote_plus (c # s) = (if c = CHR '' '' then ''+'' else quote_byte c) @ quote_plus s"
  by (simp_all add: quote_plus_def)

section \<open>Searching and splitting\<close>

definition starts_with :: "string \<Rightarrow> string \<Rightarrow> bool" where
  "starts_with p s \<longleftrightarrow> take (length p) s = p"

fun contains :: "string \<Rightarrow> string \<Rightarrow> bool" where
  "contains sub [] \<longleftrightarrow> sub = []"
| "contains sub (c # cs) \<longleftrightarrow> starts_with sub (c # cs) \<or> contains sub cs"

text \<open>\<open>s.split(c)\<close>, \<open>s.split(c, 1)\<close> and \<open>s.rpartition(c)\<close>.\<close>

fun split_on :: "char \<Rightarrow> string \<Rightarrow> string list" where
  "split_on d [] = [[]]"
| "split_on d (c # cs) =
     (if c = d then [] # split_on d cs
      else case split_on d cs of [] \<Rightarrow> [[c]] | p # ps \<Rightarrow> (c # p) # ps)"

fun split_once :: "char \<Rightarrow> string \<Rightarrow> (string \<times> string) option" where
  "split_once d [] = None"
| "split_once d (c # cs) =
     (if c = d then Some ([], cs) else map_option (map_prod (Cons c) id) (split_once d cs))"

definition split_last :: "char \<Rightarrow> string \<Rightarrow> (string \<times> string) option" where
  "split_last d s = map_option (\<lambda>(a, b). (rev b, rev a)) (split_once d (rev s))"

lemma starts_with_iff: "starts_with p s \<longleftrightarrow> (\<exists>t. s = p @ t)"
proof
  assume "starts_with p s"
  then have "s = p @ drop (length p) s"
    unfolding starts_with_def by (metis append_take_drop_id)
  then show "\<exists>t. s = p @ t" by blast
qed (auto simp: starts_with_def)

lemma split_on_nonempty [simp]: "split_on d s \<noteq> []"
  by (induction s) (auto split: list.split)

lemma split_on_none: "d \<notin> set s \<Longrightarrow> split_on d s = [s]"
  by (induction s) auto

lemma split_once_Some:
  "split_once d s = Some (a, b) \<longleftrightarrow> s = a @ d # b \<and> d \<notin> set a"
proof (induction s arbitrary: a)
  case Nil
  then show ?case by simp
next
  case (Cons c s)
  show ?case
  proof (cases "c = d")
    case True
    then show ?thesis by (cases a) auto
  next
    case False
    then have "split_once d (c # s) = Some (a, b) \<longleftrightarrow>
        (\<exists>a'. a = c # a' \<and> split_once d s = Some (a', b))"
      by (auto simp: map_prod_def)
    with False show ?thesis
      by (cases a) (auto simp: Cons.IH)
  qed
qed

lemma split_once_at: "d \<notin> set a \<Longrightarrow> split_once d (a @ d # b) = Some (a, b)"
  by (simp add: split_once_Some)

lemma split_once_None: "split_once d s = None \<longleftrightarrow> d \<notin> set s"
  by (induction s) auto

lemma split_on_single: "split_on d s = [a] \<Longrightarrow> s = a"
  by (induction s arbitrary: a) (auto split: if_splits list.splits)

lemma split_on_pair: "split_on d s = [a, b] \<Longrightarrow> s = a @ [d] @ b"
proof (induction s arbitrary: a)
  case (Cons c s)
  then show ?case
    by (auto split: if_splits list.splits dest: split_on_single)
qed simp

section \<open>Numbers\<close>

text \<open>
  \<open>int(s)\<close>: white space around, a sign, digits with single underscores between them.  \<open>dv\<close>
  gives the value of a decimal digit outside ASCII.
\<close>

definition digit_of :: "(nat \<Rightarrow> nat option) \<Rightarrow> string \<Rightarrow> nat option" where
  "digit_of dv g =
     (case codepoints g of
        [n] \<Rightarrow> if 48 \<le> n \<and> n \<le> 57 then Some (n - 48) else if n < 128 then None else dv n
      | _ \<Rightarrow> None)"

fun digits_value :: "(nat \<Rightarrow> nat option) \<Rightarrow> int \<Rightarrow> string list \<Rightarrow> int option" where
  "digits_value dv acc [] = None"
| "digits_value dv acc [g] = map_option (\<lambda>d. 10 * acc + int d) (digit_of dv g)"
| "digits_value dv acc (g # h # gs) =
     (case digit_of dv g of
        None \<Rightarrow> None
      | Some d \<Rightarrow>
          if h = ''_'' then digits_value dv (10 * acc + int d) gs
          else digits_value dv (10 * acc + int d) (h # gs))"

definition parse_int :: "(nat \<Rightarrow> nat option) \<Rightarrow> string \<Rightarrow> int option" where
  "parse_int dv s =
     (case chars_of (strip s) of
        g # gs \<Rightarrow>
          if g = ''-'' then map_option uminus (digits_value dv 0 gs)
          else if g = ''+'' then digits_value dv 0 gs
          else digits_value dv 0 (g # gs)
      | [] \<Rightarrow> None)"

section \<open>URLs\<close>

text \<open>
  \<open>urllib.parse.urlsplit\<close>.  \<open>None\<close> is \<open>ValueError\<close>.  Two checks of the library
  are parameters: \<open>ipv6\<close> is \<open>ipaddress\<close>'s verdict on a bracketed host, \<open>plain\<close> the
  NFKC check of a network location outside ASCII.
\<close>

record url_library =
  ipv6 :: "string \<Rightarrow> bool"
  plain_netloc :: "string \<Rightarrow> bool"

record url =
  u_scheme :: string
  u_netloc :: string
  u_path :: string
  u_query :: string
  u_fragment :: string

definition is_scheme_char :: "char \<Rightarrow> bool" where
  "is_scheme_char c \<longleftrightarrow>
     (let n = byte_of c in 97 \<le> n \<and> n \<le> 122 \<or> 65 \<le> n \<and> n \<le> 90 \<or> 48 \<le> n \<and> n \<le> 57) \<or>
     c \<in> set ''+-.''"

definition is_letter :: "char \<Rightarrow> bool" where
  "is_letter c \<longleftrightarrow> (let n = byte_of c in 97 \<le> n \<and> n \<le> 122 \<or> 65 \<le> n \<and> n \<le> 90)"

definition clean_url :: "string \<Rightarrow> string" where
  "clean_url s =
     filter (\<lambda>c. byte_of c \<notin> {9, 10, 13}) (dropWhile (\<lambda>c. byte_of c \<le> 32) s)"

definition split_scheme :: "string \<Rightarrow> string \<times> string" where
  "split_scheme s =
     (case split_once (CHR '':'') s of
        Some (c # cs, rest) \<Rightarrow>
          if is_letter c \<and> list_all is_scheme_char (c # cs) then (map lower_char (c # cs), rest)
          else ([], s)
      | _ \<Rightarrow> ([], s))"

definition bracketed_host_ok :: "url_library \<Rightarrow> string \<Rightarrow> bool" where
  "bracketed_host_ok lib netloc =
     (let host = (case split_last (CHR ''@'') netloc of None \<Rightarrow> netloc | Some (_, h) \<Rightarrow> h) in
      case split_once (CHR ''['') host of
        None \<Rightarrow> ipv6 lib (takeWhile (\<lambda>c. c \<noteq> CHR '':'') host)
      | Some (before, rest) \<Rightarrow>
          before = [] \<and>
          (case split_once (CHR '']'') rest of
             None \<Rightarrow> ipv6 lib rest
           | Some (h, port) \<Rightarrow> (port = [] \<or> starts_with '':'' port) \<and> ipv6 lib h))"

definition netloc_ok :: "url_library \<Rightarrow> string \<Rightarrow> bool" where
  "netloc_ok lib n \<longleftrightarrow>
     (CHR ''['' \<in> set n \<longleftrightarrow> CHR '']'' \<in> set n) \<and>
     (CHR ''['' \<in> set n \<longrightarrow> bracketed_host_ok lib n) \<and> (is_ascii n \<or> plain_netloc lib n)"

definition netloc_end :: "char \<Rightarrow> bool" where
  "netloc_end c \<longleftrightarrow> c = CHR ''/'' \<or> c = CHR ''?'' \<or> c = CHR ''#''"

definition split_netloc :: "string \<Rightarrow> string \<times> string" where
  "split_netloc s =
     (if starts_with ''//'' s
      then (takeWhile (Not \<circ> netloc_end) (drop 2 s), dropWhile (Not \<circ> netloc_end) (drop 2 s))
      else ([], s))"

definition cut :: "char \<Rightarrow> string \<Rightarrow> string \<times> string" where
  "cut d s = (case split_once d s of None \<Rightarrow> (s, []) | Some p \<Rightarrow> p)"

definition urlsplit :: "url_library \<Rightarrow> string \<Rightarrow> url option" where
  "urlsplit lib s =
     (let (scheme, rest) = split_scheme (clean_url s);
          (netloc, tail) = split_netloc rest;
          (before_fragment, fragment) = cut (CHR ''#'') tail;
          (path, query) = cut (CHR ''?'') before_fragment in
      if netloc_ok lib netloc
      then Some \<lparr>u_scheme = scheme, u_netloc = netloc, u_path = path, u_query = query,
                  u_fragment = fragment\<rparr>
      else None)"

lemma urlsplit_cases:
  assumes "split_scheme (clean_url s) = (sch, rest)"
  shows "urlsplit lib s = Some u \<Longrightarrow>
      u_scheme u = sch \<and> u_netloc u = fst (split_netloc rest) \<and> netloc_ok lib (u_netloc u)"
    and "netloc_ok lib (fst (split_netloc rest)) \<Longrightarrow> \<exists>u. urlsplit lib s = Some u"
  using assms by (auto simp: urlsplit_def split: prod.splits if_splits)

text \<open>The properties \<open>username\<close>, \<open>password\<close>, \<open>hostname\<close> and \<open>port\<close>.\<close>

definition userinfo :: "url \<Rightarrow> string option \<times> string option" where
  "userinfo u =
     (case split_last (CHR ''@'') (u_netloc u) of
        None \<Rightarrow> (None, None)
      | Some (info, _) \<Rightarrow>
          (case split_once (CHR '':'') info of
             None \<Rightarrow> (Some info, None) | Some (name, pass) \<Rightarrow> (Some name, Some pass)))"

definition hostinfo :: "url \<Rightarrow> string \<times> string" where
  "hostinfo u =
     (let host = (case split_last (CHR ''@'') (u_netloc u) of None \<Rightarrow> u_netloc u | Some (_, h) \<Rightarrow> h) in
      case split_once (CHR ''['') host of
        Some (_, bracketed) \<Rightarrow>
          (case split_once (CHR '']'') bracketed of
             None \<Rightarrow> (bracketed, [])
           | Some (h, port) \<Rightarrow>
               (h, case split_once (CHR '':'') port of None \<Rightarrow> [] | Some (_, p) \<Rightarrow> p))
      | None \<Rightarrow>
          (case split_once (CHR '':'') host of None \<Rightarrow> (host, []) | Some (h, p) \<Rightarrow> (h, p)))"

definition hostname :: "url \<Rightarrow> string option" where
  "hostname u =
     (let h = fst (hostinfo u) in
      if h = [] then None
      else Some (case split_once (CHR ''%'') h of
                   None \<Rightarrow> lower h | Some (a, zone) \<Rightarrow> lower a @ ''%'' @ zone))"

text \<open>\<open>Inl ()\<close> is \<open>ValueError\<close>.\<close>

definition port_of :: "url \<Rightarrow> unit + int option" where
  "port_of u =
     (let p = snd (hostinfo u) in
      if p = [] then Inr None
      else if list_all (\<lambda>c. 48 \<le> byte_of c \<and> byte_of c \<le> 57) p then
        (let n = foldl (\<lambda>acc c. 10 * acc + int (byte_of c - 48)) 0 p in
         if n \<le> 65535 then Inr (Some n) else Inl ())
      else Inl ())"

section \<open>Appending a path to a URL\<close>

lemma split_once_append: "split_once d xs = Some (a, b) \<Longrightarrow> split_once d (xs @ ys) = Some (a, b @ ys)"
  by (auto simp: split_once_Some)

lemma clean_url_append:
  assumes "clean_url s \<noteq> []"
  shows "clean_url (s @ p) = clean_url s @ filter (\<lambda>c. byte_of c \<notin> {9, 10, 13}) p"
proof -
  have "dropWhile (\<lambda>c. byte_of c \<le> 32) s \<noteq> []"
    using assms by (force simp: clean_url_def)
  then have "\<exists>c\<in>set s. \<not> byte_of c \<le> 32" unfolding dropWhile_eq_Nil_conv by blast
  then obtain c where c: "c \<in> set s" "\<not> byte_of c \<le> 32" by blast
  show ?thesis
    unfolding clean_url_def
    by (simp only: dropWhile_append1 [where P = "\<lambda>c. byte_of c \<le> 32", OF c] filter_append)
qed

lemma split_scheme_append:
  assumes "split_scheme s = (sch, rest)" and "sch \<noteq> []"
  shows "split_scheme (s @ p) = (sch, rest @ p)"
proof -
  obtain c cs where split: "split_once (CHR '':'') s = Some (c # cs, rest)"
    and ok: "is_letter c" "list_all is_scheme_char (c # cs)" "sch = map lower_char (c # cs)"
    using assms by (auto simp: split_scheme_def split: option.splits list.splits if_splits)
  show ?thesis
    unfolding split_scheme_def split_once_append [OF split] using ok by simp
qed

lemma split_netloc_append:
  assumes "fst (split_netloc s) \<noteq> []"
  shows "fst (split_netloc (s @ CHR ''/'' # t)) = fst (split_netloc s)"
proof -
  obtain r where s: "s = ''//'' @ r"
    using assms by (auto simp: split_netloc_def starts_with_iff split: if_splits)
  have "takeWhile (Not \<circ> netloc_end) (r @ CHR ''/'' # t) = takeWhile (Not \<circ> netloc_end) r"
    by (induction r) (auto simp: netloc_end_def)
  then show ?thesis
    by (simp add: split_netloc_def starts_with_def s)
qed

text \<open>A path behind an absolute URL changes neither its scheme nor its network location.\<close>

lemma urlsplit_append_path:
  assumes "urlsplit lib s = Some u" and "u_scheme u \<noteq> []" and "u_netloc u \<noteq> []"
  obtains u' where "urlsplit lib (s @ ''/'' @ path) = Some u'" and "u_scheme u' = u_scheme u"
    and "u_netloc u' = u_netloc u"
proof -
  obtain sch rest where sp: "split_scheme (clean_url s) = (sch, rest)" by fastforce
  note parts = urlsplit_cases(1) [OF sp assms(1)]
  define p where "p = filter (\<lambda>c. byte_of c \<notin> {9, 10, 13}) path"
  have clean: "clean_url (s @ ''/'' @ path) = clean_url s @ CHR ''/'' # p"
  proof -
    have "clean_url s \<noteq> []"
      using sp parts assms(2) by (auto simp: split_scheme_def)
    then show ?thesis by (subst clean_url_append) (auto simp: p_def byte_of_def)
  qed
  have sp': "split_scheme (clean_url (s @ ''/'' @ path)) = (sch, rest @ CHR ''/'' # p)"
    unfolding clean using split_scheme_append [OF sp] parts assms(2) by simp
  have net: "fst (split_netloc (rest @ CHR ''/'' # p)) = u_netloc u"
    using split_netloc_append [of rest p] parts assms(3) by simp
  then have "netloc_ok lib (fst (split_netloc (rest @ CHR ''/'' # p)))"
    using parts by auto
  then obtain u' where u': "urlsplit lib (s @ ''/'' @ path) = Some u'"
    using urlsplit_cases(2) [OF sp'] by blast
  then show ?thesis
    using that urlsplit_cases(1) [OF sp' u'] parts net by auto
qed

end
