(* ===== verification/GatewayVerification.thy ===== *)
theory GatewayVerification
  imports PyText
begin

text \<open>
  Capability verification of the local gateway (\<open>cpk_local_gateway/verification.py\<close>): a probe is
  admitted only with a signed grant for exactly this request, once.

  PyJWT, the public-key loader and the delegation contracts of \<open>control_plane_kit_core\<close> are not
  part of the repository: they are the fields of \<open>gateway_libraries\<close>.  The grant is the record of
  the fields the verifier reads; a probe request is an abstract value with the three readings the
  verifier makes of it.
\<close>

section \<open>Data\<close>

datatype rejection = UNTRUSTED_GRANT | TEMPORALLY_INVALID | AUDIENCE_MISMATCH | REQUEST_MISMATCH | REPLAYED

text \<open>The status table of \<open>_rejected\<close>.\<close>

fun status_code :: "rejection \<Rightarrow> nat" where
  "status_code UNTRUSTED_GRANT = 401"
| "status_code TEMPORALLY_INVALID = 401"
| "status_code AUDIENCE_MISMATCH = 403"
| "status_code REQUEST_MISMATCH = 403"
| "status_code REPLAYED = 409"

record grant =
  g_issuer :: string
  g_audience :: string
  g_issued_at :: int
  g_expires_at :: int
  g_jti :: string
  g_workspace_id :: string
  g_gateway_node_id :: string
  g_probe_kind :: string
  g_target_id :: string
  g_request_digest :: string

datatype jwt_failure = InvalidAudience | InvalidIssuer | OtherFailure

record 'p gateway_libraries =
  lib_json :: "string \<Rightarrow> json option"
  lib_request :: "dict \<Rightarrow> 'p option"
  lib_kind :: "'p \<Rightarrow> string"
  lib_target :: "'p \<Rightarrow> string"
  lib_digest :: "'p \<Rightarrow> string"
  lib_header :: "string \<Rightarrow> dict option"
  lib_decode :: "string \<Rightarrow> string \<Rightarrow> string \<Rightarrow> string \<Rightarrow> jwt_failure + json"
  lib_grant :: "dict \<Rightarrow> grant option"
  lib_ed25519 :: "string \<Rightarrow> bool"

record verifier =
  v_issuer :: string
  v_audience :: string
  v_gateway_node_id :: string
  v_public_keys :: "(string \<times> string) list"
  v_skew :: int

definition MAX_HEADER_BYTES :: nat where "MAX_HEADER_BYTES = 12288"
definition MAX_BODY_BYTES :: nat where "MAX_BODY_BYTES = 4096"
definition MAX_PUBLIC_KEYS :: nat where "MAX_PUBLIC_KEYS = 16"
definition MAX_REPLAY_ENTRIES :: nat where "MAX_REPLAY_ENTRIES = 4096"
definition TOKEN_TYPE :: string where "TOKEN_TYPE = ''CPK-GATEWAY-PROBE+JWT''"
definition SCHEME :: string where "SCHEME = ''CPK-Gateway''"

definition CLAIM_KEYS :: "string list" where
  "CLAIM_KEYS = [''iss'', ''aud'', ''iat'', ''exp'', ''jti'', ''gateway_probe'']"

definition HEADER_KEYS :: "string list" where
  "HEADER_KEYS = [''alg'', ''kid'', ''typ'']"

section \<open>The replay cache\<close>

type_synonym cache = "(string \<times> int) list"

text \<open>\<open>GatewayProbeReplayCache.__post_init__\<close>.\<close>

definition cache_size_ok :: "int \<Rightarrow> bool" where
  "cache_size_ok m \<longleftrightarrow> 1 \<le> m \<and> m \<le> int MAX_REPLAY_ENTRIES"

definition purge :: "int \<Rightarrow> cache \<Rightarrow> cache" where
  "purge now entries = filter (\<lambda>(k, v). \<not> v \<le> now) entries"

definition remember_once ::
  "nat \<Rightarrow> int \<Rightarrow> string \<Rightarrow> int \<Rightarrow> cache \<Rightarrow> (rejection + unit) \<times> cache" where
  "remember_once max_entries now jti expires_at entries =
     (let live = purge now entries in
      if jti \<in> fst ` set live then (Inl REPLAYED, live)
      else if max_entries \<le> length live then (Inl REPLAYED, live)
      else (Inr (), AList.update jti expires_at live))"

section \<open>The checks\<close>

definition decode_request_body :: "'p gateway_libraries \<Rightarrow> string \<Rightarrow> rejection + 'p" where
  "decode_request_body lib body =
     (if MAX_BODY_BYTES < length body then Inl REQUEST_MISMATCH
      else
        (case lib_json lib body of
           Some (JObj d) \<Rightarrow>
             (case lib_request lib d of None \<Rightarrow> Inl REQUEST_MISMATCH | Some p \<Rightarrow> Inr p)
         | _ \<Rightarrow> Inl REQUEST_MISMATCH))"

definition extract_token :: "string option \<Rightarrow> rejection + string" where
  "extract_token header =
     (case header of
        None \<Rightarrow> Inl UNTRUSTED_GRANT
      | Some h \<Rightarrow>
          if h = [] \<or> MAX_HEADER_BYTES < length h then Inl UNTRUSTED_GRANT
          else
            (case split_on (CHR '' '') h of
               [scheme, token] \<Rightarrow>
                 if scheme \<noteq> SCHEME \<or> token = [] \<or> \<not> is_ascii token then Inl UNTRUSTED_GRANT
                 else Inr token
             | _ \<Rightarrow> Inl UNTRUSTED_GRANT))"

definition select_key :: "'p gateway_libraries \<Rightarrow> verifier \<Rightarrow> string \<Rightarrow> rejection + string" where
  "select_key lib v token =
     (case lib_header lib token of
        None \<Rightarrow> Inl UNTRUSTED_GRANT
      | Some h \<Rightarrow>
          if \<not> keys_are h HEADER_KEYS \<or> get h ''alg'' \<noteq> JStr ''EdDSA'' \<or>
             get h ''typ'' \<noteq> JStr TOKEN_TYPE
          then Inl UNTRUSTED_GRANT
          else
            (case get h ''kid'' of
               JStr kid \<Rightarrow>
                 (case map_of (v_public_keys v) kid of
                    None \<Rightarrow> Inl UNTRUSTED_GRANT | Some key \<Rightarrow> Inr key)
             | _ \<Rightarrow> Inl UNTRUSTED_GRANT))"

definition decode_claims ::
  "'p gateway_libraries \<Rightarrow> verifier \<Rightarrow> string \<Rightarrow> string \<Rightarrow> rejection + dict" where
  "decode_claims lib v token key =
     (case lib_decode lib token key (v_issuer v) (v_audience v) of
        Inl InvalidAudience \<Rightarrow> Inl AUDIENCE_MISMATCH
      | Inl InvalidIssuer \<Rightarrow> Inl AUDIENCE_MISMATCH
      | Inl OtherFailure \<Rightarrow> Inl UNTRUSTED_GRANT
      | Inr (JObj c) \<Rightarrow> if keys_are c CLAIM_KEYS then Inr c else Inl UNTRUSTED_GRANT
      | Inr _ \<Rightarrow> Inl UNTRUSTED_GRANT)"

definition decode_grant :: "'p gateway_libraries \<Rightarrow> dict \<Rightarrow> rejection + grant" where
  "decode_grant lib claims =
     (case get claims ''gateway_probe'' of
        JObj d \<Rightarrow> (case lib_grant lib d of None \<Rightarrow> Inl UNTRUSTED_GRANT | Some g \<Rightarrow> Inr g)
      | _ \<Rightarrow> Inl UNTRUSTED_GRANT)"

definition require_claim_binding :: "dict \<Rightarrow> grant \<Rightarrow> rejection + unit" where
  "require_claim_binding claims g =
     raise_if
       (\<not> py_eq (get claims ''iss'') (JStr (g_issuer g)) \<or>
        \<not> py_eq (get claims ''aud'') (JStr (g_audience g)) \<or>
        \<not> py_eq (get claims ''iat'') (JInt (g_issued_at g)) \<or>
        \<not> py_eq (get claims ''exp'') (JInt (g_expires_at g)) \<or>
        \<not> py_eq (get claims ''jti'') (JStr (g_jti g))) REQUEST_MISMATCH"

definition require_authority :: "verifier \<Rightarrow> grant \<Rightarrow> rejection + unit" where
  "require_authority v g =
     raise_if
       (g_issuer g \<noteq> v_issuer v \<or> g_audience g \<noteq> v_audience v \<or>
        g_gateway_node_id g \<noteq> v_gateway_node_id v \<or>
        g_audience g \<noteq> ''gateway:'' @ g_workspace_id g @ '':'' @ g_gateway_node_id g)
       AUDIENCE_MISMATCH"

definition require_temporal :: "verifier \<Rightarrow> int \<Rightarrow> grant \<Rightarrow> rejection + unit" where
  "require_temporal v now g =
     raise_if (now + v_skew v < g_issued_at g \<or> g_expires_at g \<le> now - v_skew v) TEMPORALLY_INVALID"

definition require_request :: "'p gateway_libraries \<Rightarrow> grant \<Rightarrow> 'p \<Rightarrow> rejection + unit" where
  "require_request lib g p =
     raise_if
       (g_probe_kind g \<noteq> lib_kind lib p \<or> g_target_id g \<noteq> lib_target lib p \<or>
        g_request_digest g \<noteq> lib_digest lib p) REQUEST_MISMATCH"

text \<open>Everything \<open>verify\<close> does before the replay cache; \<open>now\<close> is \<open>int(self.clock())\<close>.\<close>

definition check_capability ::
  "'p gateway_libraries \<Rightarrow> verifier \<Rightarrow> int \<Rightarrow> string option \<Rightarrow> string \<Rightarrow> rejection + grant \<times> 'p" where
  "check_capability lib v now header body =
     bindE (decode_request_body lib body) (\<lambda>p.
     bindE (extract_token header) (\<lambda>token.
     bindE (select_key lib v token) (\<lambda>key.
     bindE (decode_claims lib v token key) (\<lambda>claims.
     bindE (decode_grant lib claims) (\<lambda>g.
     bindE (require_claim_binding claims g) (\<lambda>_.
     bindE (require_authority v g) (\<lambda>_.
     bindE (require_temporal v now g) (\<lambda>_.
     bindE (require_request lib g p) (\<lambda>_.
     Inr (g, p))))))))))"

text \<open>\<open>verify\<close>; the clock is read once for the grant and once, later, by the cache.\<close>

definition verify ::
  "'p gateway_libraries \<Rightarrow> verifier \<Rightarrow> nat \<Rightarrow> int \<Rightarrow> int \<Rightarrow> string option \<Rightarrow> string \<Rightarrow> cache \<Rightarrow>
   (rejection + 'p) \<times> cache" where
  "verify lib v max_entries now later header body entries =
     (case check_capability lib v now header body of
        Inl e \<Rightarrow> (Inl e, entries)
      | Inr (g, p) \<Rightarrow>
          (case remember_once max_entries later (g_jti g) (g_expires_at g) entries of
             (Inl e, entries') \<Rightarrow> (Inl e, entries')
           | (Inr _, entries') \<Rightarrow> (Inr p, entries')))"

section \<open>Configuration\<close>

text \<open>
  \<open>_validated_public_keys\<close>: \<open>None\<close> is \<open>ValueError\<close>; \<open>lib_ed25519\<close> holds when the
  text loads as an Ed25519 public key.
\<close>

definition key_ok :: "'p gateway_libraries \<Rightarrow> string \<times> string \<Rightarrow> bool" where
  "key_ok lib kv \<longleftrightarrow>
     fst kv \<noteq> [] \<and> \<not> contains ''PRIVATE KEY'' (snd kv) \<and> is_ascii (snd kv) \<and> lib_ed25519 lib (snd kv)"

definition validated_public_keys ::
  "'p gateway_libraries \<Rightarrow> (string \<times> string) list \<Rightarrow> (string \<times> string) list option" where
  "validated_public_keys lib ks =
     (if ks = [] \<or> MAX_PUBLIC_KEYS < length ks then None
      else if list_all (key_ok lib) ks then Some (sort_key fst ks) else None)"

definition make_verifier ::
  "'p gateway_libraries \<Rightarrow> string \<Rightarrow> string \<Rightarrow> string \<Rightarrow> (string \<times> string) list \<Rightarrow> int \<Rightarrow> verifier option" where
  "make_verifier lib issuer audience node ks skew =
     (case validated_public_keys lib ks of
        None \<Rightarrow> None
      | Some pems \<Rightarrow>
          if skew < 0 \<or> 30 < skew then None
          else Some \<lparr>v_issuer = issuer, v_audience = audience, v_gateway_node_id = node,
                     v_public_keys = pems, v_skew = skew\<rparr>)"

section \<open>Lemmas\<close>

lemma purge_subset: "set (purge now entries) \<subseteq> set entries"
  by (auto simp: purge_def)

lemma purge_live: "(k, e) \<in> set (purge now entries) \<longleftrightarrow> (k, e) \<in> set entries \<and> now < e"
  by (auto simp: purge_def)

lemma distinct_purge: "distinct (map fst entries) \<Longrightarrow> distinct (map fst (purge now entries))"
  by (simp add: purge_def distinct_map_filter)

lemma update_new: "k \<notin> fst ` set d \<Longrightarrow> AList.update k v d = d @ [(k, v)]"
  by (induction d) auto

lemma remember_once_accept:
  "remember_once m now jti e entries = (Inr u, entries') \<longleftrightarrow>
     jti \<notin> fst ` set (purge now entries) \<and> length (purge now entries) < m \<and>
     entries' = purge now entries @ [(jti, e)]"
  by (auto simp: remember_once_def Let_def update_new)

lemma remember_once_reject:
  "remember_once m now jti e entries = (Inl r, entries') \<longleftrightarrow>
     (jti \<in> fst ` set (purge now entries) \<or> m \<le> length (purge now entries)) \<and>
     r = REPLAYED \<and> entries' = purge now entries"
  by (auto simp: remember_once_def Let_def)

text \<open>Admission, spelled out.\<close>

lemma check_capability_accept:
  "check_capability lib v now header body = Inr (g, p) \<Longrightarrow>
   decode_request_body lib body = Inr p \<and>
   (\<exists>token key claims. extract_token header = Inr token \<and> select_key lib v token = Inr key \<and>
      decode_claims lib v token key = Inr claims \<and> decode_grant lib claims = Inr g \<and>
      require_claim_binding claims g = Inr ()) \<and>
   require_authority v g = Inr () \<and> require_temporal v now g = Inr () \<and> require_request lib g p = Inr ()"
  by (auto simp: check_capability_def)

lemma verify_accept:
  "verify lib v m now later header body entries = (Inr p, entries') \<longleftrightarrow>
   (\<exists>g. check_capability lib v now header body = Inr (g, p) \<and>
        g_jti g \<notin> fst ` set (purge later entries) \<and> length (purge later entries) < m \<and>
        entries' = purge later entries @ [(g_jti g, g_expires_at g)])"
  by (auto simp: verify_def remember_once_accept remember_once_reject
      split: sum.splits prod.splits)

section \<open>A gateway process\<close>

text \<open>
  The life of one gateway: requests are verified one after the other (the handler does not suspend
  between the checks, and the cache has a lock), while the clock never goes back.  The log keeps the
  admitted grants.
\<close>

inductive serves ::
  "'p gateway_libraries \<Rightarrow> verifier \<Rightarrow> nat \<Rightarrow> int \<Rightarrow> cache \<Rightarrow> grant list \<Rightarrow> bool"
  for lib v m
where
  started: "serves lib v m t [] []"
| admitted: "serves lib v m t entries admissions \<Longrightarrow> t \<le> now \<Longrightarrow> now \<le> later \<Longrightarrow>
    check_capability lib v now header body = Inr (g, p) \<Longrightarrow>
    verify lib v m now later header body entries = (Inr p, entries') \<Longrightarrow>
    serves lib v m later entries' (g # admissions)"
| refused: "serves lib v m t entries admissions \<Longrightarrow> t \<le> now \<Longrightarrow> now \<le> later \<Longrightarrow>
    verify lib v m now later header body entries = (Inl e, entries') \<Longrightarrow>
    serves lib v m later entries' admissions"

inductive_cases servesE: "serves lib v m t entries admissions"

lemma verify_entries:
  assumes "verify lib v m now later header body entries = (r, entries')"
  shows "entries' = entries \<or> set (purge later entries) \<subseteq> set entries'"
    and "distinct (map fst entries) \<Longrightarrow> distinct (map fst entries')"
    and "length entries \<le> m \<Longrightarrow> length entries' \<le> m"
proof -
  consider "entries' = entries" | "entries' = purge later entries"
    | g :: grant where "entries' = purge later entries @ [(g_jti g, g_expires_at g)]"
        "g_jti g \<notin> fst ` set (purge later entries)" "length (purge later entries) < m"
  proof (cases r)
    case (Inl e)
    then have "entries' = entries \<or> entries' = purge later entries"
      using assms by (auto simp: verify_def remember_once_reject split: sum.splits prod.splits)
    then show ?thesis using that by blast
  next
    case (Inr p)
    then obtain g :: grant where "entries' = purge later entries @ [(g_jti g, g_expires_at g)]"
        "g_jti g \<notin> fst ` set (purge later entries)" "length (purge later entries) < m"
      using assms unfolding Inr verify_accept by auto
    then show ?thesis by (rule that(3))
  qed
  note cases = this
  from cases show "entries' = entries \<or> set (purge later entries) \<subseteq> set entries'"
    by cases auto
  from cases show "distinct (map fst entries) \<Longrightarrow> distinct (map fst entries')"
    by cases (auto simp: distinct_purge)
  have "length (purge later entries) \<le> length entries" by (simp add: purge_def)
  with cases show "length entries \<le> m \<Longrightarrow> length entries' \<le> m"
    by cases auto
qed

text \<open>
  The cache is a map within its bound, and remembers every admitted grant that has not expired.
\<close>

lemma serves_invariant:
  assumes "serves lib v m t entries admissions"
  shows "distinct (map fst entries) \<and> length entries \<le> m \<and>
    (\<forall>g \<in> set admissions. t < g_expires_at g \<longrightarrow> (g_jti g, g_expires_at g) \<in> set entries)"
  using assms
proof (induction rule: serves.induct)
  case (started t)
  then show ?case by simp
next
  case (admitted t entries admissions now later header body g p entries')
  then have new: "entries' = purge later entries @ [(g_jti g, g_expires_at g)]"
    by (auto simp: verify_accept)
  then show ?case
    using admitted verify_entries [OF admitted.hyps(5)] by (auto simp: purge_live)
next
  case (refused t entries admissions now later header body e entries')
  then show ?case
    using verify_entries [OF refused.hyps(4)] by (fastforce simp: purge_live)
qed

end
