(* ===== verification/GatewayServer.thy ===== *)
theory GatewayServer
  imports GatewayVerification
begin

text \<open>
  The local gateway itself (\<open>cpk_local_gateway/server.py\<close>): its configuration from the
  environment, the probe handler and the two probes.

  The HTTP exchange, the Postgres driver, the environment and the text of a non-string value are the
  fields of \<open>gateway_env\<close>.  \<open>contacted\<close> records what the gateway asked of the network, in
  order; it is a history variable of the model.
\<close>

section \<open>Data\<close>

datatype gateway_failure =
    Configuration string
  | ValueErr
  | OverflowErr
  | OtherErr string

record gateway_target =
  t_id :: string
  t_protocol :: string
  t_url :: "string option"
  t_host :: "string option"
  t_port :: "int option"
  t_database :: "string option"
  t_username :: "string option"
  t_password_environment :: "string option"

record gateway_configuration =
  c_targets :: "(string \<times> gateway_target) list"
  c_port :: int

datatype contact = HttpGet string | PostgresConnect gateway_target

record ('p, 'w) gateway_env =
  libraries :: "'p gateway_libraries"
  lib_encode :: "'p \<Rightarrow> dict"
  lib_text :: "json \<Rightarrow> string"
  lib_url :: url_library
  lib_digit :: "nat \<Rightarrow> nat option"
  environ :: "(string \<times> string) list"
  http_exchange :: "string \<Rightarrow> 'w \<Rightarrow> (string + int \<times> string) \<times> 'w"
  psycopg_installed :: bool
  postgres_row :: "gateway_target \<Rightarrow> string option \<Rightarrow> 'w \<Rightarrow> (string + json list option) \<times> 'w"

record 'w gateway_state =
  replay :: cache
  network :: 'w
  contacted :: "contact list"

definition MAX_TARGETS :: nat where "MAX_TARGETS = 128"
definition MAX_RESPONSE_BYTES :: nat where "MAX_RESPONSE_BYTES = 16384"
definition DEFAULT_PORT :: int where "DEFAULT_PORT = 8000"

section \<open>Field checks\<close>

text \<open>\<open>[a-z][a-z0-9_.-]{0,127}\<close>.\<close>

definition target_id_pattern :: "string \<Rightarrow> bool" where
  "target_id_pattern s =
     (case s of
        [] \<Rightarrow> False
      | c # cs \<Rightarrow> lower_letter c \<and> length cs \<le> 127 \<and>
          list_all (\<lambda>d. lower_letter d \<or> digit_char d \<or> d \<in> set ''_.-'') cs)"

definition malformed_text :: "string \<Rightarrow> bool" where
  "malformed_text s \<longleftrightarrow> blank s \<or> char_of (0 :: nat) \<in> set s"

definition marked :: "string list \<Rightarrow> string \<Rightarrow> bool" where
  "marked markers s \<longleftrightarrow> list_ex (\<lambda>m. contains m (lower s)) markers"

definition validate_target_id :: "string \<Rightarrow> gateway_failure + unit" where
  "validate_target_id s = raise_if (\<not> target_id_pattern s) (Configuration ''target id is malformed'')"

definition reject_secret_text :: "string \<Rightarrow> string \<Rightarrow> gateway_failure + unit" where
  "reject_secret_text s name =
     raise_if (marked [''secret'', ''token'', ''password'', ''api_key''] s)
       (Configuration (name @ '' is secret-shaped''))"

definition required_text :: "dict \<Rightarrow> string \<Rightarrow> gateway_failure + string" where
  "required_text d key =
     (case get d key of
        JStr s \<Rightarrow>
          if malformed_text s then Inl (Configuration (key @ '' must be bounded text''))
          else bindE (reject_secret_text s key) (\<lambda>_. Inr s)
      | _ \<Rightarrow> Inl (Configuration (key @ '' must be bounded text'')))"

definition optional_text :: "json \<Rightarrow> string \<Rightarrow> gateway_failure + string option" where
  "optional_text v name =
     (case v of
        JNull \<Rightarrow> Inr None
      | JStr s \<Rightarrow>
          if malformed_text s then Inl (Configuration (name @ '' must be bounded text''))
          else bindE (reject_secret_text s name) (\<lambda>_. Inr (Some s))
      | _ \<Rightarrow> Inl (Configuration (name @ '' must be bounded text'')))"

definition optional_environment_name :: "json \<Rightarrow> string \<Rightarrow> gateway_failure + string option" where
  "optional_environment_name v name =
     (case v of
        JNull \<Rightarrow> Inr None
      | JStr s \<Rightarrow>
          if environment_name_pattern s then Inr (Some s)
          else Inl (Configuration (name @ '' must be an environment name''))
      | _ \<Rightarrow> Inl (Configuration (name @ '' must be an environment name'')))"

definition host_text :: "string \<Rightarrow> string \<Rightarrow> gateway_failure + string" where
  "host_text s name =
     (if malformed_text s then Inl (Configuration (name @ '' is malformed''))
      else if marked [''secret'', ''token'', ''password''] s
        then Inl (Configuration (name @ '' is secret-shaped''))
      else Inr s)"

text \<open>\<open>int(value)\<close>: \<open>None\<close>, lists and objects are \<open>TypeError\<close>.\<close>

definition py_int :: "(nat \<Rightarrow> nat option) \<Rightarrow> json \<Rightarrow> gateway_failure + int" where
  "py_int dv v =
     (case v of
        JInt i \<Rightarrow> Inr i
      | JBool b \<Rightarrow> Inr (if b then 1 else 0)
      | JStr s \<Rightarrow> (case parse_int dv s of None \<Rightarrow> Inl ValueErr | Some i \<Rightarrow> Inr i)
      | JFloat f \<Rightarrow>
          (case f of
             Dyadic m e \<Rightarrow>
               Inr (if 0 \<le> e then m * 2 ^ nat e else sgn m * (\<bar>m\<bar> div 2 ^ nat (- e)))
           | NegZero \<Rightarrow> Inr 0
           | NaN \<Rightarrow> Inl ValueErr
           | _ \<Rightarrow> Inl OverflowErr)
      | _ \<Rightarrow> Inl (OtherErr ''TypeError''))"

definition port_number :: "(nat \<Rightarrow> nat option) \<Rightarrow> json \<Rightarrow> gateway_failure + int" where
  "port_number dv v =
     (case py_int dv v of
        Inl OverflowErr \<Rightarrow> Inl OverflowErr
      | Inl _ \<Rightarrow> Inl (Configuration ''port must be an integer'')
      | Inr p \<Rightarrow>
          if 1 \<le> p \<and> p \<le> 65535 then Inr p
          else Inl (Configuration ''port must be between 1 and 65535''))"

definition truthy :: "string option \<Rightarrow> bool" where
  "truthy s \<longleftrightarrow> s \<noteq> None \<and> s \<noteq> Some []"

definition http_url :: "url_library \<Rightarrow> string \<Rightarrow> string \<Rightarrow> gateway_failure + string" where
  "http_url lib value name =
     (let candidate = rstrip_char (CHR ''/'') (strip value) in
      case urlsplit lib candidate of
        None \<Rightarrow> Inl ValueErr
      | Some u \<Rightarrow>
          if u_scheme u \<notin> {''http'', ''https''} \<or> u_netloc u = []
          then Inl (Configuration (name @ '' must be an absolute HTTP URL''))
          else if truthy (fst (userinfo u)) \<or> truthy (snd (userinfo u))
          then Inl (Configuration (name @ '' must not contain credentials''))
          else bindE (host_text (case hostname u of None \<Rightarrow> [] | Some h \<Rightarrow> h) name) (\<lambda>_. Inr candidate))"

section \<open>Targets\<close>

definition http_target :: "string \<Rightarrow> string \<Rightarrow> gateway_target" where
  "http_target target_id url =
     \<lparr>t_id = target_id, t_protocol = ''http'', t_url = Some url, t_host = None, t_port = None,
      t_database = None, t_username = None, t_password_environment = None\<rparr>"

definition postgres_target ::
  "(nat \<Rightarrow> nat option) \<Rightarrow> string \<Rightarrow> dict \<Rightarrow> gateway_failure + gateway_target" where
  "postgres_target dv target_id d =
     bindE (bindE (required_text d ''host'') (\<lambda>h. host_text h ''host'')) (\<lambda>host.
     bindE (port_number dv (if has d ''port'' then get d ''port'' else JInt 5432)) (\<lambda>port.
     bindE (optional_text (get d ''database'') ''database'') (\<lambda>database.
     bindE (optional_text (get d ''username'') ''username'') (\<lambda>username.
     bindE (optional_environment_name (get d ''password_environment'') ''password_environment'') (\<lambda>pw.
     Inr \<lparr>t_id = target_id, t_protocol = ''postgres'', t_url = None, t_host = Some host,
          t_port = Some port, t_database = database, t_username = username,
          t_password_environment = pw\<rparr>)))))"

definition target_from_descriptor ::
  "('p, 'w) gateway_env \<Rightarrow> string \<Rightarrow> dict \<Rightarrow> gateway_failure + gateway_target" where
  "target_from_descriptor env target_id d =
     bindE (validate_target_id target_id) (\<lambda>_.
     bindE (required_text d ''protocol'') (\<lambda>protocol.
     if protocol = ''http'' then
       bindE (bindE (required_text d ''url'') (\<lambda>u. http_url (lib_url env) u ''url'')) (\<lambda>url.
       Inr (http_target target_id url))
     else if protocol = ''postgres'' then postgres_target (lib_digit env) target_id d
     else Inl (Configuration ''unsupported target protocol'')))"

definition text_member :: "string \<Rightarrow> string option \<Rightarrow> dict" where
  "text_member k v = (case v of None \<Rightarrow> [] | Some s \<Rightarrow> [(k, JStr s)])"

definition json_text :: "string option \<Rightarrow> json" where
  "json_text v = (case v of None \<Rightarrow> JNull | Some s \<Rightarrow> JStr s)"

definition json_number :: "int option \<Rightarrow> json" where
  "json_number v = (case v of None \<Rightarrow> JNull | Some i \<Rightarrow> JInt i)"

definition target_descriptor :: "gateway_target \<Rightarrow> gateway_failure + dict" where
  "target_descriptor t =
     (if t_protocol t = ''http'' then
        Inr [(''protocol'', JStr ''http''), (''url'', json_text (t_url t))]
      else if t_protocol t = ''postgres'' then
        Inr ([(''protocol'', JStr ''postgres''), (''host'', json_text (t_host t)),
              (''port'', json_number (t_port t))] @
             text_member ''database'' (t_database t) @ text_member ''username'' (t_username t) @
             text_member ''password_environment'' (t_password_environment t))
      else Inl (Configuration ''unsupported target protocol''))"

section \<open>Configuration\<close>

fun read_targets ::
  "('p, 'w) gateway_env \<Rightarrow> dict \<Rightarrow> (string \<times> gateway_target) list \<Rightarrow>
   gateway_failure + (string \<times> gateway_target) list" where
  "read_targets env [] targets = Inr targets"
| "read_targets env ((k, v) # rest) targets =
     (case v of
        JObj d \<Rightarrow>
          bindE (target_from_descriptor env k d) (\<lambda>t. read_targets env rest (AList.update k t targets))
      | _ \<Rightarrow> Inl (Configuration ''gateway target entry is malformed''))"

definition configuration_from_target_map ::
  "('p, 'w) gateway_env \<Rightarrow> json \<Rightarrow> int \<Rightarrow> gateway_failure + gateway_configuration" where
  "configuration_from_target_map env target_map port =
     (case target_map of
        JObj d \<Rightarrow>
          if MAX_TARGETS < length d
          then Inl (Configuration ''gateway target map has too many targets'')
          else
            bindE (read_targets env d []) (\<lambda>targets.
            bindE (port_number (lib_digit env) (JInt port)) (\<lambda>p.
            Inr \<lparr>c_targets = sort_key fst targets, c_port = p\<rparr>))
      | _ \<Rightarrow> Inl (Configuration ''gateway target map must be an object''))"

text \<open>\<open>environment or os.environ\<close>.\<close>

definition environment_values ::
  "('p, 'w) gateway_env \<Rightarrow> (string \<times> string) list option \<Rightarrow> (string \<times> string) list" where
  "environment_values env e = environment_or (environ env) e"

definition configuration_from_environment ::
  "('p, 'w) gateway_env \<Rightarrow> (string \<times> string) list option \<Rightarrow> gateway_failure + gateway_configuration" where
  "configuration_from_environment env e =
     (let values = environment_values env e in
      case lib_json (libraries env) (get_or values ''CPK_GATEWAY_TARGETS_JSON'' ''{}'') of
        None \<Rightarrow> Inl (Configuration ''CPK_GATEWAY_TARGETS_JSON is invalid JSON'')
      | Some target_map \<Rightarrow>
          bindE (port_number (lib_digit env) (JStr (get_or values ''PORT'' (int_text DEFAULT_PORT)))) (\<lambda>port.
          configuration_from_target_map env target_map port))"

definition required_environment :: "(string \<times> string) list \<Rightarrow> string \<Rightarrow> gateway_failure + string" where
  "required_environment values name =
     (case map_of values name of Some (c # cs) \<Rightarrow> Inr (c # cs) | _ \<Rightarrow> Inl ValueErr)"

definition text_of_value :: "('p, 'w) gateway_env \<Rightarrow> json \<Rightarrow> string" where
  "text_of_value env v = (case v of JStr s \<Rightarrow> s | _ \<Rightarrow> lib_text env v)"

definition verifier_from_environment ::
  "('p, 'w) gateway_env \<Rightarrow> (string \<times> string) list option \<Rightarrow> gateway_failure + verifier" where
  "verifier_from_environment env e =
     (let values = environment_values env e in
      if map_of values ''CPK_GATEWAY_PROBE_VERIFIER'' \<noteq> Some ''ed25519'' then Inl ValueErr
      else
        (case map_of values ''CPK_GATEWAY_PROBE_VERIFICATION_KEYS_JSON'' of
           None \<Rightarrow> Inl ValueErr
         | Some raw_keys \<Rightarrow>
             (case lib_json (libraries env) raw_keys of
                Some (JObj pems) \<Rightarrow>
                  bindE (required_environment values ''CPK_GATEWAY_PROBE_ISSUER'') (\<lambda>issuer.
                  bindE (required_environment values ''CPK_GATEWAY_PROBE_AUDIENCE'') (\<lambda>audience.
                  bindE (required_environment values ''CPK_GATEWAY_PROBE_NODE_ID'') (\<lambda>node.
                  (case make_verifier (libraries env) issuer audience node
                          (map (map_prod id (text_of_value env)) pems) 5 of
                     None \<Rightarrow> Inl ValueErr | Some v \<Rightarrow> Inr v))))
              | _ \<Rightarrow> Inl ValueErr)))"

text \<open>
  \<open>main\<close> until the server runs: \<open>Inl\<close> is the exit status or the exception that escapes.
\<close>

definition startup_status :: "gateway_failure \<Rightarrow> gateway_failure + nat" where
  "startup_status e =
     (case e of Configuration _ \<Rightarrow> Inr 2 | ValueErr \<Rightarrow> Inr 2 | _ \<Rightarrow> Inl e)"

definition startup ::
  "('p, 'w) gateway_env \<Rightarrow> (gateway_failure + nat) + gateway_configuration \<times> verifier" where
  "startup env =
     (case bindE (configuration_from_environment env None) (\<lambda>c.
             bindE (verifier_from_environment env None) (\<lambda>v. Inr (c, v))) of
        Inl e \<Rightarrow> Inl (startup_status e) | Inr cv \<Rightarrow> Inr cv)"

section \<open>Probes\<close>

type_synonym ('w, 'a) gateway_action = "('w gateway_state, gateway_failure, 'a) action"

text \<open>
  \<open>opener.open\<close> with \<open>NoRedirects\<close>: every status outside 200--299, a redirection
  included, is \<open>urllib\<close>'s \<open>HTTPError\<close>.
\<close>

definition open_url ::
  "('p, 'w) gateway_env \<Rightarrow> string \<Rightarrow> ('w, int \<times> string) gateway_action" where
  "open_url env url = (\<lambda>s.
     (case http_exchange env url (network s) of
        (r, w) \<Rightarrow>
          (case r of
             Inl e \<Rightarrow> Inl (OtherErr e)
           | Inr (status, body) \<Rightarrow>
               if 200 \<le> status \<and> status < 300 then Inr (status, body) else Inl (OtherErr ''HTTPError''),
           s\<lparr>network := w, contacted := contacted s @ [HttpGet url]\<rparr>)))"

definition http_status :: "('p, 'w) gateway_env \<Rightarrow> string \<Rightarrow> ('w, int \<times> nat) gateway_action" where
  "http_status env url =
     bindA (open_url env url) (\<lambda>(status, body).
     (let payload = take (MAX_RESPONSE_BYTES + 1) body in
      if MAX_RESPONSE_BYTES < length payload
      then raise (Configuration ''HTTP probe response is too large'')
      else ret (status, length payload)))"

definition probe_path :: "('p, 'w) gateway_env \<Rightarrow> dict \<Rightarrow> string" where
  "probe_path env payload =
     (if has payload ''path'' then text_of_value env (get payload ''path'') else ''/health/ready'')"

definition execute_http_probe ::
  "('p, 'w) gateway_env \<Rightarrow> gateway_target \<Rightarrow> dict \<Rightarrow> ('w, dict) gateway_action" where
  "execute_http_probe env target payload =
     (case (t_protocol target = ''http'', t_url target) of
        (True, Some url) \<Rightarrow>
          (let path = probe_path env payload in
           if \<not> starts_with ''/'' path \<or> char_of (0 :: nat) \<in> set path \<or> contains ''://'' path
           then raise (Configuration ''HTTP probe path is malformed'')
           else
             bindA (http_status env (rstrip_char (CHR ''/'') url @ path)) (\<lambda>(status, body_size).
             ret [(''outcome'', JStr (if 200 \<le> status \<and> status < 400 then ''passed'' else ''failed'')),
                  (''target_id'', JStr (t_id target)), (''probe'', JStr ''http-status''),
                  (''status'', JInt status), (''body_size'', JInt (int body_size))]))
      | _ \<Rightarrow> raise (Configuration ''target does not support HTTP probes''))"

text \<open>
  \<open>postgres_row\<close> connects, runs \<open>SELECT 1\<close> and fetches a row; \<open>Inl\<close> is the name of the
  exception's type.  The wrong row is raised inside the same \<open>try\<close> and wrapped like the others.
\<close>

definition postgres_failure :: "string \<Rightarrow> gateway_failure" where
  "postgres_failure name = Configuration (''Postgres probe failed: '' @ name)"

definition postgres_select_one :: "('p, 'w) gateway_env \<Rightarrow> gateway_target \<Rightarrow> ('w, unit) gateway_action" where
  "postgres_select_one env target = (\<lambda>s.
     if \<not> psycopg_installed env
     then (Inl (Configuration ''Postgres probe requires psycopg in the gateway image''), s)
     else
       (let password = Option.bind (t_password_environment target) (map_of (environ env)) in
        case postgres_row env target password (network s) of
          (r, w) \<Rightarrow>
            (case r of
               Inl name \<Rightarrow> Inl (postgres_failure name)
             | Inr (Some [v]) \<Rightarrow>
                 if py_eq v (JInt 1) then Inr () else Inl (postgres_failure ''GatewayConfigurationError'')
             | Inr _ \<Rightarrow> Inl (postgres_failure ''GatewayConfigurationError''),
             s\<lparr>network := w, contacted := contacted s @ [PostgresConnect target]\<rparr>)))"

definition execute_postgres_probe ::
  "('p, 'w) gateway_env \<Rightarrow> gateway_target \<Rightarrow> ('w, dict) gateway_action" where
  "execute_postgres_probe env target =
     (if t_protocol target \<noteq> ''postgres'' \<or> t_host target = None \<or> t_port target = None
      then raise (Configuration ''target does not support Postgres probes'')
      else
        thenA (postgres_select_one env target)
          (ret [(''outcome'', JStr ''passed''), (''target_id'', JStr (t_id target)),
                (''probe'', JStr ''postgres-select-one'')]))"

definition execute_probe ::
  "('p, 'w) gateway_env \<Rightarrow> gateway_configuration \<Rightarrow> json \<Rightarrow> ('w, dict) gateway_action" where
  "execute_probe env configuration payload =
     (case payload of
        JObj d \<Rightarrow>
          bindA (liftE (required_text d ''kind'')) (\<lambda>kind.
          bindA (liftE (required_text d ''target_id'')) (\<lambda>target_id.
          case map_of (c_targets configuration) target_id of
            None \<Rightarrow> raise (Configuration ''unknown target'')
          | Some target \<Rightarrow>
              if kind = ''http-status'' then execute_http_probe env target d
              else if kind = ''postgres-select-one'' then execute_postgres_probe env target
              else raise (Configuration ''unsupported probe kind'')))
      | _ \<Rightarrow> raise (Configuration ''probe request must be an object''))"

section \<open>The handlers\<close>

definition rejected_response :: "rejection \<Rightarrow> nat \<times> dict" where
  "rejected_response e =
     (status_code e, [(''outcome'', JStr ''failed''), (''code'', JStr ''gateway.capability-rejected'')])"

definition refused_response :: "string \<Rightarrow> nat \<times> dict" where
  "refused_response message =
     (400, [(''outcome'', JStr ''failed''), (''code'', JStr ''gateway.probe-rejected''),
            (''message'', JStr message)])"

text \<open>
  The handler of \<open>POST /cpk/probes\<close>.  The replay cache is the process's default one of
  \<open>MAX_REPLAY_ENTRIES\<close>; \<open>now\<close> and \<open>later\<close> are the two readings of the clock.  An
  exception that is neither a rejection nor a configuration error leaves the handler.
\<close>

definition probe_handler ::
  "('p, 'w) gateway_env \<Rightarrow> gateway_configuration \<Rightarrow> verifier \<Rightarrow> int \<Rightarrow> int \<Rightarrow> string option \<Rightarrow> string \<Rightarrow>
   ('w, nat \<times> dict) gateway_action" where
  "probe_handler env configuration v now later header body = (\<lambda>s.
     case verify (libraries env) v MAX_REPLAY_ENTRIES now later header body (replay s) of
       (Inl e, entries) \<Rightarrow> (Inr (rejected_response e), s\<lparr>replay := entries\<rparr>)
     | (Inr p, entries) \<Rightarrow>
         tryA
           (bindA (execute_probe env configuration (JObj (lib_encode env p))) (\<lambda>result. ret (200, result)))
           (\<lambda>e. case e of Configuration message \<Rightarrow> ret (refused_response message) | _ \<Rightarrow> raise e)
           (s\<lparr>replay := entries\<rparr>))"

definition live_response :: "nat \<times> dict" where
  "live_response = (200, [(''status'', JStr ''live'')])"

definition ready_response :: "nat \<times> dict" where
  "ready_response = (200, [(''status'', JStr ''ready'')])"

end
