(* ===== verification/GatewayProperties.thy ===== *)
theory GatewayProperties
  imports GatewayVerification
begin

text \<open>The properties of the gateway's capability verification, with a concrete gateway.\<close>

section \<open>A concrete gateway\<close>

definition demo_grant :: grant where
  "demo_grant =
     \<lparr>g_issuer = ''cpk'', g_audience = ''gateway:w:n'', g_issued_at = 100, g_expires_at = 200,
      g_jti = ''j'', g_workspace_id = ''w'', g_gateway_node_id = ''n'', g_probe_kind = ''http-status'',
      g_target_id = ''db'', g_request_digest = ''d''\<rparr>"

definition demo_claims :: dict where
  "demo_claims =
     [(''iss'', JStr ''cpk''), (''aud'', JStr ''gateway:w:n''), (''iat'', JInt 100),
      (''exp'', JInt 200), (''jti'', JStr ''j''), (''gateway_probe'', JObj [])]"

definition demo_libraries :: "unit gateway_libraries" where
  "demo_libraries =
     \<lparr>lib_json = (\<lambda>_. Some (JObj [])), lib_request = (\<lambda>_. Some ()), lib_kind = (\<lambda>_. ''http-status''),
      lib_target = (\<lambda>_. ''db''), lib_digest = (\<lambda>_. ''d''),
      lib_header = (\<lambda>_. Some [(''alg'', JStr ''EdDSA''), (''kid'', JStr ''k''), (''typ'', JStr TOKEN_TYPE)]),
      lib_decode = (\<lambda>_ _ _ _. Inr (JObj demo_claims)), lib_grant = (\<lambda>_. Some demo_grant),
      lib_ed25519 = (\<lambda>_. True)\<rparr>"

definition demo_verifier :: verifier where
  "demo_verifier =
     \<lparr>v_issuer = ''cpk'', v_audience = ''gateway:w:n'', v_gateway_node_id = ''n'',
      v_public_keys = [(''k'', ''pem'')], v_skew = 5\<rparr>"

definition demo_header :: "string option" where
  "demo_header = Some ''CPK-Gateway t''"

lemma demo_check:
  assumes "95 \<le> now" and "now < 205"
  shows "check_capability demo_libraries demo_verifier now demo_header [] = Inr (demo_grant, ())"
proof -
  have "extract_token demo_header = Inr ''t''"
    by (simp add: extract_token_def demo_header_def SCHEME_def is_ascii_def byte_of_def
        MAX_HEADER_BYTES_def)
  then show ?thesis
    using assms
    by (simp add: check_capability_def decode_request_body_def select_key_def decode_claims_def
        decode_grant_def require_claim_binding_def require_authority_def require_temporal_def
        require_request_def demo_libraries_def demo_verifier_def demo_grant_def demo_claims_def
        keys_are_def keys_def HEADER_KEYS_def CLAIM_KEYS_def get_def insert_commute)
qed

lemma demo_verify:
  assumes "95 \<le> now" and "now < 205"
  shows "verify demo_libraries demo_verifier 4096 now later demo_header [] [] = (Inr (), [(''j'', 200)])"
  unfolding verify_accept using demo_check [OF assms] by (simp add: purge_def demo_grant_def)

section \<open>Properties\<close>



text \<open>
  C10.  Single use: when a gateway that admitted a grant admits one with the same identifier again,
  the first grant has expired by the time the cache is asked, so a second use of the same grant is
  confined to the clock skew after its expiry.
\<close>

theorem grant_is_used_once:
  assumes "serves lib v m t entries admissions" and "g \<in> set admissions" and "t \<le> now" and "now \<le> later"
    and "check_capability lib v now header body = Inr (g', p)"
    and "verify lib v m now later header body entries = (Inr p, entries')" and "g_jti g' = g_jti g"
  shows "g_expires_at g \<le> later \<and> (g' = g \<longrightarrow> now < g_expires_at g + v_skew v)"
proof -
  have fresh: "g_jti g \<notin> fst ` set (purge later entries)"
    using assms(5,6,7) by (auto simp: verify_accept)
  have "g_expires_at g \<le> later"
  proof (rule ccontr)
    assume "\<not> g_expires_at g \<le> later"
    then have "(g_jti g, g_expires_at g) \<in> set (purge later entries)"
      using serves_invariant [OF assms(1)] assms(2-4) by (auto simp: purge_live)
    then show False using fresh by force
  qed
  moreover have "now < g_expires_at g' + v_skew v"
    using check_capability_accept [OF assms(5)] by (auto simp: require_temporal_def)
  ultimately show ?thesis by auto
qed

text \<open>
  The window of C10 is real: with the default skew of five seconds a grant that expired two
  seconds ago is admitted a second time, because the cache forgets it at its expiry while the verifier
  still accepts it.
\<close>

theorem grant_replayed_in_skew_window:
  "\<exists>entries.
     verify demo_libraries demo_verifier 4096 150 150 demo_header [] [] = (Inr (), entries) \<and>
     verify demo_libraries demo_verifier 4096 202 202 demo_header [] entries = (Inr (), [(''j'', 200)])"
proof -
  have "verify demo_libraries demo_verifier 4096 202 202 demo_header [] [(''j'', 200)] = (Inr (), [(''j'', 200)])"
    unfolding verify_accept using demo_check [of 202] by (simp add: purge_def demo_grant_def)
  then show ?thesis using demo_verify [of 150 150] by simp
qed

lemma grant_is_used_once_witness:
  "g_expires_at demo_grant \<le> (202 :: int)"
proof -
  have first: "serves demo_libraries demo_verifier 4096 150 [(''j'', 200)] [demo_grant]"
    by (rule serves.admitted [OF serves.started [of _ _ _ 150] _ _ demo_check [of 150] demo_verify]) simp_all
  have again: "verify demo_libraries demo_verifier 4096 202 202 demo_header [] [(''j'', 200)] = (Inr (), [(''j'', 200)])"
    unfolding verify_accept using demo_check [of 202] by (simp add: purge_def demo_grant_def)
  show ?thesis
    using grant_is_used_once [OF first _ _ _ demo_check again] by simp
qed

text \<open>
  C11.  The replay cache of a running gateway is a map within its bound and holds every admitted grant
  that has not expired; a refused request never adds to it.
\<close>

theorem replay_cache_invariant:
  assumes "serves lib v m t entries admissions"
  shows "distinct (map fst entries) \<and> length entries \<le> m \<and>
    {(g_jti g, g_expires_at g) | g :: grant. g \<in> set admissions \<and> t < g_expires_at g} \<subseteq> set entries"
  using serves_invariant [OF assms] by auto

lemma replay_cache_invariant_witness:
  "{(g_jti g, g_expires_at g) | g. g \<in> set [demo_grant] \<and> (150 :: int) < g_expires_at g} \<subseteq> set [(''j'', 200)]"
proof -
  have "serves demo_libraries demo_verifier 4096 150 [(''j'', 200)] [demo_grant]"
    by (rule serves.admitted [OF serves.started [of _ _ _ 150] _ _ demo_check [of 150] demo_verify]) simp_all
  from replay_cache_invariant [OF this] show ?thesis by blast
qed

end
