(* ===== verification/GatewayServerProperties.thy ===== *)
theory GatewayServerProperties
  imports GatewayServer GatewayProperties "HOL-Library.Code_Target_Numeral"
begin

text \<open>
  The properties of the gateway server: what a configuration guarantees, that a probe reaches nothing
  but the configured target its grant names, and what its answers can be.
\<close>

section \<open>Valid configurations\<close>

definition valid_target :: "url_library \<Rightarrow> gateway_target \<Rightarrow> bool" where
  "valid_target lib t \<longleftrightarrow>
     target_id_pattern (t_id t) \<and>
     (t_protocol t = ''http'' \<and>
        (\<exists>url u. t_url t = Some url \<and> rstrip_char (CHR ''/'') url = url \<and> urlsplit lib url = Some u \<and>
           u_scheme u \<in> {''http'', ''https''} \<and> u_netloc u \<noteq> [] \<and>
           \<not> truthy (fst (userinfo u)) \<and> \<not> truthy (snd (userinfo u))) \<or>
      t_protocol t = ''postgres'' \<and> t_url t = None \<and>
        (\<exists>h p. t_host t = Some h \<and> \<not> marked [''secret'', ''token'', ''password''] h \<and>
           t_port t = Some p \<and> 1 \<le> p \<and> p \<le> 65535))"

lemma rstrip_idem [simp]: "rstrip_char c (rstrip_char c s) = rstrip_char c s"
proof -
  have "dropWhile P (dropWhile P xs) = dropWhile P xs" for P :: "char \<Rightarrow> bool" and xs
    by (induction xs) auto
  then show ?thesis by (simp add: rstrip_char_def)
qed

lemma http_url_valid:
  assumes "http_url lib value name = Inr url"
  shows "rstrip_char (CHR ''/'') url = url \<and>
    (\<exists>u. urlsplit lib url = Some u \<and> u_scheme u \<in> {''http'', ''https''} \<and> u_netloc u \<noteq> [] \<and>
         \<not> truthy (fst (userinfo u)) \<and> \<not> truthy (snd (userinfo u)))"
  using assms by (auto simp: http_url_def Let_def split: option.splits if_splits)

lemma port_number_range: "port_number dv v = Inr p \<Longrightarrow> 1 \<le> p \<and> p \<le> 65535"
  by (auto simp: port_number_def split: sum.splits gateway_failure.splits if_splits)

lemma host_text_Inr: "host_text s name = Inr h \<longleftrightarrow>
    h = s \<and> \<not> malformed_text s \<and> \<not> marked [''secret'', ''token'', ''password''] s"
  by (auto simp: host_text_def)

lemma target_valid:
  assumes "target_from_descriptor env k d = Inr t"
  shows "valid_target (lib_url env) t" and "t_id t = k"
  using assms
  by (auto simp: target_from_descriptor_def valid_target_def validate_target_id_def http_target_def
      postgres_target_def host_text_Inr
      split: if_splits dest!: http_url_valid port_number_range)

lemma read_targets_valid:
  assumes "read_targets env d acc = Inr ts" and "distinct (map fst acc)"
    and "\<forall>(k, t)\<in>set acc. t_id t = k \<and> valid_target (lib_url env) t"
  shows "distinct (map fst ts) \<and> (\<forall>(k, t)\<in>set ts. t_id t = k \<and> valid_target (lib_url env) t)
    \<and> set (map fst ts) = set (map fst acc) \<union> set (map fst d)"
  using assms
proof (induction env d acc rule: read_targets.induct)
  case (2 env k v rest acc)
  then obtain d t where "v = JObj d" and t: "target_from_descriptor env k d = Inr t"
    and step: "read_targets env rest (AList.update k t acc) = Inr ts"
    by (auto split: json.splits)
  moreover have "set (AList.update k t acc) \<subseteq> insert (k, t) (set acc)"
    by (induction acc) auto
  ultimately show ?case
    using "2.IH" [of d t] "2.prems" target_valid [OF t]
    by (fastforce simp: distinct_update dom_update)
qed auto

lemma configuration_from_map:
  assumes "configuration_from_target_map env target_map port = Inr cfg"
  obtains d ts where "target_map = JObj d" and "length d \<le> MAX_TARGETS"
    and "read_targets env d [] = Inr ts" and "c_targets cfg = sort_key fst ts"
    and "c_port cfg = port" and "1 \<le> port" and "port \<le> 65535"
  using assms that
  by (auto simp: configuration_from_target_map_def port_number_def py_int_def
      split: json.splits if_splits sum.splits)

section \<open>Contacts\<close>

text \<open>What a probe of a target may reach.\<close>

definition aims_at :: "url_library \<Rightarrow> gateway_target \<Rightarrow> contact \<Rightarrow> bool" where
  "aims_at lib t c \<longleftrightarrow>
     (case c of
        HttpGet url \<Rightarrow>
          t_protocol t = ''http'' \<and>
          (\<exists>base u u'. t_url t = Some base \<and> urlsplit lib base = Some u \<and>
             urlsplit lib url = Some u' \<and> u_scheme u' = u_scheme u \<and> u_netloc u' = u_netloc u)
      | PostgresConnect t' \<Rightarrow> t' = t \<and> t_protocol t = ''postgres'')"

text \<open>At most one contact, at the target.\<close>

definition one_contact ::
  "url_library \<Rightarrow> gateway_target \<Rightarrow> ('w, 'a) gateway_action \<Rightarrow> bool" where
  "one_contact lib t m \<longleftrightarrow>
     (\<forall>s. replay (snd (m s)) = replay s \<and>
          (contacted (snd (m s)) = contacted s \<or>
           (\<exists>c. contacted (snd (m s)) = contacted s @ [c] \<and> aims_at lib t c)))"

lemma snd_bind_ret: "snd (bindA m (\<lambda>x. ret (f x)) s) = snd (m s)"
  by (auto simp: bindA_def action_simps split: prod.splits sum.splits)

lemma snd_bind_ret2: "snd (bindA m (\<lambda>(x, y). ret (f x y)) s) = snd (m s)"
  by (auto simp: bindA_def action_simps split: prod.splits sum.splits)

lemma snd_http_status: "snd (http_status env url s) = snd (open_url env url s)"
  unfolding http_status_def bindA_def
  by (auto simp: Let_def action_simps split: prod.splits sum.splits)

lemma one_contact_raise: "one_contact lib t (raise e)"
  by (simp add: one_contact_def raise_apply)

lemma one_contact_http:
  assumes "valid_target (lib_url env) t"
  shows "one_contact (lib_url env) t (execute_http_probe env t payload)"
proof (cases "t_protocol t = ''http''")
  case http: True
  then obtain base u where base: "t_url t = Some base" "rstrip_char (CHR ''/'') base = base"
    and u: "urlsplit (lib_url env) base = Some u" "u_scheme u \<in> {''http'', ''https''}" "u_netloc u \<noteq> []"
    using assms by (auto simp: valid_target_def)
  have aim: "aims_at (lib_url env) t (HttpGet (base @ path))" if slash: "starts_with ''/'' path" for path
  proof -
    obtain rest where path: "path = ''/'' @ rest" using slash by (auto simp: starts_with_iff)
    have "u_scheme u \<noteq> []" using u(2) by auto
    from urlsplit_append_path [OF u(1) this u(3), of rest] obtain u' where
      "urlsplit (lib_url env) (base @ path) = Some u'" "u_scheme u' = u_scheme u"
      "u_netloc u' = u_netloc u" unfolding path by blast
    then show ?thesis using http base u by (auto simp: aims_at_def)
  qed
  show ?thesis
    unfolding one_contact_def execute_http_probe_def
    by (simp add: http base Let_def raise_apply aim snd_bind_ret2 snd_http_status open_url_def
        split: prod.split)
next
  case False
  then show ?thesis by (simp add: one_contact_def execute_http_probe_def raise_apply)
qed

lemma one_contact_postgres: "one_contact lib t (execute_postgres_probe env t)"
  unfolding one_contact_def execute_postgres_probe_def
  by (auto simp: raise_apply snd_bind_ret postgres_select_one_def aims_at_def Let_def split: prod.split)

lemma required_text_Inr: "required_text d k = Inr s \<Longrightarrow> get d k = JStr s"
  by (auto simp: required_text_def split: json.splits if_splits)

lemma required_text_cong: "get d' k = get d k \<Longrightarrow> required_text d' k = required_text d k"
  by (simp add: required_text_def)

lemma execute_probe_contact:
  assumes "execute_probe env cfg payload s = (r, s')"
    and valid: "\<And>k t. map_of (c_targets cfg) k = Some t \<Longrightarrow> valid_target (lib_url env) t"
  shows "replay s' = replay s \<and> (contacted s' = contacted s \<or>
    (\<exists>d k t c. payload = JObj d \<and> get d ''target_id'' = JStr k \<and> map_of (c_targets cfg) k = Some t \<and>
       contacted s' = contacted s @ [c] \<and> aims_at (lib_url env) t c))"
proof (cases "\<exists>d kind k t. payload = JObj d \<and> required_text d ''kind'' = Inr kind \<and>
    required_text d ''target_id'' = Inr k \<and> map_of (c_targets cfg) k = Some t")
  case True
  then obtain d kind k t where ok: "payload = JObj d" "required_text d ''kind'' = Inr kind"
    "required_text d ''target_id'' = Inr k" "map_of (c_targets cfg) k = Some t" by blast
  define m where "m = (if kind = ''http-status'' then execute_http_probe env t d
      else if kind = ''postgres-select-one'' then execute_postgres_probe env t
      else raise (Configuration ''unsupported probe kind''))"
  have "one_contact (lib_url env) t m"
    by (simp add: m_def one_contact_http [OF valid [OF ok(4)]] one_contact_postgres one_contact_raise)
  moreover have "m s = (r, s')"
    using assms(1) ok by (simp add: execute_probe_def m_def)
  ultimately show ?thesis
    using ok required_text_Inr [OF ok(3)] by (auto simp: one_contact_def dest!: spec [of _ s])
next
  case False
  then have "s' = s"
    using assms(1)
    by (cases payload; cases "required_text (case payload of JObj d \<Rightarrow> d) ''kind''";
        cases "required_text (case payload of JObj d \<Rightarrow> d) ''target_id''")
       (auto simp: execute_probe_def raise_apply split: option.splits)
  then show ?thesis by simp
qed

lemma configuration_valid_target:
  assumes "configuration_from_target_map env target_map port = Inr cfg"
    and "map_of (c_targets cfg) k = Some t"
  shows "valid_target (lib_url env) t" and "t_id t = k"
proof -
  obtain d ts where "read_targets env d [] = Inr ts" "c_targets cfg = sort_key fst ts"
    using configuration_from_map [OF assms(1)] .
  then show "valid_target (lib_url env) t" "t_id t = k"
    using read_targets_valid [of env d "[]" ts] map_of_SomeD [OF assms(2)] by auto
qed

lemma optional_text_Inr: "optional_text v name = Inr x \<Longrightarrow> v = json_text x"
  by (auto simp: optional_text_def json_text_def split: json.splits if_splits)

lemma optional_environment_name_Inr: "optional_environment_name v name = Inr x \<Longrightarrow> v = json_text x"
  by (auto simp: optional_environment_name_def json_text_def split: json.splits if_splits)

lemma status_code_values: "status_code e \<in> {401, 403, 409}"
  by (cases e) simp_all

lemma probe_passed:
  assumes "execute_probe env cfg payload s = (Inr d, s')"
  shows "get d ''outcome'' = JStr ''passed''"
proof -
  have "get d ''outcome'' = JStr ''passed''"
    if "execute_http_probe env t p s = (Inr d, s')" for t p d s'
    using that
    by (auto simp: execute_http_probe_def http_status_def open_url_def bindA_def action_simps Let_def get_def
        split: bool.splits option.splits if_splits prod.splits sum.splits)
  moreover have "get d ''outcome'' = JStr ''passed''"
    if "execute_postgres_probe env t s = (Inr d, s')" for t d s'
    using that
    by (auto simp: execute_postgres_probe_def bindA_def action_simps get_def
        split: if_splits prod.splits sum.splits)
  ultimately show ?thesis
    using assms
    by (auto simp: execute_probe_def bindA_def action_simps
        split: json.splits prod.splits sum.splits option.splits if_splits)
qed

lemma http_descriptor_roundtrip:
  assumes "target_from_descriptor env k d = Inr t" and "t_protocol t = ''http''"
    and "get d ''url'' = json_text (t_url t)"
  shows "\<exists>d'. target_descriptor t = Inr d' \<and> target_from_descriptor env k d' = Inr t"
proof -
  obtain url where t: "t = http_target k url" and id: "validate_target_id k = Inr ()"
    and pr: "required_text d ''protocol'' = Inr ''http''"
    and url: "\<exists>u. required_text d ''url'' = Inr u \<and> http_url (lib_url env) u ''url'' = Inr url"
    using assms(1,2) by (auto simp: target_from_descriptor_def postgres_target_def split: if_splits)
  define d' where "d' = [(''protocol'', JStr ''http''), (''url'', JStr url)]"
  have "get d' ''protocol'' = get d ''protocol''" "get d' ''url'' = get d ''url''"
    using required_text_Inr [OF pr] assms(3) t by (auto simp: d'_def get_def http_target_def json_text_def)
  note same = required_text_cong [OF this(1)] required_text_cong [OF this(2)]
  have "target_from_descriptor env k d' = Inr t"
    using pr url id by (auto simp: target_from_descriptor_def same t)
  moreover have "target_descriptor t = Inr d'"
    by (simp add: t http_target_def target_descriptor_def json_text_def d'_def)
  ultimately show ?thesis by blast
qed

lemma postgres_descriptor_roundtrip:
  assumes "target_from_descriptor env k d = Inr t" and "t_protocol t \<noteq> ''http''"
  shows "\<exists>d'. target_descriptor t = Inr d' \<and> target_from_descriptor env k d' = Inr t"
proof -
  obtain h port db user pw where id: "validate_target_id k = Inr ()"
    and pr: "required_text d ''protocol'' = Inr ''postgres''"
    and h: "required_text d ''host'' = Inr h" "host_text h ''host'' = Inr h"
    and port: "1 \<le> port" "port \<le> 65535"
    and db: "optional_text (get d ''database'') ''database'' = Inr db"
    and user: "optional_text (get d ''username'') ''username'' = Inr user"
    and pw: "optional_environment_name (get d ''password_environment'') ''password_environment'' = Inr pw"
    and t: "t = \<lparr>t_id = k, t_protocol = ''postgres'', t_url = None, t_host = Some h, t_port = Some port,
                 t_database = db, t_username = user, t_password_environment = pw\<rparr>"
    using assms port_number_range
    by (fastforce simp: target_from_descriptor_def postgres_target_def http_target_def host_text_Inr
        split: if_splits)
  define d' where "d' = [(''protocol'', JStr ''postgres''), (''host'', JStr h), (''port'', JInt port)] @
    text_member ''database'' db @ text_member ''username'' user @ text_member ''password_environment'' pw"
  have gets: "get d' ''protocol'' = get d ''protocol''" "get d' ''host'' = get d ''host''"
    "has d' ''port''" "get d' ''port'' = JInt port" "get d' ''database'' = get d ''database''"
    "get d' ''username'' = get d ''username''"
    "get d' ''password_environment'' = get d ''password_environment''"
    using required_text_Inr [OF pr] required_text_Inr [OF h(1)] optional_text_Inr [OF db] optional_text_Inr [OF user]
      optional_environment_name_Inr [OF pw]
    by (auto simp: d'_def get_def has_def text_member_def json_text_def split: option.split)
  have "port_number (lib_digit env) (JInt port) = Inr port"
    using port by (simp add: port_number_def py_int_def)
  moreover note required_text_cong [OF gets(2)]
  ultimately have "postgres_target (lib_digit env) k d' = Inr t"
    using h port db user pw by (simp add: postgres_target_def gets t)
  moreover note required_text_cong [OF gets(1)]
  ultimately have "target_from_descriptor env k d' = Inr t"
    using id pr by (simp add: target_from_descriptor_def)
  moreover have "target_descriptor t = Inr d'"
    by (simp add: t target_descriptor_def d'_def json_text_def json_number_def)
  ultimately show ?thesis by blast
qed

section \<open>A concrete gateway server\<close>

definition demo_env :: "(unit, unit) gateway_env" where
  "demo_env =
     \<lparr>libraries = demo_libraries,
      lib_encode = (\<lambda>_. [(''kind'', JStr ''http-status''), (''target_id'', JStr ''db''), (''path'', JStr ''/'')]),
      lib_text = (\<lambda>_. []), lib_url = \<lparr>ipv6 = (\<lambda>_. False), plain_netloc = (\<lambda>_. False)\<rparr>,
      lib_digit = (\<lambda>_. None), environ = [],
      http_exchange = (\<lambda>url w. (Inr (if url = ''http://db:80/'' then 200 else 503, ''ok''), w)),
      psycopg_installed = True, postgres_row = (\<lambda>_ _ w. (Inr (Some [JInt 1]), w))\<rparr>"

definition demo_target_map :: json where
  "demo_target_map =
     JObj [(''db'', JObj [(''protocol'', JStr ''http''), (''url'', JStr ''http://db:80/'')])]"

definition demo_configuration :: gateway_configuration where
  "demo_configuration =
     \<lparr>c_targets = [(''db'', http_target ''db'' ''http://db:80'')], c_port = 8000\<rparr>"

definition demo_state :: "unit gateway_state" where
  "demo_state = \<lparr>replay = [], network = (), contacted = []\<rparr>"

lemma demo_configuration: "configuration_from_target_map demo_env demo_target_map 8000 = Inr demo_configuration"
  by code_simp

lemma demo_probe: "execute_probe demo_env demo_configuration (JObj (lib_encode demo_env ()))
      (demo_state\<lparr>replay := [(''j'', 200)]\<rparr>) =
    (Inr [(''outcome'', JStr ''passed''), (''target_id'', JStr ''db''), (''probe'', JStr ''http-status''),
          (''status'', JInt 200), (''body_size'', JInt 2)],
     \<lparr>replay = [(''j'', 200)], network = (), contacted = [HttpGet ''http://db:80/'']\<rparr>)"
  by code_simp

lemma demo_parts: "libraries demo_env = demo_libraries" "contacted demo_state = []" "replay demo_state = []"
  "g_target_id demo_grant = ''db''"
  by (simp_all add: demo_env_def demo_state_def demo_grant_def)

lemma demo_handler:
  "probe_handler demo_env demo_configuration demo_verifier 150 150 demo_header [] demo_state =
    (Inr (200, [(''outcome'', JStr ''passed''), (''target_id'', JStr ''db''), (''probe'', JStr ''http-status''),
                (''status'', JInt 200), (''body_size'', JInt 2)]),
     \<lparr>replay = [(''j'', 200)], network = (), contacted = [HttpGet ''http://db:80/'']\<rparr>)"
  using demo_probe
  by (simp add: probe_handler_def demo_parts demo_verify MAX_REPLAY_ENTRIES_def tryA_def bindA_def
      action_simps)

section \<open>Properties\<close>

text \<open>
  C12.  A probe reaches only the target its grant names: whatever the request, the handler makes no
  outbound contact, or exactly one, and then the request was admitted with a fresh grant and the
  contact is at the configured target with the grant's target id -- an HTTP request whose URL has that
  target's scheme and network location, or a connection to that database.  The hypothesis on the
  codec is that its encoding of a request carries the request's target.
\<close>

theorem probe_reaches_only_its_target:
  assumes "configuration_from_target_map env target_map port = Inr cfg"
    and codec: "\<forall>p. get (lib_encode env p) ''target_id'' = JStr (lib_target (libraries env) p)"
    and "probe_handler env cfg v now later header body s = (r, s')"
  shows "contacted s' = contacted s \<or>
    (\<exists>(g :: grant) p t c. check_capability (libraries env) v now header body = Inr (g, p) \<and>
       (\<forall>e. (g_jti g, e) \<in> set (replay s) \<longrightarrow> e \<le> later) \<and>
       map_of (c_targets cfg) (g_target_id g) = Some t \<and>
       contacted s' = contacted s @ [c] \<and> aims_at (lib_url env) t c)"
proof (cases "verify (libraries env) v MAX_REPLAY_ENTRIES now later header body (replay s)")
  case (Pair res entries)
  show ?thesis
  proof (cases res)
    case (Inl e)
    then show ?thesis using assms(3) Pair by (auto simp: probe_handler_def)
  next
    case (Inr p)
    from Pair Inr obtain g where check: "check_capability (libraries env) v now header body = Inr (g, p)"
      and fresh: "g_jti g \<notin> fst ` set (purge later (replay s))"
      unfolding verify_accept Inr by blast
    have target: "g_target_id g = lib_target (libraries env) p"
      using check_capability_accept [OF check] by (auto simp: require_request_def)
    obtain q s'' where q: "execute_probe env cfg (JObj (lib_encode env p)) (s\<lparr>replay := entries\<rparr>) = (q, s'')"
      by fastforce
    have "s'' = s'"
      using assms(3) Pair Inr q
      by (auto simp: probe_handler_def tryA_def bindA_def action_simps
          split: sum.splits gateway_failure.splits)
    with execute_probe_contact [OF q configuration_valid_target(1) [OF assms(1)]] codec target
    have "contacted s' = contacted s \<or> (\<exists>t c. map_of (c_targets cfg) (g_target_id g) = Some t \<and>
        contacted s' = contacted s @ [c] \<and> aims_at (lib_url env) t c)" by auto
    moreover have "\<forall>e. (g_jti g, e) \<in> set (replay s) \<longrightarrow> e \<le> later"
      using fresh purge_live by (metis fst_conv image_eqI not_le)
    ultimately show ?thesis using check by blast
  qed
qed

lemma probe_reaches_only_its_target_witness:
  "\<exists>t c. map_of (c_targets demo_configuration) ''db'' = Some t \<and>
     contacted (snd (probe_handler demo_env demo_configuration demo_verifier 150 150 demo_header [] demo_state))
       = [c] \<and> aims_at (lib_url demo_env) t c"
proof -
  have "\<forall>p. get (lib_encode demo_env p) ''target_id'' = JStr (lib_target (libraries demo_env) p)"
    by (simp add: demo_env_def demo_libraries_def get_def)
  from probe_reaches_only_its_target [OF demo_configuration this demo_handler]
  show ?thesis
    using demo_check [of 150] by (auto simp: demo_handler demo_parts)
qed

text \<open>
  A configuration the gateway starts with is valid: at most 128 targets with distinct, sorted,
  well-formed ids, each under its own id, each an absolute HTTP URL without credentials or a Postgres
  endpoint whose host is not secret-shaped and whose port is in range, and the gateway's own port in
  range.
\<close>

theorem configuration_is_valid:
  assumes "configuration_from_environment env values = Inr cfg"
  shows "length (c_targets cfg) \<le> 128 \<and> sorted (map fst (c_targets cfg)) \<and>
    distinct (map fst (c_targets cfg)) \<and>
    (\<forall>(k, t)\<in>set (c_targets cfg). t_id t = k \<and> valid_target (lib_url env) t) \<and>
    1 \<le> c_port cfg \<and> c_port cfg \<le> 65535"
proof -
  obtain target_map port where map: "configuration_from_target_map env target_map port = Inr cfg"
    using assms unfolding configuration_from_environment_def Let_def
    by (cases "lib_json (libraries env)
          (get_or (environment_values env values) ''CPK_GATEWAY_TARGETS_JSON'' ''{}'')")
       (simp, auto simp del: get_or_def)
  obtain d ts where
    d: "length d \<le> MAX_TARGETS" "read_targets env d [] = Inr ts" "c_targets cfg = sort_key fst ts"
    and port: "c_port cfg = port" "1 \<le> port" "port \<le> 65535"
    using configuration_from_map [OF map] .
  note ok = read_targets_valid [OF d(2), simplified]
  have "length ts = card (fst ` set ts)"
    using ok distinct_card [of "map fst ts"] by simp
  also have "\<dots> \<le> length d" using ok card_image_le [of "set d" fst] card_length [of d] by simp
  finally have "length (c_targets cfg) \<le> 128" using d by (simp add: MAX_TARGETS_def)
  moreover have "distinct (map fst (sort_key fst ts))"
    using ok by (simp add: distinct_map)
  ultimately show ?thesis using ok d(3) port by simp
qed

text \<open>
  The descriptor of a target is a faithful one: reading it back gives the same target.  For an
  HTTP target whose text was not canonical (surrounded by white space or with a final slash) the
  statement is about the canonical text.
\<close>

theorem target_descriptor_roundtrip:
  assumes "target_from_descriptor env k d = Inr t"
    and "t_protocol t = ''http'' \<longrightarrow> get d ''url'' = json_text (t_url t)"
  shows "\<exists>d'. target_descriptor t = Inr d' \<and> target_from_descriptor env k d' = Inr t"
  using assms http_descriptor_roundtrip postgres_descriptor_roundtrip by metis


lemma configuration_is_valid_witness:
  "valid_target (lib_url demo_env) (http_target ''db'' ''http://db:80'')"
proof -
  define env where
    "env = demo_env\<lparr>libraries := demo_libraries\<lparr>lib_json := \<lambda>_. Some demo_target_map\<rparr>\<rparr>"
  have "configuration_from_environment env (Some [(''PORT'', ''8000'')]) = Inr demo_configuration"
    unfolding env_def by code_simp
  from configuration_is_valid [OF this] show ?thesis
    by (simp add: demo_configuration_def env_def)
qed

lemma target_descriptor_roundtrip_witness:
  "\<exists>d'. target_descriptor (http_target ''db'' ''http://db:80'') = Inr d' \<and>
     target_from_descriptor demo_env ''db'' d' = Inr (http_target ''db'' ''http://db:80'')"
proof (rule target_descriptor_roundtrip)
  show "target_from_descriptor demo_env ''db''
      [(''protocol'', JStr ''http''), (''url'', JStr ''http://db:80'')] = Inr (http_target ''db'' ''http://db:80'')"
    by code_simp
qed (simp add: get_def json_text_def http_target_def)


end
