(* ===== verification/Authentication.thy ===== *)
theory Authentication
  imports PyText "HOL-Library.Code_Target_Numeral"
begin

text \<open>
  Credential extraction of cpk-server and its static development verifiers
  (\<open>cpk_server/authentication.py\<close>).

  A verifier is a function from the credential's bytes to a principal; \<open>None\<close> stands for an
  exception and for a result that is not a principal, which the code treats alike.  The identity types
  of \<open>control_plane_kit_core\<close> are not part of the repository: the principal is a type variable.
  The module has one exception, \<open>CredentialAuthenticationError\<close>, here \<open>InvalidCredential\<close>.
\<close>

datatype authentication_error = InvalidCredential

definition MAXIMUM_BEARER_CREDENTIAL_BYTES :: nat where
  "MAXIMUM_BEARER_CREDENTIAL_BYTES = 4096"

section \<open>The bearer credential\<close>

definition authorization_values :: "(string \<times> string) list \<Rightarrow> string list" where
  "authorization_values headers = map snd (filter (\<lambda>(name, _). lower name = ''authorization'') headers)"

definition extract_bearer_credential :: "(string \<times> string) list \<Rightarrow> authentication_error + string" where
  "extract_bearer_credential headers =
     (case authorization_values headers of
        [value] \<Rightarrow>
          (case split_once (CHR '' '') value of
             None \<Rightarrow> Inl InvalidCredential
           | Some (scheme, token) \<Rightarrow>
               if lower scheme \<noteq> ''bearer'' then Inl InvalidCredential
               else if token = [] \<or> list_ex is_space (chars_of token) then Inl InvalidCredential
               else if \<not> is_ascii token then Inl InvalidCredential
               else if MAXIMUM_BEARER_CREDENTIAL_BYTES < length token then Inl InvalidCredential
               else Inr token)
      | _ \<Rightarrow> Inl InvalidCredential)"

definition authenticate_bearer_credential ::
  "(string \<times> string) list \<Rightarrow> (string \<Rightarrow> 'p option) \<Rightarrow> authentication_error + 'p" where
  "authenticate_bearer_credential headers verifier =
     bindE (extract_bearer_credential headers) (\<lambda>credential.
     case verifier credential of None \<Rightarrow> Inl InvalidCredential | Some p \<Rightarrow> Inr p)"

section \<open>Static development verifiers\<close>

record 'p static_credential =
  sc_credential :: string
  sc_principal :: 'p

definition static_credential_ok :: "string \<Rightarrow> bool" where
  "static_credential_ok c \<longleftrightarrow>
     c \<noteq> [] \<and> length c \<le> MAXIMUM_BEARER_CREDENTIAL_BYTES \<and> is_ascii c \<and>
     \<not> list_ex is_space (chars_of c)"

definition static_principal_credential :: "string \<Rightarrow> 'p \<Rightarrow> authentication_error + 'p static_credential" where
  "static_principal_credential c p =
     (if static_credential_ok c then Inr \<lparr>sc_credential = c, sc_principal = p\<rparr>
      else Inl InvalidCredential)"

definition multi_credential_verifier ::
  "'p static_credential list \<Rightarrow> authentication_error + 'p static_credential list" where
  "multi_credential_verifier credentials =
     (if credentials = [] \<or> 16 < length credentials then Inl InvalidCredential
      else if length (remdups (map sc_credential credentials)) \<noteq> length (map sc_credential credentials)
        then Inl InvalidCredential
      else Inr credentials)"

text \<open>The candidates are compared in order; \<open>hmac.compare_digest\<close> is equality of the bytes.\<close>

fun multi_authenticate :: "'p static_credential list \<Rightarrow> string \<Rightarrow> authentication_error + 'p" where
  "multi_authenticate [] credential = Inl InvalidCredential"
| "multi_authenticate (candidate # rest) credential =
     (if credential = sc_credential candidate then Inr (sc_principal candidate)
      else multi_authenticate rest credential)"

text \<open>
  The single-credential verifier builds a one-element multi verifier, at construction and at every
  call; \<open>operator\<close> is the principal built from the static operator identity and the grants.
\<close>

definition single_verifier :: "string \<Rightarrow> 'p \<Rightarrow> authentication_error + 'p static_credential list" where
  "single_verifier expected operator =
     bindE (static_principal_credential expected operator) (\<lambda>c. multi_credential_verifier [c])"

definition single_authenticate :: "string \<Rightarrow> 'p \<Rightarrow> string \<Rightarrow> authentication_error + 'p" where
  "single_authenticate expected operator credential =
     bindE (single_verifier expected operator) (\<lambda>cs. multi_authenticate cs credential)"

datatype principal_kind = OPERATOR | OtherKind string

record 'g static_principal =
  sp_issuer :: string
  sp_subject_id :: string
  sp_kind :: principal_kind
  sp_grants :: "'g list"

definition static_operator_identity :: "'g list \<Rightarrow> 'g static_principal" where
  "static_operator_identity grants =
     \<lparr>sp_issuer = ''urn:control-plane-kit:static-development'',
      sp_subject_id = ''local-development-operator'', sp_kind = OPERATOR, sp_grants = grants\<rparr>"

definition static_development_principal ::
  "string \<Rightarrow> principal_kind \<Rightarrow> 'g list \<Rightarrow> 'g static_principal" where
  "static_development_principal subject_id kind grants =
     \<lparr>sp_issuer = ''urn:control-plane-kit:static-development'', sp_subject_id = subject_id,
      sp_kind = kind, sp_grants = grants\<rparr>"

text \<open>A multi verifier as the verifier of \<open>authenticate_bearer_credential\<close>.\<close>

definition as_verifier :: "'p static_credential list \<Rightarrow> string \<Rightarrow> 'p option" where
  "as_verifier cs credential =
     (case multi_authenticate cs credential of Inl _ \<Rightarrow> None | Inr p \<Rightarrow> Some p)"

section \<open>Lemmas\<close>

text \<open>The credentials the extraction can return are the ones a static credential may have.\<close>

lemma extract_bearer_iff:
  "extract_bearer_credential headers = Inr token \<longleftrightarrow>
     (\<exists>scheme. authorization_values headers = [scheme @ '' '' @ token] \<and> lower scheme = ''bearer'' \<and>
        CHR '' '' \<notin> set scheme \<and> static_credential_ok token)"
proof
  assume "extract_bearer_credential headers = Inr token"
  then show "\<exists>scheme. authorization_values headers = [scheme @ '' '' @ token] \<and> lower scheme = ''bearer'' \<and>
      CHR '' '' \<notin> set scheme \<and> static_credential_ok token"
    by (auto simp: extract_bearer_credential_def static_credential_ok_def split_once_Some
        split: list.splits option.splits if_splits)
next
  assume "\<exists>scheme. authorization_values headers = [scheme @ '' '' @ token] \<and> lower scheme = ''bearer'' \<and>
      CHR '' '' \<notin> set scheme \<and> static_credential_ok token"
  then show "extract_bearer_credential headers = Inr token"
    by (auto simp: extract_bearer_credential_def static_credential_ok_def split_once_at)
qed

lemma multi_authenticate_map_of:
  "multi_authenticate cs credential =
     (case map_of (map (\<lambda>c. (sc_credential c, sc_principal c)) cs) credential of
        None \<Rightarrow> Inl InvalidCredential | Some p \<Rightarrow> Inr p)"
  by (induction cs) auto

lemma multi_credential_verifier_Inr:
  "multi_credential_verifier cs = Inr cs' \<longleftrightarrow>
     cs' = cs \<and> cs \<noteq> [] \<and> length cs \<le> 16 \<and> distinct (map sc_credential cs)"
proof -
  have "length (remdups (map sc_credential cs)) = length cs \<longleftrightarrow> distinct (map sc_credential cs)"
    using length_remdups_eq [of "map sc_credential cs"] by (simp add: remdups_id_iff_distinct)
  then show ?thesis
    by (auto simp: multi_credential_verifier_def)
qed

lemma as_verifier_iff:
  assumes "distinct (map sc_credential cs)"
  shows "as_verifier cs token = Some p \<longleftrightarrow> \<lparr>sc_credential = token, sc_principal = p\<rparr> \<in> set cs"
proof -
  define pairs where "pairs = map (\<lambda>c. (sc_credential c, sc_principal c)) cs"
  have "distinct (map fst pairs)" using assms by (simp add: pairs_def comp_def)
  then have "map_of pairs token = Some p \<longleftrightarrow> (token, p) \<in> set pairs"
    by (rule map_of_eq_Some_iff)
  then have "as_verifier cs token = Some p \<longleftrightarrow> (token, p) \<in> set pairs"
    by (auto simp: as_verifier_def multi_authenticate_map_of pairs_def [symmetric] split: option.split)
  also have "\<dots> \<longleftrightarrow> \<lparr>sc_credential = token, sc_principal = p\<rparr> \<in> set cs"
  proof
    assume "(token, p) \<in> set pairs"
    then obtain c where c: "c \<in> set cs" "sc_credential c = token" "sc_principal c = p"
      by (auto simp: pairs_def)
    have "c = \<lparr>sc_credential = token, sc_principal = p\<rparr>" using c(2,3) by (cases c) simp
    then show "\<lparr>sc_credential = token, sc_principal = p\<rparr> \<in> set cs" using c(1) by simp
  next
    assume "\<lparr>sc_credential = token, sc_principal = p\<rparr> \<in> set cs"
    then show "(token, p) \<in> set pairs" by (force simp: pairs_def)
  qed
  finally show ?thesis .
qed

section \<open>Properties\<close>

text \<open>
  C14.  A request authenticates as a principal exactly when it carries a single authorization header
  whose value is a bearer scheme, one space and a non-empty ASCII token without white space of at most
  4096 bytes for which the verifier answers with that principal.
\<close>

theorem authenticates_exactly_one_bearer:
  "authenticate_bearer_credential headers verifier = Inr p \<longleftrightarrow>
     (\<exists>scheme token. authorization_values headers = [scheme @ '' '' @ token] \<and>
        lower scheme = ''bearer'' \<and> CHR '' '' \<notin> set scheme \<and> token \<noteq> [] \<and> length token \<le> 4096 \<and>
        is_ascii token \<and> \<not> list_ex is_space (chars_of token) \<and> verifier token = Some p)"
proof -
  have "authenticate_bearer_credential headers verifier = Inr p \<longleftrightarrow>
      (\<exists>token. extract_bearer_credential headers = Inr token \<and> verifier token = Some p)"
    by (auto simp: authenticate_bearer_credential_def split: option.splits)
  then show ?thesis
    unfolding extract_bearer_iff static_credential_ok_def MAXIMUM_BEARER_CREDENTIAL_BYTES_def by blast
qed

text \<open>
  A static verifier that could be constructed lets each of its credentials in, as its own
  principal, and nothing else: presented as the only authorization header, behind a bearer scheme, a
  text is accepted as a principal exactly when it is that principal's configured credential.
\<close>

theorem static_verifier_exact:
  assumes "multi_credential_verifier cs = Inr cs'"
    and "\<forall>c\<in>set cs. \<exists>q. static_principal_credential q (sc_principal c) = Inr c"
  shows "authenticate_bearer_credential [(''Authorization'', ''Bearer '' @ token)] (as_verifier cs') = Inr p
    \<longleftrightarrow> \<lparr>sc_credential = token, sc_principal = p\<rparr> \<in> set cs"
proof -
  have cs: "cs' = cs" "distinct (map sc_credential cs)"
    using assms(1) by (auto simp: multi_credential_verifier_Inr)
  have ok: "static_credential_ok (sc_credential c)" if c: "c \<in> set cs" for c
  proof -
    obtain q r where "static_principal_credential q r = Inr c"
      using assms(2) c by blast
    then show ?thesis
      by (auto simp: static_principal_credential_def split: if_splits)
  qed
  have accept: "as_verifier cs token = Some p \<longleftrightarrow> \<lparr>sc_credential = token, sc_principal = p\<rparr> \<in> set cs"
    using as_verifier_iff [OF cs(2)] .
  have vals: "authorization_values [(''Authorization'', ''Bearer '' @ token)] = [''Bearer '' @ token]"
    by (simp add: authorization_values_def) code_simp
  have bearer: "lower ''Bearer'' = ''bearer''" by code_simp
  have "split_once (CHR '' '') (''Bearer '' @ token) = Some (''Bearer'', token)"
    using split_once_at [of "CHR '' ''" "''Bearer''" token] by simp
  then have "extract_bearer_credential [(''Authorization'', ''Bearer '' @ token)] =
      (if static_credential_ok token then Inr token else Inl InvalidCredential)"
    using vals bearer by (auto simp: extract_bearer_credential_def static_credential_ok_def)
  then show ?thesis
    using accept ok [of "\<lparr>sc_credential = token, sc_principal = p\<rparr>"] cs(1)
    by (auto simp: authenticate_bearer_credential_def split: option.splits)
qed

lemma static_verifier_exact_witness:
  "authenticate_bearer_credential [(''Authorization'', ''Bearer '' @ ''s3cret'')]
     (as_verifier [\<lparr>sc_credential = ''s3cret'', sc_principal = (1 :: nat)\<rparr>]) = Inr 1"
proof -
  let ?c = "\<lparr>sc_credential = ''s3cret'', sc_principal = (1 :: nat)\<rparr>"
  have one: "multi_credential_verifier [?c] = Inr [?c]" by (simp add: multi_credential_verifier_Inr)
  have "static_principal_credential ''s3cret'' (1 :: nat) = Inr ?c" by code_simp
  then have "\<forall>c\<in>set [?c]. \<exists>q. static_principal_credential q (sc_principal c) = Inr c" by auto
  from static_verifier_exact [OF one this, of "''s3cret''" 1] show ?thesis by simp
qed

end
