(* ===== verification/Boundary.thy ===== *)
theory Boundary
  imports Authentication
begin

text \<open>
  The HTTP and MCP process boundaries of cpk-server (\<open>cpk_server/boundary.py\<close>): routing,
  authentication before anything else, decoding of requests, dispatch to the application services.

  Routes, service roles and the parity tables come from \<open>control_plane_kit_core\<close>; a boundary is
  built over a record of them.  \<open>json.loads\<close> keeps repeated members and non-finite numbers in
  \<open>raw_loads\<close>, so the hooks of the cursor are definitions here; \<open>plain_loads\<close> is
  \<open>json.loads\<close> without hooks.  A service is a function of the request and the state of the
  world.  \<open>dispatched\<close> is a history variable of the model.
\<close>

section \<open>Contracts\<close>

datatype safety = READ_ONLY | OtherSafety string

record 'r route =
  route_id :: string
  route_method :: string
  path_template :: string
  service_role :: 'r
  route_safety :: safety
  max_bytes :: nat

record 'r contracts =
  http_methods :: "string list"
  routes :: "'r route list"
  projections :: "(string \<times> string) list"
  commands :: "(string \<times> string) list"
  service_roles :: "'r list"

record ('r, 'p) service_request =
  surface :: string
  rq_route_id :: string
  rq_service_role :: 'r
  path_parameters :: dict
  payload :: dict
  principal :: 'p

datatype service_failure = ApplicationError nat dict | OtherException

type_synonym response = "nat \<times> dict"

text \<open>\<open>WrongType\<close> and \<open>UnknownRoute\<close> are the exceptions that leave a handler.\<close>

datatype boundary_exception = WrongType | UnknownRoute

record ('r, 'p, 'w) application =
  services :: "'r \<Rightarrow> (('r, 'p) service_request \<Rightarrow> 'w \<Rightarrow> (service_failure + dict) \<times> 'w) option"
  credential_verifier :: "string \<Rightarrow> 'p option"

record json_library =
  plain_loads :: "string \<Rightarrow> json option"
  raw_loads :: "string \<Rightarrow> json option"

record ('r, 'p, 'w) boundary_state =
  app_world :: 'w
  dispatched :: "('r, 'p) service_request list"

type_synonym ('r, 'p, 'w, 'a) boundary_action =
  "('r, 'p, 'w) boundary_state \<Rightarrow> 'a \<times> ('r, 'p, 'w) boundary_state"

definition error_response :: "nat \<Rightarrow> string \<Rightarrow> response" where
  "error_response status message =
     (status, [(''error'', JObj [(''message'', JStr message), (''status'', JInt (int status))])])"

text \<open>
  \<open>CpkServerApplicationBoundary.__init__\<close>: every role has a service and there is a verifier.
  \<open>None\<close> is \<open>CpkServerCompositionError\<close>.
\<close>

definition make_application ::
  "'r contracts \<Rightarrow> ('r \<Rightarrow> (('r, 'p) service_request \<Rightarrow> 'w \<Rightarrow> (service_failure + dict) \<times> 'w) option) \<Rightarrow>
   (string \<Rightarrow> 'p option) option \<Rightarrow> ('r, 'p, 'w) application option" where
  "make_application c svcs verifier =
     (if list_ex (\<lambda>r. svcs r = None) (service_roles c) then None
      else case verifier of
        None \<Rightarrow> None
      | Some v \<Rightarrow> Some \<lparr>services = svcs, credential_verifier = v\<rparr>)"

section \<open>Path templates\<close>

datatype token = Lit char | Param string

definition name_start :: "char \<Rightarrow> bool" where
  "name_start c \<longleftrightarrow> byte_in 97 122 c \<or> byte_in 65 90 c \<or> c = CHR ''_''"

definition name_char :: "char \<Rightarrow> bool" where
  "name_char c \<longleftrightarrow> name_start c \<or> byte_in 48 57 c"

text \<open>
  The template as the sequence of its characters and its parameters.  The code turns it into a regular
  expression without quoting its literal characters; the model takes them literally, which is what they
  are in a template of letters, digits and the characters \<open>/\<close>, \<open>-\<close> and \<open>_\<close>.
\<close>

function template_tokens :: "string \<Rightarrow> token list" where
  "template_tokens [] = []"
| "template_tokens (c # cs) =
     (let name = takeWhile name_char cs; rest = dropWhile name_char cs in
      if c = CHR ''{'' \<and> name \<noteq> [] \<and> name_start (hd name) \<and> starts_with ''}'' rest
      then Param name # template_tokens (tl rest)
      else Lit c # template_tokens cs)"
  by pat_completeness auto
termination
proof (relation "measure length")
  fix c :: char and cs x y
  assume "y = dropWhile name_char cs"
  moreover have "length (dropWhile name_char cs) \<le> length cs" by (rule length_dropWhile_le)
  ultimately show "(tl y, c # cs) \<in> measure length" by simp
qed simp_all

fun first_some :: "('a \<Rightarrow> 'b option) \<Rightarrow> 'a list \<Rightarrow> 'b option" where
  "first_some f [] = None"
| "first_some f (x # xs) = (case f x of Some y \<Rightarrow> Some y | None \<Rightarrow> first_some f xs)"

text \<open>The ways \<open>[^/]+\<close> can match, longest first.\<close>

definition splits :: "string list \<Rightarrow> (string list \<times> string list) list" where
  "splits gs =
     map (\<lambda>k. (take k gs, drop k gs)) (rev [1..<Suc (length (takeWhile (\<lambda>g. g \<noteq> ''/'') gs))])"

text \<open>\<open>^...$\<close>: the end of the text, or a final newline.\<close>

primrec match_tokens :: "token list \<Rightarrow> string list \<Rightarrow> string list option" where
  "match_tokens [] = (\<lambda>gs. if gs = [] \<or> gs = [[char_of (10 :: nat)]] then Some [] else None)"
| "match_tokens (t # ts) = (\<lambda>gs.
     case t of
       Lit c \<Rightarrow> (case gs of [] \<Rightarrow> None | g # gs' \<Rightarrow> if g = [c] then match_tokens ts gs' else None)
     | Param _ \<Rightarrow>
         first_some (\<lambda>(a, b). map_option (Cons (concat a)) (match_tokens ts b)) (splits gs))"

primrec param_names :: "token list \<Rightarrow> string list" where
  "param_names [] = []"
| "param_names (t # ts) = (case t of Lit _ \<Rightarrow> param_names ts | Param n \<Rightarrow> n # param_names ts)"

definition match_path_template :: "string \<Rightarrow> string \<Rightarrow> dict option" where
  "match_path_template template path =
     (let ts = template_tokens template in
      case match_tokens ts (chars_of path) of
        None \<Rightarrow> None
      | Some vals \<Rightarrow> Some (fold (\<lambda>(k, v) d. AList.update k (JStr v) d) (zip (param_names ts) vals) []))"

text \<open>\<open>_match_http_route\<close>: the first route with the method and a matching path.\<close>

definition match_http_route :: "'r contracts \<Rightarrow> string \<Rightarrow> string \<Rightarrow> ('r route \<times> dict) option" where
  "match_http_route c method path =
     (if upper method \<notin> set (http_methods c) then None
      else
        first_some
          (\<lambda>r. if route_method r \<noteq> upper method then None
                else map_option (Pair r) (match_path_template (path_template r) path))
          (routes c))"

section \<open>Requests\<close>

definition hex_value :: "char \<Rightarrow> nat option" where
  "hex_value c =
     (if byte_in 48 57 c then Some (byte_of c - 48)
      else if byte_in 65 70 c then Some (byte_of c - 55)
      else if byte_in 97 102 c then Some (byte_of c - 87)
      else None)"

text \<open>\<open>_strict_percent_decode\<close>; \<open>None\<close> is \<open>ValueError\<close>.\<close>

fun strict_percent_decode :: "string \<Rightarrow> string option" where
  "strict_percent_decode [] = Some []"
| "strict_percent_decode (c # cs) =
     (if c \<noteq> CHR ''%'' then map_option (Cons c) (strict_percent_decode cs)
      else
        (case cs of
           a # b # rest \<Rightarrow>
             (case (hex_value a, hex_value b) of
                (Some x, Some y) \<Rightarrow>
                  map_option (Cons (char_of (16 * x + y))) (strict_percent_decode rest)
              | _ \<Rightarrow> None)
         | _ \<Rightarrow> None))"

text \<open>\<open>json.loads\<close> with the three hooks.\<close>

definition cursor_loads :: "json_library \<Rightarrow> string \<Rightarrow> json option" where
  "cursor_loads lib text_value =
     (case raw_loads lib text_value of
        None \<Rightarrow> None
      | Some v \<Rightarrow> if unique_members v \<and> \<not> nonfinite v then Some v else None)"

text \<open>
  \<open>_json_nesting\<close>: a work list of values with their depths, popped from the end; it stops when the
  maximum passes 64.
\<close>

fun children_of :: "json \<Rightarrow> json list option" where
  "children_of (JObj d) = Some (map snd d)"
| "children_of (JArr xs) = Some xs"
| "children_of _ = None"

lemma children_size:
  assumes "children_of v = Some cs"
  shows "sum_list (map (\<lambda>x. Suc (size x)) cs) < Suc (size v)"
proof (cases v)
  case (JObj d)
  have "sum_list (map (\<lambda>x. Suc (size x)) (map snd d)) \<le> size_list (size_prod (\<lambda>x. 0) size) d"
    by (induction d) auto
  moreover have "cs = map snd d" using JObj assms by simp
  ultimately show ?thesis unfolding JObj by simp
next
  case (JArr xs)
  have "sum_list (map (\<lambda>x. Suc (size x)) xs) \<le> size_list size xs" by (induction xs) auto
  then show ?thesis using JArr assms by simp
qed (use assms in auto)

text \<open>The list is kept with its last element, the next to be popped, in front.\<close>

function nesting_loop :: "nat \<Rightarrow> (json \<times> nat) list \<Rightarrow> nat" where
  "nesting_loop maximum [] = maximum"
| "nesting_loop maximum ((current, depth) # pending) =
     (case children_of current of
        None \<Rightarrow> nesting_loop maximum pending
      | Some cs \<Rightarrow>
          if 64 < max maximum depth then max maximum depth
          else nesting_loop (max maximum depth) (rev (map (\<lambda>x. (x, depth + 1)) cs) @ pending))"
  by pat_completeness auto
termination
proof (relation "measure (\<lambda>(_, pending). sum_list (map (\<lambda>(v, _). Suc (size v)) pending))")
  fix maximum depth :: nat and current pending cs
  assume "children_of current = Some cs"
  from children_size [OF this]
  have "sum_list (map (\<lambda>(v, _). Suc (size v)) (rev (map (\<lambda>x. (x, depth + 1)) cs))) < Suc (size current)"
    by (simp add: comp_def sum_list_rev flip: rev_map)
  then show "((max maximum depth, rev (map (\<lambda>x. (x, depth + 1)) cs) @ pending),
      maximum, (current, depth) # pending)
      \<in> measure (\<lambda>(_, pending). sum_list (map (\<lambda>(v, _). Suc (size v)) pending))"
    by simp
qed simp_all

definition json_nesting :: "json \<Rightarrow> nat" where
  "json_nesting v = nesting_loop 0 [(v, 1)]"

text \<open>
  One \<open>name=value\<close> field.  The interpreter refuses to convert more than 4300 digits
  (\<open>ValueError\<close>), which the code answers like the other malformed values.
\<close>

definition limit_pattern :: "string \<Rightarrow> bool" where
  "limit_pattern s =
     (case s of [] \<Rightarrow> False | c # cs \<Rightarrow> byte_in 49 57 c \<and> list_all (byte_in 48 57) cs)"

definition decimal_value :: "string \<Rightarrow> int" where
  "decimal_value s = foldl (\<lambda>n c. 10 * n + int (byte_of c - 48)) 0 s"

definition percent_text :: "string \<Rightarrow> string option" where
  "percent_text s = Option.bind (strict_percent_decode s) utf8_decode"

definition read_field :: "json_library \<Rightarrow> dict \<Rightarrow> string \<Rightarrow> dict option" where
  "read_field lib arguments field =
     (case split_once (CHR ''='') field of
        None \<Rightarrow> None
      | Some (encoded_name, encoded_value) \<Rightarrow>
          (case (percent_text encoded_name, percent_text encoded_value) of
             (Some name, Some text_value) \<Rightarrow>
               if name \<notin> {''limit'', ''after''} \<or> has arguments name then None
               else if name = ''limit'' then
                 (if limit_pattern text_value \<and> length text_value \<le> 4300
                  then Some (AList.update name (JInt (decimal_value text_value)) arguments) else None)
               else
                 (case cursor_loads lib text_value of
                    Some (JObj d) \<Rightarrow>
                      if 64 < json_nesting (JObj d) then None
                      else Some (AList.update name (JObj d) arguments)
                  | _ \<Rightarrow> None)
           | _ \<Rightarrow> None))"

fun read_fields :: "json_library \<Rightarrow> dict \<Rightarrow> string list \<Rightarrow> dict option" where
  "read_fields lib arguments [] = Some arguments"
| "read_fields lib arguments (f # fs) =
     (case read_field lib arguments f of None \<Rightarrow> None | Some a \<Rightarrow> read_fields lib a fs)"

definition decode_http_read_query :: "json_library \<Rightarrow> string \<Rightarrow> response + dict" where
  "decode_http_read_query lib query_string =
     (if query_string = [] then Inr []
      else case read_fields lib [] (split_on (CHR ''&'') query_string) of
        None \<Rightarrow> Inl (error_response 400 ''invalid query arguments'')
      | Some d \<Rightarrow> Inr d)"

definition decode_http_payload ::
  "json_library \<Rightarrow> 'r route \<Rightarrow> string \<Rightarrow> string \<Rightarrow> response + dict" where
  "decode_http_payload lib r body query_string =
     (if route_method r = ''GET'' then
        if body \<noteq> [] then Inl (error_response 400 ''read routes do not accept request bodies'')
        else if max_bytes r < length query_string then Inl (error_response 413 ''request query too large'')
        else decode_http_read_query lib query_string
      else if query_string \<noteq> [] then Inl (error_response 400 ''command routes do not accept query arguments'')
      else if max_bytes r < length body then Inl (error_response 413 ''request body too large'')
      else if body = [] then Inr []
      else case Option.bind (utf8_decode body) (plain_loads lib) of
        None \<Rightarrow> Inl (error_response 400 ''invalid JSON request body'')
      | Some (JObj d) \<Rightarrow> Inr d
      | Some _ \<Rightarrow> Inl (error_response 400 ''request body must be an object''))"

section \<open>The handlers\<close>

text \<open>
  \<open>_dispatch_application\<close>: the exceptions of a service become responses.  A role without a
  service is a \<open>KeyError\<close> inside the same \<open>try\<close>.
\<close>

definition dispatch_application ::
  "('r, 'p, 'w) application \<Rightarrow> ('r, 'p) service_request \<Rightarrow> ('r, 'p, 'w, response + dict) boundary_action" where
  "dispatch_application app rq = (\<lambda>s.
     case services app (rq_service_role rq) of
       None \<Rightarrow> (Inl (error_response 500 ''application service failed''), s)
     | Some handle \<Rightarrow>
         (case handle rq (app_world s) of
            (r, w) \<Rightarrow>
              (case r of
                 Inl (ApplicationError status d) \<Rightarrow> Inl (status, d)
               | Inl OtherException \<Rightarrow> Inl (error_response 500 ''application service failed'')
               | Inr d \<Rightarrow> Inr d,
               s\<lparr>app_world := w, dispatched := dispatched s @ [rq]\<rparr>)))"

definition http_handle ::
  "'r contracts \<Rightarrow> json_library \<Rightarrow> ('r, 'p, 'w) application \<Rightarrow> string \<Rightarrow> string \<Rightarrow> (string \<times> string) list \<Rightarrow>
   string \<Rightarrow> string \<Rightarrow> ('r, 'p, 'w, response) boundary_action" where
  "http_handle c lib app method path headers body query_string = (\<lambda>s.
     case match_http_route c method path of
       None \<Rightarrow> (error_response 404 ''unknown route'', s)
     | Some (r, params) \<Rightarrow>
         (case authenticate_bearer_credential headers (credential_verifier app) of
            Inl _ \<Rightarrow> (error_response 401 ''invalid credential'', s)
          | Inr who \<Rightarrow>
              (case decode_http_payload lib r body query_string of
                 Inl e \<Rightarrow> (e, s)
               | Inr data \<Rightarrow>
                   (case dispatch_application app
                           \<lparr>surface = ''http'', rq_route_id = route_id r, rq_service_role = service_role r,
                            path_parameters = params, payload = data, principal = who\<rparr> s of
                      (Inl e, s') \<Rightarrow> (e, s')
                    | (Inr d, s') \<Rightarrow> ((200, d), s')))))"

definition validate_mcp_headers :: "(string \<times> string) list \<Rightarrow> response option" where
  "validate_mcp_headers headers =
     (let lowered = map (\<lambda>(k, _). lower k) headers in
      if ''accept'' \<notin> set lowered then Some (error_response 400 ''missing MCP Accept header'')
      else if ''mcp-protocol-version'' \<notin> set lowered
        then Some (error_response 400 ''missing MCP protocol version'')
      else if ''mcp-method'' \<notin> set lowered then Some (error_response 400 ''missing MCP method'')
      else None)"

definition route_by_id :: "'r contracts \<Rightarrow> string \<Rightarrow> 'r route option" where
  "route_by_id c name = List.find (\<lambda>r. route_id r = name) (routes c)"

text \<open>
  \<open>_mcp_route\<close>: by tool name in the parity table of the method, whose route ids are looked up
  unguarded, then by route id.
\<close>

definition mcp_route :: "'r contracts \<Rightarrow> string \<Rightarrow> string \<Rightarrow> boundary_exception + 'r route option" where
  "mcp_route c method name =
     (case List.find (\<lambda>(tool, _). tool = name)
             (if method = ''resources/read'' then projections c else commands c) of
        Some (_, rid) \<Rightarrow> (case route_by_id c rid of None \<Rightarrow> Inl UnknownRoute | Some r \<Rightarrow> Inr (Some r))
      | None \<Rightarrow> Inr (route_by_id c name))"

definition decode_mcp_message ::
  "'r contracts \<Rightarrow> dict \<Rightarrow> 'p \<Rightarrow> boundary_exception + (response + ('r, 'p) service_request)" where
  "decode_mcp_message c m who =
     (if get m ''jsonrpc'' \<noteq> JStr ''2.0'' then Inr (Inl (error_response 400 ''MCP message must be JSON-RPC 2.0''))
      else case in_strings (get m ''method'') [''tools/call'', ''resources/read''] of
        None \<Rightarrow> Inl WrongType
      | Some False \<Rightarrow> Inr (Inl (error_response 404 ''unknown MCP method''))
      | Some True \<Rightarrow>
          (case get m ''params'' of
             JObj params \<Rightarrow>
               (case (get params ''name'', if has params ''arguments'' then get params ''arguments'' else JObj []) of
                  (JStr name, JObj arguments) \<Rightarrow>
                    (let method = (if get m ''method'' = JStr ''resources/read'' then ''resources/read''
                                   else ''tools/call'') in
                     bindE (mcp_route c method name) (\<lambda>ro. Inr (case ro of
                       None \<Rightarrow> Inl (error_response 404 ''unknown MCP operation'')
                     | Some r \<Rightarrow>
                         if method = ''tools/call'' \<and> route_safety r = READ_ONLY
                         then Inl (error_response 400 ''tools/call requires a command route'')
                         else if method = ''resources/read'' \<and> route_safety r \<noteq> READ_ONLY
                         then Inl (error_response 400 ''resources/read requires a read route'')
                         else Inr \<lparr>surface = ''mcp'', rq_route_id = route_id r,
                                   rq_service_role = service_role r, path_parameters = [],
                                   payload = arguments, principal = who\<rparr>)))
                | (JStr _, _) \<Rightarrow> Inr (Inl (error_response 400 ''MCP arguments must be an object''))
                | _ \<Rightarrow> Inr (Inl (error_response 400 ''MCP operation name must be text'')))
           | _ \<Rightarrow> Inr (Inl (error_response 400 ''MCP params must be an object''))))"

definition message_id :: "dict \<Rightarrow> json" where
  "message_id m =
     (case get m ''id'' of JStr s \<Rightarrow> JStr s | JInt i \<Rightarrow> JInt i | JBool b \<Rightarrow> JBool b | _ \<Rightarrow> JNull)"

text \<open>
  \<open>message.get\<close> comes before the check that the message is an object: on anything else it is an
  \<open>AttributeError\<close>.
\<close>

definition mcp_handle ::
  "'r contracts \<Rightarrow> ('r, 'p, 'w) application \<Rightarrow> (string \<times> string) list \<Rightarrow> json \<Rightarrow>
   ('r, 'p, 'w, boundary_exception + response) boundary_action" where
  "mcp_handle c app headers message = (\<lambda>s.
     case validate_mcp_headers headers of
       Some e \<Rightarrow> (Inr e, s)
     | None \<Rightarrow>
         (case authenticate_bearer_credential headers (credential_verifier app) of
            Inl _ \<Rightarrow> (Inr (error_response 401 ''invalid credential''), s)
          | Inr who \<Rightarrow>
              (case message of
                 JObj m \<Rightarrow>
                   (case List.find (\<lambda>(k, _). lower k = ''mcp-method'') headers of
                      Some (_, method) \<Rightarrow>
                        if get m ''method'' \<noteq> JStr method
                        then (Inr (error_response 400 ''MCP method header does not match message''), s)
                        else
                          (case decode_mcp_message c m who of
                             Inl e \<Rightarrow> (Inl e, s)
                           | Inr (Inl e) \<Rightarrow> (Inr e, s)
                           | Inr (Inr rq) \<Rightarrow>
                               (case dispatch_application app rq s of
                                  (Inl e, s') \<Rightarrow> (Inr e, s')
                                | (Inr d, s') \<Rightarrow>
                                    (Inr (200, [(''jsonrpc'', JStr ''2.0''), (''id'', message_id m),
                                                (''result'', JObj d)]), s')))
                    | None \<Rightarrow> (Inr (error_response 400 ''MCP method header does not match message''), s))
               | _ \<Rightarrow> (Inl WrongType, s))))"

end
