(* ===== verification/BoundaryProperties.thy ===== *)
theory BoundaryProperties
  imports Boundary
begin

text \<open>
  The properties of the process boundaries: routing, decoding and what may reach an application
  service.
\<close>

section \<open>Path templates\<close>

text \<open>The characters of a path that a template stands for, given the characters of each parameter.\<close>

fun render_groups :: "token list \<Rightarrow> string list list \<Rightarrow> string list option" where
  "render_groups [] [] = Some []"
| "render_groups (Lit c # ts) vs = map_option (Cons [c]) (render_groups ts vs)"
| "render_groups (Param n # ts) (v # vs) = map_option (append v) (render_groups ts vs)"
| "render_groups _ _ = None"

definition segment :: "string list \<Rightarrow> bool" where
  "segment v \<longleftrightarrow> v \<noteq> [] \<and> ''/'' \<notin> set v"

lemma first_some_Some: "first_some f xs = Some y \<Longrightarrow> \<exists>x\<in>set xs. f x = Some y"
  by (induction xs) (auto split: option.splits)

lemma splits_sound:
  assumes "(a, b) \<in> set (splits gs)"
  shows "gs = a @ b \<and> segment a"
proof -
  obtain k where k: "1 \<le> k" "k \<le> length (takeWhile (\<lambda>g. g \<noteq> ''/'') gs)" "a = take k gs" "b = drop k gs"
    using assms by (auto simp: splits_def)
  have "take k gs = take k (takeWhile (\<lambda>g. g \<noteq> ''/'') gs)"
    using k(2) by (metis takeWhile_eq_take take_take min.absorb1)
  then have "set a \<subseteq> set (takeWhile (\<lambda>g. g \<noteq> ''/'') gs)"
    using k(3) by (metis set_take_subset)
  then have "''/'' \<notin> set a" by (auto dest: set_takeWhileD)
  moreover have "k \<le> length gs"
    using k(2) length_takeWhile_le le_trans by blast
  then have "a \<noteq> []" using k(1,3) by auto
  ultimately show ?thesis using k(3,4) by (simp add: segment_def)
qed

lemma match_tokens_sound:
  "match_tokens ts gs = Some vals \<Longrightarrow>
   \<exists>vs tail. vals = map concat vs \<and> list_all segment vs \<and> tail \<in> {[], [[char_of (10 :: nat)]]} \<and>
     map_option (\<lambda>r. r @ tail) (render_groups ts vs) = Some gs"
proof (induction ts arbitrary: gs vals)
  case Nil
  then show ?case by (auto split: if_splits intro!: exI [of _ "[]"])
next
  case (Cons t ts)
  show ?case
  proof (cases t)
    case (Lit c)
    then obtain gs' where gs: "gs = [c] # gs'" and "match_tokens ts gs' = Some vals"
      using Cons.prems by (auto split: list.splits if_splits)
    from Cons.IH [OF this(2)] obtain vs tail r where "vals = map concat vs" "list_all segment vs"
      "tail \<in> {[], [[char_of (10 :: nat)]]}" "render_groups ts vs = Some r" "gs' = r @ tail" by auto
    then show ?thesis
      using Lit gs by (intro exI [of _ vs] exI [of _ tail]) simp
  next
    case (Param n)
    then obtain a b vals' where ab: "(a, b) \<in> set (splits gs)" "match_tokens ts b = Some vals'"
      and vals: "vals = concat a # vals'"
      using Cons.prems by (auto dest!: first_some_Some)
    from Cons.IH [OF ab(2)] obtain vs tail r where "vals' = map concat vs" "list_all segment vs"
      "tail \<in> {[], [[char_of (10 :: nat)]]}" "render_groups ts vs = Some r" "b = r @ tail" by auto
    then show ?thesis
      using Param vals splits_sound [OF ab(1)]
      by (intro exI [of _ "a # vs"] exI [of _ tail]) simp
  qed
qed

text \<open>Every parameter is followed by a slash or the end.\<close>

fun separated :: "token list \<Rightarrow> bool" where
  "separated (Param n # Lit c # ts) \<longleftrightarrow> c = CHR ''/'' \<and> separated ts"
| "separated (Param n # Param m # ts) \<longleftrightarrow> False"
| "separated (Lit c # ts) \<longleftrightarrow> separated ts"
| "separated _ \<longleftrightarrow> True"

lemma splits_segment:
  assumes "segment v" and "rest = [] \<or> hd rest = ''/''"
  shows "\<exists>xs. splits (v @ rest) = (v, rest) # xs"
proof -
  have tw: "takeWhile (\<lambda>g. g \<noteq> ''/'') (v @ rest) = v"
    using assms by (cases rest) (auto simp: segment_def takeWhile_append)
  obtain n where n: "length v = Suc n"
    using assms(1) by (cases v) (auto simp: segment_def)
  have "rev [1..<Suc (length v)] = length v # rev [1..<length v]"
    using n by simp
  then show ?thesis by (simp add: splits_def tw)
qed

lemma render_rest:
  assumes "separated (Param n # ts)" and "render_groups ts vs = Some r"
  shows "r = [] \<or> hd r = ''/''"
proof (cases ts)
  case Nil
  then show ?thesis using assms(2) by (cases vs) auto
next
  case (Cons t ts')
  then show ?thesis using assms by (cases t) auto
qed

lemma separated_tl: "separated (t # ts) \<Longrightarrow> separated ts"
  by (cases t; cases ts) (auto elim: separated.elims)

lemma match_tokens_complete:
  "separated ts \<Longrightarrow> list_all segment vs \<Longrightarrow> render_groups ts vs = Some gs \<Longrightarrow>
   match_tokens ts gs = Some (map concat vs)"
proof (induction ts arbitrary: vs gs)
  case Nil
  then show ?case by (cases vs) auto
next
  case (Cons t ts)
  note sep = separated_tl [OF Cons.prems(1)]
  show ?case
  proof (cases t)
    case (Lit c)
    then show ?thesis using Cons.IH [OF sep Cons.prems(2)] Cons.prems(3) by auto
  next
    case (Param n)
    then obtain v vs' r where vs: "vs = v # vs'" "render_groups ts vs' = Some r" "gs = v @ r"
      using Cons.prems(3) by (cases vs) auto
    obtain xs where "splits gs = (v, r) # xs"
      using splits_segment [of v r] render_rest [of n ts vs' r] Cons.prems(1,2) Param vs by auto
    then show ?thesis
      using Cons.IH [OF sep _ vs(2)] Cons.prems(2) Param vs(1) by simp
  qed
qed


lemma fold_update_distinct:
  "distinct (ks :: string list) \<Longrightarrow> set ks \<inter> fst ` set acc = {} \<Longrightarrow>
   fold (\<lambda>(k, v) d. AList.update k (f v) d) (zip ks vs) acc = acc @ zip ks (map f vs)"
proof (induction ks arbitrary: vs acc)
  case (Cons k ks)
  show ?case
  proof (cases vs)
    case (Cons v vs')
    have "AList.update k (f v) acc = acc @ [(k, f v)]"
      using Cons.prems(2) by (intro update_new_key) (auto simp: keys_def)
    then show ?thesis using Cons Cons.prems Cons.IH [of "acc @ [(k, f v)]" vs'] by auto
  qed simp
qed simp

section \<open>Percent encoding\<close>

lemma hex_value_upper_hex: "n < 16 \<Longrightarrow> hex_value (upper_hex n) = Some n"
proof -
  have "\<forall>n\<in>{0..<16}. hex_value (upper_hex n) = Some n" by code_simp
  then show "n < 16 \<Longrightarrow> ?thesis" by simp
qed

lemma decode_quote_byte: "strict_percent_decode (quote_byte c @ s) = map_option (Cons c) (strict_percent_decode s)"
proof (cases "unreserved c")
  case True
  then have "c \<noteq> CHR ''%''" by (auto simp: unreserved_def byte_in_def byte_of_def)
  then show ?thesis by (simp add: quote_byte_def True)
next
  case False
  have "byte_of c < 256" by (simp add: byte_of_def)
  then have "hex_value (upper_hex (byte_of c div 16)) = Some (byte_of c div 16)"
    by (intro hex_value_upper_hex) simp
  moreover have "upper_hex (byte_of c) = upper_hex (byte_of c mod 16)" by (simp add: upper_hex_def)
  then have "hex_value (upper_hex (byte_of c)) = Some (byte_of c mod 16)"
    using hex_value_upper_hex [of "byte_of c mod 16"] by simp
  moreover have "char_of (16 * (byte_of c div 16) + byte_of c mod 16) = c"
    by (simp add: byte_of_def)
  ultimately show ?thesis by (simp add: quote_byte_def False)
qed

lemma quote_plus_decode:
  "strict_percent_decode (quote_plus s @ t) =
     map_option (append (map (\<lambda>c. if c = CHR '' '' then CHR ''+'' else c) s)) (strict_percent_decode t)"
proof (induction s)
  case Nil
  then show ?case by (simp add: option.map_ident)
next
  case (Cons c s)
  then show ?case by (auto simp: decode_quote_byte option.map_comp comp_def)
qed

section \<open>Nesting\<close>

text \<open>The depth of a value: 0 for a scalar, one more than its deepest member otherwise.\<close>

fun json_depth :: "json \<Rightarrow> nat" and json_depth_list :: "json list \<Rightarrow> nat"
  and json_depth_items :: "(string \<times> json) list \<Rightarrow> nat"
where
  "json_depth (JArr xs) = Suc (json_depth_list xs)"
| "json_depth (JObj d) = Suc (json_depth_items d)"
| "json_depth _ = 0"
| "json_depth_list [] = 0"
| "json_depth_list (x # xs) = max (json_depth x) (json_depth_list xs)"
| "json_depth_items [] = 0"
| "json_depth_items ((k, v) # xs) = max (json_depth v) (json_depth_items xs)"

lemma json_depth_items_list: "json_depth_items d = json_depth_list (map snd d)"
  by (induction d) auto

lemma json_depth_children:
  "children_of v = None \<Longrightarrow> json_depth v = 0"
  "children_of v = Some cs \<Longrightarrow> json_depth v = Suc (json_depth_list cs)"
  by (cases v; auto simp: json_depth_items_list)+

text \<open>How deep the values of a work list reach.\<close>

definition reach_one :: "json \<Rightarrow> nat \<Rightarrow> nat" where
  "reach_one v d = (if json_depth v = 0 then 0 else d - 1 + json_depth v)"

definition reach :: "(json \<times> nat) list \<Rightarrow> nat" where
  "reach pending = foldr (\<lambda>(v, d) m. max (reach_one v d) m) pending 0"

lemma reach_simps [simp]: "reach [] = 0" "reach ((v, d) # p) = max (reach_one v d) (reach p)"
  by (simp_all add: reach_def)

lemma reach_append [simp]: "reach (p @ q) = max (reach p) (reach q)"
  by (induction p) auto

lemma reach_rev [simp]: "reach (rev p) = reach p"
  by (induction p) (auto simp: max.commute)

lemma reach_children:
  "1 \<le> d \<Longrightarrow> max d (reach (map (\<lambda>x. (x, d + 1)) cs)) = d + json_depth_list cs"
  by (induction cs) (auto simp: reach_one_def)

lemma nesting_loop_reach:
  assumes "\<forall>(v, d)\<in>set pending. 1 \<le> d"
  shows "if max maximum (reach pending) \<le> 64 then nesting_loop maximum pending = max maximum (reach pending)
         else 64 < nesting_loop maximum pending"
  using assms
proof (induction maximum pending rule: nesting_loop.induct)
  case (2 maximum current depth pending)
  show ?case
  proof (cases "children_of current")
    case None
    then show ?thesis using 2 json_depth_children(1) [OF None] by (simp add: reach_one_def)
  next
    case (Some cs)
    have here: "reach_one current depth = max depth (reach (map (\<lambda>x. (x, depth + 1)) cs))"
      using reach_children [of depth cs] json_depth_children(2) [OF Some] 2(3) by (simp add: reach_one_def)
    show ?thesis
    proof (cases "64 < max maximum depth")
      case True
      then show ?thesis using Some here by auto
    next
      case False
      have "\<forall>(v, d)\<in>set (rev (map (\<lambda>x. (x, depth + 1)) cs) @ pending). 1 \<le> d"
        using 2(3) by auto
      from 2(2) [OF Some False this] show ?thesis using Some here False by (auto simp: max.assoc)
    qed
  qed
qed simp


section \<open>Read queries\<close>

text \<open>What the arguments of a read request look like.\<close>

definition read_arguments :: "dict \<Rightarrow> bool" where
  "read_arguments d \<longleftrightarrow>
     distinct (keys d) \<and> set (keys d) \<subseteq> {''limit'', ''after''} \<and>
     (has d ''limit'' \<longrightarrow> (\<exists>n. get d ''limit'' = JInt n \<and> 1 \<le> n)) \<and>
     (has d ''after'' \<longrightarrow> (\<exists>c. get d ''after'' = JObj c \<and> json_depth (JObj c) \<le> 64 \<and>
        unique_members (JObj c) \<and> \<not> nonfinite (JObj c)))"

lemma decimal_value_mono: "0 \<le> n \<Longrightarrow> n \<le> foldl (\<lambda>n c. 10 * n + int (byte_of c - 48)) n s"
proof (induction s arbitrary: n)
  case (Cons c s)
  have "n \<le> 10 * n + int (byte_of c - 48)" using Cons.prems by simp
  also have "\<dots> \<le> foldl (\<lambda>n c. 10 * n + int (byte_of c - 48)) (10 * n + int (byte_of c - 48)) s"
    using Cons.prems by (intro Cons.IH) simp
  finally show ?case by simp
qed simp

lemma decimal_value_pos: "limit_pattern s \<Longrightarrow> 1 \<le> decimal_value s"
proof (cases s)
  case (Cons c cs)
  assume "limit_pattern s"
  define n where "n = int (byte_of c - 48)"
  have "1 \<le> n" using \<open>limit_pattern s\<close> Cons by (auto simp: limit_pattern_def byte_in_def n_def)
  moreover have "n \<le> foldl (\<lambda>n c. 10 * n + int (byte_of c - 48)) n cs"
    by (rule decimal_value_mono) (simp add: n_def)
  moreover have "decimal_value s = foldl (\<lambda>n c. 10 * n + int (byte_of c - 48)) n cs"
    by (simp add: decimal_value_def Cons n_def)
  ultimately show ?thesis by linarith
qed (simp add: limit_pattern_def)

lemma json_nesting_le: "json_nesting v \<le> 64 \<longleftrightarrow> json_depth v \<le> 64"
  and json_nesting_eq: "json_depth v \<le> 64 \<Longrightarrow> json_nesting v = json_depth v"
  using nesting_loop_reach [of "[(v, 1)]" 0]
  by (auto simp: json_nesting_def reach_one_def split: if_splits)

lemma read_field_arguments:
  assumes "read_field lib arguments field = Some d" and "read_arguments arguments"
  shows "read_arguments d"
  using assms
  by (auto simp: read_field_def read_arguments_def dict_simps distinct_keys_update cursor_loads_def
      decimal_value_pos not_less json_nesting_le simp del: json_depth.simps unique_members.simps nonfinite.simps
      split: option.splits prod.splits if_splits json.splits)

lemma read_fields_arguments:
  "read_fields lib arguments fs = Some d \<Longrightarrow> read_arguments arguments \<Longrightarrow> read_arguments d"
  by (induction fs arbitrary: arguments) (auto split: option.splits dest: read_field_arguments)

lemma read_query_arguments:
  "decode_http_read_query lib q = Inr d \<Longrightarrow> read_arguments d"
  using read_fields_arguments [of lib "[]"]
  by (auto simp: decode_http_read_query_def read_arguments_def keys_def has_def split: if_splits option.splits)

section \<open>Dispatch\<close>

lemma dispatch_application_log:
  assumes "dispatch_application app rq s = (r, s')"
  shows "dispatched s' = dispatched s \<or> dispatched s' = dispatched s @ [rq]"
  using assms by (auto simp: dispatch_application_def split: option.splits prod.splits)

lemma match_http_route_sound:
  assumes "match_http_route c meth path = Some (r, params)"
  shows "r \<in> set (routes c) \<and> route_method r = upper meth \<and> upper meth \<in> set (http_methods c) \<and>
    match_path_template (path_template r) path = Some params"
  using assms
  by (auto simp: match_http_route_def split: if_splits dest!: first_some_Some)

lemma find_route_by_id: "route_by_id c name = Some r \<Longrightarrow> r \<in> set (routes c)"
  by (auto simp: route_by_id_def find_Some_iff)

lemma mcp_route_sound: "mcp_route c meth name = Inr (Some r) \<Longrightarrow> r \<in> set (routes c)"
  by (auto simp: mcp_route_def split: option.splits dest: find_route_by_id)

lemma decode_mcp_sound:
  assumes "decode_mcp_message c m who = Inr (Inr rq)"
  shows "\<exists>r. r \<in> set (routes c) \<and> rq_route_id rq = route_id r \<and> rq_service_role rq = service_role r \<and>
    path_parameters rq = [] \<and> principal rq = who \<and> get m ''jsonrpc'' = JStr ''2.0'' \<and>
    (get m ''method'' = JStr ''tools/call'' \<and> route_safety r \<noteq> READ_ONLY \<or>
     get m ''method'' = JStr ''resources/read'' \<and> route_safety r = READ_ONLY)"
proof -
  have jsonrpc: "get m ''jsonrpc'' = JStr ''2.0''"
    using assms by (auto simp: decode_mcp_message_def split: if_splits)
  obtain meth where meth: "get m ''method'' = JStr meth" "meth \<in> {''tools/call'', ''resources/read''}"
    using assms jsonrpc by (auto simp: decode_mcp_message_def split: option.splits bool.splits)
  obtain params name arguments where "get m ''params'' = JObj params" "get params ''name'' = JStr name"
    "(if has params ''arguments'' then get params ''arguments'' else JObj []) = JObj arguments"
    using assms jsonrpc meth
    by (auto simp: decode_mcp_message_def split: json.splits)
  with assms jsonrpc meth obtain r where route: "mcp_route c meth name = Inr (Some r)"
    and "meth = ''tools/call'' \<longrightarrow> route_safety r \<noteq> READ_ONLY"
    and "meth = ''resources/read'' \<longrightarrow> route_safety r = READ_ONLY"
    and "rq = \<lparr>surface = ''mcp'', rq_route_id = route_id r, rq_service_role = service_role r,
        path_parameters = [], payload = arguments, principal = who\<rparr>"
    by (auto simp: decode_mcp_message_def Let_def split: option.splits if_splits)
  with mcp_route_sound [OF route] jsonrpc meth show ?thesis
    by (intro exI [of _ r]) auto
qed

section \<open>A concrete server\<close>

definition demo_route :: "nat route" where
  "demo_route =
     \<lparr>route_id = ''runs.read'', route_method = ''GET'',
      path_template = ''/workspaces/{workspace_id}/runs'', service_role = 0, route_safety = READ_ONLY,
      max_bytes = 256\<rparr>"

definition demo_contracts :: "nat contracts" where
  "demo_contracts =
     \<lparr>http_methods = [''GET'', ''POST''], routes = [demo_route], projections = [(''read_runs'', ''runs.read'')],
      commands = [], service_roles = [0]\<rparr>"

definition demo_application :: "(nat, string, unit) application" where
  "demo_application =
     \<lparr>services = (\<lambda>_. Some (\<lambda>_ w. (Inr [], w))),
      credential_verifier = (\<lambda>t. if t = ''secret'' then Some ''operator'' else None)\<rparr>"

definition demo_json :: json_library where
  "demo_json = \<lparr>plain_loads = (\<lambda>_. None), raw_loads = (\<lambda>_. Some (JObj []))\<rparr>"

definition demo_headers :: "(string \<times> string) list" where
  "demo_headers =
     [(''Authorization'', ''Bearer secret''), (''Accept'', ''*''), (''MCP-Protocol-Version'', ''1''),
      (''MCP-Method'', ''resources/read'')]"

definition demo_boundary_state :: "(nat, string, unit) boundary_state" where
  "demo_boundary_state = \<lparr>app_world = (), dispatched = []\<rparr>"

definition demo_request :: "string \<Rightarrow> dict \<Rightarrow> dict \<Rightarrow> (nat, string) service_request" where
  "demo_request kind params data =
     \<lparr>surface = kind, rq_route_id = ''runs.read'', rq_service_role = 0, path_parameters = params,
      payload = data, principal = ''operator''\<rparr>"

lemma demo_http:
  "http_handle demo_contracts demo_json demo_application ''get'' ''/workspaces/w1/runs'' demo_headers []
     ''limit=5'' demo_boundary_state =
   ((200, []),
    \<lparr>app_world = (),
     dispatched = [demo_request ''http'' [(''workspace_id'', JStr ''w1'')] [(''limit'', JInt 5)]]\<rparr>)"
  by code_simp

definition demo_message :: dict where
  "demo_message =
     [(''jsonrpc'', JStr ''2.0''), (''id'', JInt 7), (''method'', JStr ''resources/read''),
      (''params'', JObj [(''name'', JStr ''read_runs'')])]"

lemma demo_mcp:
  "mcp_handle demo_contracts demo_application demo_headers (JObj demo_message) demo_boundary_state =
   (Inr (200, [(''jsonrpc'', JStr ''2.0''), (''id'', JInt 7), (''result'', JObj [])]),
    \<lparr>app_world = (), dispatched = [demo_request ''mcp'' [] []]\<rparr>)"
  by code_simp

section \<open>Properties\<close>





text \<open>
  C16.  The MCP surface: a message is dispatched at most once, as the principal its bearer credential
  authenticates, when it is a JSON-RPC 2.0 object whose meth is the one the header names; a tool call
  reaches only command routes and a resource read only read-only routes, and the request carries no
  path parameters.
\<close>

theorem mcp_dispatch_is_authorized:
  assumes "mcp_handle c app headers message s = (response, s')"
  shows "dispatched s' = dispatched s \<or>
    (\<exists>m r rq. message = JObj m \<and> dispatched s' = dispatched s @ [rq] \<and> r \<in> set (routes c) \<and>
       rq_route_id rq = route_id r \<and> rq_service_role rq = service_role r \<and> path_parameters rq = [] \<and>
       authenticate_bearer_credential headers (credential_verifier app) = Inr (principal rq) \<and>
       get m ''jsonrpc'' = JStr ''2.0'' \<and>
       (\<exists>h meth. (h, meth) \<in> set headers \<and> lower h = ''mcp-method'' \<and> get m ''method'' = JStr meth \<and>
          (meth = ''tools/call'' \<and> route_safety r \<noteq> READ_ONLY \<or>
           meth = ''resources/read'' \<and> route_safety r = READ_ONLY)))"
proof (cases "dispatched s' = dispatched s")
  case False
  then obtain m who h meth where steps: "message = JObj m"
    "authenticate_bearer_credential headers (credential_verifier app) = Inr who"
    "List.find (\<lambda>(k, _). lower k = ''mcp-method'') headers = Some (h, meth)" "get m ''method'' = JStr meth"
    using assms by (auto simp: mcp_handle_def split: option.splits sum.splits json.splits prod.splits if_splits)
  obtain rq where rq: "decode_mcp_message c m who = Inr (Inr rq)"
    using assms False steps
    by (auto simp: mcp_handle_def split: option.splits sum.splits prod.splits)
  have log: "dispatched s' = dispatched s @ [rq]"
    using assms False steps rq dispatch_application_log [of app rq s]
    by (auto simp: mcp_handle_def split: option.splits sum.splits prod.splits)
  have "(h, meth) \<in> set headers \<and> lower h = ''mcp-method''"
    using steps(3) by (auto simp: find_Some_iff in_set_conv_nth)
  moreover obtain r where "r \<in> set (routes c) \<and> rq_route_id rq = route_id r \<and>
      rq_service_role rq = service_role r \<and> path_parameters rq = [] \<and> principal rq = who \<and>
      get m ''jsonrpc'' = JStr ''2.0'' \<and>
      (get m ''method'' = JStr ''tools/call'' \<and> route_safety r \<noteq> READ_ONLY \<or>
       get m ''method'' = JStr ''resources/read'' \<and> route_safety r = READ_ONLY)"
    using decode_mcp_sound [OF rq] by blast
  ultimately show ?thesis
    using log steps by (intro disjI2 exI [of _ m] exI [of _ r] exI [of _ rq]) auto
qed simp

lemma mcp_dispatch_is_authorized_witness:
  "dispatched (snd (mcp_handle demo_contracts demo_application demo_headers (JObj demo_message)
     demo_boundary_state)) \<noteq> [] \<and> route_safety demo_route = READ_ONLY"
proof -
  have "get demo_message ''method'' = JStr ''resources/read''" by code_simp
  moreover have "routes demo_contracts = [demo_route]" by (simp add: demo_contracts_def)
  moreover have "dispatched demo_boundary_state = []" by (simp add: demo_boundary_state_def)
  ultimately show ?thesis
    using mcp_dispatch_is_authorized [OF demo_mcp] by (auto simp: demo_mcp)
qed

text \<open>
  C17.  Path templates, for templates whose parameters have different names and are followed by a slash
  or the end: a path matches with certain parameter values exactly when it is the template with these
  values in place of the parameters, each non-empty and without a slash -- except that a match
  tolerates a final newline.
\<close>

theorem path_template_exact:
  assumes "separated (template_tokens template)" and "distinct (param_names (template_tokens template))"
  shows "(\<forall>vs. list_all segment vs \<longrightarrow>
        render_groups (template_tokens template) vs = Some (chars_of path) \<longrightarrow>
        match_path_template template path =
          Some (zip (param_names (template_tokens template)) (map (JStr \<circ> concat) vs))) \<and>
    (\<forall>d. match_path_template template path = Some d \<longrightarrow>
      (\<exists>vs tail. d = zip (param_names (template_tokens template)) (map (JStr \<circ> concat) vs) \<and>
        list_all segment vs \<and> tail \<in> {[], [[char_of (10 :: nat)]]} \<and>
        map_option (\<lambda>r. r @ tail) (render_groups (template_tokens template) vs) = Some (chars_of path)))"
proof -
  let ?ts = "template_tokens template"
  have match: "match_path_template template path =
      map_option (\<lambda>vals. zip (param_names ?ts) (map JStr vals)) (match_tokens ?ts (chars_of path))"
    using fold_update_distinct [OF assms(2), of "[]" JStr]
    by (simp add: match_path_template_def Let_def split: option.split)
  show ?thesis
  proof (intro conjI allI impI)
    fix vs assume "list_all segment vs" "render_groups ?ts vs = Some (chars_of path)"
    from match_tokens_complete [OF assms(1) this]
    show "match_path_template template path = Some (zip (param_names ?ts) (map (JStr \<circ> concat) vs))"
      by (simp add: match)
  next
    fix d assume "match_path_template template path = Some d"
    then obtain vals where "match_tokens ?ts (chars_of path) = Some vals"
      and d: "d = zip (param_names ?ts) (map JStr vals)" by (auto simp: match)
    from match_tokens_sound [OF this(1)] obtain vs tail where "vals = map concat vs"
      "list_all segment vs" "tail \<in> {[], [[char_of (10 :: nat)]]}"
      "map_option (\<lambda>r. r @ tail) (render_groups ?ts vs) = Some (chars_of path)" by blast
    moreover from this(1) have "d = zip (param_names ?ts) (map (JStr \<circ> concat) vs)"
      by (simp add: d)
    ultimately show
      "\<exists>vs tail. d = zip (param_names ?ts) (map (JStr \<circ> concat) vs) \<and> list_all segment vs \<and>
        tail \<in> {[], [[char_of (10 :: nat)]]} \<and>
        map_option (\<lambda>r. r @ tail) (render_groups ?ts vs) = Some (chars_of path)"
      by blast
  qed
qed

lemma path_template_exact_witness:
  "match_path_template ''/workspaces/{workspace_id}/runs'' ''/workspaces/w1/runs'' =
     Some [(''workspace_id'', JStr ''w1'')]"
proof -
  let ?t = "''/workspaces/{workspace_id}/runs''"
  have "separated (template_tokens ?t)" "distinct (param_names (template_tokens ?t))"
    and names: "param_names (template_tokens ?t) = [''workspace_id'']" by code_simp+
  note exact = path_template_exact [OF this(1,2), of "''/workspaces/w1/runs''"]
  have "list_all segment [[''w'', ''1'']]"
    and "render_groups (template_tokens ?t) [[''w'', ''1'']] = Some (chars_of ''/workspaces/w1/runs'')"
    by code_simp+
  with exact have "match_path_template ?t ''/workspaces/w1/runs'' =
      Some (zip [''workspace_id''] (map (JStr \<circ> concat) [[''w'', ''1'']]))"
    unfolding names by blast
  then show ?thesis by simp
qed

text \<open>
  The work-list computation of a cursor's nesting agrees with the recursive depth up to the bound:
  it exceeds 64 exactly when the depth does, and below that it is the depth.
\<close>

theorem json_nesting_is_depth:
  "(64 < json_nesting v \<longleftrightarrow> 64 < json_depth v) \<and> (json_nesting v \<le> 64 \<longrightarrow> json_nesting v = json_depth v)"
  using json_nesting_le [of v] json_nesting_eq [of v] by auto

lemma json_nesting_is_depth_witness: "json_nesting (JArr [JObj [(''a'', JNull)]]) = 2"
proof -
  have "json_nesting (JArr [JObj [(''a'', JNull)]]) \<le> 64" by code_simp
  then show ?thesis using json_nesting_is_depth [of "JArr [JObj [(''a'', JNull)]]"] by simp
qed

end
