(* ===== verification/Composition.thy ===== *)
theory Composition
  imports PyText "HOL-Library.Code_Target_Numeral"
begin

text \<open>
  The composition root of cpk-server (\<open>cpk_server/composition.py\<close>): the process configuration,
  the process-local state and the contracts the server is built from.

  The contract classes of \<open>control_plane_kit_core\<close> are not part of the repository: the handoff is
  the record of the arguments the code passes to them, the enumeration of service roles is a
  parameter, and a keyword argument the code leaves out is \<open>None\<close>.
\<close>

datatype composition_error = CompositionError string | UnknownTargetError string

section \<open>Configuration\<close>

record process_configuration =
  execution_enabled :: bool
  authentication_required :: bool
  cfg_mode :: string

definition make_configuration ::
  "bool \<Rightarrow> bool \<Rightarrow> string \<Rightarrow> composition_error + process_configuration" where
  "make_configuration execution authentication mode =
     (if mode \<notin> {''execution-capable'', ''local-read-only''}
      then Inl (CompositionError ''unknown cpk-server mode'')
      else if execution \<and> \<not> authentication
      then Inl (CompositionError ''execution-capable composition requires authentication'')
      else Inr \<lparr>execution_enabled = execution, authentication_required = authentication, cfg_mode = mode\<rparr>)"

definition execution_capable :: "bool \<Rightarrow> composition_error + process_configuration" where
  "execution_capable authentication = make_configuration True authentication ''execution-capable''"

definition local_read_only :: "composition_error + process_configuration" where
  "local_read_only = make_configuration False False ''local-read-only''"

definition configuration_descriptor :: "process_configuration \<Rightarrow> dict" where
  "configuration_descriptor c =
     [(''mode'', JStr (cfg_mode c)), (''execution_enabled'', JBool (execution_enabled c)),
      (''authentication_required'', JBool (authentication_required c))]"

section \<open>Identities\<close>

definition identity_char :: "char \<Rightarrow> bool" where
  "identity_char c \<longleftrightarrow>
     byte_in 97 122 c \<or> byte_in 65 90 c \<or> byte_in 48 57 c \<or> c \<in> set ''-_.''"

definition identity_ok :: "string \<Rightarrow> bool" where
  "identity_ok s \<longleftrightarrow> s \<noteq> [] \<and> list_all identity_char s"

definition validate_identity :: "string \<Rightarrow> string \<Rightarrow> composition_error + unit" where
  "validate_identity s label =
     (if s = [] then Inl (CompositionError (label @ '' must be non-empty text''))
      else if \<not> list_all identity_char s
      then Inl (CompositionError (label @ '' has invalid characters''))
      else Inr ())"

fun validate_identities :: "string list \<Rightarrow> string \<Rightarrow> composition_error + unit" where
  "validate_identities [] label = Inr ()"
| "validate_identities (v # vs) label =
     bindE (validate_identity v label) (\<lambda>_. validate_identities vs label)"

section \<open>Observers\<close>

record observer_state =
  observer_id :: string
  descriptor_items :: "(string \<times> string) list"

text \<open>\<open>str(value)\<close> of a scalar; \<open>fr\<close> is the decimal text of a finite float.\<close>

definition scalar_text :: "(pyfloat \<Rightarrow> string) \<Rightarrow> json \<Rightarrow> string option" where
  "scalar_text fr v =
     (case v of
        JStr s \<Rightarrow> Some s
      | JInt i \<Rightarrow> Some (int_text i)
      | JBool b \<Rightarrow> Some (if b then ''True'' else ''False'')
      | JFloat f \<Rightarrow>
          Some (case f of NaN \<Rightarrow> ''nan'' | PosInf \<Rightarrow> ''inf'' | NegInf \<Rightarrow> ''-inf'' | _ \<Rightarrow> fr f)
      | _ \<Rightarrow> None)"

fun observer_items :: "(pyfloat \<Rightarrow> string) \<Rightarrow> dict \<Rightarrow> composition_error + (string \<times> string) list" where
  "observer_items fr [] = Inr []"
| "observer_items fr ((k, v) # rest) =
     bindE (validate_identity k ''observer descriptor key'') (\<lambda>_.
     case scalar_text fr v of
       None \<Rightarrow> Inl (CompositionError ''observer descriptor values must be bounded scalar values'')
     | Some t \<Rightarrow>
         if 256 < str_len t then Inl (CompositionError ''observer descriptor value is too large'')
         else bindE (observer_items fr rest) (\<lambda>ts. Inr ((k, t) # ts)))"

definition observer_from_mapping ::
  "(pyfloat \<Rightarrow> string) \<Rightarrow> string \<Rightarrow> dict \<Rightarrow> composition_error + observer_state" where
  "observer_from_mapping fr oid d =
     bindE (validate_identity oid ''observer_id'') (\<lambda>_.
     bindE (observer_items fr (sort_key fst d)) (\<lambda>items.
     Inr \<lparr>observer_id = oid, descriptor_items = items\<rparr>))"

definition observer_descriptor :: "observer_state \<Rightarrow> dict" where
  "observer_descriptor ob =
     [(''observer_id'', JStr (observer_id ob)),
      (''descriptor'', JObj (map (\<lambda>(k, v). (k, JStr v)) (descriptor_items ob)))]"

section \<open>Process state\<close>

definition GRAPH_TRUTH_POLICY :: string where
  "GRAPH_TRUTH_POLICY = ''process-state-never-owns-graph-truth''"

record process_state =
  targets :: "string list"
  active_target :: "string option"
  observers :: "observer_state list"
  graph_truth_policy :: string

text \<open>The constructor with its checks.\<close>

definition make_state ::
  "string list \<Rightarrow> string option \<Rightarrow> observer_state list \<Rightarrow> string \<Rightarrow> composition_error + process_state" where
  "make_state ts active obs policy =
     bindE (validate_identities ts ''targets'') (\<lambda>_.
     bindE (raise_if (length (remdups ts) \<noteq> length ts) (CompositionError ''targets must be unique'')) (\<lambda>_.
     bindE
       (case active of
          None \<Rightarrow> Inr ()
        | Some a \<Rightarrow>
            bindE (validate_identity a ''active_target'') (\<lambda>_.
            raise_if (a \<notin> set ts) (UnknownTargetError (''unknown target: '' @ a)))) (\<lambda>_.
     bindE (raise_if (policy \<noteq> GRAPH_TRUTH_POLICY)
              (CompositionError ''process state must not own graph truth'')) (\<lambda>_.
     Inr \<lparr>targets = ts, active_target = active, observers = obs, graph_truth_policy = policy\<rparr>))))"

definition record_observer ::
  "(pyfloat \<Rightarrow> string) \<Rightarrow> process_state \<Rightarrow> string \<Rightarrow> dict \<Rightarrow> composition_error + process_state" where
  "record_observer fr st oid d =
     bindE (observer_from_mapping fr oid d) (\<lambda>ob.
     make_state (targets st) (active_target st)
       (filter (\<lambda>item. observer_id item \<noteq> observer_id ob) (observers st) @ [ob]) GRAPH_TRUTH_POLICY)"

definition replace_targets :: "process_state \<Rightarrow> string list \<Rightarrow> composition_error + process_state" where
  "replace_targets st ts =
     (let active = (case active_target st of
                      None \<Rightarrow> None | Some a \<Rightarrow> if a \<in> set ts then Some a else None) in
      make_state ts active (observers st) GRAPH_TRUTH_POLICY)"

definition switch_active_target :: "process_state \<Rightarrow> string \<Rightarrow> composition_error + process_state" where
  "switch_active_target st target =
     bindE (validate_identity target ''target'') (\<lambda>_.
     if target \<notin> set (targets st) then Inl (UnknownTargetError (''unknown target: '' @ target))
     else make_state (targets st) (Some target) (observers st) GRAPH_TRUTH_POLICY)"

section \<open>Contracts\<close>

datatype service_role = READS | AUTHORIZATION | EXECUTION | OtherRole string

datatype participation = ReadOnly | NoStore | ReadWrite

datatype effect_policy = AfterCommit

record transaction_rule =
  tr_role :: service_role
  tr_participation :: participation
  tr_owns_transaction :: "bool option"
  tr_external_effects :: "effect_policy option"
  tr_uses_worker :: "bool option"
  tr_uses_runtime_authority :: "bool option"

definition transaction_rule :: "service_role \<Rightarrow> transaction_rule" where
  "transaction_rule role =
     (case role of
        READS \<Rightarrow>
          \<lparr>tr_role = role, tr_participation = ReadOnly, tr_owns_transaction = None,
           tr_external_effects = None, tr_uses_worker = None, tr_uses_runtime_authority = None\<rparr>
      | AUTHORIZATION \<Rightarrow>
          \<lparr>tr_role = role, tr_participation = NoStore, tr_owns_transaction = None,
           tr_external_effects = None, tr_uses_worker = None, tr_uses_runtime_authority = None\<rparr>
      | EXECUTION \<Rightarrow>
          \<lparr>tr_role = role, tr_participation = ReadWrite, tr_owns_transaction = Some True,
           tr_external_effects = Some AfterCommit, tr_uses_worker = Some True,
           tr_uses_runtime_authority = Some True\<rparr>
      | _ \<Rightarrow>
          \<lparr>tr_role = role, tr_participation = ReadWrite, tr_owns_transaction = Some True,
           tr_external_effects = None, tr_uses_worker = None, tr_uses_runtime_authority = None\<rparr>)"

record core_contracts =
  all_roles :: "service_role list"
  role_text :: "service_role \<Rightarrow> string"

definition program :: "core_contracts \<Rightarrow> (service_role \<times> string) list" where
  "program core = map (\<lambda>role. (role, role_text core role @ ''-service'')) (all_roles core)"

definition unit_of_work ::
  "core_contracts \<Rightarrow> (service_role \<times> string) list \<times> transaction_rule list" where
  "unit_of_work core = (program core, map transaction_rule (all_roles core))"

datatype readiness =
  STORE | RUNTIME_AUTHORITY | WORKER | HTTP_API | MCP_STREAMABLE_HTTP | OBSERVATION

text \<open>
  The arguments of \<open>canonical_cpk_server_entrypoint_handoff\<close>: the routes, the protocol and the
  parity contracts are built by functions of the core package from one another.
\<close>

record ('routes, 'mcp, 'parity, 'commands, 'security) core_builders =
  read_routes :: "'routes list"
  command_routes :: "'routes list"
  mcp_contract :: 'mcp
  projection_parity :: "'routes list \<Rightarrow> 'mcp \<Rightarrow> 'parity"
  command_parity ::
    "'routes list \<Rightarrow> 'mcp \<Rightarrow> (service_role \<times> string) list \<times> transaction_rule list \<Rightarrow> 'commands"
  security_parity :: "'parity \<Rightarrow> 'commands \<Rightarrow> 'security"

record ('routes, 'mcp, 'parity, 'commands, 'security) handoff =
  h_dependencies :: "readiness list"
  h_http_api :: "'routes list"
  h_mcp :: 'mcp
  h_program :: "(service_role \<times> string) list"
  h_unit_of_work :: "(service_role \<times> string) list \<times> transaction_rule list"
  h_projection_parity :: 'parity
  h_command_parity :: 'commands
  h_security_parity :: 'security

definition canonical_handoff ::
  "core_contracts \<Rightarrow> ('routes, 'mcp, 'parity, 'commands, 'security) core_builders \<Rightarrow>
   ('routes, 'mcp, 'parity, 'commands, 'security) handoff" where
  "canonical_handoff core b =
     (let http_api = read_routes b @ command_routes b;
          uow = unit_of_work core;
          projections = projection_parity b http_api (mcp_contract b);
          commands = command_parity b http_api (mcp_contract b) uow in
      \<lparr>h_dependencies = [STORE, RUNTIME_AUTHORITY, WORKER, HTTP_API, MCP_STREAMABLE_HTTP, OBSERVATION],
       h_http_api = http_api, h_mcp = mcp_contract b, h_program = program core, h_unit_of_work = uow,
       h_projection_parity = projections, h_command_parity = commands,
       h_security_parity = security_parity b projections commands\<rparr>)"

record 'h composition =
  co_configuration :: process_configuration
  co_handoff :: 'h
  co_process_state :: process_state
  command_identity_policy :: string

definition make_composition ::
  "process_configuration \<Rightarrow> 'h \<Rightarrow> process_state \<Rightarrow> string \<Rightarrow> composition_error + 'h composition" where
  "make_composition cfg h st policy =
     (if policy \<noteq> ''single-application-boundary''
      then Inl (CompositionError ''commands must pass through one application boundary'')
      else Inr \<lparr>co_configuration = cfg, co_handoff = h, co_process_state = st,
                command_identity_policy = policy\<rparr>)"

definition create_cpk_server_composition ::
  "core_contracts \<Rightarrow> ('routes, 'mcp, 'parity, 'commands, 'security) core_builders \<Rightarrow>
   process_configuration option \<Rightarrow>
   composition_error + ('routes, 'mcp, 'parity, 'commands, 'security) handoff composition" where
  "create_cpk_server_composition core b configuration =
     bindE (case configuration of Some c \<Rightarrow> Inr c | None \<Rightarrow> execution_capable True) (\<lambda>cfg.
     bindE (make_state [] None [] GRAPH_TRUTH_POLICY) (\<lambda>st.
     make_composition cfg (canonical_handoff core b) st ''single-application-boundary''))"

definition composition_descriptor :: "('h \<Rightarrow> json) \<Rightarrow> 'h composition \<Rightarrow> dict" where
  "composition_descriptor handoff_json co =
     [(''kind'', JStr ''cpk-server-composition''),
      (''configuration'', JObj (configuration_descriptor (co_configuration co))),
      (''handoff'', handoff_json (co_handoff co)),
      (''command_identity_policy'', JStr (command_identity_policy co)),
      (''process_state_policy'', JStr (graph_truth_policy (co_process_state co)))]"

section \<open>Lemmas\<close>

lemma validate_identity_Inr [simp]: "validate_identity s label = Inr u \<longleftrightarrow> identity_ok s"
  by (simp add: validate_identity_def identity_ok_def)

lemma validate_identities_Inr [simp]:
  "validate_identities vs label = Inr u \<longleftrightarrow> list_all identity_ok vs"
  by (induction vs) auto

text \<open>What the constructor accepts.\<close>

definition coherent :: "process_state \<Rightarrow> bool" where
  "coherent st \<longleftrightarrow>
     list_all identity_ok (targets st) \<and> distinct (targets st) \<and>
     (\<forall>a. active_target st = Some a \<longrightarrow> a \<in> set (targets st)) \<and>
     graph_truth_policy st = GRAPH_TRUTH_POLICY"

lemma make_state_Inr:
  "make_state ts active obs policy = Inr st \<longleftrightarrow>
     st = \<lparr>targets = ts, active_target = active, observers = obs, graph_truth_policy = policy\<rparr> \<and> coherent st"
proof -
  have "length (remdups ts) = length ts \<longleftrightarrow> distinct ts"
    using length_remdups_eq [of ts] by (simp add: remdups_id_iff_distinct)
  then show ?thesis
    by (auto simp: make_state_def coherent_def list_all_iff split: option.splits)
qed

lemma observer_from_mapping_id: "observer_from_mapping fr oid d = Inr ob \<Longrightarrow> observer_id ob = oid"
  by (auto simp: observer_from_mapping_def)


section \<open>The abstract process state\<close>

text \<open>
  What the state means: a set of targets, possibly one of them active, and the last evidence of each
  observer.  The operations of the specification are total where the code's are allowed.
\<close>

datatype process_operation = Observe string dict | Retarget "string list" | Activate string

definition run_operation ::
  "(pyfloat \<Rightarrow> string) \<Rightarrow> process_operation \<Rightarrow> process_state \<Rightarrow> composition_error + process_state" where
  "run_operation fr op st =
     (case op of
        Observe oid d \<Rightarrow> record_observer fr st oid d
      | Retarget ts \<Rightarrow> replace_targets st ts
      | Activate t \<Rightarrow> switch_active_target st t)"

record process_view =
  pv_targets :: "string set"
  pv_active :: "string option"
  pv_observers :: "string \<Rightarrow> (string \<times> string) list option"

definition observer_map :: "observer_state list \<Rightarrow> string \<Rightarrow> (string \<times> string) list option" where
  "observer_map obs = map_of (map (\<lambda>ob. (observer_id ob, descriptor_items ob)) obs)"

definition view_of :: "process_state \<Rightarrow> process_view" where
  "view_of st =
     \<lparr>pv_targets = set (targets st), pv_active = active_target st, pv_observers = observer_map (observers st)\<rparr>"

definition specified :: "(pyfloat \<Rightarrow> string) \<Rightarrow> process_operation \<Rightarrow> process_view \<Rightarrow> process_view option" where
  "specified fr op v =
     (case op of
        Observe oid d \<Rightarrow>
          (case observer_from_mapping fr oid d of
             Inl _ \<Rightarrow> None
           | Inr ob \<Rightarrow> Some (v\<lparr>pv_observers := (pv_observers v)(oid \<mapsto> descriptor_items ob)\<rparr>))
      | Retarget ts \<Rightarrow>
          if list_all identity_ok ts \<and> distinct ts
          then Some (v\<lparr>pv_targets := set ts,
                       pv_active := (case pv_active v of
                                       None \<Rightarrow> None | Some a \<Rightarrow> if a \<in> set ts then Some a else None)\<rparr>)
          else None
      | Activate t \<Rightarrow> if t \<in> pv_targets v then Some (v\<lparr>pv_active := Some t\<rparr>) else None)"

definition result_of :: "'e + 'a \<Rightarrow> 'a option" where
  "result_of r = (case r of Inl _ \<Rightarrow> None | Inr x \<Rightarrow> Some x)"

lemma result_of_simps [simp]: "result_of (Inl e) = None" "result_of (Inr x) = Some x"
  by (simp_all add: result_of_def)

lemma observer_map_replace:
  "observer_map (filter (\<lambda>item. observer_id item \<noteq> oid) obs @ [ob]) =
     (observer_map obs)(observer_id ob \<mapsto> descriptor_items ob)" if "observer_id ob = oid"
proof
  fix x
  show "observer_map (filter (\<lambda>item. observer_id item \<noteq> oid) obs @ [ob]) x =
      ((observer_map obs)(observer_id ob \<mapsto> descriptor_items ob)) x"
    using that by (induction obs) (auto simp: observer_map_def)
qed

text \<open>Each operation rebuilds the state through the constructor, with parts it knows to be valid.\<close>

lemma make_state_eq:
  "make_state ts active obs GRAPH_TRUTH_POLICY =
     Inr \<lparr>targets = ts, active_target = active, observers = obs, graph_truth_policy = GRAPH_TRUTH_POLICY\<rparr>"
  if "list_all identity_ok ts" and "distinct ts" and "\<forall>a. active = Some a \<longrightarrow> a \<in> set ts"
  unfolding make_state_Inr using that by (simp add: coherent_def)

lemma make_state_result:
  "result_of (make_state ts active obs GRAPH_TRUTH_POLICY) =
     (if list_all identity_ok ts \<and> distinct ts \<and> (\<forall>a. active = Some a \<longrightarrow> a \<in> set ts)
      then Some \<lparr>targets = ts, active_target = active, observers = obs,
                 graph_truth_policy = GRAPH_TRUTH_POLICY\<rparr>
      else None)"
proof (cases "make_state ts active obs GRAPH_TRUTH_POLICY")
  case (Inl e)
  then show ?thesis using make_state_eq [of ts active obs] by auto
next
  case (Inr st)
  then have "st = \<lparr>targets = ts, active_target = active, observers = obs,
      graph_truth_policy = GRAPH_TRUTH_POLICY\<rparr> \<and> coherent st"
    unfolding make_state_Inr .
  then show ?thesis unfolding Inr by (auto simp: coherent_def)
qed

lemma refines_observe:
  assumes "coherent st"
  shows "map_option view_of (result_of (record_observer fr st oid d)) = specified fr (Observe oid d) (view_of st)"
proof (cases "observer_from_mapping fr oid d")
  case (Inr ob)
  have "make_state (targets st) (active_target st)
      (filter (\<lambda>item. observer_id item \<noteq> oid) (observers st) @ [ob]) GRAPH_TRUTH_POLICY =
      Inr \<lparr>targets = targets st, active_target = active_target st,
           observers = filter (\<lambda>item. observer_id item \<noteq> oid) (observers st) @ [ob],
           graph_truth_policy = GRAPH_TRUTH_POLICY\<rparr>"
    using assms by (intro make_state_eq) (auto simp: coherent_def)
  then show ?thesis
    using Inr observer_from_mapping_id [OF Inr]
    by (simp add: record_observer_def specified_def view_of_def observer_map_replace)
qed (simp add: record_observer_def specified_def)

lemma refines_retarget:
  assumes "coherent st"
  shows "map_option view_of (result_of (replace_targets st ts)) = specified fr (Retarget ts) (view_of st)"
proof -
  define active where
    "active = (case active_target st of None \<Rightarrow> None | Some a \<Rightarrow> if a \<in> set ts then Some a else None)"
  have "\<forall>a. active = Some a \<longrightarrow> a \<in> set ts"
    by (auto simp: active_def split: option.splits)
  then show ?thesis
    by (simp add: replace_targets_def specified_def view_of_def make_state_result Let_def
        flip: active_def)
qed

lemma refines_activate:
  assumes "coherent st"
  shows "map_option view_of (result_of (switch_active_target st t)) = specified fr (Activate t) (view_of st)"
proof (cases "t \<in> set (targets st)")
  case True
  then have "identity_ok t" using assms by (auto simp: coherent_def list_all_iff)
  moreover have "make_state (targets st) (Some t) (observers st) GRAPH_TRUTH_POLICY =
      Inr \<lparr>targets = targets st, active_target = Some t, observers = observers st,
           graph_truth_policy = GRAPH_TRUTH_POLICY\<rparr>"
    using assms True by (intro make_state_eq) (auto simp: coherent_def)
  ultimately show ?thesis
    using True by (simp add: switch_active_target_def specified_def view_of_def validate_identity_def identity_ok_def)
next
  case False
  then show ?thesis
    by (simp add: switch_active_target_def specified_def view_of_def bindE_def split: sum.split)
qed

text \<open>The states a process can be in: constructed without observers, then changed by operations.\<close>

inductive process_reachable :: "(pyfloat \<Rightarrow> string) \<Rightarrow> process_state \<Rightarrow> bool" for fr where
  constructed: "make_state ts active [] policy = Inr st \<Longrightarrow> process_reachable fr st"
| operated: "process_reachable fr st \<Longrightarrow> run_operation fr op st = Inr st' \<Longrightarrow> process_reachable fr st'"

lemma run_operation_coherent: "run_operation fr op st = Inr st' \<Longrightarrow> coherent st'"
  by (auto simp: run_operation_def record_observer_def replace_targets_def switch_active_target_def
      make_state_Inr Let_def split: process_operation.splits if_splits)

lemma run_operation_observers:
  assumes "run_operation fr op st = Inr st'" and "distinct (map observer_id (observers st))"
  shows "distinct (map observer_id (observers st'))"
  using assms
  by (auto simp: run_operation_def record_observer_def replace_targets_def switch_active_target_def
      make_state_Inr Let_def distinct_map_filter split: process_operation.splits if_splits)

section \<open>Properties\<close>

text \<open>
  C18.  The process state implements its specification: on a state the constructor accepts, an operation
  succeeds exactly when the specification allows it, and its result stands for the specified one --
  recording evidence replaces that observer's, new targets drop an active target that is not among
  them, and only a present target becomes active.
\<close>

theorem process_state_refines:
  assumes "coherent st"
  shows "map_option view_of (result_of (run_operation fr op st)) = specified fr op (view_of st)"
  using refines_observe [OF assms] refines_retarget [OF assms] refines_activate [OF assms]
  by (cases op) (simp_all add: run_operation_def)

lemma process_state_refines_witness:
  "result_of (run_operation (\<lambda>_. []) (Activate ''b'')
     \<lparr>targets = [''a''], active_target = None, observers = [], graph_truth_policy = GRAPH_TRUTH_POLICY\<rparr>) = None"
proof -
  let ?st = "\<lparr>targets = [''a''], active_target = None, observers = [], graph_truth_policy = GRAPH_TRUTH_POLICY\<rparr>"
  have "identity_ok ''a''" by code_simp
  then have "coherent ?st" by (simp add: coherent_def)
  from process_state_refines [OF this, of "\<lambda>_. []" "Activate ''b''"] show ?thesis
    by (simp add: specified_def view_of_def)
qed

text \<open>
  In every state a process can reach the targets are distinct identities, the active target is one
  of them, each observer has at most one entry, and the process claims no graph truth.
\<close>

theorem process_state_invariant:
  assumes "process_reachable fr st"
  shows "coherent st \<and> distinct (map observer_id (observers st))"
  using assms
proof induction
  case (constructed ts active policy st)
  then show ?case by (auto simp: make_state_Inr)
next
  case (operated st op st')
  then show ?case using run_operation_coherent run_operation_observers by blast
qed

lemma process_state_invariant_witness:
  "distinct (map observer_id (observers
     \<lparr>targets = [''a''], active_target = None, observers = [\<lparr>observer_id = ''o'', descriptor_items = []\<rparr>],
      graph_truth_policy = GRAPH_TRUTH_POLICY\<rparr>))"
proof -
  let ?st = "\<lparr>targets = [''a''], active_target = None, observers = [], graph_truth_policy = GRAPH_TRUTH_POLICY\<rparr>"
  let ?st' = "?st\<lparr>observers := [\<lparr>observer_id = ''o'', descriptor_items = []\<rparr>]\<rparr>"
  have "make_state [''a''] None [] GRAPH_TRUTH_POLICY = Inr ?st"
    and "run_operation (\<lambda>_. []) (Observe ''o'' []) ?st = Inr ?st'" by code_simp+
  then have "process_reachable (\<lambda>_. []) ?st'"
    by (blast intro: process_reachable.intros)
  from process_state_invariant [OF this] show ?thesis by simp
qed

text \<open>
  Every composition the server builds gives each service role exactly one service and one
  transaction rule; only the execution role has external effects, after the commit of a transaction it
  owns; and a configuration that can execute requires authentication.
\<close>

theorem composition_contract:
  assumes "make_configuration execution authentication mode = Inr cfg"
    and "create_cpk_server_composition core b (Some cfg) = Inr co"
  shows "(execution_enabled (co_configuration co) \<longrightarrow> authentication_required (co_configuration co)) \<and>
    map fst (h_program (co_handoff co)) = all_roles core \<and>
    map tr_role (snd (h_unit_of_work (co_handoff co))) = all_roles core \<and>
    (\<forall>rule\<in>set (snd (h_unit_of_work (co_handoff co))).
       tr_external_effects rule \<noteq> None \<longrightarrow>
       tr_role rule = EXECUTION \<and> tr_external_effects rule = Some AfterCommit \<and>
       tr_owns_transaction rule = Some True)"
proof -
  have "tr_role (transaction_rule role) = role" for role
    by (simp add: transaction_rule_def split: service_role.split)
  moreover have "tr_external_effects (transaction_rule role) \<noteq> None \<longrightarrow>
      role = EXECUTION \<and> tr_external_effects (transaction_rule role) = Some AfterCommit \<and>
      tr_owns_transaction (transaction_rule role) = Some True" for role
    by (simp add: transaction_rule_def split: service_role.split)
  moreover have "co_configuration co = cfg" "co_handoff co = canonical_handoff core b"
    using assms(2) by (auto simp: create_cpk_server_composition_def make_composition_def)
  moreover have "execution_enabled cfg \<longrightarrow> authentication_required cfg"
    using assms(1) by (auto simp: make_configuration_def split: if_splits)
  ultimately show ?thesis
    by (simp add: canonical_handoff_def unit_of_work_def program_def comp_def Let_def)
qed

lemma composition_contract_witness:
  "\<exists>co. create_cpk_server_composition \<lparr>all_roles = [READS, EXECUTION], role_text = (\<lambda>_. ''r'')\<rparr>
      \<lparr>read_routes = [], command_routes = [()], mcp_contract = (), projection_parity = (\<lambda>_ _. ()),
       command_parity = (\<lambda>_ _ _. ()), security_parity = (\<lambda>_ _. ())\<rparr>
      (Some \<lparr>execution_enabled = True, authentication_required = True, cfg_mode = ''execution-capable''\<rparr>) = Inr co \<and>
    authentication_required (co_configuration co)"
proof -
  let ?core = "\<lparr>all_roles = [READS, EXECUTION], role_text = (\<lambda>_. ''r'')\<rparr>"
  let ?b = "\<lparr>read_routes = [], command_routes = [()], mcp_contract = (), projection_parity = (\<lambda>_ _. ()),
       command_parity = (\<lambda>_ _ _. ()), security_parity = (\<lambda>_ _. ())\<rparr>"
  let ?cfg = "\<lparr>execution_enabled = True, authentication_required = True, cfg_mode = ''execution-capable''\<rparr>"
  have cfg: "make_configuration True True ''execution-capable'' = Inr ?cfg" by code_simp
  obtain co where co: "create_cpk_server_composition ?core ?b (Some ?cfg) = Inr co"
    and "co_configuration co = ?cfg"
    by (auto simp: create_cpk_server_composition_def make_state_def make_composition_def)
  then show ?thesis using composition_contract [OF cfg co] by auto
qed

end
