(* ===== verification/Profile.thy ===== *)
theory Profile
  imports JournalStore PyText
begin

unbundle bit_operations_syntax

text \<open>
  The client profile (\<open>client/profile.py\<close>): a private document that names the endpoint, the
  workspace, a credential file per role and the state directory, and the credential files themselves.

  Paths are lists of components below the root, as in \<open>FileSystem\<close>.  \<open>json.loads\<close> without
  its hook is \<open>profile_json\<close>: repeated members are still in the value it returns.
\<close>

section \<open>Checks of values\<close>

definition PROFILE_SCHEMA :: string where "PROFILE_SCHEMA = ''cpk.client-profile.v1''"
definition MAXIMUM_PROFILE_BYTES :: nat where "MAXIMUM_PROFILE_BYTES = 65536"
definition MAXIMUM_CREDENTIAL_BYTES :: nat where "MAXIMUM_CREDENTIAL_BYTES = 16384"

definition CREDENTIAL_ROLES :: "string list" where
  "CREDENTIAL_ROLES = [''operator'', ''approver'', ''worker'']"

definition PROFILE_KEYS :: "string list" where
  "PROFILE_KEYS = [''schema'', ''endpoint'', ''workspace_id'', ''credentials'', ''state_directory'']"

definition alphanumeric :: "char \<Rightarrow> bool" where
  "alphanumeric c \<longleftrightarrow> byte_in 97 122 c \<or> byte_in 65 90 c \<or> byte_in 48 57 c"

text \<open>\<open>[A-Za-z0-9][A-Za-z0-9._-]{0,127}\<close>; a single or double dot does not match anyway.\<close>

definition is_safe_component :: "json \<Rightarrow> bool" where
  "is_safe_component v =
     (case v of
        JStr (c # cs) \<Rightarrow>
          c # cs \<notin> {''.'', ''..''} \<and> alphanumeric c \<and> length cs \<le> 127 \<and>
          list_all (\<lambda>d. alphanumeric d \<or> d \<in> set ''._-'') cs
      | _ \<Rightarrow> False)"

text \<open>
  \<open>_is_identity\<close>: the encoding of a text with a lone surrogate raises before the pattern is tried.
\<close>

definition is_identity :: "json \<Rightarrow> client_exn + bool" where
  "is_identity v =
     (case v of
        JStr s \<Rightarrow>
          (case utf8_encode s of
             None \<Rightarrow> Inl PyUnicodeEncodeError
           | Some b \<Rightarrow>
               Inr (b \<noteq> [] \<and> length b \<le> 200 \<and>
                    list_all (\<lambda>d. alphanumeric d \<or> d \<in> set ''._-'') s))
      | _ \<Rightarrow> Inr False)"

definition endpoint_error :: "client_exn + 'a" where
  "endpoint_error = Inl (ClientConfigurationError ''profile endpoint is invalid'')"

definition LOOPBACK :: "string list" where
  "LOOPBACK = [''localhost'', ''127.0.0.1'', ''::1'']"

text \<open>\<open>urlunsplit\<close> of a scheme, a network location and a path.\<close>

definition unsplit :: "string \<Rightarrow> string \<Rightarrow> string \<Rightarrow> string" where
  "unsplit scheme netloc path =
     scheme @ ''://'' @ netloc @ (if path \<noteq> [] \<and> hd path \<noteq> CHR ''/'' then ''/'' @ path else path)"

definition normalize_endpoint :: "url_library \<Rightarrow> json \<Rightarrow> client_exn + string" where
  "normalize_endpoint lib v =
     (case v of
        JStr s \<Rightarrow>
          if s = [] then endpoint_error
          else if utf8_encode s = None then Inl PyUnicodeEncodeError
          else if 2048 < length s then endpoint_error
          else
            (case urlsplit lib s of
               None \<Rightarrow> Inl PyValueError
             | Some u \<Rightarrow>
                 (case hostname u of
                    None \<Rightarrow> endpoint_error
                  | Some h \<Rightarrow>
                      if u_scheme u \<notin> {''http'', ''https''} then endpoint_error
                      else if fst (userinfo u) \<noteq> None \<or> snd (userinfo u) \<noteq> None then endpoint_error
                      else if u_query u \<noteq> [] \<or> u_fragment u \<noteq> [] then endpoint_error
                      else if u_scheme u = ''http'' \<and> h \<notin> set LOOPBACK
                        then Inl (ClientConfigurationError ''plaintext endpoint must be loopback'')
                      else
                        (let path = rstrip_char (CHR ''/'') (u_path u);
                             host = (if CHR '':'' \<in> set (lower h) then ''['' @ lower h @ '']'' else lower h) in
                         if path \<noteq> [] \<and> (\<not> starts_with ''/'' path \<or> ''..'' \<in> set (split_on (CHR ''/'') path))
                         then endpoint_error
                         else
                           (case port_of u of
                              Inl _ \<Rightarrow> endpoint_error
                            | Inr None \<Rightarrow> Inr (unsplit (u_scheme u) host path)
                            | Inr (Some n) \<Rightarrow> Inr (unsplit (u_scheme u) (host @ '':'' @ int_text n) path)))))
      | _ \<Rightarrow> endpoint_error)"

text \<open>
  \<open>Path(value)\<close>: empty and single-dot components disappear, a path is absolute when it begins with
  a slash.
\<close>

definition absolute_text :: "string \<Rightarrow> bool" where
  "absolute_text s \<longleftrightarrow> starts_with ''/'' s"

definition path_parts :: "string \<Rightarrow> path" where
  "path_parts s = filter (\<lambda>part. part \<noteq> [] \<and> part \<noteq> ''.'') (split_on (CHR ''/'') s)"

definition absolute_private_path :: "json \<Rightarrow> client_exn + path" where
  "absolute_private_path v =
     (case v of
        JStr s \<Rightarrow>
          if s = [] \<or> char_of (0 :: nat) \<in> set s \<or> \<not> absolute_text s \<or> ''..'' \<in> set (path_parts s)
          then Inl (ClientConfigurationError ''profile path is invalid'')
          else Inr (path_parts s)
      | _ \<Rightarrow> Inl (ClientConfigurationError ''profile path is invalid''))"

section \<open>The profile\<close>

record client_profile =
  endpoint :: string
  workspace_id :: string
  credentials :: "(string \<times> path) list"
  profile_state_directory :: path

text \<open>
  \<open>ClientProfile.__post_init__\<close>; that the paths are absolute is part of their representation.
\<close>

definition make_profile ::
  "url_library \<Rightarrow> string \<Rightarrow> json \<Rightarrow> (string \<times> path) list \<Rightarrow> path \<Rightarrow> client_exn + client_profile" where
  "make_profile lib e w creds dir =
     bindE (normalize_endpoint lib (JStr e)) (\<lambda>canonical.
     bindE (raise_if (canonical \<noteq> e) (ClientConfigurationError ''profile endpoint is not canonical'')) (\<lambda>_.
     bindE (is_identity w) (\<lambda>ok.
     case w of
       JStr wid \<Rightarrow>
         if \<not> ok then Inl (ClientConfigurationError ''profile workspace_id is invalid'')
         else if \<not> keys_are creds CREDENTIAL_ROLES
           then Inl (ClientConfigurationError ''profile credential roles are invalid'')
         else Inr \<lparr>endpoint = e, workspace_id = wid, credentials = creds, profile_state_directory = dir\<rparr>
     | _ \<Rightarrow> Inl (ClientConfigurationError ''profile workspace_id is invalid''))))"

text \<open>\<open>except (TypeError, ValueError)\<close>: a configuration error is a \<open>ValueError\<close>.\<close>

definition value_error :: "client_exn \<Rightarrow> bool" where
  "value_error e \<longleftrightarrow>
     (case e of
        ClientConfigurationError _ \<Rightarrow> True | PyUnicodeEncodeError \<Rightarrow> True | PyValueError \<Rightarrow> True
      | PyTypeError \<Rightarrow> True | _ \<Rightarrow> False)"

definition as_document_error :: "client_exn + 'a \<Rightarrow> client_exn + 'a" where
  "as_document_error r =
     (case r of
        Inl e \<Rightarrow> Inl (if value_error e then ClientConfigurationError ''profile document is invalid'' else e)
      | Inr x \<Rightarrow> Inr x)"

fun credential_paths :: "dict \<Rightarrow> client_exn + (string \<times> path) list" where
  "credential_paths [] = Inr []"
| "credential_paths ((role, v) # rest) =
     bindE (absolute_private_path v) (\<lambda>p.
     bindE (credential_paths rest) (\<lambda>ps. Inr ((role, p) # ps)))"

definition profile_of_document :: "url_library \<Rightarrow> json \<Rightarrow> client_exn + client_profile" where
  "profile_of_document lib value =
     (case value of
        JObj d \<Rightarrow>
          if \<not> keys_are d PROFILE_KEYS
          then Inl (ClientConfigurationError ''profile document is invalid'')
          else if get d ''schema'' \<noteq> JStr PROFILE_SCHEMA
          then Inl (ClientConfigurationError ''profile schema is unsupported'')
          else
            (case get d ''credentials'' of
               JObj creds \<Rightarrow>
                 if \<not> keys_are creds CREDENTIAL_ROLES
                 then Inl (ClientConfigurationError ''profile credential roles are invalid'')
                 else
                   bindE (as_document_error
                     (bindE (normalize_endpoint lib (get d ''endpoint'')) (\<lambda>e.
                      bindE (credential_paths creds) (\<lambda>ps.
                      bindE (absolute_private_path (get d ''state_directory'')) (\<lambda>dir. Inr (e, ps, dir))))))
                     (\<lambda>(e, ps, dir). make_profile lib e (get d ''workspace_id'') ps dir)
             | _ \<Rightarrow> Inl (ClientConfigurationError ''profile credential roles are invalid''))
      | _ \<Rightarrow> Inl (ClientConfigurationError ''profile document is invalid''))"

section \<open>Private files\<close>

definition configuration_error :: "string \<Rightarrow> (os, client_exn os_exn, 'a) action" where
  "configuration_error m = raise (Exn (ClientConfigurationError m))"

fun reject_profile_symlinks :: "os_env \<Rightarrow> path \<Rightarrow> path \<Rightarrow> unit disk" where
  "reject_profile_symlinks k done [] = ret ()"
| "reject_profile_symlinks k done (c # rest) =
     bindA (on_errno ENOENT (bindA (sys_lstat k (done @ [c])) (\<lambda>i. ret (Some i))) (ret None)) (\<lambda>info.
     case info of
       Some i \<Rightarrow>
         (case st_kind i of
            Symlink _ \<Rightarrow> configuration_error ''private path contains a symlink''
          | _ \<Rightarrow> reject_profile_symlinks k (done @ [c]) rest)
     | None \<Rightarrow> reject_profile_symlinks k (done @ [c]) rest)"

definition safe_private_file :: "os_env \<Rightarrow> nat \<Rightarrow> stat \<Rightarrow> bool" where
  "safe_private_file k maximum i \<longleftrightarrow>
     st_kind i = Regular \<and> st_uid i = my_uid k \<and> st_mode i AND 63 = 0 \<and> st_size i \<le> maximum"

definition read_private_regular :: "os_env \<Rightarrow> path \<Rightarrow> nat \<Rightarrow> string disk" where
  "read_private_regular k p maximum =
     thenA (reject_profile_symlinks k [] p)
       (bindA
         (tryA (sys_open k False p)
           (\<lambda>e. case e of OSErr _ \<Rightarrow> configuration_error ''private file is unavailable'' | _ \<Rightarrow> raise e)) (\<lambda>d.
        finallyA
          (bindA (sys_fstat k d) (\<lambda>i.
           if \<not> safe_private_file k maximum i then configuration_error ''private file is unsafe''
           else
             bindA (read_chunks k d 0 (maximum + 1)) (\<lambda>raw.
             if maximum < length raw then configuration_error ''private file is too large'' else ret raw)))
          (sys_close k d)))"

record profile_env =
  pf_kernel :: os_env
  pf_url :: url_library
  pf_json :: "string \<Rightarrow> json option"
  xdg_config_home :: "string option"
  home :: path

definition default_config_home :: "profile_env \<Rightarrow> path" where
  "default_config_home env =
     (case xdg_config_home env of
        Some s \<Rightarrow> if s \<noteq> [] \<and> absolute_text s then path_parts s else home env @ [''.config'']
      | None \<Rightarrow> home env @ [''.config''])"

definition load_profile :: "profile_env \<Rightarrow> string \<Rightarrow> client_profile disk" where
  "load_profile env name =
     (if \<not> is_safe_component (JStr name) then configuration_error ''profile name is invalid''
      else
        bindA (read_private_regular (pf_kernel env)
                 (default_config_home env @ [''cpk'', ''profiles'', name @ ''.json'']) MAXIMUM_PROFILE_BYTES) (\<lambda>raw.
        case Option.bind (utf8_decode raw) (pf_json env) of
          None \<Rightarrow> configuration_error ''profile document is invalid''
        | Some v \<Rightarrow>
            if \<not> unique_members v then configuration_error ''profile document is invalid''
            else lift_exn (profile_of_document (pf_url env) v)))"

text \<open>\<open>ClientProfile.credential\<close>.\<close>

definition read_credential :: "os_env \<Rightarrow> client_profile \<Rightarrow> string \<Rightarrow> string disk" where
  "read_credential k p role =
     (case map_of (credentials p) role of
        None \<Rightarrow> configuration_error ''credential role is unavailable''
      | Some file \<Rightarrow>
          bindA (read_private_regular k file MAXIMUM_CREDENTIAL_BYTES) (\<lambda>b.
          if \<not> is_ascii b \<or> b = [] \<or> list_ex is_space (chars_of b)
          then configuration_error ''credential is invalid''
          else ret b))"

definition target_digest :: "(string \<Rightarrow> string) \<Rightarrow> client_profile \<Rightarrow> string" where
  "target_digest digest_of p = digest_of (endpoint p)"

end
