(* ===== verification/Transport.thy ===== *)
theory Transport
  imports Profile Boundary
begin

text \<open>
  The authenticated HTTP transport of the client (\<open>client/transport.py\<close>).

  Routes are the same contracts the server's boundary is built from.  The network is the function
  \<open>exchange\<close>: a status and a body, or one of the failures of \<open>urllib\<close>.  \<open>outgoing\<close>
  records the requests in the order they are sent; it is a history variable of the model.
\<close>

section \<open>Requests\<close>

record http_request =
  hr_method :: string
  hr_url :: string
  hr_body :: "string option"
  hr_headers :: "(string \<times> string) list"

text \<open>
  \<open>Unreachable\<close> is an \<open>OSError\<close> (\<open>URLError\<close> and \<open>TimeoutError\<close> are),
  \<open>Garbled\<close> an \<open>http.client.HTTPException\<close>.
\<close>

datatype network_failure = Unreachable | Garbled

record ('r, 'n) transport_env =
  tr_kernel :: os_env
  tr_profile :: client_profile
  tr_routes :: "'r route list"
  tr_json :: json_library
  tr_float :: "pyfloat \<Rightarrow> string"
  exchange :: "http_request \<Rightarrow> 'n \<Rightarrow> (network_failure + nat \<times> string) \<times> 'n"

record 'n transport_state =
  tr_os :: os
  tr_network :: 'n
  outgoing :: "http_request list"

type_synonym ('n, 'a) transport_action = "('n transport_state, client_exn, 'a) action"

definition MAXIMUM_RESPONSE_BYTES :: nat where "MAXIMUM_RESPONSE_BYTES = 1048576"

definition transport_error :: client_exn where
  "transport_error = ClientTransportError ''cpk-server request could not be verified''"

definition invalid_response :: client_exn where
  "invalid_response = ClientTransportError ''cpk-server response is invalid''"

text \<open>\<open>PublicHttpTransport.__init__\<close>: later routes with the same id win.\<close>

definition find_route :: "'r route list \<Rightarrow> string \<Rightarrow> 'r route option" where
  "find_route rs rid = List.find (\<lambda>r. route_id r = rid) (rev rs)"

text \<open>\<open>s.replace(old, new)\<close> for a non-empty \<open>old\<close>.\<close>

function replace_all :: "string \<Rightarrow> string \<Rightarrow> string \<Rightarrow> string" where
  "replace_all old new [] = []"
| "replace_all old new (c # cs) =
     (if old \<noteq> [] \<and> starts_with old (c # cs)
      then new @ replace_all old new (drop (length old) (c # cs))
      else c # replace_all old new cs)"
  by pat_completeness auto
termination by (relation "measure (\<lambda>(_, _, s). length s)") auto

fun fill_path :: "string \<Rightarrow> dict \<Rightarrow> client_exn + string" where
  "fill_path path [] = Inr path"
| "fill_path path ((name, v) # rest) =
     (case v of
        JStr s \<Rightarrow>
          if s = [] then Inl (ClientTransportError ''public route coordinate is invalid'')
          else
            (case utf8_encode s of
               None \<Rightarrow> Inl PyUnicodeEncodeError
             | Some b \<Rightarrow> fill_path (replace_all (''{'' @ name @ ''}'') (quote b) path) rest)
      | _ \<Rightarrow> Inl (ClientTransportError ''public route coordinate is invalid''))"

definition request_path :: "'r route \<Rightarrow> dict \<Rightarrow> client_exn + string" where
  "request_path r params =
     bindE (fill_path (path_template r) params) (\<lambda>path.
     if CHR ''{'' \<in> set path \<or> CHR ''}'' \<in> set path
     then Inl (ClientTransportError ''public route coordinate is missing'') else Inr path)"

text \<open>The query: \<open>urlencode\<close> of the encoded members, in order.\<close>

definition query_text :: "(pyfloat \<Rightarrow> string) \<Rightarrow> string \<times> json \<Rightarrow> string" where
  "query_text fr m =
     (case snd m of
        JInt i \<Rightarrow> if fst m = ''limit'' then int_text i else dump fr (canon (snd m))
      | _ \<Rightarrow> dump fr (canon (snd m)))"

fun join_with :: "string \<Rightarrow> string list \<Rightarrow> string" where
  "join_with sep [] = []"
| "join_with sep [x] = x"
| "join_with sep (x # y # xs) = x @ sep @ join_with sep (y # xs)"

definition urlencode_query :: "(pyfloat \<Rightarrow> string) \<Rightarrow> dict \<Rightarrow> string" where
  "urlencode_query fr data =
     join_with ''&'' (map (\<lambda>m. quote_plus (fst m) @ ''='' @ quote_plus (query_text fr m)) data)"

definition request_data ::
  "(pyfloat \<Rightarrow> string) \<Rightarrow> 'r route \<Rightarrow> string \<Rightarrow> dict \<Rightarrow> client_exn + string \<times> string option" where
  "request_data fr r url data =
     (if route_method r = ''GET'' then
        (if data = [] then Inr (url, None)
         else if list_ex (\<lambda>(k, _). utf8_encode k = None) data then Inl PyUnicodeEncodeError
         else Inr (url @ ''?'' @ urlencode_query fr data, None))
      else
        (case json_dumps fr (JObj data) of
           None \<Rightarrow> Inl (ClientTransportError ''public request is invalid'')
         | Some raw \<Rightarrow>
             if max_bytes r < length raw
             then Inl (ClientTransportError ''public request exceeds its contract'')
             else Inr (url, Some raw)))"

definition build_request :: "'r route \<Rightarrow> string \<Rightarrow> string option \<Rightarrow> string \<Rightarrow> http_request" where
  "build_request r url body credential =
     \<lparr>hr_method = route_method r, hr_url = url, hr_body = body,
      hr_headers =
        [(''Accept'', ''application/json''), (''Authorization'', ''Bearer '' @ credential)] @
        (if body = None then [] else [(''Content-Type'', ''application/json'')])\<rparr>"

section \<open>The call\<close>

text \<open>
  \<open>opener.open\<close> and \<open>read\<close>: outside 200--299 -- redirections included, which the handler
  declines -- \<open>urllib\<close> raises \<open>HTTPError\<close>.
\<close>

definition send_request ::
  "('r, 'n) transport_env \<Rightarrow> http_request \<Rightarrow> ('n, string) transport_action" where
  "send_request env rq = (\<lambda>s.
     case exchange env rq (tr_network s) of
       (r, n) \<Rightarrow>
         (case r of
            Inl Unreachable \<Rightarrow> Inl transport_error
          | Inl Garbled \<Rightarrow> Inl PyHTTPException
          | Inr (status, body) \<Rightarrow>
              if 200 \<le> status \<and> status < 300 then Inr (take (MAXIMUM_RESPONSE_BYTES + 1) body)
              else if status \<in> {401, 403} then Inl ClientAuthorizationError
              else Inl transport_error,
          s\<lparr>tr_network := n, outgoing := outgoing s @ [rq]\<rparr>))"

definition decode_response :: "json_library \<Rightarrow> string \<Rightarrow> client_exn + dict" where
  "decode_response lib raw =
     (if MAXIMUM_RESPONSE_BYTES < length raw
      then Inl (ClientTransportError ''cpk-server response exceeds the client bound'')
      else case Option.bind (utf8_decode raw) (raw_loads lib) of
        None \<Rightarrow> Inl invalid_response
      | Some v \<Rightarrow>
          if \<not> unique_members v then Inl invalid_response
          else (case v of JObj d \<Rightarrow> Inr d | _ \<Rightarrow> Inl invalid_response))"

definition with_os :: "'a disk \<Rightarrow> ('n, 'a) transport_action" where
  "with_os m = (\<lambda>s.
     case m (tr_os s) of
       (Inl (OSErr _), o') \<Rightarrow> (Inl PyOSError, s\<lparr>tr_os := o'\<rparr>)
     | (Inl (Exn e), o') \<Rightarrow> (Inl e, s\<lparr>tr_os := o'\<rparr>)
     | (Inr x, o') \<Rightarrow> (Inr x, s\<lparr>tr_os := o'\<rparr>))"

definition transport_call ::
  "('r, 'n) transport_env \<Rightarrow> string \<Rightarrow> dict \<Rightarrow> dict \<Rightarrow> string \<Rightarrow> ('n, dict) transport_action" where
  "transport_call env rid params data role =
     (case find_route (tr_routes env) rid of
        None \<Rightarrow> raise (ClientTransportError ''public route is unsupported'')
      | Some r \<Rightarrow>
          bindA (liftE (request_path r params)) (\<lambda>path.
          bindA (liftE (request_data (tr_float env) r (endpoint (tr_profile env) @ path) data)) (\<lambda>(url, body).
          bindA (with_os (read_credential (tr_kernel env) (tr_profile env) role)) (\<lambda>credential.
          bindA (send_request env (build_request r url body credential)) (\<lambda>raw.
          liftE (decode_response (tr_json env) raw))))))"

end
