(* ===== verification/TransportProperties.thy ===== *)
theory TransportProperties
  imports Transport BoundaryProperties JournalDisk JournalLocks
begin

text \<open>
  The properties of the client's transport and profile, some of them together with the server's
  boundary: credentials go to the endpoint only, the paths the client builds are the paths the server
  matches, and the queries it builds are the ones the server reads.
\<close>

section \<open>The endpoint of a profile\<close>

definition safe_endpoint :: "url_library \<Rightarrow> string \<Rightarrow> bool" where
  "safe_endpoint lib e \<longleftrightarrow>
     (\<exists>u h. urlsplit lib e = Some u \<and> hostname u = Some h \<and>
        (u_scheme u = ''https'' \<or> u_scheme u = ''http'' \<and> h \<in> set LOOPBACK) \<and>
        userinfo u = (None, None) \<and> u_query u = [] \<and> u_fragment u = [])"

lemma normalize_endpoint_safe:
  assumes "normalize_endpoint lib (JStr e) = Inr e'"
  shows "safe_endpoint lib e"
proof -
  obtain u h where uh: "urlsplit lib e = Some u" "hostname u = Some h"
    using assms by (auto simp: normalize_endpoint_def endpoint_error_def split: option.splits if_splits)
  then have "u_scheme u \<in> {''http'', ''https''} \<and> fst (userinfo u) = None \<and> snd (userinfo u) = None \<and>
      u_query u = [] \<and> u_fragment u = [] \<and> \<not> (u_scheme u = ''http'' \<and> h \<notin> set LOOPBACK)"
    using assms by (auto simp: normalize_endpoint_def endpoint_error_def split: if_splits)
  then show ?thesis
    using uh unfolding safe_endpoint_def by (metis insertE empty_iff prod.collapse)
qed

lemma hostname_netloc: "hostname u = Some h \<Longrightarrow> u_netloc u \<noteq> []"
  by (auto simp: hostname_def hostinfo_def split_last_def)

lemma make_profile_safe: "make_profile lib e w creds dir = Inr p \<Longrightarrow> endpoint p = e \<and> safe_endpoint lib e"
  by (cases w) (auto simp: make_profile_def split: if_splits dest: normalize_endpoint_safe)

section \<open>Paths\<close>

lemma replace_all_head:
  assumes "c \<noteq> d"
  shows "replace_all (d # old) new (c # cs) = c # replace_all (d # old) new cs"
  using assms by (simp add: starts_with_def)

lemma fill_path_head:
  "fill_path (CHR ''/'' # cs) params = Inr path \<Longrightarrow> \<exists>rest. path = CHR ''/'' # rest"
proof (induction params arbitrary: cs)
  case (Cons p params)
  obtain name v where p: "p = (name, v)" by (cases p)
  then obtain b where "fill_path (replace_all (CHR ''{'' # name @ ''}'') (quote b) (CHR ''/'' # cs)) params = Inr path"
    using Cons.prems by (auto split: json.splits if_splits option.splits)
  then show ?case
    using Cons.IH replace_all_head [of "CHR ''/''" "CHR ''{''"] by auto
qed auto

definition tokens_text :: "token list \<Rightarrow> string" where
  "tokens_text ts = concat (map (\<lambda>t. case t of Lit c \<Rightarrow> [c] | Param n \<Rightarrow> ''{'' @ n @ ''}'') ts)"

lemma tokens_text_simps [simp]:
  "tokens_text [] = []" "tokens_text (Lit c # ts) = c # tokens_text ts"
  "tokens_text (Param n # ts) = ''{'' @ n @ ''}'' @ tokens_text ts"
  by (simp_all add: tokens_text_def)

lemma tokens_text_template: "tokens_text (template_tokens s) = s"
proof (induction s rule: template_tokens.induct)
  case (2 c cs)
  define name where "name = takeWhile name_char cs"
  define rest where "rest = dropWhile name_char cs"
  have cs: "cs = name @ rest" by (simp add: name_def rest_def)
  show ?case
  proof (cases "c = CHR ''{'' \<and> name \<noteq> [] \<and> name_start (hd name) \<and> starts_with ''}'' rest")
    case True
    then obtain t where t: "rest = CHR ''}'' # t" by (auto simp: starts_with_iff)
    have "template_tokens (c # cs) = Param name # template_tokens (tl rest)"
      using True by (simp add: name_def rest_def Let_def)
    moreover have "tokens_text (template_tokens (tl rest)) = tl rest"
      using "2.IH"(1) True by (simp add: name_def rest_def)
    ultimately show ?thesis using True t cs by simp
  next
    case False
    then have "template_tokens (c # cs) = Lit c # template_tokens cs"
      by (auto simp: name_def rest_def Let_def)
    moreover have "tokens_text (template_tokens cs) = cs"
      using "2.IH"(2) False by (auto simp: name_def rest_def)
    ultimately show ?thesis by simp
  qed
qed simp

text \<open>Templates whose literal characters are ASCII and no braces.\<close>

definition plain_tokens :: "token list \<Rightarrow> bool" where
  "plain_tokens ts \<longleftrightarrow>
     list_all (\<lambda>t. case t of
        Lit c \<Rightarrow> c \<noteq> CHR ''{'' \<and> c \<noteq> CHR ''}'' \<and> byte_of c < 128
      | Param n \<Rightarrow> CHR ''{'' \<notin> set n \<and> CHR ''}'' \<notin> set n) ts"

lemma plain_tokens_simps [simp]:
  "plain_tokens []"
  "plain_tokens (Lit c # ts) \<longleftrightarrow> c \<noteq> CHR ''{'' \<and> c \<noteq> CHR ''}'' \<and> byte_of c < 128 \<and> plain_tokens ts"
  "plain_tokens (Param n # ts) \<longleftrightarrow> CHR ''{'' \<notin> set n \<and> CHR ''}'' \<notin> set n \<and> plain_tokens ts"
  "plain_tokens (ts @ us) \<longleftrightarrow> plain_tokens ts \<and> plain_tokens us"
  by (auto simp: plain_tokens_def)

definition subst_token :: "string \<Rightarrow> string \<Rightarrow> token \<Rightarrow> token list" where
  "subst_token n v t = (case t of Lit c \<Rightarrow> [Lit c] | Param m \<Rightarrow> if m = n then map Lit v else [Param m])"

definition subst_tokens :: "string \<Rightarrow> string \<Rightarrow> token list \<Rightarrow> token list" where
  "subst_tokens n v ts = concat (map (subst_token n v) ts)"

lemma subst_tokens_simps [simp]:
  "subst_tokens n v [] = []" "subst_tokens n v (t # ts) = subst_token n v t @ subst_tokens n v ts"
  by (simp_all add: subst_tokens_def)

lemma tokens_text_append [simp]: "tokens_text (ts @ us) = tokens_text ts @ tokens_text us"
  by (simp add: tokens_text_def)

lemma tokens_text_literal [simp]: "tokens_text (map Lit v) = v"
  by (induction v) auto

lemma replace_all_skip:
  "d \<notin> set xs \<Longrightarrow> replace_all (d # old) new (xs @ ys) = xs @ replace_all (d # old) new ys"
  by (induction xs) (auto simp: starts_with_def)

lemma replace_param:
  assumes "plain_tokens ts" and n: "CHR ''}'' \<notin> set n"
  shows "replace_all (''{'' @ n @ ''}'') v (tokens_text ts) = tokens_text (subst_tokens n v ts)"
  using assms(1)
proof (induction ts)
  case (Cons t ts)
  show ?case
  proof (cases t)
    case (Lit c)
    then show ?thesis using Cons by (simp add: subst_token_def starts_with_def)
  next
    case (Param m)
    show ?thesis
    proof (cases "m = n")
      case True
      have "starts_with (CHR ''{'' # n @ ''}'') (CHR ''{'' # n @ CHR ''}'' # tokens_text ts)"
        by (auto simp: starts_with_iff)
      then show ?thesis using Cons Param True by (simp add: subst_token_def)
    next
      case False
      have "\<not> starts_with (CHR ''{'' # n @ ''}'') (CHR ''{'' # m @ CHR ''}'' # tokens_text ts)"
      proof
        assume "starts_with (CHR ''{'' # n @ ''}'') (CHR ''{'' # m @ CHR ''}'' # tokens_text ts)"
        then obtain t where "m @ CHR ''}'' # tokens_text ts = n @ CHR ''}'' # t"
          by (auto simp: starts_with_iff)
        then have "split_once (CHR ''}'') (m @ CHR ''}'' # tokens_text ts) = Some (n, t)"
          using split_once_at [OF n, of t] by simp
        then show False
          using split_once_at [of "CHR ''}''" m "tokens_text ts"] Cons.prems Param False by simp
      qed
      moreover have "replace_all (CHR ''{'' # n @ ''}'') v ((m @ ''}'') @ tokens_text ts) =
          (m @ ''}'') @ replace_all (CHR ''{'' # n @ ''}'') v (tokens_text ts)"
        using Cons.prems Param by (intro replace_all_skip) auto
      ultimately show ?thesis using Cons Param False by (simp add: subst_token_def)
    qed
  qed
qed simp


text \<open>The template with its parameters filled in.\<close>

definition fill_tokens :: "(string \<Rightarrow> string) \<Rightarrow> token list \<Rightarrow> string" where
  "fill_tokens f ts = concat (map (\<lambda>t. case t of Lit c \<Rightarrow> [c] | Param n \<Rightarrow> f n) ts)"

lemma fill_tokens_simps [simp]:
  "fill_tokens f [] = []" "fill_tokens f (Lit c # ts) = c # fill_tokens f ts"
  "fill_tokens f (Param n # ts) = f n @ fill_tokens f ts"
  "fill_tokens f (ts @ us) = fill_tokens f ts @ fill_tokens f us"
  by (simp_all add: fill_tokens_def)

lemma fill_tokens_literal [simp]: "fill_tokens f (map Lit v) = v"
  by (induction v) auto

lemma fill_subst: "fill_tokens f (subst_tokens n v ts) = fill_tokens (f(n := v)) ts"
proof (induction ts)
  case (Cons t ts)
  then show ?case by (cases t) (auto simp: subst_token_def)
qed simp

lemma tokens_text_fill: "tokens_text ts = fill_tokens (\<lambda>n. ''{'' @ n @ ''}'') ts"
proof (induction ts)
  case (Cons t ts)
  then show ?case by (cases t) auto
qed simp

text \<open>Coordinates that need no quoting, as every identity of the profile and the server is.\<close>

definition coordinate_text :: "json \<Rightarrow> bool" where
  "coordinate_text v \<longleftrightarrow> (\<exists>s. v = JStr s \<and> s \<noteq> [] \<and> list_all unreserved s)"

lemma unreserved_facts:
  assumes "unreserved c"
  shows "byte_of c < 128" "c \<noteq> CHR ''{''" "c \<noteq> CHR ''}''" "c \<noteq> CHR ''/''" "quote_byte c = [c]"
  using assms by (auto simp: unreserved_def byte_in_def byte_of_def quote_byte_def)

lemma quote_unreserved: "list_all unreserved s \<Longrightarrow> quote s = s"
  by (induction s) (auto simp: unreserved_facts)

lemma unreserved_ascii: "list_all unreserved s \<Longrightarrow> is_ascii s"
  by (auto simp: is_ascii_def list_all_iff unreserved_facts)

lemma plain_literal: "list_all unreserved v \<Longrightarrow> plain_tokens (map Lit v)"
  by (induction v) (auto simp: unreserved_facts)

lemma plain_subst: "plain_tokens ts \<Longrightarrow> list_all unreserved v \<Longrightarrow> plain_tokens (subst_tokens n v ts)"
proof (induction ts)
  case (Cons t ts)
  then show ?case by (cases t) (auto simp: subst_token_def plain_literal)
qed simp

lemma fill_path_tokens:
  assumes "plain_tokens ts" and "\<forall>(k, v)\<in>set params. coordinate_text v \<and> CHR ''}'' \<notin> set k"
  shows "fill_path (tokens_text ts) params =
    Inr (fill_tokens (\<lambda>n. case map_of params n of Some (JStr s) \<Rightarrow> s | _ \<Rightarrow> ''{'' @ n @ ''}'') ts)"
  using assms
proof (induction params arbitrary: ts)
  case Nil
  then show ?case by (simp add: tokens_text_fill)
next
  case (Cons p params)
  obtain k s where p: "p = (k, JStr s)" "s \<noteq> []" "list_all unreserved s" "CHR ''}'' \<notin> set k"
    using Cons.prems(2) by (cases p) (auto simp: coordinate_text_def)
  have "fill_path (tokens_text ts) (p # params) = fill_path (tokens_text (subst_tokens k s ts)) params"
    using p Cons.prems(1) has_surrogate_ascii [OF unreserved_ascii [OF p(3)]]
      replace_param [OF Cons.prems(1) p(4), of s]
    by (simp add: quote_unreserved utf8_encode_def)
  also have "\<dots> = Inr (fill_tokens
      (\<lambda>n. case map_of params n of Some (JStr s) \<Rightarrow> s | _ \<Rightarrow> ''{'' @ n @ ''}'') (subst_tokens k s ts))"
    using Cons.prems plain_subst [OF _ p(3)] by (intro Cons.IH) auto
  also have "\<dots> = Inr (fill_tokens
      (\<lambda>n. case map_of (p # params) n of Some (JStr s) \<Rightarrow> s | _ \<Rightarrow> ''{'' @ n @ ''}'') ts)"
    unfolding fill_subst using p by (auto intro!: arg_cong [where f = "\<lambda>f. fill_tokens f ts"])
  finally show ?case .
qed

text \<open>The filled template, as the server's matcher sees it.\<close>

lemma render_fill:
  assumes "plain_tokens ts" and "\<forall>n\<in>set (param_names ts). list_all unreserved (f n)"
  shows "render_groups ts (map (\<lambda>n. map (\<lambda>c. [c]) (f n)) (param_names ts)) = Some (chars_of (fill_tokens f ts))"
    and "is_ascii (fill_tokens f ts) \<and> CHR ''{'' \<notin> set (fill_tokens f ts) \<and> CHR ''}'' \<notin> set (fill_tokens f ts)"
proof -
  show ok: "is_ascii (fill_tokens f ts) \<and> CHR ''{'' \<notin> set (fill_tokens f ts) \<and> CHR ''}'' \<notin> set (fill_tokens f ts)"
    using assms
  proof (induction ts)
    case (Cons t ts)
    then show ?case
      by (cases t) (auto simp: is_ascii_def list_all_iff unreserved_facts dest: unreserved_facts)
  qed (simp add: is_ascii_def)
  have "render_groups ts (map (\<lambda>n. map (\<lambda>c. [c]) (f n)) (param_names ts)) =
      Some (map (\<lambda>c. [c]) (fill_tokens f ts))"
  proof (induction ts)
    case (Cons t ts)
    then show ?case by (cases t) auto
  qed simp
  then show "render_groups ts (map (\<lambda>n. map (\<lambda>c. [c]) (f n)) (param_names ts)) = Some (chars_of (fill_tokens f ts))"
    using ok by (simp add: chars_of_ascii)
qed


section \<open>Queries\<close>

lemma decimal_value_snoc:
  "decimal_value (s @ [c]) = 10 * decimal_value s + int (byte_of c - 48)"
  by (simp add: decimal_value_def)

lemma nat_text_decimal:
  "decimal_value (nat_text n) = int n \<and> list_all (byte_in 48 57) (nat_text n) \<and> nat_text n \<noteq> [] \<and>
   (0 < n \<longrightarrow> byte_in 49 57 (hd (nat_text n)))"
proof (induction n rule: nat_text.induct)
  case (1 n)
  have digit: "byte_of (char_of (48 + k) :: char) = 48 + k" if "k < 10" for k :: nat
    using that by (simp add: byte_of_def)
  show ?case
  proof (cases "n < 10")
    case True
    then have "nat_text n = [char_of (48 + n)]" by (simp add: nat_text.simps)
    then show ?thesis using True digit [of n] by (simp add: decimal_value_def byte_in_def)
  next
    case False
    then have "nat_text n = nat_text (n div 10) @ [char_of (48 + n mod 10)]"
      by (subst nat_text.simps) simp
    moreover have "10 * int (n div 10) + int (n mod 10) = int n" by presburger
    ultimately show ?thesis
      using 1 False digit [of "n mod 10"]
      by (auto simp: decimal_value_snoc byte_in_def hd_append)
  qed
qed

lemma limit_text:
  assumes "1 \<le> n"
  shows "limit_pattern (int_text n) \<and> decimal_value (int_text n) = n \<and>
    list_all (byte_in 48 57) (int_text n)"
proof -
  have t: "int_text n = nat_text (nat n)" using assms by (simp add: int_text_def)
  have "0 < nat n" using assms by simp
  then have "nat_text (nat n) \<noteq> []" "byte_in 49 57 (hd (nat_text (nat n)))"
    "list_all (byte_in 48 57) (nat_text (nat n))" "decimal_value (nat_text (nat n)) = n"
    using nat_text_decimal [of "nat n"] assms by auto
  then show ?thesis
    unfolding t limit_pattern_def by (cases "nat_text (nat n)") auto
qed

definition plus_for_space :: "string \<Rightarrow> string" where
  "plus_for_space s = map (\<lambda>c. if c = CHR '' '' then CHR ''+'' else c) s"

lemma percent_text_quote_plus:
  assumes "is_ascii s"
  shows "percent_text (quote_plus s) = Some (plus_for_space s)"
proof -
  have "is_ascii (plus_for_space s)"
    using assms by (auto simp: is_ascii_def plus_for_space_def list_all_iff byte_of_def)
  then show ?thesis
    using quote_plus_decode [of s "[]"]
    by (simp add: percent_text_def utf8_decode_def valid_utf8_ascii plus_for_space_def)
qed

lemma upper_hex_char: "upper_hex n \<noteq> CHR ''&'' \<and> upper_hex n \<noteq> CHR ''=''"
proof -
  have "hex_value (upper_hex (n mod 16)) = Some (n mod 16)" by (rule hex_value_upper_hex) simp
  moreover have "upper_hex n = upper_hex (n mod 16)" by (simp add: upper_hex_def)
  moreover have "hex_value (CHR ''&'') = None" "hex_value (CHR ''='') = None" by code_simp+
  ultimately show ?thesis by auto
qed

lemma quote_byte_char: "CHR ''&'' \<notin> set (quote_byte c) \<and> CHR ''='' \<notin> set (quote_byte c)"
proof -
  have "\<not> unreserved (CHR ''&'')" "\<not> unreserved (CHR ''='')" by code_simp+
  then show ?thesis
    using upper_hex_char [of "byte_of c div 16"] upper_hex_char [of "byte_of c"]
    by (auto simp: quote_byte_def)
qed

lemma quote_plus_chars: "CHR ''&'' \<notin> set (quote_plus s) \<and> CHR ''='' \<notin> set (quote_plus s)"
proof (induction s)
  case (Cons c s)
  then show ?case using quote_byte_char [of c] by simp
qed simp

lemma split_on_append: "d \<notin> set a \<Longrightarrow> split_on d (a @ d # b) = a # split_on d b"
  by (induction a) auto

lemma read_field_member:
  assumes "is_ascii name" and "is_ascii t"
  shows "read_field lib arguments (quote_plus name @ ''='' @ quote_plus t) =
    (let name = plus_for_space name; text_value = plus_for_space t in
     if name \<notin> {''limit'', ''after''} \<or> has arguments name then None
     else if name = ''limit'' then
       (if limit_pattern text_value \<and> length text_value \<le> 4300
        then Some (AList.update name (JInt (decimal_value text_value)) arguments) else None)
     else
       (case cursor_loads lib text_value of
          Some (JObj d) \<Rightarrow>
            if 64 < json_nesting (JObj d) then None else Some (AList.update name (JObj d) arguments)
        | _ \<Rightarrow> None))"
  using quote_plus_chars [of name] split_once_at [of "CHR ''=''" "quote_plus name" "quote_plus t"]
  by (simp add: read_field_def percent_text_quote_plus assms Let_def)

lemma plus_for_space_id: "CHR '' '' \<notin> set s \<Longrightarrow> plus_for_space s = s"
  unfolding plus_for_space_def by (rule map_idI) auto

lemma member_names:
  "is_ascii ''limit''" "is_ascii ''after''" "plus_for_space ''limit'' = ''limit''"
  "plus_for_space ''after'' = ''after''"
  by (simp_all add: is_ascii_def byte_of_def plus_for_space_def)


section \<open>Private files\<close>

text \<open>Some recorded state of the file system holds an inode that is a private regular file.\<close>

definition saw_private :: "os_env \<Rightarrow> nat \<Rightarrow> os \<Rightarrow> bool" where
  "saw_private k maximum s \<longleftrightarrow>
     (\<exists>f\<in>set (history s). \<exists>i. safe_private_file k maximum (stat_of f i))"

lemma fstat_seen:
  "triple (\<lambda>_. True) (sys_fstat k d) (\<lambda>i s. \<exists>f\<in>set (history s). i = stat_of f (fst d)) (\<lambda>_ _. True)"
  by (auto simp: triple_def sys_fstat_def syscall_def observed_def Let_def)

lemma history_call:
  assumes "\<And>s. set (history s) \<subseteq> set (history (snd (g s)))"
  shows "keeps (\<lambda>s. saw_private k m s) (syscall env g)"
  unfolding keeps_def
proof (intro allI impI)
  fix s assume s: "saw_private k m s"
  have "set (history s) \<subseteq> set (history (snd (syscall env g s)))"
    using assms [of "begin_call env s"]
    by (auto simp: syscall_def observed_def begin_call_def Let_def split: prod.split sum.split)
  then show "saw_private k m (snd (syscall env g s))"
    using s unfolding saw_private_def by blast
qed

lemma keeps_saw_private:
  "keeps (saw_private k m) (sys_read env d off n)" "keeps (saw_private k m) (sys_close env d)"
proof -
  show "keeps (saw_private k m) (sys_read env d off n)"
    unfolding sys_read_def by (rule history_call) simp
  show "keeps (saw_private k m) (sys_close env d)"
    unfolding sys_close_def keeps_def
    by (auto intro!: history_call [unfolded keeps_def, rule_format])
       (auto simp: saw_private_def unflock_def)
qed

lemma keeps_saw_private_chunks: "keeps (saw_private k m) (read_chunks env d off n)"
proof (induction env d off n rule: read_chunks.induct)
  case (1 env d off n)
  show ?case by (subst read_chunks.simps) (intro triples keeps_saw_private 1)
qed

lemma read_private_regular_private:
  "triple (\<lambda>_. True) (read_private_regular k p maximum)
     (\<lambda>raw s. length raw \<le> maximum \<and> saw_private k maximum s) (\<lambda>_ _. True)"
proof -
  have body: "triple (\<lambda>_. True)
      (bindA (sys_fstat k d) (\<lambda>i.
         if \<not> safe_private_file k maximum i then configuration_error ''private file is unsafe''
         else bindA (read_chunks k d 0 (maximum + 1)) (\<lambda>raw.
           if maximum < length raw then configuration_error ''private file is too large'' else ret raw)))
      (\<lambda>raw s. length raw \<le> maximum \<and> saw_private k maximum s) (\<lambda>_ _. True)" for d
  proof (rule triple_bind [OF fstat_seen], rule triple_if)
    fix i assume "\<not> \<not> safe_private_file k maximum i"
    then have "triple (\<lambda>s. \<exists>f\<in>set (history s). i = stat_of f (fst d)) (read_chunks k d 0 (maximum + 1))
        (\<lambda>_. saw_private k maximum) (\<lambda>_ _. True)"
      by (intro triple_conseq [OF keeps_saw_private_chunks [unfolded keeps_triple]])
         (auto simp: saw_private_def)
    then show "triple (\<lambda>s. \<exists>f\<in>set (history s). i = stat_of f (fst d))
        (bindA (read_chunks k d 0 (maximum + 1)) (\<lambda>raw.
           if maximum < length raw then configuration_error ''private file is too large'' else ret raw))
        (\<lambda>raw s. length raw \<le> maximum \<and> saw_private k maximum s) (\<lambda>_ _. True)"
      by (rule triple_bind) (auto simp: configuration_error_def intro!: triple_if triple_raise triple_ret)
  qed (simp add: configuration_error_def triple_raise)
  have close: "triple (\<lambda>s. length raw \<le> maximum \<and> saw_private k maximum s) (sys_close k d)
      (\<lambda>_ s. length raw \<le> maximum \<and> saw_private k maximum s) (\<lambda>_ _. True)" for raw :: string and d
    by (rule tripleI) (auto dest: keepsD [OF keeps_saw_private(2)])
  show ?thesis
    unfolding read_private_regular_def
    by (intro triple_success triple_finally [OF body close]) (simp add: keeps_def)
qed

lemma keeps_fds_profile_symlinks: "keeps (fds D) (reject_profile_symlinks k q p)"
proof (induction p arbitrary: q)
  case (Cons c p)
  then show ?case
    by (auto simp: configuration_error_def intro!: triples split: option.split kind.split)
qed (simp add: triples)

lemma keeps_fds_private_file: "keeps (fds D) (read_private_regular k p maximum)"
proof -
  have "triple (fds D)
      (tryA (sys_open k False p)
        (\<lambda>e. case e of OSErr _ \<Rightarrow> configuration_error ''private file is unavailable'' | _ \<Rightarrow> raise e))
      (\<lambda>d. fds (d # D)) (\<lambda>_. fds D)"
    by (rule triple_try [OF triple_open_fds(1)])
       (auto simp: configuration_error_def intro: triple_raise split: os_exn.split)
  then show ?thesis
    unfolding read_private_regular_def
    by (intro keeps_bind [OF keeps_fds_profile_symlinks] opened_and_closed)
       (auto simp: configuration_error_def intro!: triples)
qed

lemma keeps_fds_credential: "keeps (fds D) (read_credential k p role)"
  unfolding read_credential_def
  by (auto simp: configuration_error_def intro!: triples keeps_fds_private_file split: option.split)


section \<open>Calls\<close>

lemma with_os_Inr:
  "with_os m s = (Inr x, s') \<Longrightarrow> \<exists>t. m (tr_os s) = (Inr x, t) \<and> s' = s\<lparr>tr_os := t\<rparr>"
  by (auto simp: with_os_def split: prod.splits sum.splits os_exn.splits)

lemma outgoing_with_os: "with_os m s = (r, s') \<Longrightarrow> outgoing s' = outgoing s"
  by (auto simp: with_os_def split: prod.splits sum.splits os_exn.splits)

lemma outgoing_send: "send_request env rq s = (r, s') \<Longrightarrow> outgoing s' = outgoing s @ [rq]"
  by (auto simp: send_request_def split: prod.splits)

text \<open>A call that sends something got past all its checks.\<close>

lemma sent_request:
  assumes "transport_call env rid params data role s = (result, s')" and "outgoing s' \<noteq> outgoing s"
  shows "\<exists>r path url body credential t. find_route (tr_routes env) rid = Some r \<and>
    request_path r params = Inr path \<and>
    request_data (tr_float env) r (endpoint (tr_profile env) @ path) data = Inr (url, body) \<and>
    read_credential (tr_kernel env) (tr_profile env) role (tr_os s) = (Inr credential, t) \<and>
    outgoing s' = outgoing s @ [build_request r url body credential]"
proof -
  obtain r where r: "find_route (tr_routes env) rid = Some r"
    using assms by (auto simp: transport_call_def raise_apply split: option.splits)
  obtain path where path: "request_path r params = Inr path"
    using assms r by (cases "request_path r params") (auto simp: transport_call_def raise_apply)
  obtain url body where data:
    "request_data (tr_float env) r (endpoint (tr_profile env) @ path) data = Inr (url, body)"
    using assms r path
    by (cases "request_data (tr_float env) r (endpoint (tr_profile env) @ path) data")
       (auto simp: transport_call_def raise_apply)
  obtain c s1 where c: "with_os (read_credential (tr_kernel env) (tr_profile env) role) s = (c, s1)"
    by fastforce
  obtain credential where cred: "c = Inr credential"
    using assms r path data c outgoing_with_os [OF c]
    by (cases c) (auto simp: transport_call_def bindA_def liftE_apply)
  obtain x s2 where send: "send_request env (build_request r url body credential) s1 = (x, s2)"
    by fastforce
  have "s' = s2"
    using assms(1) r path data c cred send
    by (auto simp: transport_call_def bindA_def liftE_apply split: sum.splits)
  then show ?thesis
    using r path data c cred outgoing_send [OF send] outgoing_with_os [OF c] with_os_Inr by fastforce
qed

section \<open>Properties\<close>

text \<open>
  C21.  Credentials go to the endpoint only.  A call with a constructed profile sends nothing, or one
  request whose URL has the scheme and the network location of the profile's endpoint -- which is
  https, or http to a loopback host, and carries no user information -- with the credential read from
  the file of the requested role as its authorization.
\<close>

theorem credentials_stay_at_endpoint:
  assumes "make_profile lib e w creds dir = Inr (tr_profile env)"
    and "\<forall>r\<in>set (tr_routes env). starts_with ''/'' (path_template r)"
    and "transport_call env rid params data role s = (result, s')"
  shows "outgoing s' = outgoing s \<or>
    (\<exists>rq u u' credential t. outgoing s' = outgoing s @ [rq] \<and> safe_endpoint lib e \<and>
       urlsplit lib e = Some u \<and> urlsplit lib (hr_url rq) = Some u' \<and>
       u_scheme u' = u_scheme u \<and> u_netloc u' = u_netloc u \<and>
       read_credential (tr_kernel env) (tr_profile env) role (tr_os s) = (Inr credential, t) \<and>
       map_of (hr_headers rq) ''Authorization'' = Some (''Bearer '' @ credential))"
proof (cases "outgoing s' = outgoing s")
  case False
  obtain r path url body credential t where r: "find_route (tr_routes env) rid = Some r"
    and path: "request_path r params = Inr path"
    and data: "request_data (tr_float env) r (endpoint (tr_profile env) @ path) data = Inr (url, body)"
    and cred: "read_credential (tr_kernel env) (tr_profile env) role (tr_os s) = (Inr credential, t)"
    and sent: "outgoing s' = outgoing s @ [build_request r url body credential]"
    using sent_request [OF assms(3) False] by blast
  have ep: "endpoint (tr_profile env) = e" "safe_endpoint lib e"
    using make_profile_safe [OF assms(1)] by simp_all
  have "r \<in> set (tr_routes env)" using r by (auto simp: find_route_def find_Some_iff rev_nth)
  then obtain cs where "path_template r = CHR ''/'' # cs"
    using assms(2) by (fastforce simp: starts_with_iff)
  then obtain rest where rest: "path = CHR ''/'' # rest"
    using path fill_path_head by (auto simp: request_path_def split: if_splits)
  obtain tail where url: "url = e @ CHR ''/'' # tail"
    using data ep rest by (auto simp: request_data_def split: if_splits option.splits)
  obtain u h where u: "urlsplit lib e = Some u" "hostname u = Some h" "u_scheme u \<noteq> []"
    using ep(2) by (auto simp: safe_endpoint_def)
  obtain u' where u': "urlsplit lib url = Some u'" "u_scheme u' = u_scheme u" "u_netloc u' = u_netloc u"
    using urlsplit_append_path [OF u(1,3) hostname_netloc [OF u(2)], of tail] url by auto
  have "map_of (hr_headers (build_request r url body credential)) ''Authorization'' = Some (''Bearer '' @ credential)"
    by (simp add: build_request_def)
  moreover have "hr_url (build_request r url body credential) = url" by (simp add: build_request_def)
  ultimately show ?thesis using sent ep(2) u(1) u' cred by metis
qed simp

text \<open>
  The client's paths are the server's.  For a template whose parameters are distinct, separated
  by slashes and surrounded by ASCII text without braces, and for coordinates of unreserved characters
  that give each parameter a value, the transport builds a path that the server's matcher takes apart
  into exactly these coordinates.
\<close>

theorem client_paths_match_routes:
  assumes "plain_tokens (template_tokens template)" and "separated (template_tokens template)"
    and "distinct (param_names (template_tokens template))"
    and "set (param_names (template_tokens template)) \<subseteq> set (keys params)"
    and "\<forall>(k, v)\<in>set params. coordinate_text v \<and> CHR ''}'' \<notin> set k"
    and "path_template r = template"
  shows "\<exists>path. request_path r params = Inr path \<and>
    match_path_template template path =
      Some (map (\<lambda>n. (n, get params n)) (param_names (template_tokens template)))"
proof -
  define ts where "ts = template_tokens template"
  define f where "f n = (case map_of params n of Some (JStr s) \<Rightarrow> s | _ \<Rightarrow> ''{'' @ n @ ''}'')" for n
  have given: "get params n = JStr (f n) \<and> f n \<noteq> [] \<and> list_all unreserved (f n)" if "n \<in> set (param_names ts)" for n
  proof -
    have "n \<in> set (keys params)" using assms(4) that by (auto simp: ts_def)
    then obtain v where v: "map_of params n = Some v" by (auto simp: in_keys_iff)
    then have "coordinate_text v" using assms(5) map_of_SomeD [OF v] by auto
    then show ?thesis using v by (auto simp: coordinate_text_def f_def get_def)
  qed
  define path where "path = fill_tokens f ts"
  have "fill_path template params = Inr path"
    using fill_path_tokens [OF assms(1,5)]
    by (simp add: tokens_text_template path_def ts_def f_def [abs_def])
  moreover have plain: "plain_tokens ts" "\<forall>n\<in>set (param_names ts). list_all unreserved (f n)"
    using assms(1) given by (auto simp: ts_def)
  ultimately have "request_path r params = Inr path"
    using render_fill(2) [OF plain] by (simp add: request_path_def assms(6) path_def)
  moreover define vs where "vs = map (\<lambda>n. map (\<lambda>c. [c]) (f n)) (param_names ts)"
  have "list_all segment vs"
    using given by (fastforce simp: vs_def list_all_iff segment_def dest: unreserved_facts(4))
  then have "match_path_template template path = Some (zip (param_names ts) (map (JStr \<circ> concat) vs))"
    using path_template_exact [OF assms(2,3), of path] render_fill(1) [OF plain]
    by (simp add: ts_def vs_def path_def)
  moreover have "concat (map (\<lambda>c. [c]) xs) = xs" for xs :: string by (induction xs) auto
  then have "map (JStr \<circ> concat) vs = map (get params) (param_names ts)"
    using given by (auto simp: vs_def)
  moreover have "zip xs (map g xs) = map (\<lambda>x. (x, g x)) xs" for g :: "string \<Rightarrow> json" and xs
    by (induction xs) auto
  ultimately show ?thesis by (simp add: ts_def)
qed

text \<open>
  The client's queries are the server's, up to spaces.  A positive limit is read back as sent; the
  cursor reaches the service as what its JSON text means with a plus sign for every space, because the
  client's encoder writes a space as a plus sign and the server's strict decoder leaves plus signs alone.
  So cursors without spaces are read back as sent, and only those in general: the witness is a cursor
  that arrives changed.  The hypotheses on the JSON library say what it parses that text to, a value
  that passes the hooks and is nested at most 64 deep.
\<close>

theorem query_roundtrip:
  assumes "1 \<le> n" and "length (int_text n) \<le> 4300" and "\<And>f. is_ascii (fr f)"
    and "raw_loads lib (plus_for_space (dump fr (canon (JObj c)))) = Some (JObj c')"
    and "unique_members (JObj c')" and "\<not> nonfinite (JObj c')" and "json_depth (JObj c') \<le> 64"
  shows "decode_http_read_query lib (urlencode_query fr [(''limit'', JInt n), (''after'', JObj c)]) =
      Inr [(''limit'', JInt n), (''after'', JObj c')] \<and>
    (CHR '' '' \<notin> set (dump fr (canon (JObj c))) \<longrightarrow> raw_loads lib (dump fr (canon (JObj c))) = Some (JObj c'))"
proof -
  define t where "t = dump fr (canon (JObj c))"
  note n = limit_text [OF assms(1)]
  have ascii_t: "is_ascii t" unfolding t_def by (rule dump_ascii(1)) (rule assms(3))
  have ascii: "is_ascii (int_text n)" and nospace: "CHR '' '' \<notin> set (int_text n)"
    using n by (auto simp: is_ascii_def list_all_iff byte_in_def byte_of_def)
  define p q where "p = quote_plus ''limit'' @ ''='' @ quote_plus (int_text n)"
    and "q = quote_plus ''after'' @ ''='' @ quote_plus t"
  have "CHR ''&'' \<notin> set p" "CHR ''&'' \<notin> set q"
    using quote_plus_chars by (simp_all add: p_def q_def del: quote_plus_simps)
  then have "split_on (CHR ''&'') (p @ ''&'' @ q) = [p, q]"
    by (simp add: split_on_append split_on_none)
  moreover have "urlencode_query fr [(''limit'', JInt n), (''after'', JObj c)] = p @ ''&'' @ q"
    by (simp add: urlencode_query_def query_text_def t_def p_def q_def del: quote_plus_simps)
  moreover have "read_field lib [] p = Some [(''limit'', JInt n)]"
    unfolding p_def read_field_member [OF member_names(1) ascii]
    using n assms(2) nospace by (simp add: member_names plus_for_space_id has_def)
  moreover have "read_field lib [(''limit'', JInt n)] q = Some [(''limit'', JInt n), (''after'', JObj c')]"
    unfolding q_def read_field_member [OF member_names(2) ascii_t]
    using assms(4) [folded t_def] assms(5-7) json_nesting_le [of "JObj c'"]
    by (simp add: member_names has_def cursor_loads_def not_less
        del: json_depth.simps unique_members.simps nonfinite.simps)
  ultimately show ?thesis
    using assms(4) [folded t_def] plus_for_space_id [of t]
    by (auto simp: decode_http_read_query_def simp flip: t_def simp del: canon.simps dump.simps)
qed



section \<open>A concrete client\<close>

definition demo_kernel :: os_env where
  "demo_kernel =
     \<lparr>my_uid = 7, umask = 0, world = (\<lambda>_ f. f), fault = (\<lambda>_. False), transfer = (\<lambda>_. 64)\<rparr>"

definition demo_os :: os where
  "demo_os =
     \<lparr>fs = \<lparr>names = (\<lambda>p. if p = [''c''] then Some 1 else None),
             inodes = (\<lambda>_. \<lparr>i_kind = Regular, i_uid = 7, i_mode = 384, i_data = ''tok'', i_mtime = 0\<rparr>),
             next_ino = 2, locked = []\<rparr>,
      clock = 0, descriptors = [], history = []\<rparr>"

definition demo_url_library :: url_library where
  "demo_url_library = \<lparr>ipv6 = (\<lambda>_. False), plain_netloc = (\<lambda>_. False)\<rparr>"

definition demo_credentials :: "(string \<times> path) list" where
  "demo_credentials = [(''operator'', [''c'']), (''approver'', [''c'']), (''worker'', [''c''])]"

definition demo_profile :: client_profile where
  "demo_profile =
     \<lparr>endpoint = ''https://cpk.example'', workspace_id = ''w'', credentials = demo_credentials,
      profile_state_directory = [''s'']\<rparr>"

definition demo_transport :: "(nat, unit) transport_env" where
  "demo_transport =
     \<lparr>tr_kernel = demo_kernel, tr_profile = demo_profile, tr_routes = [demo_route], tr_json = demo_json,
      tr_float = (\<lambda>_. []), exchange = (\<lambda>_ n. (Inr (200, []), n))\<rparr>"

lemma demo_make_profile:
  "make_profile demo_url_library ''https://cpk.example'' (JStr ''w'') demo_credentials [''s''] = Inr demo_profile"
  by code_simp

definition demo_call :: "(client_exn + dict) \<times> unit transport_state" where
  "demo_call =
     transport_call demo_transport ''runs.read'' [(''workspace_id'', JStr ''w1'')] [(''limit'', JInt 5)]
       ''operator'' \<lparr>tr_os = demo_os, tr_network = (), outgoing = []\<rparr>"

lemma demo_call_sent: "map hr_url (outgoing (snd demo_call)) = [''https://cpk.example/workspaces/w1/runs?limit=5'']"
  unfolding demo_call_def by code_simp

lemma credentials_stay_at_endpoint_witness:
  "\<exists>rq u u'. outgoing (snd demo_call) = [rq] \<and> urlsplit demo_url_library (endpoint demo_profile) = Some u \<and>
     urlsplit demo_url_library (hr_url rq) = Some u' \<and> u_netloc u' = u_netloc u"
proof -
  obtain r s' where call: "demo_call = (r, s')" by fastforce
  have profile: "make_profile demo_url_library ''https://cpk.example'' (JStr ''w'') demo_credentials [''s''] =
      Inr (tr_profile demo_transport)"
    using demo_make_profile by (simp add: demo_transport_def)
  have routes: "\<forall>r\<in>set (tr_routes demo_transport). starts_with ''/'' (path_template r)"
    by (simp add: demo_transport_def demo_route_def starts_with_def)
  have "outgoing s' \<noteq> []" using demo_call_sent by (auto simp: call)
  moreover have "endpoint demo_profile = ''https://cpk.example''" by (simp add: demo_profile_def)
  ultimately show ?thesis
    using credentials_stay_at_endpoint [OF profile routes call [unfolded demo_call_def]]
    by (auto simp: call)
qed

lemma client_paths_match_routes_witness:
  "\<exists>path. request_path demo_route [(''workspace_id'', JStr ''w1'')] = Inr path \<and>
     match_path_template (path_template demo_route) path = Some [(''workspace_id'', JStr ''w1'')]"
proof -
  let ?t = "path_template demo_route"
  let ?p = "[(''workspace_id'', JStr ''w1'')]"
  have tokens: "plain_tokens (template_tokens ?t)" "separated (template_tokens ?t)"
    "distinct (param_names (template_tokens ?t))"
    and names: "param_names (template_tokens ?t) = [''workspace_id'']" by code_simp+
  have params: "set (param_names (template_tokens ?t)) \<subseteq> set (keys ?p)"
    unfolding names by (simp add: keys_def)
  have "list_all unreserved ''w1''" by code_simp
  then have coords: "\<forall>(k, v)\<in>set ?p. coordinate_text v \<and> CHR ''}'' \<notin> set k"
    by (simp add: coordinate_text_def)
  from client_paths_match_routes [OF tokens params coords refl] show ?thesis
    by (simp add: names get_def)
qed

definition cursor_json :: "dict \<Rightarrow> json_library" where
  "cursor_json c = \<lparr>plain_loads = (\<lambda>_. None), raw_loads = (\<lambda>_. Some (JObj c))\<rparr>"

lemma query_roundtrip_witness:
  "decode_http_read_query (cursor_json [(''after_id'', JStr ''a+b'')])
     (urlencode_query (\<lambda>_. []) [(''limit'', JInt 5), (''after'', JObj [(''after_id'', JStr ''a b'')])]) =
   Inr [(''limit'', JInt 5), (''after'', JObj [(''after_id'', JStr ''a+b'')])]"
proof -
  have parsed: "raw_loads (cursor_json [(''after_id'', JStr ''a+b'')])
      (plus_for_space (dump (\<lambda>_. []) (canon (JObj [(''after_id'', JStr ''a b'')])))) =
      Some (JObj [(''after_id'', JStr ''a+b'')])"
    by (simp add: cursor_json_def)
  have limit: "(1 :: int) \<le> 5" "length (int_text 5) \<le> 4300" by (simp, code_simp)
  have cursor: "unique_members (JObj [(''after_id'', JStr ''a+b'')])"
    "\<not> nonfinite (JObj [(''after_id'', JStr ''a+b'')])" "json_depth (JObj [(''after_id'', JStr ''a+b'')]) \<le> 64"
    by code_simp+
  show ?thesis
    using query_roundtrip [OF limit _ parsed cursor] by simp
qed


end
