(* ===== verification/Bootstrap.thy ===== *)
theory Bootstrap
  imports Boundary Composition
begin

text \<open>
  The bootstrap configuration of cpk-server (\<open>cpk_server/server.py\<close>): everything the process
  reads from its environment, and the checks that tie the settings together.

  What the code takes from the core and operations packages is the record \<open>bootstrap_library\<close>:
  the enumerations by their values, the constructors of grants and principals by the arguments they
  accept, and the reading of the runtime interpreters.
\<close>

section \<open>Data\<close>

text \<open>
  \<open>ValueErr\<close> stands for the value errors, encoding errors included, that no handler of the module
  catches, \<open>DatabaseErr\<close> for what the driver or the schema installation raises.
\<close>

datatype bootstrap_exn =
    BootstrapConfigurationError string
  | ValueErr
  | AssertionErr
  | CompositionErr composition_error
  | DatabaseErr

record workspace_grant =
  wg_workspace_id :: string
  wg_scopes :: "string list"

record runtime_dispatcher =
  rd_enabled :: bool
  rd_kinds :: "string list"
  rd_text :: string

record bootstrap_library =
  bl_json :: json_library
  bl_digit :: "nat \<Rightarrow> nat option"
  bl_runtime :: "string \<Rightarrow> string + runtime_dispatcher"
  bl_ingress_kinds :: "string list"
  bl_cloudflare :: string
  bl_docker :: string
  bl_scopes :: "string list"
  bl_principal_kinds :: "(string \<times> principal_kind) list"
  bl_grant_ok :: "workspace_grant \<Rightarrow> bool"
  bl_principal_ok :: "workspace_grant static_principal \<Rightarrow> bool"

type_synonym server_credential = "workspace_grant static_principal static_credential"

record bootstrap_configuration =
  bc_mode :: string
  bc_verifier :: string
  bc_static_credential :: "string option"
  bc_port :: int
  bc_runtime :: runtime_dispatcher
  bc_ingress :: "string list"
  bc_resolver :: string
  bc_secret_values :: "string option"
  bc_provider_routes :: "string option"
  bc_provider_files :: "string option"
  bc_stores :: "(string \<times> string) list"
  bc_dns_endpoint :: string
  bc_probe_signer :: string
  bc_probe_lifetime :: int
  bc_grants :: "workspace_grant list"
  bc_principals :: "server_credential list"

abbreviation reject :: "string \<Rightarrow> bootstrap_exn" where
  "reject m \<equiv> BootstrapConfigurationError m"

section \<open>Reading values\<close>

definition required_value :: "(string \<times> string) list \<Rightarrow> string \<Rightarrow> bootstrap_exn + string" where
  "required_value values name =
     (case map_of values name of Some (c # cs) \<Rightarrow> Inr (c # cs) | _ \<Rightarrow> Inl (reject (name @ '' is required'')))"

definition printable :: "char \<Rightarrow> bool" where
  "printable c \<longleftrightarrow> 33 \<le> byte_of c \<and> byte_of c \<le> 126"

definition bounded_ascii :: "string option \<Rightarrow> string \<Rightarrow> nat \<Rightarrow> bootstrap_exn + string" where
  "bounded_ascii v name maximum =
     (case v of
        None \<Rightarrow> Inl (reject (name @ '' must be bounded ASCII''))
      | Some s \<Rightarrow>
          if 1 \<le> str_len s \<and> str_len s \<le> maximum \<and> is_ascii s \<and> list_all printable s then Inr s
          else Inl (reject (name @ '' must be bounded ASCII'')))"

text \<open>The parts of a comma-separated list of ingress interpreters; a provider is its value.\<close>

definition ingress_from_process_value :: "bootstrap_library \<Rightarrow> string \<Rightarrow> bootstrap_exn + string list" where
  "ingress_from_process_value lib v =
     (if v = ''none'' then Inr []
      else
        (let parts = filter (\<lambda>p. p \<noteq> []) (map strip (split_on (CHR '','') v)) in
         if parts = [] then Inl (reject ''CPK_INGRESS_INTERPRETERS must be one of: none, cloudflare'')
         else
           bindE (mapE (\<lambda>p. if p \<in> set (bl_ingress_kinds lib) then Inr p
                            else Inl (reject ''ingress interpreter bootstrap includes an unknown provider kind'')) parts)
             (\<lambda>kinds.
              if length (remdups kinds) \<noteq> length kinds
              then Inl (reject ''ingress interpreter providers must be unique'')
              else Inr kinds)))"

fun joined :: "string list \<Rightarrow> string" where
  "joined [] = []"
| "joined [k] = k"
| "joined (k # l # ks) = k @ '','' @ joined (l # ks)"

definition ingress_text :: "string list \<Rightarrow> string" where
  "ingress_text kinds = (if kinds = [] then ''none'' else joined kinds)"

text \<open>
  The secret registries: a bounded JSON object of distinct members whose names and values are bounded
  non-empty strings.  A lone surrogate is an encoding error where the code encodes.
\<close>

definition registry_malformed :: bootstrap_exn where
  "registry_malformed = reject ''secret provider bootstrap registry is malformed''"

fun registry_items :: "dict \<Rightarrow> bootstrap_exn + (string \<times> string) list" where
  "registry_items [] = Inr []"
| "registry_items ((k, v) # rest) =
     (case v of
        JStr item \<Rightarrow>
          if k = [] \<or> item = [] then Inl registry_malformed
          else
            (case utf8_encode k of
               None \<Rightarrow> Inl ValueErr
             | Some kb \<Rightarrow>
                 if 2048 < length kb then Inl registry_malformed
                 else
                   (case utf8_encode item of
                      None \<Rightarrow> Inl ValueErr
                    | Some ib \<Rightarrow>
                        if 4096 < length ib then Inl registry_malformed
                        else bindE (registry_items rest) (\<lambda>items. Inr ((k, item) # items))))
      | _ \<Rightarrow> Inl registry_malformed)"

definition validated_mapping :: "bootstrap_library \<Rightarrow> string \<Rightarrow> bootstrap_exn + (string \<times> string) list" where
  "validated_mapping lib v =
     (case utf8_encode v of
        None \<Rightarrow> Inl ValueErr
      | Some b \<Rightarrow>
          if \<not> (1 \<le> length b \<and> length b \<le> 65536) then Inl registry_malformed
          else
            (case raw_loads (bl_json lib) v of
               None \<Rightarrow> Inl registry_malformed
             | Some decoded \<Rightarrow>
                 if \<not> unique_members decoded then Inl registry_malformed
                 else
                   (case decoded of
                      JObj d \<Rightarrow>
                        if \<not> (1 \<le> length d \<and> length d \<le> 64) then Inl registry_malformed
                        else registry_items d
                    | _ \<Rightarrow> Inl registry_malformed)))"

section \<open>Grants and principals\<close>

definition all_strings :: "json list \<Rightarrow> string list option" where
  "all_strings xs =
     (if list_all (\<lambda>x. case x of JStr _ \<Rightarrow> True | _ \<Rightarrow> False) xs
      then Some (map (\<lambda>x. case x of JStr s \<Rightarrow> s | _ \<Rightarrow> []) xs) else None)"

definition grant_scopes :: "bootstrap_library \<Rightarrow> json \<Rightarrow> bootstrap_exn + string list" where
  "grant_scopes lib v =
     (let malformed = reject ''static workspace grant scopes must be unique closed scope names'' in
      case v of
        JArr xs \<Rightarrow>
          if xs = [] \<or> length (bl_scopes lib) < length xs then Inl malformed
          else
            (case all_strings xs of
               None \<Rightarrow> Inl malformed
             | Some scopes \<Rightarrow>
                 if length (remdups scopes) \<noteq> length scopes then Inl malformed
                 else if \<not> set scopes \<subseteq> set (bl_scopes lib)
                 then Inl (reject ''static workspace grant includes an unknown policy scope'')
                 else Inr scopes)
      | _ \<Rightarrow> Inl malformed)"

fun read_grants :: "bootstrap_library \<Rightarrow> dict \<Rightarrow> bootstrap_exn + workspace_grant list" where
  "read_grants lib [] = Inr []"
| "read_grants lib ((k, v) # rest) =
     (if k = ''*'' then Inl (reject ''wildcard workspace grants are forbidden'')
      else
        bindE (bounded_ascii (Some k) ''static workspace grant id'' 128) (\<lambda>i.
        bindE (grant_scopes lib v) (\<lambda>scopes.
        let g = \<lparr>wg_workspace_id = i, wg_scopes = scopes\<rparr> in
        if \<not> bl_grant_ok lib g then Inl ValueErr
        else bindE (read_grants lib rest) (\<lambda>gs. Inr (g # gs)))))"

definition grants_from_mapping :: "bootstrap_library \<Rightarrow> json \<Rightarrow> bootstrap_exn + workspace_grant list" where
  "grants_from_mapping lib raw =
     (case raw of
        JObj d \<Rightarrow>
          if d = [] \<or> 64 < length d
          then Inl (reject ''static workspace grants must map exact workspace ids to scopes'')
          else bindE (read_grants lib d) (\<lambda>gs. Inr (sort_key wg_workspace_id gs))
      | _ \<Rightarrow> Inl (reject ''static workspace grants must map exact workspace ids to scopes''))"

definition bounded_json :: "bootstrap_library \<Rightarrow> string \<Rightarrow> string \<Rightarrow> nat \<Rightarrow> bootstrap_exn + json" where
  "bounded_json lib v name maximum =
     (if \<not> (1 \<le> str_len v \<and> str_len v \<le> maximum) \<or> \<not> is_ascii v
      then Inl (reject (name @ '' must be bounded JSON''))
      else case plain_loads (bl_json lib) v of
             None \<Rightarrow> Inl (reject (name @ '' must be bounded JSON'')) | Some raw \<Rightarrow> Inr raw)"

definition static_workspace_grants :: "bootstrap_library \<Rightarrow> string \<Rightarrow> bootstrap_exn + workspace_grant list" where
  "static_workspace_grants lib v =
     bindE (bounded_json lib v ''CPK_CONTROL_AUTH_STATIC_WORKSPACE_GRANTS_JSON'' 65536) (grants_from_mapping lib)"

definition text_member_of :: "dict \<Rightarrow> string \<Rightarrow> string option" where
  "text_member_of d key = (case get d key of JStr s \<Rightarrow> Some s | _ \<Rightarrow> None)"

definition principal_kind_of :: "bootstrap_library \<Rightarrow> json \<Rightarrow> bootstrap_exn + principal_kind" where
  "principal_kind_of lib v =
     (case (case v of JStr s \<Rightarrow> map_of (bl_principal_kinds lib) s | _ \<Rightarrow> None) of
        None \<Rightarrow> Inl (reject ''static principal kind must be operator, service, or worker'')
      | Some k \<Rightarrow> Inr k)"

definition read_principal :: "bootstrap_library \<Rightarrow> nat \<Rightarrow> json \<Rightarrow> bootstrap_exn + server_credential" where
  "read_principal lib index item =
     (case item of
        JObj d \<Rightarrow>
          (let label = ''static principal '' @ int_text (int index) in
           bindE (bounded_ascii (text_member_of d ''credential'') (label @ '' credential'') 4096) (\<lambda>credential.
           bindE (bounded_ascii (text_member_of d ''subject_id'') (label @ '' subject_id'') 128) (\<lambda>subject.
           bindE (principal_kind_of lib (get d ''kind'')) (\<lambda>kind.
           bindE (grants_from_mapping lib (get d ''workspace_grants'')) (\<lambda>grants.
           let p = static_development_principal subject kind grants in
           case (if bl_principal_ok lib p then static_principal_credential credential p else Inl InvalidCredential) of
             Inl _ \<Rightarrow> Inl (reject ''static principal must contain valid credential and grants'')
           | Inr c \<Rightarrow> Inr c)))))
      | _ \<Rightarrow> Inl (reject ''static principal must be an object''))"

fun read_principals :: "bootstrap_library \<Rightarrow> nat \<Rightarrow> json list \<Rightarrow> bootstrap_exn + server_credential list" where
  "read_principals lib index [] = Inr []"
| "read_principals lib index (x # xs) =
     bindE (read_principal lib index x) (\<lambda>p.
     bindE (read_principals lib (index + 1) xs) (\<lambda>ps. Inr (p # ps)))"

definition static_principals :: "bootstrap_library \<Rightarrow> string \<Rightarrow> bootstrap_exn + server_credential list" where
  "static_principals lib v =
     bindE (bounded_json lib v ''CPK_CONTROL_AUTH_STATIC_PRINCIPALS_JSON'' 131072) (\<lambda>raw.
     case raw of
       JArr xs \<Rightarrow>
         if xs = [] \<or> 16 < length xs
         then Inl (reject ''CPK_CONTROL_AUTH_STATIC_PRINCIPALS_JSON must list principals'')
         else
           bindE (read_principals lib 0 xs) (\<lambda>ps.
           if length (remdups (map sc_credential ps)) \<noteq> length (map sc_credential ps)
           then Inl (reject ''static principal credentials must be unique'')
           else Inr ps)
     | _ \<Rightarrow> Inl (reject ''CPK_CONTROL_AUTH_STATIC_PRINCIPALS_JSON must list principals''))"

section \<open>The configuration\<close>

definition DEFAULT_PUBLIC_DNS_RESOLVER_ENDPOINT :: string where
  "DEFAULT_PUBLIC_DNS_RESOLVER_ENDPOINT = ''https://1.1.1.1/dns-query''"

definition STORE_NAMES :: "string list" where
  "STORE_NAMES =
     [''CPK_WORKPLACE_DATABASE_URL'', ''CPK_ACTIVITY_HISTORY_DATABASE_URL'', ''CPK_OBSERVER_STATE_DATABASE_URL'',
      ''CPK_GRAPH_TOPOLOGY_DATABASE_URL'']"

definition LEGACY_NAMES :: "string list" where
  "LEGACY_NAMES =
     [''CPK_IMAGE_PULL_CREDENTIAL_RESOLVER'', ''DOCKER_CONFIG'', ''CPK_DOCKER_AUTH_CONFIG'',
      ''CPK_DOCKER_AUTH_CONFIG_JSON'']"

text \<open>
  The settings of the static verifier: a list of principals, or one credential with grants; without the
  verifier, none of the three.
\<close>

record authentication_settings =
  as_credential :: "string option"
  as_grants :: "workspace_grant list"
  as_principals :: "server_credential list"

definition single_static_credential ::
  "bootstrap_library \<Rightarrow> string \<Rightarrow> string option \<Rightarrow> bootstrap_exn + authentication_settings" where
  "single_static_credential lib credential grants_text =
     (if \<not> is_ascii credential
      then Inl (reject ''CPK_CONTROL_AUTH_STATIC_CREDENTIAL must be bounded ASCII'')
      else if (case (if bl_principal_ok lib (static_operator_identity [])
                     then single_verifier credential (static_operator_identity [] :: workspace_grant static_principal)
                     else Inl InvalidCredential) of Inl _ \<Rightarrow> True | Inr _ \<Rightarrow> False)
      then Inl (reject ''CPK_CONTROL_AUTH_STATIC_CREDENTIAL must be bounded and nonempty'')
      else
        (case grants_text of
           Some (c # cs) \<Rightarrow>
             bindE (static_workspace_grants lib (c # cs)) (\<lambda>grants.
             Inr \<lparr>as_credential = Some credential, as_grants = grants, as_principals = []\<rparr>)
         | _ \<Rightarrow>
             Inl (reject (''CPK_CONTROL_AUTH_VERIFIER=static-development requires '' @
                          ''CPK_CONTROL_AUTH_STATIC_WORKSPACE_GRANTS_JSON''))))"

definition required_static_verifier :: "string \<Rightarrow> bootstrap_exn" where
  "required_static_verifier name = reject (name @ '' requires CPK_CONTROL_AUTH_VERIFIER=static-development'')"

definition authentication_from_values ::
  "bootstrap_library \<Rightarrow> (string \<times> string) list \<Rightarrow> string \<Rightarrow> bootstrap_exn + authentication_settings" where
  "authentication_from_values lib values verifier =
     (let credential = map_of values ''CPK_CONTROL_AUTH_STATIC_CREDENTIAL'';
          grants_text = map_of values ''CPK_CONTROL_AUTH_STATIC_WORKSPACE_GRANTS_JSON'';
          principals_text = map_of values ''CPK_CONTROL_AUTH_STATIC_PRINCIPALS_JSON'' in
      if verifier = ''static-development'' then
        (case principals_text of
           Some text_value \<Rightarrow>
             if credential \<noteq> None \<or> grants_text \<noteq> None
             then Inl (reject (''CPK_CONTROL_AUTH_STATIC_PRINCIPALS_JSON must not be mixed '' @
                               ''with single static credential configuration''))
             else bindE (static_principals lib text_value) (\<lambda>ps.
                  Inr \<lparr>as_credential = None, as_grants = [], as_principals = ps\<rparr>)
         | None \<Rightarrow>
             (case credential of
                Some (c # cs) \<Rightarrow> single_static_credential lib (c # cs) grants_text
              | _ \<Rightarrow> Inl (reject (''CPK_CONTROL_AUTH_VERIFIER=static-development requires '' @
                                  ''CPK_CONTROL_AUTH_STATIC_CREDENTIAL''))))
      else if credential \<noteq> None then Inl (required_static_verifier ''CPK_CONTROL_AUTH_STATIC_CREDENTIAL'')
      else if grants_text \<noteq> None
        then Inl (required_static_verifier ''CPK_CONTROL_AUTH_STATIC_WORKSPACE_GRANTS_JSON'')
      else if principals_text \<noteq> None
        then Inl (required_static_verifier ''CPK_CONTROL_AUTH_STATIC_PRINCIPALS_JSON'')
      else Inr \<lparr>as_credential = None, as_grants = [], as_principals = []\<rparr>)"

definition port_setting :: "bootstrap_library \<Rightarrow> string \<Rightarrow> bootstrap_exn + int" where
  "port_setting lib text_value =
     (case parse_int (bl_digit lib) text_value of
        None \<Rightarrow> Inl (reject ''CPK_PORT must be an integer'')
      | Some port \<Rightarrow>
          if 1 \<le> port \<and> port \<le> 65535 then Inr port else Inl (reject ''CPK_PORT must be in TCP port range''))"

definition lifetime_setting :: "bootstrap_library \<Rightarrow> string \<Rightarrow> bootstrap_exn + int" where
  "lifetime_setting lib text_value =
     (case parse_int (bl_digit lib) text_value of
        None \<Rightarrow> Inl (reject ''CPK_GATEWAY_PROBE_GRANT_LIFETIME_SECONDS must be an integer'')
      | Some n \<Rightarrow>
          if 1 \<le> n \<and> n \<le> 300 then Inr n
          else Inl (reject ''CPK_GATEWAY_PROBE_GRANT_LIFETIME_SECONDS must be from 1 through 300''))"

text \<open>The rules that tie the secret resolver to the interpreters, the signer and the registries.\<close>

definition check_signer :: "string \<Rightarrow> string \<Rightarrow> bootstrap_exn + unit" where
  "check_signer resolver signer =
     bindE (raise_if (resolver \<notin> {''none'', ''provider'', ''local-development''})
              (reject (''CPK_PRODUCT_MATERIAL_RESOLVER must be one of: '' @ ''none, provider, local-development''))) (\<lambda>_.
     bindE (raise_if (signer \<notin> {''none'', ''ed25519''})
              (reject ''CPK_GATEWAY_PROBE_SIGNER must be one of: none, ed25519'')) (\<lambda>_.
     raise_if (signer = ''ed25519'' \<and> resolver \<noteq> ''provider'')
       (reject (''CPK_GATEWAY_PROBE_SIGNER=ed25519 requires provider-backed '' @ ''secret resolution''))))"

definition check_local_development ::
  "bootstrap_library \<Rightarrow> runtime_dispatcher \<Rightarrow> string list \<Rightarrow> string \<Rightarrow> string \<Rightarrow> string option \<Rightarrow> string option \<Rightarrow>
   string option \<Rightarrow> bootstrap_exn + unit" where
  "check_local_development lib runtime ingress resolver signer secrets provider_routes provider_files =
     (if resolver = ''local-development'' then
        bindE (raise_if (bl_docker lib \<notin> set (rd_kinds runtime) \<and> bl_cloudflare lib \<notin> set ingress \<and> signer = ''none'')
                 (reject (''CPK_PRODUCT_MATERIAL_RESOLVER=local-development requires '' @
                          ''a Docker runtime interpreter, Cloudflare ingress interpreter, '' @ ''or gateway probe signer''))) (\<lambda>_.
        bindE (raise_if (secrets = None \<or> secrets = Some [])
                 (reject (''CPK_PRODUCT_MATERIAL_RESOLVER=local-development requires '' @ ''CPK_PRODUCT_SECRET_VALUES_JSON''))) (\<lambda>_.
        raise_if (provider_routes \<noteq> None \<or> provider_files \<noteq> None)
          (reject ''local-development secret resolution cannot use provider bootstrap'')))
      else raise_if (secrets \<noteq> None)
             (reject (''CPK_PRODUCT_SECRET_VALUES_JSON requires '' @ ''CPK_PRODUCT_MATERIAL_RESOLVER=local-development'')))"

definition check_provider ::
  "bootstrap_library \<Rightarrow> string \<Rightarrow> string option \<Rightarrow> string option \<Rightarrow> bootstrap_exn + unit" where
  "check_provider lib resolver provider_routes provider_files =
     (if resolver = ''provider'' then
        (case (provider_routes, provider_files) of
           (Some (r # rs), Some (f # fs)) \<Rightarrow>
             bindE (validated_mapping lib (r # rs)) (\<lambda>_. bindE (validated_mapping lib (f # fs)) (\<lambda>_. Inr ()))
         | _ \<Rightarrow> Inl (reject (''provider-backed secret resolution requires endpoint and '' @ ''credential-file registries'')))
      else raise_if (provider_routes \<noteq> None \<or> provider_files \<noteq> None)
             (reject (''secret provider bootstrap requires '' @ ''CPK_PRODUCT_MATERIAL_RESOLVER=provider'')))"

definition check_ingress :: "bootstrap_library \<Rightarrow> string list \<Rightarrow> string \<Rightarrow> bootstrap_exn + unit" where
  "check_ingress lib ingress resolver =
     raise_if (bl_cloudflare lib \<in> set ingress \<and> resolver \<noteq> ''provider'')
       (reject (''CPK_INGRESS_INTERPRETERS=cloudflare requires provider-backed '' @ ''secret resolution''))"

text \<open>
  \<open>CpkServerBootstrapConfiguration.from_environment\<close>: the mandatory values are read first, then every
  rule in the order of the source.
\<close>

definition configuration_from_values ::
  "bootstrap_library \<Rightarrow> (string \<times> string) list \<Rightarrow> bootstrap_exn + bootstrap_configuration" where
  "configuration_from_values lib values =
     bindE (required_value values ''CPK_SERVER_MODE'') (\<lambda>mode.
     bindE (required_value values ''CPK_PORT'') (\<lambda>port_text.
     bindE (bindE (required_value values ''CPK_RUNTIME_INTERPRETERS'') (\<lambda>v.
              case bl_runtime lib v of Inl m \<Rightarrow> Inl (reject m) | Inr r \<Rightarrow> Inr r)) (\<lambda>runtime.
     bindE (ingress_from_process_value lib (get_or values ''CPK_INGRESS_INTERPRETERS'' ''none'')) (\<lambda>ingress.
     bindE (bounded_ascii
              (Some (get_or values ''CPK_PUBLIC_DNS_RESOLVER_ENDPOINT'' DEFAULT_PUBLIC_DNS_RESOLVER_ENDPOINT))
              ''CPK_PUBLIC_DNS_RESOLVER_ENDPOINT'' 2048) (\<lambda>dns.
     bindE (mapE (\<lambda>name. bindE (required_value values name) (\<lambda>v. Inr (name, v))) STORE_NAMES) (\<lambda>stores.
     let verifier = get_or values ''CPK_CONTROL_AUTH_VERIFIER'' ''none'';
         resolver = get_or values ''CPK_PRODUCT_MATERIAL_RESOLVER'' ''none'';
         signer = get_or values ''CPK_GATEWAY_PROBE_SIGNER'' ''none'';
         secrets = map_of values ''CPK_PRODUCT_SECRET_VALUES_JSON'';
         provider_routes = map_of values ''CPK_MATERIAL_PROVIDER_ROUTES_JSON'';
         provider_files = map_of values ''CPK_MATERIAL_PROVIDER_BOOTSTRAP_FILES_JSON'' in
     bindE (raise_if (mode \<noteq> ''execution-capable'') (reject ''CPK_SERVER_MODE must be execution-capable'')) (\<lambda>_.
     bindE (raise_if (verifier \<notin> {''none'', ''static-development''})
              (reject ''CPK_CONTROL_AUTH_VERIFIER must be one of: none, static-development'')) (\<lambda>_.
     bindE (authentication_from_values lib values verifier) (\<lambda>auth.
     bindE (port_setting lib port_text) (\<lambda>port.
     bindE (raise_if (list_ex (\<lambda>n. map_of values n \<noteq> None) LEGACY_NAMES)
              (reject ''legacy Docker credential bootstrap is unavailable'')) (\<lambda>_.
     bindE (check_signer resolver signer) (\<lambda>_.
     bindE (lifetime_setting lib (get_or values ''CPK_GATEWAY_PROBE_GRANT_LIFETIME_SECONDS'' ''60'')) (\<lambda>lifetime.
     bindE (check_local_development lib runtime ingress resolver signer secrets provider_routes provider_files) (\<lambda>_.
     bindE (check_provider lib resolver provider_routes provider_files) (\<lambda>_.
     bindE (check_ingress lib ingress resolver) (\<lambda>_.
     Inr \<lparr>bc_mode = mode, bc_verifier = verifier, bc_static_credential = as_credential auth, bc_port = port,
          bc_runtime = runtime, bc_ingress = ingress, bc_resolver = resolver, bc_secret_values = secrets,
          bc_provider_routes = provider_routes, bc_provider_files = provider_files, bc_stores = stores,
          bc_dns_endpoint = dns, bc_probe_signer = signer, bc_probe_lifetime = lifetime,
          bc_grants = as_grants auth, bc_principals = as_principals auth\<rparr>))))))))))))))))"

text \<open>
  \<open>operations_database_url\<close>: all stores are one database, its error is a configuration error.
\<close>

definition operations_database_url :: "bootstrap_configuration \<Rightarrow> bootstrap_exn + string" where
  "operations_database_url cfg =
     (case remdups (map snd (bc_stores cfg)) of
        [url] \<Rightarrow> Inr url
      | _ \<Rightarrow> Inl (reject (''current operations package requires all CPK_*_DATABASE_URL values '' @
                         ''to point at one instance database'')))"

definition server_process_configuration ::
  "bootstrap_configuration \<Rightarrow> composition_error + process_configuration" where
  "server_process_configuration cfg = execution_capable True"

end
