(* ===== verification/HostedServer.thy ===== *)
theory HostedServer
  imports Bootstrap
begin

text \<open>
  The hosted process of cpk-server (\<open>cpk_server/server.py\<close>): the credential verifier, the choice of
  interpreters, observers, secret resolution and probe signing, the application, its HTTP surface and
  \<open>main\<close>.

  The interpreters, the services and the database belong to other packages.  The model keeps which of
  them are composed and with which secrets: the record \<open>wiring\<close> is what
  \<open>_operations_application\<close> passes on, and \<open>host\<close> holds, as parameters, which optional
  packages are installed, what their constructors accept, the database and the services built from a
  wiring.
\<close>

section \<open>The verifier\<close>

definition credential_error :: "authentication_error + 'a \<Rightarrow> bootstrap_exn + 'a" where
  "credential_error r = (case r of Inl _ \<Rightarrow> Inl ValueErr | Inr x \<Rightarrow> Inr x)"

definition server_verifier ::
  "bootstrap_library \<Rightarrow> bootstrap_configuration \<Rightarrow> bootstrap_exn + server_credential list" where
  "server_verifier lib cfg =
     (if bc_verifier cfg = ''static-development'' then
        (if bc_principals cfg \<noteq> [] then credential_error (multi_credential_verifier (bc_principals cfg))
         else
           (case bc_static_credential cfg of
              None \<Rightarrow> Inl AssertionErr
            | Some credential \<Rightarrow>
                if bl_principal_ok lib (static_operator_identity (bc_grants cfg))
                then credential_error (single_verifier credential (static_operator_identity (bc_grants cfg)))
                else Inl ValueErr))
      else Inl (reject ''no credential verifier is configured for cpk-server''))"

section \<open>Secrets\<close>

datatype secrets =
    NoSecrets
  | LocalSecrets "(string \<times> string) list"
  | ProviderSecrets "(string \<times> string) list" "(string \<times> string) list"

fun resolves :: "secrets \<Rightarrow> bool" where
  "resolves NoSecrets = False"
| "resolves _ = True"

fun custodian :: "secrets \<Rightarrow> bool" where
  "custodian (ProviderSecrets _ _) = True"
| "custodian _ = False"

text \<open>The resolver of local development: present, or missing.\<close>

definition resolve_locally :: "(string \<times> string) list \<Rightarrow> string \<Rightarrow> string option" where
  "resolve_locally values reference_id = map_of values reference_id"

record wiring =
  w_database :: string
  w_secrets :: secrets
  w_runtime :: "(string \<times> secrets) list option"
  w_ingress :: "(string \<times> secrets) list option"
  w_observer :: "secrets option"
  w_probes :: "(secrets \<times> string \<times> int) option"

record ('r, 'w) host =
  ho_library :: bootstrap_library
  ho_installed :: "string \<Rightarrow> bool"
  ho_reference_ok :: "string \<Rightarrow> bool"
  ho_registry_ok :: "(string \<times> string) list \<Rightarrow> (string \<times> string) list \<Rightarrow> bool"
  ho_resolver_ok :: "string \<Rightarrow> bool"
  ho_install_schema :: "string \<Rightarrow> bool"
  ho_contracts :: "'r contracts"
  ho_role_text :: "'r \<Rightarrow> string"
  ho_services ::
    "wiring \<Rightarrow> 'r \<Rightarrow> (('r, workspace_grant static_principal) service_request \<Rightarrow> 'w \<Rightarrow>
       (service_failure + dict) \<times> 'w) option"

definition secret_composition :: "('r, 'w) host \<Rightarrow> bootstrap_configuration \<Rightarrow> bootstrap_exn + secrets" where
  "secret_composition h cfg =
     (if bc_resolver cfg = ''none'' then Inr NoSecrets
      else if bc_resolver cfg = ''local-development'' then
        (case bc_secret_values cfg of
           None \<Rightarrow> Inl AssertionErr
         | Some v \<Rightarrow>
             bindE (validated_mapping (ho_library h) v) (\<lambda>values.
             if list_all (\<lambda>(k, _). ho_reference_ok h k) values then Inr (LocalSecrets values)
             else Inl (reject ''local development secret registry is malformed'')))
      else if bc_resolver cfg \<noteq> ''provider'' then Inl AssertionErr
      else
        (case (bc_provider_routes cfg, bc_provider_files cfg) of
           (Some r, Some f) \<Rightarrow>
             if \<not> ho_installed h ''secret_provider''
             then Inl (reject ''secret provider integration is unavailable'')
             else
               (case (validated_mapping (ho_library h) r, validated_mapping (ho_library h) f) of
                  (Inr endpoints, Inr files) \<Rightarrow>
                    if ho_registry_ok h endpoints files then Inr (ProviderSecrets endpoints files)
                    else Inl (reject ''secret provider bootstrap configuration is unavailable'')
                | _ \<Rightarrow> Inl (reject ''secret provider bootstrap configuration is unavailable''))
         | _ \<Rightarrow> Inl AssertionErr))"

section \<open>Interpreters\<close>

definition quoted :: "string \<Rightarrow> string" where
  "quoted s = [CHR 0x27] @ s @ [CHR 0x27]"

definition docker_part :: "('r, 'w) host \<Rightarrow> secrets \<Rightarrow> bootstrap_exn + secrets" where
  "docker_part h sec =
     (if ho_installed h ''docker'' then Inr sec
      else Inl (reject (''CPK_RUNTIME_INTERPRETERS=docker requires '' @ ''control-plane-kit-interpreters[docker]'')))"

text \<open>\<open>None\<close> is the adapter that reports every effect as unsupported.\<close>

definition runtime_adapter ::
  "('r, 'w) host \<Rightarrow> bootstrap_configuration \<Rightarrow> secrets \<Rightarrow> bootstrap_exn + (string \<times> secrets) list option" where
  "runtime_adapter h cfg sec =
     (if \<not> rd_enabled (bc_runtime cfg) then Inr None
      else
        bindE (mapE (\<lambda>k. if k = bl_docker (ho_library h) then bindE (docker_part h sec) (\<lambda>i. Inr (k, i))
                         else Inl (reject (''no runtime interpreter provider is available for '' @ quoted k)))
                 (rd_kinds (bc_runtime cfg))) (\<lambda>is. Inr (Some is)))"

definition cloudflare_part :: "('r, 'w) host \<Rightarrow> secrets \<Rightarrow> bootstrap_exn + secrets" where
  "cloudflare_part h sec =
     (if \<not> ho_installed h ''cloudflare''
      then Inl (reject (''CPK_INGRESS_INTERPRETERS=cloudflare requires '' @ ''control-plane-kit-interpreters[cloudflare]''))
      else if \<not> resolves sec \<or> \<not> custodian sec
      then Inl (reject ''Cloudflare ingress requires provider-backed secret resolution'')
      else Inr sec)"

definition ingress_interpreters ::
  "('r, 'w) host \<Rightarrow> bootstrap_configuration \<Rightarrow> secrets \<Rightarrow> bootstrap_exn + (string \<times> secrets) list" where
  "ingress_interpreters h cfg sec =
     mapE (\<lambda>k. if k = bl_cloudflare (ho_library h) then bindE (cloudflare_part h sec) (\<lambda>i. Inr (k, i))
              else Inl (reject (''no ingress interpreter provider is available for '' @ quoted k)))
       (bc_ingress cfg)"

definition activity_adapter ::
  "('r, 'w) host \<Rightarrow> bootstrap_configuration \<Rightarrow> secrets \<Rightarrow>
   bootstrap_exn + (string \<times> secrets) list option \<times> (string \<times> secrets) list option" where
  "activity_adapter h cfg sec =
     bindE (runtime_adapter h cfg sec) (\<lambda>runtime.
     if bc_ingress cfg = [] then Inr (runtime, None)
     else bindE (ingress_interpreters h cfg sec) (\<lambda>ingress. Inr (runtime, Some ingress)))"

text \<open>\<open>None\<close> is the observer that reports every observation as unsupported.\<close>

definition runtime_observer ::
  "('r, 'w) host \<Rightarrow> bootstrap_configuration \<Rightarrow> secrets \<Rightarrow> bootstrap_exn + secrets option" where
  "runtime_observer h cfg sec =
     (if \<not> rd_enabled (bc_runtime cfg) then Inr None
      else if rd_kinds (bc_runtime cfg) = [bl_docker (ho_library h)]
      then bindE (docker_part h sec) (\<lambda>i. Inr (Some i))
      else Inl (reject ''runtime observation requires exactly one Docker runtime provider''))"

definition public_dns_resolver :: "('r, 'w) host \<Rightarrow> bootstrap_configuration \<Rightarrow> bootstrap_exn + string" where
  "public_dns_resolver h cfg =
     (if \<not> ho_installed h ''public-dns''
      then Inl (reject (''public DNS resolution requires '' @ ''control-plane-kit-interpreters[public-dns]''))
      else if ho_resolver_ok h (bc_dns_endpoint cfg) then Inr (bc_dns_endpoint cfg)
      else Inl (reject ''public DNS resolver bootstrap is malformed''))"

definition probe_dispatcher ::
  "('r, 'w) host \<Rightarrow> bootstrap_configuration \<Rightarrow> secrets \<Rightarrow> bootstrap_exn + secrets \<times> string" where
  "probe_dispatcher h cfg sec =
     (if bc_probe_signer cfg \<noteq> ''ed25519'' then Inl (reject ''gateway probe signer is disabled'')
      else if \<not> resolves sec then Inl (reject ''gateway probe signer requires provider-backed secret resolution'')
      else
        bindE (public_dns_resolver h cfg) (\<lambda>resolver.
        if ho_installed h ''gateway'' then Inr (sec, resolver)
        else Inl (reject (''CPK_GATEWAY_PROBE_SIGNER=ed25519 requires '' @ ''control-plane-kit-interpreters[gateway]''))))"

definition probe_service ::
  "('r, 'w) host \<Rightarrow> bootstrap_configuration \<Rightarrow> secrets \<Rightarrow> bootstrap_exn + (secrets \<times> string \<times> int) option" where
  "probe_service h cfg sec =
     (if bc_probe_signer cfg = ''none'' then Inr None
      else bindE (probe_dispatcher h cfg sec) (\<lambda>(s, resolver). Inr (Some (s, resolver, bc_probe_lifetime cfg))))"

section \<open>The application\<close>

definition operations_wiring :: "('r, 'w) host \<Rightarrow> bootstrap_configuration \<Rightarrow> bootstrap_exn + wiring" where
  "operations_wiring h cfg =
     bindE (operations_database_url cfg) (\<lambda>url.
     if \<not> ho_install_schema h url then Inl DatabaseErr
     else
       bindE (secret_composition h cfg) (\<lambda>sec.
       bindE (activity_adapter h cfg sec) (\<lambda>(runtime, ingress).
       bindE (runtime_observer h cfg sec) (\<lambda>observer.
       bindE (probe_service h cfg sec) (\<lambda>probes.
       Inr \<lparr>w_database = url, w_secrets = sec, w_runtime = runtime, w_ingress = ingress,
            w_observer = observer, w_probes = probes\<rparr>)))))"

record ('r, 'w) hosted =
  hd_configuration :: bootstrap_configuration
  hd_process :: process_configuration
  hd_wiring :: wiring
  hd_contracts :: "'r contracts"
  hd_application :: "('r, workspace_grant static_principal, 'w) application"

fun comma_list :: "string list \<Rightarrow> string" where
  "comma_list [] = []"
| "comma_list [x] = x"
| "comma_list (x # y # xs) = x @ '', '' @ comma_list (y # xs)"

definition missing_services :: "('r, 'w) host \<Rightarrow> wiring \<Rightarrow> composition_error" where
  "missing_services h w =
     CompositionError (''missing services: '' @
       comma_list (map (ho_role_text h)
         (filter (\<lambda>r. ho_services h w r = None) (service_roles (ho_contracts h)))))"

definition create_app ::
  "('r, 'w) host \<Rightarrow> bootstrap_configuration \<Rightarrow> server_credential list \<Rightarrow> bootstrap_exn + ('r, 'w) hosted" where
  "create_app h cfg verifier =
     (case server_process_configuration cfg of
        Inl e \<Rightarrow> Inl (CompositionErr e)
      | Inr process \<Rightarrow>
          bindE (operations_wiring h cfg) (\<lambda>w.
          case make_application (ho_contracts h) (ho_services h w) (Some (as_verifier verifier)) of
            None \<Rightarrow> Inl (CompositionErr (missing_services h w))
          | Some app \<Rightarrow>
              Inr \<lparr>hd_configuration = cfg, hd_process = process, hd_wiring = w, hd_contracts = ho_contracts h,
                   hd_application = app\<rparr>))"

section \<open>The HTTP surface\<close>

text \<open>A request as the framework hands it over; the path is \<open>request.url.path\<close>.\<close>

record http_call =
  hc_method :: string
  hc_path :: string
  hc_headers :: "(string \<times> string) list"
  hc_body :: string
  hc_query :: string

definition live_answer :: response where
  "live_answer = (200, [(''status'', JStr ''live'')])"

definition material_provider_text :: "string \<Rightarrow> string option" where
  "material_provider_text resolver =
     map_of [(''none'', ''disabled''), (''provider'', ''configured''), (''local-development'', ''development-fixture'')]
       resolver"

text \<open>\<open>None\<close> is the \<open>KeyError\<close> of an unknown resolver.\<close>

definition ready_answer :: "bootstrap_configuration \<Rightarrow> response option" where
  "ready_answer cfg =
     map_option (\<lambda>material.
       (200, [(''status'', JStr ''ready''), (''application'', JStr ''configured''), (''stores'', JStr ''configured''),
              (''runtime_interpreters'', JStr (rd_text (bc_runtime cfg))),
              (''ingress_interpreters'', JStr (ingress_text (bc_ingress cfg))),
              (''material_provider'', JStr material)]))
       (material_provider_text (bc_resolver cfg))"

definition invalid_json_answer :: response where
  "invalid_json_answer =
     (400, [(''error'', JObj [(''status'', JInt 400), (''message'', JStr ''invalid JSON request body'')])])"

datatype surface_exn = BoundaryException boundary_exception | UnknownMaterial

text \<open>
  Routing of the application: the fixed routes are declared first.  The framework refuses every other
  method, which is \<open>None\<close>.
\<close>

definition hosted_handle ::
  "('r, 'w) host \<Rightarrow> ('r, 'w) hosted \<Rightarrow> http_call \<Rightarrow>
   ('r, workspace_grant static_principal, 'w, (surface_exn + response) option) boundary_action" where
  "hosted_handle h srv rq = (\<lambda>s.
     if hc_method rq = ''GET'' \<and> hc_path rq = ''/health/live'' then (Some (Inr live_answer), s)
     else if hc_method rq = ''GET'' \<and> hc_path rq = ''/health/ready'' then
       (Some (case ready_answer (hd_configuration srv) of None \<Rightarrow> Inl UnknownMaterial | Some a \<Rightarrow> Inr a), s)
     else if hc_method rq = ''POST'' \<and> hc_path rq = ''/mcp'' then
       (case Option.bind (utf8_decode (hc_body rq)) (plain_loads (bl_json (ho_library h))) of
          None \<Rightarrow> (Some (Inr invalid_json_answer), s)
        | Some message \<Rightarrow>
            (case mcp_handle (hd_contracts srv) (hd_application srv) (hc_headers rq) message s of
               (Inl e, s') \<Rightarrow> (Some (Inl (BoundaryException e)), s')
             | (Inr r, s') \<Rightarrow> (Some (Inr r), s')))
     else if hc_method rq \<in> {''GET'', ''POST''} then
       (case http_handle (hd_contracts srv) (bl_json (ho_library h)) (hd_application srv) (hc_method rq)
               (hc_path rq) (hc_headers rq) (hc_body rq) (hc_query rq) s of
          (r, s') \<Rightarrow> (Some (Inr r), s'))
     else (None, s))"

section \<open>The process\<close>

text \<open>
  \<open>main\<close>: only the reading of the configuration and the verifier are inside the \<open>try\<close>;
  the application is created after the port was announced.
\<close>

datatype ('r, 'w) process_outcome =
    ExitStatus nat "string list"
  | Escaped bootstrap_exn "string list"
  | Serving "('r, 'w) hosted" int "string list"

definition announced :: "bootstrap_configuration \<Rightarrow> string" where
  "announced cfg = ''cpk-server listening on 0.0.0.0:'' @ int_text (bc_port cfg)"

fun composition_text :: "composition_error \<Rightarrow> string" where
  "composition_text (CompositionError m) = m"
| "composition_text (UnknownTargetError m) = m"

definition bootstrap_failure :: "string \<Rightarrow> ('r, 'w) process_outcome" where
  "bootstrap_failure m = ExitStatus 2 [''cpk-server bootstrap error: '' @ m]"

definition server_main :: "('r, 'w) host \<Rightarrow> (string \<times> string) list \<Rightarrow> ('r, 'w) process_outcome" where
  "server_main h values =
     (case bindE (configuration_from_values (ho_library h) values) (\<lambda>cfg.
             bindE (server_verifier (ho_library h) cfg) (\<lambda>v. Inr (cfg, v))) of
        Inl (BootstrapConfigurationError m) \<Rightarrow> bootstrap_failure m
      | Inl (CompositionErr e) \<Rightarrow> bootstrap_failure (composition_text e)
      | Inl e \<Rightarrow> Escaped e []
      | Inr (cfg, v) \<Rightarrow>
          (case create_app h cfg v of
             Inl e \<Rightarrow> Escaped e [announced cfg]
           | Inr srv \<Rightarrow> Serving srv (bc_port cfg) [announced cfg]))"

section \<open>Signed gateway probes\<close>

text \<open>
  \<open>_SignedGatewayProbeDispatcher\<close>.  The client of the interpreters package is a function of the
  authority it may talk to, the address policy and the request; what it raises is part of its outcome.
\<close>

datatype endpoint_context = RUNTIME_PRIVATE | PUBLIC | OtherContext string

record address_policy =
  ap_runtime_private_authorities :: "string list"
  ap_public_hosts :: "string list"
  ap_public_resolver :: bool

datatype client_outcome =
    SecurityFailure "string option"
  | ClientFailure
  | ClientResult string dict
  | ClientBroken

datatype attempt_status = SUCCEEDED | REJECTED | FAILED

record dispatch_result =
  dr_status :: attempt_status
  dr_code :: string
  dr_evidence :: dict

datatype dispatch_exn = GatewayProbeDispatchError string | DispatchValueError | DispatchBroken

record ('q, 'n) dispatcher =
  di_url :: url_library
  di_client :: "string \<Rightarrow> address_policy \<Rightarrow> 'q \<Rightarrow> 'n \<Rightarrow> client_outcome \<times> 'n"
  di_security_codes :: "string list"
  di_succeeded :: string
  di_rejected :: string

definition probe_policy :: "string \<Rightarrow> endpoint_context \<Rightarrow> string option \<Rightarrow> address_policy" where
  "probe_policy authority context host =
     \<lparr>ap_runtime_private_authorities = (if context = RUNTIME_PRIVATE then [authority] else []),
      ap_public_hosts = (case host of Some h \<Rightarrow> if context = PUBLIC then [h] else [] | None \<Rightarrow> []),
      ap_public_resolver = (context = PUBLIC)\<rparr>"

definition classify_outcome :: "('q, 'n) dispatcher \<Rightarrow> client_outcome \<Rightarrow> dispatch_exn + dispatch_result" where
  "classify_outcome d outcome =
     (case outcome of
        SecurityFailure code \<Rightarrow>
          (case code of
             Some c \<Rightarrow>
               if c \<in> set (di_security_codes d)
               then Inr \<lparr>dr_status = FAILED, dr_code = ''gateway-endpoint-'' @ c,
                         dr_evidence = [(''failure_code'', JStr c), (''failure_domain'', JStr ''endpoint-security'')]\<rparr>
               else Inl (GatewayProbeDispatchError ''gateway endpoint security failure is unclassified'')
           | None \<Rightarrow> Inl (GatewayProbeDispatchError ''gateway endpoint security failure is unclassified''))
      | ClientFailure \<Rightarrow>
          Inr \<lparr>dr_status = FAILED, dr_code = ''gateway-client-failed'',
               dr_evidence = [(''failure_domain'', JStr ''gateway-client'')]\<rparr>
      | ClientResult code evidence \<Rightarrow>
          Inr \<lparr>dr_status = (if code = di_succeeded d then SUCCEEDED else if code = di_rejected d then REJECTED
                            else FAILED),
               dr_code = code, dr_evidence = evidence\<rparr>
      | ClientBroken \<Rightarrow> Inl DispatchBroken)"

text \<open>The address of the endpoint is \<open>None\<close> unless it is a literal.\<close>

definition dispatch_probe ::
  "('q, 'n) dispatcher \<Rightarrow> endpoint_context \<Rightarrow> string option \<Rightarrow> 'q \<Rightarrow> 'n \<Rightarrow>
   (dispatch_exn + dispatch_result) \<times> 'n" where
  "dispatch_probe d context address rq n =
     (case (context \<in> {RUNTIME_PRIVATE, PUBLIC}, address) of
        (True, Some a) \<Rightarrow>
          (case urlsplit (di_url d) a of
             None \<Rightarrow> (Inl DispatchValueError, n)
           | Some u \<Rightarrow>
               if u_scheme u = [] \<or> u_netloc u = []
               then (Inl (GatewayProbeDispatchError ''gateway endpoint is malformed''), n)
               else
                 (let authority = u_scheme u @ ''://'' @ u_netloc u in
                  case di_client d authority (probe_policy authority context (hostname u)) rq n of
                    (outcome, n') \<Rightarrow> (classify_outcome d outcome, n')))
      | _ \<Rightarrow> (Inl (GatewayProbeDispatchError ''gateway endpoint is not an admitted gateway address''), n))"

end
