(* ===== verification/ServerProperties.thy ===== *)
theory ServerProperties
  imports HostedServer BoundaryProperties
begin

text \<open>
  What the hosted server guarantees: the configurations it accepts are coherent, it dispatches requests
  of configured credentials only, and how it ends when it cannot start.
\<close>

section \<open>Accepted configurations\<close>

lemma remdups_length_distinct:
  "length (remdups xs) = length xs \<longleftrightarrow> distinct xs"
  "length (remdups (map f ys)) = length ys \<longleftrightarrow> distinct (map f ys)"
  using length_remdups_eq [of xs] length_remdups_eq [of "map f ys"] by (simp_all add: remdups_id_iff_distinct)

lemma sort_key_empty [simp]: "sort_key f xs = [] \<longleftrightarrow> xs = []"
  by (metis length_0_conv length_sort)

definition sound_grant :: "bootstrap_library \<Rightarrow> workspace_grant \<Rightarrow> bool" where
  "sound_grant lib g \<longleftrightarrow>
     wg_workspace_id g \<noteq> ''*'' \<and> wg_workspace_id g \<noteq> [] \<and> list_all printable (wg_workspace_id g) \<and>
     length (wg_workspace_id g) \<le> 128 \<and>
     wg_scopes g \<noteq> [] \<and> distinct (wg_scopes g) \<and> set (wg_scopes g) \<subseteq> set (bl_scopes lib)"

definition sound_grants :: "bootstrap_library \<Rightarrow> workspace_grant list \<Rightarrow> bool" where
  "sound_grants lib gs \<longleftrightarrow>
     gs \<noteq> [] \<and> length gs \<le> 64 \<and> sorted (map wg_workspace_id gs) \<and> list_all (sound_grant lib) gs"

lemma str_len_ascii: "is_ascii s \<Longrightarrow> str_len s = length s"
  by (induction s) (auto simp: str_len_def is_cont_def)

lemma bounded_ascii_Inr:
  "bounded_ascii v name m = Inr s \<Longrightarrow>
     v = Some s \<and> s \<noteq> [] \<and> length s \<le> m \<and> is_ascii s \<and> list_all printable s"
  by (auto simp: bounded_ascii_def str_len_ascii split: option.splits if_splits)

lemma grant_scopes_Inr:
  assumes "grant_scopes lib v = Inr scopes"
  shows "scopes \<noteq> [] \<and> distinct scopes \<and> set scopes \<subseteq> set (bl_scopes lib)"
  using assms
  by (auto simp: grant_scopes_def all_strings_def remdups_length_distinct Let_def
      split: json.splits if_splits option.splits)

lemma read_grants_sound:
  "read_grants lib d = Inr gs \<Longrightarrow> length gs = length d \<and> list_all (sound_grant lib) gs"
proof (induction d arbitrary: gs)
  case (Cons p d)
  obtain k v where p: "p = (k, v)" by (cases p)
  obtain i scopes gs' where parts: "k \<noteq> ''*''" "bounded_ascii (Some k) ''static workspace grant id'' 128 = Inr i"
    "grant_scopes lib v = Inr scopes" "read_grants lib d = Inr gs'"
    "gs = \<lparr>wg_workspace_id = i, wg_scopes = scopes\<rparr> # gs'"
    using Cons.prems by (auto simp: p Let_def split: if_splits)
  then have "sound_grant lib \<lparr>wg_workspace_id = i, wg_scopes = scopes\<rparr>"
    using bounded_ascii_Inr [OF parts(2)] grant_scopes_Inr [OF parts(3)] by (auto simp: sound_grant_def)
  with Cons.IH [OF parts(4)] parts(5) show ?case by simp
qed simp

lemma grants_from_mapping_sound: "grants_from_mapping lib raw = Inr gs \<Longrightarrow> sound_grants lib gs"
  by (auto simp: grants_from_mapping_def sound_grants_def list_all_iff split: json.splits if_splits
      dest!: read_grants_sound)

lemma static_workspace_grants_sound: "static_workspace_grants lib v = Inr gs \<Longrightarrow> sound_grants lib gs"
  by (auto simp: static_workspace_grants_def intro: grants_from_mapping_sound)

definition sound_principal :: "bootstrap_library \<Rightarrow> server_credential \<Rightarrow> bool" where
  "sound_principal lib c \<longleftrightarrow>
     static_credential_ok (sc_credential c) \<and> sound_grants lib (sp_grants (sc_principal c)) \<and>
     bl_principal_ok lib (sc_principal c) \<and>
     sp_issuer (sc_principal c) = ''urn:control-plane-kit:static-development''"

lemma read_principal_sound: "read_principal lib i x = Inr c \<Longrightarrow> sound_principal lib c"
  by (auto simp: read_principal_def Let_def sound_principal_def static_development_principal_def
      static_principal_credential_def split: json.splits if_splits sum.splits
      dest!: grants_from_mapping_sound)

lemma read_principals_sound:
  "read_principals lib i xs = Inr ps \<Longrightarrow> length ps = length xs \<and> list_all (sound_principal lib) ps"
  by (induction xs arbitrary: i ps) (auto dest: read_principal_sound)

lemma static_principals_sound:
  assumes "static_principals lib v = Inr ps"
  shows "ps \<noteq> [] \<and> length ps \<le> 16 \<and> distinct (map sc_credential ps) \<and> list_all (sound_principal lib) ps"
proof (cases "bounded_json lib v ''CPK_CONTROL_AUTH_STATIC_PRINCIPALS_JSON'' 131072")
  case (Inr raw)
  with assms show ?thesis
    by (auto simp: static_principals_def remdups_length_distinct split: json.splits if_splits
        dest!: read_principals_sound)
qed (use assms in \<open>simp add: static_principals_def\<close>)

definition sound_authentication :: "bootstrap_library \<Rightarrow> bootstrap_configuration \<Rightarrow> bool" where
  "sound_authentication lib cfg \<longleftrightarrow>
     (bc_verifier cfg = ''none'' \<and> bc_static_credential cfg = None \<and> bc_grants cfg = [] \<and> bc_principals cfg = []) \<or>
     (bc_verifier cfg = ''static-development'' \<and>
      (bc_static_credential cfg = None \<and> bc_grants cfg = [] \<and> bc_principals cfg \<noteq> [] \<and>
         length (bc_principals cfg) \<le> 16 \<and> distinct (map sc_credential (bc_principals cfg)) \<and>
         list_all (sound_principal lib) (bc_principals cfg) \<or>
       (\<exists>c. bc_static_credential cfg = Some c \<and> static_credential_ok c) \<and> sound_grants lib (bc_grants cfg) \<and>
         bc_principals cfg = []))"

lemma single_static_credential_sound:
  assumes "single_static_credential lib c g = Inr auth"
  shows "as_credential auth = Some c \<and> static_credential_ok c \<and> sound_grants lib (as_grants auth) \<and>
    as_principals auth = []"
  using assms
  by (auto simp: single_static_credential_def single_verifier_def static_principal_credential_def
      split: if_splits sum.splits option.splits list.splits dest: static_workspace_grants_sound)

lemma authentication_from_values_sound:
  assumes "authentication_from_values lib values v = Inr auth" and "v \<in> {''none'', ''static-development''}"
    and "bc_verifier cfg = v" and "bc_static_credential cfg = as_credential auth" and "bc_grants cfg = as_grants auth"
    and "bc_principals cfg = as_principals auth"
  shows "sound_authentication lib cfg"
proof (cases "v = ''static-development''")
  case True
  with assms show ?thesis
    by (auto simp: authentication_from_values_def sound_authentication_def Let_def
        split: option.splits if_splits list.splits
        dest!: static_principals_sound single_static_credential_sound)
next
  case False
  with assms show ?thesis
    by (auto simp: authentication_from_values_def sound_authentication_def Let_def split: if_splits)
qed

text \<open>Everything the constructor of a configuration was given, from one reading of the environment.\<close>

lemma configuration_parts:
  assumes "configuration_from_values lib values = Inr cfg"
  obtains auth where
    "bc_mode cfg = ''execution-capable''"
    "bc_verifier cfg \<in> {''none'', ''static-development''}"
    "authentication_from_values lib values (bc_verifier cfg) = Inr auth"
    "bc_static_credential cfg = as_credential auth" "bc_grants cfg = as_grants auth"
    "bc_principals cfg = as_principals auth"
    "\<exists>t. port_setting lib t = Inr (bc_port cfg)" "\<exists>t. lifetime_setting lib t = Inr (bc_probe_lifetime cfg)"
    "\<exists>t. ingress_from_process_value lib t = Inr (bc_ingress cfg)"
    "mapE (\<lambda>name. bindE (required_value values name) (\<lambda>v. Inr (name, v))) STORE_NAMES = Inr (bc_stores cfg)"
    "\<not> list_ex (\<lambda>n. map_of values n \<noteq> None) LEGACY_NAMES"
    "check_signer (bc_resolver cfg) (bc_probe_signer cfg) = Inr ()"
    "check_local_development lib (bc_runtime cfg) (bc_ingress cfg) (bc_resolver cfg) (bc_probe_signer cfg)
       (bc_secret_values cfg) (bc_provider_routes cfg) (bc_provider_files cfg) = Inr ()"
    "check_provider lib (bc_resolver cfg) (bc_provider_routes cfg) (bc_provider_files cfg) = Inr ()"
    "check_ingress lib (bc_ingress cfg) (bc_resolver cfg) = Inr ()"
proof -
  from assms obtain mode port_text runtime ingress dns stores auth port lifetime where
    parts: "mode = ''execution-capable''"
    "get_or values ''CPK_CONTROL_AUTH_VERIFIER'' ''none'' \<in> {''none'', ''static-development''}"
    "authentication_from_values lib values (get_or values ''CPK_CONTROL_AUTH_VERIFIER'' ''none'') = Inr auth"
    "port_setting lib port_text = Inr port"
    "lifetime_setting lib (get_or values ''CPK_GATEWAY_PROBE_GRANT_LIFETIME_SECONDS'' ''60'') = Inr lifetime"
    "ingress_from_process_value lib (get_or values ''CPK_INGRESS_INTERPRETERS'' ''none'') = Inr ingress"
    "mapE (\<lambda>name. bindE (required_value values name) (\<lambda>v. Inr (name, v))) STORE_NAMES = Inr stores"
    "\<not> list_ex (\<lambda>n. map_of values n \<noteq> None) LEGACY_NAMES"
    and checks: "check_signer (bc_resolver cfg) (bc_probe_signer cfg) = Inr ()"
    "check_local_development lib runtime ingress (bc_resolver cfg) (bc_probe_signer cfg)
       (bc_secret_values cfg) (bc_provider_routes cfg) (bc_provider_files cfg) = Inr ()"
    "check_provider lib (bc_resolver cfg) (bc_provider_routes cfg) (bc_provider_files cfg) = Inr ()"
    "check_ingress lib ingress (bc_resolver cfg) = Inr ()"
    and fields: "bc_mode cfg = mode" "bc_verifier cfg = get_or values ''CPK_CONTROL_AUTH_VERIFIER'' ''none''"
    "bc_static_credential cfg = as_credential auth" "bc_grants cfg = as_grants auth"
    "bc_principals cfg = as_principals auth" "bc_port cfg = port" "bc_probe_lifetime cfg = lifetime"
    "bc_ingress cfg = ingress" "bc_stores cfg = stores" "bc_runtime cfg = runtime"
    by (fastforce simp: configuration_from_values_def Let_def simp del: mapE.simps bindE_simps)
  show ?thesis
    by (rule that [of auth]) (use parts checks in \<open>simp_all only: fields\<close>, blast+)
qed

lemma ingress_sound:
  assumes "ingress_from_process_value lib v = Inr ks"
  shows "distinct ks \<and> set ks \<subseteq> set (bl_ingress_kinds lib)"
proof -
  have kinds: "mapE (\<lambda>p. if p \<in> set ks' then Inr p else Inl e) parts = Inr zs \<Longrightarrow> set zs \<subseteq> set ks'"
    for parts zs ks' and e :: bootstrap_exn
    by (induction parts arbitrary: zs) (auto split: if_splits)
  show ?thesis
    using assms
    by (auto simp: ingress_from_process_value_def Let_def remdups_length_distinct split: if_splits
        dest!: kinds)
qed

lemma stores_sound:
  assumes "mapE (\<lambda>name. bindE (required_value values name) (\<lambda>v. Inr (name, v))) names = Inr stores"
  shows "map fst stores = names \<and> (\<forall>(n, url) \<in> set stores. url \<noteq> [] \<and> map_of values n = Some url)"
  using assms
  by (induction names arbitrary: stores) (auto simp: required_value_def split: option.splits list.splits)

text \<open>
  C20.  Every configuration the server reads from its environment is coherent: bounds of the numbers, the
  four stores, no legacy credentials, the rules between the secret resolver and what needs it, and an
  authentication that is either off or a list of valid distinct credentials with bounded exact grants.
\<close>

theorem accepted_configuration_is_coherent:
  assumes "configuration_from_values lib values = Inr cfg"
  shows "bc_mode cfg = ''execution-capable'' \<and> 1 \<le> bc_port cfg \<and> bc_port cfg \<le> 65535 \<and>
    1 \<le> bc_probe_lifetime cfg \<and> bc_probe_lifetime cfg \<le> 300 \<and>
    distinct (bc_ingress cfg) \<and> set (bc_ingress cfg) \<subseteq> set (bl_ingress_kinds lib) \<and>
    map fst (bc_stores cfg) = STORE_NAMES \<and> (\<forall>n \<in> set LEGACY_NAMES. map_of values n = None) \<and>
    (bc_probe_signer cfg = ''ed25519'' \<or> bl_cloudflare lib \<in> set (bc_ingress cfg) \<longrightarrow> bc_resolver cfg = ''provider'') \<and>
    (bc_resolver cfg = ''local-development'' \<longrightarrow> bl_docker lib \<in> set (rd_kinds (bc_runtime cfg))) \<and>
    (bc_secret_values cfg \<noteq> None \<longleftrightarrow> bc_resolver cfg = ''local-development'') \<and>
    (bc_provider_routes cfg \<noteq> None \<longleftrightarrow> bc_resolver cfg = ''provider'') \<and>
    (bc_provider_files cfg \<noteq> None \<longleftrightarrow> bc_resolver cfg = ''provider'') \<and>
    sound_authentication lib cfg"
proof -
  from assms obtain auth where
    m: "bc_mode cfg = ''execution-capable''" "bc_verifier cfg \<in> {''none'', ''static-development''}"
    "authentication_from_values lib values (bc_verifier cfg) = Inr auth"
    "bc_static_credential cfg = as_credential auth" "bc_grants cfg = as_grants auth"
    "bc_principals cfg = as_principals auth"
    and n: "\<exists>t. port_setting lib t = Inr (bc_port cfg)" "\<exists>t. lifetime_setting lib t = Inr (bc_probe_lifetime cfg)"
    "\<exists>t. ingress_from_process_value lib t = Inr (bc_ingress cfg)"
    "mapE (\<lambda>name. bindE (required_value values name) (\<lambda>v. Inr (name, v))) STORE_NAMES = Inr (bc_stores cfg)"
    "\<not> list_ex (\<lambda>n. map_of values n \<noteq> None) LEGACY_NAMES"
    and c: "check_signer (bc_resolver cfg) (bc_probe_signer cfg) = Inr ()"
    "check_local_development lib (bc_runtime cfg) (bc_ingress cfg) (bc_resolver cfg) (bc_probe_signer cfg)
       (bc_secret_values cfg) (bc_provider_routes cfg) (bc_provider_files cfg) = Inr ()"
    "check_provider lib (bc_resolver cfg) (bc_provider_routes cfg) (bc_provider_files cfg) = Inr ()"
    "check_ingress lib (bc_ingress cfg) (bc_resolver cfg) = Inr ()"
    by (rule configuration_parts)
  have "sound_authentication lib cfg"
    by (rule authentication_from_values_sound [OF m(3,2) refl m(4-6)])
  moreover have "1 \<le> bc_port cfg \<and> bc_port cfg \<le> 65535"
    using n(1) by (auto simp: port_setting_def split: option.splits if_splits)
  moreover have "1 \<le> bc_probe_lifetime cfg \<and> bc_probe_lifetime cfg \<le> 300"
    using n(2) by (auto simp: lifetime_setting_def split: option.splits if_splits)
  moreover have "distinct (bc_ingress cfg) \<and> set (bc_ingress cfg) \<subseteq> set (bl_ingress_kinds lib)"
    using n(3) ingress_sound by blast
  moreover have "map fst (bc_stores cfg) = STORE_NAMES" using stores_sound [OF n(4)] by blast
  moreover have "\<forall>n \<in> set LEGACY_NAMES. map_of values n = None" using n(5) by (auto simp: list_ex_iff)
  moreover have "bc_probe_signer cfg = ''ed25519'' \<or> bl_cloudflare lib \<in> set (bc_ingress cfg) \<longrightarrow> bc_resolver cfg = ''provider''"
    using c(1,4) by (auto simp: check_signer_def check_ingress_def)
  moreover have "bc_resolver cfg = ''local-development'' \<longrightarrow> bl_docker lib \<in> set (rd_kinds (bc_runtime cfg))"
    using c(1,2,4) by (auto simp: check_signer_def check_local_development_def check_ingress_def)
  moreover have "bc_secret_values cfg \<noteq> None \<longleftrightarrow> bc_resolver cfg = ''local-development''"
    using c(2) by (auto simp: check_local_development_def split: if_splits)
  moreover have "(bc_provider_routes cfg \<noteq> None \<longleftrightarrow> bc_resolver cfg = ''provider'') \<and>
      (bc_provider_files cfg \<noteq> None \<longleftrightarrow> bc_resolver cfg = ''provider'')"
    using c(3) by (auto simp: check_provider_def split: if_splits option.splits list.splits)
  ultimately show ?thesis using m(1) by blast
qed

section \<open>Who reaches a service\<close>

lemma http_handle_log:
  assumes "http_handle c lib app meth path headers body query s = (response, s')"
  shows "dispatched s' = dispatched s \<or>
    (\<exists>q. dispatched s' = dispatched s @ [q] \<and>
       authenticate_bearer_credential headers (credential_verifier app) = Inr (principal q))"
  using assms
  by (auto simp: http_handle_def split: option.splits prod.splits sum.splits dest!: dispatch_application_log)

lemma mcp_handle_log:
  assumes "mcp_handle c app headers message s = (response, s')"
  shows "dispatched s' = dispatched s \<or>
    (\<exists>q. dispatched s' = dispatched s @ [q] \<and>
       authenticate_bearer_credential headers (credential_verifier app) = Inr (principal q))"
  using assms
  by (auto simp: mcp_handle_def split: option.splits prod.splits sum.splits json.splits if_splits
      dest!: dispatch_application_log decode_mcp_sound)

lemma hosted_handle_log:
  assumes "hosted_handle h srv rq s = (response, s')"
  shows "dispatched s' = dispatched s \<or>
    (\<exists>q. dispatched s' = dispatched s @ [q] \<and>
       authenticate_bearer_credential (hc_headers rq) (credential_verifier (hd_application srv)) = Inr (principal q))"
  using assms
  by (auto simp: hosted_handle_def split: if_splits option.splits prod.splits sum.splits
      dest!: mcp_handle_log http_handle_log)

text \<open>The credentials of a configuration, with their principals.\<close>

definition configured :: "bootstrap_configuration \<Rightarrow> (string \<times> workspace_grant static_principal) set" where
  "configured cfg =
     (if bc_principals cfg \<noteq> [] then (\<lambda>c. (sc_credential c, sc_principal c)) ` set (bc_principals cfg)
      else case bc_static_credential cfg of
             None \<Rightarrow> {} | Some c \<Rightarrow> {(c, static_operator_identity (bc_grants cfg))})"

lemma credential_error_Inr [simp]: "credential_error r = Inr x \<longleftrightarrow> r = Inr x"
  by (cases r) (auto simp: credential_error_def)

lemma server_verifier_configured:
  assumes "server_verifier lib cfg = Inr v" and "as_verifier v token = Some p"
  shows "(token, p) \<in> configured cfg \<and> bc_verifier cfg = ''static-development''"
proof (cases "bc_principals cfg = []")
  case False
  then have v: "v = bc_principals cfg" "distinct (map sc_credential v)" "bc_verifier cfg = ''static-development''"
    using assms(1) by (auto simp: server_verifier_def multi_credential_verifier_Inr split: if_splits)
  then have "\<lparr>sc_credential = token, sc_principal = p\<rparr> \<in> set (bc_principals cfg)"
    using assms(2) as_verifier_iff [OF v(2)] v(1) by simp
  then have "(token, p) \<in> (\<lambda>c. (sc_credential c, sc_principal c)) ` set (bc_principals cfg)"
    by (rule rev_image_eqI) simp
  with False v(3) show ?thesis by (simp add: configured_def)
next
  case True
  then obtain c where c: "bc_static_credential cfg = Some c" "bc_verifier cfg = ''static-development''"
    and v: "v = [\<lparr>sc_credential = c, sc_principal = static_operator_identity (bc_grants cfg)\<rparr>]"
    using assms(1)
    by (auto simp: server_verifier_def single_verifier_def static_principal_credential_def
        multi_credential_verifier_Inr split: if_splits option.splits)
  then show ?thesis
    using True assms(2) by (auto simp: configured_def as_verifier_def split: sum.splits if_splits)
qed

lemma configured_sound:
  assumes "sound_authentication lib cfg" and "(token, p) \<in> configured cfg"
  shows "static_credential_ok token \<and> sound_grants lib (sp_grants p) \<and>
    sp_issuer p = ''urn:control-plane-kit:static-development''"
  using assms
  by (auto simp: sound_authentication_def configured_def sound_principal_def static_operator_identity_def
      list_all_iff split: if_splits option.splits)

lemma serving_parts:
  assumes "server_main h values = Serving srv port out"
  obtains cfg v where "configuration_from_values (ho_library h) values = Inr cfg"
    and "server_verifier (ho_library h) cfg = Inr v" and "port = bc_port cfg" and "create_app h cfg v = Inr srv"
proof -
  obtain x where x: "bindE (configuration_from_values (ho_library h) values) (\<lambda>cfg.
             bindE (server_verifier (ho_library h) cfg) (\<lambda>v. Inr (cfg, v))) = Inr x"
    using assms
    by (auto simp: server_main_def bootstrap_failure_def split: sum.splits bootstrap_exn.splits)
  then obtain cfg v where "configuration_from_values (ho_library h) values = Inr cfg"
    "server_verifier (ho_library h) cfg = Inr v" "x = (cfg, v)" by auto
  with x assms that show ?thesis
    by (auto simp: server_main_def split: sum.splits)
qed

lemma create_app_verifier:
  assumes "create_app h cfg v = Inr srv"
  shows "credential_verifier (hd_application srv) = as_verifier v \<and> hd_configuration srv = cfg \<and>
    authentication_required (hd_process srv)"
  using assms
  by (auto simp: create_app_def make_application_def server_process_configuration_def execution_capable_def
      make_configuration_def split: sum.splits option.splits if_splits)

text \<open>
  C19.  The server is closed.  When it serves, it runs the configuration of its environment on that
  configuration's port, with the static verifier; whatever request arrives, over HTTP or MCP, a service
  sees at most one request, and only with a bearer credential of that configuration and as its principal,
  whose grants are bounded, name no wildcard and were issued by the static development issuer.
\<close>

theorem hosted_server_is_closed:
  assumes "server_main h values = Serving srv port out" and "hosted_handle h srv rq s = (response, s')"
  shows "\<exists>cfg. configuration_from_values (ho_library h) values = Inr cfg \<and> hd_configuration srv = cfg \<and>
    port = bc_port cfg \<and> authentication_required (hd_process srv) \<and>
    (dispatched s' = dispatched s \<or>
     (\<exists>q token. dispatched s' = dispatched s @ [q] \<and> extract_bearer_credential (hc_headers rq) = Inr token \<and>
        (token, principal q) \<in> configured cfg \<and> bc_verifier cfg = ''static-development'' \<and>
        sound_grants (ho_library h) (sp_grants (principal q))))"
proof -
  obtain cfg v where cfg: "configuration_from_values (ho_library h) values = Inr cfg"
    and v: "server_verifier (ho_library h) cfg = Inr v" and port: "port = bc_port cfg"
    and app: "create_app h cfg v = Inr srv"
    using serving_parts [OF assms(1)] .
  have sound: "sound_authentication (ho_library h) cfg"
  proof -
    obtain auth where "bc_verifier cfg \<in> {''none'', ''static-development''}"
      "authentication_from_values (ho_library h) values (bc_verifier cfg) = Inr auth"
      "bc_static_credential cfg = as_credential auth" "bc_grants cfg = as_grants auth"
      "bc_principals cfg = as_principals auth"
      by (rule configuration_parts [OF cfg])
    then show ?thesis by (intro authentication_from_values_sound [OF _ _ refl])
  qed
  have "\<exists>token. extract_bearer_credential (hc_headers rq) = Inr token \<and> (token, principal q) \<in> configured cfg \<and>
      bc_verifier cfg = ''static-development'' \<and> sound_grants (ho_library h) (sp_grants (principal q))"
    if "authenticate_bearer_credential (hc_headers rq) (credential_verifier (hd_application srv)) = Inr (principal q)"
    for q :: "('a, workspace_grant static_principal) service_request"
    using that create_app_verifier [OF app] server_verifier_configured [OF v] configured_sound [OF sound]
    by (fastforce simp: authenticate_bearer_credential_def split: option.splits)
  then show ?thesis
    using cfg port create_app_verifier [OF app] hosted_handle_log [OF assms(2)] by blast
qed

section \<open>How the process starts\<close>

lemma docker_part_Inr [simp]: "docker_part h sec = Inr x \<longleftrightarrow> ho_installed h ''docker'' \<and> x = sec"
  by (auto simp: docker_part_def)

lemma cloudflare_part_Inr [simp]:
  "cloudflare_part h sec = Inr x \<longleftrightarrow> ho_installed h ''cloudflare'' \<and> custodian sec \<and> x = sec"
  by (cases sec) (auto simp: cloudflare_part_def)

lemma ingress_interpreters_Inr:
  assumes "ingress_interpreters h cfg sec = Inr is"
  shows "is = map (\<lambda>k. (k, sec)) (bc_ingress cfg) \<and>
    (\<forall>k \<in> set (bc_ingress cfg). k = bl_cloudflare (ho_library h) \<and> custodian sec)"
proof -
  have "mapE (\<lambda>k. if k = c then bindE (cloudflare_part h sec) (\<lambda>i. Inr (k, i)) else Inl (e k)) ks = Inr is \<Longrightarrow>
      is = map (\<lambda>k. (k, sec)) ks \<and> (\<forall>k \<in> set ks. k = c \<and> custodian sec)" for ks c e "is"
    by (induction ks arbitrary: "is") (auto split: if_splits)
  from this [OF assms [unfolded ingress_interpreters_def]] show ?thesis .
qed

text \<open>What is composed for an accepted configuration.\<close>

definition coherent_wiring :: "bootstrap_library \<Rightarrow> bootstrap_configuration \<Rightarrow> wiring \<Rightarrow> bool" where
  "coherent_wiring lib cfg w \<longleftrightarrow>
     set (map snd (bc_stores cfg)) = {w_database w} \<and>
     (case w_secrets w of
        NoSecrets \<Rightarrow> bc_resolver cfg = ''none''
      | LocalSecrets _ \<Rightarrow> bc_resolver cfg = ''local-development''
      | ProviderSecrets _ _ \<Rightarrow> bc_resolver cfg = ''provider'') \<and>
     w_runtime w = (if rd_enabled (bc_runtime cfg) then Some [(bl_docker lib, w_secrets w)] else None) \<and>
     w_observer w = (if rd_enabled (bc_runtime cfg) then Some (w_secrets w) else None) \<and>
     (case w_ingress w of
        None \<Rightarrow> bc_ingress cfg = []
      | Some is \<Rightarrow> is = map (\<lambda>k. (k, w_secrets w)) (bc_ingress cfg) \<and> set (bc_ingress cfg) = {bl_cloudflare lib} \<and>
          custodian (w_secrets w)) \<and>
     (case w_probes w of
        None \<Rightarrow> bc_probe_signer cfg = ''none''
      | Some (sec, resolver, lifetime) \<Rightarrow>
          bc_probe_signer cfg = ''ed25519'' \<and> sec = w_secrets w \<and> resolves sec \<and>
          resolver = bc_dns_endpoint cfg \<and> lifetime = bc_probe_lifetime cfg)"

lemma secret_composition_kind:
  assumes "secret_composition h cfg = Inr sec"
  shows "case sec of
        NoSecrets \<Rightarrow> bc_resolver cfg = ''none''
      | LocalSecrets _ \<Rightarrow> bc_resolver cfg = ''local-development''
      | ProviderSecrets _ _ \<Rightarrow> bc_resolver cfg = ''provider''"
  using assms
  by (auto simp: secret_composition_def split: if_splits option.splits sum.splits)

lemma probe_service_Inr:
  assumes "probe_service h cfg sec = Inr p"
  shows "case p of
        None \<Rightarrow> bc_probe_signer cfg = ''none''
      | Some (s, resolver, lifetime) \<Rightarrow>
          bc_probe_signer cfg = ''ed25519'' \<and> s = sec \<and> resolves s \<and>
          resolver = bc_dns_endpoint cfg \<and> lifetime = bc_probe_lifetime cfg"
  using assms
  by (auto simp: probe_service_def probe_dispatcher_def public_dns_resolver_def split: if_splits)

lemma runtime_parts:
  assumes "runtime_adapter h cfg sec = Inr runtime" and "runtime_observer h cfg sec = Inr observer"
  shows "runtime = (if rd_enabled (bc_runtime cfg) then Some [(bl_docker (ho_library h), sec)] else None) \<and>
    observer = (if rd_enabled (bc_runtime cfg) then Some sec else None)"
  using assms by (auto simp: runtime_adapter_def runtime_observer_def split: if_splits)

lemma operations_wiring_coherent:
  assumes "operations_wiring h cfg = Inr w"
  shows "coherent_wiring (ho_library h) cfg w"
proof -
  obtain url sec runtime ingress observer probes where
    url: "operations_database_url cfg = Inr url" and sec: "secret_composition h cfg = Inr sec"
    and act: "activity_adapter h cfg sec = Inr (runtime, ingress)"
    and obs: "runtime_observer h cfg sec = Inr observer" and pr: "probe_service h cfg sec = Inr probes"
    and w: "w = \<lparr>w_database = url, w_secrets = sec, w_runtime = runtime, w_ingress = ingress,
            w_observer = observer, w_probes = probes\<rparr>"
    using assms by (auto simp: operations_wiring_def split: if_splits)
  have "remdups (map snd (bc_stores cfg)) = [url]"
    using url by (auto simp: operations_database_url_def split: list.splits)
  then have "set (map snd (bc_stores cfg)) = {url}" by (metis list.set(1) list.simps(15) set_remdups)
  moreover have "runtime_adapter h cfg sec = Inr runtime"
    using act by (auto simp: activity_adapter_def split: if_splits)
  note runtime_parts [OF this obs]
  moreover have "case ingress of
        None \<Rightarrow> bc_ingress cfg = []
      | Some is \<Rightarrow> is = map (\<lambda>k. (k, sec)) (bc_ingress cfg) \<and>
          set (bc_ingress cfg) = {bl_cloudflare (ho_library h)} \<and> custodian sec"
    using act by (cases "bc_ingress cfg") (auto simp: activity_adapter_def dest!: ingress_interpreters_Inr)
  ultimately show ?thesis
    using secret_composition_kind [OF sec] probe_service_Inr [OF pr]
    unfolding coherent_wiring_def w wiring.select_convs by simp
qed

text \<open>
  How the process ends or starts, in every environment.  Exit status 2, with one line, means that
  the configuration or the verifier was refused.  Serving means that the port was announced and that what
  is composed agrees with the configuration: one database, the resolver it names, exactly the Docker
  interpreter and observer or none, Cloudflare only with custody, signing only with a resolver.  Any other
  error escapes; what goes wrong while the application is composed -- configuration errors included --
  escapes after the port was announced.
\<close>

theorem server_start_outcomes:
  "case server_main h values of
     ExitStatus n out \<Rightarrow> n = 2 \<and> length out = 1 \<and>
       ((\<exists>e. configuration_from_values (ho_library h) values = Inl e) \<or>
        (\<exists>cfg e. configuration_from_values (ho_library h) values = Inr cfg \<and> server_verifier (ho_library h) cfg = Inl e))
   | Serving srv port out \<Rightarrow>
       (\<exists>cfg. configuration_from_values (ho_library h) values = Inr cfg \<and> out = [announced cfg] \<and>
          port = bc_port cfg \<and> coherent_wiring (ho_library h) cfg (hd_wiring srv))
   | Escaped e out \<Rightarrow>
       (\<forall>m. e \<noteq> BootstrapConfigurationError m) \<and> out = [] \<or>
       (\<exists>cfg v. configuration_from_values (ho_library h) values = Inr cfg \<and> server_verifier (ho_library h) cfg = Inr v \<and>
          create_app h cfg v = Inl e \<and> out = [announced cfg])"
proof (cases "bindE (configuration_from_values (ho_library h) values) (\<lambda>cfg.
             bindE (server_verifier (ho_library h) cfg) (\<lambda>v. Inr (cfg, v)))")
  case (Inl e)
  then have "(\<exists>e. configuration_from_values (ho_library h) values = Inl e) \<or>
      (\<exists>cfg e. configuration_from_values (ho_library h) values = Inr cfg \<and> server_verifier (ho_library h) cfg = Inl e)"
    by (auto simp: bindE_eq_Inl)
  with Inl show ?thesis
    by (cases e) (simp_all add: server_main_def bootstrap_failure_def)
next
  case (Inr x)
  then obtain cfg v where parts: "configuration_from_values (ho_library h) values = Inr cfg"
    "server_verifier (ho_library h) cfg = Inr v" by auto
  show ?thesis
  proof (cases "create_app h cfg v")
    case Inl
    with parts show ?thesis by (simp add: server_main_def)
  next
    case (Inr srv)
    then have "operations_wiring h cfg = Inr (hd_wiring srv)"
      by (auto simp: create_app_def split: sum.splits option.splits)
    with Inr parts show ?thesis by (simp add: server_main_def operations_wiring_coherent)
  qed
qed

text \<open>
  A configuration whose stores are different databases is accepted, announced, and then ends the process
  with an exception instead of exit status 2.
\<close>

lemma late_database_error:
  assumes "configuration_from_values (ho_library h) values = Inr cfg" and "server_verifier (ho_library h) cfg = Inr v"
    and "operations_database_url cfg = Inl e"
  shows "server_main h values = Escaped e [announced cfg]"
  using assms
  by (simp add: server_main_def create_app_def operations_wiring_def server_process_configuration_def
      execution_capable_def make_configuration_def)

section \<open>A concrete server\<close>

definition demo_library :: bootstrap_library where
  "demo_library =
     \<lparr>bl_json =
        \<lparr>plain_loads = (\<lambda>_. Some (JObj [(''w1'', JArr [JStr ''read''])])), raw_loads = (\<lambda>_. None)\<rparr>,
      bl_digit = (\<lambda>_. None), bl_runtime = (\<lambda>v. Inr \<lparr>rd_enabled = False, rd_kinds = [], rd_text = v\<rparr>),
      bl_ingress_kinds = [''cloudflare''], bl_cloudflare = ''cloudflare'', bl_docker = ''docker'',
      bl_scopes = [''read'', ''write''], bl_principal_kinds = [(''operator'', OPERATOR)],
      bl_grant_ok = (\<lambda>_. True), bl_principal_ok = (\<lambda>_. True)\<rparr>"

definition demo_environment :: "string \<Rightarrow> (string \<times> string) list" where
  "demo_environment graph =
     [(''CPK_SERVER_MODE'', ''execution-capable''), (''CPK_PORT'', ''8080''), (''CPK_RUNTIME_INTERPRETERS'', ''none''),
      (''CPK_CONTROL_AUTH_VERIFIER'', ''static-development''), (''CPK_CONTROL_AUTH_STATIC_CREDENTIAL'', ''tok''),
      (''CPK_CONTROL_AUTH_STATIC_WORKSPACE_GRANTS_JSON'', ''{}''),
      (''CPK_WORKPLACE_DATABASE_URL'', ''postgresql://db''), (''CPK_ACTIVITY_HISTORY_DATABASE_URL'', ''postgresql://db''),
      (''CPK_OBSERVER_STATE_DATABASE_URL'', ''postgresql://db''), (''CPK_GRAPH_TOPOLOGY_DATABASE_URL'', graph)]"

definition server_demo_configuration :: "string \<Rightarrow> bootstrap_configuration" where
  "server_demo_configuration graph =
     \<lparr>bc_mode = ''execution-capable'', bc_verifier = ''static-development'', bc_static_credential = Some ''tok'',
      bc_port = 8080, bc_runtime = \<lparr>rd_enabled = False, rd_kinds = [], rd_text = ''none''\<rparr>, bc_ingress = [],
      bc_resolver = ''none'', bc_secret_values = None, bc_provider_routes = None, bc_provider_files = None,
      bc_stores = [(''CPK_WORKPLACE_DATABASE_URL'', ''postgresql://db''),
                   (''CPK_ACTIVITY_HISTORY_DATABASE_URL'', ''postgresql://db''),
                   (''CPK_OBSERVER_STATE_DATABASE_URL'', ''postgresql://db''),
                   (''CPK_GRAPH_TOPOLOGY_DATABASE_URL'', graph)],
      bc_dns_endpoint = ''https://1.1.1.1/dns-query'', bc_probe_signer = ''none'', bc_probe_lifetime = 60,
      bc_grants = [\<lparr>wg_workspace_id = ''w1'', wg_scopes = [''read'']\<rparr>], bc_principals = []\<rparr>"

lemma demo_accepted:
  "configuration_from_values demo_library (demo_environment ''postgresql://db'') = Inr (server_demo_configuration ''postgresql://db'')"
  by code_simp

theorem accepted_configuration_is_coherent_witness:
  "sound_authentication demo_library (server_demo_configuration ''postgresql://db'') \<and>
   map fst (bc_stores (server_demo_configuration ''postgresql://db'')) = STORE_NAMES"
  using accepted_configuration_is_coherent [OF demo_accepted] by blast

definition demo_host :: "(nat, unit) host" where
  "demo_host =
     \<lparr>ho_library = demo_library, ho_installed = (\<lambda>_. False), ho_reference_ok = (\<lambda>_. True),
      ho_registry_ok = (\<lambda>_ _. True), ho_resolver_ok = (\<lambda>_. True), ho_install_schema = (\<lambda>_. True),
      ho_contracts = demo_contracts, ho_role_text = (\<lambda>_. []),
      ho_services = (\<lambda>_ _. Some (\<lambda>_ w. (Inr [], w)))\<rparr>"

definition demo_principal :: "workspace_grant static_principal" where
  "demo_principal = static_operator_identity [\<lparr>wg_workspace_id = ''w1'', wg_scopes = [''read'']\<rparr>]"

definition demo_wiring :: wiring where
  "demo_wiring =
     \<lparr>w_database = ''postgresql://db'', w_secrets = NoSecrets, w_runtime = None, w_ingress = None,
      w_observer = None, w_probes = None\<rparr>"

definition demo_server :: "(nat, unit) hosted" where
  "demo_server =
     \<lparr>hd_configuration = server_demo_configuration ''postgresql://db'',
      hd_process = \<lparr>execution_enabled = True, authentication_required = True, mode = ''execution-capable''\<rparr>,
      hd_wiring = demo_wiring, hd_contracts = demo_contracts,
      hd_application =
        \<lparr>services = (\<lambda>_. Some (\<lambda>_ w. (Inr [], w))),
         credential_verifier = as_verifier [\<lparr>sc_credential = ''tok'', sc_principal = demo_principal\<rparr>]\<rparr>\<rparr>"

definition demo_call_http :: http_call where
  "demo_call_http =
     \<lparr>hc_method = ''GET'', hc_path = ''/workspaces/w1/runs'', hc_headers = [(''Authorization'', ''Bearer tok'')],
      hc_body = [], hc_query = []\<rparr>"

lemma demo_serves:
  "server_main demo_host (demo_environment ''postgresql://db'') =
     Serving demo_server 8080 [''cpk-server listening on 0.0.0.0:8080'']"
proof -
  define v where "v = [\<lparr>sc_credential = ''tok'', sc_principal = demo_principal\<rparr>]"
  have lib: "ho_library demo_host = demo_library" by (simp add: demo_host_def)
  have verifier: "server_verifier demo_library (server_demo_configuration ''postgresql://db'') = Inr v"
    unfolding v_def by code_simp
  have shown: "announced (server_demo_configuration ''postgresql://db'') = ''cpk-server listening on 0.0.0.0:8080''"
    "bc_port (server_demo_configuration ''postgresql://db'') = 8080" by code_simp+
  have "operations_wiring demo_host (server_demo_configuration ''postgresql://db'') = Inr demo_wiring"
    by code_simp
  then have "create_app demo_host (server_demo_configuration ''postgresql://db'') v = Inr demo_server"
    by (simp add: create_app_def server_process_configuration_def execution_capable_def make_configuration_def
        make_application_def demo_server_def v_def, simp add: demo_host_def demo_contracts_def)
  then show ?thesis
    by (simp only: server_main_def lib demo_accepted verifier bindE_simps sum.case prod.case shown)
qed

theorem hosted_server_is_closed_witness:
  "\<exists>q. dispatched (snd (hosted_handle demo_host demo_server demo_call_http \<lparr>app_world = (), dispatched = []\<rparr>)) = [q] \<and>
     (''tok'', principal q) \<in> configured (server_demo_configuration ''postgresql://db'')"
proof -
  obtain r s' where run: "hosted_handle demo_host demo_server demo_call_http \<lparr>app_world = (), dispatched = []\<rparr> = (r, s')"
    by fastforce
  have "length (dispatched (snd (hosted_handle demo_host demo_server demo_call_http \<lparr>app_world = (), dispatched = []\<rparr>))) = 1"
    by code_simp
  then have one: "dispatched s' \<noteq> []" by (auto simp: run)
  have lib: "ho_library demo_host = demo_library" by (simp add: demo_host_def)
  have token: "extract_bearer_credential (hc_headers demo_call_http) = Inr ''tok''" by code_simp
  show ?thesis
    using hosted_server_is_closed [OF demo_serves run] one token demo_accepted by (auto simp: lib run)
qed

text \<open>Four stores of which one is another database: refused only after the port was announced.\<close>

lemma late_database_error_instance:
  "\<exists>m. server_main demo_host (demo_environment ''postgresql://graph'') =
     Escaped (BootstrapConfigurationError m) [''cpk-server listening on 0.0.0.0:8080'']"
proof -
  have lib: "ho_library demo_host = demo_library" by (simp add: demo_host_def)
  have config: "configuration_from_values (ho_library demo_host) (demo_environment ''postgresql://graph'') =
      Inr (server_demo_configuration ''postgresql://graph'')"
    unfolding lib by code_simp
  have verifier: "server_verifier (ho_library demo_host) (server_demo_configuration ''postgresql://graph'') =
      Inr [\<lparr>sc_credential = ''tok'', sc_principal = demo_principal\<rparr>]"
    unfolding lib by code_simp
  obtain m where url: "operations_database_url (server_demo_configuration ''postgresql://graph'') = Inl (BootstrapConfigurationError m)"
  proof
    show "operations_database_url (server_demo_configuration ''postgresql://graph'') = Inl (BootstrapConfigurationError
        (''current operations package requires all CPK_*_DATABASE_URL values '' @ ''to point at one instance database''))"
      by code_simp
  qed
  have "announced (server_demo_configuration ''postgresql://graph'') = ''cpk-server listening on 0.0.0.0:8080''"
    by code_simp
  then show ?thesis using late_database_error [OF config verifier url] by auto
qed

end
