(* ===== verification/HttpForwarding.thy ===== *)
theory HttpForwarding
  imports PyText
begin

text \<open>
  What the two forwarding products (\<open>http_active_router/server.py\<close> and
  \<open>http_multiplexer/server.py\<close>) share: the request the standard library's server hands to a
  handler, the request they build for an upstream, and the exchange with it.

  The upstreams are the function \<open>upstream\<close>; \<open>sent\<close> records the requests in the order
  they leave the process and is a history variable of the model.
\<close>

section \<open>Inbound requests\<close>

text \<open>The methods the handler classes define; \<open>http.server\<close> refuses the others.\<close>

datatype verb = GET | POST | PUT | PATCH | DELETE

fun command :: "verb \<Rightarrow> string" where
  "command GET = ''GET''"
| "command POST = ''POST''"
| "command PUT = ''PUT''"
| "command PATCH = ''PATCH''"
| "command DELETE = ''DELETE''"

text \<open>
  \<open>in_stream\<close> is what the client sends behind the headers until it closes its side.  Header names
  are ASCII (the parser of \<open>http.server\<close> accepts no others), in the order received.
\<close>

record inbound =
  in_verb :: verb
  in_path :: string
  in_headers :: "(string \<times> string) list"
  in_stream :: string

record reply =
  re_status :: int
  re_type :: string
  re_body :: string

datatype forward_exn =
    UpstreamStatus int "string option" "string option"
  | UpstreamFailure
  | ResponseTooLarge
  | BadContentLength

text \<open>\<open>self.headers.get(name, default)\<close>: the first header of that name, whatever its case.\<close>

definition header_or :: "(string \<times> string) list \<Rightarrow> string \<Rightarrow> string \<Rightarrow> string" where
  "header_or hs name dflt =
     (case List.find (\<lambda>(n, _). lower n = name) hs of None \<Rightarrow> dflt | Some (_, v) \<Rightarrow> v)"

text \<open>
  \<open>int(self.headers.get("content-length", "0") or "0")\<close> and \<open>self.rfile.read(length)\<close>:
  \<open>read(-1)\<close> reads to the end, below that \<open>read\<close> raises \<open>ValueError\<close>.
\<close>

definition declared_length :: "(nat \<Rightarrow> nat option) \<Rightarrow> (string \<times> string) list \<Rightarrow> forward_exn + int" where
  "declared_length dv hs =
     (let text = header_or hs ''content-length'' ''0'' in
      case parse_int dv (if text = [] then ''0'' else text) of
        None \<Rightarrow> Inl BadContentLength | Some n \<Rightarrow> Inr n)"

definition request_body :: "(nat \<Rightarrow> nat option) \<Rightarrow> inbound \<Rightarrow> forward_exn + string" where
  "request_body dv rq =
     bindE (declared_length dv (in_headers rq)) (\<lambda>n.
     if n = 0 then Inr []
     else if n = -1 then Inr (in_stream rq)
     else if n < 0 then Inl BadContentLength
     else Inr (take (nat n) (in_stream rq)))"

section \<open>Outbound requests\<close>

record outbound =
  ob_method :: string
  ob_url :: string
  ob_headers :: "(string \<times> string) list"
  ob_body :: "string option"

text \<open>\<open>Request.add_header\<close> stores under \<open>key.capitalize()\<close>: a later header replaces.\<close>

definition capitalize :: "string \<Rightarrow> string" where
  "capitalize s = (case s of [] \<Rightarrow> [] | c # cs \<Rightarrow> upper_char c # map lower_char cs)"

definition dropped_headers :: "string list" where
  "dropped_headers = [''host'', ''connection'', ''content-length'']"

definition outbound_headers :: "(string \<times> string) list \<Rightarrow> (string \<times> string) list" where
  "outbound_headers hs =
     fold (\<lambda>(n, v) acc. if lower n \<in> set dropped_headers then acc else AList.update (capitalize n) v acc)
       hs []"

text \<open>\<open>Request(url, data=body or None, method=method)\<close> with the headers.\<close>

definition outbound_request ::
  "string \<Rightarrow> string \<Rightarrow> (string \<times> string) list \<Rightarrow> string \<Rightarrow> outbound" where
  "outbound_request url meth hs body =
     \<lparr>ob_method = meth, ob_url = url, ob_headers = outbound_headers hs,
      ob_body = (if body = [] then None else Some body)\<rparr>"

section \<open>The exchange\<close>

text \<open>
  An answer: status, \<open>content-type\<close>, and the body, \<open>None\<close> when reading it fails.  No answer
  at all (unreachable, timeout, malformed) is \<open>None\<close>.
\<close>

record answer =
  an_status :: int
  an_type :: "string option"
  an_body :: "string option"

record 'n upstream_env =
  upstream :: "outbound \<Rightarrow> 'n \<Rightarrow> answer option \<times> 'n"
  digit_values :: "nat \<Rightarrow> nat option"
  url_parts :: url_library
  os_environ :: "(string \<times> string) list"

record 'n wire =
  wire_network :: 'n
  sent :: "outbound list"

type_synonym ('n, 'a) forwarding = "('n wire, forward_exn, 'a) action"

text \<open>
  \<open>opener.open(outbound, timeout=5.0)\<close> with \<open>NoRedirects\<close>: a status outside 200--299, a
  redirection included, is raised as \<open>HTTPError\<close>, whose body is still to be read.
\<close>

definition open_upstream :: "'n upstream_env \<Rightarrow> outbound \<Rightarrow> ('n, answer) forwarding" where
  "open_upstream env rq = (\<lambda>s.
     case upstream env rq (wire_network s) of
       (a, n) \<Rightarrow>
         (case a of
            None \<Rightarrow> Inl UpstreamFailure
          | Some r \<Rightarrow>
              if 200 \<le> an_status r \<and> an_status r < 300 then Inr r
              else Inl (UpstreamStatus (an_status r) (an_type r) (an_body r)),
          s\<lparr>wire_network := n, sent := sent s @ [rq]\<rparr>))"

definition read_answer :: "string option \<Rightarrow> nat \<Rightarrow> ('n, string) forwarding" where
  "read_answer body bound =
     (case body of None \<Rightarrow> raise UpstreamFailure | Some b \<Rightarrow> ret (take bound b))"

section \<open>Lemmas\<close>

lemma lower_ascii: "is_ascii s \<Longrightarrow> lower s = map lower_char s"
proof -
  have single: "lower_group [c] = [lower_char c]" for c by (simp add: lower_group_def)
  assume "is_ascii s"
  then show ?thesis by (simp add: lower_def chars_of_ascii comp_def single concat_map_singleton)
qed

lemma byte_of_upper_char [simp]: "byte_of c < 128 \<Longrightarrow> byte_of (upper_char c) < 128"
  and byte_of_lower_char [simp]: "byte_of c < 128 \<Longrightarrow> byte_of (lower_char c) < 128"
  and lower_upper_char [simp]: "byte_of c < 128 \<Longrightarrow> lower_char (upper_char c) = lower_char c"
  and lower_lower_char [simp]: "byte_of c < 128 \<Longrightarrow> lower_char (lower_char c) = lower_char c"
  by (auto simp: upper_char_def lower_char_def byte_of_def)

lemma capitalize_ascii: "is_ascii n \<Longrightarrow> is_ascii (capitalize n)"
  by (cases n) (auto simp: capitalize_def is_ascii_def list_all_iff)

text \<open>The stored form of a header name differs from the received one in its case only.\<close>

lemma lower_capitalize: "is_ascii n \<Longrightarrow> lower (capitalize n) = lower n"
  by (cases n) (auto simp: lower_ascii capitalize_ascii, auto simp: capitalize_def is_ascii_def list_all_iff)

lemma outbound_headers_from:
  assumes "(n, v) \<in> set (outbound_headers hs)"
  shows "\<exists>m. (m, v) \<in> set hs \<and> n = capitalize m \<and> lower m \<notin> set dropped_headers"
proof -
  define step :: "string \<times> string \<Rightarrow> _" where
    "step = (\<lambda>(n, v) acc. if lower n \<in> set dropped_headers then acc else AList.update (capitalize n) v acc)"
  have "(n, v) \<in> set (fold step hs acc) \<Longrightarrow>
      (n, v) \<in> set acc \<or> (\<exists>m. (m, v) \<in> set hs \<and> n = capitalize m \<and> lower m \<notin> set dropped_headers)"
    for acc
  proof (induction hs arbitrary: acc)
    case (Cons h hs)
    obtain m w where h: "h = (m, w)" by (cases h)
    have up: "(n, v) \<in> set (AList.update k x acc) \<Longrightarrow> (n, v) \<in> set acc \<or> (n = k \<and> v = x)" for k x
      by (induction acc) (auto split: if_splits)
    from Cons.IH [of "step h acc"] Cons.prems show ?case
      by (auto simp: h step_def split: if_splits dest!: up)
  qed simp
  then show ?thesis using assms by (fastforce simp: outbound_headers_def step_def)
qed

text \<open>No header that describes the client's own connection reaches the upstream.\<close>

lemma outbound_headers_dropped:
  assumes "list_all (is_ascii \<circ> fst) hs" and "(n, v) \<in> set (outbound_headers hs)"
  shows "lower n \<notin> set dropped_headers"
proof -
  obtain m where "(m, v) \<in> set hs" "n = capitalize m" "lower m \<notin> set dropped_headers"
    using outbound_headers_from [OF assms(2)] by blast
  moreover from this assms(1) have "is_ascii m" by (force simp: list_all_iff)
  ultimately show ?thesis by (simp add: lower_capitalize)
qed

text \<open>Of the headers with one name, whatever their case, the upstream is sent the last.\<close>

lemma outbound_headers_lookup:
  "map_of (outbound_headers hs) =
     map_of (rev (map (map_prod capitalize id) (filter (\<lambda>(n, _). lower n \<notin> set dropped_headers) hs)))"
proof -
  define kept :: "(string \<times> string) list \<Rightarrow> _" where
    "kept = (\<lambda>hs. map (map_prod capitalize id) (filter (\<lambda>(n, _). lower n \<notin> set dropped_headers) hs))"
  define step :: "string \<times> string \<Rightarrow> _" where
    "step = (\<lambda>(n, v) acc. if lower n \<in> set dropped_headers then acc else AList.update (capitalize n) v acc)"
  have "map_of (fold step hs acc) = map_of acc ++ map_of (rev (kept hs))" for acc
    by (induction hs arbitrary: acc) (auto simp: step_def kept_def update_conv')
  then show ?thesis by (simp add: outbound_headers_def step_def kept_def)
qed

lemma outbound_headers_mem:
  assumes "(n, v) \<in> set hs" and "lower n \<notin> set dropped_headers"
  shows "\<exists>w. (capitalize n, w) \<in> set (outbound_headers hs)"
proof -
  have "(capitalize n, v) \<in>
      set (rev (map (map_prod capitalize id) (filter (\<lambda>(n, _). lower n \<notin> set dropped_headers) hs)))"
    using assms by (auto intro!: rev_image_eqI [of "(n, v)"])
  then obtain w where "map_of (outbound_headers hs) (capitalize n) = Some w"
    unfolding outbound_headers_lookup by (metis weak_map_of_SomeI)
  then show ?thesis by (auto dest: map_of_SomeD)
qed

lemma outbound_request_simps [simp]:
  "ob_method (outbound_request url meth hs body) = meth"
  "ob_url (outbound_request url meth hs body) = url"
  "ob_headers (outbound_request url meth hs body) = outbound_headers hs"
  "ob_body (outbound_request url meth hs body) = (if body = [] then None else Some body)"
  by (simp_all add: outbound_request_def)

lemma open_upstream_sent: "sent (snd (open_upstream env rq s)) = sent s @ [rq]"
  by (simp add: open_upstream_def split: prod.splits)

lemma read_answer_state: "snd (read_answer body bound s) = s"
  by (simp add: read_answer_def action_simps split: option.split)

section \<open>Base URLs\<close>

text \<open>Stripping slashes behind an absolute URL changes neither its scheme nor its network location.\<close>

definition same_place :: "url_library \<Rightarrow> string \<Rightarrow> url \<Rightarrow> bool" where
  "same_place lib s u \<longleftrightarrow>
     (\<exists>u'. urlsplit lib s = Some u' \<and> u_scheme u' = u_scheme u \<and> u_netloc u' = u_netloc u)"

lemma split_scheme_slash:
  assumes "split_scheme (x @ ''/'') = (sch, rest)" and "sch \<noteq> []"
  obtains r where "rest = r @ ''/''" and "split_scheme x = (sch, r)"
proof -
  obtain c cs where split: "split_once (CHR '':'') (x @ ''/'') = Some (c # cs, rest)"
    and ok: "is_letter c" "list_all is_scheme_char (c # cs)" "sch = map lower_char (c # cs)"
    using assms by (auto simp: split_scheme_def split: option.splits list.splits if_splits)
  have eq: "x @ ''/'' = (c # cs) @ CHR '':'' # rest" and notin: "CHR '':'' \<notin> set (c # cs)"
    using split by (auto simp: split_once_Some)
  have "rest \<noteq> []"
  proof
    assume "rest = []"
    with eq have "last (x @ ''/'') = CHR '':''" by simp
    then show False by simp
  qed
  then obtain r z where r: "rest = r @ [z]" by (metis rev_exhaust)
  with eq have "x @ ''/'' = ((c # cs) @ CHR '':'' # r) @ [z]" by simp
  then have x: "x = (c # cs) @ CHR '':'' # r" and z: "z = CHR ''/''" by (auto simp del: append.simps)
  have "split_once (CHR '':'') x = Some (c # cs, r)"
    unfolding x by (rule split_once_at [OF notin])
  then have "split_scheme x = (sch, r)" using ok by (simp add: split_scheme_def)
  then show ?thesis using that r z by simp
qed

lemma split_netloc_slash:
  assumes "fst (split_netloc (r @ ''/'')) \<noteq> []"
  shows "fst (split_netloc r) = fst (split_netloc (r @ ''/''))"
proof -
  obtain t where t: "r @ ''/'' = ''//'' @ t"
    using assms by (auto simp: split_netloc_def starts_with_iff split: if_splits)
  have "t \<noteq> []" using assms by (auto simp: split_netloc_def t starts_with_def)
  then obtain q z where "t = q @ [z]" by (metis rev_exhaust)
  with t have r: "r = ''//'' @ q" and z: "z = CHR ''/''" by (auto simp del: append.simps)
  have "takeWhile (Not \<circ> netloc_end) (q @ ''/'') = takeWhile (Not \<circ> netloc_end) q"
    by (induction q) (auto simp: netloc_end_def)
  then show ?thesis by (simp add: split_netloc_def starts_with_def r)
qed

lemma clean_url_empty_slash:
  assumes "clean_url s = []"
  shows "clean_url (s @ ''/'') = ''/''"
proof -
  have "dropWhile (\<lambda>c. byte_of c \<le> 32) s = []"
  proof (cases "dropWhile (\<lambda>c. byte_of c \<le> 32) s")
    case (Cons c cs)
    then have "\<not> byte_of c \<le> 32" using hd_dropWhile [of "\<lambda>c. byte_of c \<le> 32" s] by auto
    with Cons assms show ?thesis by (auto simp: clean_url_def split: if_splits)
  qed
  then have "\<forall>c\<in>set s. byte_of c \<le> 32" by (simp add: dropWhile_eq_Nil_conv)
  then have "dropWhile (\<lambda>c. byte_of c \<le> 32) (s @ ''/'') = ''/''"
    by (simp add: dropWhile_append2 byte_of_def)
  then show ?thesis by (simp add: clean_url_def byte_of_def)
qed

lemma same_place_slash:
  assumes "same_place lib (s @ ''/'') u" and "u_scheme u \<noteq> []" and "u_netloc u \<noteq> []"
  shows "same_place lib s u"
proof -
  obtain u' where u': "urlsplit lib (s @ ''/'') = Some u'" and same: "u_scheme u' = u_scheme u"
    "u_netloc u' = u_netloc u"
    using assms(1) by (auto simp: same_place_def)
  have clean: "clean_url (s @ ''/'') = clean_url s @ ''/''" if "clean_url s \<noteq> []"
    using clean_url_append [OF that, of "''/''"] by (simp add: byte_of_def)
  obtain sch rest where sp: "split_scheme (clean_url (s @ ''/'')) = (sch, rest)" by fastforce
  note parts = urlsplit_cases(1) [OF sp u']
  have nonempty: "clean_url s \<noteq> []"
  proof
    assume "clean_url s = []"
    then have "clean_url (s @ ''/'') = ''/''" by (rule clean_url_empty_slash)
    with sp have "sch = []" by (simp add: split_scheme_def)
    with parts same assms(2) show False by simp
  qed
  from sp clean [OF nonempty] have "split_scheme (clean_url s @ ''/'') = (sch, rest)" by simp
  then obtain r where r: "rest = r @ ''/''" "split_scheme (clean_url s) = (sch, r)"
    using split_scheme_slash parts same assms(2) by metis
  have net: "fst (split_netloc r) = u_netloc u"
    using split_netloc_slash [of r] parts same assms(3) r by simp
  then obtain u'' where u'': "urlsplit lib s = Some u''"
    using urlsplit_cases(2) [OF r(2)] parts same by metis
  then show ?thesis
    using urlsplit_cases(1) [OF r(2) u''] parts same net by (auto simp: same_place_def)
qed

lemma same_place_rstrip:
  assumes "same_place lib s u" and "u_scheme u \<noteq> []" and "u_netloc u \<noteq> []"
  shows "same_place lib (rstrip_char (CHR ''/'') s) u"
  using assms(1)
proof (induction s rule: rev_induct)
  case (snoc c s)
  then show ?case
    using same_place_slash [OF _ assms(2,3), of lib s] by (cases "c = CHR ''/''") (auto simp: rstrip_char_def)
qed (simp add: rstrip_char_def)

lemma same_place_path:
  assumes "same_place lib s u" and "u_scheme u \<noteq> []" and "u_netloc u \<noteq> []" and "starts_with ''/'' path"
  shows "same_place lib (s @ path) u"
proof -
  obtain t where path: "path = ''/'' @ t" using assms(4) by (auto simp: starts_with_iff)
  obtain u' where "urlsplit lib s = Some u'" "u_scheme u' = u_scheme u" "u_netloc u' = u_netloc u"
    using assms(1) by (auto simp: same_place_def)
  then show ?thesis
    using urlsplit_append_path [of lib s u' t] assms(2,3) by (auto simp: same_place_def path)
qed

end
