(* ===== verification/HttpRouter.thy ===== *)
theory HttpRouter
  imports HttpForwarding
begin

text \<open>
  The active router (\<open>http_active_router/server.py\<close>): its settings, and the handler that
  forwards every request to the one active target.
\<close>

section \<open>Settings\<close>

datatype router_startup_exn = RouterConfigurationError string | RouterValueError

record router_settings =
  active_target_url :: string
  router_port :: int

definition MAX_RESPONSE_BYTES :: nat where "MAX_RESPONSE_BYTES = 1048576"
definition DEFAULT_PORT :: int where "DEFAULT_PORT = 8000"

definition is_http_url :: "url \<Rightarrow> bool" where
  "is_http_url u \<longleftrightarrow> u_scheme u \<in> {''http'', ''https''} \<and> u_netloc u \<noteq> []"

text \<open>
  \<open>RouterSettings.from_environment\<close>; \<open>urlparse\<close> splits the scheme and the network location
  as \<open>urlsplit\<close> does.  Its \<open>ValueError\<close> and the one of \<open>int\<close> are not caught.
\<close>

definition settings_from_environment ::
  "'n upstream_env \<Rightarrow> (string \<times> string) list option \<Rightarrow> router_startup_exn + router_settings" where
  "settings_from_environment env e =
     (let values = environment_or (os_environ env) e;
          target = strip (get_or values ''ACTIVE_TARGET_URL'' []) in
      if target = [] then Inl (RouterConfigurationError ''ACTIVE_TARGET_URL is required'')
      else
        (case urlsplit (url_parts env) target of
           None \<Rightarrow> Inl RouterValueError
         | Some u \<Rightarrow>
             if \<not> is_http_url u
             then Inl (RouterConfigurationError ''ACTIVE_TARGET_URL must be an absolute HTTP URL'')
             else
               (case parse_int (digit_values env) (get_or values ''PORT'' (int_text DEFAULT_PORT)) of
                  None \<Rightarrow> Inl RouterValueError
                | Some port \<Rightarrow>
                    if \<not> (0 < port \<and> port < 65536)
                    then Inl (RouterConfigurationError ''PORT must be between 1 and 65535'')
                    else Inr \<lparr>active_target_url = rstrip_char (CHR ''/'') target, router_port = port\<rparr>)))"

text \<open>\<open>main\<close> until the server runs: the settings, the exit status 2, or an escaping exception.\<close>

definition router_main :: "'n upstream_env \<Rightarrow> (router_startup_exn + nat) + router_settings" where
  "router_main env =
     (case settings_from_environment env None of
        Inr st \<Rightarrow> Inr st
      | Inl (RouterConfigurationError _) \<Rightarrow> Inl (Inr 2)
      | Inl RouterValueError \<Rightarrow> Inl (Inl RouterValueError))"

section \<open>Forwarding\<close>

definition bad_gateway :: "string \<Rightarrow> reply" where
  "bad_gateway text = \<lparr>re_status = 502, re_type = ''text/plain'', re_body = text @ [CHR 0x0A]\<rparr>"

definition type_or :: "string option \<Rightarrow> string \<Rightarrow> string" where
  "type_or t dflt = (case t of None \<Rightarrow> dflt | Some v \<Rightarrow> v)"

definition forwarded_answer :: "answer \<Rightarrow> ('n, reply) forwarding" where
  "forwarded_answer a =
     bindA (read_answer (an_body a) (MAX_RESPONSE_BYTES + 1)) (\<lambda>payload.
     if MAX_RESPONSE_BYTES < length payload then ret (bad_gateway ''upstream response too large'')
     else ret \<lparr>re_status = an_status a, re_type = type_or (an_type a) ''application/octet-stream'',
               re_body = payload\<rparr>)"

text \<open>
  The handlers of the \<open>try\<close> in \<open>forward\<close>: an exception while the body of an error answer
  is read is not caught by the clause below.
\<close>

definition forward_failure :: "forward_exn \<Rightarrow> ('n, reply) forwarding" where
  "forward_failure e =
     (case e of
        UpstreamStatus code t body \<Rightarrow>
          bindA (read_answer body MAX_RESPONSE_BYTES) (\<lambda>payload.
          ret \<lparr>re_status = code, re_type = type_or t ''text/plain'', re_body = payload\<rparr>)
      | _ \<Rightarrow> ret (bad_gateway ''upstream request failed''))"

definition forward ::
  "'n upstream_env \<Rightarrow> router_settings \<Rightarrow> string \<Rightarrow> string \<Rightarrow> (string \<times> string) list \<Rightarrow> string \<Rightarrow>
   ('n, reply) forwarding" where
  "forward env st meth path hs body =
     tryA
       (bindA (open_upstream env (outbound_request (active_target_url st @ path) meth hs body))
          forwarded_answer)
       forward_failure"

definition forward_request :: "'n upstream_env \<Rightarrow> router_settings \<Rightarrow> inbound \<Rightarrow> ('n, reply) forwarding" where
  "forward_request env st rq =
     bindA (liftE (request_body (digit_values env) rq)) (\<lambda>body.
     forward env st (command (in_verb rq)) (in_path rq) (in_headers rq) body)"

definition live_reply :: reply where
  "live_reply = \<lparr>re_status = 200, re_type = ''text/plain'', re_body = ''live'' @ [CHR 0x0A]\<rparr>"

definition router_handle :: "'n upstream_env \<Rightarrow> router_settings \<Rightarrow> inbound \<Rightarrow> ('n, reply) forwarding" where
  "router_handle env st rq =
     (if in_verb rq = GET \<and> in_path rq = ''/health/live'' then ret live_reply
      else forward_request env st rq)"

end
