(* ===== verification/HttpMultiplexer.thy ===== *)
theory HttpMultiplexer
  imports HttpForwarding
begin

text \<open>
  The multiplexer (\<open>http_multiplexer/server.py\<close>): a primary that answers, and observers that are
  sent a copy of what the primary was sent and whose answers are dropped.
\<close>

section \<open>Settings\<close>

datatype multiplexer_startup_exn = MultiplexerConfigurationError string | MultiplexerValueError

record multiplexer_settings =
  primary_url :: string
  observer_urls :: "string list"
  multiplexer_port :: int

definition MAX_RESPONSE_BYTES :: nat where "MAX_RESPONSE_BYTES = 1048576"
definition MAX_OBSERVER_RESPONSE_BYTES :: nat where "MAX_OBSERVER_RESPONSE_BYTES = 16384"
definition DEFAULT_PORT :: int where "DEFAULT_PORT = 8000"

definition OBSERVER_ENVIRONMENTS :: "string list" where
  "OBSERVER_ENVIRONMENTS = [''MULTIPLEXER_OBSERVER_A_URL'', ''MULTIPLEXER_OBSERVER_B_URL'']"

definition validate_url :: "url_library \<Rightarrow> string \<Rightarrow> string \<Rightarrow> multiplexer_startup_exn + string" where
  "validate_url lib text name =
     (let candidate = rstrip_char (CHR ''/'') (strip text) in
      case urlsplit lib candidate of
        None \<Rightarrow> Inl MultiplexerValueError
      | Some u \<Rightarrow>
          if u_scheme u \<notin> {''http'', ''https''} \<or> u_netloc u = []
          then Inl (MultiplexerConfigurationError (name @ '' must be an absolute HTTP URL''))
          else Inr candidate)"

definition required_url :: "url_library \<Rightarrow> string \<Rightarrow> string \<Rightarrow> multiplexer_startup_exn + string" where
  "required_url lib text name =
     (if strip text = [] then Inl (MultiplexerConfigurationError (name @ '' is required''))
      else validate_url lib text name)"

definition optional_url :: "url_library \<Rightarrow> string \<Rightarrow> string \<Rightarrow> multiplexer_startup_exn + string" where
  "optional_url lib text name = validate_url lib text name"

definition multiplexer_settings_from_environment ::
  "'n upstream_env \<Rightarrow> (string \<times> string) list option \<Rightarrow> multiplexer_startup_exn + multiplexer_settings" where
  "multiplexer_settings_from_environment env e =
     (let values = environment_or (os_environ env) e in
      bindE (required_url (url_parts env) (get_or values ''MULTIPLEXER_PRIMARY_URL'' [])
               ''MULTIPLEXER_PRIMARY_URL'') (\<lambda>primary.
      bindE (mapE (\<lambda>name. optional_url (url_parts env) (get_or values name []) name)
               (filter (\<lambda>name. strip (get_or values name []) \<noteq> []) OBSERVER_ENVIRONMENTS)) (\<lambda>obs.
      case parse_int (digit_values env) (get_or values ''PORT'' (int_text DEFAULT_PORT)) of
        None \<Rightarrow> Inl MultiplexerValueError
      | Some port \<Rightarrow>
          if \<not> (0 < port \<and> port < 65536)
          then Inl (MultiplexerConfigurationError ''PORT must be between 1 and 65535'')
          else Inr \<lparr>primary_url = primary, observer_urls = obs, multiplexer_port = port\<rparr>)))"

text \<open>\<open>main\<close> until the server runs: the settings, the exit status 2, or an escaping exception.\<close>

definition multiplexer_main :: "'n upstream_env \<Rightarrow> (multiplexer_startup_exn + nat) + multiplexer_settings" where
  "multiplexer_main env =
     (case multiplexer_settings_from_environment env None of
        Inr st \<Rightarrow> Inr st
      | Inl (MultiplexerConfigurationError _) \<Rightarrow> Inl (Inr 2)
      | Inl MultiplexerValueError \<Rightarrow> Inl (Inl MultiplexerValueError))"

section \<open>Forwarding\<close>

definition open_bounded ::
  "'n upstream_env \<Rightarrow> string \<Rightarrow> string \<Rightarrow> (string \<times> string) list \<Rightarrow> string \<Rightarrow> nat \<Rightarrow>
   ('n, reply) forwarding" where
  "open_bounded env url meth hs body bound =
     bindA (open_upstream env (outbound_request url meth hs body)) (\<lambda>a.
     bindA (read_answer (an_body a) (bound + 1)) (\<lambda>payload.
     if bound < length payload then raise ResponseTooLarge
     else ret \<lparr>re_status = an_status a,
               re_type = (case an_type a of None \<Rightarrow> ''application/octet-stream'' | Some t \<Rightarrow> t),
               re_body = payload\<rparr>))"

definition forward_primary ::
  "'n upstream_env \<Rightarrow> multiplexer_settings \<Rightarrow> string \<Rightarrow> string \<Rightarrow> (string \<times> string) list \<Rightarrow> string \<Rightarrow>
   ('n, reply) forwarding" where
  "forward_primary env st meth path hs body =
     open_bounded env (primary_url st @ path) meth hs body MAX_RESPONSE_BYTES"

fun deliver_from ::
  "'n upstream_env \<Rightarrow> nat \<Rightarrow> string list \<Rightarrow> string \<Rightarrow> string \<Rightarrow> (string \<times> string) list \<Rightarrow> string \<Rightarrow>
   ('n, string list) forwarding" where
  "deliver_from env index [] meth path hs body = ret []"
| "deliver_from env index (url # urls) meth path hs body =
     bindA
       (tryA (thenA (open_bounded env (url @ path) meth hs body MAX_OBSERVER_RESPONSE_BYTES) (ret []))
          (\<lambda>_. ret [''observer-'' @ int_text (int index) @ '': upstream-failure'']))
       (\<lambda>errors. bindA (deliver_from env (index + 1) urls meth path hs body) (\<lambda>more. ret (errors @ more)))"

definition deliver_observers ::
  "'n upstream_env \<Rightarrow> multiplexer_settings \<Rightarrow> string \<Rightarrow> string \<Rightarrow> (string \<times> string) list \<Rightarrow> string \<Rightarrow>
   ('n, string list) forwarding" where
  "deliver_observers env st meth path hs body = deliver_from env 1 (observer_urls st) meth path hs body"

definition primary_failed :: reply where
  "primary_failed =
     \<lparr>re_status = 502, re_type = ''text/plain'', re_body = ''primary request failed'' @ [CHR 0x0A]\<rparr>"

definition multiplex :: "'n upstream_env \<Rightarrow> multiplexer_settings \<Rightarrow> inbound \<Rightarrow> ('n, reply) forwarding" where
  "multiplex env st rq =
     bindA (liftE (request_body (digit_values env) rq)) (\<lambda>body.
     let meth = command (in_verb rq) in
     bindA (tryA (bindA (forward_primary env st meth (in_path rq) (in_headers rq) body) (\<lambda>r. ret (Some r)))
              (\<lambda>_. ret None)) (\<lambda>answer.
     case answer of
       None \<Rightarrow> ret primary_failed
     | Some r \<Rightarrow>
         thenA (deliver_observers env st meth (in_path rq) (in_headers rq) body) (ret r)))"

definition multiplexer_live_reply :: reply where
  "multiplexer_live_reply = \<lparr>re_status = 200, re_type = ''text/plain'', re_body = ''live'' @ [CHR 0x0A]\<rparr>"

definition multiplexer_handle ::
  "'n upstream_env \<Rightarrow> multiplexer_settings \<Rightarrow> inbound \<Rightarrow> ('n, reply) forwarding" where
  "multiplexer_handle env st rq =
     (if in_verb rq = GET \<and> in_path rq = ''/health/live'' then ret multiplexer_live_reply
      else multiplex env st rq)"

end
