(* ===== verification/ForwardingProperties.thy ===== *)
theory ForwardingProperties
  imports HttpRouter HttpMultiplexer "HOL-Library.Code_Target_Numeral"
begin

text \<open>
  What the router and the multiplexer guarantee: where requests go, what they carry, and that
  observers cannot be noticed by the client.
\<close>

section \<open>The router\<close>

lemma settings_url:
  assumes "settings_from_environment env e = Inr st"
  obtains u where "urlsplit (url_parts env) (active_target_url st) = Some u" and "is_http_url u"
    and "0 < router_port st" and "router_port st < 65536"
proof -
  define target where "target = strip (get_or (environment_or (os_environ env) e) ''ACTIVE_TARGET_URL'' [])"
  obtain v where v: "urlsplit (url_parts env) target = Some v" "is_http_url v"
    and st: "active_target_url st = rstrip_char (CHR ''/'') target" "0 < router_port st" "router_port st < 65536"
    using assms
    by (auto simp: settings_from_environment_def Let_def target_def split: if_splits option.splits)
  then have "same_place (url_parts env) (rstrip_char (CHR ''/'') target) v"
    by (intro same_place_rstrip) (auto simp: same_place_def is_http_url_def)
  then obtain u where "urlsplit (url_parts env) (active_target_url st) = Some u" "u_scheme u = u_scheme v"
    "u_netloc u = u_netloc v"
    by (auto simp: same_place_def st)
  with v st show ?thesis by (intro that [of u]) (auto simp: is_http_url_def)
qed

text \<open>What the handler sends, whatever the upstream answers.\<close>

lemma forward_sent:
  "sent (snd (forward env st meth path hs body s)) =
     sent s @ [outbound_request (active_target_url st @ path) meth hs body]"
  by (auto simp: forward_def tryA_def bindA_def forwarded_answer_def forward_failure_def action_simps
      read_answer_def open_upstream_def split: prod.splits sum.splits forward_exn.splits option.splits)

lemma router_sent:
  "sent (snd (router_handle env st rq s)) =
     sent s @ (if in_verb rq = GET \<and> in_path rq = ''/health/live'' then []
               else case request_body (digit_values env) rq of
                      Inl _ \<Rightarrow> []
                    | Inr body \<Rightarrow>
                        [outbound_request (active_target_url st @ in_path rq) (command (in_verb rq))
                           (in_headers rq) body])"
  by (auto simp: router_handle_def forward_request_def forward_sent action_simps split: sum.split)


definition open_library :: url_library where
  "open_library = \<lparr>ipv6 = (\<lambda>_. False), plain_netloc = (\<lambda>_. False)\<rparr>"

definition answering :: "answer option list upstream_env" where
  "answering =
     \<lparr>upstream = (\<lambda>rq n. case n of [] \<Rightarrow> (None, []) | a # as \<Rightarrow> (a, as)), digit_values = (\<lambda>_. None),
      url_parts = open_library,
      os_environ = [(''ACTIVE_TARGET_URL'', '' http://app:8080/ ''),
                    (''MULTIPLEXER_PRIMARY_URL'', ''http://app:8080''),
                    (''MULTIPLEXER_OBSERVER_B_URL'', ''http://audit'')]\<rparr>"

definition posted :: inbound where
  "posted =
     \<lparr>in_verb = POST, in_path = ''/items?x=1'',
      in_headers = [(''Host'', ''router''), (''content-LENGTH'', ''5''), (''X-Trace'', ''a''), (''x-trace'', ''b'')],
      in_stream = ''hello, and more''\<rparr>"

definition created :: answer where
  "created = \<lparr>an_status = 201, an_type = None, an_body = Some ''ok''\<rparr>"

lemma answering_settings:
  "settings_from_environment answering None =
     Inr \<lparr>active_target_url = ''http://app:8080'', router_port = 8000\<rparr>"
  by code_simp


text \<open>
  The hypothesis on the path is needed: the request target is appended to the configured URL as
  it stands, so a target without a leading slash makes the router contact another host.
\<close>

definition single_target :: "answer option list upstream_env" where
  "single_target = answering\<lparr>os_environ := [(''ACTIVE_TARGET_URL'', ''http://app'')]\<rparr>"

theorem router_target_can_change_host:
  "\<exists>st s' u. settings_from_environment single_target None = Inr st \<and>
     router_handle single_target st (posted\<lparr>in_path := ''.other.test/''\<rparr>)
       \<lparr>wire_network = [Some created], sent = []\<rparr> =
       (Inr \<lparr>re_status = 201, re_type = ''application/octet-stream'', re_body = ''ok''\<rparr>, s') \<and>
     map ob_url (sent s') = [''http://app.other.test/''] \<and>
     urlsplit open_library ''http://app.other.test/'' = Some u \<and> hostname u = Some ''app.other.test''"
proof (intro exI conjI)
  show "settings_from_environment single_target None = Inr \<lparr>active_target_url = ''http://app'', router_port = 8000\<rparr>"
    by code_simp
  show "router_handle single_target \<lparr>active_target_url = ''http://app'', router_port = 8000\<rparr>
       (posted\<lparr>in_path := ''.other.test/''\<rparr>) \<lparr>wire_network = [Some created], sent = []\<rparr> =
     (Inr \<lparr>re_status = 201, re_type = ''application/octet-stream'', re_body = ''ok''\<rparr>,
      \<lparr>wire_network = [],
       sent = [\<lparr>ob_method = ''POST'', ob_url = ''http://app.other.test/'',
                ob_headers = [(''X-trace'', ''b'')], ob_body = Some ''hello''\<rparr>]\<rparr>)"
    by code_simp
  show "urlsplit open_library ''http://app.other.test/'' =
     Some \<lparr>u_scheme = ''http'', u_netloc = ''app.other.test'', u_path = ''/'', u_query = [], u_fragment = []\<rparr>"
    by code_simp
qed code_simp+

text \<open>
  A request that declares no length -- a chunked one in particular -- is forwarded without its
  body, together with its \<open>Transfer-Encoding\<close> header.
\<close>

theorem undeclared_body_is_dropped:
  assumes "\<forall>(n, v) \<in> set (in_headers rq). lower n \<noteq> ''content-length''"
    and "in_verb rq \<noteq> GET" and "router_handle env st rq s = (r, s')"
  shows "\<exists>ob. sent s' = sent s @ [ob] \<and> ob_body ob = None \<and>
    (\<forall>v. (''Transfer-Encoding'', v) \<in> set (in_headers rq) \<longrightarrow>
       (\<exists>w. (''Transfer-encoding'', w) \<in> set (ob_headers ob)))"
proof -
  have "List.find (\<lambda>(n, _). lower n = ''content-length'') (in_headers rq) = None"
    using assms(1) by (auto simp: find_None_iff)
  moreover have "parse_int (digit_values env) ''0'' = Some 0"
    by (simp add: parse_int_def strip_def is_space_def space_codepoint_def digit_of_def byte_of_def)
  ultimately have body: "request_body (digit_values env) rq = Inr []"
    by (simp add: request_body_def declared_length_def header_or_def)
  have dropped: "lower ''Transfer-Encoding'' \<notin> set dropped_headers"
    and name: "capitalize ''Transfer-Encoding'' = ''Transfer-encoding''"
    by code_simp+
  have "sent s' = sent (snd (router_handle env st rq s))" by (simp add: assms(3))
  then show ?thesis
    using assms(2) outbound_headers_mem [OF _ dropped, unfolded name]
    by (auto simp: router_sent body)
qed

definition chunked :: inbound where
  "chunked = \<lparr>in_verb = POST, in_path = ''/'', in_headers = [(''Transfer-Encoding'', ''chunked'')],
     in_stream = ''5-hello-0''\<rparr>"

theorem undeclared_body_is_dropped_witness:
  "\<exists>ob. sent (snd (router_handle single_target \<lparr>active_target_url = ''http://app'', router_port = 8000\<rparr> chunked
       \<lparr>wire_network = [Some created], sent = []\<rparr>)) = [ob] \<and> ob_body ob = None \<and>
     (\<exists>w. (''Transfer-encoding'', w) \<in> set (ob_headers ob))"
proof -
  define out where "out = router_handle single_target \<lparr>active_target_url = ''http://app'', router_port = 8000\<rparr> chunked
       \<lparr>wire_network = [Some created], sent = []\<rparr>"
  have name: "\<forall>(n, v) \<in> set (in_headers chunked). lower n \<noteq> ''content-length''" by code_simp
  have post: "in_verb chunked \<noteq> GET" by (simp add: chunked_def)
  have run: "router_handle single_target \<lparr>active_target_url = ''http://app'', router_port = 8000\<rparr> chunked
       \<lparr>wire_network = [Some created], sent = []\<rparr> = (fst out, snd out)" by (simp add: out_def)
  show ?thesis
    using undeclared_body_is_dropped [OF name post run] by (auto simp: out_def chunked_def)
qed

section \<open>The multiplexer\<close>

text \<open>Delivery to the observers always returns, and contacts each of them once, in order.\<close>

lemma open_bounded_sent:
  "sent (snd (open_bounded env url meth hs body bound s)) = sent s @ [outbound_request url meth hs body]"
  by (auto simp: open_bounded_def bindA_def open_upstream_def read_answer_def action_simps
      split: prod.splits sum.splits option.splits)

lemma deliver_from_Cons:
  "deliver_from env i (url # urls) meth path hs body s =
     (case open_bounded env (url @ path) meth hs body MAX_OBSERVER_RESPONSE_BYTES s of
        (r, s1) \<Rightarrow>
          (case deliver_from env (i + 1) urls meth path hs body s1 of
             (Inl e, s2) \<Rightarrow> (Inl e, s2)
           | (Inr others, s2) \<Rightarrow>
               (Inr ((case r of Inl _ \<Rightarrow> [''observer-'' @ int_text (int i) @ '': upstream-failure''] | Inr _ \<Rightarrow> [])
                     @ others), s2)))"
  by (auto simp: bindA_def tryA_def action_simps split: prod.splits sum.splits)

lemma deliver_from_total:
  "\<exists>errors. fst (deliver_from env i urls meth path hs body s) = Inr errors \<and> length errors \<le> length urls"
proof (induction urls arbitrary: i s)
  case (Cons url urls)
  obtain r s1 where r: "open_bounded env (url @ path) meth hs body MAX_OBSERVER_RESPONSE_BYTES s = (r, s1)"
    by fastforce
  obtain others s2 where "deliver_from env (i + 1) urls meth path hs body s1 = (Inr others, s2)"
    "length others \<le> length urls"
    using Cons.IH [of "i + 1" s1] by (cases "deliver_from env (i + 1) urls meth path hs body s1") auto
  then show ?case by (auto simp: deliver_from_Cons r simp del: deliver_from.simps split: sum.split)
qed (simp add: action_simps)

lemma deliver_from_sent:
  "sent (snd (deliver_from env i urls meth path hs body s)) =
     sent s @ map (\<lambda>url. outbound_request (url @ path) meth hs body) urls"
proof (induction urls arbitrary: i s)
  case (Cons url urls)
  obtain r s1 where r: "open_bounded env (url @ path) meth hs body MAX_OBSERVER_RESPONSE_BYTES s = (r, s1)"
    by fastforce
  then have s1: "sent s1 = sent s @ [outbound_request (url @ path) meth hs body]"
    using open_bounded_sent [of env "url @ path" meth hs body MAX_OBSERVER_RESPONSE_BYTES s] by simp
  show ?case
    using Cons.IH [of "i + 1" s1]
    by (auto simp: deliver_from_Cons r s1 simp del: deliver_from.simps split: prod.split sum.split)
qed (simp add: action_simps)

lemma deliver_observers_result:
  "\<exists>errors. fst (deliver_observers env st meth path hs body s) = Inr errors"
  using deliver_from_total [of env 1 "observer_urls st" meth path hs body s]
  by (auto simp: deliver_observers_def)

text \<open>The handler in one equation: the primary's outcome alone decides the reply.\<close>

lemma multiplex_eq:
  "multiplex env st rq s =
     (case request_body (digit_values env) rq of
        Inl e \<Rightarrow> (Inl e, s)
      | Inr body \<Rightarrow>
          (case forward_primary env st (command (in_verb rq)) (in_path rq) (in_headers rq) body s of
             (Inl _, s1) \<Rightarrow> (Inr primary_failed, s1)
           | (Inr r, s1) \<Rightarrow>
               (Inr r, snd (deliver_observers env st (command (in_verb rq)) (in_path rq) (in_headers rq) body s1))))"
proof (cases "request_body (digit_values env) rq")
  case (Inr body)
  obtain r s1 where p: "forward_primary env st (command (in_verb rq)) (in_path rq) (in_headers rq) body s = (r, s1)"
    by fastforce
  show ?thesis
  proof (cases r)
    case (Inr answer)
    obtain errors s2 where
      "deliver_observers env st (command (in_verb rq)) (in_path rq) (in_headers rq) body s1 = (Inr errors, s2)"
      using deliver_observers_result [of env st "command (in_verb rq)" "in_path rq" "in_headers rq" body s1]
      by (cases "deliver_observers env st (command (in_verb rq)) (in_path rq) (in_headers rq) body s1") auto
    then show ?thesis
      using p \<open>request_body (digit_values env) rq = Inr body\<close> Inr
      by (simp add: multiplex_def Let_def bindA_def tryA_def action_simps)
  qed (use p Inr in \<open>simp add: multiplex_def Let_def bindA_def tryA_def action_simps\<close>)
qed (simp add: multiplex_def action_simps)

lemma request_body_exn: "request_body dv rq = Inl e \<Longrightarrow> e = BadContentLength"
  by (auto simp: request_body_def declared_length_def bindE_eq_Inl Let_def split: option.splits if_splits)

lemma open_bounded_success:
  "open_bounded env url meth hs body bound s = (Inr r, s') \<Longrightarrow>
     200 \<le> re_status r \<and> re_status r < 300 \<and> length (re_body r) \<le> bound"
  by (auto simp: open_bounded_def bindA_def open_upstream_def read_answer_def action_simps
      split: prod.splits sum.splits option.splits if_splits)

lemma forward_primary_success:
  "forward_primary env st meth path hs body s = (Inr r, s') \<Longrightarrow>
     200 \<le> re_status r \<and> re_status r < 300 \<and> length (re_body r) \<le> HttpMultiplexer.MAX_RESPONSE_BYTES"
  unfolding forward_primary_def by (rule open_bounded_success)

lemma forward_primary_sent:
  "sent (snd (forward_primary env st meth path hs body s)) =
     sent s @ [outbound_request (primary_url st @ path) meth hs body]"
  by (simp add: forward_primary_def open_bounded_sent)


text \<open>
  The primary is contacted first; only after it answered successfully, and then exactly once
  and in the order of the configuration, every observer, with a copy of the request that differs in
  its URL only.
\<close>

theorem observers_get_copies_after_primary:
  assumes "multiplexer_handle env st rq s = (Inr r, s')"
    and "\<not> (in_verb rq = GET \<and> in_path rq = ''/health/live'')"
  shows "\<exists>body. request_body (digit_values env) rq = Inr body \<and>
    (let copy = (\<lambda>base. outbound_request (base @ in_path rq) (command (in_verb rq)) (in_headers rq) body) in
     r = primary_failed \<and> sent s' = sent s @ [copy (primary_url st)] \<or>
     r \<noteq> primary_failed \<and> sent s' = sent s @ map copy (primary_url st # observer_urls st))"
proof -
  obtain body where body: "request_body (digit_values env) rq = Inr body"
    using assms by (auto simp: multiplexer_handle_def multiplex_eq split: sum.splits)
  define copy where
    "copy = (\<lambda>base. outbound_request (base @ in_path rq) (command (in_verb rq)) (in_headers rq) body)"
  obtain p s1 where p: "forward_primary env st (command (in_verb rq)) (in_path rq) (in_headers rq) body s = (p, s1)"
    by fastforce
  have s1: "sent s1 = sent s @ [copy (primary_url st)]"
    using forward_primary_sent [of env st "command (in_verb rq)" "in_path rq" "in_headers rq" body s] p
    by (simp add: copy_def)
  have "r = primary_failed \<and> sent s' = sent s @ [copy (primary_url st)] \<or>
     r \<noteq> primary_failed \<and> sent s' = sent s @ map copy (primary_url st # observer_urls st)"
  proof (cases p)
    case (Inl e)
    then show ?thesis using assms body p s1 by (auto simp: multiplexer_handle_def multiplex_eq)
  next
    case (Inr a)
    then have "200 \<le> re_status a \<and> re_status a < 300" using forward_primary_success p by metis
    then have "a \<noteq> primary_failed" by (auto simp: primary_failed_def)
    moreover have "sent (snd (deliver_observers env st (command (in_verb rq)) (in_path rq) (in_headers rq) body s1)) =
        sent s1 @ map copy (observer_urls st)"
      by (simp add: deliver_observers_def deliver_from_sent copy_def)
    ultimately show ?thesis
      using assms body p s1 Inr by (auto simp: multiplexer_handle_def multiplex_eq)
  qed
  with body show ?thesis by (auto simp: copy_def Let_def)
qed

theorem observers_get_copies_after_primary_witness:
  "\<exists>st r s'. multiplexer_settings_from_environment answering None = Inr st \<and>
     multiplexer_handle answering st posted
       \<lparr>wire_network = [Some created, Some (created\<lparr>an_status := 500\<rparr>)], sent = []\<rparr> = (Inr r, s') \<and>
     r \<noteq> primary_failed \<and>
     map ob_url (sent s') = [''http://app:8080/items?x=1'', ''http://audit/items?x=1'']"
proof -
  define st where "st = \<lparr>primary_url = ''http://app:8080'', observer_urls = [''http://audit''], multiplexer_port = 8000\<rparr>"
  define s where "s = \<lparr>wire_network = [Some created, Some (created\<lparr>an_status := 500\<rparr>)], sent = []\<rparr>"
  have start: "multiplexer_settings_from_environment answering None = Inr st"
    unfolding st_def by code_simp
  have "fst (multiplexer_handle answering st posted s) =
      Inr \<lparr>re_status = 201, re_type = ''application/octet-stream'', re_body = ''ok''\<rparr>"
    unfolding st_def s_def by code_simp
  then obtain s' where run: "multiplexer_handle answering st posted s =
      (Inr \<lparr>re_status = 201, re_type = ''application/octet-stream'', re_body = ''ok''\<rparr>, s')"
    by (cases "multiplexer_handle answering st posted s") auto
  have other: "\<not> (in_verb posted = GET \<and> in_path posted = ''/health/live'')" by (simp add: posted_def)
  show ?thesis
    using observers_get_copies_after_primary [OF run other] start run
    by (auto simp: Let_def primary_failed_def st_def s_def posted_def)
qed

end
