(* ===== verification/HelloServer.thy ===== *)
theory HelloServer
  imports PyText
begin

text \<open>
  The Hello product (\<open>hello_server/server.py\<close>): the greeting page, the dependency language, the
  readiness checks, the request log and the handler.

  The environment does not change while the process runs.  The network and \<open>json.loads\<close> are
  fields of \<open>hello_env\<close>; \<open>probed\<close> records what readiness checks contacted and how it ended,
  and is a history variable of the model.
\<close>

section \<open>Data\<close>

text \<open>Besides its configuration error, the exceptions the code raises and does not catch.\<close>

datatype hello_exn =
    HelloConfigurationError string
  | HelloValueError
  | HelloUnicodeError
  | HelloProtocolError

record dependency =
  d_name :: string
  d_http :: string
  d_database :: string

record hello_reply =
  hp_status :: nat
  hp_type :: string
  hp_body :: string

text \<open>
  How a request or a connection ends.  \<open>Failed\<close> is an \<open>OSError\<close> with the name of its type
  (\<open>URLError\<close> is one), \<open>Broken\<close> any other exception.
\<close>

datatype fetched = Status int | FetchFailed string | FetchBroken
datatype connected = Connected | ConnectFailed string | ConnectBroken

datatype probe = HttpProbe string fetched | TcpProbe string int connected

record 'n hello_env =
  hl_environ :: "(string \<times> string) list"
  hl_json :: "string \<Rightarrow> json option"
  hl_url :: url_library
  hl_digit :: "nat \<Rightarrow> nat option"
  hl_fetch :: "string \<Rightarrow> 'n \<Rightarrow> fetched \<times> 'n"
  hl_connect :: "string \<Rightarrow> int \<Rightarrow> 'n \<Rightarrow> connected \<times> 'n"

record 'n hello_state =
  hs_network :: 'n
  observed :: "(string \<times> string) list"
  probed :: "probe list"

type_synonym ('n, 'a) hello_action = "('n hello_state, hello_exn, 'a) action"

definition OBSERVED_REQUEST_LIMIT :: nat where "OBSERVED_REQUEST_LIMIT = 20"

definition ACCENTS :: "(string \<times> string \<times> string) list" where
  "ACCENTS =
     [(''blue'', ''#2563eb'', ''#eff6ff''), (''purple'', ''#7e22ce'', ''#faf5ff''),
      (''green'', ''#15803d'', ''#f0fdf4''), (''red'', ''#b91c1c'', ''#fef2f2'')]"

definition newline :: string where "newline = [CHR 0x0A]"

definition unlines :: "string list \<Rightarrow> string" where
  "unlines ls = concat (map (\<lambda>l. l @ newline) ls)"

section \<open>The page\<close>

text \<open>\<open>html.escape\<close>.\<close>

definition escape_char :: "char \<Rightarrow> string" where
  "escape_char c =
     (if c = CHR ''&'' then ''&amp;'' else if c = CHR ''<'' then ''&lt;'' else if c = CHR ''>'' then ''&gt;''
      else if c = CHR 0x22 then ''&quot;'' else if c = CHR 0x27 then ''&#x27;'' else [c])"

definition html_escape :: "string \<Rightarrow> string" where
  "html_escape s = concat (map escape_char s)"

definition page_start :: string where
  "page_start =
     unlines
       [''<!doctype html>'',
        ''<html lang=\"en\">'',
        ''<head>'',
        ''<meta charset=\"utf-8\">'',
        ''<meta name=\"viewport\" content=\"width=device-width, initial-scale=1\">''] @ ''<title>''"

definition page_middle :: "string \<Rightarrow> string \<Rightarrow> string" where
  "page_middle accent fill =
     ''</title>'' @ newline @
     unlines
       [''<style>'',
        ''* { box-sizing: border-box; }'',
        ''html { background: #fff; color: #171717; }'',
        ''body { margin: 0; min-height: 100svh; display: grid; place-items: center;'',
        ''  padding: 24px; font-family: system-ui, sans-serif; letter-spacing: 0; }'',
        ''main { width: 100%; max-width: 880px; border: 2px solid '' @ accent @ '';'',
        ''  padding: 24px; background: '' @ fill @ ''; }'',
        ''.frame { border: 2px solid '' @ accent @ ''; padding: 24px; }'',
        ''.greeting { min-height: 300px; display: grid; place-items: center;'',
        ''  background: #fff; text-align: center; }'',
        ''h1 { margin: 0; max-width: 100%; font-size: 48px; line-height: 1.2;'',
        ''  font-weight: 650; overflow-wrap: anywhere; }'',
        ''@media (max-width: 600px) {'',
        ''  body, main, .frame { padding: 12px; }'',
        ''  .greeting { min-height: 240px; }'',
        ''  h1 { font-size: 32px; }'',
        ''}'',
        ''</style>'',
        ''</head>'',
        ''<body>''] @
     ''<main><div class=\"frame\"><div class=\"frame greeting\"><h1>''"

definition page_end :: string where
  "page_end = unlines [''</h1></div></div></main>'', ''</body>'', ''</html>'']"

definition hello_page :: "string \<Rightarrow> string \<Rightarrow> string \<Rightarrow> string" where
  "hello_page accent fill greeting =
     page_start @ greeting @ page_middle accent fill @ greeting @ page_end"

definition render_hello :: "string \<Rightarrow> string \<Rightarrow> hello_exn + string" where
  "render_hello message color =
     (case map_of ACCENTS color of
        None \<Rightarrow> Inl (HelloConfigurationError ''HELLO_COLOR must be blue, purple, green or red'')
      | Some (accent, fill) \<Rightarrow>
          (case utf8_encode (hello_page accent fill (html_escape message)) of
             None \<Rightarrow> Inl HelloUnicodeError
           | Some page \<Rightarrow> Inr page))"

section \<open>Dependencies\<close>

text \<open>\<open>[a-z][a-z0-9-]*\<close>.\<close>

definition dependency_name :: "string \<Rightarrow> bool" where
  "dependency_name s =
     (case s of
        [] \<Rightarrow> False
      | c # cs \<Rightarrow> lower_letter c \<and> list_all (\<lambda>d. lower_letter d \<or> digit_char d \<or> d = CHR ''-'') cs)"

definition validate_dependency_name :: "string \<Rightarrow> hello_exn + unit" where
  "validate_dependency_name s =
     raise_if (\<not> dependency_name s)
       (HelloConfigurationError
          (''dependency name must start with a lowercase letter and contain only '' @
           ''lowercase letters, digits, and hyphens''))"

definition validate_environment_name :: "string \<Rightarrow> hello_exn + unit" where
  "validate_environment_name s =
     raise_if (\<not> environment_name_pattern s)
       (HelloConfigurationError ''dependency environment name is malformed'')"

definition make_dependency :: "string \<Rightarrow> string \<Rightarrow> string \<Rightarrow> hello_exn + dependency" where
  "make_dependency name http database =
     bindE (validate_dependency_name name) (\<lambda>_.
     bindE (validate_environment_name http) (\<lambda>_.
     bindE (validate_environment_name database) (\<lambda>_.
     Inr \<lparr>d_name = name, d_http = http, d_database = database\<rparr>)))"

definition dependency_descriptor :: "dependency \<Rightarrow> dict" where
  "dependency_descriptor d =
     [(''name'', JStr (d_name d)), (''http_environment'', JStr (d_http d)),
      (''database_environment'', JStr (d_database d))]"

definition dependency_environment_names :: "string \<Rightarrow> hello_exn + string \<times> string" where
  "dependency_environment_names name =
     bindE (validate_dependency_name name) (\<lambda>_.
     (let suffix = map (\<lambda>c. if c = CHR ''-'' then CHR ''_'' else c) (upper name) in
      Inr (''HELLO_HTTP_'' @ suffix @ ''_URL'', ''HELLO_DATABASE_'' @ suffix @ ''_URL'')))"

definition text_field :: "json \<Rightarrow> string \<Rightarrow> hello_exn + string" where
  "text_field v key =
     (case v of
        JStr (c # cs) \<Rightarrow> Inr (c # cs)
      | _ \<Rightarrow> Inl (HelloConfigurationError (key @ '' must be a nonempty string'')))"

definition dependency_environments :: "dict \<Rightarrow> string \<Rightarrow> hello_exn + json \<times> json" where
  "dependency_environments item name =
     (if get item ''http_environment'' = JNull \<or> get item ''database_environment'' = JNull
      then bindE (dependency_environment_names name) (\<lambda>(h, d). Inr (JStr h, JStr d))
      else Inr (get item ''http_environment'', get item ''database_environment''))"

fun read_dependencies :: "string list \<Rightarrow> json list \<Rightarrow> hello_exn + dependency list" where
  "read_dependencies seen [] = Inr []"
| "read_dependencies seen (v # vs) =
     (case v of
        JObj item \<Rightarrow>
          if \<not> keys_within item [''name'', ''http_environment'', ''database_environment'']
          then Inl (HelloConfigurationError ''dependency declaration is malformed'')
          else
            bindE (text_field (get item ''name'') ''name'') (\<lambda>name.
            if name \<in> set seen then Inl (HelloConfigurationError ''dependency names must be unique'')
            else
              bindE (dependency_environments item name) (\<lambda>(http, database).
              bindE (text_field http ''http_environment'') (\<lambda>h.
              bindE (text_field database ''database_environment'') (\<lambda>d.
              bindE (make_dependency name h d) (\<lambda>dep.
              bindE (read_dependencies (name # seen) vs) (\<lambda>deps.
              Inr (dep # deps)))))))
      | _ \<Rightarrow> Inl (HelloConfigurationError ''dependency declaration is malformed''))"

definition load_dependencies :: "(string \<Rightarrow> json option) \<Rightarrow> string option \<Rightarrow> hello_exn + dependency list" where
  "load_dependencies loads raw =
     (case raw of
        Some (c # cs) \<Rightarrow>
          (case loads (c # cs) of
             None \<Rightarrow> Inl (HelloConfigurationError ''HELLO_DEPENDENCIES_JSON is invalid JSON'')
           | Some (JArr vs) \<Rightarrow> read_dependencies [] vs
           | Some _ \<Rightarrow> Inl (HelloConfigurationError ''HELLO_DEPENDENCIES_JSON must be a list''))
      | _ \<Rightarrow> Inr [])"

definition dependencies :: "'n hello_env \<Rightarrow> hello_exn + dependency list" where
  "dependencies env =
     load_dependencies (hl_json env) (Some (get_or (hl_environ env) ''HELLO_DEPENDENCIES_JSON'' ''[]''))"

section \<open>Readiness checks\<close>

definition record_probe :: "probe \<Rightarrow> 'n \<Rightarrow> 'n hello_state \<Rightarrow> 'n hello_state" where
  "record_probe p n s = s\<lparr>hs_network := n, probed := probed s @ [p]\<rparr>"

text \<open>
  \<open>_check_http\<close>: \<open>opener.open\<close> raises \<open>HTTPError\<close> for a status outside 200--299, so
  both reports of a status are the same.
\<close>

definition check_http :: "'n hello_env \<Rightarrow> string \<Rightarrow> string \<Rightarrow> ('n, string list) hello_action" where
  "check_http env name url =
     (case urlsplit (hl_url env) url of
        None \<Rightarrow> raise HelloValueError
      | Some u \<Rightarrow>
          if u_scheme u \<notin> {''http'', ''https''} \<or> u_netloc u = []
          then ret [name @ '': HTTP dependency URL is malformed'']
          else (\<lambda>s.
            case hl_fetch env url (hs_network s) of
              (r, n) \<Rightarrow>
                (case r of
                   Status code \<Rightarrow>
                     if 200 \<le> code \<and> code < 300 then Inr []
                     else Inr [name @ '': HTTP dependency returned '' @ int_text code]
                 | FetchFailed kind \<Rightarrow> Inr [name @ '': HTTP dependency unavailable: '' @ kind]
                 | FetchBroken \<Rightarrow> Inl HelloProtocolError,
                 record_probe (HttpProbe url r) n s)))"

definition connect_postgres ::
  "'n hello_env \<Rightarrow> string \<Rightarrow> string \<Rightarrow> int \<Rightarrow> ('n, string list) hello_action" where
  "connect_postgres env name host port = (\<lambda>s.
     case hl_connect env host port (hs_network s) of
       (r, n) \<Rightarrow>
         (case r of
            Connected \<Rightarrow> Inr []
          | ConnectFailed kind \<Rightarrow> Inr [name @ '': Postgres dependency unavailable: '' @ kind]
          | ConnectBroken \<Rightarrow> Inl HelloProtocolError,
          record_probe (TcpProbe host port r) n s))"

definition check_postgres :: "'n hello_env \<Rightarrow> string \<Rightarrow> string \<Rightarrow> ('n, string list) hello_action" where
  "check_postgres env name url =
     (case urlsplit (hl_url env) url of
        None \<Rightarrow> raise HelloValueError
      | Some u \<Rightarrow>
          if u_scheme u \<notin> {''postgresql'', ''postgresql+psycopg''}
          then ret [name @ '': Postgres dependency URL has unsupported scheme'']
          else
            (case hostname u of
               None \<Rightarrow> ret [name @ '': Postgres dependency URL is missing host'']
             | Some host \<Rightarrow>
                 (case port_of u of
                    Inl _ \<Rightarrow> raise HelloValueError
                  | Inr p \<Rightarrow>
                      connect_postgres env name host
                        (case p of Some n \<Rightarrow> if n = 0 then 5432 else n | None \<Rightarrow> 5432))))"

definition check_dependency ::
  "'n hello_env \<Rightarrow> (string \<times> string) list \<Rightarrow> dependency \<Rightarrow> ('n, string list) hello_action" where
  "check_dependency env environment d =
     bindA
       (case map_of environment (d_http d) of
          None \<Rightarrow> ret [d_name d @ '': missing '' @ d_http d]
        | Some url \<Rightarrow> check_http env (d_name d) url) (\<lambda>http.
     bindA
       (case map_of environment (d_database d) of
          None \<Rightarrow> ret [d_name d @ '': missing '' @ d_database d]
        | Some url \<Rightarrow> check_postgres env (d_name d) url) (\<lambda>database.
     ret (http @ database)))"

fun check_all ::
  "'n hello_env \<Rightarrow> (string \<times> string) list \<Rightarrow> dependency list \<Rightarrow> ('n, string list) hello_action" where
  "check_all env environment [] = ret []"
| "check_all env environment (d # ds) =
     bindA (check_dependency env environment d) (\<lambda>failures.
     bindA (check_all env environment ds) (\<lambda>rest. ret (failures @ rest)))"

definition dependency_failures :: "'n hello_env \<Rightarrow> ('n, string list) hello_action" where
  "dependency_failures env =
     bindA (liftE (dependencies env)) (\<lambda>ds. check_all env (hl_environ env) ds)"

section \<open>The request log\<close>

text \<open>\<open>deque(maxlen=20).append\<close>.\<close>

definition append_bounded :: "nat \<Rightarrow> 'a \<Rightarrow> 'a list \<Rightarrow> 'a list" where
  "append_bounded bound x xs = (if length xs < bound then xs @ [x] else tl xs @ [x])"

definition record_observed_request ::
  "'n hello_env \<Rightarrow> string \<Rightarrow> string \<Rightarrow> ('n, unit) hello_action" where
  "record_observed_request env meth target =
     (case urlsplit (hl_url env) target of
        None \<Rightarrow> raise HelloValueError
      | Some u \<Rightarrow>
          modA (\<lambda>s. s\<lparr>observed :=
            append_bounded OBSERVED_REQUEST_LIMIT (meth, if u_path u = [] then ''/'' else u_path u) (observed s)\<rparr>))"

definition observed_requests_payload :: "(string \<times> string) list \<Rightarrow> dict" where
  "observed_requests_payload log =
     [(''count'', JInt (int (length log))), (''retained_limit'', JInt (int OBSERVED_REQUEST_LIMIT)),
      (''requests'', JArr (map (\<lambda>(m, p). JObj [(''method'', JStr m), (''path'', JStr p)]) log))]"

definition clear_observed_requests :: "('n, unit) hello_action" where
  "clear_observed_requests = modA (\<lambda>s. s\<lparr>observed := []\<rparr>)"

section \<open>The handler\<close>

definition plain_reply :: "nat \<Rightarrow> string \<Rightarrow> hello_reply" where
  "plain_reply status body =
     \<lparr>hp_status = status, hp_type = ''text/plain; charset=utf-8'', hp_body = body\<rparr>"

text \<open>The texts are ASCII apart from the lines of failures, whose encoding may fail.\<close>

definition json_reply :: "json \<Rightarrow> hello_reply" where
  "json_reply v =
     \<lparr>hp_status = 200, hp_type = ''application/json'', hp_body = dump (\<lambda>_. []) (canon v)\<rparr>"

fun join_lines :: "string list \<Rightarrow> string" where
  "join_lines [] = []"
| "join_lines [l] = l"
| "join_lines (l # k # ls) = l @ newline @ join_lines (k # ls)"

definition ready_reply :: "string list \<Rightarrow> hello_exn + hello_reply" where
  "ready_reply failures =
     (if failures = [] then Inr (plain_reply 200 (''ready'' @ newline))
      else case utf8_encode (join_lines failures @ newline) of
             None \<Rightarrow> Inl HelloUnicodeError | Some body \<Rightarrow> Inr (plain_reply 503 body))"

definition root_reply :: "'n hello_env \<Rightarrow> hello_exn + hello_reply" where
  "root_reply env =
     bindE (render_hello (get_or (hl_environ env) ''HELLO_MESSAGE'' ''Hello, world!'')
              (get_or (hl_environ env) ''HELLO_COLOR'' ''blue'')) (\<lambda>page.
     Inr \<lparr>hp_status = 200, hp_type = ''text/html; charset=utf-8'', hp_body = page\<rparr>)"

definition do_GET :: "'n hello_env \<Rightarrow> string \<Rightarrow> ('n, hello_reply) hello_action" where
  "do_GET env path =
     (if path = ''/health/live'' then ret (plain_reply 200 (''live'' @ newline))
      else if path = ''/health/ready'' then
        bindA (dependency_failures env) (\<lambda>failures. liftE (ready_reply failures))
      else if path = ''/dependencies'' then
        bindA (liftE (dependencies env)) (\<lambda>ds.
        ret (json_reply (JArr (map (JObj \<circ> dependency_descriptor) ds))))
      else if path = ''/observations/requests'' then
        bindA (getA observed) (\<lambda>log. ret (json_reply (JObj (observed_requests_payload log))))
      else if path = ''/'' then
        bindA (record_observed_request env ''GET'' path) (\<lambda>_. liftE (root_reply env))
      else ret (plain_reply 404 (''not found'' @ newline)))"

definition hello_port :: "(nat \<Rightarrow> nat option) \<Rightarrow> string \<Rightarrow> hello_exn + int" where
  "hello_port dv text =
     (case parse_int dv text of
        None \<Rightarrow> Inl (HelloConfigurationError ''HELLO_PORT must be an integer'')
      | Some port \<Rightarrow>
          if 1 \<le> port \<and> port \<le> 65535 then Inr port
          else Inl (HelloConfigurationError ''HELLO_PORT must be between 1 and 65535''))"

text \<open>\<open>main\<close> until the server runs: the port, the exit status 2, or an escaping exception.\<close>

definition hello_main :: "'n hello_env \<Rightarrow> (hello_exn + nat) + int" where
  "hello_main env =
     (case bindE (hello_port (hl_digit env) (get_or (hl_environ env) ''HELLO_PORT'' ''8000'')) (\<lambda>port.
             bindE (render_hello (get_or (hl_environ env) ''HELLO_MESSAGE'' ''Hello, world!'')
                      (get_or (hl_environ env) ''HELLO_COLOR'' ''blue'')) (\<lambda>_. Inr port)) of
        Inr port \<Rightarrow> Inr port
      | Inl (HelloConfigurationError _) \<Rightarrow> Inl (Inr 2)
      | Inl e \<Rightarrow> Inl (Inl e))"

end
