(* ===== verification/HelloProperties.thy ===== *)
theory HelloProperties
  imports HelloServer "HOL-Library.Code_Target_Numeral"
begin

text \<open>
  What the Hello product guarantees: its page shows the message as text, its log is the end of the
  history, its dependency declarations are valid and can be read back, and a ready answer rests on
  evidence for every dependency.
\<close>

section \<open>The page\<close>

text \<open>
  The reference reading of the five entities: how a browser turns the escaped text back into
  characters.  Every other \<open>&\<close> stands for itself.
\<close>

fun shown_text :: "string \<Rightarrow> string" where
  "shown_text [] = []"
| "shown_text (c # cs) =
     (if starts_with ''&amp;'' (c # cs) then CHR ''&'' # shown_text (drop 4 cs)
      else if starts_with ''&lt;'' (c # cs) then CHR ''<'' # shown_text (drop 3 cs)
      else if starts_with ''&gt;'' (c # cs) then CHR ''>'' # shown_text (drop 3 cs)
      else if starts_with ''&quot;'' (c # cs) then CHR 0x22 # shown_text (drop 5 cs)
      else if starts_with ''&#x27;'' (c # cs) then CHR 0x27 # shown_text (drop 5 cs)
      else c # shown_text cs)"

lemma html_escape_simps [simp]:
  "html_escape [] = []" "html_escape (c # s) = escape_char c @ html_escape s"
  by (simp_all add: html_escape_def)

lemma shown_text_escape: "shown_text (html_escape m) = m"
  by (induction m) (auto simp: escape_char_def starts_with_def)

lemma escape_has_no_markup: "set (html_escape m) \<inter> {CHR ''<'', CHR ''>'', CHR 0x22, CHR 0x27} = {}"
  by (induction m) (auto simp: escape_char_def)

lemma has_surrogate_cut: "byte_of c < 128 \<Longrightarrow> has_surrogate (xs @ c # ys) \<longleftrightarrow> has_surrogate xs \<or> has_surrogate ys"
proof (induction xs)
  case (Cons a xs)
  then show ?case by (cases xs; cases ys) auto
qed (cases ys, auto)

lemma has_surrogate_Cons:
  "has_surrogate (c # s) \<longleftrightarrow> (byte_of c = 237 \<and> s \<noteq> [] \<and> 160 \<le> byte_of (hd s)) \<or> has_surrogate s"
  by (cases s) auto

lemma has_surrogate_ascii_before: "is_ascii xs \<Longrightarrow> has_surrogate (xs @ s) \<longleftrightarrow> has_surrogate s"
  by (induction xs) (auto simp: is_ascii_def has_surrogate_Cons)

lemma has_surrogate_ascii_behind: "is_ascii ys \<Longrightarrow> has_surrogate (s @ ys) \<longleftrightarrow> has_surrogate s"
  by (cases ys) (auto simp: has_surrogate_cut has_surrogate_ascii is_ascii_def)

lemma escape_char_ascii: "byte_of c < 128 \<Longrightarrow> is_ascii (escape_char c)"
  by (simp add: escape_char_def is_ascii_def byte_of_def)

lemma escape_char_other: "\<not> byte_of c < 128 \<Longrightarrow> escape_char c = [c]"
  by (auto simp: escape_char_def byte_of_def)

lemma hd_escape_char: "escape_char c \<noteq> [] \<and> (160 \<le> byte_of (hd (escape_char c)) \<longleftrightarrow> 160 \<le> byte_of c)"
  by (auto simp: escape_char_def byte_of_def)

lemma has_surrogate_escape: "has_surrogate (html_escape m) \<longleftrightarrow> has_surrogate m"
proof (induction m)
  case (Cons c m)
  have hd: "html_escape m \<noteq> [] \<and> 160 \<le> byte_of (hd (html_escape m)) \<longleftrightarrow> m \<noteq> [] \<and> 160 \<le> byte_of (hd m)"
    using hd_escape_char by (cases m) auto
  show ?case
  proof (cases "byte_of c < 128")
    case True
    then show ?thesis
      using Cons by (auto simp: has_surrogate_ascii_before escape_char_ascii has_surrogate_Cons)
  next
    case False
    then show ?thesis using Cons hd by (auto simp: escape_char_other has_surrogate_Cons)
  qed
qed simp

lemma page_ascii: "is_ascii page_start" "is_ascii page_end"
  "(c, a, f) \<in> set ACCENTS \<Longrightarrow> is_ascii (page_middle a f)"
proof -
  show "is_ascii page_start" "is_ascii page_end" by code_simp+
  have "list_all (\<lambda>(_, a, f). is_ascii (page_middle a f)) ACCENTS" by code_simp
  then show "(c, a, f) \<in> set ACCENTS \<Longrightarrow> is_ascii (page_middle a f)" by (auto simp: list_all_iff)
qed

text \<open>A message without lone surrogates is put twice into a page that depends on the colour only.\<close>

lemma render_hello_eq:
  assumes "map_of ACCENTS color = Some (a, f)"
  shows "render_hello m color =
    (if has_surrogate m then Inl HelloUnicodeError else Inr (hello_page a f (html_escape m)))"
proof -
  have mid: "is_ascii (page_middle a f)" using page_ascii(3) map_of_SomeD [OF assms] by blast
  have "has_surrogate (page_start @ html_escape m @ page_middle a f @ html_escape m @ page_end) \<longleftrightarrow>
      has_surrogate (html_escape m @ page_middle a f @ html_escape m)"
    using has_surrogate_ascii_behind [OF page_ascii(2), of "html_escape m @ page_middle a f @ html_escape m"]
    by (simp add: has_surrogate_ascii_before page_ascii)
  also have "\<dots> \<longleftrightarrow> has_surrogate (html_escape m)"
  proof -
    obtain c q where pm: "page_middle a f = c # q" by (simp add: page_middle_def)
    with mid have "byte_of c < 128" "is_ascii q" by (auto simp: is_ascii_def)
    then show ?thesis by (simp add: pm has_surrogate_cut has_surrogate_ascii_before)
  qed
  also have "\<dots> \<longleftrightarrow> has_surrogate m" by (rule has_surrogate_escape)
  finally show ?thesis using assms by (simp add: render_hello_def hello_page_def utf8_encode_def)
qed

text \<open>
  The page is the same for every message of a colour but for the two places that show the
  message; what is put there contains no character that could start or end markup, and a reader of the
  page sees exactly the message.
\<close>

theorem page_shows_the_message:
  assumes "map_of ACCENTS color = Some (a, f)"
  shows "\<exists>before between behind. \<forall>m. \<not> has_surrogate m \<longrightarrow>
    (\<exists>shown. render_hello m color = Inr (before @ shown @ between @ shown @ behind) \<and>
       set shown \<inter> {CHR ''<'', CHR ''>'', CHR 0x22, CHR 0x27} = {} \<and> shown_text shown = m)"
proof -
  have "render_hello m color = Inr (page_start @ html_escape m @ page_middle a f @ html_escape m @ page_end)"
    if "\<not> has_surrogate m" for m
    using render_hello_eq [OF assms, of m] that by (simp add: hello_page_def)
  then have page: "\<exists>shown. render_hello m color =
      Inr (page_start @ shown @ page_middle a f @ shown @ page_end) \<and>
      set shown \<inter> {CHR ''<'', CHR ''>'', CHR 0x22, CHR 0x27} = {} \<and> shown_text shown = m"
    if "\<not> has_surrogate m" for m
    using that escape_has_no_markup [of m] shown_text_escape [of m]
    by (intro exI [of _ "html_escape m"] conjI) simp_all
  show ?thesis
  proof (rule exI [of _ page_start], rule exI [of _ "page_middle a f"], rule exI [of _ page_end], intro allI impI)
    fix m
    assume "\<not> has_surrogate m"
    then show "\<exists>shown. render_hello m color =
      Inr (page_start @ shown @ page_middle a f @ shown @ page_end) \<and>
      set shown \<inter> {CHR ''<'', CHR ''>'', CHR 0x22, CHR 0x27} = {} \<and> shown_text shown = m"
      by (rule page)
  qed
qed

theorem page_shows_the_message_witness:
  "\<exists>before between behind shown.
     render_hello ''<b>&'' ''red'' = Inr (before @ shown @ between @ shown @ behind) \<and> shown_text shown = ''<b>&''"
proof -
  have red: "map_of ACCENTS ''red'' = Some (''#b91c1c'', ''#fef2f2'')" and plain: "\<not> has_surrogate ''<b>&''"
    by code_simp+
  obtain before between behind where
    "\<forall>m. \<not> has_surrogate m \<longrightarrow>
       (\<exists>shown. render_hello m ''red'' = Inr (before @ shown @ between @ shown @ behind) \<and>
          set shown \<inter> {CHR ''<'', CHR ''>'', CHR 0x22, CHR 0x27} = {} \<and> shown_text shown = m)"
    using page_shows_the_message [OF red] by (elim exE)
  from this [rule_format, OF plain] show ?thesis by (elim exE conjE) (intro exI conjI)
qed

section \<open>The log\<close>

definition last_entries :: "nat \<Rightarrow> 'a list \<Rightarrow> 'a list" where
  "last_entries n xs = drop (length xs - n) xs"

lemma append_bounded_last:
  "length xs \<le> n \<Longrightarrow> 0 < n \<Longrightarrow> append_bounded n x xs = last_entries n (xs @ [x])"
  by (cases xs) (auto simp: append_bounded_def last_entries_def)

lemma last_entries_twice: "last_entries n (last_entries n xs @ ys) = last_entries n (xs @ ys)"
  by (cases "n \<le> length xs") (auto simp: last_entries_def add.commute)

text \<open>The entry a request adds to an unbounded log.\<close>

definition log_entry :: "'n hello_env \<Rightarrow> string \<times> string \<Rightarrow> (string \<times> string) list" where
  "log_entry env rq =
     (case urlsplit (hl_url env) (snd rq) of
        None \<Rightarrow> [] | Some u \<Rightarrow> [(fst rq, if u_path u = [] then ''/'' else u_path u)])"

fun record_all :: "'n hello_env \<Rightarrow> (string \<times> string) list \<Rightarrow> 'n hello_state \<Rightarrow> 'n hello_state" where
  "record_all env [] s = s"
| "record_all env ((m, t) # rqs) s = record_all env rqs (snd (record_observed_request env m t s))"

lemma record_one:
  "length (observed s) \<le> OBSERVED_REQUEST_LIMIT \<Longrightarrow>
     observed (snd (record_observed_request env m t s)) =
       last_entries OBSERVED_REQUEST_LIMIT (observed s @ log_entry env (m, t))"
  by (auto simp: record_observed_request_def log_entry_def action_simps append_bounded_last last_entries_def
      OBSERVED_REQUEST_LIMIT_def split: option.split)

lemma record_all_last:
  "length (observed s) \<le> OBSERVED_REQUEST_LIMIT \<Longrightarrow>
     observed (record_all env rqs s) =
       last_entries OBSERVED_REQUEST_LIMIT (observed s @ concat (map (log_entry env) rqs))"
proof (induction rqs arbitrary: s)
  case Nil
  then show ?case by (simp add: last_entries_def)
next
  case (Cons rq rqs)
  obtain m t where rq: "rq = (m, t)" by fastforce
  have one: "observed (snd (record_observed_request env m t s)) =
      last_entries OBSERVED_REQUEST_LIMIT (observed s @ log_entry env (m, t))"
    by (rule record_one [OF Cons.prems])
  then have "length (observed (snd (record_observed_request env m t s))) \<le> OBSERVED_REQUEST_LIMIT"
    by (simp add: last_entries_def)
  from Cons.IH [OF this] one show ?case by (simp add: rq last_entries_twice)
qed

text \<open>Readiness checks do not touch the log.\<close>

lemma check_http_log [triples]: "keeps (\<lambda>s. observed s = log) (check_http env name url)"
  by (auto simp: check_http_def keeps_def action_simps record_probe_def split: option.split prod.split)

lemma connect_postgres_log [triples]: "keeps (\<lambda>s. observed s = log) (connect_postgres env name host port)"
  by (auto simp: connect_postgres_def keeps_def action_simps record_probe_def split: prod.split)

lemma check_postgres_log [triples]: "keeps (\<lambda>s. observed s = log) (check_postgres env name url)"
  unfolding check_postgres_def
  by (auto intro!: keeps_raise keeps_ret connect_postgres_log split: option.split sum.split)

lemma check_dependency_log [triples]: "keeps (\<lambda>s. observed s = log) (check_dependency env environment d)"
  unfolding check_dependency_def
  by (intro keeps_bind keeps_option keeps_ret check_http_log check_postgres_log)

lemma check_all_log [triples]: "keeps (\<lambda>s. observed s = log) (check_all env environment ds)"
  by (induction ds) (auto intro!: keeps_bind keeps_ret check_dependency_log)

lemma do_GET_log: "path \<noteq> ''/'' \<Longrightarrow> keeps (\<lambda>s. observed s = log) (do_GET env path)"
  unfolding do_GET_def dependency_failures_def
  by (simp del: bindA_liftE) (intro conjI impI keeps_bind keeps_ret keeps_lift keeps_get check_all_log)


definition hello_quiet :: "unit hello_env" where
  "hello_quiet =
     \<lparr>hl_environ = [], hl_json = (\<lambda>_. Some (JArr [])), hl_url = \<lparr>ipv6 = (\<lambda>_. False), plain_netloc = (\<lambda>_. False)\<rparr>,
      hl_digit = (\<lambda>_. None), hl_fetch = (\<lambda>_ n. (Status 204, n)), hl_connect = (\<lambda>_ _ n. (Connected, n))\<rparr>"


section \<open>Dependency declarations\<close>

lemma text_field_Inr [simp]: "text_field v key = Inr s \<longleftrightarrow> v = JStr s \<and> s \<noteq> []"
  by (auto simp: text_field_def split: json.splits list.splits)

lemma make_dependency_Inr [simp]:
  "make_dependency name h d = Inr dep \<longleftrightarrow>
     dependency_name name \<and> environment_name_pattern h \<and> environment_name_pattern d \<and>
     dep = \<lparr>d_name = name, d_http = h, d_database = d\<rparr>"
  by (auto simp: make_dependency_def validate_dependency_name_def validate_environment_name_def)

lemma read_dependencies_valid:
  assumes "read_dependencies seen vs = Inr ds"
  shows "distinct (map d_name ds) \<and> set (map d_name ds) \<inter> set seen = {} \<and>
    (\<forall>d \<in> set ds. dependency_name (d_name d) \<and> environment_name_pattern (d_http d) \<and>
       environment_name_pattern (d_database d))"
  using assms
proof (induction vs arbitrary: seen ds)
  case (Cons v vs)
  then obtain d ds' name where ds: "ds = d # ds'" and name: "name = d_name d" "name \<notin> set seen"
    and ok: "dependency_name (d_name d)" "environment_name_pattern (d_http d)"
      "environment_name_pattern (d_database d)"
    and rest: "read_dependencies (name # seen) vs = Inr ds'"
    by (fastforce split: json.splits if_splits)
  from Cons.IH [OF rest] show ?case using ds name ok by auto
qed simp

text \<open>A declaration that spells out its names is read back as it is.\<close>

lemma descriptor_fields [simp]:
  "get (dependency_descriptor d) ''name'' = JStr (d_name d)"
  "get (dependency_descriptor d) ''http_environment'' = JStr (d_http d)"
  "get (dependency_descriptor d) ''database_environment'' = JStr (d_database d)"
  "keys_within (dependency_descriptor d) [''name'', ''http_environment'', ''database_environment'']"
  by (simp_all add: dependency_descriptor_def get_def keys_within_def keys_def)

lemma read_descriptors:
  assumes "distinct (map d_name ds)" and "set (map d_name ds) \<inter> set seen = {}"
    and "\<forall>d \<in> set ds. dependency_name (d_name d) \<and> environment_name_pattern (d_http d) \<and>
      environment_name_pattern (d_database d)"
  shows "read_dependencies seen (map (JObj \<circ> dependency_descriptor) ds) = Inr ds"
  using assms
proof (induction ds arbitrary: seen)
  case (Cons d ds)
  have "d_name d \<noteq> []" "d_http d \<noteq> []" "d_database d \<noteq> []"
    using Cons.prems(3) by (auto simp: dependency_name_def environment_name_pattern_def)
  moreover have "read_dependencies (d_name d # seen) (map (JObj \<circ> dependency_descriptor) ds) = Inr ds"
    using Cons.prems by (intro Cons.IH) auto
  ultimately show ?case using Cons.prems by (auto simp: dependency_environments_def comp_def)
qed simp

text \<open>
  Dependencies that are loaded have distinct valid names and valid variables; loading the text
  that \<open>/dependencies\<close> shows for them gives the same dependencies.
\<close>

theorem dependency_declarations_roundtrip:
  assumes "load_dependencies loads raw = Inr ds" and "printed \<noteq> []"
    and "loads printed = Some (JArr (map (JObj \<circ> dependency_descriptor) ds))"
  shows "distinct (map d_name ds) \<and>
    (\<forall>d \<in> set ds. dependency_name (d_name d) \<and> environment_name_pattern (d_http d) \<and>
       environment_name_pattern (d_database d)) \<and>
    load_dependencies loads (Some printed) = Inr ds"
proof -
  have "ds = [] \<or> (\<exists>vs. read_dependencies [] vs = Inr ds)"
    using assms(1) by (auto simp: load_dependencies_def split: option.splits list.splits json.splits)
  then have valid: "distinct (map d_name ds) \<and>
    (\<forall>d \<in> set ds. dependency_name (d_name d) \<and> environment_name_pattern (d_http d) \<and>
       environment_name_pattern (d_database d))"
    using read_dependencies_valid by fastforce
  then have "read_dependencies [] (map (JObj \<circ> dependency_descriptor) ds) = Inr ds"
    by (intro read_descriptors) auto
  with valid assms(2,3) show ?thesis by (cases printed) (auto simp: load_dependencies_def)
qed

definition demo_loads :: "string \<Rightarrow> json option" where
  "demo_loads text =
     (if text = ''short'' then Some (JArr [JObj [(''name'', JStr ''orders-db'')]])
      else Some (JArr [JObj [(''name'', JStr ''orders-db''),
                             (''http_environment'', JStr ''HELLO_HTTP_ORDERS_DB_URL''),
                             (''database_environment'', JStr ''HELLO_DATABASE_ORDERS_DB_URL'')]]))"

theorem dependency_declarations_roundtrip_witness:
  "load_dependencies demo_loads (Some ''short'') = load_dependencies demo_loads (Some ''long'')"
proof -
  define ds where "ds = [\<lparr>d_name = ''orders-db'', d_http = ''HELLO_HTTP_ORDERS_DB_URL'',
    d_database = ''HELLO_DATABASE_ORDERS_DB_URL''\<rparr>]"
  have short: "load_dependencies demo_loads (Some ''short'') = Inr ds"
    unfolding ds_def by code_simp
  have "demo_loads ''long'' = Some (JArr (map (JObj \<circ> dependency_descriptor) ds))"
    by (simp add: demo_loads_def ds_def dependency_descriptor_def)
  then show ?thesis using dependency_declarations_roundtrip [OF short, of "''long''"] short by simp
qed

section \<open>Readiness\<close>

text \<open>What a dependency without failures was found to do.\<close>

definition answered :: "'n hello_env \<Rightarrow> dependency \<Rightarrow> probe list \<Rightarrow> bool" where
  "answered env d evidence \<longleftrightarrow>
     (\<exists>url code database u host port.
        map_of (hl_environ env) (d_http d) = Some url \<and> map_of (hl_environ env) (d_database d) = Some database \<and>
        200 \<le> code \<and> code < 300 \<and> urlsplit (hl_url env) database = Some u \<and> hostname u = Some host \<and>
        evidence = [HttpProbe url (Status code), TcpProbe host port Connected])"

lemma check_http_ok:
  assumes "check_http env name url s = (Inr [], s')"
  shows "\<exists>code. 200 \<le> code \<and> code < 300 \<and> probed s' = probed s @ [HttpProbe url (Status code)]"
  using assms
  by (auto simp: check_http_def action_simps record_probe_def split: option.splits if_splits prod.splits fetched.splits)

lemma check_postgres_ok:
  assumes "check_postgres env name url s = (Inr [], s')"
  shows "\<exists>u host port. urlsplit (hl_url env) url = Some u \<and> hostname u = Some host \<and>
    probed s' = probed s @ [TcpProbe host port Connected]"
  using assms
  by (auto simp: check_postgres_def connect_postgres_def action_simps record_probe_def
      split: option.splits if_splits prod.splits connected.splits sum.splits)

lemma check_dependency_ok:
  assumes "check_dependency env (hl_environ env) d s = (Inr [], s')"
  shows "\<exists>evidence. answered env d evidence \<and> probed s' = probed s @ evidence"
proof -
  obtain h s1 where h: "(case map_of (hl_environ env) (d_http d) of
      None \<Rightarrow> ret [d_name d @ '': missing '' @ d_http d] | Some url \<Rightarrow> check_http env (d_name d) url) s = (Inr h, s1)"
    and b: "(case map_of (hl_environ env) (d_database d) of
      None \<Rightarrow> ret [d_name d @ '': missing '' @ d_database d]
    | Some url \<Rightarrow> check_postgres env (d_name d) url) s1 = (Inr [], s')" and "h = []"
    using assms by (auto simp: check_dependency_def bindA_def action_simps split: prod.splits sum.splits)
  then obtain url database where
    "map_of (hl_environ env) (d_http d) = Some url" "check_http env (d_name d) url s = (Inr [], s1)"
    "map_of (hl_environ env) (d_database d) = Some database" "check_postgres env (d_name d) database s1 = (Inr [], s')"
    by (auto simp: action_simps split: option.splits)
  then show ?thesis
    using check_http_ok [of env "d_name d" url s s1] check_postgres_ok [of env "d_name d" database s1 s']
    unfolding answered_def by fastforce
qed

lemma check_all_ok:
  "check_all env (hl_environ env) ds s = (Inr [], s') \<Longrightarrow>
     \<exists>es. list_all2 (answered env) ds es \<and> probed s' = probed s @ concat es"
proof (induction ds arbitrary: s)
  case Nil
  then show ?case by (simp add: action_simps)
next
  case (Cons d ds)
  then obtain s1 where "check_dependency env (hl_environ env) d s = (Inr [], s1)"
    and "check_all env (hl_environ env) ds s1 = (Inr [], s')"
    by (auto simp: bindA_def action_simps split: prod.splits sum.splits)
  with check_dependency_ok Cons.IH show ?case
    by (metis append.assoc concat.simps(2) list.rel_intros(2))
qed

text \<open>
  The readiness endpoint answers 200 only when the declared dependencies load and, in their
  order, the HTTP URL of each answered with a status in 200--299 and the host of its Postgres URL
  accepted a connection; nothing else is contacted.
\<close>

theorem ready_means_every_dependency_answered:
  assumes "do_GET env ''/health/ready'' s = (Inr r, s')" and "hp_status r = 200"
  shows "\<exists>ds es. dependencies env = Inr ds \<and> list_all2 (answered env) ds es \<and>
    probed s' = probed s @ concat es"
proof -
  obtain ds failures where ds: "dependencies env = Inr ds"
    and run: "check_all env (hl_environ env) ds s = (Inr failures, s')" and r: "ready_reply failures = Inr r"
    using assms(1)
    by (auto simp: do_GET_def dependency_failures_def bindA_def action_simps split: prod.splits sum.splits)
  have "failures = []"
    using r assms(2) by (auto simp: ready_reply_def plain_reply_def split: if_splits option.splits)
  then show ?thesis using ds run check_all_ok [of env ds s s'] by auto
qed

definition dependent :: "unit hello_env" where
  "dependent =
     hello_quiet\<lparr>hl_json := (\<lambda>_. Some (JArr [JObj [(''name'', JStr ''db'')]])),
           hl_environ := [(''HELLO_HTTP_DB_URL'', ''http://db:80/live''),
                          (''HELLO_DATABASE_DB_URL'', ''postgresql://u@db/x'')]\<rparr>"

theorem ready_means_every_dependency_answered_witness:
  "do_GET dependent ''/health/ready'' \<lparr>hs_network = (), observed = [], probed = []\<rparr> =
     (Inr (plain_reply 200 (''ready'' @ newline)),
      \<lparr>hs_network = (), observed = [],
       probed = [HttpProbe ''http://db:80/live'' (Status 204), TcpProbe ''db'' 5432 Connected]\<rparr>) \<and>
   (\<exists>ds es. dependencies dependent = Inr ds \<and> list_all2 (answered dependent) ds es \<and> length (concat es) = 2)"
proof -
  have run: "do_GET dependent ''/health/ready'' \<lparr>hs_network = (), observed = [], probed = []\<rparr> =
     (Inr (plain_reply 200 (''ready'' @ newline)),
      \<lparr>hs_network = (), observed = [],
       probed = [HttpProbe ''http://db:80/live'' (Status 204), TcpProbe ''db'' 5432 Connected]\<rparr>)"
    by code_simp
  obtain ds es where ds: "dependencies dependent = Inr ds" "list_all2 (answered dependent) ds es"
    and es: "[HttpProbe ''http://db:80/live'' (Status 204), TcpProbe ''db'' 5432 Connected] = concat es"
    using ready_means_every_dependency_answered [OF run] by (auto simp: plain_reply_def)
  have "length (concat es) = 2" unfolding es [symmetric] by simp
  with run ds show ?thesis by blast
qed

end
