(* ===== verification/Catalogue.thy ===== *)
theory Catalogue
  imports PyText
begin

text \<open>
  The publication catalogue (\<open>src/control_plane_kit_servers/catalogue.py\<close>): the record of a
  completed product, reading a catalogue, admitting its descriptors and publishing it again.

  Files are read through \<open>cat_file\<close> and written through a state that may fail during any write.
  \<open>json.loads\<close>, SHA-256 and the descriptor codec of \<open>control_plane_kit_core\<close> are
  parameters.
\<close>

section \<open>Errors\<close>

text \<open>
  One constructor for every \<open>raise CatalogueError\<close>, with what its message shows; the other
  exceptions escape.
\<close>

datatype catalogue_error =
    ProductNotAnObject
  | UnknownProductKeys "string list"
  | MissingProductKeys "string list"
  | EmptyText string
  | NotCompleted
  | UnsafePath string
  | BadDescriptorHash
  | BadSourceCommit
  | MissingImageRef
  | BadImageDigest
  | ProductsNotAList
  | DuplicateProduct string
  | CatalogueMissing
  | CatalogueNotJson
  | CatalogueNotAnObject
  | UnknownCatalogueKeys "string list"
  | WrongSchema
  | DescriptorMismatch string
  | ImageMismatch string

datatype catalogue_exn = CatalogueError catalogue_error | UnicodeError | FileError | CodecError

section \<open>Published products\<close>

record product =
  product_id :: string
  owner_directory :: string
  descriptor_path :: string
  descriptor_sha256 :: string
  source_commit :: string
  image_ref :: string
  image_digest :: string
  product_status :: string

definition SCHEMA :: string where "SCHEMA = ''cpk-servers.descriptor-catalogue''"

definition PRODUCT_KEYS :: "string list" where
  "PRODUCT_KEYS =
     [''product_id'', ''owner_directory'', ''descriptor_path'', ''descriptor_sha256'', ''source_commit'',
      ''image_ref'', ''image_digest'', ''status'']"

definition required_string :: "dict \<Rightarrow> string \<Rightarrow> catalogue_exn + string" where
  "required_string d key =
     (case get d key of
        JStr (c # cs) \<Rightarrow> Inr (c # cs)
      | _ \<Rightarrow> Inl (CatalogueError (EmptyText key)))"

text \<open>
  \<open>Path(value).is_absolute()\<close> and \<open>".." in Path(value).parts\<close>: the parts are the non-empty
  pieces between slashes other than \<open>"."\<close>.
\<close>

definition validate_relative_path :: "string \<Rightarrow> string \<Rightarrow> catalogue_exn + unit" where
  "validate_relative_path name s =
     raise_if (starts_with ''/'' s \<or> ''..'' \<in> set (split_on (CHR ''/'') s)) (CatalogueError (UnsafePath name))"

definition is_lower_hex :: "string \<Rightarrow> nat \<Rightarrow> bool" where
  "is_lower_hex s n \<longleftrightarrow> str_len s = n \<and> list_all is_lower_hex_char s"

definition removeprefix :: "string \<Rightarrow> string \<Rightarrow> string" where
  "removeprefix p s = (if starts_with p s then drop (length p) s else s)"

definition validate_product :: "product \<Rightarrow> catalogue_exn + unit" where
  "validate_product p =
     bindE (raise_if (product_status p \<noteq> ''completed'') (CatalogueError NotCompleted)) (\<lambda>_.
     bindE (validate_relative_path ''owner_directory'' (owner_directory p)) (\<lambda>_.
     bindE (validate_relative_path ''descriptor_path'' (descriptor_path p)) (\<lambda>_.
     bindE (raise_if (\<not> is_lower_hex (descriptor_sha256 p) 64) (CatalogueError BadDescriptorHash)) (\<lambda>_.
     bindE (raise_if (\<not> is_lower_hex (source_commit p) 40) (CatalogueError BadSourceCommit)) (\<lambda>_.
     bindE (raise_if (image_ref p = []) (CatalogueError MissingImageRef)) (\<lambda>_.
     raise_if (\<not> starts_with ''sha256:'' (image_digest p) \<or>
               \<not> is_lower_hex (removeprefix ''sha256:'' (image_digest p)) 64) (CatalogueError BadImageDigest)))))))"

definition product_from_mapping :: "json \<Rightarrow> catalogue_exn + product" where
  "product_from_mapping v =
     (case v of
        JObj d \<Rightarrow>
          (let unknown = filter (\<lambda>k. k \<notin> set PRODUCT_KEYS) (keys d);
               missing = filter (\<lambda>k. k \<notin> set (keys d)) PRODUCT_KEYS in
           if unknown \<noteq> [] then Inl (CatalogueError (UnknownProductKeys (sort unknown)))
           else if missing \<noteq> [] then Inl (CatalogueError (MissingProductKeys (sort missing)))
           else
             bindE (required_string d ''product_id'') (\<lambda>i.
             bindE (required_string d ''owner_directory'') (\<lambda>owner.
             bindE (required_string d ''descriptor_path'') (\<lambda>path.
             bindE (required_string d ''descriptor_sha256'') (\<lambda>sha.
             bindE (required_string d ''source_commit'') (\<lambda>commit.
             bindE (required_string d ''image_ref'') (\<lambda>ref.
             bindE (required_string d ''image_digest'') (\<lambda>digest.
             bindE (required_string d ''status'') (\<lambda>status.
             let p = \<lparr>product_id = i, owner_directory = owner, descriptor_path = path, descriptor_sha256 = sha,
                      source_commit = commit, image_ref = ref, image_digest = digest, product_status = status\<rparr> in
             bindE (validate_product p) (\<lambda>_. Inr p))))))))))
      | _ \<Rightarrow> Inl (CatalogueError ProductNotAnObject))"

definition product_descriptor :: "product \<Rightarrow> dict" where
  "product_descriptor p =
     [(''product_id'', JStr (product_id p)), (''owner_directory'', JStr (owner_directory p)),
      (''descriptor_path'', JStr (descriptor_path p)), (''descriptor_sha256'', JStr (descriptor_sha256 p)),
      (''source_commit'', JStr (source_commit p)), (''image_ref'', JStr (image_ref p)),
      (''image_digest'', JStr (image_digest p)), (''status'', JStr (product_status p))]"

section \<open>Reading\<close>

text \<open>What opening and reading a file gives: its bytes, no such file, or another \<open>OSError\<close>.\<close>

datatype file_content = Bytes string | NoFile | Unreadable

record 'doc catalogue_env =
  cat_file :: "string \<Rightarrow> file_content"
  cat_loads :: "string \<Rightarrow> json option"
  cat_sha256 :: "string \<Rightarrow> string"
  cat_decode :: "string \<Rightarrow> 'doc option"
  cat_image_digest :: "'doc \<Rightarrow> string"

definition read_catalogue :: "'doc catalogue_env \<Rightarrow> string \<Rightarrow> catalogue_exn + dict" where
  "read_catalogue env path =
     (case cat_file env path of
        NoFile \<Rightarrow> Inl (CatalogueError CatalogueMissing)
      | Unreadable \<Rightarrow> Inl FileError
      | Bytes b \<Rightarrow>
          (case utf8_decode b of
             None \<Rightarrow> Inl UnicodeError
           | Some s \<Rightarrow>
               (case cat_loads env s of
                  None \<Rightarrow> Inl (CatalogueError CatalogueNotJson)
                | Some (JObj raw) \<Rightarrow>
                    (let unknown = filter (\<lambda>k. k \<notin> {''schema'', ''products''}) (keys raw) in
                     if unknown \<noteq> [] then Inl (CatalogueError (UnknownCatalogueKeys (sort unknown)))
                     else if get raw ''schema'' \<noteq> JStr SCHEMA then Inl (CatalogueError WrongSchema)
                     else Inr raw)
                | Some _ \<Rightarrow> Inl (CatalogueError CatalogueNotAnObject))))"

fun reject_duplicates :: "string list \<Rightarrow> product list \<Rightarrow> catalogue_exn + unit" where
  "reject_duplicates seen [] = Inr ()"
| "reject_duplicates seen (p # ps) =
     (if product_id p \<in> set seen then Inl (CatalogueError (DuplicateProduct (product_id p)))
      else reject_duplicates (product_id p # seen) ps)"

definition load_products :: "json \<Rightarrow> catalogue_exn + product list" where
  "load_products v =
     (case v of
        JArr items \<Rightarrow>
          bindE (mapE product_from_mapping items) (\<lambda>declarations.
          bindE (reject_duplicates [] declarations) (\<lambda>_.
          Inr (sort_key product_id declarations)))
      | _ \<Rightarrow> Inl (CatalogueError ProductsNotAList))"

definition load_catalogue :: "'doc catalogue_env \<Rightarrow> string \<Rightarrow> catalogue_exn + product list" where
  "load_catalogue env path =
     bindE (read_catalogue env path) (\<lambda>raw. load_products (get raw ''products''))"

text \<open>\<open>Path(root) / path\<close> for a relative path.\<close>

definition join_path :: "string \<Rightarrow> string \<Rightarrow> string" where
  "join_path root path = root @ ''/'' @ path"

definition admit_descriptor :: "'doc catalogue_env \<Rightarrow> string \<Rightarrow> product \<Rightarrow> catalogue_exn + 'doc" where
  "admit_descriptor env root p =
     (case cat_file env (join_path root (descriptor_path p)) of
        Bytes content \<Rightarrow>
          if cat_sha256 env content \<noteq> descriptor_sha256 p
          then Inl (CatalogueError (DescriptorMismatch (product_id p)))
          else
            (case cat_decode env content of
               None \<Rightarrow> Inl CodecError
             | Some document \<Rightarrow>
                 if cat_image_digest env document \<noteq> image_digest p
                 then Inl (CatalogueError (ImageMismatch (product_id p)))
                 else Inr document)
      | _ \<Rightarrow> Inl FileError)"

definition load_product_catalog :: "'doc catalogue_env \<Rightarrow> string \<Rightarrow> string \<Rightarrow> catalogue_exn + 'doc list" where
  "load_product_catalog env path root =
     bindE (load_catalogue env path) (mapE (admit_descriptor env root))"

section \<open>Publishing\<close>

definition line_break :: string where "line_break = [CHR 0x0A]"

definition spaces :: "nat \<Rightarrow> string" where "spaces n = replicate n (CHR '' '')"

text \<open>\<open>json.dumps(v, indent=2)\<close>, for values without floats.\<close>

fun pretty :: "nat \<Rightarrow> json \<Rightarrow> string"
  and pretty_list :: "nat \<Rightarrow> json list \<Rightarrow> string"
  and pretty_items :: "nat \<Rightarrow> (string \<times> json) list \<Rightarrow> string"
where
  "pretty n (JArr []) = ''[]''"
| "pretty n (JArr (x # xs)) =
     ''['' @ line_break @ pretty_list (n + 2) (x # xs) @ line_break @ spaces n @ '']''"
| "pretty n (JObj []) = ''{}''"
| "pretty n (JObj (x # xs)) =
     ''{'' @ line_break @ pretty_items (n + 2) (x # xs) @ line_break @ spaces n @ ''}''"
| "pretty n v = dump (\<lambda>_. []) v"
| "pretty_list n [] = []"
| "pretty_list n [x] = spaces n @ pretty n x"
| "pretty_list n (x # y # xs) = spaces n @ pretty n x @ '','' @ line_break @ pretty_list n (y # xs)"
| "pretty_items n [] = []"
| "pretty_items n [(k, v)] = spaces n @ dump_string k @ '': '' @ pretty n v"
| "pretty_items n ((k, v) # p # xs) =
     spaces n @ dump_string k @ '': '' @ pretty n v @ '','' @ line_break @ pretty_items n (p # xs)"

definition catalogue_payload :: "product list \<Rightarrow> json" where
  "catalogue_payload ps =
     JObj [(''schema'', JStr SCHEMA), (''products'', JArr (map (JObj \<circ> product_descriptor) ps))]"

definition encode_catalogue :: "product list \<Rightarrow> string" where
  "encode_catalogue ps = pretty 0 (canon (catalogue_payload ps)) @ line_break"

text \<open>
  Writing: the files, and for every system call in turn how it goes -- \<open>None\<close> well, \<open>Some k\<close>
  fails when \<open>k\<close> bytes are written (the file was truncated when it was opened).
\<close>

record publication =
  files :: "(string \<times> string) list"
  faults :: "nat option list"

type_synonym 'a publishing = "(publication, catalogue_exn, 'a) action"

definition next_fault :: "publication \<Rightarrow> nat option" where
  "next_fault s = (case faults s of [] \<Rightarrow> None | f # _ \<Rightarrow> f)"

definition make_parent :: "unit publishing" where
  "make_parent = (\<lambda>s.
     (if next_fault s = None then Inr () else Inl FileError, s\<lparr>faults := tl (faults s)\<rparr>))"

definition write_file :: "string \<Rightarrow> string \<Rightarrow> unit publishing" where
  "write_file path content = (\<lambda>s.
     case next_fault s of
       None \<Rightarrow> (Inr (), s\<lparr>files := AList.update path content (files s), faults := tl (faults s)\<rparr>)
     | Some k \<Rightarrow>
         (Inl FileError, s\<lparr>files := AList.update path (take k content) (files s), faults := tl (faults s)\<rparr>))"

text \<open>\<open>write_text(..., encoding="utf-8")\<close> opens the file before it encodes.\<close>

definition write_text_file :: "string \<Rightarrow> string \<Rightarrow> unit publishing" where
  "write_text_file path content =
     (case utf8_encode content of
        Some b \<Rightarrow> write_file path b
      | None \<Rightarrow> thenA (write_file path []) (raise UnicodeError))"

record publication_report =
  pr_output :: string
  pr_checksum :: string
  pr_product_ids :: "string list"

text \<open>
  \<open>with_suffix(suffix + ".sha256")\<close> appends to the name.  \<open>dir\<close> is the printed parent with its
  slash, empty for the working directory.
\<close>

definition publish_catalogue ::
  "'doc catalogue_env \<Rightarrow> string \<Rightarrow> string \<Rightarrow> string \<Rightarrow> publication_report publishing" where
  "publish_catalogue env source dir name =
     bindA (liftE (load_catalogue env source)) (\<lambda>declarations.
     bindA make_parent (\<lambda>_.
     let encoded = encode_catalogue declarations; checksum = cat_sha256 env encoded in
     bindA (write_file (dir @ name) encoded) (\<lambda>_.
     bindA (write_text_file (dir @ name @ ''.sha256'') (checksum @ ''  '' @ name @ line_break)) (\<lambda>_.
     ret \<lparr>pr_output = dir @ name, pr_checksum = checksum, pr_product_ids = map product_id declarations\<rparr>))))"

end
