(* ===== verification/CatalogueProperties.thy ===== *)
theory CatalogueProperties
  imports Catalogue "HOL-Library.Multiset" "HOL-Library.Code_Target_Numeral"
begin

text \<open>
  What the catalogue guarantees: its products are valid, distinct and in order, admitted descriptors
  have the published digests, and a publication depends on the products only and can be read back.
\<close>

section \<open>Products\<close>

definition relative_path :: "string \<Rightarrow> bool" where
  "relative_path s \<longleftrightarrow> \<not> starts_with ''/'' s \<and> ''..'' \<notin> set (split_on (CHR ''/'') s)"

definition valid_product :: "product \<Rightarrow> bool" where
  "valid_product p \<longleftrightarrow>
     product_id p \<noteq> [] \<and> owner_directory p \<noteq> [] \<and> descriptor_path p \<noteq> [] \<and> image_ref p \<noteq> [] \<and>
     product_status p = ''completed'' \<and> relative_path (owner_directory p) \<and> relative_path (descriptor_path p) \<and>
     is_lower_hex (descriptor_sha256 p) 64 \<and> is_lower_hex (source_commit p) 40 \<and>
     (\<exists>h. image_digest p = ''sha256:'' @ h \<and> is_lower_hex h 64)"

lemma required_string_Inr [simp]: "required_string d key = Inr s \<longleftrightarrow> get d key = JStr s \<and> s \<noteq> []"
  by (auto simp: required_string_def split: json.splits list.splits)

lemma digest_iff:
  "starts_with ''sha256:'' s \<and> is_lower_hex (removeprefix ''sha256:'' s) 64 \<longleftrightarrow>
     (\<exists>h. s = ''sha256:'' @ h \<and> is_lower_hex h 64)"
  by (auto simp: removeprefix_def starts_with_iff)

lemma validate_product_Inr:
  "validate_product p = Inr u \<longleftrightarrow>
     product_status p = ''completed'' \<and> relative_path (owner_directory p) \<and> relative_path (descriptor_path p) \<and>
     is_lower_hex (descriptor_sha256 p) 64 \<and> is_lower_hex (source_commit p) 40 \<and> image_ref p \<noteq> [] \<and>
     (\<exists>h. image_digest p = ''sha256:'' @ h \<and> is_lower_hex h 64)"
  unfolding digest_iff [symmetric]
  by (auto simp: validate_product_def validate_relative_path_def relative_path_def)

lemma product_from_mapping_valid:
  assumes "product_from_mapping v = Inr p"
  shows "valid_product p"
proof -
  obtain d where "v = JObj d"
    using assms by (cases v) (auto simp: product_from_mapping_def)
  with assms show ?thesis
    by (auto simp: product_from_mapping_def Let_def valid_product_def validate_product_Inr split: if_splits)
qed

lemma is_lower_hex_nonempty: "is_lower_hex s n \<Longrightarrow> 0 < n \<Longrightarrow> s \<noteq> []"
  by (auto simp: is_lower_hex_def str_len_def)

text \<open>A mapping with the fields of a valid product is that product, whatever the order of its keys.\<close>

definition describes :: "dict \<Rightarrow> product \<Rightarrow> bool" where
  "describes d p \<longleftrightarrow> map_of d = map_of (product_descriptor p) \<and> set (keys d) = set PRODUCT_KEYS"

lemma product_from_descriptor:
  assumes "describes d p" and "valid_product p"
  shows "product_from_mapping (JObj d) = Inr p"
proof -
  have fields: "get d = get (product_descriptor p)"
    using assms(1) by (simp add: describes_def get_def fun_eq_iff)
  have keys: "filter (\<lambda>k. k \<notin> set PRODUCT_KEYS) (keys d) = []"
    "filter (\<lambda>k. k \<notin> set (keys d)) PRODUCT_KEYS = []"
    using assms(1) by (auto simp: describes_def filter_empty_conv)
  have nonempty: "descriptor_sha256 p \<noteq> []" "source_commit p \<noteq> []" "image_digest p \<noteq> []" "product_status p \<noteq> []"
    using assms(2) by (auto simp: valid_product_def dest: is_lower_hex_nonempty)
  have ok: "validate_product
      \<lparr>product_id = product_id p, owner_directory = owner_directory p, descriptor_path = descriptor_path p,
       descriptor_sha256 = descriptor_sha256 p, source_commit = source_commit p, image_ref = image_ref p,
       image_digest = image_digest p, product_status = product_status p\<rparr> = Inr ()"
    using assms(2) by (simp add: valid_product_def validate_product_Inr)
  have texts: "required_string d ''product_id'' = Inr (product_id p)"
    "required_string d ''owner_directory'' = Inr (owner_directory p)"
    "required_string d ''descriptor_path'' = Inr (descriptor_path p)"
    "required_string d ''descriptor_sha256'' = Inr (descriptor_sha256 p)"
    "required_string d ''source_commit'' = Inr (source_commit p)"
    "required_string d ''image_ref'' = Inr (image_ref p)"
    "required_string d ''image_digest'' = Inr (image_digest p)"
    "required_string d ''status'' = Inr (product_status p)"
    using assms(2) nonempty by (simp_all add: fields valid_product_def product_descriptor_def get_def)
  show ?thesis
    unfolding product_from_mapping_def json.case Let_def keys by (simp add: texts ok)
qed

lemma describes_sorted: "describes (sort_key fst (product_descriptor p)) p"
proof -
  have distinct: "distinct (map fst (product_descriptor p))" by (simp add: product_descriptor_def)
  moreover from this have "distinct (map fst (sort_key fst (product_descriptor p)))"
    by (metis distinct_map distinct_sort set_sort)
  ultimately have "map_of (sort_key fst (product_descriptor p)) = map_of (product_descriptor p)"
    by (simp add: map_of_inject_set)
  then show ?thesis
    by (auto simp: describes_def keys_def product_descriptor_def PRODUCT_KEYS_def)
qed

section \<open>Loading\<close>

lemma reject_duplicates_Inr:
  "reject_duplicates seen ps = Inr u \<longleftrightarrow>
     distinct (map product_id ps) \<and> set (map product_id ps) \<inter> set seen = {}"
  by (induction seen ps rule: reject_duplicates.induct) auto

lemma load_products_Inr:
  "load_products v = Inr ps \<longleftrightarrow>
     (\<exists>items ds. v = JArr items \<and> list_all2 (\<lambda>i d. product_from_mapping i = Inr d) items ds \<and>
        distinct (map product_id ds) \<and> ps = sort_key product_id ds)"
  by (cases v) (auto simp: load_products_def mapE_Inr_iff reject_duplicates_Inr)

text \<open>
  C39.  A catalogue that loads has valid products with distinct identifiers, in their order; a catalogue
  that is admitted has, for each of them, a descriptor file under the root whose digest and whose image
  digest are the published ones.
\<close>

theorem admitted_descriptors_are_pinned:
  assumes "load_product_catalog env path root = Inr docs"
  shows "\<exists>ps. load_catalogue env path = Inr ps \<and> list_all valid_product ps \<and>
    sorted (map product_id ps) \<and> distinct (map product_id ps) \<and>
    list_all2 (\<lambda>p doc. \<exists>content. cat_file env (join_path root (descriptor_path p)) = Bytes content \<and>
      cat_sha256 env content = descriptor_sha256 p \<and> cat_decode env content = Some doc \<and>
      cat_image_digest env doc = image_digest p) ps docs"
proof -
  obtain ps where ps: "load_catalogue env path = Inr ps" and admitted: "mapE (admit_descriptor env root) ps = Inr docs"
    using assms by (auto simp: load_product_catalog_def)
  obtain items ds where read: "list_all2 (\<lambda>i d. product_from_mapping i = Inr d) items ds"
    and ds: "distinct (map product_id ds)" "ps = sort_key product_id ds"
    using ps by (auto simp: load_catalogue_def load_products_Inr)
  have "list_all valid_product ds"
    using read by (induction items ds rule: list_all2_induct) (auto dest: product_from_mapping_valid)
  moreover have "distinct (map product_id ps)"
    using ds by (simp add: distinct_map)
  moreover have one: "admit_descriptor env root p = Inr doc \<Longrightarrow>
      \<exists>content. cat_file env (join_path root (descriptor_path p)) = Bytes content \<and>
      cat_sha256 env content = descriptor_sha256 p \<and> cat_decode env content = Some doc \<and>
      cat_image_digest env doc = image_digest p" for p doc
    by (auto simp: admit_descriptor_def split: file_content.splits if_splits option.splits)
  have "list_all2 (\<lambda>p doc. \<exists>content. cat_file env (join_path root (descriptor_path p)) = Bytes content \<and>
      cat_sha256 env content = descriptor_sha256 p \<and> cat_decode env content = Some doc \<and>
      cat_image_digest env doc = image_digest p) ps docs"
    using admitted unfolding mapE_Inr_iff by (rule list_all2_mono) (rule one)
  ultimately show ?thesis using ps ds by (auto simp: list_all_iff)
qed

section \<open>Publishing\<close>

lemma pretty_ascii: "is_ascii (pretty n v)" "is_ascii (pretty_list n xs)" "is_ascii (pretty_items n ms)"
proof -
  have breaks: "is_ascii line_break" "\<And>n. is_ascii (spaces n)"
    by (simp_all add: line_break_def spaces_def is_ascii_def list_all_iff byte_of_def)
  show "is_ascii (pretty n v)" "is_ascii (pretty_list n xs)" "is_ascii (pretty_items n ms)"
    by (induction n v and n xs and n ms rule: pretty_pretty_list_pretty_items.induct)
      (auto simp: breaks byte_of_def simp del: dump.simps intro!: dump_ascii)
qed

lemma encode_catalogue_utf8: "valid_utf8 (encode_catalogue ps)"
  by (rule valid_utf8_ascii) (simp add: encode_catalogue_def pretty_ascii line_break_def byte_of_def)

text \<open>A run of \<open>publish_catalogue\<close> that returns wrote the catalogue and its checksum.\<close>

lemma publish_catalogue_Inr:
  assumes "publish_catalogue env source dir name s = (Inr report, s')"
  shows "\<exists>ps. load_catalogue env source = Inr ps \<and>
    report = \<lparr>pr_output = dir @ name, pr_checksum = cat_sha256 env (encode_catalogue ps),
              pr_product_ids = map product_id ps\<rparr> \<and>
    map_of (files s') (dir @ name) = Some (encode_catalogue ps) \<and>
    map_of (files s') (dir @ name @ ''.sha256'') =
      Some (cat_sha256 env (encode_catalogue ps) @ ''  '' @ name @ line_break)"
  using assms
  by (auto simp: publish_catalogue_def bindA_def make_parent_def write_file_def write_text_file_def action_simps Let_def dict_simps
      split: prod.splits sum.splits if_splits option.splits)

lemma canon_payload:
  "canon (catalogue_payload ps) =
     JObj [(''products'', JArr (map (\<lambda>p. JObj (sort_key fst (product_descriptor p))) ps)), (''schema'', JStr SCHEMA)]"
proof -
  have "canon (JObj (product_descriptor p)) = JObj (sort_key fst (product_descriptor p))" for p
    by (simp add: product_descriptor_def)
  moreover have "(''schema'' :: string) > ''products''" by code_simp
  ultimately show ?thesis by (simp add: catalogue_payload_def comp_def insort_key.simps)
qed

text \<open>What was published reads back as the same products.\<close>

lemma load_published:
  assumes "list_all valid_product ps" and "sorted (map product_id ps)" and "distinct (map product_id ps)"
    and "cat_file env path = Bytes (encode_catalogue ps)" and "valid_utf8 (encode_catalogue ps)"
    and "cat_loads env (encode_catalogue ps) = Some (canon (catalogue_payload ps))"
  shows "load_catalogue env path = Inr ps"
proof -
  define items where "items = map (\<lambda>p. JObj (sort_key fst (product_descriptor p))) ps"
  have "list_all2 (\<lambda>i d. product_from_mapping i = Inr d) items ps"
    using assms(1) product_from_descriptor [OF describes_sorted]
    by (auto simp: items_def list_all2_map1 list_all2_same list_all_iff)
  then have "load_products (JArr items) = Inr ps"
    using assms(2,3) by (auto simp: load_products_Inr sort_key_id_if_sorted)
  moreover have "read_catalogue env path = Inr [(''products'', JArr items), (''schema'', JStr SCHEMA)]"
    using assms(4-6)
    by (simp add: read_catalogue_def utf8_decode_def canon_payload items_def keys_def get_def)
  ultimately show ?thesis by (simp add: load_catalogue_def get_def)
qed

lemma load_catalogue_valid:
  assumes "load_catalogue env path = Inr ps"
  shows "list_all valid_product ps \<and> sorted (map product_id ps) \<and> distinct (map product_id ps)"
proof -
  obtain items ds where read: "list_all2 (\<lambda>i d. product_from_mapping i = Inr d) items ds"
    and ds: "distinct (map product_id ds)" "ps = sort_key product_id ds"
    using assms by (auto simp: load_catalogue_def load_products_Inr)
  have "list_all valid_product ds"
    using read by (induction items ds rule: list_all2_induct) (auto dest: product_from_mapping_valid)
  with ds show ?thesis by (auto simp: list_all_iff distinct_map)
qed

text \<open>Sources that list the same products, in whatever order, load as the same catalogue.\<close>

lemma mapE_permuted:
  assumes "mset us = mset vs" and "mapE f us = Inr xs"
  shows "\<exists>ys. mapE f vs = Inr ys \<and> mset ys = mset xs"
proof -
  define g where "g = (\<lambda>u. case f u of Inr y \<Rightarrow> y | Inl _ \<Rightarrow> undefined)"
  have each: "\<forall>u\<in>set us. f u = Inr (g u)" and xs: "xs = map g us"
    using assms(2) unfolding mapE_Inr_iff
    by (induction us xs rule: list_all2_induct) (auto simp: g_def)
  have "set us = set vs" using assms(1) by (rule mset_eq_setD)
  with each have "mapE f vs = Inr (map g vs)"
    unfolding mapE_Inr_iff by (auto simp: list_all2_map2 list_all2_same)
  moreover have "mset (map g vs) = mset xs" by (simp add: xs assms(1))
  ultimately show ?thesis by blast
qed

lemma load_products_permuted:
  assumes "mset us = mset vs" and "load_products (JArr us) = Inr ps"
  shows "load_products (JArr vs) = Inr ps"
proof -
  obtain ds where ds: "mapE product_from_mapping us = Inr ds" "distinct (map product_id ds)" "ps = sort_key product_id ds"
    using assms(2) by (auto simp: load_products_Inr mapE_Inr_iff)
  obtain es where es: "mapE product_from_mapping vs = Inr es" "mset es = mset ds"
    using mapE_permuted [OF assms(1) ds(1)] by blast
  have inj: "inj_on product_id (set ds)" using ds(2) by (simp add: distinct_map)
  have same: "set es = set ds" and distinct: "distinct (map product_id es)"
    using ds(2) es(2) by (auto simp: distinct_map dest: mset_eq_setD mset_eq_imp_distinct_iff)
  have "sort_key product_id es = ps"
    unfolding ds(3)
    using inj same distinct ds(2)
    by (intro map_sorted_distinct_set_unique [of product_id]) (auto simp: distinct_map)
  moreover note distinct
  ultimately show ?thesis using es(1) by (auto simp: load_products_Inr mapE_Inr_iff)
qed

text \<open>
  C40.  Publishing writes the products of the source, in order, and their checksum under the names of the
  output and its sidecar; what is written loads as the same products; and a source that lists the same
  products in another order is published identically.
\<close>

theorem publication_is_canonical:
  assumes "publish_catalogue env source dir name s = (Inr report, s')"
  shows "\<exists>ps. load_catalogue env source = Inr ps \<and> pr_product_ids report = map product_id ps \<and>
    map_of (files s') (dir @ name) = Some (encode_catalogue ps) \<and>
    map_of (files s') (dir @ name @ ''.sha256'') =
      Some (cat_sha256 env (encode_catalogue ps) @ ''  '' @ name @ line_break) \<and>
    (cat_loads env (encode_catalogue ps) = Some (canon (catalogue_payload ps)) \<longrightarrow>
       load_catalogue (env\<lparr>cat_file := (\<lambda>f. case map_of (files s') f of None \<Rightarrow> NoFile | Some b \<Rightarrow> Bytes b)\<rparr>)
         (dir @ name) = Inr ps) \<and>
    (\<forall>other us vs. load_catalogue env source = load_products (JArr us) \<and>
       load_catalogue env other = load_products (JArr vs) \<and> mset us = mset vs \<longrightarrow>
       publish_catalogue env other dir name s = (Inr report, s'))"
proof -
  obtain ps where ps: "load_catalogue env source = Inr ps"
    and report: "pr_product_ids report = map product_id ps"
    and written: "map_of (files s') (dir @ name) = Some (encode_catalogue ps)"
      "map_of (files s') (dir @ name @ ''.sha256'') =
        Some (cat_sha256 env (encode_catalogue ps) @ ''  '' @ name @ line_break)"
    using publish_catalogue_Inr [OF assms] by auto
  have reread: "load_catalogue (env\<lparr>cat_file := (\<lambda>f. case map_of (files s') f of None \<Rightarrow> NoFile | Some b \<Rightarrow> Bytes b)\<rparr>)
         (dir @ name) = Inr ps" if "cat_loads env (encode_catalogue ps) = Some (canon (catalogue_payload ps))"
    using load_catalogue_valid [OF ps] that written encode_catalogue_utf8 by (intro load_published) auto
  have other: "publish_catalogue env other dir name s = (Inr report, s')"
    if "load_catalogue env source = load_products (JArr us) \<and>
       load_catalogue env other = load_products (JArr vs) \<and> mset us = mset vs" for other us vs
  proof -
    have "load_products (JArr us) = Inr ps" using that ps by simp
    then have "load_catalogue env other = Inr ps" using that load_products_permuted by metis
    with assms ps show ?thesis by (simp add: publish_catalogue_def)
  qed
  show ?thesis using ps report written reread other by blast
qed

section \<open>A concrete catalogue\<close>

definition zeros :: "nat \<Rightarrow> string" where "zeros n = replicate n (CHR ''0'')"

definition demo_product :: "string \<Rightarrow> product" where
  "demo_product i =
     \<lparr>product_id = i, owner_directory = ''products/'' @ i, descriptor_path = ''products/d.json'',
      descriptor_sha256 = zeros 64, source_commit = zeros 40, image_ref = ''registry/'' @ i,
      image_digest = ''sha256:'' @ zeros 64, product_status = ''completed''\<rparr>"

definition demo_items :: "string list \<Rightarrow> json list" where
  "demo_items is = map (\<lambda>i. JObj (product_descriptor (demo_product i))) is"

definition demo_catalogue :: "string catalogue_env" where
  "demo_catalogue =
     \<lparr>cat_file = (\<lambda>f. if f \<in> {''a'', ''b'', ''root/products/d.json''} then Bytes f else NoFile),
      cat_loads = (\<lambda>text. Some (JObj [(''schema'', JStr SCHEMA),
        (''products'', JArr (demo_items (if text = ''a'' then [''router'', ''hello''] else [''hello'', ''router''])))])),
      cat_sha256 = (\<lambda>_. zeros 64), cat_decode = Some, cat_image_digest = (\<lambda>_. ''sha256:'' @ zeros 64)\<rparr>"

lemma admitted_descriptors_are_pinned_witness:
  "load_product_catalog demo_catalogue ''a'' ''root'' = Inr [''root/products/d.json'', ''root/products/d.json''] \<and>
   (\<exists>ps. load_catalogue demo_catalogue ''a'' = Inr ps \<and> length ps = 2 \<and> sorted (map product_id ps))"
proof -
  have run: "load_product_catalog demo_catalogue ''a'' ''root'' = Inr [''root/products/d.json'', ''root/products/d.json'']"
    by code_simp
  show ?thesis using admitted_descriptors_are_pinned [OF run] run by (auto dest: list_all2_lengthD)
qed

lemma publication_is_canonical_witness:
  "\<exists>report s'. publish_catalogue demo_catalogue ''a'' ''out/'' ''c.json'' \<lparr>files = [], faults = []\<rparr> = (Inr report, s') \<and>
     publish_catalogue demo_catalogue ''b'' ''out/'' ''c.json'' \<lparr>files = [], faults = []\<rparr> = (Inr report, s') \<and>
     pr_product_ids report = [''hello'', ''router'']"
proof -
  define out where "out = publish_catalogue demo_catalogue ''a'' ''out/'' ''c.json'' \<lparr>files = [], faults = []\<rparr>"
  have ids: "map_sum id pr_product_ids (fst out) = Inr [''hello'', ''router'']"
    unfolding out_def by code_simp
  then obtain report s' where run: "publish_catalogue demo_catalogue ''a'' ''out/'' ''c.json'' \<lparr>files = [], faults = []\<rparr> =
      (Inr report, s')" and "pr_product_ids report = [''hello'', ''router'']"
    by (cases out; cases "fst out") (auto simp: out_def)
  moreover have "load_catalogue demo_catalogue ''a'' = load_products (JArr (demo_items [''router'', ''hello'']))"
    "load_catalogue demo_catalogue ''b'' = load_products (JArr (demo_items [''hello'', ''router'']))"
    "mset (demo_items [''router'', ''hello'']) = mset (demo_items [''hello'', ''router''])"
    by (code_simp, code_simp, simp add: demo_items_def)
  ultimately show ?thesis using publication_is_canonical [OF run] by blast
qed

end
