(* ===== verification/PhaseReport.thy ===== *)
theory PhaseReport
  imports Json PyText
begin

text \<open>
  Bounded phase reporting (\<open>scripts/cpk_server_source_live_report.py\<close>): the evidence a phase may
  publish, the append-only ledger of JSON lines, and the runner that performs the phases in order,
  stops at the first failure and cleans up.

  A phase's action and the cleanup are actions on a world of type \<open>'w\<close>; what they return is
  decided by the caller.  The ledger's stream may fail at any line: \<open>sink\<close> says, for the lines
  written so far and the next one, which exception the write raises, if any.
\<close>

section \<open>Exceptions\<close>

text \<open>
  \<open>SourceLiveInvariantError\<close> with its code, \<open>SourceLiveRunFailed\<close> with its two codes, the
  built-in exceptions the module raises itself, any other \<open>Exception\<close>, and a
  \<open>BaseException\<close> that is none (\<open>KeyboardInterrupt\<close>, \<open>SystemExit\<close>).
\<close>

datatype raised =
    Invariant_error string
  | Run_failed string "string option"
  | Value_error string
  | Type_error
  | Other_error
  | Interrupted

section \<open>Bounded values\<close>

definition phase_name_char :: "char \<Rightarrow> bool" where
  "phase_name_char c \<longleftrightarrow> lower_letter c \<or> digit_char c \<or> c \<in> set ''._-''"

definition name_pattern :: "string \<Rightarrow> bool" where
  "name_pattern s =
     (case s of
        [] \<Rightarrow> False
      | c # cs \<Rightarrow> (lower_letter c \<or> digit_char c) \<and> length cs \<le> 127 \<and> list_all phase_name_char cs)"

definition phase_alphanumeric :: "char \<Rightarrow> bool" where
  "phase_alphanumeric c \<longleftrightarrow> lower_letter c \<or> upper_letter c \<or> digit_char c"

definition identifier_pattern :: "string \<Rightarrow> bool" where
  "identifier_pattern s =
     (case s of
        [] \<Rightarrow> False
      | c # cs \<Rightarrow> phase_alphanumeric c \<and> length cs \<le> 255 \<and>
          list_all (\<lambda>d. phase_alphanumeric d \<or> d \<in> set ''._:/-'') cs)"

definition UNSAFE_MARKERS :: "string list" where
  "UNSAFE_MARKERS = [''secret://'', ''bearer '', ''private key'', ''begin private'', ''password'']"

definition KEY_STATUSES :: "string list" where
  "KEY_STATUSES = [''active'', ''verify-only'', ''retired'', ''revoked'']"

definition ACCESS_PATHS :: "string list" where
  "ACCESS_PATHS = [''runtime-private'', ''named-public-ingress'']"

definition COMPONENT_HEALTH :: "string list" where
  "COMPONENT_HEALTH = [''unknown'', ''starting'', ''healthy'', ''degraded'', ''unhealthy'', ''absent'']"

definition RESOURCE_STAGES :: "string list" where
  "RESOURCE_STAGES = [''planned'', ''creating'', ''active'', ''removing'', ''removed'', ''uncertain'']"

definition bounded_name :: "json \<Rightarrow> string \<Rightarrow> raised + string" where
  "bounded_name v field =
     (case v of
        JStr s \<Rightarrow>
          if name_pattern s then Inr s
          else Inl (Value_error (field @ '' must be a bounded identifier''))
      | _ \<Rightarrow> Inl (Value_error (field @ '' must be a bounded identifier'')))"

definition bounded_identifier :: "json \<Rightarrow> string \<Rightarrow> raised + string" where
  "bounded_identifier v field =
     (case v of
        JStr s \<Rightarrow>
          if \<not> identifier_pattern s then
            Inl (Value_error (field @ '' must be a bounded identifier''))
          else if list_ex (\<lambda>m. contains m (lower s)) UNSAFE_MARKERS then
            Inl (Value_error (field @ '' must not contain secret-shaped material''))
          else Inr s
      | _ \<Rightarrow> Inl (Value_error (field @ '' must be a bounded identifier'')))"

text \<open>A list or a dictionary is not hashable: the membership test raises \<open>TypeError\<close>.\<close>

definition closed_optional :: "json \<Rightarrow> string list \<Rightarrow> string \<Rightarrow> raised + unit" where
  "closed_optional v allowed field =
     (if v = JNull then Inr ()
      else case in_strings v allowed of
        None \<Rightarrow> Inl Type_error
      | Some b \<Rightarrow> raise_if (\<not> b) (Value_error (field @ '' must be closed'')))"

definition make_invariant_error :: "json \<Rightarrow> raised" where
  "make_invariant_error code =
     (case bounded_name code ''error_code'' of Inl e \<Rightarrow> e | Inr c \<Rightarrow> Invariant_error c)"

definition make_run_failed :: "string \<Rightarrow> string option \<Rightarrow> raised" where
  "make_run_failed primary cleanup =
     (case bounded_name (JStr primary) ''primary_code'' of
        Inl e \<Rightarrow> e
      | Inr p \<Rightarrow>
          (case cleanup of
             None \<Rightarrow> Run_failed p None
           | Some c \<Rightarrow>
               (case bounded_name (JStr c) ''cleanup_code'' of
                  Inl e \<Rightarrow> e
                | Inr d \<Rightarrow> Run_failed p (Some d))))"

section \<open>Evidence\<close>

record evidence =
  e_operation_id :: json
  e_session_id :: json
  e_run_id :: json
  e_current_graph_id :: json
  e_key_id :: json
  e_key_status :: json
  e_access_path :: json
  e_component_health :: json
  e_resource_stage :: json

definition no_evidence :: evidence where
  "no_evidence =
     \<lparr>e_operation_id = JNull, e_session_id = JNull, e_run_id = JNull, e_current_graph_id = JNull,
      e_key_id = JNull, e_key_status = JNull, e_access_path = JNull, e_component_health = JNull,
      e_resource_stage = JNull\<rparr>"

definition identifier_fields :: "evidence \<Rightarrow> (string \<times> json) list" where
  "identifier_fields e =
     [(''operation_id'', e_operation_id e), (''session_id'', e_session_id e),
      (''run_id'', e_run_id e), (''current_graph_id'', e_current_graph_id e),
      (''key_id'', e_key_id e)]"

definition closed_fields :: "evidence \<Rightarrow> (string \<times> json) list" where
  "closed_fields e =
     [(''key_status'', e_key_status e), (''access_path'', e_access_path e),
      (''component_health'', e_component_health e), (''resource_stage'', e_resource_stage e)]"

definition optional_identifier :: "string \<times> json \<Rightarrow> raised + unit" where
  "optional_identifier p =
     (if snd p = JNull then Inr ()
      else bindE (bounded_identifier (snd p) (fst p)) (\<lambda>_. Inr ()))"

text \<open>\<open>SourceLivePhaseEvidence.__post_init__\<close>.\<close>

definition make_evidence :: "evidence \<Rightarrow> raised + evidence" where
  "make_evidence e =
     bindE (mapE optional_identifier (identifier_fields e)) (\<lambda>_.
     bindE (closed_optional (e_key_status e) KEY_STATUSES ''key_status'') (\<lambda>_.
     bindE (closed_optional (e_access_path e) ACCESS_PATHS ''access_path'') (\<lambda>_.
     bindE (closed_optional (e_component_health e) COMPONENT_HEALTH ''component_health'') (\<lambda>_.
     bindE (closed_optional (e_resource_stage e) RESOURCE_STAGES ''resource_stage'') (\<lambda>_.
     Inr e)))))"

definition evidence_descriptor :: "evidence \<Rightarrow> dict" where
  "evidence_descriptor e = filter (\<lambda>p. snd p \<noteq> JNull) (identifier_fields e @ closed_fields e)"

definition removed_evidence :: evidence where
  "removed_evidence = no_evidence\<lparr>e_resource_stage := JStr ''removed''\<rparr>"

section \<open>The ledger\<close>

record 'w run =
  sequence :: int
  written :: "string list"
  world :: 'w

type_synonym sink = "string list \<Rightarrow> string \<Rightarrow> raised option"

type_synonym ('w, 'a) run_action = "('w run, raised, 'a) action"

definition write_line :: "sink \<Rightarrow> string \<Rightarrow> ('w, unit) run_action" where
  "write_line sink line = (\<lambda>st.
     case sink (written st) line of
       Some e \<Rightarrow> (Inl e, st)
     | None \<Rightarrow> (Inr (), st\<lparr>written := written st @ [line]\<rparr>))"

definition entry_fields :: "string \<Rightarrow> string \<Rightarrow> string \<Rightarrow> evidence option \<Rightarrow> string option \<Rightarrow> int \<Rightarrow> dict" where
  "entry_fields phase component status evidence error_code n =
     [(''schema'', JStr ''cpk.source-live-phase''), (''sequence'', JInt n), (''phase'', JStr phase),
      (''status'', JStr status), (''component'', JStr component)] @
     (case evidence of
        None \<Rightarrow> []
      | Some e \<Rightarrow> if evidence_descriptor e = [] then [] else [(''evidence'', JObj (evidence_descriptor e))]) @
     (case error_code of None \<Rightarrow> [] | Some c \<Rightarrow> [(''error_code'', JStr c)])"

text \<open>The documents hold no floats, so the text of a float does not matter here.\<close>

definition line_text :: "dict \<Rightarrow> string" where
  "line_text d = dump (\<lambda>_. []) (canon (JObj d)) @ [CHR 0x0A]"

definition emit ::
  "sink \<Rightarrow> json \<Rightarrow> json \<Rightarrow> string \<Rightarrow> evidence option \<Rightarrow> string option \<Rightarrow> ('w, unit) run_action" where
  "emit sink phase component status evidence error_code =
     bindA (liftE (bounded_name phase ''phase'')) (\<lambda>p.
     bindA (liftE (bounded_name component ''component'')) (\<lambda>c.
     thenA (liftE (raise_if (status \<notin> {''started'', ''succeeded'', ''failed'', ''skipped''})
       (Value_error ''source-live phase status must be closed'')))
     (bindA (liftE (case error_code of
        None \<Rightarrow> Inr None
      | Some e \<Rightarrow> bindE (bounded_name (JStr e) ''error_code'') (\<lambda>x. Inr (Some x)))) (\<lambda>code.
     thenA (modA (\<lambda>st. st\<lparr>sequence := sequence st + 1\<rparr>))
     (bindA (getA sequence) (\<lambda>n.
        write_line sink (line_text (entry_fields p c status evidence code n))))))))"

definition started :: "sink \<Rightarrow> json \<Rightarrow> json \<Rightarrow> ('w, unit) run_action" where
  "started sink phase component = emit sink phase component ''started'' None None"

definition succeeded :: "sink \<Rightarrow> json \<Rightarrow> json \<Rightarrow> evidence \<Rightarrow> ('w, unit) run_action" where
  "succeeded sink phase component e = emit sink phase component ''succeeded'' (Some e) None"

definition failed :: "sink \<Rightarrow> json \<Rightarrow> json \<Rightarrow> string \<Rightarrow> ('w, unit) run_action" where
  "failed sink phase component code = emit sink phase component ''failed'' None (Some code)"

definition skipped :: "sink \<Rightarrow> json \<Rightarrow> json \<Rightarrow> string \<Rightarrow> ('w, unit) run_action" where
  "skipped sink phase component code = emit sink phase component ''skipped'' None (Some code)"

section \<open>Running the phases\<close>

text \<open>An action that returns something other than evidence gives \<open>None\<close>.\<close>

record 'w phase =
  phase_name :: json
  phase_component :: json
  phase_action :: "('w, raised, evidence option) action"

definition make_phase :: "'w phase \<Rightarrow> raised + 'w phase" where
  "make_phase p =
     bindE (bounded_name (phase_name p) ''phase'') (\<lambda>_.
     bindE (bounded_name (phase_component p) ''component'') (\<lambda>_. Inr p))"

definition on_world :: "('w, raised, 'a) action \<Rightarrow> ('w, 'a) run_action" where
  "on_world m = (\<lambda>st. case m (world st) of (r, w) \<Rightarrow> (r, st\<lparr>world := w\<rparr>))"

text \<open>\<open>try: phase.action() ... except\<close>: the code of the failure, or the evidence.\<close>

definition attempt_phase :: "'w phase \<Rightarrow> ('w, string + evidence) run_action" where
  "attempt_phase p =
     tryA
       (bindA (on_world (phase_action p)) (\<lambda>r.
          case r of
            None \<Rightarrow> raise (make_invariant_error (JStr ''phase-result-malformed''))
          | Some e \<Rightarrow> ret (Inr e)))
       (\<lambda>e. case e of
          Invariant_error code \<Rightarrow> ret (Inl code)
        | Interrupted \<Rightarrow> raise Interrupted
        | _ \<Rightarrow> ret (Inl ''unexpected-error''))"

fun skip_all :: "sink \<Rightarrow> 'w phase list \<Rightarrow> ('w, unit) run_action" where
  "skip_all sink [] = ret ()"
| "skip_all sink (p # ps) =
     thenA (skipped sink (phase_name p) (phase_component p) ''prior-phase-failed'') (skip_all sink ps)"

text \<open>The cleanup and the code of its failure.\<close>

definition clean_up :: "('w, raised, unit) action \<Rightarrow> ('w, string option) run_action" where
  "clean_up cleanup =
     tryA (thenA (on_world cleanup) (ret None))
       (\<lambda>e. case e of
          Invariant_error code \<Rightarrow> ret (Some code)
        | Interrupted \<Rightarrow> raise Interrupted
        | _ \<Rightarrow> ret (Some ''unexpected-cleanup-error''))"

definition finish_failed_run ::
  "sink \<Rightarrow> ('w, raised, unit) action \<Rightarrow> 'w phase \<Rightarrow> 'w phase list \<Rightarrow> string \<Rightarrow> ('w, 'a) run_action" where
  "finish_failed_run sink cleanup p rest code =
     thenA (failed sink (phase_name p) (phase_component p) code)
     (thenA (skip_all sink rest)
     (thenA (started sink (JStr ''abort-cleanup'') (JStr ''cpk-server''))
     (bindA (clean_up cleanup) (\<lambda>cleanup_code.
      thenA (case cleanup_code of
               None \<Rightarrow> succeeded sink (JStr ''abort-cleanup'') (JStr ''cpk-server'') removed_evidence
             | Some c \<Rightarrow> failed sink (JStr ''abort-cleanup'') (JStr ''cpk-server'') c)
        (raise (make_run_failed code cleanup_code))))))"

fun run_source_live_phases ::
  "sink \<Rightarrow> ('w, raised, unit) action \<Rightarrow> 'w phase list \<Rightarrow> ('w, evidence list) run_action" where
  "run_source_live_phases sink cleanup [] = ret []"
| "run_source_live_phases sink cleanup (p # ps) =
     thenA (started sink (phase_name p) (phase_component p))
     (bindA (attempt_phase p) (\<lambda>r.
        case r of
          Inl code \<Rightarrow> finish_failed_run sink cleanup p ps code
        | Inr e \<Rightarrow>
            thenA (succeeded sink (phase_name p) (phase_component p) e)
            (bindA (run_source_live_phases sink cleanup ps) (\<lambda>es. ret (e # es)))))"

end
