(* ===== verification/PhaseReportProperties.thy ===== *)
theory PhaseReportProperties
  imports PhaseReport "HOL-Library.Multiset"
begin

text \<open>
  What the phase runner guarantees: it refines the abstract run that performs the actions up to the
  first failure, the ledger is the numbered account of that run, and every line of it is bounded.
\<close>

section \<open>The abstract run\<close>

text \<open>The evidence of the phases that succeeded and the code of the first failure.\<close>

fun perform :: "'w phase list \<Rightarrow> 'w \<Rightarrow> (evidence list \<times> string option) \<times> 'w" where
  "perform [] w = (([], None), w)"
| "perform (p # ps) w =
     (case phase_action p w of
        (Inr (Some e), w') \<Rightarrow> (case perform ps w' of ((es, f), w'') \<Rightarrow> ((e # es, f), w''))
      | (Inr None, w') \<Rightarrow> (([], Some ''phase-result-malformed''), w')
      | (Inl (Invariant_error c), w') \<Rightarrow> (([], Some c), w')
      | (Inl _, w') \<Rightarrow> (([], Some ''unexpected-error''), w'))"

fun cleanup_code :: "raised + unit \<Rightarrow> string option" where
  "cleanup_code (Inr _) = None"
| "cleanup_code (Inl (Invariant_error c)) = Some c"
| "cleanup_code (Inl _) = Some ''unexpected-cleanup-error''"

type_synonym ledger_entry = "string \<times> string \<times> string \<times> evidence option \<times> string option"

fun label :: "json \<Rightarrow> string" where
  "label (JStr s) = s"
| "label _ = []"

definition entry :: "'w phase \<Rightarrow> string \<Rightarrow> evidence option \<Rightarrow> string option \<Rightarrow> ledger_entry" where
  "entry p status e code = (label (phase_name p), label (phase_component p), status, e, code)"

fun account :: "'w phase list \<Rightarrow> evidence list \<Rightarrow> string option \<Rightarrow> ledger_entry list" where
  "account (p # ps) (e # es) f =
     entry p ''started'' None None # entry p ''succeeded'' (Some e) None # account ps es f"
| "account (p # ps) [] (Some c) =
     entry p ''started'' None None # entry p ''failed'' None (Some c) #
     map (\<lambda>q. entry q ''skipped'' None (Some ''prior-phase-failed'')) ps"
| "account _ _ _ = []"

definition cleanup_account :: "string option \<Rightarrow> ledger_entry list" where
  "cleanup_account c =
     [(''abort-cleanup'', ''cpk-server'', ''started'', None, None),
      (case c of
         None \<Rightarrow> (''abort-cleanup'', ''cpk-server'', ''succeeded'', Some removed_evidence, None)
       | Some x \<Rightarrow> (''abort-cleanup'', ''cpk-server'', ''failed'', None, Some x))]"

fun numbered :: "int \<Rightarrow> ledger_entry list \<Rightarrow> string list" where
  "numbered n [] = []"
| "numbered n ((p, c, s, e, x) # xs) = line_text (entry_fields p c s e x n) # numbered (n + 1) xs"

definition logged :: "ledger_entry list \<Rightarrow> 'w run \<Rightarrow> 'w run" where
  "logged xs st = st\<lparr>sequence := sequence st + int (length xs),
                     written := written st @ numbered (sequence st + 1) xs\<rparr>"

lemma numbered_append: "numbered n (xs @ ys) = numbered n xs @ numbered (n + int (length xs)) ys"
  by (induction n xs rule: numbered.induct) (simp_all add: algebra_simps)

lemma logged_simps [simp]:
  "logged ys (logged xs st) = logged (xs @ ys) st"
  "logged xs (st\<lparr>world := w\<rparr>) = (logged xs st)\<lparr>world := w\<rparr>"
  "world (logged xs st) = world st"
  by (simp_all add: logged_def numbered_append algebra_simps)

lemma logged_nil: "logged [] st = st"
  by (simp add: logged_def)

section \<open>The ledger\<close>

lemma bounded_name_Inr [simp]: "bounded_name v f = Inr s \<longleftrightarrow> v = JStr s \<and> name_pattern s"
  by (cases v) (auto simp: bounded_name_def)

lemma bind_lift: "bindA (liftE r) k st = (case r of Inl e \<Rightarrow> (Inl e, st) | Inr x \<Rightarrow> k x st)"
  by (cases r) (simp_all add: action_simps)

lemma emit_writes:
  assumes "name_pattern p" and "name_pattern c"
    and "status \<in> {''started'', ''succeeded'', ''failed'', ''skipped''}"
    and "\<forall>x. code = Some x \<longrightarrow> name_pattern x"
  shows "emit sink (JStr p) (JStr c) status e code st =
    (case sink (written st) (line_text (entry_fields p c status e code (sequence st + 1))) of
       None \<Rightarrow> (Inr (), logged [(p, c, status, e, code)] st)
     | Some x \<Rightarrow> (Inl x, st\<lparr>sequence := sequence st + 1\<rparr>))"
proof -
  have code: "(case code of None \<Rightarrow> Inr None
      | Some x \<Rightarrow> bindE (bounded_name (JStr x) ''error_code'') (\<lambda>y. Inr (Some y))) = Inr code"
    using assms(4) by (cases code) (auto simp: bounded_name_def)
  have names: "bounded_name (JStr p) ''phase'' = Inr p" "bounded_name (JStr c) ''component'' = Inr c"
    using assms(1,2) by (simp_all add: bounded_name_def)
  have status: "raise_if (status \<notin> {''started'', ''succeeded'', ''failed'', ''skipped''}) x = Inr ()"
    for x :: raised
    using assms(3) by simp
  show ?thesis
    unfolding emit_def names code bind_lift sum.case status
    by (simp add: bindA_def action_simps write_line_def logged_def split: option.split)
qed

lemma emit_logs:
  assumes "\<And>ls l. sink ls l = None" and "name_pattern p" and "name_pattern c"
    and "status \<in> {''started'', ''succeeded'', ''failed'', ''skipped''}"
    and "\<forall>x. code = Some x \<longrightarrow> name_pattern x"
  shows "emit sink (JStr p) (JStr c) status e code st = (Inr (), logged [(p, c, status, e, code)] st)"
  by (simp only: emit_writes [OF assms(2-5)] assms(1) option.case)

lemma emit_inv:
  assumes "emit sink phase component status e code st = (r, st')" and "written st' \<noteq> written st"
  obtains p c where "phase = JStr p" and "component = JStr c" and "name_pattern p" and "name_pattern c"
    and "status \<in> {''started'', ''succeeded'', ''failed'', ''skipped''}"
    and "\<forall>x. code = Some x \<longrightarrow> name_pattern x"
proof -
  let ?closed = "{''started'', ''succeeded'', ''failed'', ''skipped''}"
  obtain p where p: "bounded_name phase ''phase'' = Inr p"
    using assms by (cases "bounded_name phase ''phase''") (auto simp: emit_def bind_lift action_simps)
  obtain c where c: "bounded_name component ''component'' = Inr c"
    using assms by (cases "bounded_name component ''component''") (auto simp: emit_def bind_lift p action_simps)
  have status: "status \<in> ?closed"
  proof (rule ccontr)
    assume "status \<notin> ?closed"
    then have "raise_if (status \<notin> ?closed) x = Inl x" for x :: raised by (simp only: raise_if_simps simp_thms)
    with assms show False unfolding emit_def bind_lift p c sum.case by simp
  qed
  then have ok: "raise_if (status \<notin> ?closed) x = Inr ()" for x :: raised by simp
  have "name_pattern x" if "code = Some x" for x
  proof (rule ccontr)
    assume "\<not> name_pattern x"
    then have "\<exists>y. bindE (bounded_name (JStr x) ''error_code'') (\<lambda>x. Inr (Some x)) = Inl y"
      by (simp add: bounded_name_def)
    with assms that show False unfolding emit_def bind_lift p c ok sum.case by auto
  qed
  with p c status that show thesis by simp
qed

lemma make_phase_valid:
  assumes "make_phase p = Inr q"
  obtains n c where "phase_name p = JStr n" and "phase_component p = JStr c"
    and "name_pattern n" and "name_pattern c" and "q = p"
  using assms by (auto simp: make_phase_def)

lemma skip_all_logs:
  assumes "\<And>ls l. sink ls l = None" and "\<forall>p \<in> set ps. make_phase p = Inr p"
  shows "skip_all sink ps st =
    (Inr (), logged (map (\<lambda>q. entry q ''skipped'' None (Some ''prior-phase-failed'')) ps) st)"
  using assms(2)
proof (induction ps arbitrary: st)
  case Nil
  then show ?case by (simp add: action_simps logged_nil)
next
  case (Cons p ps)
  have "make_phase p = Inr p" using Cons.prems by simp
  then obtain n c where p: "phase_name p = JStr n" "phase_component p = JStr c"
    "name_pattern n" "name_pattern c"
    by (rule make_phase_valid)
  have pattern: "name_pattern ''prior-phase-failed''" by code_simp
  have "skipped sink (phase_name p) (phase_component p) ''prior-phase-failed'' st =
      (Inr (), logged [(n, c, ''skipped'', None, Some ''prior-phase-failed'')] st)"
    unfolding skipped_def p by (rule emit_logs) (simp_all add: assms(1) p(3,4) pattern)
  with Cons show ?case by (simp add: bindA_def entry_def p)
qed

lemma clean_up_result:
  assumes "fst (cleanup (world st)) \<noteq> Inl Interrupted"
  shows "clean_up cleanup st =
    (Inr (cleanup_code (fst (cleanup (world st)))), st\<lparr>world := snd (cleanup (world st))\<rparr>)"
proof -
  obtain r w where r: "cleanup (world st) = (r, w)" by fastforce
  with assms show ?thesis
    by (cases r rule: cleanup_code.cases)
      (simp_all add: clean_up_def tryA_def bindA_def on_world_def action_simps)
qed

lemma finish_failed_run_logs:
  assumes sink: "\<And>ls l. sink ls l = None" and p: "make_phase p = Inr p"
    and rest: "\<forall>q \<in> set ps. make_phase q = Inr q" and code: "name_pattern code"
    and cleanup: "fst (cleanup (world st)) \<noteq> Inl Interrupted"
    "\<And>c. fst (cleanup (world st)) = Inl (Invariant_error c) \<Longrightarrow> name_pattern c"
  shows "finish_failed_run sink cleanup p ps code st =
    (let (r, w) = cleanup (world st) in
     (Inl (Run_failed code (cleanup_code r)),
      logged (entry p ''failed'' None (Some code) #
        map (\<lambda>q. entry q ''skipped'' None (Some ''prior-phase-failed'')) ps @
        cleanup_account (cleanup_code r)) st\<lparr>world := w\<rparr>))"
proof -
  obtain n c where names: "phase_name p = JStr n" "phase_component p = JStr c"
    "name_pattern n" "name_pattern c"
    using p by (rule make_phase_valid)
  obtain r w where r: "cleanup (world st) = (r, w)" by fastforce
  have abort: "name_pattern ''abort-cleanup''" "name_pattern ''cpk-server''" by code_simp+
  have failed: "failed sink (phase_name p) (phase_component p) code s =
      (Inr (), logged [entry p ''failed'' None (Some code)] s)" for s :: "'a run"
    unfolding failed_def entry_def names label.simps
    by (rule emit_logs) (simp_all add: sink names(3,4) code)
  have started: "started sink (JStr ''abort-cleanup'') (JStr ''cpk-server'') s =
      (Inr (), logged [(''abort-cleanup'', ''cpk-server'', ''started'', None, None)] s)" for s :: "'a run"
    unfolding started_def by (rule emit_logs) (simp_all add: sink abort)
  have cc: "name_pattern x" if "cleanup_code r = Some x" for x
  proof -
    have "name_pattern ''unexpected-cleanup-error''" by code_simp
    with that cleanup(2) show ?thesis
      by (cases r rule: cleanup_code.cases) (auto simp: r)
  qed
  define z where "z = cleanup_account (cleanup_code r) ! 1"
  have account: "cleanup_account (cleanup_code r) =
      [(''abort-cleanup'', ''cpk-server'', ''started'', None, None), z]"
    by (simp add: cleanup_account_def z_def)
  have ended: "(case cleanup_code r of
        None \<Rightarrow> succeeded sink (JStr ''abort-cleanup'') (JStr ''cpk-server'') removed_evidence
      | Some x \<Rightarrow> PhaseReport.failed sink (JStr ''abort-cleanup'') (JStr ''cpk-server'') x) s =
      (Inr (), logged [z] s)" for s :: "'a run"
  proof (cases "cleanup_code r")
    case None
    have "succeeded sink (JStr ''abort-cleanup'') (JStr ''cpk-server'') removed_evidence s =
        (Inr (), logged [(''abort-cleanup'', ''cpk-server'', ''succeeded'', Some removed_evidence, None)] s)"
      unfolding succeeded_def by (rule emit_logs) (simp_all add: sink abort)
    with None show ?thesis by (simp add: cleanup_account_def z_def)
  next
    case (Some x)
    have "PhaseReport.failed sink (JStr ''abort-cleanup'') (JStr ''cpk-server'') x s =
        (Inr (), logged [(''abort-cleanup'', ''cpk-server'', ''failed'', None, Some x)] s)"
      unfolding failed_def by (rule emit_logs) (simp_all add: sink abort cc [OF Some])
    with Some show ?thesis by (simp add: cleanup_account_def z_def)
  qed
  have run_failed: "make_run_failed code (cleanup_code r) = Run_failed code (cleanup_code r)"
    using code cc by (auto simp: make_run_failed_def bounded_name_def split: option.splits)
  have cl: "clean_up cleanup (logged xs st) = (Inr (cleanup_code r), logged xs st\<lparr>world := w\<rparr>)" for xs
    using clean_up_result [of cleanup "logged xs st"] cleanup(1) by (simp add: r)
  show ?thesis
    unfolding finish_failed_run_def
    by (simp add: bindA_def failed skip_all_logs [OF sink rest] started cl ended r run_failed
        action_simps account)
qed

section \<open>The run\<close>

text \<open>
  A code of \<open>SourceLiveInvariantError\<close> is always a name (its constructor checks it), and an
  interrupt is not a failure of the program.
\<close>

definition disciplined :: "('w, raised, 'a) action \<Rightarrow> bool" where
  "disciplined m \<longleftrightarrow>
     (\<forall>w. fst (m w) \<noteq> Inl Interrupted \<and> (\<forall>c. fst (m w) = Inl (Invariant_error c) \<longrightarrow> name_pattern c))"

lemma attempt_phase_result:
  assumes "disciplined (phase_action p)"
  shows "attempt_phase p st =
    (let (r, w) = phase_action p (world st) in
     (Inr (case r of
        Inr (Some e) \<Rightarrow> Inr e
      | Inr None \<Rightarrow> Inl ''phase-result-malformed''
      | Inl (Invariant_error c) \<Rightarrow> Inl c
      | Inl _ \<Rightarrow> Inl ''unexpected-error''), st\<lparr>world := w\<rparr>))"
proof -
  obtain r w where r: "phase_action p (world st) = (r, w)" by fastforce
  then have "r \<noteq> Inl Interrupted" using assms by (auto simp: disciplined_def dest: spec [of _ "world st"])
  moreover have "make_invariant_error (JStr ''phase-result-malformed'') =
      Invariant_error ''phase-result-malformed''" by code_simp
  ultimately show ?thesis
    by (auto simp: r attempt_phase_def tryA_def bindA_def on_world_def action_simps
        split: sum.split option.split raised.split)
qed

lemma perform_code:
  assumes "perform ps w = ((es, Some c), w')" and "\<forall>p \<in> set ps. disciplined (phase_action p)"
  shows "name_pattern c"
  using assms
proof (induction ps arbitrary: w es)
  case (Cons p ps)
  have names: "name_pattern ''phase-result-malformed''" "name_pattern ''unexpected-error''"
    by code_simp+
  obtain r w1 where r: "phase_action p w = (r, w1)" by fastforce
  have "name_pattern x" if "r = Inl (Invariant_error x)" for x
    using Cons.prems(2) r that by (auto simp: disciplined_def dest: spec [of _ w])
  then show ?case
    using Cons names
    by (auto simp: r split: sum.splits option.splits raised.splits prod.splits)
qed simp

text \<open>
  C26.  Refinement of the phase runner: with a ledger stream that accepts every line, the runner
  performs the phases in order up to the first failure and nothing after it; without a failure it
  returns all the evidence and does not clean up; after a failure it cleans up exactly once, in the
  world the failed phase left, and raises the code of that first failure together with the code of
  the cleanup's own failure.  The ledger is the consecutively numbered account of this run: what was
  started, how it ended, what was skipped, and the cleanup.
\<close>

theorem phase_run_refines:
  assumes "\<And>ls l. sink ls l = None" and "\<forall>p \<in> set ps. make_phase p = Inr p"
    and "\<forall>p \<in> set ps. disciplined (phase_action p)" and "disciplined cleanup"
  shows "run_source_live_phases sink cleanup ps st =
    (case perform ps (world st) of
       ((es, None), w) \<Rightarrow> (Inr es, logged (account ps es None) st\<lparr>world := w\<rparr>)
     | ((es, Some c), w) \<Rightarrow>
         (case cleanup w of (r, w') \<Rightarrow>
            (Inl (Run_failed c (cleanup_code r)),
             logged (account ps es (Some c) @ cleanup_account (cleanup_code r)) st\<lparr>world := w'\<rparr>)))"
  using assms(2,3)
proof (induction ps arbitrary: st)
  case Nil
  then show ?case by (simp add: action_simps logged_nil)
next
  case (Cons p ps)
  have p: "make_phase p = Inr p" "disciplined (phase_action p)" using Cons.prems by simp_all
  obtain n c where names: "phase_name p = JStr n" "phase_component p = JStr c"
    "name_pattern n" "name_pattern c"
    using p(1) by (rule make_phase_valid)
  have started: "started sink (phase_name p) (phase_component p) s =
      (Inr (), logged [entry p ''started'' None None] s)" for s :: "'a run"
    unfolding started_def entry_def names label.simps
    by (rule emit_logs) (simp_all add: assms(1) names(3,4))
  have succeeded: "succeeded sink (phase_name p) (phase_component p) e s =
      (Inr (), logged [entry p ''succeeded'' (Some e) None] s)" for s :: "'a run" and e
    unfolding succeeded_def entry_def names label.simps
    by (rule emit_logs) (simp_all add: assms(1) names(3,4))
  have IH: "run_source_live_phases sink cleanup ps s =
    (case perform ps (world s) of
       ((es, None), w) \<Rightarrow> (Inr es, logged (account ps es None) s\<lparr>world := w\<rparr>)
     | ((es, Some c), w) \<Rightarrow>
         (case cleanup w of (r, w') \<Rightarrow>
            (Inl (Run_failed c (cleanup_code r)),
             logged (account ps es (Some c) @ cleanup_account (cleanup_code r)) s\<lparr>world := w'\<rparr>)))" for s
    using Cons by simp
  obtain r w1 where r: "phase_action p (world st) = (r, w1)" by fastforce
  show ?case
  proof (cases "\<exists>e. r = Inr (Some e)")
    case True
    then obtain e where e: "r = Inr (Some e)" by blast
    show ?thesis
      by (auto simp: bindA_def started attempt_phase_result [OF p(2)] r e succeeded IH action_simps
          split: prod.split option.split)
  next
    case False
    define x where "x = (case r of
        Inl (Invariant_error c) \<Rightarrow> c | Inl _ \<Rightarrow> ''unexpected-error''
      | Inr _ \<Rightarrow> ''phase-result-malformed'')"
    have x: "attempt_phase p s = (Inr (Inl x), s\<lparr>world := w1\<rparr>)" if "world s = world st" for s
      using False r that
      by (auto simp: attempt_phase_result [OF p(2)] x_def split: sum.splits option.splits raised.splits)
    have perform: "perform (p # ps) (world st) = (([], Some x), w1)"
      using False r by (auto simp: x_def split: sum.splits option.splits raised.splits)
    have "name_pattern x" using perform_code [OF perform Cons.prems(2)] by simp
    have "fst (cleanup w1) \<noteq> Inl Interrupted"
      and "\<And>c. fst (cleanup w1) = Inl (Invariant_error c) \<Longrightarrow> name_pattern c"
      using assms(4) by (auto simp: disciplined_def)
    then have finish: "finish_failed_run sink cleanup p ps x
        (logged [entry p ''started'' None None] st\<lparr>world := w1\<rparr>) =
      (let (r, w) = cleanup w1 in
       (Inl (Run_failed x (cleanup_code r)),
        logged (account (p # ps) [] (Some x) @ cleanup_account (cleanup_code r)) st\<lparr>world := w\<rparr>))"
      using finish_failed_run_logs [where sink = sink and ps = ps and st = "logged [entry p ''started'' None None] st\<lparr>world := w1\<rparr>"
          and cleanup = cleanup, OF assms(1) p(1) _ \<open>name_pattern x\<close>] Cons.prems(1)
      by (simp split: prod.split)
    show ?thesis
      unfolding perform run_source_live_phases.simps bindA_def started
      by (simp add: x finish split: prod.split del: account.simps)
  qed
qed

section \<open>A sample run\<close>

definition sample_phase :: "string \<Rightarrow> (nat list, raised, evidence option) action \<Rightarrow> nat list phase" where
  "sample_phase n m = \<lparr>phase_name = JStr n, phase_component = JStr ''gateway'', phase_action = m\<rparr>"

definition sample_phases :: "nat list phase list" where
  "sample_phases =
     [sample_phase ''bootstrap'' (\<lambda>w. (Inr (Some removed_evidence), w @ [1])),
      sample_phase ''probe'' (\<lambda>w. (Inl (Invariant_error ''probe-lost''), w @ [2])),
      sample_phase ''rotate'' (\<lambda>w. (Inr (Some no_evidence), w @ [3]))]"

definition sample_cleanup :: "(nat list, raised, unit) action" where
  "sample_cleanup = (\<lambda>w. (Inr (), w @ [9]))"

definition phase_sample_run :: "nat list run" where
  "phase_sample_run = \<lparr>sequence = 0, written = [], world = []\<rparr>"

lemma sample_disciplined:
  "\<forall>p \<in> set sample_phases. make_phase p = Inr p"
  "\<forall>p \<in> set sample_phases. disciplined (phase_action p)"
  "disciplined sample_cleanup"
proof -
  have names: "name_pattern ''bootstrap''" "name_pattern ''probe''" "name_pattern ''rotate''"
    "name_pattern ''gateway''" "name_pattern ''probe-lost''"
    by code_simp+
  show "\<forall>p \<in> set sample_phases. make_phase p = Inr p"
    by (simp add: sample_phases_def sample_phase_def make_phase_def names)
  show "\<forall>p \<in> set sample_phases. disciplined (phase_action p)"
    by (simp add: sample_phases_def sample_phase_def disciplined_def names)
  show "disciplined sample_cleanup"
    by (simp add: sample_cleanup_def disciplined_def)
qed

lemma phase_run_refines_witness:
  "let (r, st) = run_source_live_phases (\<lambda>_ _. None) sample_cleanup sample_phases phase_sample_run in
   r = Inl (Run_failed ''probe-lost'' None) \<and> world st = [1, 2, 9] \<and> sequence st = 7"
proof -
  have *: "perform sample_phases (world phase_sample_run) = (([removed_evidence], Some ''probe-lost''), [1, 2])"
    by (simp add: sample_phases_def sample_phase_def phase_sample_run_def)
  show ?thesis
    using phase_run_refines [of "\<lambda>_ _. None" sample_phases sample_cleanup phase_sample_run,
        OF _ sample_disciplined]
    unfolding *
    by (simp add: sample_cleanup_def logged_def sample_phases_def phase_sample_run_def
        cleanup_account_def)
qed

text \<open>
  The cleanup is not guaranteed when the ledger itself cannot be written: here the stream takes three
  lines and then fails, so the failure of the second phase cannot be recorded and the runner ends
  with the stream's exception before the cleanup.
\<close>

lemma lost_ledger_skips_cleanup:
  "let (r, st) = run_source_live_phases (\<lambda>ls _. if length ls < 3 then None else Some Other_error)
       sample_cleanup sample_phases phase_sample_run in
   r = Inl Other_error \<and> world st = [1, 2]"
proof -
  have names: "name_pattern ''bootstrap''" "name_pattern ''probe''" "name_pattern ''gateway''"
    "name_pattern ''probe-lost''"
    by code_simp+
  show ?thesis
    by (simp add: sample_phases_def sample_phase_def phase_sample_run_def bindA_def started_def succeeded_def
        failed_def finish_failed_run_def emit_writes names attempt_phase_def tryA_def on_world_def
        action_simps logged_def)
qed

section \<open>The size of the ledger's lines\<close>

definition plain_char :: "char \<Rightarrow> bool" where
  "plain_char c \<longleftrightarrow> 32 \<le> byte_of c \<and> byte_of c < 127 \<and> byte_of c \<noteq> 34 \<and> byte_of c \<noteq> 92"

lemma dump_string_plain: "list_all plain_char s \<Longrightarrow> length (dump_string s) = length s + 2"
proof -
  assume "list_all plain_char s"
  then have "length (concat (map escape_codepoint (codepoints s))) = length s"
    by (induction s) (auto simp: plain_char_def escape_codepoint_def)
  then show ?thesis by (simp add: dump_string_def)
qed

lemma name_plain: "name_pattern s \<Longrightarrow> list_all plain_char s \<and> length s \<le> 128"
  by (auto simp: name_pattern_def phase_name_char_def lower_letter_def digit_char_def plain_char_def
      byte_of_def list_all_iff split: list.splits)

lemma identifier_plain: "identifier_pattern s \<Longrightarrow> list_all plain_char s \<and> length s \<le> 256"
  by (auto simp: identifier_pattern_def phase_alphanumeric_def lower_letter_def upper_letter_def
      digit_char_def plain_char_def byte_of_def list_all_iff split: list.splits)

definition item_size :: "string \<times> json \<Rightarrow> nat" where
  "item_size p = length (dump_string (fst p)) + length (dump (\<lambda>_. []) (snd p)) + 2"

lemma dump_items_length: "length (dump_items (\<lambda>_. []) ms) \<le> sum_list (map item_size ms)"
  by (induction ms rule: induct_list012) (auto simp: item_size_def split: prod.splits)

lemma sum_sorted: "sum_list (map f (sort_key g xs)) = (sum_list (map f xs) :: nat)"
proof -
  have "mset (map f (sort_key g xs)) = mset (map f xs)" by simp
  then show ?thesis by (metis sum_mset_sum_list)
qed

lemma object_length:
  "length (dump (\<lambda>_. []) (canon (JObj d))) \<le> 2 + sum_list (map (\<lambda>(k, v). item_size (k, canon v)) d)"
proof -
  have "length (dump_items (\<lambda>_. []) (sort_key fst (map (map_prod id canon) d)))
      \<le> sum_list (map item_size (sort_key fst (map (map_prod id canon) d)))"
    by (rule dump_items_length)
  also have "\<dots> = sum_list (map item_size (map (map_prod id canon) d))" by (rule sum_sorted)
  also have "map item_size (map (map_prod id canon) d) = map (\<lambda>(k, v). item_size (k, canon v)) d"
    by auto
  finally show ?thesis by (simp add: id_def)
qed

lemma sum_filter_le: "sum_list (map f (filter P xs)) \<le> (sum_list (map f xs) :: nat)"
  by (induction xs) auto

text \<open>What validated evidence may hold.\<close>

lemma bounded_identifier_Inr:
  "bounded_identifier v f = Inr s \<longleftrightarrow>
     v = JStr s \<and> identifier_pattern s \<and> (\<forall>m \<in> set UNSAFE_MARKERS. \<not> contains m (lower s))"
  by (cases v) (auto simp: bounded_identifier_def list_ex_iff)

lemma closed_optional_Inr:
  "closed_optional v allowed f = Inr u \<longleftrightarrow> v = JNull \<or> (\<exists>s. v = JStr s \<and> s \<in> set allowed)"
  by (cases v) (auto simp: closed_optional_def)

lemma make_evidence_Inr:
  "make_evidence e = Inr e' \<longleftrightarrow>
     e' = e \<and>
     (\<forall>(k, v) \<in> set (identifier_fields e). v = JNull \<or> (\<exists>s. v = JStr s \<and> identifier_pattern s \<and>
        (\<forall>m \<in> set UNSAFE_MARKERS. \<not> contains m (lower s)))) \<and>
     (\<forall>(v, allowed) \<in> set [(e_key_status e, KEY_STATUSES), (e_access_path e, ACCESS_PATHS),
        (e_component_health e, COMPONENT_HEALTH), (e_resource_stage e, RESOURCE_STAGES)].
        v = JNull \<or> (\<exists>s. v = JStr s \<and> s \<in> set allowed))"
proof -
  have optional: "optional_identifier (k, v) = Inr () \<longleftrightarrow>
      v = JNull \<or> (\<exists>s. v = JStr s \<and> identifier_pattern s \<and>
        (\<forall>m \<in> set UNSAFE_MARKERS. \<not> contains m (lower s)))" for k v
    by (auto simp: optional_identifier_def bounded_identifier_Inr)
  have identifiers: "(\<exists>us. mapE optional_identifier xs = Inr us) \<longleftrightarrow>
      (\<forall>(k, v) \<in> set xs. optional_identifier (k, v) = Inr ())" for xs
    by (induction xs) auto
  show ?thesis
    unfolding make_evidence_def
    by (simp only: bindE_eq_Inr closed_optional_Inr ex_simps identifiers optional list.set
        ball_simps prod.case) auto
qed

lemma closed_sizes:
  "\<forall>s \<in> set KEY_STATUSES. length (dump_string s) \<le> 13"
  "\<forall>s \<in> set ACCESS_PATHS. length (dump_string s) \<le> 22"
  "\<forall>s \<in> set COMPONENT_HEALTH. length (dump_string s) \<le> 11"
  "\<forall>s \<in> set RESOURCE_STAGES. length (dump_string s) \<le> 11"
  by code_simp+

lemma evidence_length:
  assumes "make_evidence e = Inr e'"
  shows "length (dump (\<lambda>_. []) (canon (JObj (evidence_descriptor e)))) \<le> 1486"
proof -
  let ?f = "\<lambda>(k, v). item_size (k, canon v)"
  have e: "\<forall>(k, v) \<in> set (identifier_fields e). v = JNull \<or> (\<exists>s. v = JStr s \<and> identifier_pattern s \<and>
        (\<forall>m \<in> set UNSAFE_MARKERS. \<not> contains m (lower s)))"
    and closed: "\<forall>(v, allowed) \<in> set [(e_key_status e, KEY_STATUSES), (e_access_path e, ACCESS_PATHS),
        (e_component_health e, COMPONENT_HEALTH), (e_resource_stage e, RESOURCE_STAGES)].
        v = JNull \<or> (\<exists>s. v = JStr s \<and> s \<in> set allowed)"
    using assms by (simp_all add: make_evidence_Inr)
  have id: "?f (k, v) \<le> length (dump_string k) + 260" if "(k, v) \<in> set (identifier_fields e)" for k v
  proof -
    have "v = JNull \<or> (\<exists>s. v = JStr s \<and> identifier_pattern s)" using e that by blast
    then show ?thesis
      by (auto simp: item_size_def dump_string_plain dest!: identifier_plain)
  qed
  have cl: "?f (k, v) \<le> length (dump_string k) + n + 2"
    if "v = JNull \<or> (\<exists>s. v = JStr s \<and> s \<in> set allowed)"
      and "\<forall>s \<in> set allowed. length (dump_string s) \<le> n" and "4 \<le> n" for k v allowed n
    using that by (auto simp: item_size_def)
  have keys: "length (dump_string ''operation_id'') = 14" "length (dump_string ''session_id'') = 12"
    "length (dump_string ''run_id'') = 8" "length (dump_string ''current_graph_id'') = 18"
    "length (dump_string ''key_id'') = 8" "length (dump_string ''key_status'') = 12"
    "length (dump_string ''access_path'') = 13" "length (dump_string ''component_health'') = 18"
    "length (dump_string ''resource_stage'') = 16"
    by code_simp+
  have "sum_list (map ?f (evidence_descriptor e)) \<le> sum_list (map ?f (identifier_fields e @ closed_fields e))"
    unfolding evidence_descriptor_def by (rule sum_filter_le)
  also have "\<dots> = sum_list (map ?f (identifier_fields e)) + sum_list (map ?f (closed_fields e))" by simp
  also have "sum_list (map ?f (identifier_fields e)) \<le> 1360"
    using id [of "''operation_id''" "e_operation_id e"] id [of "''session_id''" "e_session_id e"]
      id [of "''run_id''" "e_run_id e"] id [of "''current_graph_id''" "e_current_graph_id e"]
      id [of "''key_id''" "e_key_id e"]
    by (simp add: identifier_fields_def keys)
  also have "sum_list (map ?f (closed_fields e)) \<le> 124"
    using cl [of "e_key_status e" KEY_STATUSES 13 "''key_status''"]
      cl [of "e_access_path e" ACCESS_PATHS 22 "''access_path''"]
      cl [of "e_component_health e" COMPONENT_HEALTH 11 "''component_health''"]
      cl [of "e_resource_stage e" RESOURCE_STAGES 11 "''resource_stage''"]
      closed closed_sizes
    by (simp add: closed_fields_def keys)
  finally show ?thesis using object_length [of "evidence_descriptor e"] by simp
qed

lemma line_length:
  assumes "name_pattern p" and "name_pattern c"
    and "status \<in> {''started'', ''succeeded'', ''failed'', ''skipped''}"
    and "\<forall>x. code = Some x \<longrightarrow> name_pattern x"
    and "\<forall>e. evidence = Some e \<longrightarrow> make_evidence e = Inr e"
  shows "length (dump (\<lambda>_. []) (canon (JObj (entry_fields p c status evidence code n))))
    \<le> 2000 + length (int_text n)"
proof -
  let ?f = "\<lambda>(k, v). item_size (k, canon v)"
  have keys: "length (dump_string ''schema'') = 8" "length (dump_string ''sequence'') = 10"
    "length (dump_string ''phase'') = 7" "length (dump_string ''status'') = 8"
    "length (dump_string ''component'') = 11" "length (dump_string ''evidence'') = 10"
    "length (dump_string ''error_code'') = 12"
    "length (dump_string ''cpk.source-live-phase'') = 23"
    by code_simp+
  have name: "length (dump_string s) \<le> 130" if "name_pattern s" for s
    using name_plain [OF that] by (simp add: dump_string_plain)
  have status: "length (dump_string status) \<le> 11"
  proof -
    have "\<forall>s \<in> set [''started'', ''succeeded'', ''failed'', ''skipped'']. length (dump_string s) \<le> 11"
      by code_simp
    then show ?thesis using assms(3) by auto
  qed
  define ev where "ev = (case evidence of
        None \<Rightarrow> []
      | Some e \<Rightarrow> if evidence_descriptor e = [] then [] else [(''evidence'', JObj (evidence_descriptor e))])"
  define er where "er = (case code of None \<Rightarrow> [] | Some x \<Rightarrow> [(''error_code'', JStr x)])"
  have ev: "sum_list (map ?f ev) \<le> 1498"
  proof (cases evidence)
    case (Some e)
    then have "length (dump (\<lambda>_. []) (canon (JObj (evidence_descriptor e)))) \<le> 1486"
      using evidence_length assms(5) by blast
    then show ?thesis by (simp add: ev_def Some item_size_def keys del: canon.simps)
  qed (simp add: ev_def)
  have er: "sum_list (map ?f er) \<le> 144"
  proof (cases code)
    case (Some x)
    then have "length (dump_string x) \<le> 130" using name assms(4) by blast
    then show ?thesis by (simp add: er_def Some item_size_def keys)
  qed (simp add: er_def)
  have fields: "entry_fields p c status evidence code n =
     [(''schema'', JStr ''cpk.source-live-phase''), (''sequence'', JInt n), (''phase'', JStr p),
      (''status'', JStr status), (''component'', JStr c)] @ ev @ er"
    by (simp add: entry_fields_def ev_def er_def)
  have "sum_list (map ?f (entry_fields p c status evidence code n)) \<le> 1990 + length (int_text n)"
    using ev er status name [OF assms(1)] name [OF assms(2)]
    unfolding fields by (simp add: item_size_def keys)
  then show ?thesis using object_length [of "entry_fields p c status evidence code n"] by simp
qed

text \<open>
  Bounds of the ledger: whatever names, evidence and code an event is emitted with, and whether
  or not the stream accepts it, the ledger grows by at most one line.  That line is ASCII, holds no
  newline but its last character, and apart from the digits of its sequence number has at most 2000
  characters.
\<close>

theorem ledger_lines_are_bounded:
  assumes "emit sink phase component status evidence code st = (r, st')"
    and "\<forall>e. evidence = Some e \<longrightarrow> make_evidence e = Inr e"
  shows "written st' = written st \<or>
    (\<exists>line. written st' = written st @ [line @ [CHR 0x0A]] \<and> is_ascii line \<and>
       CHR 0x0A \<notin> set line \<and> length line \<le> 2000 + length (int_text (sequence st')) \<and>
       sequence st' = sequence st + 1)"
proof (cases "written st' = written st")
  case False
  then obtain p c where names: "phase = JStr p" "component = JStr c"
    and valid: "name_pattern p" "name_pattern c"
      "status \<in> {''started'', ''succeeded'', ''failed'', ''skipped''}"
      "\<forall>y. code = Some y \<longrightarrow> name_pattern y"
    using emit_inv [OF assms(1) False] by metis
  define d where "d = entry_fields p c status evidence code (sequence st + 1)"
  have st': "written st' = written st @ [line_text d]" "sequence st' = sequence st + 1"
    using assms(1) False unfolding names emit_writes [OF valid] d_def
    by (auto simp: logged_def split: option.splits)
  have "is_ascii (dump (\<lambda>_. []) (canon (JObj d)))" by (rule dump_ascii) simp
  moreover have "CHR 0x0A \<notin> set (dump (\<lambda>_. []) (canon (JObj d)))"
    by (rule printable_no_control [OF dump_printable(1)]) (simp_all add: byte_of_def)
  moreover have "length (dump (\<lambda>_. []) (canon (JObj d))) \<le> 2000 + length (int_text (sequence st'))"
    unfolding d_def st'(2) by (rule line_length [OF valid assms(2)])
  ultimately show ?thesis using st' unfolding line_text_def by blast
qed simp

lemma ledger_lines_are_bounded_witness:
  "let st' = snd (emit (\<lambda>_ _. None) (JStr ''probe'') (JStr ''gateway'') ''succeeded''
       (Some removed_evidence) None phase_sample_run) in
   sequence st' = 1 \<and> (\<exists>line. written st' = [line @ [CHR 0x0A]] \<and> is_ascii line \<and>
     CHR 0x0A \<notin> set line \<and> length line \<le> 2000 + length (int_text 1))"
proof -
  have e: "make_evidence removed_evidence = Inr removed_evidence" by code_simp
  have "\<exists>l. written (snd (emit (\<lambda>_ _. None) (JStr ''probe'') (JStr ''gateway'') ''succeeded''
       (Some removed_evidence) None phase_sample_run)) = [l]"
    and "sequence (snd (emit (\<lambda>_ _. None) (JStr ''probe'') (JStr ''gateway'') ''succeeded''
       (Some removed_evidence) None phase_sample_run)) = 1"
  proof -
    have "name_pattern ''probe''" "name_pattern ''gateway''" by code_simp+
    then have "emit (\<lambda>_ _. None) (JStr ''probe'') (JStr ''gateway'') ''succeeded'' (Some removed_evidence) None phase_sample_run
        = (Inr (), logged [(''probe'', ''gateway'', ''succeeded'', Some removed_evidence, None)] phase_sample_run)"
      by (intro emit_logs) simp_all
    then show "\<exists>l. written (snd (emit (\<lambda>_ _. None) (JStr ''probe'') (JStr ''gateway'') ''succeeded''
       (Some removed_evidence) None phase_sample_run)) = [l]"
      and "sequence (snd (emit (\<lambda>_ _. None) (JStr ''probe'') (JStr ''gateway'') ''succeeded''
       (Some removed_evidence) None phase_sample_run)) = 1"
      by (simp_all add: logged_def phase_sample_run_def)
  qed
  moreover have "written phase_sample_run = []" "sequence phase_sample_run = 0" by (simp_all add: phase_sample_run_def)
  ultimately show ?thesis
    using ledger_lines_are_bounded [where st = phase_sample_run and evidence = "Some removed_evidence"
        and sink = "\<lambda>_ _. None" and phase = "JStr ''probe''" and component = "JStr ''gateway''"
        and status = "''succeeded''" and code = None, OF prod.collapse [symmetric]] e
    by (auto simp: Let_def)
qed

end
