(* ===== verification/AbortCompensation.thy ===== *)
theory AbortCompensation
  imports Json PyText
begin

text \<open>
  Abort compensation (\<open>scripts/cpk_server_source_live_abort.py\<close>): checkpoints on disk, the exact
  record of an owned ingress resource, and the compensation that runs when a scenario aborts.

  The disk is a map from paths to texts together with the outcomes of the next system calls (an
  operation may be refused, and a write may stop after some bytes).  \<open>json.loads\<close> and two checks of
  \<open>urlsplit\<close> are parameters; the cleanup, the verifications and the compensators are actions the
  caller passes in, on a world of type \<open>'w\<close>.
\<close>

section \<open>Exceptions\<close>

text \<open>
  \<open>SourceLiveAbortError\<close>, \<open>OSError\<close>, any other \<open>Exception\<close>, and a \<open>BaseException\<close>
  that is none.
\<close>

datatype abort_raised = Abort_error string | Os_error | Other_exception | Stopped

section \<open>Checkpoints\<close>

definition ascii_alnum :: "char \<Rightarrow> bool" where
  "ascii_alnum c \<longleftrightarrow> lower_letter c \<or> upper_letter c \<or> digit_char c"

definition IDENTIFIER :: "string \<Rightarrow> bool" where
  "IDENTIFIER s =
     (case s of
        [] \<Rightarrow> False
      | c # cs \<Rightarrow> ascii_alnum c \<and> length cs \<le> 199 \<and>
          list_all (\<lambda>d. ascii_alnum d \<or> d \<in> set ''._:-'') cs)"

record checkpoint =
  cp_workspace_id :: json
  cp_phase :: json
  cp_current_graph_id :: json
  cp_desired_graph_id :: json

text \<open>\<open>asdict(checkpoint)\<close>, in the order of the fields.\<close>

definition checkpoint_fields :: "checkpoint \<Rightarrow> dict" where
  "checkpoint_fields c =
     [(''workspace_id'', cp_workspace_id c), (''phase'', cp_phase c),
      (''current_graph_id'', cp_current_graph_id c), (''desired_graph_id'', cp_desired_graph_id c)]"

definition checkpoint_field_ok :: "string \<times> json \<Rightarrow> abort_raised + unit" where
  "checkpoint_field_ok p =
     (case snd p of
        JStr s \<Rightarrow> raise_if (\<not> IDENTIFIER s) (Abort_error (''checkpoint '' @ fst p @ '' is invalid''))
      | _ \<Rightarrow> Inl (Abort_error (''checkpoint '' @ fst p @ '' is invalid'')))"

definition make_checkpoint :: "checkpoint \<Rightarrow> abort_raised + checkpoint" where
  "make_checkpoint c = bindE (mapE checkpoint_field_ok (checkpoint_fields c)) (\<lambda>_. Inr c)"

datatype fault = Fine | Refused | Cut nat

record checkpoint_disk =
  files :: "(string \<times> string) list"
  faults :: "fault list"

definition disk_fault :: "checkpoint_disk \<Rightarrow> fault" where
  "disk_fault d = (case faults d of [] \<Rightarrow> Fine | f # _ \<Rightarrow> f)"

definition advance :: "checkpoint_disk \<Rightarrow> checkpoint_disk" where
  "advance d = d\<lparr>faults := tl (faults d)\<rparr>"

definition make_parents :: "string \<Rightarrow> (checkpoint_disk, abort_raised, unit) action" where
  "make_parents path d =
     (if disk_fault d = Fine then (Inr (), advance d) else (Inl Os_error, advance d))"

text \<open>\<open>write_text\<close> truncates the file before it writes.\<close>

definition write_text :: "string \<Rightarrow> string \<Rightarrow> (checkpoint_disk, abort_raised, unit) action" where
  "write_text path content d =
     (let d' = advance d in
      case disk_fault d of
        Fine \<Rightarrow> (Inr (), d'\<lparr>files := AList.update path content (files d')\<rparr>)
      | Refused \<Rightarrow> (Inl Os_error, d')
      | Cut n \<Rightarrow> (Inl Os_error, d'\<lparr>files := AList.update path (take n content) (files d')\<rparr>))"

definition replace_file :: "string \<Rightarrow> string \<Rightarrow> (checkpoint_disk, abort_raised, unit) action" where
  "replace_file source target d =
     (let d' = advance d in
      if disk_fault d \<noteq> Fine then (Inl Os_error, d')
      else case map_of (files d') source of
        None \<Rightarrow> (Inl Os_error, d')
      | Some c \<Rightarrow>
          (Inr (), d'\<lparr>files := AList.update target c (AList.delete source (files d'))\<rparr>))"

definition read_bytes :: "string \<Rightarrow> (checkpoint_disk, abort_raised, string) action" where
  "read_bytes path d =
     (let d' = advance d in
      if disk_fault d \<noteq> Fine then (Inl Os_error, d')
      else case map_of (files d') path of None \<Rightarrow> (Inl Os_error, d') | Some c \<Rightarrow> (Inr c, d'))"

text \<open>\<open>path.with_suffix(path.suffix + ".tmp")\<close> appends \<open>.tmp\<close> to the name.\<close>

definition temporary_path :: "string \<Rightarrow> string" where
  "temporary_path path = path @ ''.tmp''"

definition checkpoint_text :: "checkpoint \<Rightarrow> string" where
  "checkpoint_text c = dump (\<lambda>_. []) (canon (JObj (checkpoint_fields c)))"

definition record_checkpoint ::
  "string \<Rightarrow> checkpoint \<Rightarrow> json \<Rightarrow> (checkpoint_disk, abort_raised, unit) action" where
  "record_checkpoint path c fail_after_phase =
     thenA (make_parents path)
     (thenA (write_text (temporary_path path) (checkpoint_text c))
     (thenA (replace_file (temporary_path path) path)
     (if py_eq fail_after_phase (cp_phase c)
      then raise (Abort_error (''source-live fault injected after phase '' @
             (case cp_phase c of JStr s \<Rightarrow> s | _ \<Rightarrow> [])))
      else ret ())))"

definition unavailable :: abort_raised where
  "unavailable = Abort_error ''source-live checkpoint is unavailable''"

definition malformed :: abort_raised where
  "malformed = Abort_error ''source-live checkpoint is malformed''"

text \<open>The document: a missing member is \<open>KeyError\<close>, and every failure is the same error.\<close>

definition checkpoint_of_document :: "json \<Rightarrow> abort_raised + checkpoint" where
  "checkpoint_of_document v =
     (case v of
        JObj d \<Rightarrow>
          if \<not> list_all (has d) [''workspace_id'', ''phase'', ''current_graph_id'', ''desired_graph_id'']
          then Inl malformed
          else
            (case make_checkpoint
                \<lparr>cp_workspace_id = get d ''workspace_id'', cp_phase = get d ''phase'',
                 cp_current_graph_id = get d ''current_graph_id'',
                 cp_desired_graph_id = get d ''desired_graph_id''\<rparr> of
               Inl _ \<Rightarrow> Inl malformed
             | Inr c \<Rightarrow> Inr c)
      | _ \<Rightarrow> Inl malformed)"

definition read_checkpoint ::
  "(string \<Rightarrow> json option) \<Rightarrow> string \<Rightarrow> (checkpoint_disk, abort_raised, checkpoint) action" where
  "read_checkpoint loads path =
     tryA
       (bindA (read_bytes path) (\<lambda>b.
          case utf8_decode b of
            None \<Rightarrow> raise unavailable
          | Some s \<Rightarrow>
              (case loads s of
                 None \<Rightarrow> raise unavailable
               | Some v \<Rightarrow> liftE (checkpoint_of_document v))))
       (\<lambda>e. if e = Os_error then raise unavailable else raise e)"

section \<open>Owned resources\<close>

definition provider_id_pattern :: "string \<Rightarrow> bool" where
  "provider_id_pattern s =
     (case s of
        [] \<Rightarrow> False
      | c # cs \<Rightarrow> lower_letter c \<and> length cs \<le> 62 \<and>
          list_all (\<lambda>d. lower_letter d \<or> digit_char d \<or> d = CHR ''-'') cs)"

definition segment_pattern :: "string \<Rightarrow> bool" where
  "segment_pattern s \<longleftrightarrow>
     s \<noteq> [] \<and> length s \<le> 128 \<and> list_all (\<lambda>d. ascii_alnum d \<or> d \<in> set ''._-'') s"

definition MAX_SECRET_REFERENCE_BYTES :: nat where
  "MAX_SECRET_REFERENCE_BYTES = 256"

definition slash_join :: "string list \<Rightarrow> string" where
  "slash_join ps = (case ps of [] \<Rightarrow> [] | p # qs \<Rightarrow> p @ concat (map (\<lambda>q. ''/'' @ q) qs))"

definition bounded_secret_reference :: "url_library \<Rightarrow> json \<Rightarrow> bool" where
  "bounded_secret_reference lib v =
     (case v of
        JStr s \<Rightarrow>
          (case utf8_encode s of
             None \<Rightarrow> False
           | Some encoded \<Rightarrow>
               length encoded \<le> MAX_SECRET_REFERENCE_BYTES \<and>
               (case urlsplit lib s of
                  None \<Rightarrow> False
                | Some u \<Rightarrow>
                    let path = filter (\<lambda>p. p \<noteq> []) (split_on (CHR ''/'') (u_path u)) in
                    s = ''secret://'' @ u_netloc u @ u_path u \<and> u_scheme u = ''secret'' \<and>
                    provider_id_pattern (u_netloc u) \<and> u_query u = [] \<and> u_fragment u = [] \<and>
                    path \<noteq> [] \<and> u_path u = ''/'' @ slash_join path \<and>
                    list_all (\<lambda>p. p \<notin> set [''.'', ''..''] \<and> segment_pattern p) path))
      | _ \<Rightarrow> False)"

record raw_resource =
  raw_provider_kind :: json
  raw_ingress_id :: json
  raw_epoch :: json
  raw_coordinates :: "(string \<times> json) list"
  raw_source_run_id :: json
  raw_secret_reference :: json
  raw_provider_version_id :: json
  raw_provider_version_number :: json

record owned_resource =
  provider_kind :: string
  ingress_id :: string
  epoch :: int
  coordinates :: "(string \<times> string) list"
  source_run_id :: string
  secret_reference :: string
  provider_version_id :: string
  provider_version_number :: int

definition short_text :: "string \<Rightarrow> json \<Rightarrow> abort_raised + string" where
  "short_text message v =
     (case v of
        JStr s \<Rightarrow> if s = [] \<or> 255 < str_len s then Inl (Abort_error message) else Inr s
      | _ \<Rightarrow> Inl (Abort_error message))"

definition owned_text :: "string \<Rightarrow> json \<Rightarrow> abort_raised + string" where
  "owned_text name = short_text (''owned resource '' @ name @ '' is invalid'')"

definition owned_coordinate :: "string \<times> json \<Rightarrow> abort_raised + string \<times> string" where
  "owned_coordinate p =
     bindE (raise_if (\<not> IDENTIFIER (fst p)) (Abort_error ''owned provider coordinate key is invalid''))
       (\<lambda>_. bindE (short_text ''owned provider coordinate value is invalid'' (snd p))
       (\<lambda>s. Inr (fst p, s)))"

definition positive_int :: "string \<Rightarrow> json \<Rightarrow> abort_raised + int" where
  "positive_int message v =
     (case v of
        JInt i \<Rightarrow> if i < 1 then Inl (Abort_error message) else Inr i
      | _ \<Rightarrow> Inl (Abort_error message))"

definition make_resource :: "url_library \<Rightarrow> raw_resource \<Rightarrow> abort_raised + owned_resource" where
  "make_resource lib r =
     bindE (owned_text ''provider_kind'' (raw_provider_kind r)) (\<lambda>kind.
     bindE (owned_text ''ingress_id'' (raw_ingress_id r)) (\<lambda>ingress.
     bindE (owned_text ''source_run_id'' (raw_source_run_id r)) (\<lambda>run.
     bindE (owned_text ''provider_version_id'' (raw_provider_version_id r)) (\<lambda>version.
     bindE (raise_if (raw_coordinates r = []) (Abort_error ''owned provider coordinates are empty'')) (\<lambda>_.
     bindE (mapE owned_coordinate (raw_coordinates r)) (\<lambda>cs.
     bindE (raise_if (\<not> bounded_secret_reference lib (raw_secret_reference r))
       (Abort_error ''owned resource secret reference is invalid'')) (\<lambda>_.
     bindE (positive_int ''owned resource epoch is invalid'' (raw_epoch r)) (\<lambda>ep.
     bindE (positive_int ''owned resource provider version number is invalid''
       (raw_provider_version_number r)) (\<lambda>n.
     Inr \<lparr>provider_kind = kind, ingress_id = ingress, epoch = ep, coordinates = cs, source_run_id = run,
          secret_reference = (case raw_secret_reference r of JStr s \<Rightarrow> s | _ \<Rightarrow> []),
          provider_version_id = version, provider_version_number = n\<rparr>)))))))))"

definition resource_descriptor :: "owned_resource \<Rightarrow> dict" where
  "resource_descriptor r =
     [(''provider_kind'', JStr (provider_kind r)), (''ingress_id'', JStr (ingress_id r)),
      (''epoch'', JInt (epoch r)),
      (''public_provider_coordinates'', JObj (map (map_prod id JStr) (coordinates r))),
      (''source_run_id'', JStr (source_run_id r)),
      (''provider_version_id'', JStr (provider_version_id r)),
      (''provider_version_number'', JInt (provider_version_number r))]"

text \<open>Two resources are equal when their fields are; the coordinates compare as dictionaries.\<close>

definition same_coordinates :: "(string \<times> string) list \<Rightarrow> (string \<times> string) list \<Rightarrow> bool" where
  "same_coordinates xs ys \<longleftrightarrow>
     length xs = length ys \<and> list_all (\<lambda>(k, v). map_of ys k = Some v) xs"

definition same_resource :: "owned_resource \<Rightarrow> owned_resource \<Rightarrow> bool" where
  "same_resource r s \<longleftrightarrow>
     same_coordinates (coordinates r) (coordinates s) \<and> s\<lparr>coordinates := coordinates r\<rparr> = r"

section \<open>Compensation\<close>

record report =
  authoritative :: bool
  emergency_attempted :: bool
  resource_count :: nat

type_synonym ('w, 'a) step = "('w, abort_raised, 'a) action"

text \<open>\<open>try: m() except Exception\<close>: whether it raised.\<close>

definition failed_with_exception :: "('w, unit) step \<Rightarrow> ('w, bool) step" where
  "failed_with_exception m =
     tryA (thenA m (ret False)) (\<lambda>e. if e = Stopped then raise Stopped else ret True)"

fun compensate_resources ::
  "(string \<times> (owned_resource \<Rightarrow> ('w, string list) step)) list \<Rightarrow> owned_resource list \<Rightarrow>
   ('w, string list) step" where
  "compensate_resources cs [] = ret []"
| "compensate_resources cs (r # rs) =
     (case map_of cs (provider_kind r) of
        None \<Rightarrow>
          bindA (compensate_resources cs rs) (\<lambda>failed. ret ((''provider:'' @ provider_kind r) # failed))
      | Some compensator \<Rightarrow>
          bindA (compensator r) (\<lambda>stages.
          bindA (compensate_resources cs rs) (\<lambda>failed.
            ret (map (\<lambda>stage. provider_kind r @ '':'' @ stage) stages @ failed))))"

definition comma_join :: "string list \<Rightarrow> string" where
  "comma_join ps = (case ps of [] \<Rightarrow> [] | p # qs \<Rightarrow> p @ concat (map (\<lambda>q. '','' @ q) qs))"

record 'w compensation =
  authoritative_cleanup :: "('w, unit) step"
  verify_authoritative_absence :: "('w, unit) step"
  verify_emergency_absence :: "('w, unit) step"
  resources :: "owned_resource list"
  emergency_resources :: "owned_resource list"
  compensators :: "(string \<times> (owned_resource \<Rightarrow> ('w, string list) step)) list"

definition uncertain :: "string list \<Rightarrow> abort_raised" where
  "uncertain categories =
     Abort_error (''source-live exact cleanup is uncertain: '' @ comma_join categories)"

definition emergency :: "'w compensation \<Rightarrow> ('w, report) step" where
  "emergency c =
     bindA (compensate_resources (compensators c) (emergency_resources c)) (\<lambda>stages.
     bindA (failed_with_exception (verify_emergency_absence c)) (\<lambda>absence_failed.
       let failed = stages @ (if absence_failed then [''absence-verification''] else []) in
       if failed \<noteq> [] \<or> emergency_resources c = []
       then raise (uncertain (if failed = [] then [''unproven-emergency-authority''] else failed))
       else ret \<lparr>authoritative = False, emergency_attempted = True,
                 resource_count = length (resources c)\<rparr>))"

definition compensate_abort :: "'w compensation \<Rightarrow> ('w, report) step" where
  "compensate_abort c =
     (if list_ex (\<lambda>r. \<not> list_ex (same_resource r) (resources c)) (emergency_resources c)
      then raise (Abort_error ''emergency cleanup evidence is incongruent'')
      else
        thenA (failed_with_exception (authoritative_cleanup c))
        (bindA (failed_with_exception (verify_authoritative_absence c)) (\<lambda>absence_failed.
           if absence_failed then emergency c
           else ret \<lparr>authoritative = True, emergency_attempted = False,
                     resource_count = length (resources c)\<rparr>)))"

end
