(* ===== verification/HostedResults.thy ===== *)
theory HostedResults
  imports Json PyText
begin

text \<open>
  The checks the hosted acceptance workflow makes of what the server answers
  (\<open>scripts/cpk_server_hosted_activity.py\<close>, the functions before \<open>HostedWorkflow\<close>): the claimed
  run, the results of starting, executing and advancing, the plan detail and pages of run events.

  Parameters: the text of a float and the value of decimal digits outside ASCII.
\<close>

section \<open>Exceptions\<close>

text \<open>
  \<open>RuntimeError\<close> with its message (the messages that quote a Python value keep their fixed part
  only), and the built-in exceptions the code does not catch.
\<close>

datatype hosted_error =
    Runtime string
  | Http_failed string string int
  | Key_error
  | Type_error
  | Value_error
  | Attribute_error
  | Overflow_error
  | Network_error

section \<open>Values\<close>

definition MAX_CLAIM_GENERATION :: int where
  "MAX_CLAIM_GENERATION = 2 ^ 63 - 1"

definition nonempty_string :: "json \<Rightarrow> bool" where
  "nonempty_string v = (case v of JStr s \<Rightarrow> s \<noteq> [] \<and> str_len s \<le> 4096 | _ \<Rightarrow> False)"

definition positive_integer :: "json \<Rightarrow> bool" where
  "positive_integer v = (case v of JInt i \<Rightarrow> 1 \<le> i \<and> i \<le> MAX_CLAIM_GENERATION | _ \<Rightarrow> False)"

definition claim_generation_ok :: "json \<Rightarrow> bool" where
  "claim_generation_ok = positive_integer"

definition closed_mapping :: "json \<Rightarrow> string list \<Rightarrow> bool" where
  "closed_mapping v ks = (case v of JObj d \<Rightarrow> keys_are d ks | _ \<Rightarrow> False)"

definition is_bool :: "json \<Rightarrow> bool" where
  "is_bool v = (case v of JBool _ \<Rightarrow> True | _ \<Rightarrow> False)"

definition is_list :: "json \<Rightarrow> bool" where
  "is_list v = (case v of JArr _ \<Rightarrow> True | _ \<Rightarrow> False)"

definition is_dict :: "json \<Rightarrow> bool" where
  "is_dict v = (case v of JObj _ \<Rightarrow> True | _ \<Rightarrow> False)"

definition members :: "json \<Rightarrow> dict" where
  "members v = (case v of JObj d \<Rightarrow> d | _ \<Rightarrow> [])"

text \<open>\<open>value[key]\<close> once \<open>value\<close> is known to be a dictionary that has the key.\<close>

definition field :: "json \<Rightarrow> string \<Rightarrow> json" where
  "field v k = get (members v) k"

definition hosted_bounded_json :: "(pyfloat \<Rightarrow> string) \<Rightarrow> nat \<Rightarrow> json \<Rightarrow> bool" where
  "hosted_bounded_json fr maximum v \<longleftrightarrow> length (dump fr (canon v)) \<le> maximum"

text \<open>
  \<open>datetime.strptime\<close> with the formats \<open>%Y-%m-%dT%H:%M:%SZ\<close> and \<open>%Y-%m-%dT%H:%M:%S.%fZ\<close> on
  texts of exactly 20 and 27 characters, so that every field has its full width.  Letters match in
  either case, a digit may be any decimal digit except where the pattern lists ASCII ones, and the
  first digit of a day may be a space; \<open>datetime\<close> then checks the calendar.
\<close>

definition decimal_digit :: "(nat \<Rightarrow> nat option) \<Rightarrow> nat \<Rightarrow> nat option" where
  "decimal_digit dv n =
     (if 48 \<le> n \<and> n \<le> 57 then Some (n - 48) else if n < 128 then None else dv n)"

definition two_digits :: "(nat \<Rightarrow> nat option) \<Rightarrow> nat list \<Rightarrow> nat \<Rightarrow> nat \<Rightarrow> nat option" where
  "two_digits dv firsts a b =
     (if a \<in> set firsts
      then map_option (\<lambda>d. 10 * (a - 48) + d) (decimal_digit dv b)
      else None)"

definition ascii_digit :: "nat \<Rightarrow> bool" where
  "ascii_digit n \<longleftrightarrow> 48 \<le> n \<and> n \<le> 57"

definition month_field :: "nat \<Rightarrow> nat \<Rightarrow> nat option" where
  "month_field a b =
     (if a = 49 \<and> 48 \<le> b \<and> b \<le> 50 then Some (10 + (b - 48))
      else if a = 48 \<and> 49 \<le> b \<and> b \<le> 57 then Some (b - 48)
      else None)"

definition day_field :: "(nat \<Rightarrow> nat option) \<Rightarrow> nat \<Rightarrow> nat \<Rightarrow> nat option" where
  "day_field dv a b =
     (if a = 51 \<and> 48 \<le> b \<and> b \<le> 49 then Some (30 + (b - 48))
      else if a \<in> {49, 50} then two_digits dv [49, 50] a b
      else if a \<in> {48, 32} \<and> 49 \<le> b \<and> b \<le> 57 then Some (b - 48)
      else None)"

definition hour_field :: "(nat \<Rightarrow> nat option) \<Rightarrow> nat \<Rightarrow> nat \<Rightarrow> nat option" where
  "hour_field dv a b =
     (if a = 50 then if 48 \<le> b \<and> b \<le> 51 then Some (20 + (b - 48)) else None
      else two_digits dv [48, 49] a b)"

definition minute_field :: "(nat \<Rightarrow> nat option) \<Rightarrow> nat \<Rightarrow> nat \<Rightarrow> nat option" where
  "minute_field dv a b = two_digits dv [48, 49, 50, 51, 52, 53] a b"

text \<open>The pattern allows the seconds 60 and 61; \<open>datetime\<close> refuses them.\<close>

definition second_field :: "(nat \<Rightarrow> nat option) \<Rightarrow> nat \<Rightarrow> nat \<Rightarrow> nat option" where
  "second_field dv a b = two_digits dv [48, 49, 50, 51, 52, 53] a b"

definition leap_year :: "nat \<Rightarrow> bool" where
  "leap_year y \<longleftrightarrow> 4 dvd y \<and> (\<not> 100 dvd y \<or> 400 dvd y)"

definition days_in_month :: "nat \<Rightarrow> nat \<Rightarrow> nat" where
  "days_in_month y m =
     (if m = 2 then if leap_year y then 29 else 28 else if m \<in> {4, 6, 9, 11} then 30 else 31)"

fun year_field :: "(nat \<Rightarrow> nat option) \<Rightarrow> nat list \<Rightarrow> nat option" where
  "year_field dv [a, b, c, d] =
     (case (decimal_digit dv a, decimal_digit dv b, decimal_digit dv c, decimal_digit dv d) of
        (Some p, Some q, Some r, Some s) \<Rightarrow> Some (1000 * p + 100 * q + 10 * r + s)
      | _ \<Rightarrow> None)"
| "year_field dv _ = None"

fun whole_seconds :: "(nat \<Rightarrow> nat option) \<Rightarrow> nat list \<Rightarrow> bool" where
  "whole_seconds dv [y1, y2, y3, y4, h1, m1, m2, h2, d1, d2, t, k1, k2, c1, n1, n2, c2, s1, s2] =
     (h1 = 45 \<and> h2 = 45 \<and> t \<in> {84, 116} \<and> c1 = 58 \<and> c2 = 58 \<and>
      (case (year_field dv [y1, y2, y3, y4], month_field m1 m2, day_field dv d1 d2) of
         (Some y, Some m, Some d) \<Rightarrow> 1 \<le> y \<and> d \<le> days_in_month y m
       | _ \<Rightarrow> False) \<and>
      hour_field dv k1 k2 \<noteq> None \<and> minute_field dv n1 n2 \<noteq> None \<and> second_field dv s1 s2 \<noteq> None)"
| "whole_seconds dv _ = False"

definition canonical_timestamp :: "(nat \<Rightarrow> nat option) \<Rightarrow> json \<Rightarrow> bool" where
  "canonical_timestamp dv v =
     (case v of
        JStr s \<Rightarrow>
          (let cs = codepoints s in
           if length cs = 20 then
             whole_seconds dv (take 19 cs) \<and> cs ! 19 \<in> {90, 122}
           else if length cs = 27 \<and> cs ! 19 = 46 then
             whole_seconds dv (take 19 cs) \<and> list_all ascii_digit (take 6 (drop 20 cs)) \<and>
             cs ! 26 \<in> {90, 122}
           else False)
      | _ \<Rightarrow> False)"

section \<open>The claimed run\<close>

record claimed_run =
  run_id :: string
  claim_generation :: int

definition make_claimed_run :: "json \<Rightarrow> json \<Rightarrow> hosted_error + claimed_run" where
  "make_claimed_run r g =
     (if \<not> nonempty_string r then Inl (Runtime ''claimed run id is invalid'')
      else if \<not> claim_generation_ok g then Inl (Runtime ''claimed run generation is invalid'')
      else case (r, g) of
        (JStr s, JInt i) \<Rightarrow> Inr \<lparr>run_id = s, claim_generation = i\<rparr>
      | _ \<Rightarrow> Inl Type_error)"

definition claimed_run_descriptor :: "claimed_run \<Rightarrow> json" where
  "claimed_run_descriptor c =
     JObj [(''run_id'', JStr (run_id c)), (''claim_generation'', JInt (claim_generation c))]"

definition claimed_run_from_descriptor :: "json \<Rightarrow> hosted_error + claimed_run" where
  "claimed_run_from_descriptor v =
     (if \<not> closed_mapping v [''run_id'', ''claim_generation'']
      then Inl (Runtime ''claimed run state is invalid'')
      else make_claimed_run (field v ''run_id'') (field v ''claim_generation''))"

definition run_result_keys :: "string list" where
  "run_result_keys =
     [''execution_request_id'', ''run_id'', ''run_status'', ''event_id'', ''event_type'',
      ''event_ordinal'', ''action_id'', ''action_type'', ''replayed'', ''claim_generation'']"

definition claimed_run_from_result :: "json \<Rightarrow> string \<Rightarrow> hosted_error + claimed_run" where
  "claimed_run_from_result v request_id =
     (if \<not> closed_mapping v run_result_keys \<or>
         field v ''execution_request_id'' \<noteq> JStr request_id \<or>
         \<not> nonempty_string (field v ''run_id'') \<or>
         field v ''run_status'' \<noteq> JStr ''claimed'' \<or>
         \<not> nonempty_string (field v ''event_id'') \<or>
         field v ''event_type'' \<noteq> JStr ''run_opened'' \<or>
         field v ''event_ordinal'' \<noteq> JInt 1 \<or>
         \<not> nonempty_string (field v ''action_id'') \<or>
         field v ''action_type'' \<noteq> JStr ''claim-run'' \<or>
         \<not> is_bool (field v ''replayed'') \<or>
         \<not> claim_generation_ok (field v ''claim_generation'')
      then Inl (Runtime ''claim result is invalid'')
      else make_claimed_run (field v ''run_id'') (field v ''claim_generation''))"

definition validate_start_result :: "json \<Rightarrow> claimed_run \<Rightarrow> hosted_error + unit" where
  "validate_start_result v c =
     raise_if
       (\<not> closed_mapping v run_result_keys \<or>
        \<not> nonempty_string (field v ''execution_request_id'') \<or>
        field v ''run_id'' \<noteq> JStr (run_id c) \<or>
        field v ''run_status'' \<noteq> JStr ''running'' \<or>
        \<not> nonempty_string (field v ''event_id'') \<or>
        field v ''event_type'' \<noteq> JStr ''run_started'' \<or>
        field v ''event_ordinal'' \<noteq> JInt 2 \<or>
        \<not> nonempty_string (field v ''action_id'') \<or>
        field v ''action_type'' \<noteq> JStr ''start-run'' \<or>
        \<not> is_bool (field v ''replayed'') \<or>
        \<not> py_eq (field v ''claim_generation'') (JInt (claim_generation c)))
       (Runtime ''start result is invalid'')"

section \<open>Execution results\<close>

definition execute_result_keys :: "string list" where
  "execute_result_keys =
     [''run_id'', ''run_status'', ''coordinator_status'', ''effects_attempted'', ''activity_id'']"

definition effects_ok :: "json \<Rightarrow> bool" where
  "effects_ok v = (case v of JInt i \<Rightarrow> 0 \<le> i \<and> i \<le> 1 | _ \<Rightarrow> False)"

definition BLOCKED_STATUSES :: "string list" where
  "BLOCKED_STATUSES =
     [''paused'', ''cancelled'', ''compensating'', ''compensated'', ''partially_failed'',
      ''uncompensated_failure'', ''running'']"

text \<open>Whether the answer is refused, for each status of the coordinator.\<close>

definition status_refused :: "json \<Rightarrow> json \<Rightarrow> json \<Rightarrow> json \<Rightarrow> bool" where
  "status_refused status run_status effects activity =
     (if status \<in> {JStr ''progressed'', JStr ''in-flight''} then
        run_status \<noteq> JStr ''running'' \<or> activity = JNull
      else if status = JStr ''completed'' then run_status \<noteq> JStr ''succeeded'' \<or> activity \<noteq> JNull
      else if status = JStr ''failed'' then
        run_status \<noteq> JStr ''failed'' \<or> (effects = JInt 0 \<and> activity \<noteq> JNull)
      else if status = JStr ''unsupported'' then
        run_status \<noteq> JStr ''failed'' \<or> effects \<noteq> JInt 1 \<or> activity = JNull
      else if status = JStr ''uncertain'' then run_status \<noteq> JStr ''running'' \<or> activity = JNull
      else if status = JStr ''blocked'' then
        run_status \<notin> set (map JStr BLOCKED_STATUSES) \<or> activity \<noteq> JNull
      else True)"

definition validate_execute_result :: "json \<Rightarrow> claimed_run \<Rightarrow> hosted_error + string" where
  "validate_execute_result v c =
     (if \<not> closed_mapping v execute_result_keys \<or>
         field v ''run_id'' \<noteq> JStr (run_id c) \<or>
         \<not> nonempty_string (field v ''run_status'') \<or>
         \<not> nonempty_string (field v ''coordinator_status'') \<or>
         \<not> effects_ok (field v ''effects_attempted'') \<or>
         (field v ''activity_id'' \<noteq> JNull \<and> \<not> nonempty_string (field v ''activity_id'')) \<or>
         status_refused (field v ''coordinator_status'') (field v ''run_status'')
           (field v ''effects_attempted'') (field v ''activity_id'')
      then Inl (Runtime ''execution result is invalid'')
      else case field v ''coordinator_status'' of JStr s \<Rightarrow> Inr s | _ \<Rightarrow> Inl Type_error)"

section \<open>Advancement\<close>

definition advance_result_keys :: "string list" where
  "advance_result_keys =
     [''workspace_id'', ''from_authored_graph_id'', ''from_realized_projection_id'',
      ''to_authored_graph_id'', ''to_realized_projection_id'', ''to_realized_projection_digest'',
      ''desired_graph_revision'', ''from_graph_id'', ''to_graph_id'', ''run_id'', ''plan_id'',
      ''event_id'', ''action_id'', ''replayed'']"

definition digest_ok :: "json \<Rightarrow> bool" where
  "digest_ok v = (case v of JStr s \<Rightarrow> str_len s = 64 \<and> list_all is_lower_hex_char s | _ \<Rightarrow> False)"

definition validate_advance_result ::
  "json \<Rightarrow> string \<Rightarrow> claimed_run \<Rightarrow> string \<Rightarrow> string \<Rightarrow> string \<Rightarrow> string \<Rightarrow> string \<Rightarrow> int \<Rightarrow>
   hosted_error + unit" where
  "validate_advance_result v workspace c plan current current_projection desired desired_projection
       revision =
     raise_if
       (\<not> closed_mapping v advance_result_keys \<or>
        field v ''workspace_id'' \<noteq> JStr workspace \<or>
        field v ''from_authored_graph_id'' \<noteq> JStr current \<or>
        field v ''from_graph_id'' \<noteq> JStr current \<or>
        field v ''from_realized_projection_id'' \<noteq> JStr current_projection \<or>
        field v ''to_authored_graph_id'' \<noteq> JStr desired \<or>
        field v ''to_graph_id'' \<noteq> JStr desired \<or>
        field v ''to_realized_projection_id'' \<noteq> JStr desired_projection \<or>
        \<not> digest_ok (field v ''to_realized_projection_digest'') \<or>
        \<not> py_eq (field v ''desired_graph_revision'') (JInt revision) \<or>
        field v ''run_id'' \<noteq> JStr (run_id c) \<or>
        field v ''plan_id'' \<noteq> JStr plan \<or>
        \<not> nonempty_string (field v ''event_id'') \<or>
        \<not> nonempty_string (field v ''action_id'') \<or>
        \<not> is_bool (field v ''replayed''))
       (Runtime ''advance result is invalid'')"

end
