(* ===== verification/HostedReads.thy ===== *)
theory HostedReads
  imports HostedResults
begin

text \<open>
  The read-side checks of the hosted acceptance workflow
  (\<open>scripts/cpk_server_hosted_activity.py\<close>): plan details and pages of run events.  A membership
  test hashes its operand, so a list or a dictionary in its place raises \<open>TypeError\<close>.
\<close>

section \<open>Plan details\<close>

definition RISKS :: "string list" where
  "RISKS = [''informational'', ''low'', ''medium'', ''high'', ''critical'']"

definition in_set :: "json \<Rightarrow> string list \<Rightarrow> hosted_error + bool" where
  "in_set v ks = (case in_strings v ks of None \<Rightarrow> Inl Type_error | Some b \<Rightarrow> Inr b)"

definition count_ok :: "json \<Rightarrow> bool" where
  "count_ok v = (case v of JInt i \<Rightarrow> 0 \<le> i | _ \<Rightarrow> False)"

definition valid_activity_plan :: "(pyfloat \<Rightarrow> string) \<Rightarrow> json \<Rightarrow> bool" where
  "valid_activity_plan fr v \<longleftrightarrow>
     closed_mapping v [''schema'', ''version'', ''activities''] \<and>
     field v ''schema'' = JStr ''control-plane-kit.activity-plan'' \<and>
     py_eq (field v ''version'') (JInt 1) \<and> is_list (field v ''activities'') \<and>
     hosted_bounded_json fr 1048576 v"

definition plan_keys :: "string list" where
  "plan_keys =
     [''plan_id'', ''session_id'', ''base_graph_id'', ''desired_graph_id'',
      ''base_realized_projection_id'', ''desired_realized_projection_id'',
      ''desired_graph_revision'', ''status'', ''created_at'', ''payload'', ''risk_summary'',
      ''recovery'']"

definition valid_plan_header ::
  "(pyfloat \<Rightarrow> string) \<Rightarrow> (nat \<Rightarrow> nat option) \<Rightarrow> json \<Rightarrow> string \<Rightarrow> string \<Rightarrow> bool" where
  "valid_plan_header fr dv v workspace plan_id \<longleftrightarrow>
     (let plan = field v ''plan'' in
      field v ''workspace_id'' = JStr workspace \<and> field v ''kind'' = JStr ''plan-detail'' \<and>
      closed_mapping plan plan_keys \<and> field plan ''plan_id'' = JStr plan_id \<and>
      list_all (\<lambda>k. nonempty_string (field plan k))
        [''session_id'', ''base_graph_id'', ''desired_graph_id'', ''base_realized_projection_id'',
         ''desired_realized_projection_id''] \<and>
      positive_integer (field plan ''desired_graph_revision'') \<and>
      field plan ''status'' = JStr ''planned'' \<and> canonical_timestamp dv (field plan ''created_at'') \<and>
      valid_activity_plan fr (field plan ''payload''))"

definition valid_risk :: "json \<Rightarrow> hosted_error + bool" where
  "valid_risk risk =
     (if \<not> closed_mapping risk [''max_risk'', ''counts'', ''destructive_count'',
           ''review_blocker_count'', ''ready_for_execution'']
      then Inr False
      else bindE (in_set (field risk ''max_risk'') RISKS) (\<lambda>known.
        let counts = field risk ''counts'' in
        Inr (known \<and> closed_mapping counts RISKS \<and> list_all (\<lambda>p. count_ok (snd p)) (members counts) \<and>
             count_ok (field risk ''destructive_count'') \<and>
             count_ok (field risk ''review_blocker_count'') \<and>
             is_bool (field risk ''ready_for_execution''))))"

definition recovery_keys :: "string list" where
  "recovery_keys =
     [''schema'', ''version'', ''mode'', ''source_graph_name'', ''target_graph_name'', ''plan'',
      ''approval'', ''requires_manual_review'', ''assessments'', ''limitations'']"

definition valid_recovery :: "(pyfloat \<Rightarrow> string) \<Rightarrow> json \<Rightarrow> hosted_error + bool" where
  "valid_recovery fr recovery =
     (if \<not> closed_mapping recovery recovery_keys then Inr False
      else
        let approval = field recovery ''approval'' in
        if field recovery ''schema'' = JStr ''control-plane-kit.recovery-candidate'' \<and>
           py_eq (field recovery ''version'') (JInt 1) \<and>
           field recovery ''mode'' = JStr ''reverse-transition'' \<and>
           nonempty_string (field recovery ''source_graph_name'') \<and>
           nonempty_string (field recovery ''target_graph_name'') \<and>
           valid_activity_plan fr (field recovery ''plan'') \<and>
           closed_mapping approval [''required_scope'', ''max_risk'', ''destructive''] \<and>
           nonempty_string (field approval ''required_scope'')
        then bindE (in_set (field approval ''max_risk'') RISKS) (\<lambda>known.
          Inr (known \<and> is_bool (field approval ''destructive'') \<and>
               is_bool (field recovery ''requires_manual_review'') \<and>
               is_list (field recovery ''assessments'') \<and> is_list (field recovery ''limitations'') \<and>
               hosted_bounded_json fr 1048576 recovery))
        else Inr False)"

definition valid_plan_detail ::
  "(pyfloat \<Rightarrow> string) \<Rightarrow> (nat \<Rightarrow> nat option) \<Rightarrow> json \<Rightarrow> string \<Rightarrow> string \<Rightarrow> hosted_error + bool" where
  "valid_plan_detail fr dv v workspace plan_id =
     (if \<not> closed_mapping v [''workspace_id'', ''kind'', ''plan''] \<or>
         \<not> valid_plan_header fr dv v workspace plan_id
      then Inr False
      else bindE (valid_risk (field (field v ''plan'') ''risk_summary'')) (\<lambda>ok.
        if ok then valid_recovery fr (field (field v ''plan'') ''recovery'') else Inr False))"

section \<open>Run events\<close>

definition valid_fence :: "json \<Rightarrow> bool" where
  "valid_fence v \<longleftrightarrow>
     closed_mapping v [''worker_id'', ''generation''] \<and> nonempty_string (field v ''worker_id'') \<and>
     claim_generation_ok (field v ''generation'')"

definition event_keys :: "string list" where
  "event_keys =
     [''event_id'', ''run_id'', ''ordinal'', ''event_type'', ''occurred_at'', ''activity_id'',
      ''payload'', ''failure'']"

definition valid_run_event ::
  "(pyfloat \<Rightarrow> string) \<Rightarrow> (nat \<Rightarrow> nat option) \<Rightarrow> json \<Rightarrow> string \<Rightarrow> bool" where
  "valid_run_event fr dv e run \<longleftrightarrow>
     (closed_mapping e event_keys \<or> closed_mapping e (event_keys @ [''recovery''])) \<and>
     nonempty_string (field e ''event_id'') \<and> field e ''run_id'' = JStr run \<and>
     positive_integer (field e ''ordinal'') \<and> nonempty_string (field e ''event_type'') \<and>
     canonical_timestamp dv (field e ''occurred_at'') \<and>
     (field e ''activity_id'' = JNull \<or> nonempty_string (field e ''activity_id'')) \<and>
     is_dict (field e ''payload'') \<and> hosted_bounded_json fr 65536 (field e ''payload'') \<and>
     (field e ''failure'' = JNull \<or> is_dict (field e ''failure'')) \<and>
     (\<not> has (members e) ''recovery'' \<or>
      (let recovery = field e ''recovery'' in
       closed_mapping recovery [''decision'', ''retained_run_id'', ''prior_fence'', ''replacement_fence''] \<and>
       nonempty_string (field recovery ''decision'') \<and>
       field recovery ''retained_run_id'' = JStr run \<and> valid_fence (field recovery ''prior_fence'') \<and>
       (field recovery ''replacement_fence'' = JNull \<or>
        valid_fence (field recovery ''replacement_fence''))))"

text \<open>The ordinals and identifiers of checked events are integers and strings.\<close>

definition ordinal_of :: "json \<Rightarrow> int" where
  "ordinal_of e = (case field e ''ordinal'' of JInt i \<Rightarrow> i | _ \<Rightarrow> 0)"

definition event_id_of :: "json \<Rightarrow> string" where
  "event_id_of e = (case field e ''event_id'' of JStr s \<Rightarrow> s | _ \<Rightarrow> [])"

definition page_keys :: "string list" where
  "page_keys = [''workspace_id'', ''kind'', ''limit'', ''items'', ''next_cursor'']"

definition items_of :: "json \<Rightarrow> json list" where
  "items_of v = (case field v ''items'' of JArr xs \<Rightarrow> xs | _ \<Rightarrow> [])"

definition validate_run_event_page ::
  "(pyfloat \<Rightarrow> string) \<Rightarrow> (nat \<Rightarrow> nat option) \<Rightarrow> json \<Rightarrow> string \<Rightarrow> string \<Rightarrow> int \<Rightarrow> json list option" where
  "validate_run_event_page fr dv v workspace run limit =
     (if \<not> closed_mapping v page_keys \<or> field v ''workspace_id'' \<noteq> JStr workspace \<or>
         field v ''kind'' \<noteq> JStr ''run-events'' \<or> \<not> py_eq (field v ''limit'') (JInt limit) \<or>
         field v ''next_cursor'' \<noteq> JNull \<or> \<not> is_list (field v ''items'') \<or>
         limit < int (length (items_of v))
      then None
      else
        let items = items_of v;
            ordinals = map ordinal_of items;
            ids = map event_id_of items in
        if \<not> list_all (\<lambda>e. valid_run_event fr dv e run) items then None
        else if ordinals \<noteq> sort ordinals \<or>
                card (set ordinals) \<noteq> length ordinals \<or> card (set ids) \<noteq> length ids
        then None
        else Some items)"

end
