(* ===== verification/HostedTransition.thy ===== *)
theory HostedTransition
  imports HostedReads
begin

text \<open>
  The workflow of the hosted acceptance script (\<open>scripts/cpk_server_hosted_activity.py\<close>):
  \<open>HostedWorkflow\<close> with its HTTP and MCP calls, the execution loop, the attachment of the runtime
  networks and the approved transition that strings the operations together.

  Every exchange with the server is recorded in \<open>exchanges\<close>; what the server answers and what the
  Docker daemon does are parameters that may depend on all that happened before (\<open>outside\<close>).
  Parameters besides: \<open>json.loads\<close>, the text of floats and of nested values, digits outside ASCII,
  and the scope names and the graph codec of control_plane_kit_core.  The body of a request is kept as
  the JSON value that is serialised.
\<close>

section \<open>State\<close>

record hosted_request =
  hr_method :: string
  hr_path :: string
  hr_headers :: "(string \<times> string) list"
  hr_payload :: "json option"
  hr_timeout :: int

text \<open>An answer with its body, an HTTP error, or a failure of the connection.\<close>

datatype hosted_reply = Body string | Failure int | Unreachable

record 'w hosted_state =
  exchanges :: "(hosted_request \<times> hosted_reply) list"
  desired_coordinates :: "(string \<times> (string \<times> int)) list"
  plan_coordinates :: "(string \<times> (string \<times> string \<times> int)) list"
  outside :: 'w

type_synonym ('w, 'a) hosted_action = "('w hosted_state, hosted_error, 'a) action"

record network =
  net_ref :: nat
  net_labels :: "(string \<times> string) list"

text \<open>
  The Docker client: the networks with the given labels, the identifier of a container (none is
  \<open>NotFound\<close>), the containers attached to a network now, and connecting one (\<open>False\<close> is
  \<open>APIError\<close>).
\<close>

record 'w docker =
  docker_networks :: "string list \<Rightarrow> ('w, hosted_error, network list) action"
  docker_container :: "string \<Rightarrow> ('w, hosted_error, string option) action"
  docker_attached :: "nat \<Rightarrow> ('w, hosted_error, string list) action"
  docker_connect :: "nat \<Rightarrow> string \<Rightarrow> ('w, hosted_error, bool) action"

record 'w hosted_env =
  h_exchange :: "hosted_request \<Rightarrow> 'w \<Rightarrow> hosted_reply \<times> 'w"
  h_docker :: "'w docker"
  h_loads :: "string \<Rightarrow> json option"
  h_float :: "pyfloat \<Rightarrow> string"
  h_repr :: "json \<Rightarrow> string"
  h_digits :: "nat \<Rightarrow> nat option"
  h_hostname :: string
  plan_request_scope :: string
  plan_execute_scope :: string
  execution_operate_scope :: string

record workflow =
  base_url :: string
  workspace :: string
  worker :: string
  server_container :: string
  worker_authorization :: string

definition AUTHORIZATION :: string where
  "AUTHORIZATION = ''Bearer present''"

definition WORKER_AUTHORIZATION :: string where
  "WORKER_AUTHORIZATION = ''Bearer worker-present''"

definition WORKER_ID :: string where
  "WORKER_ID = ''hosted-worker''"

definition make_workflow :: "string \<Rightarrow> string \<Rightarrow> string \<Rightarrow> string \<Rightarrow> string \<Rightarrow> workflow" where
  "make_workflow url workspace_id worker_id container authorization =
     \<lparr>base_url = rstrip_char (CHR ''/'') url, workspace = workspace_id, worker = worker_id,
      server_container = container, worker_authorization = authorization\<rparr>"

definition workflow_for :: "string \<Rightarrow> string \<Rightarrow> string \<Rightarrow> workflow" where
  "workflow_for url container workspace_id =
     make_workflow url workspace_id WORKER_ID container WORKER_AUTHORIZATION"

section \<open>Python values\<close>

text \<open>\<open>value[key]\<close>, \<open>value.get(key)\<close>, \<open>str(value)\<close> and \<open>int(value)\<close>.\<close>

definition subscript :: "json \<Rightarrow> string \<Rightarrow> hosted_error + json" where
  "subscript v k =
     (case v of
        JObj d \<Rightarrow> (case map_of d k of None \<Rightarrow> Inl Key_error | Some x \<Rightarrow> Inr x)
      | _ \<Rightarrow> Inl Type_error)"

definition get_attr :: "json \<Rightarrow> string \<Rightarrow> hosted_error + json" where
  "get_attr v k = (case v of JObj d \<Rightarrow> Inr (get d k) | _ \<Rightarrow> Inl Attribute_error)"

definition str_of :: "'w hosted_env \<Rightarrow> json \<Rightarrow> string" where
  "str_of env v =
     (case v of
        JStr s \<Rightarrow> s
      | JNull \<Rightarrow> ''None''
      | JBool b \<Rightarrow> if b then ''True'' else ''False''
      | JInt i \<Rightarrow> int_text i
      | _ \<Rightarrow> h_repr env v)"

definition int_of :: "'w hosted_env \<Rightarrow> json \<Rightarrow> hosted_error + int" where
  "int_of env v =
     (case v of
        JInt i \<Rightarrow> Inr i
      | JBool b \<Rightarrow> Inr (if b then 1 else 0)
      | JStr s \<Rightarrow> (case parse_int (h_digits env) s of None \<Rightarrow> Inl Value_error | Some i \<Rightarrow> Inr i)
      | JFloat f \<Rightarrow>
          (case f of
             Dyadic m e \<Rightarrow> Inr (if 0 \<le> e then m * 2 ^ nat e else sgn m * (\<bar>m\<bar> div 2 ^ nat (- e)))
           | NegZero \<Rightarrow> Inr 0
           | NaN \<Rightarrow> Inl Value_error
           | _ \<Rightarrow> Inl Overflow_error)
      | _ \<Rightarrow> Inl Type_error)"

text \<open>\<open>bool(value)\<close>.\<close>

definition truth :: "json \<Rightarrow> bool" where
  "truth v =
     (case v of
        JNull \<Rightarrow> False
      | JBool b \<Rightarrow> b
      | JInt i \<Rightarrow> i \<noteq> 0
      | JFloat f \<Rightarrow> (case f of NegZero \<Rightarrow> False | Dyadic m _ \<Rightarrow> m \<noteq> 0 | _ \<Rightarrow> True)
      | JStr s \<Rightarrow> s \<noteq> []
      | JArr xs \<Rightarrow> xs \<noteq> []
      | JObj d \<Rightarrow> d \<noteq> [])"

definition text_at :: "'w hosted_env \<Rightarrow> json \<Rightarrow> string \<Rightarrow> hosted_error + string" where
  "text_at env v k = bindE (subscript v k) (\<lambda>x. Inr (str_of env x))"

section \<open>Calls\<close>

definition exchange :: "'w hosted_env \<Rightarrow> hosted_request \<Rightarrow> ('w, hosted_reply) hosted_action" where
  "exchange env rq st =
     (case h_exchange env rq (outside st) of
        (a, w) \<Rightarrow> (Inr a, st\<lparr>exchanges := exchanges st @ [(rq, a)], outside := w\<rparr>))"

definition RESPONSE_BYTES :: nat where
  "RESPONSE_BYTES = 1024 * 1024"

text \<open>Reading the answer of \<open>_http\<close>: at most a megabyte, UTF-8, JSON, an object.\<close>

definition decode_reply :: "'w hosted_env \<Rightarrow> hosted_request \<Rightarrow> hosted_reply \<Rightarrow> hosted_error + json" where
  "decode_reply env rq a =
     (case a of
        Unreachable \<Rightarrow> Inl Network_error
      | Failure code \<Rightarrow> Inl (Http_failed (hr_method rq) (hr_path rq) code)
      | Body b \<Rightarrow>
          (case utf8_decode (take RESPONSE_BYTES b) of
             None \<Rightarrow> Inl Value_error
           | Some s \<Rightarrow>
               (case h_loads env s of
                  None \<Rightarrow> Inl Value_error
                | Some v \<Rightarrow>
                    if is_dict v then Inr v else Inl (Runtime ''HTTP returned non-object JSON''))))"

definition hosted_http ::
  "'w hosted_env \<Rightarrow> workflow \<Rightarrow> string \<Rightarrow> string \<Rightarrow> json option \<Rightarrow> bool \<Rightarrow> (string \<times> string) list \<Rightarrow>
   int \<Rightarrow> ('w, json) hosted_action" where
  "hosted_http env flow meth path payload authorize extra timeout =
     (let rq = \<lparr>hr_method = meth, hr_path = base_url flow @ path,
                hr_headers = dict_update
                  ((''Content-Type'', ''application/json'') #
                   (if authorize then [(''Authorization'', AUTHORIZATION)] else [])) extra,
                hr_payload = payload, hr_timeout = timeout\<rparr> in
      bindA (exchange env rq) (\<lambda>a. liftE (decode_reply env rq a)))"

definition http_get :: "'w hosted_env \<Rightarrow> workflow \<Rightarrow> string \<Rightarrow> ('w, json) hosted_action" where
  "http_get env flow path = hosted_http env flow ''GET'' path None True [] 10"

definition http_post ::
  "'w hosted_env \<Rightarrow> workflow \<Rightarrow> string \<Rightarrow> dict \<Rightarrow> (string \<times> string) list \<Rightarrow> ('w, json) hosted_action" where
  "http_post env flow path payload extra = hosted_http env flow ''POST'' path (Some (JObj payload)) True extra 10"

definition mcp_result :: "string \<Rightarrow> json \<Rightarrow> hosted_error + json" where
  "mcp_result name response =
     (if has (members response) ''error'' then Inl (Runtime (''MCP '' @ name @ '' failed''))
      else if \<not> is_dict (field response ''result'')
      then Inl (Runtime (''MCP '' @ name @ '' returned non-object result''))
      else Inr (field response ''result''))"

definition mcp_call ::
  "'w hosted_env \<Rightarrow> workflow \<Rightarrow> string \<Rightarrow> string \<Rightarrow> dict \<Rightarrow> int \<Rightarrow> string option \<Rightarrow> ('w, json) hosted_action" where
  "mcp_call env flow meth name arguments timeout authorization =
     bindA (hosted_http env flow ''POST'' ''/mcp''
       (Some (JObj [(''jsonrpc'', JStr ''2.0''), (''id'', JStr (name @ '':1'')), (''method'', JStr meth),
          (''params'', JObj [(''name'', JStr name), (''arguments'', JObj arguments)])])) True
       ([(''Accept'', ''application/json''), (''MCP-Protocol-Version'', ''2025-06-18''),
         (''Mcp-Method'', meth)] @
        (case authorization of None \<Rightarrow> [] | Some a \<Rightarrow> [(''Authorization'', a)])) timeout)
     (\<lambda>response. liftE (mcp_result name response))"

definition mcp_tool ::
  "'w hosted_env \<Rightarrow> workflow \<Rightarrow> string \<Rightarrow> dict \<Rightarrow> int \<Rightarrow> string option \<Rightarrow> ('w, json) hosted_action" where
  "mcp_tool env flow = mcp_call env flow ''tools/call''"

definition mcp_read :: "'w hosted_env \<Rightarrow> workflow \<Rightarrow> string \<Rightarrow> dict \<Rightarrow> ('w, json) hosted_action" where
  "mcp_read env flow name arguments = mcp_call env flow ''resources/read'' name arguments 10 None"

definition workspace_path :: "workflow \<Rightarrow> string \<Rightarrow> string" where
  "workspace_path flow rest = ''/workspaces/'' @ workspace flow @ rest"

text \<open>The idempotency key \<open>f"{workspace_id}:{title}:{suffix}"\<close>.\<close>

definition key_for :: "workflow \<Rightarrow> string \<Rightarrow> string \<Rightarrow> json" where
  "key_for flow title suffix = JStr (workspace flow @ '':'' @ title @ '':'' @ suffix)"

definition worker_headers :: "workflow \<Rightarrow> (string \<times> string) list" where
  "worker_headers flow = [(''Authorization'', worker_authorization flow)]"

section \<open>Readiness and networks\<close>

text \<open>\<open>_wait_ready\<close>: attempts with any exception are repeated.\<close>

fun wait_ready :: "'w hosted_env \<Rightarrow> workflow \<Rightarrow> int \<Rightarrow> nat \<Rightarrow> ('w, unit) hosted_action" where
  "wait_ready env flow timeout 0 = raise (Runtime ''cpk-server did not become ready'')"
| "wait_ready env flow timeout (Suc n) =
     bindA (tryA (bindA (hosted_http env flow ''GET'' ''/health/ready'' None False [] timeout) (\<lambda>v. ret (Some v)))
        (\<lambda>_. ret None))
     (\<lambda>ready. case ready of
        None \<Rightarrow> wait_ready env flow timeout n
      | Some v \<Rightarrow>
          if field v ''status'' = JStr ''ready'' then
            if field v ''runtime_interpreters'' \<noteq> JStr ''docker''
            then raise (Runtime ''cpk-server did not boot with Docker runtime'') else ret ()
          else wait_ready env flow timeout n)"

definition on_outside :: "('w, hosted_error, 'a) action \<Rightarrow> ('w, 'a) hosted_action" where
  "on_outside m st = (case m (outside st) of (r, w) \<Rightarrow> (r, st\<lparr>outside := w\<rparr>))"

definition WORKSPACE_LABEL :: string where
  "WORKSPACE_LABEL = ''org.openj92.cpk.workspace''"

definition KIND_LABEL :: string where
  "KIND_LABEL = ''org.openj92.cpk.kind''"

definition owned_runtime_networks :: "'w hosted_env \<Rightarrow> string \<Rightarrow> ('w, network list) hosted_action" where
  "owned_runtime_networks env workspace_id =
     bindA (on_outside (docker_networks (h_docker env)
       [WORKSPACE_LABEL @ ''='' @ workspace_id, KIND_LABEL @ ''=runtime-network'']))
     (\<lambda>ns. ret (filter (\<lambda>n. map_of (net_labels n) WORKSPACE_LABEL = Some workspace_id \<and>
                         map_of (net_labels n) KIND_LABEL = Some ''runtime-network'') ns))"

fun find_containers :: "'w hosted_env \<Rightarrow> string list \<Rightarrow> ('w, (string \<times> string) list) hosted_action" where
  "find_containers env [] = ret []"
| "find_containers env (c # cs) =
     bindA (on_outside (docker_container (h_docker env) c)) (\<lambda>found.
       case found of
         None \<Rightarrow> raise (Runtime ''runtime network attachment failed: required container was not found'')
       | Some i \<Rightarrow> bindA (find_containers env cs) (\<lambda>rest. ret ((c, i) # rest)))"

definition attachment_failed :: hosted_error where
  "attachment_failed = Runtime ''runtime network attachment failed for an owned network''"

text \<open>
  Connecting the containers that are not attached; \<open>attached\<close> is the set as last read, which is
  read again after a refused connection only.
\<close>

fun connect_containers ::
  "'w hosted_env \<Rightarrow> nat \<Rightarrow> string list \<Rightarrow> (string \<times> string) list \<Rightarrow> ('w, unit) hosted_action" where
  "connect_containers env n attached [] = ret ()"
| "connect_containers env n attached ((c, i) # cs) =
     (if i \<in> set attached then connect_containers env n attached cs
      else bindA (on_outside (docker_connect (h_docker env) n c)) (\<lambda>connected.
        if connected then connect_containers env n attached cs
        else bindA (on_outside (docker_attached (h_docker env) n)) (\<lambda>now.
          if i \<notin> set now then raise attachment_failed
          else connect_containers env n now cs)))"

fun attach_networks ::
  "'w hosted_env \<Rightarrow> (string \<times> string) list \<Rightarrow> network list \<Rightarrow> ('w, unit) hosted_action" where
  "attach_networks env cs [] = ret ()"
| "attach_networks env cs (n # ns) =
     bindA (on_outside (docker_attached (h_docker env) (net_ref n))) (\<lambda>attached.
     thenA (connect_containers env (net_ref n) attached cs)
     (bindA (on_outside (docker_attached (h_docker env) (net_ref n))) (\<lambda>now.
        if list_ex (\<lambda>(_, i). i \<notin> set now) cs then raise attachment_failed
        else attach_networks env cs ns)))"

definition sync_runtime_networks :: "'w hosted_env \<Rightarrow> workflow \<Rightarrow> bool \<Rightarrow> ('w, unit) hosted_action" where
  "sync_runtime_networks env flow required =
     bindA (owned_runtime_networks env (workspace flow)) (\<lambda>networks.
       if required \<and> networks = [] then raise (Runtime ''owned runtime network was not found'')
       else bindA (find_containers env [server_container flow, h_hostname env]) (\<lambda>cs.
         attach_networks env cs networks))"

section \<open>Operations\<close>

definition create_workspace :: "'w hosted_env \<Rightarrow> workflow \<Rightarrow> string \<Rightarrow> string \<Rightarrow> ('w, string) hosted_action" where
  "create_workspace env flow name actor =
     bindA (http_post env flow ''/workspaces''
       [(''workspace_id'', JStr (workspace flow)), (''name'', JStr name), (''actor_id'', JStr actor),
        (''idempotency_key'', JStr (workspace flow @ '':workspace''))] [])
     (\<lambda>v. liftE (bindE (subscript v ''workspace'') (\<lambda>w. text_at env w ''current_graph_id'')))"

definition start_session :: "'w hosted_env \<Rightarrow> workflow \<Rightarrow> string \<Rightarrow> ('w, string) hosted_action" where
  "start_session env flow title =
     bindA (http_post env flow (workspace_path flow ''/sessions'')
       [(''actor_id'', JStr ''operator-a''), (''title'', JStr title),
        (''idempotency_key'', key_for flow title ''session'')] [])
     (\<lambda>v. liftE (text_at env v ''session_id''))"

definition hosted_read_workspace :: "'w hosted_env \<Rightarrow> workflow \<Rightarrow> ('w, json) hosted_action" where
  "hosted_read_workspace env flow =
     mcp_read env flow ''read.workspace'' [(''workspace_id'', JStr (workspace flow))]"

text \<open>The lineage of the desired graph before authoring.\<close>

definition check_lineage :: "json \<Rightarrow> json \<Rightarrow> json \<Rightarrow> json \<Rightarrow> hosted_error + unit" where
  "check_lineage expected observed projection revision =
     (if observed \<noteq> expected then Inl (Runtime ''desired graph changed before authoring'')
      else if observed = JNull then
        raise_if (projection \<noteq> JNull \<or> \<not> py_eq revision (JInt 0))
          (Runtime ''unassigned desired graph has inconsistent projection lineage'')
      else
        raise_if
          (\<not> (case observed of JStr s \<Rightarrow> s \<noteq> [] | _ \<Rightarrow> False) \<or>
           \<not> (case projection of JStr s \<Rightarrow> s \<noteq> [] | _ \<Rightarrow> False) \<or>
           \<not> (case revision of JInt i \<Rightarrow> 1 \<le> i | _ \<Rightarrow> False))
          (Runtime ''assigned desired graph has invalid projection lineage''))"

definition set_desired_graph ::
  "'w hosted_env \<Rightarrow> workflow \<Rightarrow> string \<Rightarrow> json \<Rightarrow> string \<Rightarrow> string option \<Rightarrow> ('w, string) hosted_action" where
  "set_desired_graph env flow session graph title expected =
     bindA (hosted_read_workspace env flow) (\<lambda>readback.
       let ws = field readback ''workspace'';
           expected' = (case expected of None \<Rightarrow> JNull | Some s \<Rightarrow> JStr s) in
       if \<not> is_dict ws then raise (Runtime ''workspace readback omitted workspace summary'')
       else
         thenA (liftE (check_lineage expected' (field ws ''desired_graph_id'')
                  (field ws ''desired_realized_projection_id'') (field ws ''desired_graph_revision'')))
         (bindA (http_post env flow (workspace_path flow ''/graphs/desired'')
            [(''session_id'', JStr session), (''actor_id'', JStr ''operator-a''), (''graph'', graph),
             (''expected_desired_graph_id'', expected'),
             (''expected_desired_realized_projection_id'', field ws ''desired_realized_projection_id''),
             (''expected_desired_graph_revision'', field ws ''desired_graph_revision''),
             (''idempotency_key'', key_for flow title ''desired'')] [])
         (\<lambda>desired.
            bindA (liftE (text_at env desired ''desired_graph_id'')) (\<lambda>graph_id.
            bindA (liftE (text_at env desired ''desired_realized_projection_id'')) (\<lambda>projection.
            bindA (liftE (bindE (subscript desired ''desired_graph_revision'') (int_of env))) (\<lambda>revision.
            thenA (modA (\<lambda>st. st\<lparr>desired_coordinates :=
                     AList.update graph_id (projection, revision) (desired_coordinates st)\<rparr>))
              (ret graph_id)))))))"

definition plan_transition ::
  "'w hosted_env \<Rightarrow> workflow \<Rightarrow> string \<Rightarrow> string \<Rightarrow> string \<Rightarrow> string \<Rightarrow> ('w, string) hosted_action" where
  "plan_transition env flow session title current_graph desired_graph =
     bindA (http_get env flow (workspace_path flow ''/graphs/current'')) (\<lambda>current.
       if field current ''graph_id'' \<noteq> JStr current_graph
       then raise (Runtime ''current graph changed before planning'')
       else
         bindA (liftE (text_at env current ''realized_projection_id'')) (\<lambda>current_projection.
         bindA (getA desired_coordinates) (\<lambda>known.
           case map_of known desired_graph of
             None \<Rightarrow> raise Key_error
           | Some (desired_projection, revision) \<Rightarrow>
               bindA (mcp_tool env flow ''command.deployment.plan''
                 [(''workspace_id'', JStr (workspace flow)), (''session_id'', JStr session),
                  (''actor_id'', JStr ''operator-a''),
                  (''expected_current_graph_id'', JStr current_graph),
                  (''expected_desired_graph_id'', JStr desired_graph),
                  (''expected_current_realized_projection_id'', JStr current_projection),
                  (''expected_desired_realized_projection_id'', JStr desired_projection),
                  (''expected_desired_graph_revision'', JInt revision),
                  (''idempotency_key'', key_for flow title ''plan'')] 10 None)
               (\<lambda>planned.
                  if \<not> truth (field planned ''ready_for_execution'')
                  then raise (Runtime ''plan was not approval-ready'')
                  else
                    bindA (liftE (text_at env planned ''plan_id'')) (\<lambda>plan_id.
                    bindA (liftE (text_at env planned ''base_realized_projection_id'')) (\<lambda>base.
                    bindA (liftE (text_at env planned ''desired_realized_projection_id'')) (\<lambda>target.
                    bindA (liftE (bindE (subscript planned ''desired_graph_revision'') (int_of env))) (\<lambda>rev'.
                    thenA (modA (\<lambda>st. st\<lparr>plan_coordinates :=
                             AList.update plan_id (base, target, rev') (plan_coordinates st)\<rparr>))
                      (ret plan_id)))))))))"

definition request_approval ::
  "'w hosted_env \<Rightarrow> workflow \<Rightarrow> string \<Rightarrow> string \<Rightarrow> string \<Rightarrow> ('w, json) hosted_action" where
  "request_approval env flow session title plan_id =
     http_post env flow (workspace_path flow (''/plans/'' @ plan_id @ ''/approval''))
       [(''session_id'', JStr session), (''actor_id'', JStr ''operator-a''),
        (''actor_scopes'', JArr [JStr (plan_request_scope env)]),
        (''idempotency_key'', key_for flow title ''approval-request'')] []"

text \<open>Iterating a value, and the set of its items' \<open>request_id\<close>s.\<close>

definition iterate :: "json \<Rightarrow> hosted_error + json list" where
  "iterate v =
     (case v of
        JArr xs \<Rightarrow> Inr xs
      | JObj d \<Rightarrow> Inr (map JStr (keys d))
      | JStr s \<Rightarrow> Inr (map JStr (chars_of s))
      | _ \<Rightarrow> Inl Type_error)"

definition hashable :: "json \<Rightarrow> bool" where
  "hashable v \<longleftrightarrow> \<not> is_list v \<and> \<not> is_dict v"

definition request_ids :: "json \<Rightarrow> hosted_error + json list" where
  "request_ids pending =
     bindE (subscript pending ''items'') (\<lambda>items.
     bindE (iterate items) (\<lambda>xs.
     mapE (\<lambda>x. bindE (subscript x ''request_id'') (\<lambda>i. if hashable i then Inr i else Inl Type_error)) xs))"

definition assert_approval_visible ::
  "'w hosted_env \<Rightarrow> workflow \<Rightarrow> string \<Rightarrow> string \<Rightarrow> ('w, unit) hosted_action" where
  "assert_approval_visible env flow approval_id plan_id =
     bindA (mcp_read env flow ''read.pending-approvals''
       [(''workspace_id'', JStr (workspace flow)), (''limit'', JInt 10)]) (\<lambda>pending.
     bindA (liftE (request_ids pending)) (\<lambda>ids.
       if JStr approval_id \<notin> set ids
       then raise (Runtime ''approval request was not visible in pending queue'')
       else
         bindA (mcp_read env flow ''read.approval-detail''
           [(''workspace_id'', JStr (workspace flow)), (''approval_id'', JStr approval_id)]) (\<lambda>detail.
         bindA (liftE (bindE (subscript detail ''plan'') (\<lambda>p. subscript p ''plan_id''))) (\<lambda>shown.
           if shown \<noteq> JStr plan_id
           then raise (Runtime ''approval detail did not expose the planned transition'')
           else ret ()))))"

definition approve :: "'w hosted_env \<Rightarrow> workflow \<Rightarrow> string \<Rightarrow> string \<Rightarrow> json \<Rightarrow> ('w, unit) hosted_action" where
  "approve env flow session title approval =
     bindA (liftE (text_at env approval ''request_id'')) (\<lambda>request_id.
     bindA (liftE (subscript approval ''required_scope'')) (\<lambda>scope.
     thenA (mcp_tool env flow ''command.approval.decide''
       [(''workspace_id'', JStr (workspace flow)), (''session_id'', JStr session),
        (''request_id'', JStr request_id), (''actor_id'', JStr ''manager-a''),
        (''actor_scopes'', JArr [scope]), (''decision'', JStr ''approved''),
        (''idempotency_key'', key_for flow title ''approval-decision'')] 10 None) (ret ())))"

definition admit ::
  "'w hosted_env \<Rightarrow> workflow \<Rightarrow> string \<Rightarrow> string \<Rightarrow> string \<Rightarrow> string \<Rightarrow> ('w, string) hosted_action" where
  "admit env flow session title plan_id approval_id =
     bindA (http_post env flow (workspace_path flow (''/plans/'' @ plan_id @ ''/admission''))
       [(''session_id'', JStr session), (''approval_request_id'', JStr approval_id),
        (''actor_id'', JStr ''operator-a''), (''actor_scopes'', JArr [JStr (plan_execute_scope env)]),
        (''idempotency_key'', key_for flow title ''admit''), (''readiness'', JArr [])] [])
     (\<lambda>v. liftE (text_at env v ''execution_request_id''))"

definition run_path :: "workflow \<Rightarrow> string \<Rightarrow> string \<Rightarrow> string" where
  "run_path flow run suffix = workspace_path flow (''/runs/'' @ run @ suffix)"

definition claim :: "'w hosted_env \<Rightarrow> workflow \<Rightarrow> string \<Rightarrow> string \<Rightarrow> ('w, claimed_run) hosted_action" where
  "claim env flow title request_id =
     bindA (http_post env flow (run_path flow request_id ''/claim'')
       [(''worker_id'', JStr (worker flow)),
        (''actor_scopes'', JArr [JStr (execution_operate_scope env)]),
        (''lease_duration_seconds'', JInt 600), (''idempotency_key'', key_for flow title ''claim'')]
       (worker_headers flow))
     (\<lambda>v. liftE (claimed_run_from_result v request_id))"

definition start_run :: "'w hosted_env \<Rightarrow> workflow \<Rightarrow> string \<Rightarrow> claimed_run \<Rightarrow> ('w, unit) hosted_action" where
  "start_run env flow title c =
     bindA (http_post env flow (run_path flow (run_id c) ''/start'')
       [(''worker_id'', JStr (worker flow)),
        (''actor_scopes'', JArr [JStr (execution_operate_scope env)]),
        (''claim_generation'', JInt (claim_generation c)),
        (''idempotency_key'', key_for flow title ''start'')]
       (worker_headers flow))
     (\<lambda>v. liftE (validate_start_result v c))"

definition MAX_ATTEMPTS :: nat where
  "MAX_ATTEMPTS = 80"

definition STOPPED_STATUSES :: "string list" where
  "STOPPED_STATUSES = [''failed'', ''unsupported'', ''uncertain'', ''blocked'']"

definition execute_arguments :: "'w hosted_env \<Rightarrow> workflow \<Rightarrow> claimed_run \<Rightarrow> nat \<Rightarrow> dict" where
  "execute_arguments env flow c attempt =
     [(''workspace_id'', JStr (workspace flow)), (''run_id'', JStr (run_id c)),
      (''worker_id'', JStr (worker flow)),
      (''actor_scopes'', JArr [JStr (execution_operate_scope env)]),
      (''idempotency_key'', JStr (workspace flow @ '':execute:'' @ nat_text attempt)),
      (''claim_generation'', JInt (claim_generation c)), (''max_effects'', JInt 1)]"

text \<open>The loop over \<open>range(80)\<close>: \<open>n\<close> attempts are left.\<close>

fun execute_attempts :: "'w hosted_env \<Rightarrow> workflow \<Rightarrow> claimed_run \<Rightarrow> bool \<Rightarrow> nat \<Rightarrow> ('w, unit) hosted_action" where
  "execute_attempts env flow c sync 0 = raise (Runtime ''hosted activity execution did not complete'')"
| "execute_attempts env flow c sync (Suc n) =
     thenA (if sync then sync_runtime_networks env flow False else ret ())
     (bindA (tryA (mcp_tool env flow ''command.deployment.execute''
          (execute_arguments env flow c (MAX_ATTEMPTS - Suc n)) 60 (Some (worker_authorization flow)))
        (\<lambda>_. raise (Runtime ''deployment execution failed'')))
     (\<lambda>result.
        bindA (liftE (validate_execute_result result c)) (\<lambda>status.
        thenA (if sync then sync_runtime_networks env flow (status = ''completed'') else ret ())
          (if status = ''completed'' then ret ()
           else if status \<in> set STOPPED_STATUSES then raise (Runtime ''deployment execution stopped'')
           else execute_attempts env flow c sync n))))"

definition execute_to_completion ::
  "'w hosted_env \<Rightarrow> workflow \<Rightarrow> claimed_run \<Rightarrow> bool \<Rightarrow> ('w, unit) hosted_action" where
  "execute_to_completion env flow c sync = execute_attempts env flow c sync MAX_ATTEMPTS"

definition advance_current_graph ::
  "'w hosted_env \<Rightarrow> workflow \<Rightarrow> string \<Rightarrow> claimed_run \<Rightarrow> string \<Rightarrow> string \<Rightarrow> string \<Rightarrow> ('w, string) hosted_action" where
  "advance_current_graph env flow title c plan_id current_graph desired_graph =
     bindA (getA plan_coordinates) (\<lambda>known.
       case map_of known plan_id of
         None \<Rightarrow> raise Key_error
       | Some (current_projection, desired_projection, revision) \<Rightarrow>
           bindA (http_post env flow (run_path flow (run_id c) ''/advance-current-graph'')
             [(''plan_id'', JStr plan_id), (''expected_current_graph_id'', JStr current_graph),
              (''expected_current_realized_projection_id'', JStr current_projection),
              (''desired_graph_id'', JStr desired_graph),
              (''desired_realized_projection_id'', JStr desired_projection),
              (''expected_desired_graph_revision'', JInt revision),
              (''claim_generation'', JInt (claim_generation c)),
              (''worker_id'', JStr (worker flow)),
              (''actor_scopes'', JArr [JStr (execution_operate_scope env)]),
              (''idempotency_key'', key_for flow title ''advance'')]
             (worker_headers flow))
           (\<lambda>v. thenA (liftE (validate_advance_result v (workspace flow) c plan_id current_graph
                    current_projection desired_graph desired_projection revision))
             (ret desired_graph)))"

definition read_current_graph_id :: "'w hosted_env \<Rightarrow> workflow \<Rightarrow> ('w, string) hosted_action" where
  "read_current_graph_id env flow =
     bindA (http_get env flow (workspace_path flow ''/graphs/current''))
       (\<lambda>v. liftE (text_at env v ''graph_id''))"

definition read_plan_detail :: "'w hosted_env \<Rightarrow> workflow \<Rightarrow> string \<Rightarrow> ('w, json) hosted_action" where
  "read_plan_detail env flow plan_id =
     bindA (tryA
       (bindA (http_get env flow (workspace_path flow (''/plans/'' @ plan_id))) (\<lambda>h.
        bindA (mcp_call env flow ''resources/read'' ''read.plan-detail''
          [(''workspace_id'', JStr (workspace flow)), (''plan_id'', JStr plan_id)] 10 (Some AUTHORIZATION))
        (\<lambda>m. ret (h, m))))
       (\<lambda>_. raise (Runtime ''plan detail read failed'')))
     (\<lambda>(h, m).
        if \<not> py_eq h m then raise (Runtime ''plan detail is invalid'')
        else bindA (liftE (valid_plan_detail (h_float env) (h_digits env) h (workspace flow) plan_id)) (\<lambda>ok.
          if ok then ret h else raise (Runtime ''plan detail is invalid'')))"

definition read_run_events ::
  "'w hosted_env \<Rightarrow> workflow \<Rightarrow> string \<Rightarrow> int \<Rightarrow> dict option \<Rightarrow> ('w, json list) hosted_action" where
  "read_run_events env flow run limit after =
     (if \<not> (1 \<le> limit \<and> limit \<le> 100) then raise (Runtime ''run event limit is invalid'')
      else if (case after of None \<Rightarrow> False | Some d \<Rightarrow> \<not> hosted_bounded_json (h_float env) 65536 (JObj d))
      then raise (Runtime ''run event cursor is invalid'')
      else
        let path = run_path flow run (''/events?limit='' @ int_text limit) @
              (case after of
                 None \<Rightarrow> []
               | Some d \<Rightarrow> ''&after='' @ quote (dump (h_float env) (canon (JObj d))));
            arguments =
              [(''workspace_id'', JStr (workspace flow)), (''run_id'', JStr run), (''limit'', JInt limit)] @
              (case after of None \<Rightarrow> [] | Some d \<Rightarrow> [(''after'', JObj d)]) in
        bindA (tryA
          (bindA (http_get env flow path) (\<lambda>h.
           bindA (mcp_call env flow ''resources/read'' ''read.run-events'' arguments 10 (Some AUTHORIZATION))
           (\<lambda>m. ret (h, m))))
          (\<lambda>_. raise (Runtime ''run event read failed'')))
        (\<lambda>(h, m).
           case validate_run_event_page (h_float env) (h_digits env) h (workspace flow) run limit of
             None \<Rightarrow> raise (Runtime ''run events are invalid'')
           | Some events \<Rightarrow>
               if py_eq h m then ret events else raise (Runtime ''run events are invalid'')))"

section \<open>The approved transition\<close>

record transition_result =
  tr_current_graph_id :: string
  tr_desired_graph_id :: string
  tr_plan_id :: string
  tr_approval_id :: string
  tr_run_id :: string

definition finish_transition ::
  "'w hosted_env \<Rightarrow> workflow \<Rightarrow> string \<Rightarrow> claimed_run \<Rightarrow> string \<Rightarrow> string \<Rightarrow> string \<Rightarrow> string \<Rightarrow>
   ('w, transition_result) hosted_action" where
  "finish_transition env flow title c plan_id approval_id current_graph desired_graph =
     bindA (advance_current_graph env flow title c plan_id current_graph desired_graph) (\<lambda>advanced.
       if advanced \<noteq> desired_graph then raise (Runtime ''current graph did not advance'')
       else
         bindA (read_current_graph_id env flow) (\<lambda>readback.
           if readback \<noteq> desired_graph then raise (Runtime ''current graph readback mismatch'')
           else ret \<lparr>tr_current_graph_id = advanced, tr_desired_graph_id = desired_graph,
                     tr_plan_id = plan_id, tr_approval_id = approval_id, tr_run_id = run_id c\<rparr>))"

definition run_approved_transition ::
  "'w hosted_env \<Rightarrow> workflow \<Rightarrow> string \<Rightarrow> json \<Rightarrow> string \<Rightarrow> string option \<Rightarrow> bool \<Rightarrow>
   ('w, transition_result) hosted_action" where
  "run_approved_transition env flow title graph current_graph expected sync =
     bindA (start_session env flow title) (\<lambda>session.
     bindA (set_desired_graph env flow session graph title expected) (\<lambda>desired_graph.
     bindA (plan_transition env flow session title current_graph desired_graph) (\<lambda>plan_id.
     bindA (request_approval env flow session title plan_id) (\<lambda>approval.
     bindA (liftE (text_at env approval ''request_id'')) (\<lambda>approval_id.
     thenA (assert_approval_visible env flow approval_id plan_id)
     (thenA (approve env flow session title approval)
     (bindA (admit env flow session title plan_id approval_id) (\<lambda>request_id.
      bindA (claim env flow title request_id) (\<lambda>c.
      thenA (start_run env flow title c)
      (thenA (execute_to_completion env flow c sync)
        (finish_transition env flow title c plan_id approval_id current_graph desired_graph)))))))))))"

section \<open>Evidence in the timeline\<close>

text \<open>The events have been checked: their payloads are dictionaries.\<close>

definition records_step :: "string \<Rightarrow> string \<Rightarrow> json \<Rightarrow> bool" where
  "records_step key subject e \<longleftrightarrow>
     field (field e ''payload'') key = JStr subject \<and> field e ''event_type'' = JStr ''step_succeeded''"

definition assert_activity_mentions ::
  "'w hosted_env \<Rightarrow> workflow \<Rightarrow> string \<Rightarrow> string \<Rightarrow> ('w, unit) hosted_action" where
  "assert_activity_mentions env flow run node =
     bindA (read_run_events env flow run 100 None) (\<lambda>events.
       if list_ex (records_step ''node_id'' node) events then ret ()
       else raise (Runtime ''activity timeline did not record successful step''))"

definition assert_runtime_activity_mentions ::
  "'w hosted_env \<Rightarrow> workflow \<Rightarrow> string \<Rightarrow> string \<Rightarrow> ('w, unit) hosted_action" where
  "assert_runtime_activity_mentions env flow run runtime =
     bindA (read_run_events env flow run 100 None) (\<lambda>events.
       if list_ex (records_step ''runtime_id'' runtime) events then ret ()
       else raise (Runtime ''activity timeline did not record successful runtime step''))"

end
