(* ===== verification/IngressEvidence.thy ===== *)
theory IngressEvidence
  imports AbortCompensation HostedTransition
begin

text \<open>
  The evidence the secret-provider acceptance script reads from the operations database
  (\<open>scripts/cpk_server_secret_provider_source_live.py\<close>): the rows of the owned ingress resources, of
  the run that created a connector, and of the allocation epochs, each decoded by a function that
  refuses whatever it cannot account for exactly.

  A row is the list of the values psycopg returns: text, integers, \<open>None\<close> and decoded \<open>jsonb\<close>
  documents.  The joins the queries make are the database's; the columns the code cuts short in the
  query (\<open>left(column, n)\<close>) are modelled.
\<close>

section \<open>The connector of a failed run\<close>

definition effect_pattern :: "string \<Rightarrow> bool" where
  "effect_pattern s =
     (case s of
        [] \<Rightarrow> False
      | c # cs \<Rightarrow> ascii_alnum c \<and> length cs \<le> 255 \<and>
          list_all (\<lambda>d. ascii_alnum d \<or> d \<in> set ''._:-'') cs)"

record failed_effect =
  fe_workspace_id :: string
  fe_run_id :: string
  fe_plan_id :: string
  fe_desired_graph_id :: string
  fe_activity_id :: string
  fe_runtime_id :: string
  fe_node_id :: string
  fe_container_name :: string

definition effect_uncertain :: hosted_error where
  "effect_uncertain = Runtime ''failed connector evidence is uncertain''"

definition effect_text :: "json \<Rightarrow> hosted_error + string" where
  "effect_text v =
     (case v of JStr s \<Rightarrow> if effect_pattern s then Inr s else Inl effect_uncertain
      | _ \<Rightarrow> Inl effect_uncertain)"

text \<open>\<open>ExactFailedDockerNodeEffect(...)\<close>: \<open>__post_init__\<close> checks the eight fields in order.\<close>

definition make_effect ::
  "json \<Rightarrow> json \<Rightarrow> json \<Rightarrow> json \<Rightarrow> json \<Rightarrow> json \<Rightarrow> json \<Rightarrow> json \<Rightarrow> hosted_error + failed_effect" where
  "make_effect workspace_id run plan graph activity runtime node container =
     bindE (effect_text workspace_id) (\<lambda>w.
     bindE (effect_text run) (\<lambda>r.
     bindE (effect_text plan) (\<lambda>p.
     bindE (effect_text graph) (\<lambda>g.
     bindE (effect_text activity) (\<lambda>a.
     bindE (effect_text runtime) (\<lambda>t.
     bindE (effect_text node) (\<lambda>n.
     bindE (effect_text container) (\<lambda>c.
     Inr \<lparr>fe_workspace_id = w, fe_run_id = r, fe_plan_id = p, fe_desired_graph_id = g,
          fe_activity_id = a, fe_runtime_id = t, fe_node_id = n, fe_container_name = c\<rparr>))))))))"

definition expected_labels :: "failed_effect \<Rightarrow> (string \<times> string) list" where
  "expected_labels e =
     [(''org.openj92.cpk.kind'', ''container''), (''org.openj92.cpk.workspace'', fe_workspace_id e),
      (''org.openj92.cpk.runtime'', fe_runtime_id e), (''org.openj92.cpk.node'', fe_node_id e),
      (''org.openj92.cpk.plan'', fe_plan_id e),
      (''org.openj92.cpk.desired-graph'', fe_desired_graph_id e)]"

definition bounded_descriptor :: "failed_effect \<Rightarrow> (string \<times> string) list" where
  "bounded_descriptor e =
     [(''workspace_id'', fe_workspace_id e), (''run_id'', fe_run_id e), (''plan_id'', fe_plan_id e),
      (''desired_graph_id'', fe_desired_graph_id e), (''activity_id'', fe_activity_id e),
      (''runtime_id'', fe_runtime_id e), (''node_id'', fe_node_id e),
      (''container_name'', fe_container_name e)]"

text \<open>
  The rows of one run agree on their first six columns.  The first row is compared with itself, which
  tuples decide by identity, so only the others are compared by value.
\<close>

definition same_identity :: "json list list \<Rightarrow> bool" where
  "same_identity rows \<longleftrightarrow> list_all (\<lambda>row. py_eq_list (take 6 row) (take 6 (hd rows))) (tl rows)"

definition starts_node :: "string \<Rightarrow> json \<Rightarrow> bool" where
  "starts_node node activity \<longleftrightarrow>
     (let operation = field activity ''operation''; target = field operation ''target'' in
      is_dict activity \<and> is_dict target \<and> field operation ''kind'' = JStr ''start-node'' \<and>
      field target ''kind'' = JStr ''node'' \<and> field target ''node_id'' = JStr node)"

definition event_of :: "json \<Rightarrow> json list \<Rightarrow> bool" where
  "event_of activity_id row \<longleftrightarrow>
     is_dict (row ! 6) \<and> py_eq (field (row ! 6) ''activity_id'') activity_id"

definition decode_failed_connector ::
  "string \<Rightarrow> string \<Rightarrow> string \<Rightarrow> json list list \<Rightarrow> hosted_error + failed_effect" where
  "decode_failed_connector workspace_id run node rows =
     (if rows = [] \<or> list_ex (\<lambda>row. length row \<noteq> 7) rows \<or> \<not> same_identity rows
      then Inl effect_uncertain
      else
        let row = hd rows; plan = row ! 5; activities = field plan ''activities'' in
        if row ! 0 \<noteq> JStr run \<or> row ! 1 \<noteq> JStr ''failed'' \<or> row ! 2 \<noteq> JStr workspace_id \<or>
           \<not> is_dict plan
        then Inl effect_uncertain
        else
          (case activities of
             JArr xs \<Rightarrow>
               (case filter (starts_node node) xs of
                  [activity] \<Rightarrow>
                    let activity_id = field activity ''activity_id'' in
                    (case filter (event_of activity_id) rows of
                       [event] \<Rightarrow>
                         let evidence = field (event ! 6) ''evidence'' in
                         if \<not> is_dict evidence \<or> field evidence ''node_id'' \<noteq> JStr node \<or>
                            \<not> has (members evidence) ''runtime_id'' \<or>
                            \<not> has (members evidence) ''container''
                         then Inl effect_uncertain
                         else make_effect (row ! 2) (row ! 0) (row ! 3) (row ! 4) activity_id
                                (field evidence ''runtime_id'') (field evidence ''node_id'')
                                (field evidence ''container'')
                     | _ \<Rightarrow> Inl effect_uncertain)
                | _ \<Rightarrow> Inl effect_uncertain)
           | _ \<Rightarrow> Inl effect_uncertain))"

definition run_uncertain :: hosted_error where
  "run_uncertain = Runtime ''connector run evidence is uncertain''"

text \<open>
  A run that succeeded has no failed connector (\<open>None\<close>), provided it accepted the graph of the
  checkpoint; a failed run must have exactly one.
\<close>

definition decode_connector_run ::
  "string \<Rightarrow> string \<Rightarrow> string \<Rightarrow> string \<Rightarrow> json list list \<Rightarrow> hosted_error + failed_effect option" where
  "decode_connector_run workspace_id run node accepted_graph rows =
     (if rows = [] \<or> list_ex (\<lambda>row. length row \<noteq> 7) rows \<or> \<not> same_identity rows
      then Inl run_uncertain
      else
        let row = hd rows in
        if row ! 1 = JStr ''succeeded'' then
          if row ! 0 \<noteq> JStr run \<or> row ! 2 \<noteq> JStr workspace_id \<or> row ! 4 \<noteq> JStr accepted_graph \<or>
             \<not> (case row ! 3 of JStr s \<Rightarrow> s \<noteq> [] | _ \<Rightarrow> False) \<or> \<not> is_dict (row ! 5)
          then Inl run_uncertain else Inr None
        else if row ! 1 \<noteq> JStr ''failed'' then Inl run_uncertain
        else bindE (decode_failed_connector workspace_id run node rows) (\<lambda>e. Inr (Some e)))"

section \<open>Owned ingress resources\<close>

text \<open>\<open>left(column, n)\<close> counts characters.\<close>

definition left_text :: "nat \<Rightarrow> json \<Rightarrow> json" where
  "left_text n v = (case v of JStr s \<Rightarrow> JStr (concat (take n (chars_of s))) | _ \<Rightarrow> v)"

text \<open>The bounds of the eleven columns the query selects; the epoch is not cut.\<close>

definition column_bounds :: "nat option list" where
  "column_bounds =
     [Some 256, Some 256, None, Some 256, Some 256, Some 256, Some 256, Some 256, Some 257, Some 256,
      Some 11]"

definition bounded_columns :: "json list \<Rightarrow> json list" where
  "bounded_columns row =
     map2 (\<lambda>b v. case b of None \<Rightarrow> v | Some n \<Rightarrow> left_text n v) column_bounds row"

text \<open>\<open>int\<close> on ASCII digits.\<close>

definition digits_number :: "string \<Rightarrow> int" where
  "digits_number s = int (fold (\<lambda>c n. 10 * n + (byte_of c - 48)) s 0)"

definition decode_version_number :: "string \<Rightarrow> int option" where
  "decode_version_number s =
     (case s of
        [] \<Rightarrow> None
      | c # cs \<Rightarrow>
          if digit_char c \<and> c \<noteq> CHR ''0'' \<and> length cs \<le> 9 \<and> list_all digit_char cs
          then if digits_number s \<le> 2147483647 then Some (digits_number s) else None
          else None)"

definition evidence_uncertain :: hosted_error where
  "evidence_uncertain = Runtime ''owned ingress evidence is uncertain''"

definition text_value :: "json \<Rightarrow> bool" where
  "text_value v = (case v of JStr _ \<Rightarrow> True | _ \<Rightarrow> False)"

definition is_int :: "json \<Rightarrow> bool" where
  "is_int v = (case v of JInt _ \<Rightarrow> True | _ \<Rightarrow> False)"

definition raw_of_row :: "json list \<Rightarrow> int \<Rightarrow> raw_resource" where
  "raw_of_row row number =
     \<lparr>raw_provider_kind = row ! 0, raw_ingress_id = row ! 1, raw_epoch = row ! 2,
      raw_coordinates = [(''tunnel_id'', row ! 3), (''dns_record_id'', row ! 4), (''hostname'', row ! 5),
        (''zone_id'', row ! 6)],
      raw_source_run_id = row ! 7, raw_secret_reference = row ! 8, raw_provider_version_id = row ! 9,
      raw_provider_version_number = JInt number\<rparr>"

definition well_typed_row :: "json list \<Rightarrow> bool" where
  "well_typed_row row \<longleftrightarrow>
     length row = 11 \<and> row ! 0 = JStr ''cloudflare'' \<and> is_int (row ! 2) \<and> text_value (row ! 10) \<and>
     list_all (\<lambda>i. text_value (row ! i)) [0, 1, 3, 4, 5, 6, 7, 8, 9]"

definition decode_owned_row :: "url_library \<Rightarrow> json list \<Rightarrow> hosted_error + owned_resource" where
  "decode_owned_row lib row =
     (case decode_version_number (case row ! 10 of JStr s \<Rightarrow> s | _ \<Rightarrow> []) of
        None \<Rightarrow> Inl evidence_uncertain
      | Some number \<Rightarrow>
          (case make_resource lib (raw_of_row row number) of
             Inl _ \<Rightarrow> Inl evidence_uncertain
           | Inr r \<Rightarrow> Inr r))"

text \<open>\<open>identities\<close> is the set of ingress identifiers and epochs seen so far.\<close>

fun decode_owned_rows ::
  "url_library \<Rightarrow> (json \<times> json) list \<Rightarrow> json list list \<Rightarrow> hosted_error + owned_resource list" where
  "decode_owned_rows lib seen [] = Inr []"
| "decode_owned_rows lib seen (row # rows) =
     (if \<not> well_typed_row row \<or> (row ! 1, row ! 2) \<in> set seen then Inl evidence_uncertain
      else bindE (decode_owned_row lib row) (\<lambda>r.
        bindE (decode_owned_rows lib ((row ! 1, row ! 2) # seen) rows) (\<lambda>rs. Inr (r # rs))))"

definition decode_owned_resources :: "url_library \<Rightarrow> json list list \<Rightarrow> hosted_error + owned_resource list" where
  "decode_owned_resources lib rows = decode_owned_rows lib [] rows"

section \<open>Allocation epochs\<close>

text \<open>\<open>_owned_cloudflare_epoch_evidence\<close>: epoch, status, tunnel, DNS record and token version.\<close>

type_synonym epoch_evidence = "int \<times> string \<times> string \<times> string \<times> string"

definition epoch_row :: "'w hosted_env \<Rightarrow> json list \<Rightarrow> hosted_error + epoch_evidence" where
  "epoch_row env row =
     bindE (int_of env (row ! 0)) (\<lambda>n.
       Inr (n, str_of env (row ! 1), str_of env (row ! 2), str_of env (row ! 3), str_of env (row ! 4)))"

definition assert_epoch_states :: "string list \<Rightarrow> epoch_evidence list \<Rightarrow> hosted_error + unit" where
  "assert_epoch_states expected rows =
     (if map (\<lambda>(n, _). n) rows \<noteq> map int [1..<length expected + 1]
      then Inl (Runtime ''owned ingress allocation epochs were not monotonic'')
      else if map (\<lambda>(_, s, _). s) rows \<noteq> expected
      then Inl (Runtime ''owned ingress lifecycle state did not match graph truth'')
      else if \<not> distinct (map (\<lambda>(_, _, t, _). t) rows)
      then Inl (Runtime ''public ingress recreation reused tunnel identity'')
      else if \<not> distinct (map (\<lambda>(_, _, _, _, v). v) rows)
      then Inl (Runtime ''public ingress recreation reused token version identity'')
      else raise_if (\<not> distinct (map (\<lambda>(_, _, _, d, _). d) rows))
             (Runtime ''public ingress recreation reused DNS identity''))"

end
