(* ===== verification/HostedSetup.thy ===== *)
theory HostedSetup
  imports HostedTransition
begin

text \<open>
  The operations of \<open>HostedWorkflow\<close> around the transition
  (\<open>scripts/cpk_server_hosted_activity.py\<close>): importing products, registering authorities, admitting
  the gateway's delegation key, requesting and reading gateway probes, and the checks made of them.

  Parameters besides those of the workflow: the scope names of control_plane_kit_core (\<open>scope\<close>, by the
  name of the enumeration member), SHA-256 and the process environment.
\<close>

section \<open>Environment and clock\<close>

definition LOCAL_DOCKER_AUTHORITY_REF :: string where
  "LOCAL_DOCKER_AUTHORITY_REF = ''local-docker''"

definition OPENJ92_INGRESS_AUTHORITY_REF :: string where
  "OPENJ92_INGRESS_AUTHORITY_REF = ''openj92-cloudflare''"

definition clock :: string where
  "clock = ''2026-07-22T10:00:00Z''"

definition required_env :: "(string \<times> string) list \<Rightarrow> string \<Rightarrow> hosted_error + string" where
  "required_env environment name =
     (case map_of environment name of
        None \<Rightarrow> Inl (Runtime (name @ '' is required''))
      | Some s \<Rightarrow> if s = [] then Inl (Runtime (name @ '' is required'')) else Inr s)"

section \<open>Products and authorities\<close>

definition discard :: "('w, 'a) hosted_action \<Rightarrow> ('w, unit) hosted_action" where
  "discard m = thenA m (ret ())"

text \<open>\<open>content\<close> is the product document: the bytes of a descriptor.\<close>

definition import_product :: "'w hosted_env \<Rightarrow> workflow \<Rightarrow> string \<Rightarrow> string \<Rightarrow> ('w, unit) hosted_action" where
  "import_product env flow label content =
     bindA (liftE (case utf8_decode content of
         None \<Rightarrow> Inl Value_error
       | Some s \<Rightarrow> (case h_loads env s of None \<Rightarrow> Inl Value_error | Some v \<Rightarrow> Inr v))) (\<lambda>document.
     discard (http_post env flow (workspace_path flow ''/products/import'')
       [(''descriptor_document'', document), (''actor_id'', JStr ''operator-a''),
        (''imported_at'', JStr clock),
        (''idempotency_key'', JStr (workspace flow @ '':import:'' @ label))] []))"

definition register_ghcr_pull_authority :: "'w hosted_env \<Rightarrow> workflow \<Rightarrow> string \<Rightarrow> ('w, unit) hosted_action" where
  "register_ghcr_pull_authority env flow credential_reference =
     discard (http_post env flow (workspace_path flow ''/image-pull-authorities'')
       [(''registry'', JStr ''ghcr.io''), (''repository'', JStr ''openj92/control-plane-kit-servers''),
        (''credential_reference'', JStr credential_reference), (''actor_id'', JStr ''operator-a''),
        (''admitted_at'', JStr clock),
        (''idempotency_key'', JStr (workspace flow @ '':pull-authority:ghcr''))] [])"

definition register_pull_authority_from_docker_config :: "'w hosted_env \<Rightarrow> workflow \<Rightarrow> ('w, unit) hosted_action" where
  "register_pull_authority_from_docker_config env flow =
     register_ghcr_pull_authority env flow ''secret://docker-config/ghcr.io''"

definition register_local_docker_authority ::
  "'w hosted_env \<Rightarrow> workflow \<Rightarrow> (string \<Rightarrow> string) \<Rightarrow> ('w, unit) hosted_action" where
  "register_local_docker_authority env flow scope =
     discard (mcp_tool env flow ''command.runtime-authority.register''
       [(''workspace_id'', JStr (workspace flow)), (''authority_ref'', JStr LOCAL_DOCKER_AUTHORITY_REF),
        (''runtime_kind'', JStr ''docker''),
        (''authority'', JObj [(''kind'', JStr ''local-docker-socket'')]),
        (''actor_id'', JStr ''operator-a''),
        (''actor_scopes'', JArr [JStr (scope ''RUNTIME_AUTHORITY_REGISTER'')]),
        (''admitted_at'', JStr clock),
        (''idempotency_key'', JStr (workspace flow @ '':runtime-authority:local-docker''))] 10 None)"

definition register_local_docker_delivery ::
  "'w hosted_env \<Rightarrow> workflow \<Rightarrow> (string \<Rightarrow> string) \<Rightarrow> ('w, unit) hosted_action" where
  "register_local_docker_delivery env flow scope =
     discard (mcp_tool env flow ''command.runtime-authority-delivery.register''
       [(''workspace_id'', JStr (workspace flow)),
        (''delivery'', JObj
          [(''authority_ref'', JObj [(''reference_id'', JStr LOCAL_DOCKER_AUTHORITY_REF)]),
           (''delivery_kind'', JStr ''local-docker-socket-mount''), (''secret_references'', JArr [])]),
        (''actor_id'', JStr ''operator-a''),
        (''actor_scopes'', JArr [JStr (scope ''RUNTIME_AUTHORITY_DELIVERY_REGISTER'')]),
        (''admitted_at'', JStr clock),
        (''idempotency_key'', JStr (workspace flow @ '':runtime-authority-delivery:local-docker''))] 10 None)"

text \<open>Registering an ingress authority and reading it back, as both registrations do.\<close>

definition register_ingress ::
  "'w hosted_env \<Rightarrow> workflow \<Rightarrow> (string \<Rightarrow> string) \<Rightarrow> dict \<Rightarrow> string \<Rightarrow> string \<Rightarrow> ('w, unit) hosted_action" where
  "register_ingress env flow scope authority key unreadable =
     thenA (mcp_tool env flow ''command.ingress-authority.register''
       [(''workspace_id'', JStr (workspace flow)), (''authority_ref'', JStr OPENJ92_INGRESS_AUTHORITY_REF),
        (''authority'', JObj authority), (''actor_id'', JStr ''operator-a''),
        (''actor_scopes'', JArr [JStr (scope ''INGRESS_AUTHORITY_REGISTER'')]),
        (''admitted_at'', JStr clock),
        (''idempotency_key'', JStr (workspace flow @ '':ingress-authority:'' @ key))] 10 None)
     (bindA (mcp_read env flow ''read.ingress-authority-detail''
       [(''workspace_id'', JStr (workspace flow)), (''authority_ref'', JStr OPENJ92_INGRESS_AUTHORITY_REF),
        (''actor_scopes'', JArr [JStr (scope ''INGRESS_AUTHORITY_READ'')])]) (\<lambda>detail.
     bindA (liftE (if has (members detail) ''ingress_authority''
         then get_attr (field detail ''ingress_authority'') ''authority_ref'' else Inr JNull)) (\<lambda>ref.
       if ref \<noteq> JStr OPENJ92_INGRESS_AUTHORITY_REF then raise (Runtime unreadable) else ret ())))"

definition register_cloudflare_ingress_authority ::
  "'w hosted_env \<Rightarrow> workflow \<Rightarrow> (string \<Rightarrow> string) \<Rightarrow> (string \<times> string) list \<Rightarrow> ('w, unit) hosted_action" where
  "register_cloudflare_ingress_authority env flow scope environment =
     bindA (liftE (required_env environment ''OPENJ92_CLOUDFLARE_ACCOUNT_ID'')) (\<lambda>account.
     bindA (liftE (required_env environment ''OPENJ92_CLOUDFLARE_ZONE_ID'')) (\<lambda>zone.
     register_ingress env flow scope
       [(''provider_kind'', JStr ''cloudflare''), (''account_id'', JStr account), (''zone_id'', JStr zone),
        (''zone_name'', JStr (get_or environment ''OPENJ92_CLOUDFLARE_ZONE'' ''openj92.dev'')),
        (''api_token_ref'', JStr ''secret://cloudflare/openj92/api-token''),
        (''allowed_hostname_pattern'', JStr ''cpk-gateway-*.openj92.dev'')]
       ''openj92-cloudflare'' ''registered ingress authority was not readable''))"

definition register_provider_backed_ingress_authority ::
  "'w hosted_env \<Rightarrow> workflow \<Rightarrow> (string \<Rightarrow> string) \<Rightarrow> (string \<times> string) list \<Rightarrow> string \<Rightarrow> string \<Rightarrow> string \<Rightarrow>
   string \<Rightarrow> ('w, unit) hosted_action" where
  "register_provider_backed_ingress_authority env flow scope environment token registration prefix hostnames =
     bindA (liftE (required_env environment ''OPENJ92_CLOUDFLARE_ACCOUNT_ID'')) (\<lambda>account.
     bindA (liftE (required_env environment ''OPENJ92_CLOUDFLARE_ZONE_ID'')) (\<lambda>zone.
     register_ingress env flow scope
       [(''provider_kind'', JStr ''cloudflare''), (''account_id'', JStr account), (''zone_id'', JStr zone),
        (''zone_name'', JStr (get_or environment ''OPENJ92_CLOUDFLARE_ZONE'' ''openj92.dev'')),
        (''api_token_ref'', JStr token), (''allowed_hostname_pattern'', JStr hostnames),
        (''generated_secret_provider_registration_id'', JStr registration),
        (''generated_secret_reference_prefix'', JStr prefix)]
       ''openj92-cloudflare-provider'' ''provider-backed ingress authority was not readable''))"

section \<open>The delegation key\<close>

record key_admission =
  ka_provider_id :: string
  ka_display_name :: string
  ka_endpoint_reference :: string
  ka_credential_reference :: string
  ka_private_key_reference :: string
  ka_issuer :: string
  ka_key_id :: string
  ka_public_key_pem :: string
  ka_admitted_at :: string
  ka_activated_at :: string
  ka_metadata :: dict

text \<open>\<open>s.replace("\r\n", "\n")\<close>, and the normalised key.\<close>

fun unix_lines :: "string \<Rightarrow> string" where
  "unix_lines (c # d # s) =
     (if c = CHR 0x0D \<and> d = CHR 0x0A then CHR 0x0A # unix_lines s else c # unix_lines (d # s))"
| "unix_lines s = s"

definition normalized_key :: "string \<Rightarrow> string" where
  "normalized_key pem = strip (unix_lines pem) @ [CHR 0x0A]"

definition key_matches :: "key_admission \<Rightarrow> json \<Rightarrow> bool" where
  "key_matches k item \<longleftrightarrow>
     is_dict item \<and> field item ''purpose'' = JStr ''gateway-probe'' \<and>
     field item ''issuer'' = JStr (ka_issuer k) \<and> field item ''key_id'' = JStr (ka_key_id k)"

definition expected_key :: "(string \<Rightarrow> string) \<Rightarrow> workflow \<Rightarrow> key_admission \<Rightarrow> (string \<times> string) list" where
  "expected_key sha flow k =
     [(''workspace_id'', workspace flow), (''purpose'', ''gateway-probe''), (''issuer'', ka_issuer k),
      (''key_id'', ka_key_id k), (''algorithm'', ''ed25519''),
      (''fingerprint_sha256'', sha (normalized_key (ka_public_key_pem k))),
      (''private_key_reference'', ka_private_key_reference k), (''status'', ''active'')]"

text \<open>The check of the keys read back; a key outside ASCII is \<open>UnicodeEncodeError\<close>.\<close>

definition active_key ::
  "(string \<Rightarrow> string) \<Rightarrow> workflow \<Rightarrow> key_admission \<Rightarrow> json \<Rightarrow> hosted_error + json" where
  "active_key sha flow k readback =
     (case field readback ''items'' of
        JArr items \<Rightarrow>
          (case filter (key_matches k) items of
             [active] \<Rightarrow>
               if \<not> is_ascii (normalized_key (ka_public_key_pem k)) then Inl Value_error
               else if list_ex (\<lambda>(f, v). field active f \<noteq> JStr v) (expected_key sha flow k)
               then Inl (Runtime ''delegation key readback did not match admitted truth'')
               else Inr active
           | _ \<Rightarrow> Inl (Runtime ''delegation key readback was not exact''))
      | _ \<Rightarrow> Inl (Runtime ''delegation key readback was malformed''))"

definition admit_gateway_delegation_key ::
  "'w hosted_env \<Rightarrow> workflow \<Rightarrow> (string \<Rightarrow> string) \<Rightarrow> key_admission \<Rightarrow> ('w, json) hosted_action" where
  "admit_gateway_delegation_key env flow sha k =
     bindA (http_post env flow (workspace_path flow ''/secret-providers'')
       [(''provider_id'', JStr (ka_provider_id k)), (''provider_kind'', JStr ''control-plane-kit-secrets''),
        (''display_name'', JStr (ka_display_name k)),
        (''endpoint_reference'', JStr (ka_endpoint_reference k)),
        (''credential_reference'', JStr (ka_credential_reference k)),
        (''allowed_reference_prefixes'', JArr [JStr (ka_private_key_reference k)]),
        (''allowed_intents'', JArr [JStr ''gateway.probe-signing-key'']),
        (''admitted_at'', JStr (ka_admitted_at k)), (''metadata'', JObj (ka_metadata k)),
        (''idempotency_key'', key_for flow ''secret-provider'' (ka_provider_id k @ '':gateway''))] [])
     (\<lambda>provider.
     bindA (liftE (text_at env provider ''registration_id'')) (\<lambda>registration.
     thenA (http_post env flow (workspace_path flow ''/secret-references'')
       [(''reference'', JStr (ka_private_key_reference k)),
        (''provider_registration_id'', JStr registration),
        (''allowed_intents'', JArr [JStr ''gateway.probe-signing-key'']),
        (''admitted_at'', JStr (ka_admitted_at k)), (''metadata'', JObj (ka_metadata k)),
        (''idempotency_key'', key_for flow ''secret-reference:gateway'' (ka_key_id k))] [])
     (thenA (http_post env flow (workspace_path flow ''/delegation-keys'')
       [(''purpose'', JStr ''gateway-probe''), (''issuer'', JStr (ka_issuer k)),
        (''key_id'', JStr (ka_key_id k)), (''algorithm'', JStr ''ed25519''),
        (''public_key_pem'', JStr (ka_public_key_pem k)),
        (''private_key_reference'', JStr (ka_private_key_reference k)),
        (''admitted_at'', JStr (ka_admitted_at k)),
        (''idempotency_key'', key_for flow ''delegation-key'' (ka_issuer k @ '':'' @ ka_key_id k))] [])
     (thenA (mcp_tool env flow ''command.delegation-key.activate''
       [(''workspace_id'', JStr (workspace flow)), (''purpose'', JStr ''gateway-probe''),
        (''issuer'', JStr (ka_issuer k)), (''key_id'', JStr (ka_key_id k)),
        (''activated_at'', JStr (ka_activated_at k)),
        (''idempotency_key'', key_for flow ''delegation-key''
           (ka_issuer k @ '':'' @ ka_key_id k @ '':activate''))] 10 None)
     (bindA (mcp_read env flow ''read.delegation-keys'' [(''workspace_id'', JStr (workspace flow))])
       (\<lambda>readback. liftE (active_key sha flow k readback)))))))"

section \<open>Gateway probes\<close>

record probe_order =
  po_request_id :: string
  po_graph_id :: string
  po_gateway_node :: string
  po_kind :: string
  po_target :: string
  po_path :: "string option"
  po_access_path :: string

definition optional_path :: "probe_order \<Rightarrow> dict" where
  "optional_path p = (case po_path p of None \<Rightarrow> [] | Some s \<Rightarrow> [(''path'', JStr s)])"

definition request_gateway_probe_http ::
  "'w hosted_env \<Rightarrow> workflow \<Rightarrow> (string \<Rightarrow> string) \<Rightarrow> probe_order \<Rightarrow> ('w, json) hosted_action" where
  "request_gateway_probe_http env flow scope p =
     http_post env flow (workspace_path flow (''/gateways/'' @ po_gateway_node p @ ''/probes''))
       ([(''request_id'', JStr (po_request_id p)), (''expected_current_graph_id'', JStr (po_graph_id p)),
         (''kind'', JStr (po_kind p)), (''target_id'', JStr (po_target p)),
         (''actor_id'', JStr ''operator-a''),
         (''actor_scopes'', JArr [JStr (scope ''GATEWAY_PROBE_USE'')]),
         (''access_path'', JStr (po_access_path p))] @ optional_path p) []"

definition request_gateway_probe_mcp ::
  "'w hosted_env \<Rightarrow> workflow \<Rightarrow> (string \<Rightarrow> string) \<Rightarrow> probe_order \<Rightarrow> ('w, json) hosted_action" where
  "request_gateway_probe_mcp env flow scope p =
     mcp_tool env flow ''command.gateway-probe.request''
       ([(''workspace_id'', JStr (workspace flow)), (''request_id'', JStr (po_request_id p)),
         (''expected_current_graph_id'', JStr (po_graph_id p)),
         (''gateway_node_id'', JStr (po_gateway_node p)), (''kind'', JStr (po_kind p)),
         (''target_id'', JStr (po_target p)), (''actor_id'', JStr ''operator-a''),
         (''actor_scopes'', JArr [JStr (scope ''GATEWAY_PROBE_USE'')]),
         (''access_path'', JStr (po_access_path p))] @ optional_path p) 10 None"

definition read_gateway_probe_detail :: "'w hosted_env \<Rightarrow> workflow \<Rightarrow> string \<Rightarrow> ('w, json) hosted_action" where
  "read_gateway_probe_detail env flow probe_id =
     mcp_read env flow ''read.gateway-probe-detail''
       [(''workspace_id'', JStr (workspace flow)), (''probe_id'', JStr probe_id)]"

definition read_activity :: "'w hosted_env \<Rightarrow> workflow \<Rightarrow> int \<Rightarrow> ('w, json) hosted_action" where
  "read_activity env flow limit =
     mcp_read env flow ''read.activity'' [(''workspace_id'', JStr (workspace flow)), (''limit'', JInt limit)]"

definition read_desired_graph :: "'w hosted_env \<Rightarrow> workflow \<Rightarrow> ('w, json) hosted_action" where
  "read_desired_graph env flow = http_get env flow (workspace_path flow ''/graphs/desired'')"

text \<open>\<open>json.dumps(response, sort_keys=True)\<close> separates with \<open>", "\<close> and \<open>": "\<close>.\<close>

fun spaced :: "(pyfloat \<Rightarrow> string) \<Rightarrow> json \<Rightarrow> string"
  and spaced_list :: "(pyfloat \<Rightarrow> string) \<Rightarrow> json list \<Rightarrow> string"
  and spaced_items :: "(pyfloat \<Rightarrow> string) \<Rightarrow> (string \<times> json) list \<Rightarrow> string"
where
  "spaced fr (JArr xs) = ''['' @ spaced_list fr xs @ '']''"
| "spaced fr (JObj xs) = ''{'' @ spaced_items fr xs @ ''}''"
| "spaced fr v = dump fr v"
| "spaced_list fr [] = ''''"
| "spaced_list fr [x] = spaced fr x"
| "spaced_list fr (x # y # xs) = spaced fr x @ '', '' @ spaced_list fr (y # xs)"
| "spaced_items fr [] = ''''"
| "spaced_items fr [(k, v)] = dump_string k @ '': '' @ spaced fr v"
| "spaced_items fr ((k, v) # p # xs) =
     dump_string k @ '': '' @ spaced fr v @ '', '' @ spaced_items fr (p # xs)"

definition FORBIDDEN :: "string list" where
  "FORBIDDEN = [''private key'', ''secret://'', ''password'']"

definition assert_gateway_probe_succeeded ::
  "(pyfloat \<Rightarrow> string) \<Rightarrow> json \<Rightarrow> string \<Rightarrow> hosted_error + unit" where
  "assert_gateway_probe_succeeded fr response target =
     (let probe = field response ''gateway_probe'' in
      if \<not> is_dict probe then Inl (Runtime ''gateway probe response did not include attempt'')
      else if field probe ''status'' \<noteq> JStr ''succeeded'' \<or> field probe ''target_id'' \<noteq> JStr target \<or>
              field probe ''result_code'' \<noteq> JStr ''probe-succeeded''
      then Inl (Runtime ''gateway probe did not succeed'')
      else raise_if (list_ex (\<lambda>m. contains m (lower (spaced fr (canon response)))) FORBIDDEN)
        (Runtime ''gateway probe response leaked secret-shaped material''))"

definition assert_gateway_probe_detail_matches ::
  "'w hosted_env \<Rightarrow> workflow \<Rightarrow> json \<Rightarrow> string \<Rightarrow> ('w, unit) hosted_action" where
  "assert_gateway_probe_detail_matches env flow response target =
     (let attempt = field response ''gateway_probe'' in
      if \<not> is_dict attempt then raise (Runtime ''gateway probe response did not include attempt'')
      else
        bindA (liftE (text_at env attempt ''probe_id'')) (\<lambda>probe_id.
        bindA (read_gateway_probe_detail env flow probe_id) (\<lambda>detail.
          let probe = field detail ''gateway_probe'' in
          if \<not> is_dict probe \<or> field probe ''target_id'' \<noteq> JStr target
          then raise (Runtime ''gateway probe detail mismatch'')
          else if \<not> py_eq (field probe ''request_digest'') (field attempt ''request_digest'')
          then raise (Runtime ''gateway probe detail lost request digest'')
          else ret ())))"

section \<open>Bootstrapping a workspace\<close>

fun import_products :: "'w hosted_env \<Rightarrow> workflow \<Rightarrow> (string \<times> string) list \<Rightarrow> ('w, unit) hosted_action" where
  "import_products env flow [] = ret ()"
| "import_products env flow ((label, content) # ds) =
     thenA (import_product env flow label content) (import_products env flow ds)"

definition bootstrap_workspace ::
  "'w hosted_env \<Rightarrow> workflow \<Rightarrow> (string \<Rightarrow> string) \<Rightarrow> (string \<times> string) list \<Rightarrow> string \<Rightarrow>
   (string \<times> string) list \<Rightarrow> bool \<Rightarrow> bool \<Rightarrow> ('w, string) hosted_action" where
  "bootstrap_workspace env flow scope environment name documents authority delivery =
     bindA (create_workspace env flow name ''operator-a'') (\<lambda>current_graph.
     thenA (if map_of environment ''CPK_HOSTED_ACTIVITY_REGISTER_PULL_AUTHORITY'' = Some ''docker-config''
            then register_pull_authority_from_docker_config env flow else ret ())
     (thenA (if authority then register_local_docker_authority env flow scope else ret ())
     (thenA (if delivery then register_local_docker_delivery env flow scope else ret ())
     (thenA (import_products env flow documents) (ret current_graph)))))"

section \<open>What an admitted key is\<close>

text \<open>
  A delegation key is returned only when it is the one key of the gateway purpose with this issuer and
  identifier, active in this workspace, with the fingerprint of the key that was admitted.
\<close>

lemma hosted_http_count:
  "hosted_http env flow meth path payload authorize extra timeout st = (r, st') \<Longrightarrow>
   length (exchanges st') = Suc (length (exchanges st))"
  by (auto simp: hosted_http_def exchange_def bindA_def action_simps Let_def split: prod.splits)

lemma bind_lift_count:
  assumes "bindA m (\<lambda>x. liftE (f x)) st = (r, st')"
    and "\<And>r st'. m st = (r, st') \<Longrightarrow> length (exchanges st') = Suc (length (exchanges st))"
  shows "length (exchanges st') = Suc (length (exchanges st))"
  using assms by (cases "m st") (auto simp: bindA_def action_simps split: sum.splits)

lemma mcp_call_count:
  "mcp_call env flow meth name arguments timeout authorization st = (r, st') \<Longrightarrow>
   length (exchanges st') = Suc (length (exchanges st))"
  unfolding mcp_call_def by (erule bind_lift_count) (erule hosted_http_count)

lemma bind_returns:
  assumes "bindA m k st = (Inr y, st')"
  obtains x st1 where "m st = (Inr x, st1)" and "k x st1 = (Inr y, st')"
  using assms by (auto simp: bindA_def split: prod.splits sum.splits)

lemma admitted_key_is_exact:
  assumes "admit_gateway_delegation_key env flow sha k st = (Inr active, st')"
  shows "\<forall>(f, v) \<in> set (expected_key sha flow k). field active f = JStr v"
    and "length (exchanges st') = length (exchanges st) + 5"
proof -
  have "\<exists>readback. active_key sha flow k readback = Inr active \<and>
      length (exchanges st') = length (exchanges st) + 5"
  proof -
    obtain provider registration x y z readback s1 s2 s3 s4 s5 where
      ops: "http_post env flow (workspace_path flow ''/secret-providers'') provider [] st = (Inr x, s1)"
      "http_post env flow (workspace_path flow ''/secret-references'') registration [] s1 = (Inr y, s2)"
      "\<exists>d. http_post env flow (workspace_path flow ''/delegation-keys'') d [] s2 = (Inr z, s3)"
      "\<exists>d u. mcp_tool env flow ''command.delegation-key.activate'' d 10 None s3 = (Inr u, s4)"
      "\<exists>d. mcp_read env flow ''read.delegation-keys'' d s4 = (Inr readback, s5)"
      and result: "liftE (active_key sha flow k readback) s5 = (Inr active, st')"
      using assms unfolding admit_gateway_delegation_key_def
      by (elim bind_returns) (simp only: action_simps prod.inject, blast)
    have "length (exchanges s5) = length (exchanges st) + 5"
      using ops unfolding http_post_def mcp_tool_def mcp_read_def
      by (auto dest!: hosted_http_count mcp_call_count)
    with result show ?thesis by (auto simp: action_simps)
  qed
  then obtain readback where "active_key sha flow k readback = Inr active"
    and "length (exchanges st') = length (exchanges st) + 5" by blast
  then show "\<forall>(f, v) \<in> set (expected_key sha flow k). field active f = JStr v"
    and "length (exchanges st') = length (exchanges st) + 5"
    by (auto simp: active_key_def list_ex_iff split: json.splits list.splits if_splits)
qed

end
