(* ===== verification/Custody.thy ===== *)
theory Custody
  imports IngressEvidence HostedSetup
begin

text \<open>
  The services the secret-provider acceptance script talks to
  (\<open>scripts/cpk_server_secret_provider_source_live.py\<close>): requests to the secret provider, reads of the
  Cloudflare API with the inventory built from them, and the Docker containers it looks at.

  The state holds the hosted workflow's state, the checkpoint disk, the lines printed and, in order,
  every call that changes something outside (\<open>effects\<close>).  What the services answer is a parameter
  that may depend on all that happened before; so are \<open>json.loads\<close> of text and of bytes (whose encoding
  it detects), SHA-256 and the text of floats.
  A \<open>RuntimeError\<close> is \<open>Other_exception\<close>: compensation does not tell exceptions apart.
\<close>

section \<open>State\<close>

record cloud_authority =
  ca_account_id :: string
  ca_zone_id :: string
  ca_zone_name :: string
  ca_hostname :: string
  ca_api_token_ref :: string

datatype custody_effect =
    Provider_call hosted_request
  | Stop_container string
  | Remove_container string
  | Delete_dns_record cloud_authority string
  | Delete_connections cloud_authority string
  | Delete_tunnel cloud_authority string

record 'w custody_state =
  hosted :: "'w hosted_state"
  disk :: checkpoint_disk
  printed :: "string list"
  effects :: "custody_effect list"

type_synonym ('w, 'a) custody = "('w custody_state, 'a) step"

text \<open>A container as \<open>reload\<close> shows it; \<open>con_labels\<close> is \<open>Config.Labels or {}\<close>.\<close>

record container =
  con_name :: string
  con_status :: string
  con_labels :: json

text \<open>What \<open>network.disconnect\<close> does: it succeeds, or raises \<open>APIError\<close> with a message, or \<open>NotFound\<close>.\<close>

datatype disconnected = Disconnected | Api_error string | Not_found

record 'w custody_env =
  cu_hosted :: "'w hosted_env"
  cu_environ :: "(string \<times> string) list"
  cu_urls :: url_library
  cu_sha256 :: "string \<Rightarrow> string"
  cu_loads_bytes :: "string \<Rightarrow> json option"
  cu_file :: "string \<Rightarrow> ('w, string) step"
  cu_provider :: "hosted_request \<Rightarrow> ('w, int \<times> string) step"
  cu_cloudflare :: "hosted_request \<Rightarrow> ('w, int \<times> string) step"
  cu_container :: "string \<Rightarrow> ('w, container option) step"
  cu_stop :: "string \<Rightarrow> ('w, unit) step"
  cu_remove :: "string \<Rightarrow> ('w, unit) step"
  cu_node_containers :: "string \<Rightarrow> string \<Rightarrow> ('w, string list) step"
  cu_disconnect :: "nat \<Rightarrow> string \<Rightarrow> ('w, disconnected) step"
  cu_authority :: "cloud_authority \<Rightarrow> ('w, unit) step"
  cu_client :: "cloud_authority \<Rightarrow> string \<Rightarrow> ('w, unit) step"
  cu_delete_dns :: "cloud_authority \<Rightarrow> string \<Rightarrow> ('w, unit) step"
  cu_delete_connections :: "cloud_authority \<Rightarrow> string \<Rightarrow> ('w, unit) step"
  cu_delete_tunnel :: "cloud_authority \<Rightarrow> string \<Rightarrow> ('w, unit) step"
  cu_active_rows :: "string \<Rightarrow> ('w, json list list) step"
  cu_all_rows :: "string \<Rightarrow> ('w, json list list) step"
  cu_run_rows :: "string \<Rightarrow> ('w, json list list) step"
  cu_removal_rows :: "string \<Rightarrow> ('w, json list list) step"
  cu_audit :: "string \<Rightarrow> string \<Rightarrow> ('w, int \<times> string) step"
  cu_empty_graph :: "string \<Rightarrow> json"

definition runtime_error :: "string \<Rightarrow> abort_raised" where
  "runtime_error message = Other_exception"

definition in_world :: "('w, 'a) step \<Rightarrow> ('w, 'a) custody" where
  "in_world m st =
     (case m (outside (hosted st)) of (r, w) \<Rightarrow> (r, st\<lparr>hosted := (hosted st)\<lparr>outside := w\<rparr>\<rparr>))"

definition on_hosted :: "('w, 'a) hosted_action \<Rightarrow> ('w, 'a) custody" where
  "on_hosted m st =
     (case m (hosted st) of
        (Inl e, h) \<Rightarrow> (Inl Other_exception, st\<lparr>hosted := h\<rparr>)
      | (Inr x, h) \<Rightarrow> (Inr x, st\<lparr>hosted := h\<rparr>))"

definition at_disk :: "(checkpoint_disk, 'a) step \<Rightarrow> ('w, 'a) custody" where
  "at_disk m st = (case m (disk st) of (r, d) \<Rightarrow> (r, st\<lparr>disk := d\<rparr>))"

text \<open>A call that changes something outside is recorded whether or not it succeeds.\<close>

definition change_outside :: "custody_effect \<Rightarrow> ('w, 'a) step \<Rightarrow> ('w, 'a) custody" where
  "change_outside effect m = thenA (modA (\<lambda>st. st\<lparr>effects := effects st @ [effect]\<rparr>)) (in_world m)"

definition print_line :: "string \<Rightarrow> ('w, unit) custody" where
  "print_line line = modA (\<lambda>st. st\<lparr>printed := printed st @ [line]\<rparr>)"

text \<open>A check of pure data raises its \<open>RuntimeError\<close> here.\<close>

definition checked :: "hosted_error + 'a \<Rightarrow> ('w, 'a) custody" where
  "checked r = (case r of Inl e \<Rightarrow> raise Other_exception | Inr x \<Rightarrow> ret x)"

definition demand_env :: "'w custody_env \<Rightarrow> string \<Rightarrow> ('w, string) custody" where
  "demand_env env name = checked (required_env (cu_environ env) name)"

text \<open>\<open>path.read_text(encoding="utf-8").strip()\<close>.\<close>

definition stripped_file :: "'w custody_env \<Rightarrow> string \<Rightarrow> ('w, string) custody" where
  "stripped_file env path =
     bindA (in_world (cu_file env path)) (\<lambda>b.
       case utf8_decode b of
         None \<Rightarrow> raise Other_exception
       | Some s \<Rightarrow> ret (strip (universal_newlines s)))"

section \<open>The secret provider\<close>

definition PROVIDER_BASE_URL :: string where
  "PROVIDER_BASE_URL = ''http://cpk-secrets:8081''"

text \<open>\<open>base64.urlsafe_b64encode\<close>.\<close>

definition base64_digit :: "nat \<Rightarrow> char" where
  "base64_digit n =
     ''ABCDEFGHIJKLMNOPQRSTUVWXYZabcdefghijklmnopqrstuvwxyz0123456789-_'' ! (n mod 64)"

fun urlsafe_b64encode :: "string \<Rightarrow> string" where
  "urlsafe_b64encode [] = []"
| "urlsafe_b64encode [a] =
     [base64_digit (byte_of a div 4), base64_digit (byte_of a mod 4 * 16), CHR ''='', CHR ''='']"
| "urlsafe_b64encode [a, b] =
     [base64_digit (byte_of a div 4), base64_digit (byte_of a mod 4 * 16 + byte_of b div 16),
      base64_digit (byte_of b mod 16 * 4), CHR ''='']"
| "urlsafe_b64encode (a # b # c # s) =
     base64_digit (byte_of a div 4) # base64_digit (byte_of a mod 4 * 16 + byte_of b div 16) #
     base64_digit (byte_of b mod 16 * 4 + byte_of c div 64) # base64_digit (byte_of c mod 64) #
     urlsafe_b64encode s"

definition secret_id :: "string \<Rightarrow> string" where
  "secret_id reference = ''cpk1_'' @ rstrip_char (CHR ''='') (urlsafe_b64encode reference)"

definition provider_secret_path :: "string \<Rightarrow> string \<Rightarrow> string \<Rightarrow> string" where
  "provider_secret_path workspace_id reference suffix =
     ''/v1/workspaces/'' @ workspace_id @ ''/secrets/'' @ secret_id reference @ suffix"

definition bearer :: "string \<Rightarrow> string" where
  "bearer token = ''Bearer '' @ token"

definition provider_request ::
  "'w custody_env \<Rightarrow> string \<Rightarrow> string \<Rightarrow> string \<Rightarrow> dict \<Rightarrow> ('w, int \<times> dict) custody" where
  "provider_request env meth path token_file payload =
     bindA (stripped_file env token_file) (\<lambda>token.
       let rq = \<lparr>hr_method = meth, hr_path = PROVIDER_BASE_URL @ path,
                 hr_headers = [(''Authorization'', bearer token), (''Content-Type'', ''application/json'')],
                 hr_payload = Some (JObj payload), hr_timeout = 20\<rparr> in
       bindA (change_outside (Provider_call rq) (cu_provider env rq)) (\<lambda>(status, body).
         case cu_loads_bytes env body of
           None \<Rightarrow> raise Other_exception
         | Some (JObj d) \<Rightarrow> ret (status, d)
         | Some _ \<Rightarrow> raise (runtime_error ''provider response was malformed'')))"

record version_receipt =
  vr_version_id :: string
  vr_version_number :: int

definition provider_version_receipt :: "dict \<Rightarrow> hosted_error + version_receipt" where
  "provider_version_receipt payload =
     (let metadata = get payload ''metadata'' in
      if \<not> is_dict metadata then Inl (Runtime ''provider response omitted secret metadata'')
      else
        (case field metadata ''version_id'' of
           JStr v \<Rightarrow>
             if v = [] then Inl (Runtime ''provider response omitted secret version identity'')
             else
               (case field metadata ''version_number'' of
                  JInt n \<Rightarrow>
                    if n < 1 then Inl (Runtime ''provider response omitted secret version number'')
                    else Inr \<lparr>vr_version_id = v, vr_version_number = n\<rparr>
                | _ \<Rightarrow> Inl (Runtime ''provider response omitted secret version number''))
         | _ \<Rightarrow> Inl (Runtime ''provider response omitted secret version identity'')))"

definition metadata_version :: "dict \<Rightarrow> hosted_error + string" where
  "metadata_version payload = bindE (provider_version_receipt payload) (\<lambda>r. Inr (vr_version_id r))"

text \<open>A provider command: the call, the outcome it must report, and the answer.\<close>

definition provider_command ::
  "'w custody_env \<Rightarrow> string \<Rightarrow> string \<Rightarrow> dict \<Rightarrow> string \<Rightarrow> string \<Rightarrow> ('w, dict) custody" where
  "provider_command env path token_file payload outcome message =
     bindA (provider_request env ''POST'' path token_file payload) (\<lambda>(status, answer).
       if status \<noteq> 200 \<or> get answer ''outcome'' \<noteq> JStr outcome then raise (runtime_error message)
       else ret answer)"

definition POSTGRES_PASSWORD_REFERENCE :: string where
  "POSTGRES_PASSWORD_REFERENCE = ''secret://control-plane-kit/postgres/password''"

definition POSTGRES_INTENT :: string where
  "POSTGRES_INTENT = ''postgres.password''"

text \<open>The stored value: \<open>base64.b64encode\<close> of the file, with the standard alphabet.\<close>

definition standard_digit :: "char \<Rightarrow> char" where
  "standard_digit c = (if c = CHR ''-'' then CHR ''+'' else if c = CHR ''_'' then CHR ''/'' else c)"

definition b64encode :: "string \<Rightarrow> string" where
  "b64encode s = map standard_digit (urlsafe_b64encode s)"

definition secret_payload :: "string \<Rightarrow> string \<Rightarrow> string \<Rightarrow> string \<Rightarrow> dict" where
  "secret_payload content intent caller correlation =
     [(''value_base64'', JStr (b64encode content)), (''intent'', JStr intent),
      (''labels'', JObj [(''intent'', JStr intent)]), (''caller_subject'', JStr caller),
      (''correlation_id'', JStr correlation)]"

definition provider_write_secret ::
  "'w custody_env \<Rightarrow> string \<Rightarrow> string \<Rightarrow> string \<Rightarrow> string \<Rightarrow> string \<Rightarrow> string \<Rightarrow>
   ('w, version_receipt) custody" where
  "provider_write_secret env workspace_id reference intent content_file token_file correlation =
     bindA (in_world (cu_file env content_file)) (\<lambda>content.
     bindA (provider_command env (provider_secret_path workspace_id reference []) token_file
       (secret_payload content intent ''source-live-bootstrap'' correlation) ''stored''
       ''provider fixture write failed'') (\<lambda>answer.
       checked (provider_version_receipt answer)))"

definition provider_rotate_secret ::
  "'w custody_env \<Rightarrow> string \<Rightarrow> string \<Rightarrow> string \<Rightarrow> string \<Rightarrow> ('w, string) custody" where
  "provider_rotate_secret env workspace_id content_file token_file correlation =
     bindA (in_world (cu_file env content_file)) (\<lambda>content.
     bindA (provider_command env (provider_secret_path workspace_id POSTGRES_PASSWORD_REFERENCE ''/rotate'')
       token_file (secret_payload content POSTGRES_INTENT ''source-live-rotation'' correlation) ''rotated''
       ''provider fixture rotation failed'') (\<lambda>answer.
       checked (metadata_version answer)))"

definition provider_revoke_secret ::
  "'w custody_env \<Rightarrow> string \<Rightarrow> string \<Rightarrow> string \<Rightarrow> string \<Rightarrow> ('w, unit) custody" where
  "provider_revoke_secret env workspace_id reference token_file correlation =
     thenA (provider_command env (provider_secret_path workspace_id reference ''/revoke'') token_file
       [(''caller_subject'', JStr ''source-live-revocation''), (''correlation_id'', JStr correlation)]
       ''revoked'' ''provider fixture revocation failed'') (ret ())"

text \<open>The resolved value is dropped before the metadata is read.\<close>

definition provider_resolve_metadata ::
  "'w custody_env \<Rightarrow> string \<Rightarrow> string \<Rightarrow> string \<Rightarrow> string \<Rightarrow> string \<Rightarrow> string \<Rightarrow> ('w, string) custody" where
  "provider_resolve_metadata env workspace_id reference intent token_file caller correlation =
     bindA (provider_command env (provider_secret_path workspace_id reference ''/resolve'') token_file
       [(''intent'', JStr intent), (''caller_subject'', JStr caller), (''correlation_id'', JStr correlation)]
       ''resolved'' ''provider correlation replay failed'') (\<lambda>answer.
       checked (metadata_version (AList.delete ''value_base64'' answer)))"

text \<open>Revoking one version, named by its identifier and its number.\<close>

definition provider_revoke_exact_version ::
  "'w custody_env \<Rightarrow> string \<Rightarrow> string \<Rightarrow> string \<Rightarrow> int \<Rightarrow> string \<Rightarrow> string \<Rightarrow> ('w, unit) custody" where
  "provider_revoke_exact_version env workspace_id reference version_id version_number token_file correlation =
     thenA (provider_command env
       (provider_secret_path workspace_id reference (''/versions/'' @ quote version_id @ ''/revoke''))
       token_file
       [(''version_number'', JInt version_number),
        (''caller_subject'', JStr ''source-live-abort-compensator''),
        (''correlation_id'', JStr correlation)]
       ''revoked'' ''provider exact version revocation failed'') (ret ())"

end
