(* ===== verification/CloudflareEvidence.thy ===== *)
theory CloudflareEvidence
  imports Custody
begin

text \<open>
  The reads of the Cloudflare API in the secret-provider acceptance script
  (\<open>scripts/cpk_server_secret_provider_source_live.py\<close>): bounded answers, the proof that a resource and a
  tunnel are gone, and the inventory of the protected account, taken page by page, reduced to counts and
  digests and compared with the one recorded before.
\<close>

section \<open>Bounded answers\<close>

definition CLOUDFLARE_URL :: string where
  "CLOUDFLARE_URL = ''https://api.cloudflare.com/client/v4''"

definition EVIDENCE_BYTES :: nat where
  "EVIDENCE_BYTES = 65536"

definition cloudflare_request :: "string \<Rightarrow> string \<Rightarrow> hosted_request" where
  "cloudflare_request path token =
     \<lparr>hr_method = ''GET'', hr_path = CLOUDFLARE_URL @ path,
      hr_headers = [(''Authorization'', bearer token), (''Accept'', ''application/json'')],
      hr_payload = None, hr_timeout = 20\<rparr>"

definition cloudflare_get :: "'w custody_env \<Rightarrow> string \<Rightarrow> string \<Rightarrow> ('w, int \<times> string) custody" where
  "cloudflare_get env path token_file =
     bindA (stripped_file env token_file) (\<lambda>token.
       in_world (cu_cloudflare env (cloudflare_request path token)))"

text \<open>At most one byte beyond the limit is read.\<close>

definition decode_cloudflare ::
  "'w custody_env \<Rightarrow> int \<Rightarrow> string \<Rightarrow> hosted_error + int \<times> dict option" where
  "decode_cloudflare env status body =
     (let malformed = Inl (Runtime ''Cloudflare deletion response was malformed'') in
      if EVIDENCE_BYTES < length body
      then Inl (Runtime ''Cloudflare deletion response exceeded evidence limit'')
      else if status = 404 then Inr (status, None)
      else
        (case utf8_decode body of
           None \<Rightarrow> malformed
         | Some s \<Rightarrow>
             (case h_loads (cu_hosted env) s of
                Some (JObj d) \<Rightarrow> Inr (status, Some d)
              | _ \<Rightarrow> malformed)))"

definition cloudflare_api_get_json ::
  "'w custody_env \<Rightarrow> string \<Rightarrow> string \<Rightarrow> ('w, int \<times> dict option) custody" where
  "cloudflare_api_get_json env path token_file =
     bindA (cloudflare_get env path token_file) (\<lambda>(status, body).
       checked (decode_cloudflare env status (take (Suc EVIDENCE_BYTES) body)))"

section \<open>Proof of deletion\<close>

definition assert_cloudflare_resource_absent ::
  "'w custody_env \<Rightarrow> string \<Rightarrow> string \<Rightarrow> ('w, unit) custody" where
  "assert_cloudflare_resource_absent env path token_file =
     bindA (cloudflare_get env path token_file) (\<lambda>(status, _).
       if status \<noteq> 404
       then raise (runtime_error ''owned Cloudflare resource remained after teardown'') else ret ())"

text \<open>\<open>payload.get("result")\<close> of an answer that says it succeeded, else \<open>None\<close>.\<close>

definition answer_result :: "dict option \<Rightarrow> json" where
  "answer_result payload =
     (case payload of
        Some d \<Rightarrow> if get d ''success'' = JBool True then get d ''result'' else JNull
      | None \<Rightarrow> JNull)"

definition tombstone_of :: "string \<Rightarrow> json \<Rightarrow> bool" where
  "tombstone_of tunnel result \<longleftrightarrow>
     is_dict result \<and> field result ''id'' = JStr tunnel \<and>
     (case field result ''deleted_at'' of JStr s \<Rightarrow> \<not> blank s | _ \<Rightarrow> False)"

definition validate_tunnel_deletion ::
  "string \<Rightarrow> int \<Rightarrow> dict option \<Rightarrow> int \<Rightarrow> dict option \<Rightarrow> hosted_error + unit" where
  "validate_tunnel_deletion tunnel exact_status exact_payload active_status active_payload =
     bindE
       (if exact_status = 404 then Inr ()
        else if exact_status = 200
        then raise_if (\<not> tombstone_of tunnel (answer_result exact_payload))
               (Runtime ''Cloudflare tunnel tombstone did not match owned deletion'')
        else Inl (Runtime ''Cloudflare tunnel deletion could not be verified''))
     (\<lambda>_.
       case (if active_status = 200 then answer_result active_payload else JNull) of
         JArr xs \<Rightarrow>
           if \<not> list_all is_dict xs
           then Inl (Runtime ''Cloudflare active tunnel inventory was malformed'')
           else raise_if (list_ex (\<lambda>x. field x ''id'' = JStr tunnel) xs)
                  (Runtime ''owned Cloudflare tunnel remained active after teardown'')
       | _ \<Rightarrow> Inl (Runtime ''Cloudflare active tunnel inventory was malformed''))"

definition assert_cloudflare_tunnel_deleted ::
  "'w custody_env \<Rightarrow> string \<Rightarrow> string \<Rightarrow> string \<Rightarrow> ('w, unit) custody" where
  "assert_cloudflare_tunnel_deleted env account tunnel token_file =
     (let base = ''/accounts/'' @ account @ ''/cfd_tunnel'' in
      bindA (cloudflare_api_get_json env (base @ ''/'' @ tunnel) token_file) (\<lambda>(exact_status, exact_payload).
      bindA (cloudflare_api_get_json env
          (base @ ''?is_deleted=false&uuid='' @ tunnel @ ''&per_page=1'') token_file)
        (\<lambda>(active_status, active_payload).
          checked (validate_tunnel_deletion tunnel exact_status exact_payload active_status active_payload))))"

section \<open>The inventory\<close>

definition project_record :: "string list \<Rightarrow> json \<Rightarrow> json" where
  "project_record names v = JObj (map (\<lambda>f. (f, field v f)) names)"

definition MAX_RECORDS :: nat where
  "MAX_RECORDS = 100000"

definition MAX_PAGES :: int where
  "MAX_PAGES = 20"

text \<open>The items of one page are appended one at a time, each checked.\<close>

fun append_records ::
  "string list \<Rightarrow> json list \<Rightarrow> json list \<Rightarrow> hosted_error + json list" where
  "append_records names records [] = Inr records"
| "append_records names records (v # vs) =
     (if \<not> is_dict v then Inl (Runtime ''protected Cloudflare inventory item was malformed'')
      else if MAX_RECORDS < Suc (length records)
      then Inl (Runtime ''protected Cloudflare inventory exceeded evidence limit'')
      else append_records names (records @ [project_record names v]) vs)"

definition total_pages :: "dict \<Rightarrow> int option" where
  "total_pages payload =
     (case field (get payload ''result_info'') ''total_pages'' of JInt i \<Rightarrow> Some i | _ \<Rightarrow> None)"

text \<open>What one page adds, and whether it is the last one.\<close>

definition inventory_page ::
  "string list \<Rightarrow> int \<Rightarrow> json list \<Rightarrow> int \<times> dict option \<Rightarrow> hosted_error + json list \<times> bool" where
  "inventory_page names page records answer =
     (case answer of
        (status, payload) \<Rightarrow>
          (case payload of
             None \<Rightarrow> Inl (Runtime ''protected Cloudflare inventory read was unavailable'')
           | Some d \<Rightarrow>
               if status \<noteq> 200 then Inl (Runtime ''protected Cloudflare inventory read was unavailable'')
               else
                 (case get d ''result'' of
                    JArr xs \<Rightarrow>
                      if 100 < length xs
                      then Inl (Runtime ''protected Cloudflare inventory response was malformed'')
                      else bindE (append_records names records xs) (\<lambda>records'.
                        if (case total_pages d of Some t \<Rightarrow> MAX_PAGES < t | None \<Rightarrow> False)
                        then Inl (Runtime ''protected Cloudflare inventory exceeded page limit'')
                        else Inr (records', xs = [] \<or>
                          (case total_pages d of Some t \<Rightarrow> t \<le> page | None \<Rightarrow> False)))
                  | _ \<Rightarrow> Inl (Runtime ''protected Cloudflare inventory response was malformed''))))"

definition page_path :: "string \<Rightarrow> string \<Rightarrow> int \<Rightarrow> string" where
  "page_path path query page =
     path @ ''?'' @ query @ (if query = [] then [] else ''&'') @ ''per_page=100&page='' @ int_text page"

text \<open>The loop over \<open>range(1, 21)\<close>: \<open>n\<close> pages are left.\<close>

fun inventory_pages ::
  "'w custody_env \<Rightarrow> string \<Rightarrow> string \<Rightarrow> string list \<Rightarrow> string \<Rightarrow> nat \<Rightarrow> json list \<Rightarrow> ('w, json list) custody"
where
  "inventory_pages env path token_file names query 0 records =
     raise (runtime_error ''protected Cloudflare inventory exceeded page limit'')"
| "inventory_pages env path token_file names query (Suc n) records =
     (let page = MAX_PAGES - int n in
      bindA (cloudflare_api_get_json env (page_path path query page) token_file) (\<lambda>answer.
      bindA (checked (inventory_page names page records answer)) (\<lambda>(records', last).
        if last then ret records' else inventory_pages env path token_file names query n records')))"

text \<open>\<open>json.dumps(item, sort_keys=True)\<close>.\<close>

definition record_key :: "'w custody_env \<Rightarrow> json \<Rightarrow> string" where
  "record_key env v = spaced (h_float (cu_hosted env)) (canon v)"

definition bounded_inventory ::
  "'w custody_env \<Rightarrow> string \<Rightarrow> string \<Rightarrow> string list \<Rightarrow> string \<Rightarrow> ('w, json list) custody" where
  "bounded_inventory env path token_file names query =
     bindA (inventory_pages env path token_file names query (nat MAX_PAGES) []) (\<lambda>records.
       ret (sort_key (record_key env) records))"

definition inventory_digest :: "'w custody_env \<Rightarrow> json list \<Rightarrow> string" where
  "inventory_digest env records =
     cu_sha256 env (dump (h_float (cu_hosted env)) (canon (JArr records)))"

record snapshot =
  dns_record_count :: int
  dns_record_digest :: string
  active_tunnel_count :: int
  active_tunnel_digest :: string

definition hex64 :: "string \<Rightarrow> bool" where
  "hex64 s \<longleftrightarrow> length s = 64 \<and> list_all is_lower_hex_char s"

definition snapshot_ok :: "snapshot \<Rightarrow> hosted_error + unit" where
  "snapshot_ok s =
     (if list_ex (\<lambda>n. n < 0 \<or> 100000 < n) [dns_record_count s, active_tunnel_count s]
      then Inl (Runtime ''protected Cloudflare inventory count was invalid'')
      else raise_if (list_ex (\<lambda>d. \<not> hex64 d) [dns_record_digest s, active_tunnel_digest s])
             (Runtime ''protected Cloudflare inventory digest was invalid''))"

definition snapshot_descriptor :: "snapshot \<Rightarrow> dict" where
  "snapshot_descriptor s =
     [(''dns_record_count'', JInt (dns_record_count s)), (''dns_record_digest'', JStr (dns_record_digest s)),
      (''active_tunnel_count'', JInt (active_tunnel_count s)),
      (''active_tunnel_digest'', JStr (active_tunnel_digest s))]"

definition inventory_snapshot :: "'w custody_env \<Rightarrow> string \<Rightarrow> ('w, snapshot) custody" where
  "inventory_snapshot env token_file =
     bindA (demand_env env ''OPENJ92_CLOUDFLARE_ZONE_ID'') (\<lambda>zone.
     bindA (demand_env env ''OPENJ92_CLOUDFLARE_ACCOUNT_ID'') (\<lambda>account.
     bindA (bounded_inventory env (''/zones/'' @ zone @ ''/dns_records'') token_file
       [''id'', ''type'', ''name'', ''content'', ''proxied'', ''ttl''] []) (\<lambda>records.
     bindA (bounded_inventory env (''/accounts/'' @ account @ ''/cfd_tunnel'') token_file
       [''id'', ''name'', ''config_src'', ''deleted_at''] ''is_deleted=false'') (\<lambda>tunnels.
     let s = \<lparr>dns_record_count = int (length records), dns_record_digest = inventory_digest env records,
              active_tunnel_count = int (length tunnels),
              active_tunnel_digest = inventory_digest env tunnels\<rparr> in
     thenA (checked (snapshot_ok s)) (ret s)))))"

definition require_inventory_unchanged :: "snapshot \<Rightarrow> snapshot \<Rightarrow> hosted_error + unit" where
  "require_inventory_unchanged before after =
     raise_if (after \<noteq> before) (Runtime ''protected Cloudflare inventory changed'')"

text \<open>
  \<open>path.with_suffix(".tmp")\<close>, on a path in normal form: the last name loses what follows its last dot,
  if that dot is neither its first nor its last character.
\<close>

definition tmp_name :: "string \<Rightarrow> string" where
  "tmp_name name =
     (case split_last (CHR ''.'') name of
        Some (stem, suffix) \<Rightarrow> (if stem \<noteq> [] \<and> suffix \<noteq> [] then stem else name) @ ''.tmp''
      | None \<Rightarrow> name @ ''.tmp'')"

definition inventory_temporary :: "string \<Rightarrow> string" where
  "inventory_temporary path =
     (case split_last (CHR ''/'') path of
        Some (dir, name) \<Rightarrow> dir @ ''/'' @ tmp_name name
      | None \<Rightarrow> tmp_name path)"

definition change_mode :: "string \<Rightarrow> (checkpoint_disk, unit) step" where
  "change_mode path d =
     (if disk_fault d = Fine \<and> map_of (files d) path \<noteq> None then (Inr (), advance d)
      else (Inl Os_error, advance d))"

definition snapshot_text :: "snapshot \<Rightarrow> string" where
  "snapshot_text s = dump (\<lambda>_. []) (canon (JObj (snapshot_descriptor s)))"

definition record_inventory :: "'w custody_env \<Rightarrow> string \<Rightarrow> string \<Rightarrow> ('w, unit) custody" where
  "record_inventory env path token_file =
     bindA (inventory_snapshot env token_file) (\<lambda>s.
     thenA (at_disk (make_parents path))
     (thenA (at_disk (write_text (inventory_temporary path) (snapshot_text s)))
     (thenA (at_disk (change_mode (inventory_temporary path)))
       (at_disk (replace_file (inventory_temporary path) path)))))"

text \<open>
  \<open>CloudflareInventorySnapshot(**document)\<close>: the members are the four arguments (anything else is
  \<open>TypeError\<close>), then the checks run in order; a digest that is no text is \<open>TypeError\<close> too.
\<close>

definition snapshot_of_document :: "json \<Rightarrow> hosted_error + snapshot" where
  "snapshot_of_document v =
     (if \<not> closed_mapping v [''dns_record_count'', ''dns_record_digest'', ''active_tunnel_count'',
          ''active_tunnel_digest'']
      then Inl Type_error
      else
        (case (field v ''dns_record_count'', field v ''active_tunnel_count'') of
           (JInt n, JInt m) \<Rightarrow>
             if n < 0 \<or> 100000 < n \<or> m < 0 \<or> 100000 < m
             then Inl (Runtime ''protected Cloudflare inventory count was invalid'')
             else
               (case field v ''dns_record_digest'' of
                  JStr a \<Rightarrow>
                    if \<not> hex64 a then Inl (Runtime ''protected Cloudflare inventory digest was invalid'')
                    else
                      (case field v ''active_tunnel_digest'' of
                         JStr b \<Rightarrow>
                           if \<not> hex64 b
                           then Inl (Runtime ''protected Cloudflare inventory digest was invalid'')
                           else Inr \<lparr>dns_record_count = n, dns_record_digest = a,
                                     active_tunnel_count = m, active_tunnel_digest = b\<rparr>
                       | _ \<Rightarrow> Inl Type_error)
                | _ \<Rightarrow> Inl Type_error)
         | _ \<Rightarrow> Inl (Runtime ''protected Cloudflare inventory count was invalid'')))"

text \<open>The baseline; every failure to read or decode it is an exception.\<close>

definition read_baseline :: "'w custody_env \<Rightarrow> string \<Rightarrow> ('w, snapshot) custody" where
  "read_baseline env path =
     bindA (at_disk (read_bytes path)) (\<lambda>b.
       case utf8_decode b of
         None \<Rightarrow> raise Other_exception
       | Some s \<Rightarrow>
           (case h_loads (cu_hosted env) (universal_newlines s) of
              None \<Rightarrow> raise Other_exception
            | Some v \<Rightarrow> checked (snapshot_of_document v)))"

definition assert_inventory_unchanged :: "'w custody_env \<Rightarrow> string \<Rightarrow> string \<Rightarrow> ('w, unit) custody" where
  "assert_inventory_unchanged env path token_file =
     bindA (tryA (read_baseline env path)
       (\<lambda>e. raise (if e = Stopped then Stopped else Other_exception))) (\<lambda>before.
     bindA (inventory_snapshot env token_file) (\<lambda>after.
       checked (require_inventory_unchanged before after)))"

text \<open>Both run only when the environment names the baseline file.\<close>

definition INVENTORY_FILE :: string where
  "INVENTORY_FILE = ''CPK_SOURCE_LIVE_CLOUDFLARE_INVENTORY_FILE''"

definition with_inventory_file ::
  "'w custody_env \<Rightarrow> (string \<Rightarrow> ('w, unit) custody) \<Rightarrow> ('w, unit) custody" where
  "with_inventory_file env m =
     (case map_of (cu_environ env) INVENTORY_FILE of
        Some (c # cs) \<Rightarrow> m (c # cs)
      | _ \<Rightarrow> ret ())"

definition record_source_live_inventory :: "'w custody_env \<Rightarrow> string \<Rightarrow> ('w, unit) custody" where
  "record_source_live_inventory env token_file =
     with_inventory_file env (\<lambda>path. record_inventory env path token_file)"

definition assert_source_live_inventory_unchanged :: "'w custody_env \<Rightarrow> string \<Rightarrow> ('w, unit) custody" where
  "assert_source_live_inventory_unchanged env token_file =
     with_inventory_file env (\<lambda>path. assert_inventory_unchanged env path token_file)"

end
