(* ===== verification/AbortCleanup.thy ===== *)
theory AbortCleanup
  imports CloudflareEvidence
begin

text \<open>
  The abort clean-up of the secret-provider acceptance script
  (\<open>scripts/cpk_server_secret_provider_source_live.py\<close>): it reads the checkpoint and the evidence of the
  owned resources, tries an authoritative clean-up through the hosted workflow, and falls back to
  revoking and deleting exactly what the evidence names.  The order of these steps and what counts as
  proof is \<open>compensate_abort\<close> of theory AbortCompensation; this theory supplies the actions.
\<close>

section \<open>Containers and networks\<close>

definition is_running :: "container \<Rightarrow> bool" where
  "is_running c \<longleftrightarrow> con_status c = ''running''"

definition labels_match :: "failed_effect \<Rightarrow> container \<Rightarrow> bool" where
  "labels_match e c \<longleftrightarrow>
     con_name c = fe_container_name e \<and> is_dict (con_labels c) \<and>
     list_all (\<lambda>(k, v). field (con_labels c) k = JStr v) (expected_labels e)"

definition stop_remove_exact_failed_connector ::
  "'w custody_env \<Rightarrow> failed_effect \<Rightarrow> ('w, unit) custody" where
  "stop_remove_exact_failed_connector env e =
     bindA (in_world (cu_container env (fe_container_name e))) (\<lambda>found.
       case found of
         None \<Rightarrow> ret ()
       | Some c \<Rightarrow>
           if \<not> labels_match e c then raise (runtime_error ''failed connector ownership is uncertain'')
           else
             thenA (if is_running c then change_outside (Stop_container (con_name c)) (cu_stop env (con_name c))
                    else ret ())
               (change_outside (Remove_container (con_name c)) (cu_remove env (con_name c))))"

definition assert_exact_failed_connector_absent ::
  "'w custody_env \<Rightarrow> failed_effect \<Rightarrow> ('w, unit) custody" where
  "assert_exact_failed_connector_absent env e =
     bindA (in_world (cu_container env (fe_container_name e))) (\<lambda>found.
       if found \<noteq> None then raise (runtime_error ''exact failed connector remains present'') else ret ())"

definition assert_no_node_containers :: "'w custody_env \<Rightarrow> string \<Rightarrow> string \<Rightarrow> ('w, unit) custody" where
  "assert_no_node_containers env workspace_id node =
     bindA (in_world (cu_node_containers env workspace_id node)) (\<lambda>names.
       if names \<noteq> [] then raise (runtime_error ''postgres compute container still exists after teardown'')
       else ret ())"

text \<open>\<open>_disconnect_runtime_networks\<close>: a container that is not attached is no error.\<close>

definition tolerated :: "string \<Rightarrow> bool" where
  "tolerated message \<longleftrightarrow>
     contains ''not connected'' (lower message) \<or> contains ''no such container'' (lower message)"

fun disconnect_all :: "'w custody_env \<Rightarrow> (nat \<times> string) list \<Rightarrow> ('w, unit) custody" where
  "disconnect_all env [] = ret ()"
| "disconnect_all env ((n, c) # rest) =
     bindA (in_world (cu_disconnect env n c)) (\<lambda>outcome.
       case outcome of
         Api_error message \<Rightarrow> if tolerated message then disconnect_all env rest else raise Other_exception
       | _ \<Rightarrow> disconnect_all env rest)"

definition disconnect_runtime_networks ::
  "'w custody_env \<Rightarrow> string \<Rightarrow> string \<Rightarrow> ('w, unit) custody" where
  "disconnect_runtime_networks env server workspace_id =
     bindA (on_hosted (owned_runtime_networks (cu_hosted env) workspace_id)) (\<lambda>networks.
       disconnect_all env
         (concat (map (\<lambda>n. [(net_ref n, server), (net_ref n, h_hostname (cu_hosted env))]) networks)))"

section \<open>Evidence\<close>

definition load_active_resources :: "'w custody_env \<Rightarrow> string \<Rightarrow> ('w, owned_resource list) custody" where
  "load_active_resources env workspace_id =
     bindA (in_world (cu_active_rows env workspace_id)) (\<lambda>rows.
       checked (decode_owned_resources (cu_urls env) (map bounded_columns rows)))"

definition load_all_resources :: "'w custody_env \<Rightarrow> string \<Rightarrow> ('w, owned_resource list) custody" where
  "load_all_resources env workspace_id =
     bindA (in_world (cu_all_rows env workspace_id)) (\<lambda>rows.
       checked (decode_owned_resources (cu_urls env) (map bounded_columns rows)))"

definition CONNECTOR_NODE :: string where
  "CONNECTOR_NODE = ''cloudflared-gateway''"

definition load_connector_run ::
  "'w custody_env \<Rightarrow> string \<Rightarrow> string \<Rightarrow> string \<Rightarrow> ('w, failed_effect option) custody" where
  "load_connector_run env workspace_id run accepted_graph =
     bindA (in_world (cu_run_rows env run)) (\<lambda>rows.
       checked (decode_connector_run workspace_id run CONNECTOR_NODE accepted_graph rows))"

text \<open>
  The runs that created active resources, in order: their failed connectors, and the runs whose
  evidence could not be read.
\<close>

type_synonym connectors = "(string \<times> failed_effect) list \<times> string list"

fun load_connectors ::
  "'w custody_env \<Rightarrow> string \<Rightarrow> string \<Rightarrow> string list \<Rightarrow> ('w, connectors) custody" where
  "load_connectors env workspace_id accepted_graph [] = ret ([], [])"
| "load_connectors env workspace_id accepted_graph (run # runs) =
     bindA (tryA (bindA (load_connector_run env workspace_id run accepted_graph) (\<lambda>e. ret (Some e)))
        (\<lambda>e. if e = Stopped then raise Stopped else ret None)) (\<lambda>outcome.
     bindA (load_connectors env workspace_id accepted_graph runs) (\<lambda>(failed, uncertain_runs).
       ret (case outcome of
              None \<Rightarrow> (failed, run # uncertain_runs)
            | Some None \<Rightarrow> (failed, uncertain_runs)
            | Some (Some e) \<Rightarrow> ((run, e) # failed, uncertain_runs))))"

definition runs_of :: "owned_resource list \<Rightarrow> string list" where
  "runs_of rs = sort (remdups (map source_run_id rs))"

section \<open>Verification\<close>

fun each_resource :: "('a \<Rightarrow> ('w, unit) custody) \<Rightarrow> 'a list \<Rightarrow> ('w, unit) custody" where
  "each_resource m [] = ret ()"
| "each_resource m (x # xs) = thenA (m x) (each_resource m xs)"

definition assert_failed_connectors_absent ::
  "'w custody_env \<Rightarrow> owned_resource list \<Rightarrow> connectors \<Rightarrow> ('w, unit) custody" where
  "assert_failed_connectors_absent env rs known =
     (if snd known \<noteq> [] \<or> set (map fst (fst known)) \<noteq> set (runs_of rs)
      then raise (runtime_error ''failed connector absence is uncertain'')
      else each_resource (\<lambda>run. assert_exact_failed_connector_absent env (the (map_of (fst known) run)))
             (runs_of rs))"

text \<open>\<open>row["outcome"] == "revoked" and row["version_id"]\<close>: a row is a dictionary with those members.\<close>

definition audit_rows :: "'w custody_env \<Rightarrow> string \<Rightarrow> string \<Rightarrow> ('w, json list) custody" where
  "audit_rows env container workspace_id =
     bindA (in_world (cu_audit env container workspace_id)) (\<lambda>(exit_code, output).
       if exit_code \<noteq> 0 then raise (runtime_error ''provider audit evidence was unavailable'')
       else
         (case utf8_decode output of
            None \<Rightarrow> raise Other_exception
          | Some s \<Rightarrow>
              (case h_loads (cu_hosted env) s of
                 None \<Rightarrow> raise Other_exception
               | Some (JArr rows) \<Rightarrow> ret rows
               | Some _ \<Rightarrow> raise (runtime_error ''provider audit evidence was malformed''))))"

definition revoked_version :: "json \<Rightarrow> hosted_error + json list" where
  "revoked_version row =
     bindE (subscript row ''outcome'') (\<lambda>outcome.
       if outcome \<noteq> JStr ''revoked'' then Inr []
       else bindE (subscript row ''version_id'') (\<lambda>v.
         if \<not> truth v then Inr [] else if hashable v then Inr [v] else Inl Type_error))"

definition assert_versions_revoked ::
  "'w custody_env \<Rightarrow> owned_resource list \<Rightarrow> string \<Rightarrow> string \<Rightarrow> ('w, unit) custody" where
  "assert_versions_revoked env rs container workspace_id =
     bindA (audit_rows env container workspace_id) (\<lambda>rows.
     bindA (checked (mapE revoked_version rows)) (\<lambda>revoked.
       if list_all (\<lambda>r. JStr (provider_version_id r) \<in> set (concat revoked)) rs then ret ()
       else raise (runtime_error ''generated ingress secret revocation evidence is incomplete'')))"

definition coordinate :: "owned_resource \<Rightarrow> string \<Rightarrow> string" where
  "coordinate r k = the (map_of (coordinates r) k)"

definition ACCOUNT_ID :: string where
  "ACCOUNT_ID = ''OPENJ92_CLOUDFLARE_ACCOUNT_ID''"

definition assert_physically_absent ::
  "'w custody_env \<Rightarrow> owned_resource list \<Rightarrow> owned_resource list \<Rightarrow> connectors \<Rightarrow> string \<Rightarrow> ('w, unit) custody"
where
  "assert_physically_absent env rs connector_resources known token_file =
     thenA (assert_failed_connectors_absent env connector_resources known)
       (each_resource (\<lambda>r.
          if provider_kind r \<noteq> ''cloudflare''
          then raise (runtime_error ''abort resource provider is unsupported'')
          else
            thenA (assert_cloudflare_resource_absent env
                (''/zones/'' @ coordinate r ''zone_id'' @ ''/dns_records/'' @ coordinate r ''dns_record_id'')
                token_file)
            (bindA (demand_env env ACCOUNT_ID) (\<lambda>account.
               assert_cloudflare_tunnel_deleted env account (coordinate r ''tunnel_id'') token_file))) rs)"

text \<open>
  \<open>_assert_owned_cloudflare_resources_removed\<close>: a row is tunnel, DNS record, tunnel name, hostname, zone
  and status.
\<close>

definition removal_row ::
  "'w custody_env \<Rightarrow> string \<Rightarrow> json list \<Rightarrow> ('w, unit) custody" where
  "removal_row env token_file row =
     (case row of
        [tunnel, record_id, name, host, zone, state] \<Rightarrow>
          if state \<noteq> JStr ''removed''
          then raise (runtime_error ''owned Cloudflare resource was not durably removed'')
          else bindA (demand_env env ''CPK_PUBLIC_GATEWAY_HOSTNAME'') (\<lambda>expected.
            if host \<noteq> JStr expected
            then raise (runtime_error ''owned Cloudflare evidence changed the test hostname'')
            else
              thenA (assert_cloudflare_resource_absent env
                  (''/zones/'' @ str_of (cu_hosted env) zone @ ''/dns_records/'' @
                     str_of (cu_hosted env) record_id) token_file)
              (bindA (demand_env env ACCOUNT_ID) (\<lambda>account.
                 assert_cloudflare_tunnel_deleted env account (str_of (cu_hosted env) tunnel) token_file)))
      | _ \<Rightarrow> raise Other_exception)"

definition assert_owned_resources_removed ::
  "'w custody_env \<Rightarrow> string \<Rightarrow> string \<Rightarrow> nat \<Rightarrow> ('w, unit) custody" where
  "assert_owned_resources_removed env workspace_id token_file expected_minimum =
     bindA (in_world (cu_removal_rows env workspace_id)) (\<lambda>rows.
       if length rows < expected_minimum
       then raise (runtime_error ''operations omitted owned Cloudflare resource evidence'')
       else if list_ex (\<lambda>row. row = []) rows then raise Other_exception
       else if \<not> distinct (map (\<lambda>row. str_of (cu_hosted env) (hd row)) rows)
       then raise (runtime_error ''Cloudflare recreation reused a prior tunnel identity'')
       else each_resource (removal_row env token_file) rows)"

section \<open>Emergency compensation\<close>

definition failed_stage :: "string \<Rightarrow> ('w, unit) custody \<Rightarrow> ('w, string list) custody" where
  "failed_stage name m =
     bindA (failed_with_exception m) (\<lambda>failed. ret (if failed then [name] else []))"

definition CLOUDFLARE_API_TOKEN_REFERENCE :: string where
  "CLOUDFLARE_API_TOKEN_REFERENCE = ''secret://control-plane-kit/cloudflare/openj92/api-token''"

text \<open>
  The client for one resource: the authority is built from the environment and the recorded
  coordinates, and the token is read.  The classes are the interpreter package's, so whether they accept
  their arguments is a parameter.
\<close>

definition cloudflare_client ::
  "'w custody_env \<Rightarrow> string \<Rightarrow> owned_resource \<Rightarrow> ('w, cloud_authority) custody" where
  "cloudflare_client env token_file r =
     bindA (demand_env env ACCOUNT_ID) (\<lambda>account.
     bindA (demand_env env ''OPENJ92_CLOUDFLARE_ZONE'') (\<lambda>zone_name.
     let a = \<lparr>ca_account_id = account, ca_zone_id = coordinate r ''zone_id'', ca_zone_name = zone_name,
              ca_hostname = coordinate r ''hostname'',
              ca_api_token_ref = CLOUDFLARE_API_TOKEN_REFERENCE\<rparr> in
     thenA (in_world (cu_authority env a))
     (bindA (stripped_file env token_file) (\<lambda>token.
      thenA (in_world (cu_client env a token)) (ret a)))))"

definition delete_resources ::
  "'w custody_env \<Rightarrow> cloud_authority \<Rightarrow> owned_resource \<Rightarrow> ('w, string list) custody" where
  "delete_resources env a r =
     bindA (failed_stage ''dns''
       (change_outside (Delete_dns_record a (coordinate r ''dns_record_id''))
          (cu_delete_dns env a (coordinate r ''dns_record_id'')))) (\<lambda>dns.
     bindA (failed_stage ''connections''
       (change_outside (Delete_connections a (coordinate r ''tunnel_id''))
          (cu_delete_connections env a (coordinate r ''tunnel_id'')))) (\<lambda>connections.
     bindA (failed_stage ''tunnel''
       (change_outside (Delete_tunnel a (coordinate r ''tunnel_id''))
          (cu_delete_tunnel env a (coordinate r ''tunnel_id'')))) (\<lambda>tunnel.
     ret (dns @ connections @ tunnel))))"

definition emergency_compensate ::
  "'w custody_env \<Rightarrow> string \<Rightarrow> string \<Rightarrow> string \<Rightarrow> failed_effect option \<Rightarrow> bool \<Rightarrow> owned_resource \<Rightarrow>
   ('w, string list) custody" where
  "emergency_compensate env workspace_id provider_token api_token effect connector_required r =
     bindA (failed_stage ''custody''
       (provider_revoke_exact_version env workspace_id (secret_reference r) (provider_version_id r)
          (provider_version_number r) provider_token
          (''source-live-abort:'' @ ingress_id r @ '':'' @ int_text (epoch r)))) (\<lambda>custody.
     bindA (case effect of
              None \<Rightarrow> ret (if connector_required then [''connector-evidence''] else [])
            | Some e \<Rightarrow> failed_stage ''connector'' (stop_remove_exact_failed_connector env e)) (\<lambda>connector.
     bindA (tryA (bindA (cloudflare_client env api_token r) (\<lambda>a. ret (Some a)))
        (\<lambda>e. if e = Stopped then raise Stopped else ret None)) (\<lambda>client.
       case client of
         None \<Rightarrow> ret (custody @ connector @ [''dns'', ''connections'', ''tunnel''])
       | Some a \<Rightarrow>
           bindA (delete_resources env a r) (\<lambda>rest. ret (custody @ connector @ rest)))))"

section \<open>The clean-up\<close>

record cleanup_paths =
  cl_base_url :: string
  cl_server_container :: string
  cl_provider_container :: string
  cl_provider_token :: string
  cl_api_token :: string

definition cleanup_flow :: "cleanup_paths \<Rightarrow> string \<Rightarrow> workflow" where
  "cleanup_flow p workspace_id =
     make_workflow (cl_base_url p) workspace_id ''hosted-worker'' (cl_server_container p)
       ''Bearer worker-present''"

definition string_value :: "json \<Rightarrow> string" where
  "string_value v = (case v of JStr s \<Rightarrow> s | _ \<Rightarrow> [])"

definition abort_cleanup_title :: "checkpoint \<Rightarrow> string" where
  "abort_cleanup_title c = ''Source-live abort cleanup '' @ string_value (cp_phase c)"

definition authoritative_action ::
  "'w custody_env \<Rightarrow> cleanup_paths \<Rightarrow> checkpoint \<Rightarrow> string \<Rightarrow> ('w, unit) custody" where
  "authoritative_action env p c workspace_id =
     (let h = cu_hosted env; flow = cleanup_flow p workspace_id in
      thenA (on_hosted (wait_ready h flow 30 30))
      (bindA (on_hosted (read_current_graph_id h flow)) (\<lambda>current_graph.
       bindA (on_hosted (hosted_read_workspace h flow)) (\<lambda>readback.
         let ws = field readback ''workspace'' in
         if \<not> is_dict ws then raise (runtime_error ''abort cleanup workspace readback was unavailable'')
         else
           (case field ws ''desired_graph_id'' of
              JStr (d # ds) \<Rightarrow>
                thenA (disconnect_runtime_networks env (cl_server_container p) workspace_id)
                (thenA (on_hosted (run_approved_transition h flow (abort_cleanup_title c)
                    (cu_empty_graph env workspace_id) current_graph (Some (d # ds)) False)) (ret ()))
            | _ \<Rightarrow> raise (runtime_error ''abort cleanup desired graph was unavailable''))))))"

record cleanup_evidence =
  ev_active :: "owned_resource list"
  ev_resources :: "owned_resource list"
  ev_connectors :: connectors

definition emergency_set :: "cleanup_evidence \<Rightarrow> owned_resource list" where
  "emergency_set ev =
     filter (\<lambda>r. source_run_id r \<in> set (map fst (fst (ev_connectors ev)))) (ev_active ev)"

definition verify_authoritative ::
  "'w custody_env \<Rightarrow> cleanup_paths \<Rightarrow> checkpoint \<Rightarrow> string \<Rightarrow> cleanup_evidence \<Rightarrow> ('w, unit) custody" where
  "verify_authoritative env p c workspace_id ev =
     (if snd (ev_connectors ev) \<noteq> []
      then raise (runtime_error ''failed connector absence is uncertain'')
      else
        thenA (assert_no_node_containers env workspace_id CONNECTOR_NODE)
        (thenA (assert_failed_connectors_absent env (emergency_set ev) (fst (ev_connectors ev), []))
        (thenA (assert_versions_revoked env (ev_resources ev) (cl_provider_container p) workspace_id)
        (assert_owned_resources_removed env workspace_id (cl_api_token p)
           (if cp_phase c = JStr ''prepared'' then 0 else 1)))))"

definition same_resources :: "owned_resource list \<Rightarrow> owned_resource list \<Rightarrow> bool" where
  "same_resources rs ss \<longleftrightarrow> list_all2 same_resource rs ss"

definition verify_emergency ::
  "'w custody_env \<Rightarrow> cleanup_paths \<Rightarrow> string \<Rightarrow> cleanup_evidence \<Rightarrow> ('w, unit) custody" where
  "verify_emergency env p workspace_id ev =
     thenA (assert_no_node_containers env workspace_id CONNECTOR_NODE)
     (thenA (assert_versions_revoked env (ev_resources ev) (cl_provider_container p) workspace_id)
     (assert_physically_absent env (ev_resources ev)
        (if same_resources (ev_active ev) (ev_resources ev) then emergency_set ev else ev_active ev)
        (ev_connectors ev) (cl_api_token p)))"

definition cleanup_compensation ::
  "'w custody_env \<Rightarrow> cleanup_paths \<Rightarrow> checkpoint \<Rightarrow> string \<Rightarrow> cleanup_evidence \<Rightarrow>
   'w custody_state compensation" where
  "cleanup_compensation env p c workspace_id ev =
     \<lparr>authoritative_cleanup = authoritative_action env p c workspace_id,
      verify_authoritative_absence = verify_authoritative env p c workspace_id ev,
      verify_emergency_absence = verify_emergency env p workspace_id ev,
      resources = ev_resources ev, emergency_resources = emergency_set ev,
      compensators =
        [(''cloudflare'', \<lambda>r. emergency_compensate env workspace_id (cl_provider_token p) (cl_api_token p)
            (map_of (fst (ev_connectors ev)) (source_run_id r))
            (list_ex (same_resource r) (ev_active ev)) r)]\<rparr>"

definition snapshot_line :: "checkpoint \<Rightarrow> cleanup_evidence \<Rightarrow> string" where
  "snapshot_line c ev =
     dump (\<lambda>_. []) (canon (JObj
       [(''abort_phase'', cp_phase c), (''workspace_id'', cp_workspace_id c),
        (''current_graph_id'', cp_current_graph_id c), (''desired_graph_id'', cp_desired_graph_id c),
        (''owned_resource_count'', JInt (int (length (ev_resources ev)))),
        (''failed_connector_count'', JInt (int (length (fst (ev_connectors ev))))),
        (''uncertain_connector_count'', JInt (int (length (snd (ev_connectors ev)))))]))"

definition report_line :: "report \<Rightarrow> string" where
  "report_line r =
     dump (\<lambda>_. []) (canon (JObj
       [(''abort_cleanup'', JStr ''completed''), (''authoritative'', JBool (authoritative r)),
        (''emergency_attempted'', JBool (emergency_attempted r)),
        (''resource_count'', JInt (int (resource_count r)))]))"

definition gather_evidence ::
  "'w custody_env \<Rightarrow> checkpoint \<Rightarrow> string \<Rightarrow> ('w, cleanup_evidence) custody" where
  "gather_evidence env c workspace_id =
     bindA (load_active_resources env workspace_id) (\<lambda>active.
     bindA (if active \<noteq> [] then ret active else load_all_resources env workspace_id) (\<lambda>rs.
       if rs = [] \<and> cp_phase c \<noteq> JStr ''prepared''
       then raise (runtime_error ''source-live exact Cloudflare evidence was unavailable'')
       else bindA (load_connectors env workspace_id (string_value (cp_current_graph_id c)) (runs_of active))
         (\<lambda>known. ret \<lparr>ev_active = active, ev_resources = rs, ev_connectors = known\<rparr>)))"

definition read_cleanup_checkpoint :: "'w custody_env \<Rightarrow> ('w, checkpoint \<times> string) custody" where
  "read_cleanup_checkpoint env =
     bindA (demand_env env ''CPK_SOURCE_LIVE_STATE_FILE'') (\<lambda>path.
     bindA (at_disk (read_checkpoint (h_loads (cu_hosted env)) path)) (\<lambda>c.
     bindA (demand_env env ''CPK_HOSTED_ACTIVITY_WORKSPACE_ID'') (\<lambda>workspace_id.
       if cp_workspace_id c \<noteq> JStr workspace_id
       then raise (runtime_error ''source-live checkpoint workspace changed'')
       else ret (c, workspace_id))))"

definition run_abort_cleanup :: "'w custody_env \<Rightarrow> cleanup_paths \<Rightarrow> ('w, nat) custody" where
  "run_abort_cleanup env p =
     bindA (read_cleanup_checkpoint env) (\<lambda>(c, workspace_id).
     bindA (gather_evidence env c workspace_id) (\<lambda>ev.
     thenA (print_line (snapshot_line c ev))
     (bindA (compensate_abort (cleanup_compensation env p c workspace_id ev)) (\<lambda>r.
      thenA (assert_source_live_inventory_unchanged env (cl_api_token p))
      (thenA (print_line (report_line r))
        (ret (if authoritative r then 0 else 2)))))))"

end
