(* ===== verification/AbortProperties.thy ===== *)
theory AbortProperties
  imports AbortCompensation
begin

text \<open>
  What abort compensation guarantees: a report is returned exactly when absence was verified, a
  checkpoint file is replaced as a whole and read back as written, and the accepted secret references
  are those of a plain grammar.
\<close>

section \<open>Compensation\<close>

text \<open>Every resource has a compensator, and every compensator ran without a failed stage.\<close>

fun all_compensated ::
  "(string \<times> (owned_resource \<Rightarrow> ('w, string list) step)) list \<Rightarrow> owned_resource list \<Rightarrow> 'w \<Rightarrow> 'w \<Rightarrow> bool" where
  "all_compensated cs [] w w' \<longleftrightarrow> w' = w"
| "all_compensated cs (r # rs) w w' \<longleftrightarrow>
     (\<exists>f w1. map_of cs (provider_kind r) = Some f \<and> f r w = (Inr [], w1) \<and> all_compensated cs rs w1 w')"

lemma failed_with_exception_eq:
  "failed_with_exception m w =
     (case m w of
        (Inr _, w') \<Rightarrow> (Inr False, w')
      | (Inl e, w') \<Rightarrow> if e = Stopped then (Inl Stopped, w') else (Inr True, w'))"
  by (auto simp: failed_with_exception_def tryA_def bindA_def action_simps split: prod.split sum.split)

lemma compensate_resources_clean:
  "compensate_resources cs rs w = (Inr [], w') \<longleftrightarrow> all_compensated cs rs w w'"
proof (induction rs arbitrary: w w')
  case Nil
  then show ?case by (auto simp: action_simps)
next
  case (Cons r rs)
  show ?case
  proof (cases "map_of cs (provider_kind r)")
    case None
    obtain y w2 where "compensate_resources cs rs w = (y, w2)" by fastforce
    with None show ?thesis by (cases y) (simp_all add: bindA_def action_simps)
  next
    case (Some f)
    obtain x w1 where fr: "f r w = (x, w1)" by fastforce
    obtain y w2 where rest: "compensate_resources cs rs w1 = (y, w2)" by fastforce
    have IH: "all_compensated cs rs w1 w' \<longleftrightarrow> y = Inr [] \<and> w2 = w'"
      using Cons.IH [of w1 w'] rest by simp
    have all: "all_compensated cs (r # rs) w w' \<longleftrightarrow> x = Inr [] \<and> y = Inr [] \<and> w2 = w'"
      using fr IH by (auto simp only: all_compensated.simps Some option.inject prod.inject)
    show ?thesis
      unfolding all by (cases x; cases y) (simp_all add: Some fr rest bindA_def action_simps)
  qed
qed

lemma emergency_returns:
  "emergency c w = (Inr rep, w') \<longleftrightarrow>
     emergency_resources c \<noteq> [] \<and>
     rep = \<lparr>authoritative = False, emergency_attempted = True, resource_count = length (resources c)\<rparr> \<and>
     (\<exists>w1. all_compensated (compensators c) (emergency_resources c) w w1 \<and>
        verify_emergency_absence c w1 = (Inr (), w'))"
proof -
  obtain x w1 where x: "compensate_resources (compensators c) (emergency_resources c) w = (x, w1)"
    by fastforce
  obtain y w2 where y: "verify_emergency_absence c w1 = (y, w2)" by fastforce
  have ran: "all_compensated (compensators c) (emergency_resources c) w v \<longleftrightarrow> x = Inr [] \<and> v = w1" for v
    using x compensate_resources_clean [of "compensators c" "emergency_resources c" w v] by auto
  show ?thesis
  proof (cases x)
    case (Inl e)
    then show ?thesis unfolding ran by (simp add: emergency_def bindA_def x)
  next
    case (Inr stages)
    have "emergency c w =
      (case y of
         Inl e \<Rightarrow>
           if e = Stopped then (Inl Stopped, w2)
           else (Inl (uncertain (stages @ [''absence-verification''])), w2)
       | Inr _ \<Rightarrow>
           if stages \<noteq> [] \<or> emergency_resources c = []
           then (Inl (uncertain (if stages = [] then [''unproven-emergency-authority''] else stages)), w2)
           else (Inr \<lparr>authoritative = False, emergency_attempted = True,
                      resource_count = length (resources c)\<rparr>, w2))"
      by (cases y) (simp_all add: emergency_def bindA_def x y Inr failed_with_exception_eq action_simps Let_def)
    then show ?thesis
      unfolding ran by (cases y) (auto simp: Inr y)
  qed
qed

lemma compensate_abort_returns:
  "compensate_abort c w = (Inr rep, w') \<longleftrightarrow>
     list_all (\<lambda>r. list_ex (same_resource r) (resources c)) (emergency_resources c) \<and>
     (\<exists>x w1. authoritative_cleanup c w = (x, w1) \<and> x \<noteq> Inl Stopped \<and>
       (verify_authoritative_absence c w1 = (Inr (), w') \<and>
          rep = \<lparr>authoritative = True, emergency_attempted = False, resource_count = length (resources c)\<rparr> \<or>
        (\<exists>e w2 w3. verify_authoritative_absence c w1 = (Inl e, w2) \<and> e \<noteq> Stopped \<and>
           emergency_resources c \<noteq> [] \<and>
           all_compensated (compensators c) (emergency_resources c) w2 w3 \<and>
           verify_emergency_absence c w3 = (Inr (), w') \<and>
           rep = \<lparr>authoritative = False, emergency_attempted = True,
                  resource_count = length (resources c)\<rparr>)))"
proof (cases "list_all (\<lambda>r. list_ex (same_resource r) (resources c)) (emergency_resources c)")
  case True
  then have congruent: "\<not> list_ex (\<lambda>r. \<not> list_ex (same_resource r) (resources c)) (emergency_resources c)"
    by (simp add: list_all_iff list_ex_iff)
  obtain x w1 where x: "authoritative_cleanup c w = (x, w1)" by fastforce
  obtain y w2 where y: "verify_authoritative_absence c w1 = (y, w2)" by fastforce
  show ?thesis
  proof (cases "x = Inl Stopped")
    case True
    with x congruent show ?thesis
      by (auto simp: compensate_abort_def bindA_def failed_with_exception_eq)
  next
    case False
    then have first: "failed_with_exception (authoritative_cleanup c) w = (Inr (x \<noteq> Inr ()), w1)"
      by (cases x) (auto simp: failed_with_exception_eq x)
    have "compensate_abort c w =
        (case failed_with_exception (verify_authoritative_absence c) w1 of
           (Inl e, v) \<Rightarrow> (Inl e, v)
         | (Inr absence_failed, v) \<Rightarrow>
             (if absence_failed then emergency c
              else ret \<lparr>authoritative = True, emergency_attempted = False,
                resource_count = length (resources c)\<rparr>) v)"
      using congruent by (simp add: compensate_abort_def bindA_def first)
    moreover have "failed_with_exception (verify_authoritative_absence c) w1 =
        (case y of Inr _ \<Rightarrow> (Inr False, w2)
         | Inl e \<Rightarrow> if e = Stopped then (Inl Stopped, w2) else (Inr True, w2))"
      by (simp add: failed_with_exception_eq y split: sum.split)
    ultimately show ?thesis
      using False True by (cases y) (auto simp: x y emergency_returns action_simps)
  qed
next
  case False
  then have "list_ex (\<lambda>r. \<not> list_ex (same_resource r) (resources c)) (emergency_resources c)"
    by (simp add: list_all_iff list_ex_iff)
  with False show ?thesis by (simp add: compensate_abort_def action_simps)
qed

text \<open>
  C27.  Compensation is reported exactly when it is proved.  A report is returned if and only if the
  emergency resources are among the owned ones, nothing interrupted the authoritative cleanup (which
  always runs first, and may fail), and either the authoritative absence check succeeded right after
  it - then no compensator ran - or that check failed, there was at least one emergency resource, the
  compensator of every one of them ran in order without a failed stage, and the emergency absence
  check then succeeded.  The report says which.
\<close>

theorem compensation_is_proved:
  "compensate_abort c w = (Inr rep, w') \<longleftrightarrow>
     list_all (\<lambda>r. list_ex (same_resource r) (resources c)) (emergency_resources c) \<and>
     (\<exists>x w1. authoritative_cleanup c w = (x, w1) \<and> x \<noteq> Inl Stopped \<and>
       (verify_authoritative_absence c w1 = (Inr (), w') \<and>
          rep = \<lparr>authoritative = True, emergency_attempted = False, resource_count = length (resources c)\<rparr> \<or>
        (\<exists>e w2 w3. verify_authoritative_absence c w1 = (Inl e, w2) \<and> e \<noteq> Stopped \<and>
           emergency_resources c \<noteq> [] \<and>
           all_compensated (compensators c) (emergency_resources c) w2 w3 \<and>
           verify_emergency_absence c w3 = (Inr (), w') \<and>
           rep = \<lparr>authoritative = False, emergency_attempted = True,
                  resource_count = length (resources c)\<rparr>)))"
  by (rule compensate_abort_returns)

section \<open>Checkpoints\<close>

lemma make_checkpoint_Inr:
  "make_checkpoint c = Inr c' \<longleftrightarrow> c' = c \<and>
     (\<exists>w p g d. c = \<lparr>cp_workspace_id = JStr w, cp_phase = JStr p, cp_current_graph_id = JStr g,
                    cp_desired_graph_id = JStr d\<rparr> \<and>
        IDENTIFIER w \<and> IDENTIFIER p \<and> IDENTIFIER g \<and> IDENTIFIER d)"
proof -
  have field: "checkpoint_field_ok (k, v) = Inr () \<longleftrightarrow> (\<exists>s. v = JStr s \<and> IDENTIFIER s)" for k v
    by (cases v) (simp_all add: checkpoint_field_ok_def)
  show ?thesis
    by (cases c) (auto simp: make_checkpoint_def checkpoint_fields_def field)
qed

lemma checkpoint_document:
  "canon (JObj (checkpoint_fields \<lparr>cp_workspace_id = JStr w, cp_phase = JStr p,
      cp_current_graph_id = JStr g, cp_desired_graph_id = JStr d\<rparr>)) =
   JObj [(''current_graph_id'', JStr g), (''desired_graph_id'', JStr d), (''phase'', JStr p),
         (''workspace_id'', JStr w)]"
  by (simp add: checkpoint_fields_def)

lemma checkpoint_read_back:
  assumes "make_checkpoint c = Inr c"
  shows "checkpoint_of_document (canon (JObj (checkpoint_fields c))) = Inr c"
proof -
  obtain w p g d where c: "c = \<lparr>cp_workspace_id = JStr w, cp_phase = JStr p,
      cp_current_graph_id = JStr g, cp_desired_graph_id = JStr d\<rparr>"
    using assms by (auto simp: make_checkpoint_Inr)
  show ?thesis
    using assms unfolding c checkpoint_document
    by (simp add: checkpoint_of_document_def has_def get_def)
qed

lemma record_checkpoint_files:
  assumes "record_checkpoint path c fail_after d = (r, d')"
  shows "map_of (files d') path = map_of (files d) path \<or>
      map_of (files d') path = Some (checkpoint_text c)"
    and "q \<noteq> path \<Longrightarrow> q \<noteq> temporary_path path \<Longrightarrow> map_of (files d') q = map_of (files d) q"
    and "faults d = [] \<Longrightarrow>
      r = (if py_eq fail_after (cp_phase c)
           then Inl (Abort_error (''source-live fault injected after phase '' @
                  (case cp_phase c of JStr s \<Rightarrow> s | _ \<Rightarrow> [])))
           else Inr ()) \<and> map_of (files d') path = Some (checkpoint_text c) \<and> faults d' = []"
    and "r = Inr () \<Longrightarrow> map_of (files d') path = Some (checkpoint_text c)"
proof -
  have tmp: "temporary_path path \<noteq> path" by (simp add: temporary_path_def)
  note defs = record_checkpoint_def bindA_def make_parents_def write_text_def replace_file_def
    advance_def Let_def action_simps update_conv' delete_conv'
  show "map_of (files d') path = map_of (files d) path \<or>
      map_of (files d') path = Some (checkpoint_text c)"
    using assms tmp by (auto simp: defs split: if_splits fault.splits option.splits)
  show "q \<noteq> path \<Longrightarrow> q \<noteq> temporary_path path \<Longrightarrow> map_of (files d') q = map_of (files d) q"
    using assms tmp by (auto simp: defs split: if_splits fault.splits option.splits)
  show "faults d = [] \<Longrightarrow>
      r = (if py_eq fail_after (cp_phase c)
           then Inl (Abort_error (''source-live fault injected after phase '' @
                  (case cp_phase c of JStr s \<Rightarrow> s | _ \<Rightarrow> [])))
           else Inr ()) \<and> map_of (files d') path = Some (checkpoint_text c) \<and> faults d' = []"
    using assms tmp by (auto simp: defs disk_fault_def split: if_splits)
  show "r = Inr () \<Longrightarrow> map_of (files d') path = Some (checkpoint_text c)"
    using assms tmp by (auto simp: defs split: if_splits fault.splits option.splits)
qed

text \<open>
  Checkpoints are replaced as a whole.  Whatever system call fails while a checkpoint is
  recorded, the file holds the previous checkpoint or the complete new one, and no file but it and
  its temporary file changes; a recording that returns leaves the new one; and where a valid
  checkpoint has been recorded, reading gives exactly that checkpoint.
\<close>

theorem checkpoint_is_replaced_whole:
  assumes "make_checkpoint c = Inr c" and "record_checkpoint path c fail_after d = (r, d')"
  shows "map_of (files d') path \<in> {map_of (files d) path, Some (checkpoint_text c)} \<and>
    (\<forall>q. q \<notin> {path, temporary_path path} \<longrightarrow> map_of (files d') q = map_of (files d) q) \<and>
    (r = Inr () \<longrightarrow> map_of (files d') path = Some (checkpoint_text c)) \<and>
    (map_of (files d') path = Some (checkpoint_text c) \<and> faults d' = [] \<and>
       loads (checkpoint_text c) = Some (canon (JObj (checkpoint_fields c))) \<longrightarrow>
     fst (read_checkpoint loads path d') = Inr c)"
proof -
  have "is_ascii (checkpoint_text c)"
    unfolding checkpoint_text_def by (rule dump_ascii) simp
  then have decode: "utf8_decode (checkpoint_text c) = Some (checkpoint_text c)"
    by (simp add: utf8_decode_def valid_utf8_ascii)
  have "fst (read_checkpoint loads path d') = Inr c"
    if "map_of (files d') path = Some (checkpoint_text c)" and "faults d' = []"
      and "loads (checkpoint_text c) = Some (canon (JObj (checkpoint_fields c)))"
    using that checkpoint_read_back [OF assms(1)]
    by (simp add: read_checkpoint_def read_bytes_def disk_fault_def advance_def tryA_def bindA_def
        decode action_simps del: canon.simps)
  then show ?thesis
    using record_checkpoint_files [OF assms(2)] by blast
qed

definition sample_checkpoint :: checkpoint where
  "sample_checkpoint =
     \<lparr>cp_workspace_id = JStr ''w-1'', cp_phase = JStr ''rotated'', cp_current_graph_id = JStr ''g1'',
      cp_desired_graph_id = JStr ''g2''\<rparr>"

definition sample_disk :: checkpoint_disk where
  "sample_disk = \<lparr>files = [(''/run/state.json'', ''old'')], faults = [Fine, Cut 3]\<rparr>"

lemma checkpoint_is_replaced_whole_witness:
  "let (r, d) = record_checkpoint ''/run/state.json'' sample_checkpoint JNull sample_disk;
       (r', d') = record_checkpoint ''/run/state.json'' sample_checkpoint (JStr ''rotated'') d in
   map_of (files d) ''/run/state.json'' \<in> {Some ''old'', Some (checkpoint_text sample_checkpoint)} \<and>
   fst (read_checkpoint (\<lambda>_. Some (canon (JObj (checkpoint_fields sample_checkpoint)))) ''/run/state.json'' d') =
     Inr sample_checkpoint"
proof -
  have c: "make_checkpoint sample_checkpoint = Inr sample_checkpoint" by code_simp
  obtain r d where d: "record_checkpoint ''/run/state.json'' sample_checkpoint JNull sample_disk = (r, d)"
    by (rule prod.exhaust)
  obtain r' d' where d': "record_checkpoint ''/run/state.json'' sample_checkpoint (JStr ''rotated'') d = (r', d')"
    by (rule prod.exhaust)
  have "faults d = []"
    using d by (auto simp: record_checkpoint_def bindA_def make_parents_def write_text_def Let_def
        sample_disk_def advance_def disk_fault_def)
  then have new: "map_of (files d') ''/run/state.json'' = Some (checkpoint_text sample_checkpoint)" "faults d' = []"
    using record_checkpoint_files(3) [OF d'] by simp_all
  have "fst (read_checkpoint (\<lambda>_. Some (canon (JObj (checkpoint_fields sample_checkpoint)))) ''/run/state.json'' d') =
     Inr sample_checkpoint"
    by (rule checkpoint_is_replaced_whole [OF c d', THEN conjunct2, THEN conjunct2, THEN conjunct2, THEN mp])
      (intro conjI new refl)
  moreover have "map_of (files d) ''/run/state.json'' \<in> {Some ''old'', Some (checkpoint_text sample_checkpoint)}"
    using checkpoint_is_replaced_whole [OF c d] by (simp add: sample_disk_def)
  ultimately show ?thesis by (simp add: d d')
qed

section \<open>Secret references\<close>

definition reference_char :: "char \<Rightarrow> bool" where
  "reference_char c \<longleftrightarrow> ascii_alnum c \<or> c \<in> set ''._-''"

lemma reference_charD:
  assumes "reference_char c"
  shows "32 < byte_of c" and "byte_of c < 128" and "\<not> netloc_end c" and "c \<notin> set ''/?#:[]''"
proof -
  show "32 < byte_of c" "byte_of c < 128"
    using assms by (auto simp: reference_char_def ascii_alnum_def lower_letter_def upper_letter_def
        digit_char_def byte_of_def)
  show "c \<notin> set ''/?#:[]''"
    using assms by (auto simp: reference_char_def ascii_alnum_def lower_letter_def upper_letter_def
        digit_char_def byte_of_def)
  then show "\<not> netloc_end c" by (auto simp: netloc_end_def)
qed

lemma patterns_chars:
  "provider_id_pattern p \<Longrightarrow> list_all reference_char p"
  "segment_pattern q \<Longrightarrow> list_all reference_char q \<and> q \<noteq> []"
  by (auto simp: provider_id_pattern_def segment_pattern_def reference_char_def ascii_alnum_def
      list_all_iff split: list.splits)

lemma slash_join_eq: "ps \<noteq> [] \<Longrightarrow> ''/'' @ slash_join ps = concat (map (\<lambda>q. CHR ''/'' # q) ps)"
  by (cases ps) (simp_all add: slash_join_def fun_eq_iff cong: map_cong)

lemma no_special: "reference_char c \<Longrightarrow> c \<noteq> CHR ''/'' \<and> c \<noteq> CHR ''?'' \<and> c \<noteq> CHR ''#'' \<and>
    c \<noteq> CHR '':'' \<and> c \<noteq> CHR ''['' \<and> c \<noteq> CHR '']''"
  using reference_charD(4) [of c] by simp

lemma split_on_clean: "d \<notin> set p \<Longrightarrow> split_on d (p @ d # s) = p # split_on d s"
  by (induction p) (auto)

lemma split_on_slashes:
  assumes "\<forall>q \<in> set qs. CHR ''/'' \<notin> set q"
  shows "split_on (CHR ''/'') (concat (map (\<lambda>q. CHR ''/'' # q) qs)) = [] # qs"
proof (cases qs)
  case (Cons p ps)
  have "split_on (CHR ''/'') (p @ concat (map (\<lambda>q. CHR ''/'' # q) ps)) = p # ps"
    using assms unfolding Cons
  proof (induction ps arbitrary: p)
    case (Cons q ps)
    then show ?case by (simp add: split_on_clean)
  qed (simp add: split_on_none)
  then show ?thesis by (simp add: Cons)
qed simp

lemma urlsplit_reference:
  assumes p: "\<forall>c \<in> set p. reference_char c" and t: "\<forall>c \<in> set t. reference_char c \<or> c = CHR ''/''"
  shows "urlsplit lib (''secret://'' @ p @ CHR ''/'' # t) =
    Some \<lparr>u_scheme = ''secret'', u_netloc = p, u_path = CHR ''/'' # t, u_query = [], u_fragment = []\<rparr>"
proof -
  define rest where "rest = ''//'' @ p @ CHR ''/'' # t"
  have low: "32 < byte_of (CHR ''/'')" "32 < byte_of (CHR '':'')" by (simp_all add: byte_of_def)
  then have "\<forall>c \<in> set rest. 32 < byte_of c"
    using p t reference_charD(1) unfolding rest_def set_append by fastforce
  then have keep: "filter (\<lambda>c. byte_of c \<notin> {9, 10, 13}) rest = rest"
    by (intro filter_True) fastforce
  have clean: "clean_url (''secret:'' @ rest) = ''secret:'' @ rest"
  proof -
    have "dropWhile (\<lambda>c. byte_of c \<le> 32) (''secret:'' @ rest) = ''secret:'' @ rest"
      by (simp add: byte_of_def)
    moreover have "filter (\<lambda>c. byte_of c \<notin> {9, 10, 13}) ''secret:'' = ''secret:''" by code_simp
    ultimately show ?thesis by (simp only: clean_url_def filter_append keep)
  qed
  have scheme: "split_scheme (''secret:'' @ rest) = (''secret'', rest)"
  proof -
    have "split_once (CHR '':'') (''secret'' @ CHR '':'' # rest) = Some (''secret'', rest)"
      by (rule split_once_at) simp
    moreover have "is_letter CHR ''s''" "list_all is_scheme_char ''secret''" "map lower_char ''secret'' = ''secret''"
      by code_simp+
    ultimately show ?thesis by (simp add: split_scheme_def)
  qed
  have netloc: "split_netloc rest = (p, CHR ''/'' # t)"
  proof -
    have "\<forall>c \<in> set p. (Not \<circ> netloc_end) c" using p reference_charD(3) by auto
    moreover have "\<not> (Not \<circ> netloc_end) (CHR ''/'')" by (simp add: netloc_end_def)
    ultimately have "takeWhile (Not \<circ> netloc_end) (p @ CHR ''/'' # t) = p"
      "dropWhile (Not \<circ> netloc_end) (p @ CHR ''/'' # t) = CHR ''/'' # t"
      by (simp_all add: takeWhile_append dropWhile_append)
    then show ?thesis by (simp add: split_netloc_def starts_with_def rest_def)
  qed
  have ok: "netloc_ok lib p"
  proof -
    have "CHR ''['' \<notin> set p" "CHR '']'' \<notin> set p" "is_ascii p"
      using p no_special reference_charD(2) by (auto simp: is_ascii_def list_all_iff)
    then show ?thesis by (simp add: netloc_ok_def)
  qed
  have "CHR ''#'' \<notin> set t" "CHR ''?'' \<notin> set t"
    using t no_special by auto
  then have cuts: "cut (CHR ''#'') (CHR ''/'' # t) = (CHR ''/'' # t, [])"
    "cut (CHR ''?'') (CHR ''/'' # t) = (CHR ''/'' # t, [])"
    by (simp_all add: cut_def iffD2 [OF split_once_None])
  have "urlsplit lib (''secret:'' @ rest) =
    Some \<lparr>u_scheme = ''secret'', u_netloc = p, u_path = CHR ''/'' # t, u_query = [], u_fragment = []\<rparr>"
    unfolding urlsplit_def clean scheme prod.case Let_def netloc cuts using ok by simp
  then show ?thesis by (simp add: rest_def)
qed

definition accepted_parts :: "url \<Rightarrow> string \<Rightarrow> bool" where
  "accepted_parts u s \<longleftrightarrow>
     (let path = filter (\<lambda>p. p \<noteq> []) (split_on (CHR ''/'') (u_path u)) in
      s = ''secret://'' @ u_netloc u @ u_path u \<and> u_scheme u = ''secret'' \<and>
      provider_id_pattern (u_netloc u) \<and> u_query u = [] \<and> u_fragment u = [] \<and>
      path \<noteq> [] \<and> u_path u = ''/'' @ slash_join path \<and>
      list_all (\<lambda>p. p \<notin> set [''.'', ''..''] \<and> segment_pattern p) path)"

lemma bounded_secret_reference_alt:
  "bounded_secret_reference lib (JStr s) \<longleftrightarrow>
     \<not> has_surrogate s \<and> length s \<le> 256 \<and> (\<exists>u. urlsplit lib s = Some u \<and> accepted_parts u s)"
  by (simp add: bounded_secret_reference_def MAX_SECRET_REFERENCE_BYTES_def utf8_encode_def
      accepted_parts_def del: set_simps split: option.split)

text \<open>
  The accepted secret references are those of a plain grammar: \<open>secret://\<close>, a provider
  identifier, and at least one segment behind a slash each, no segment \<open>.\<close> or \<open>..\<close>, at most 256
  characters in all - whatever the URL library says about other host names.
\<close>

theorem secret_reference_grammar:
  "bounded_secret_reference lib (JStr s) \<longleftrightarrow>
     (\<exists>provider segments.
        s = ''secret://'' @ provider @ concat (map (\<lambda>q. CHR ''/'' # q) segments) \<and>
        provider_id_pattern provider \<and> segments \<noteq> [] \<and>
        (\<forall>q \<in> set segments. segment_pattern q \<and> q \<noteq> ''.'' \<and> q \<noteq> ''..'') \<and> length s \<le> 256)"
  (is "?accepted \<longleftrightarrow> ?grammar")
proof
  assume ?accepted
  then obtain u where len: "length s \<le> 256" and u: "accepted_parts u s"
    unfolding bounded_secret_reference_alt by blast
  define qs where "qs = filter (\<lambda>p. p \<noteq> []) (split_on (CHR ''/'') (u_path u))"
  have parts: "s = ''secret://'' @ u_netloc u @ u_path u" "provider_id_pattern (u_netloc u)" "qs \<noteq> []"
    "u_path u = ''/'' @ slash_join qs"
    and qs: "list_all (\<lambda>p. p \<notin> set [''.'', ''..''] \<and> segment_pattern p) qs"
    using u unfolding accepted_parts_def Let_def qs_def by blast+
  have "\<forall>q \<in> set qs. segment_pattern q \<and> q \<noteq> ''.'' \<and> q \<noteq> ''..''"
    using qs by (simp add: list_all_iff)
  moreover have "s = ''secret://'' @ u_netloc u @ concat (map (\<lambda>q. CHR ''/'' # q) qs)"
    using parts(1) unfolding parts(4) slash_join_eq [OF parts(3)] .
  ultimately show ?grammar using parts(2,3) len by blast
next
  assume ?grammar
  then obtain p qs where s: "s = ''secret://'' @ p @ concat (map (\<lambda>q. CHR ''/'' # q) qs)"
    and p: "provider_id_pattern p" and qs: "qs \<noteq> []"
      "\<forall>q \<in> set qs. segment_pattern q \<and> q \<noteq> ''.'' \<and> q \<noteq> ''..''" and len: "length s \<le> 256"
    by blast
  define path where "path = concat (map (\<lambda>q. CHR ''/'' # q) qs)"
  obtain q rs where "qs = q # rs" using qs(1) by (cases qs) auto
  then obtain t where path: "path = CHR ''/'' # t" "set t \<subseteq> set path" by (auto simp: path_def)
  have chars: "list_all reference_char p" "\<forall>q \<in> set qs. list_all reference_char q \<and> q \<noteq> []"
    using p qs(2) patterns_chars by blast+
  then have sets: "\<forall>c \<in> set p. reference_char c" "\<forall>c \<in> set path. reference_char c \<or> c = CHR ''/''"
    by (auto simp: path_def list_all_iff)
  then have split: "urlsplit lib s = Some \<lparr>u_scheme = ''secret'', u_netloc = p,
      u_path = path, u_query = [], u_fragment = []\<rparr>"
    unfolding s path_def [symmetric] path(1) using path(2) by (intro urlsplit_reference) auto
  have "is_ascii p" "is_ascii path"
  proof -
    have "byte_of (CHR ''/'') < 128" by (simp add: byte_of_def)
    then show "is_ascii p" "is_ascii path"
      using sets reference_charD(2) unfolding is_ascii_def list_all_iff by fastforce+
  qed
  moreover have "is_ascii ''secret://''" by code_simp
  ultimately have ascii: "\<not> has_surrogate s"
    unfolding s path_def [symmetric] by (intro has_surrogate_ascii) simp
  have "\<forall>q \<in> set qs. CHR ''/'' \<notin> set q"
    using chars(2) no_special by (auto simp: list_all_iff)
  then have parts: "filter (\<lambda>p. p \<noteq> []) (split_on (CHR ''/'') path) = qs"
    using chars(2) by (simp add: path_def split_on_slashes filter_id_conv)
  have "list_all (\<lambda>p. p \<notin> set [''.'', ''..''] \<and> segment_pattern p) qs"
    using qs(2) by (simp add: list_all_iff)
  moreover have "path = ''/'' @ slash_join qs" unfolding slash_join_eq [OF qs(1)] path_def ..
  ultimately have "accepted_parts \<lparr>u_scheme = ''secret'', u_netloc = p, u_path = path, u_query = [],
      u_fragment = []\<rparr> s"
    unfolding accepted_parts_def Let_def url.simps parts
    using p qs(1) s [folded path_def] by (intro conjI refl)
  with split len ascii show ?accepted unfolding bounded_secret_reference_alt by blast
qed

end
