(* ===== verification/IngressProperties.thy ===== *)
theory IngressProperties
  imports IngressEvidence
begin

text \<open>
  What the decoders of the ingress evidence guarantee: version numbers are read exactly, the cut
  columns never change a verdict, decoding is the inverse of listing the resources, and the connector
  of a failed run is the one its plan started.
\<close>

section \<open>Decimal texts\<close>

definition decimal :: "string \<Rightarrow> nat" where
  "decimal s = fold (\<lambda>c n. 10 * n + (byte_of c - 48)) s 0"

lemma decimal_snoc: "decimal (s @ [c]) = 10 * decimal s + (byte_of c - 48)"
  by (simp add: decimal_def)

lemma digit_char_of [simp]: "d < 10 \<Longrightarrow> digit_char (char_of (48 + d)) \<and> byte_of (char_of (48 + d)) = 48 + d"
  by (simp add: digit_char_def byte_of_def)

lemma char_of_digit: "digit_char c \<Longrightarrow> char_of (48 + (byte_of c - 48)) = c"
  by (simp add: digit_char_def byte_of_def)

lemma char_of_byte [simp]: "char_of (byte_of c) = c"
  by (simp add: byte_of_def)

lemma zero_digit: "c = CHR ''0'' \<longleftrightarrow> byte_of c = 48"
proof
  assume "byte_of c = 48"
  then have "c = char_of (48 :: nat)" by (metis char_of_byte)
  moreover have "char_of (48 :: nat) = CHR ''0''" by code_simp
  ultimately show "c = CHR ''0''" by simp
qed (simp add: byte_of_def)

lemma nat_text_digits: "list_all digit_char (nat_text n) \<and> nat_text n \<noteq> []"
proof (induction n rule: nat_text.induct)
  case (1 n)
  then show ?case by (subst (1 2) nat_text.simps) auto
qed

lemma decimal_nat_text: "decimal (nat_text n) = n"
proof (induction n rule: nat_text.induct)
  case (1 n)
  show ?case
  proof (cases "n < 10")
    case True
    then show ?thesis by (subst nat_text.simps) (simp add: decimal_def)
  next
    case False
    then show ?thesis using 1 by (subst nat_text.simps) (simp add: decimal_snoc)
  qed
qed

lemma nat_text_head: "0 < n \<Longrightarrow> hd (nat_text n) \<noteq> CHR ''0''"
proof (induction n rule: nat_text.induct)
  case (1 n)
  show ?case
  proof (cases "n < 10")
    case True
    then show ?thesis using 1(2) by (subst nat_text.simps) (simp add: zero_digit)
  next
    case False
    moreover have "nat_text (n div 10) \<noteq> []" using nat_text_digits by blast
    ultimately show ?thesis using 1 by (subst nat_text.simps) simp
  qed
qed

lemma nat_text_length: "n < 10 ^ Suc k \<Longrightarrow> length (nat_text n) \<le> Suc k"
proof (induction k arbitrary: n)
  case 0
  then show ?case by (subst nat_text.simps) simp
next
  case (Suc k)
  then have "n div 10 < 10 ^ Suc k" by (simp add: less_mult_imp_div_less)
  with Suc.IH show ?case by (subst nat_text.simps) simp
qed

lemma nat_text_decimal_text:
  "s \<noteq> [] \<Longrightarrow> list_all digit_char s \<Longrightarrow> hd s \<noteq> CHR ''0'' \<Longrightarrow> nat_text (decimal s) = s \<and> 0 < decimal s"
proof (induction s rule: rev_induct)
  case (snoc c s)
  have digit: "digit_char c" using snoc.prems by simp
  then have small: "byte_of c - 48 < 10" by (auto simp: digit_char_def)
  show ?case
  proof (cases "s = []")
    case True
    have "byte_of c \<noteq> 48" using snoc.prems True by (simp add: zero_digit)
    with digit have "byte_of c - 48 \<noteq> 0" by (simp add: digit_char_def)
    with True small digit show ?thesis
      by (subst nat_text.simps) (simp add: decimal_def char_of_digit)
  next
    case False
    then have IH: "nat_text (decimal s) = s" "0 < decimal s" using snoc by auto
    with small digit show ?thesis
      by (subst nat_text.simps) (simp add: decimal_snoc char_of_digit div_add1_eq)
  qed
qed simp

lemma digits_number_decimal: "digits_number s = int (decimal s)"
  by (simp add: digits_number_def decimal_def)

text \<open>
  Version numbers are read exactly.  The text of a provider version number is accepted if and only
  if it is the canonical decimal text of a number from 1 to 2147483647, and then the number is the one
  written: no sign, no leading zero, no space, no digit beyond ASCII, nothing that overflows 32 bits.
\<close>

lemma version_number_exact:
  "decode_version_number s = Some n \<longleftrightarrow> 1 \<le> n \<and> n \<le> 2147483647 \<and> s = int_text n"
proof
  assume "decode_version_number s = Some n"
  then obtain c cs where s: "s = c # cs" "digit_char c" "c \<noteq> CHR ''0''" "list_all digit_char cs"
    and n: "n = int (decimal s)" "n \<le> 2147483647"
    by (auto simp: decode_version_number_def digits_number_decimal split: list.splits if_splits)
  then have "nat_text (decimal s) = s" "0 < decimal s"
    using nat_text_decimal_text [of s] by simp_all
  with n show "1 \<le> n \<and> n \<le> 2147483647 \<and> s = int_text n" by (simp add: int_text_def)
next
  assume range: "1 \<le> n \<and> n \<le> 2147483647 \<and> s = int_text n"
  define m where "m = nat n"
  have m: "0 < m" "m < 10 ^ Suc 9" "n = int m" and s: "s = nat_text m"
    using range by (auto simp: m_def int_text_def)
  have "length s \<le> Suc 9" unfolding s using m(2) by (rule nat_text_length)
  moreover have "hd s \<noteq> CHR ''0''" unfolding s using m(1) by (rule nat_text_head)
  moreover have "list_all digit_char s" "s \<noteq> []" "decimal s = m"
    unfolding s using nat_text_digits decimal_nat_text by blast+
  moreover obtain c cs where "s = c # cs" using \<open>s \<noteq> []\<close> by (cases s) auto
  ultimately show "decode_version_number s = Some n"
    using range m(3) by (simp add: decode_version_number_def digits_number_decimal del: int_text_ascii)
qed

section \<open>Decoding inverts listing\<close>

definition short :: "string \<Rightarrow> bool" where
  "short s \<longleftrightarrow> s \<noteq> [] \<and> str_len s \<le> 255"

definition recorded :: "url_library \<Rightarrow> owned_resource \<Rightarrow> bool" where
  "recorded lib r \<longleftrightarrow>
     provider_kind r = ''cloudflare'' \<and> short (ingress_id r) \<and> 1 \<le> epoch r \<and>
     map fst (coordinates r) = [''tunnel_id'', ''dns_record_id'', ''hostname'', ''zone_id''] \<and>
     list_all short (map snd (coordinates r)) \<and> short (source_run_id r) \<and>
     bounded_secret_reference lib (JStr (secret_reference r)) \<and> short (provider_version_id r) \<and>
     1 \<le> provider_version_number r \<and> provider_version_number r \<le> 2147483647"

definition owned_row :: "owned_resource \<Rightarrow> json list" where
  "owned_row r =
     [JStr (provider_kind r), JStr (ingress_id r), JInt (epoch r)] @
     map JStr (map snd (coordinates r)) @
     [JStr (source_run_id r), JStr (secret_reference r), JStr (provider_version_id r),
      JStr (int_text (provider_version_number r))]"

definition identity :: "owned_resource \<Rightarrow> string \<times> int" where
  "identity r = (ingress_id r, epoch r)"

lemma coordinate_keys:
  "IDENTIFIER ''tunnel_id''" "IDENTIFIER ''dns_record_id''" "IDENTIFIER ''hostname''"
  "IDENTIFIER ''zone_id''"
  by code_simp+

lemma cloudflare_len [simp]: "str_len ''cloudflare'' = 10"
  by code_simp

lemma short_text_Inr: "short_text m (JStr s) = Inr t \<longleftrightarrow> t = s \<and> short s"
  by (auto simp: short_text_def short_def)

lemma positive_int_Inr: "positive_int m (JInt i) = Inr j \<longleftrightarrow> j = i \<and> 1 \<le> i"
  by (auto simp: positive_int_def)

lemma owned_coordinate_Inr:
  "owned_coordinate (k, JStr s) = Inr p \<longleftrightarrow> p = (k, s) \<and> IDENTIFIER k \<and> short s"
  by (auto simp: owned_coordinate_def short_text_Inr)

lemma well_typed_row_iff:
  "well_typed_row row \<longleftrightarrow>
     (\<exists>a e t d h z run ref v m. row = [JStr ''cloudflare'', JStr a, JInt e, JStr t, JStr d, JStr h, JStr z,
        JStr run, JStr ref, JStr v, JStr m])"
proof
  assume row: "well_typed_row row"
  then have "length row = Suc (Suc (Suc (Suc (Suc (Suc (Suc (Suc (Suc (Suc (Suc 0))))))))))"
    by (simp add: well_typed_row_def)
  then obtain a b c d e f g h i j k where r: "row = [a, b, c, d, e, f, g, h, i, j, k]"
    by (auto simp: length_Suc_conv)
  have str: "text_value v \<Longrightarrow> \<exists>s. v = JStr s" and num: "is_int v \<Longrightarrow> \<exists>i. v = JInt i" for v
    by (simp_all add: text_value_def is_int_def split: json.splits)
  show "\<exists>a e t d h z run ref v m. row = [JStr ''cloudflare'', JStr a, JInt e, JStr t, JStr d, JStr h, JStr z,
        JStr run, JStr ref, JStr v, JStr m]"
    using row unfolding r well_typed_row_def by (auto dest!: str num)
qed (auto simp: well_typed_row_def text_value_def is_int_def)

lemma decode_owned_row_Inr:
  "well_typed_row row \<and> decode_owned_row lib row = Inr r \<longleftrightarrow> recorded lib r \<and> row = owned_row r"
proof
  assume dec: "well_typed_row row \<and> decode_owned_row lib row = Inr r"
  then obtain a e t d h z run ref v m where
    row: "row = [JStr ''cloudflare'', JStr a, JInt e, JStr t, JStr d, JStr h, JStr z,
        JStr run, JStr ref, JStr v, JStr m]"
    unfolding well_typed_row_iff by blast
  obtain n where n: "decode_version_number m = Some n"
    using dec by (auto simp: row decode_owned_row_def split: option.splits)
  have "1 \<le> n" "n \<le> 2147483647" "m = int_text n"
    using n [unfolded version_number_exact] by simp_all
  moreover have "make_resource lib (raw_of_row row n) = Inr r"
    using dec n by (simp add: row decode_owned_row_def split: sum.splits)
  ultimately show "recorded lib r \<and> row = owned_row r"
    by (auto simp: make_resource_def raw_of_row_def row owned_text_def short_text_Inr positive_int_Inr
        owned_coordinate_Inr recorded_def owned_row_def)
next
  assume rec: "recorded lib r \<and> row = owned_row r"
  obtain t d h z where cs: "coordinates r = [(''tunnel_id'', t), (''dns_record_id'', d), (''hostname'', h),
      (''zone_id'', z)]"
    using rec by (auto simp: recorded_def map_eq_Cons_conv)
  have "decode_version_number (int_text (provider_version_number r)) = Some (provider_version_number r)"
    using rec by (simp add: version_number_exact recorded_def)
  then show "well_typed_row row \<and> decode_owned_row lib row = Inr r"
    using rec by (auto simp: well_typed_row_iff decode_owned_row_def owned_row_def recorded_def cs
        make_resource_def raw_of_row_def owned_text_def short_text_def short_def positive_int_Inr
        owned_coordinate_def positive_int_def coordinate_keys)
qed

lemma decode_owned_row_Inl: "decode_owned_row lib row = Inl e \<Longrightarrow> e = evidence_uncertain"
  by (auto simp: decode_owned_row_def split: option.splits sum.splits)

definition row_key :: "string \<times> int \<Rightarrow> json \<times> json" where
  "row_key p = (JStr (fst p), JInt (snd p))"

lemma decode_owned_rows_Inr:
  "decode_owned_rows lib seen rows = Inr rs \<longleftrightarrow>
     rows = map owned_row rs \<and> list_all (recorded lib) rs \<and> distinct (map identity rs) \<and>
     (\<forall>r \<in> set rs. row_key (identity r) \<notin> set seen)"
proof (induction rows arbitrary: seen rs)
  case Nil
  then show ?case by auto
next
  case (Cons row rows)
  have key: "(owned_row r ! 1, owned_row r ! 2) = row_key (identity r)" for r
    by (simp add: owned_row_def row_key_def identity_def)
  have inj: "row_key p = row_key q \<longleftrightarrow> p = q" for p q
    by (auto simp: row_key_def prod_eq_iff)
  have "decode_owned_rows lib seen (row # rows) = Inr rs \<longleftrightarrow>
      (\<exists>r rs'. rs = r # rs' \<and> (well_typed_row row \<and> decode_owned_row lib row = Inr r) \<and>
        (row ! 1, row ! 2) \<notin> set seen \<and>
        decode_owned_rows lib ((row ! 1, row ! 2) # seen) rows = Inr rs')"
    by auto
  also have "\<dots> \<longleftrightarrow> (\<exists>r rs'. rs = r # rs' \<and> recorded lib r \<and> row = owned_row r \<and>
        row_key (identity r) \<notin> set seen \<and>
        decode_owned_rows lib (row_key (identity r) # seen) rows = Inr rs')"
    unfolding decode_owned_row_Inr using key by (auto simp del: decode_owned_rows.simps)
  also have "\<dots> \<longleftrightarrow> row # rows = map owned_row rs \<and> list_all (recorded lib) rs \<and>
      distinct (map identity rs) \<and> (\<forall>r \<in> set rs. row_key (identity r) \<notin> set seen)"
    unfolding Cons.IH by (cases rs) (auto simp: inj image_iff dest: sym)
  finally show ?case .
qed

lemma decode_owned_rows_Inl: "decode_owned_rows lib seen rows = Inl e \<Longrightarrow> e = evidence_uncertain"
  by (induction lib seen rows rule: decode_owned_rows.induct)
    (auto simp: bindE_eq_Inl split: if_splits dest: decode_owned_row_Inl)

text \<open>
  C30.  The evidence of owned resources is decoded exactly.  The decoder accepts a list of rows if and
  only if it is the listing of a list of resources - Cloudflare's, with the four coordinates in order,
  every text non-empty and within its bound, a well-formed secret reference, a version number in 32
  bits, no ingress twice in an epoch - and it returns those resources; anything else is refused as
  uncertain.
\<close>

theorem owned_evidence_is_exact:
  "(decode_owned_resources lib rows = Inr rs \<longleftrightarrow>
      rows = map owned_row rs \<and> list_all (recorded lib) rs \<and> distinct (map identity rs)) \<and>
   (decode_owned_resources lib rows = Inl e \<longleftrightarrow>
      e = evidence_uncertain \<and>
      (\<nexists>rs. rows = map owned_row rs \<and> list_all (recorded lib) rs \<and> distinct (map identity rs)))"
proof -
  have accepted: "decode_owned_resources lib rows = Inr rs \<longleftrightarrow>
      rows = map owned_row rs \<and> list_all (recorded lib) rs \<and> distinct (map identity rs)" for rs
    by (simp add: decode_owned_resources_def decode_owned_rows_Inr)
  moreover have "decode_owned_resources lib rows = Inl e \<longleftrightarrow>
      e = evidence_uncertain \<and> (\<nexists>rs. decode_owned_resources lib rows = Inr rs)"
    by (cases "decode_owned_resources lib rows")
      (auto simp: decode_owned_resources_def dest: decode_owned_rows_Inl)
  ultimately show ?thesis by simp
qed

section \<open>Cut columns\<close>

lemma chars_of_groups:
  "s \<noteq> [] \<Longrightarrow> \<exists>g gs. chars_of s = g # gs \<and> g \<noteq> [] \<and> hd g = hd s \<and>
     str_len g = (if is_cont (hd s) then 0 else 1) \<and> list_all (\<lambda>h. str_len h = 1) gs"
proof (induction s)
  case (Cons c s)
  show ?case
  proof (cases s)
    case Nil
    then show ?thesis by (simp add: str_len_def)
  next
    case (Cons d t)
    then obtain g gs where g: "chars_of s = g # gs" "g \<noteq> []" "hd g = hd s"
      "str_len g = (if is_cont (hd s) then 0 else 1)" "list_all (\<lambda>h. str_len h = 1) gs"
      using Cons.IH by auto
    then show ?thesis by (auto simp: str_len_def)
  qed
qed simp

lemma str_len_concat: "list_all (\<lambda>g. str_len g = 1) gs \<Longrightarrow> str_len (concat gs) = length gs"
  by (induction gs) (auto simp: str_len_def)

lemma valid_utf8_groups: "valid_utf8 s \<Longrightarrow> list_all (\<lambda>g. str_len g = 1) (chars_of s)"
proof (cases s)
  case (Cons c t)
  assume "valid_utf8 s"
  then have "\<not> is_cont c" by (auto simp: Cons is_cont_def byte_in_def split: if_splits)
  then show ?thesis using chars_of_groups [of s] by (auto simp: Cons)
qed simp

text \<open>A text shorter than the bound after the cut was shorter before it, and is unchanged.\<close>

lemma cut_unchanged:
  assumes "valid_utf8 s" and "str_len s < n \<or> str_len (concat (take n (chars_of s))) < n"
  shows "concat (take n (chars_of s)) = s"
proof -
  have groups: "list_all (\<lambda>g. str_len g = 1) (chars_of s)" using assms(1) by (rule valid_utf8_groups)
  then have "list_all (\<lambda>g. str_len g = 1) (take n (chars_of s))"
    by (auto simp: list_all_iff dest: in_set_takeD)
  then have "str_len (concat (take n (chars_of s))) = min n (length (chars_of s))"
    by (simp add: str_len_concat min.commute)
  moreover have "str_len s = length (chars_of s)" using str_len_concat [OF groups] by simp
  ultimately show ?thesis using assms(2) by auto
qed

definition fits :: "nat option \<Rightarrow> json \<Rightarrow> bool" where
  "fits b v \<longleftrightarrow> (case b of None \<Rightarrow> True | Some n \<Rightarrow> (\<exists>s. v = JStr s \<and> str_len s < n))"

definition cut_column :: "nat option \<Rightarrow> json \<Rightarrow> json" where
  "cut_column b v = (case b of None \<Rightarrow> v | Some n \<Rightarrow> left_text n v)"

definition text_column :: "json \<Rightarrow> bool" where
  "text_column v \<longleftrightarrow> (case v of JStr s \<Rightarrow> valid_utf8 s | _ \<Rightarrow> True)"

lemma cut_column_fits: "text_column v \<Longrightarrow> fits b v \<or> fits b (cut_column b v) \<Longrightarrow> cut_column b v = v"
  by (auto simp: fits_def cut_column_def left_text_def text_column_def split: option.splits json.splits
      intro: cut_unchanged)

lemma bounded_columns_eq: "bounded_columns row = map2 cut_column column_bounds row"
  by (simp add: bounded_columns_def cut_column_def cong: map_cong)

lemma cut_columns_fit:
  "length bs = length row \<Longrightarrow> list_all text_column row \<Longrightarrow>
   list_all2 fits bs row \<or> list_all2 fits bs (map2 cut_column bs row) \<Longrightarrow> map2 cut_column bs row = row"
proof (induction bs row rule: list_induct2)
  case (Cons b bs v row)
  then show ?case using cut_column_fits [of v b] by auto
qed simp

lemma reference_bound: "bounded_secret_reference lib (JStr s) \<Longrightarrow> str_len s \<le> 256"
  using str_len_le [of s]
  by (auto simp: bounded_secret_reference_def MAX_SECRET_REFERENCE_BYTES_def split: option.splits)

lemma owned_row_fits: "recorded lib r \<Longrightarrow> list_all2 fits column_bounds (owned_row r)"
proof -
  assume rec: "recorded lib r"
  then obtain t d h z where cs: "coordinates r = [(''tunnel_id'', t), (''dns_record_id'', d),
      (''hostname'', h), (''zone_id'', z)]"
    by (auto simp: recorded_def map_eq_Cons_conv)
  have "str_len (int_text (provider_version_number r)) < 11"
  proof -
    have "1 \<le> provider_version_number r" "provider_version_number r \<le> 2147483647"
      using rec by (simp_all add: recorded_def)
    then have "nat (provider_version_number r) < 10 ^ Suc 9" by (simp add: nat_less_iff)
    from nat_text_length [OF this] show ?thesis
      using rec str_len_le [of "int_text (provider_version_number r)"]
      by (simp add: recorded_def int_text_def)
  qed
  moreover have "str_len (secret_reference r) < 257"
    using rec reference_bound [of lib "secret_reference r"] by (simp add: recorded_def)
  ultimately show ?thesis
    using rec by (simp add: recorded_def owned_row_def cs column_bounds_def fits_def short_def)
qed

lemma bounded_row_unchanged:
  assumes "length row = 11" and "list_all text_column row"
    and "well_typed_row row' \<and> decode_owned_row lib row' = Inr r" and "row' \<in> {row, bounded_columns row}"
  shows "bounded_columns row = row"
proof -
  have "list_all2 fits column_bounds row'"
    using assms(3) unfolding decode_owned_row_Inr using owned_row_fits by blast
  then show ?thesis
    using assms(1,2,4) unfolding bounded_columns_eq
    by (intro cut_columns_fit) (auto simp: column_bounds_def)
qed

text \<open>
  C31.  Bounding the query loses nothing.  The script reads the columns of the operations database cut
  to a few hundred characters; whatever the database holds, decoding the cut rows gives exactly what
  decoding the whole rows would give - no overlong value is ever shortened into an acceptable one, and
  no two resources are confused.
\<close>

theorem bounded_read_loses_nothing:
  assumes "list_all (\<lambda>row. length row = 11 \<and> list_all text_column row) rows"
  shows "decode_owned_resources lib (map bounded_columns rows) = decode_owned_resources lib rows"
proof -
  have "decode_owned_rows lib seen (map bounded_columns rows) = decode_owned_rows lib seen rows" for seen
    using assms
  proof (induction rows arbitrary: seen)
    case (Cons row rows)
    show ?case
    proof (cases "bounded_columns row = row")
      case True
      with Cons show ?thesis by simp
    next
      case False
      then have "\<not> (well_typed_row row' \<and> decode_owned_row lib row' = Inr r)"
        if "row' \<in> {row, bounded_columns row}" for row' r
        using that bounded_row_unchanged [of row row' lib r] Cons.prems by auto
      then have "decode_owned_rows lib seen (row' # rest) = Inl evidence_uncertain"
        if "row' \<in> {row, bounded_columns row}" for row' rest
        using that by (cases "decode_owned_row lib row'") (auto dest: decode_owned_row_Inl)
      then show ?thesis by simp
    qed
  qed simp
  then show ?thesis by (simp add: decode_owned_resources_def)
qed

definition wide_row :: "json list" where
  "wide_row =
     [JStr ''cloudflare'', JStr ''gw'', JInt 1, JStr ''t'', JStr ''d'', JStr (replicate 300 (CHR ''h'')), JStr ''z'',
      JStr ''run'', JStr ''secret://p/s'', JNull, JStr ''12'']"

lemma bounded_read_loses_nothing_witness:
  "decode_owned_resources \<lparr>ipv6 = \<lambda>_. False, plain_netloc = \<lambda>_. False\<rparr> (map bounded_columns [wide_row]) =
   decode_owned_resources \<lparr>ipv6 = \<lambda>_. False, plain_netloc = \<lambda>_. False\<rparr> [wide_row]"
proof (rule bounded_read_loses_nothing)
  have "valid_utf8 (replicate n (CHR ''h''))" for n
    by (rule valid_utf8_ascii) (simp add: is_ascii_def list_all_iff byte_of_def)
  moreover have "valid_utf8 ''cloudflare''" "valid_utf8 ''gw''" "valid_utf8 ''t''" "valid_utf8 ''d''" "valid_utf8 ''z''"
    "valid_utf8 ''run''" "valid_utf8 ''secret://p/s''" "valid_utf8 ''12''"
    by code_simp+
  ultimately show "list_all (\<lambda>row. length row = 11 \<and> list_all text_column row) [wide_row]"
    by (simp add: wide_row_def text_column_def)
qed

section \<open>The connector of a failed run\<close>

text \<open>
  What the rows of a run have to show: the run is the expected one, it failed, its plan has exactly one
  activity that starts the node, exactly one of its recorded steps belongs to that activity, and that
  step names the node and the container.
\<close>

definition connector_evidence :: "string \<Rightarrow> string \<Rightarrow> string \<Rightarrow> json list list \<Rightarrow> failed_effect \<Rightarrow> bool" where
  "connector_evidence ws run node rows e \<longleftrightarrow>
     fe_workspace_id e = ws \<and> fe_run_id e = run \<and> fe_node_id e = node \<and>
     (\<exists>row rest activities activity event.
        rows = row # rest \<and> row ! 0 = JStr run \<and> row ! 1 = JStr ''failed'' \<and> row ! 2 = JStr ws \<and>
        field (row ! 5) ''activities'' = JArr activities \<and>
        filter (starts_node node) activities = [activity] \<and>
        field activity ''activity_id'' = JStr (fe_activity_id e) \<and>
        filter (event_of (JStr (fe_activity_id e))) rows = [event] \<and>
        field (field (event ! 6) ''evidence'') ''node_id'' = JStr node \<and>
        field (field (event ! 6) ''evidence'') ''container'' = JStr (fe_container_name e))"

lemma make_effect_Inr:
  assumes "make_effect (JStr w) (JStr r) p g a t n c = Inr e"
  shows "fe_workspace_id e = w \<and> fe_run_id e = r \<and> n = JStr (fe_node_id e) \<and>
    a = JStr (fe_activity_id e) \<and> c = JStr (fe_container_name e)"
proof -
  have str: "effect_text v = Inr s \<Longrightarrow> v = JStr s" for v s
    by (auto simp: effect_text_def split: json.splits if_splits)
  then show ?thesis using assms by (auto simp: make_effect_def dest!: str)
qed

lemma decode_failed_connector_sound:
  assumes "decode_failed_connector ws run node rows = Inr e"
  shows "connector_evidence ws run node rows e"
proof -
  obtain row rest where rows: "rows = row # rest"
    using assms by (cases rows) (auto simp: decode_failed_connector_def)
  obtain activities where head: "row ! 0 = JStr run" "row ! 1 = JStr ''failed''" "row ! 2 = JStr ws"
    and activities: "field (row ! 5) ''activities'' = JArr activities"
    using assms by (auto simp: decode_failed_connector_def rows Let_def split: if_splits json.splits)
  obtain activity where activity: "filter (starts_node node) activities = [activity]"
    using assms by (auto simp: decode_failed_connector_def rows Let_def activities split: if_splits list.splits)
  obtain event where event: "filter (event_of (field activity ''activity_id'')) rows = [event]"
    using assms by (auto simp: decode_failed_connector_def rows Let_def activities activity
        simp del: filter.simps split: if_splits list.splits)
  have node: "field (field (event ! 6) ''evidence'') ''node_id'' = JStr node"
    and made: "make_effect (JStr ws) (JStr run) (row ! 3) (row ! 4) (field activity ''activity_id'')
      (field (field (event ! 6) ''evidence'') ''runtime_id'') (JStr node)
      (field (field (event ! 6) ''evidence'') ''container'') = Inr e"
    using assms head event by (auto simp: decode_failed_connector_def rows Let_def activities activity
        simp del: filter.simps split: if_splits)
  show ?thesis
    unfolding connector_evidence_def using make_effect_Inr [OF made] rows head activities activity event node
    by auto
qed

lemma decode_connector_run_Some:
  assumes "decode_connector_run ws run node g rows = Inr (Some e)"
  shows "decode_failed_connector ws run node rows = Inr e"
  using assms by (auto simp: decode_connector_run_def Let_def split: if_splits)

end
