(* ===== verification/AbortCleanupProperties.thy ===== *)
theory AbortCleanupProperties
  imports AbortCleanup AbortProperties IngressProperties "HOL-Library.Code_Target_Numeral"
begin

text \<open>
  What the abort clean-up guarantees: whatever the services answer, nothing outside is revoked, stopped
  or deleted but what the evidence of this workspace names, and the exit status says which proof of
  absence succeeded.
\<close>

section \<open>Calls that change something outside\<close>

text \<open>\<open>touches P m\<close>: every change \<open>m\<close> makes outside satisfies \<open>P\<close>, however it ends.\<close>

definition touches :: "(custody_effect \<Rightarrow> bool) \<Rightarrow> ('w, 'a) custody \<Rightarrow> bool" where
  "touches P m \<longleftrightarrow>
     (\<forall>st. \<exists>new. effects (snd (m st)) = effects st @ new \<and> list_all P new)"

named_theorems touching \<open>rules for what an action changes outside\<close>

lemma touchesD:
  assumes "touches P m" and "m st = (r, st')"
  obtains new where "effects st' = effects st @ new" and "list_all P new"
  using assms unfolding touches_def by (metis snd_conv)

lemma touches_mono: "touches P m \<Longrightarrow> (\<And>x. P x \<Longrightarrow> Q x) \<Longrightarrow> touches Q m"
  unfolding touches_def by (metis list.pred_mono_strong)

lemma touches_same: "(\<And>st. effects (snd (m st)) = effects st) \<Longrightarrow> touches P m"
  unfolding touches_def by (metis append_Nil2 list.pred_inject(1))

lemma touches_ret [touching]: "touches P (ret x)" by (rule touches_same) (simp add: action_simps)
lemma touches_raise [touching]: "touches P (raise e)" by (rule touches_same) (simp add: action_simps)

lemma touches_world [touching]: "touches P (in_world m)"
  by (rule touches_same) (simp add: in_world_def split: prod.split)

lemma touches_hosted [touching]: "touches P (on_hosted m)"
  by (rule touches_same) (simp add: on_hosted_def split: prod.split sum.split)

lemma touches_disk [touching]: "touches P (at_disk m)"
  by (rule touches_same) (simp add: at_disk_def split: prod.split)

lemma touches_print [touching]: "touches P (print_line l)"
  by (rule touches_same) (simp add: print_line_def action_simps)

lemma touches_checked [touching]: "touches P (checked r)"
  by (rule touches_same) (simp add: checked_def action_simps split: sum.split)

lemma touches_bind [touching]:
  assumes "touches P m" and "\<And>x. touches P (k x)"
  shows "touches P (bindA m k)"
  unfolding touches_def
proof
  fix st
  obtain r st1 where m: "m st = (r, st1)" by (rule prod.exhaust)
  obtain new where new: "effects st1 = effects st @ new" "list_all P new"
    using assms(1) m by (rule touchesD)
  show "\<exists>new. effects (snd (bindA m k st)) = effects st @ new \<and> list_all P new"
  proof (cases r)
    case (Inl e)
    then show ?thesis using new by (simp add: bindA_def m)
  next
    case (Inr x)
    obtain new' where "effects (snd (k x st1)) = effects st1 @ new'" "list_all P new'"
      using assms(2) [of x] unfolding touches_def by blast
    then have "effects (snd (bindA m k st)) = effects st @ (new @ new')" "list_all P (new @ new')"
      using new by (simp_all add: bindA_def m Inr)
    then show ?thesis by blast
  qed
qed

lemma touches_try [touching]:
  assumes "touches P m" and "\<And>e. touches P (h e)"
  shows "touches P (tryA m h)"
  unfolding touches_def
proof
  fix st
  obtain r st1 where m: "m st = (r, st1)" by (rule prod.exhaust)
  obtain new where new: "effects st1 = effects st @ new" "list_all P new"
    using assms(1) m by (rule touchesD)
  show "\<exists>new. effects (snd (tryA m h st)) = effects st @ new \<and> list_all P new"
  proof (cases r)
    case (Inr x)
    then show ?thesis using new by (simp add: tryA_def m)
  next
    case (Inl e)
    obtain new' where "effects (snd (h e st1)) = effects st1 @ new'" "list_all P new'"
      using assms(2) [of e] unfolding touches_def by blast
    then have "effects (snd (tryA m h st)) = effects st @ (new @ new')" "list_all P (new @ new')"
      using new by (simp_all add: tryA_def m Inl)
    then show ?thesis by blast
  qed
qed

lemma touches_if [touching]:
  "(c \<Longrightarrow> touches P m) \<Longrightarrow> (\<not> c \<Longrightarrow> touches P n) \<Longrightarrow> touches P (if c then m else n)"
  by simp

lemma touches_option [touching]:
  "(x = None \<Longrightarrow> touches P m) \<Longrightarrow> (\<And>y. x = Some y \<Longrightarrow> touches P (k y)) \<Longrightarrow>
   touches P (case x of None \<Rightarrow> m | Some y \<Rightarrow> k y)"
  by (cases x) auto

lemma touches_prod [touching]: "(\<And>a b. x = (a, b) \<Longrightarrow> touches P (k a b)) \<Longrightarrow> touches P (case x of (a, b) \<Rightarrow> k a b)"
  by (cases x) auto

lemma touches_json [touching]:
  assumes "\<And>s. touches P (f s)" "touches P g" "\<And>b. touches P (fb b)" "\<And>i. touches P (fi i)"
    "\<And>x. touches P (ff x)" "\<And>xs. touches P (fa xs)" "\<And>d. touches P (fo d)"
  shows "touches P (case v of JNull \<Rightarrow> g | JBool b \<Rightarrow> fb b | JInt i \<Rightarrow> fi i | JFloat x \<Rightarrow> ff x
     | JStr s \<Rightarrow> f s | JArr xs \<Rightarrow> fa xs | JObj d \<Rightarrow> fo d)"
  using assms by (cases v) auto

lemma touches_list [touching]:
  "(xs = [] \<Longrightarrow> touches P m) \<Longrightarrow> (\<And>y ys. xs = y # ys \<Longrightarrow> touches P (k y ys)) \<Longrightarrow>
   touches P (case xs of [] \<Rightarrow> m | y # ys \<Rightarrow> k y ys)"
  by (cases xs) auto

lemma touches_change [touching]: "P x \<Longrightarrow> touches P (change_outside x m)"
  unfolding change_outside_def touches_def
  by (auto simp: bindA_def modA_apply in_world_def split: prod.split)

lemma touches_failed [touching]: "touches P m \<Longrightarrow> touches P (failed_with_exception m)"
  unfolding failed_with_exception_def by (intro touching)

lemma touches_stage [touching]: "touches P m \<Longrightarrow> touches P (failed_stage n m)"
  unfolding failed_stage_def by (intro touching)

lemma touches_each [touching]: "(\<And>x. x \<in> set xs \<Longrightarrow> touches P (m x)) \<Longrightarrow> touches P (each_resource m xs)"
  by (induction xs) (auto intro: touching)

section \<open>Reads change nothing\<close>

lemma touches_required [touching]: "touches P (demand_env env n)"
  unfolding demand_env_def required_env_def by (intro touching)

lemma touches_file [touching]: "touches P (stripped_file env f)"
  unfolding stripped_file_def by (intro touching)

lemma touches_cloudflare [touching]:
  "touches P (cloudflare_get env p f)" "touches P (cloudflare_api_get_json env p f)"
  "touches P (assert_cloudflare_resource_absent env p f)"
  "touches P (assert_cloudflare_tunnel_deleted env a t f)"
  unfolding cloudflare_get_def cloudflare_api_get_json_def assert_cloudflare_resource_absent_def
    assert_cloudflare_tunnel_deleted_def Let_def
  by (intro touching)+

lemma touches_pages [touching]: "touches P (inventory_pages env path f names q n records)"
  by (induction n arbitrary: records) (auto simp: Let_def intro!: touching)

lemma touches_inventory [touching]: "touches P (assert_source_live_inventory_unchanged env f)"
  unfolding assert_source_live_inventory_unchanged_def with_inventory_file_def assert_inventory_unchanged_def
    read_baseline_def inventory_snapshot_def bounded_inventory_def Let_def
  by (intro touching)

lemma touches_connectors [touching]: "touches P (load_connectors env ws g runs)"
  by (induction runs) (auto simp: load_connector_run_def intro!: touching)

lemma touches_absent [touching]: "touches P (assert_failed_connectors_absent env rs known)"
  unfolding assert_failed_connectors_absent_def assert_exact_failed_connector_absent_def by (intro touching)

lemma touches_audit [touching]: "touches P (assert_versions_revoked env rs c ws)"
  unfolding assert_versions_revoked_def audit_rows_def by (intro touching)

lemma touches_disconnect [touching]: "touches P (disconnect_all env xs)"
  by (induction env xs rule: disconnect_all.induct) (auto split: disconnected.split intro!: touching)

lemma touches_verify [touching]:
  "touches P (verify_authoritative env p c ws ev)" "touches P (verify_emergency env p ws ev)"
  unfolding verify_authoritative_def verify_emergency_def assert_no_node_containers_def
    assert_owned_resources_removed_def removal_row_def assert_physically_absent_def
  by (intro touching)+

lemma touches_authoritative [touching]: "touches P (authoritative_action env p c ws)"
  unfolding authoritative_action_def disconnect_runtime_networks_def Let_def by (intro touching)

lemma touches_gather [touching]: "touches P (gather_evidence env c ws)" "touches P (read_cleanup_checkpoint env)"
  unfolding gather_evidence_def load_active_resources_def load_all_resources_def read_cleanup_checkpoint_def
  by (intro touching)+

section \<open>Only what the evidence names\<close>

text \<open>A change that concerns the resource \<open>r\<close> and the failed connector \<open>e\<close> of its run.\<close>

definition concerns :: "string \<Rightarrow> owned_resource \<Rightarrow> failed_effect \<Rightarrow> custody_effect \<Rightarrow> bool" where
  "concerns ws r e x \<longleftrightarrow>
     (case x of
        Provider_call rq \<Rightarrow>
          hr_method rq = ''POST'' \<and>
          hr_path rq = PROVIDER_BASE_URL @ provider_secret_path ws (secret_reference r)
            (''/versions/'' @ quote (provider_version_id r) @ ''/revoke'') \<and>
          (\<exists>d. hr_payload rq = Some (JObj d) \<and> get d ''version_number'' = JInt (provider_version_number r))
      | Stop_container n \<Rightarrow> n = fe_container_name e
      | Remove_container n \<Rightarrow> n = fe_container_name e
      | Delete_dns_record a i \<Rightarrow> ca_zone_id a = coordinate r ''zone_id'' \<and> i = coordinate r ''dns_record_id''
      | Delete_connections a i \<Rightarrow> ca_zone_id a = coordinate r ''zone_id'' \<and> i = coordinate r ''tunnel_id''
      | Delete_tunnel a i \<Rightarrow> ca_zone_id a = coordinate r ''zone_id'' \<and> i = coordinate r ''tunnel_id'')"

lemma touches_revoke:
  "touches (concerns ws r e)
     (provider_revoke_exact_version env ws (secret_reference r) (provider_version_id r)
        (provider_version_number r) f c)"
  unfolding provider_revoke_exact_version_def provider_command_def provider_request_def Let_def
  by (intro touching) (simp add: concerns_def get_def)

lemma touches_stop: "touches (concerns ws r e) (stop_remove_exact_failed_connector env e)"
  unfolding stop_remove_exact_failed_connector_def
  by (intro touching) (simp_all add: concerns_def labels_match_def)

lemma touches_client: "touches P (cloudflare_client env f r)"
  unfolding cloudflare_client_def Let_def by (intro touching)

lemma touches_deletes:
  "ca_zone_id a = coordinate r ''zone_id'' \<Longrightarrow> touches (concerns ws r e) (delete_resources env a r)"
  unfolding delete_resources_def by (intro touching) (simp_all add: concerns_def)

lemma client_zone: "cloudflare_client env f r st = (Inr a, st') \<Longrightarrow> ca_zone_id a = coordinate r ''zone_id''"
  by (auto simp: cloudflare_client_def bindA_Inr Let_def action_simps)

text \<open>The rule for a bind whose continuation depends on what the first action can return.\<close>

lemma touches_bind_result:
  assumes "touches P m" and "\<And>x st st'. m st = (Inr x, st') \<Longrightarrow> touches P (k x)"
  shows "touches P (bindA m k)"
proof -
  have "bindA m k = bindA m (\<lambda>x. if \<exists>st st'. m st = (Inr x, st') then k x else raise Stopped)"
    by (rule ext) (auto simp: bindA_def split: prod.split sum.split)
  then show ?thesis using assms by (auto intro!: touches_bind touching)
qed

lemma touches_compensate:
  "touches (concerns ws r e) (emergency_compensate env ws pt at (Some e) required r)"
proof -
  have zone: "ca_zone_id a = coordinate r ''zone_id''"
    if "tryA (bindA (cloudflare_client env at r) (\<lambda>a. ret (Some a)))
        (\<lambda>e. if e = Stopped then raise Stopped else ret None) st = (Inr (Some a), st')" for a st st'
    using that client_zone [of env at r]
    by (auto simp: tryA_def bindA_def action_simps split: prod.splits sum.splits if_splits)
  show ?thesis
    unfolding emergency_compensate_def option.case
    by (intro touches_bind [OF touches_stage] touches_revoke touches_stop touches_bind_result touches_try
        touches_bind [OF touches_client] touches_ret touches_if touches_raise touches_option
        touches_bind [OF touches_deletes])
      (auto dest: zone)
qed

lemma touches_resources:
  assumes "\<And>r. r \<in> set rs \<Longrightarrow> \<exists>e. map_of failed (source_run_id r) = Some e"
    and "\<And>r e x. r \<in> set rs \<Longrightarrow> map_of failed (source_run_id r) = Some e \<Longrightarrow> concerns ws r e x \<Longrightarrow> P x"
  shows "touches P (compensate_resources
    [(''cloudflare'', \<lambda>r. emergency_compensate env ws pt at (map_of failed (source_run_id r)) (req r) r)] rs)"
  using assms
proof (induction rs)
  case (Cons r rs)
  then obtain e where e: "map_of failed (source_run_id r) = Some e" by fastforce
  have "touches P (emergency_compensate env ws pt at (map_of failed (source_run_id r)) (req r) r)"
    unfolding e by (rule touches_mono [OF touches_compensate]) (rule Cons.prems(2), simp_all add: e)
  moreover have "touches P (compensate_resources
    [(''cloudflare'', \<lambda>r. emergency_compensate env ws pt at (map_of failed (source_run_id r)) (req r) r)] rs)"
    by (rule Cons.IH) (use Cons.prems in auto)
  ultimately show ?case by (auto intro!: touching)
qed (auto intro: touching)

lemma touches_cleanup:
  assumes "\<And>r e x. r \<in> set (ev_active ev) \<Longrightarrow> map_of (fst (ev_connectors ev)) (source_run_id r) = Some e \<Longrightarrow>
      concerns ws r e x \<Longrightarrow> P x"
  shows "touches P (compensate_abort (cleanup_compensation env p c ws ev))"
proof -
  have "\<exists>e. map_of (fst (ev_connectors ev)) (source_run_id r) = Some e" if "r \<in> set (emergency_set ev)" for r
    using that by (auto simp: emergency_set_def dest: weak_map_of_SomeI)
  moreover have "r \<in> set (ev_active ev)" if "r \<in> set (emergency_set ev)" for r
    using that by (simp add: emergency_set_def)
  ultimately have "touches P (compensate_resources (compensators (cleanup_compensation env p c ws ev))
      (emergency_resources (cleanup_compensation env p c ws ev)))"
    using assms unfolding cleanup_compensation_def compensation.simps
    by (intro touches_resources) blast+
  then show ?thesis
    unfolding compensate_abort_def emergency_def Let_def
    by (intro touching) (simp_all add: cleanup_compensation_def touching)
qed

section \<open>Where the evidence comes from\<close>

lemma checked_Inr [simp]: "checked r st = (Inr x, st') \<longleftrightarrow> r = Inr x \<and> st' = st"
  by (auto simp: checked_def action_simps split: sum.split)

lemma active_evidence:
  assumes "load_active_resources env ws st = (Inr active, st')"
  shows "\<exists>rows w. fst (cu_active_rows env ws w) = Inr rows \<and> map bounded_columns rows = map owned_row active \<and>
    list_all (recorded (cu_urls env)) active"
proof -
  obtain rows u where rows: "in_world (cu_active_rows env ws) st = (Inr rows, u)"
    and dec: "decode_owned_resources (cu_urls env) (map bounded_columns rows) = Inr active"
    using assms by (auto simp: load_active_resources_def bindA_Inr)
  have "fst (cu_active_rows env ws (outside (hosted st))) = Inr rows"
    using rows by (auto simp: in_world_def split: prod.splits)
  with dec show ?thesis
    unfolding decode_owned_resources_def decode_owned_rows_Inr by blast
qed

definition connector_of :: "'w custody_env \<Rightarrow> string \<Rightarrow> string \<Rightarrow> failed_effect \<Rightarrow> bool" where
  "connector_of env ws run e \<longleftrightarrow>
     (\<exists>w rows. fst (cu_run_rows env run w) = Inr rows \<and> connector_evidence ws run CONNECTOR_NODE rows e)"

lemma load_connectors_sound:
  assumes "load_connectors env ws g runs st = (Inr (failed, unknown), st')"
  shows "list_all (\<lambda>(run, e). connector_of env ws run e) failed"
  using assms
proof (induction runs arbitrary: st st' failed unknown)
  case (Cons run runs)
  obtain outcome st1 failed' unknown' where
    outcome: "tryA (bindA (load_connector_run env ws run g) (\<lambda>e. ret (Some e)))
        (\<lambda>e. if e = Stopped then raise Stopped else ret None) st = (Inr outcome, st1)"
    and rest: "load_connectors env ws g runs st1 = (Inr (failed', unknown'), st')"
    and failed: "(case outcome of None \<Rightarrow> (failed', run # unknown') | Some None \<Rightarrow> (failed', unknown')
      | Some (Some e) \<Rightarrow> ((run, e) # failed', unknown')) = (failed, unknown)"
    using Cons.prems by (auto simp: bindA_Inr ret_apply)
  have "connector_of env ws run e" if "outcome = Some (Some e)" for e
  proof -
    have "load_connector_run env ws run g st = (Inr (Some e), st1)"
      using outcome that by (auto simp: tryA_def bindA_def action_simps split: prod.splits sum.splits if_splits)
    then obtain rows u where rows: "in_world (cu_run_rows env run) st = (Inr rows, u)"
      and dec: "decode_connector_run ws run CONNECTOR_NODE g rows = Inr (Some e)"
      by (auto simp: load_connector_run_def bindA_Inr)
    have "fst (cu_run_rows env run (outside (hosted st))) = Inr rows"
      using rows by (auto simp: in_world_def split: prod.splits)
    with dec show ?thesis
      unfolding connector_of_def using decode_connector_run_Some decode_failed_connector_sound by blast
  qed
  with Cons.IH [OF rest] failed show ?case by (auto split: option.splits)
qed (simp add: action_simps)

text \<open>
  A change the clean-up may make: some row of this workspace's active resources is the resource, and
  some answer about the run that created it proves the connector.
\<close>

definition authorized :: "'w custody_env \<Rightarrow> custody_effect \<Rightarrow> bool" where
  "authorized env x \<longleftrightarrow>
     (\<exists>ws w rows r e.
        map_of (cu_environ env) ''CPK_HOSTED_ACTIVITY_WORKSPACE_ID'' = Some ws \<and>
        fst (cu_active_rows env ws w) = Inr rows \<and> owned_row r \<in> set (map bounded_columns rows) \<and>
        recorded (cu_urls env) r \<and> connector_of env ws (source_run_id r) e \<and> concerns ws r e x)"

lemma touches_authorized:
  assumes gather: "gather_evidence env c ws st1 = (Inr ev, st2)"
    and ws: "map_of (cu_environ env) ''CPK_HOSTED_ACTIVITY_WORKSPACE_ID'' = Some ws"
  shows "touches (authorized env) (compensate_abort (cleanup_compensation env p c ws ev))"
proof (rule touches_cleanup)
  fix r e x
  assume r: "r \<in> set (ev_active ev)" and e: "map_of (fst (ev_connectors ev)) (source_run_id r) = Some e"
    and x: "concerns ws r e x"
  obtain st3 st4 st5 st6 where active: "load_active_resources env ws st3 = (Inr (ev_active ev), st4)"
    and known: "load_connectors env ws (string_value (cp_current_graph_id c)) (runs_of (ev_active ev)) st5 =
      (Inr (ev_connectors ev), st6)"
    using gather by (auto simp: gather_evidence_def bindA_Inr action_simps split: if_splits)
  obtain rows w where rows: "fst (cu_active_rows env ws w) = Inr rows"
    "map bounded_columns rows = map owned_row (ev_active ev)" "list_all (recorded (cu_urls env)) (ev_active ev)"
    using active_evidence [OF active] by blast
  have "owned_row r \<in> set (map bounded_columns rows)" "recorded (cu_urls env) r"
    using r rows(2,3) by (auto simp: list_all_iff)
  moreover have "connector_of env ws (source_run_id r) e"
  proof -
    have "load_connectors env ws (string_value (cp_current_graph_id c)) (runs_of (ev_active ev)) st5 =
        (Inr (fst (ev_connectors ev), snd (ev_connectors ev)), st6)"
      using known by simp
    from load_connectors_sound [OF this] map_of_SomeD [OF e] show ?thesis by (auto simp: list_all_iff)
  qed
  ultimately show "authorized env x"
    unfolding authorized_def using ws rows(1) x by blast
qed

text \<open>
  C28.  The abort clean-up touches nothing but what it can prove it owns.  Whatever the database, the
  hosted server, the secret provider, Docker and Cloudflare answer, and however the clean-up ends - also
  when it is interrupted - every secret version it asks to revoke, every container it stops or removes
  and every DNS record, tunnel connection and tunnel it deletes is the one named by an active row of the
  configured workspace, and only for a run whose own rows prove that it failed after starting exactly one
  connector in exactly one recorded step.  Nothing else outside is changed.
\<close>

theorem abort_touches_only_owned: "touches (authorized env) (run_abort_cleanup env p)"
proof -
  have env: "map_of (cu_environ env) ''CPK_HOSTED_ACTIVITY_WORKSPACE_ID'' = Some ws"
    if "read_cleanup_checkpoint env st = (Inr (c, ws), st')" for c ws st st'
    using that by (auto simp: read_cleanup_checkpoint_def demand_env_def required_env_def bindA_Inr action_simps
        split: if_splits option.splits list.splits)
  show ?thesis
    unfolding run_abort_cleanup_def
  proof (rule touches_bind_result)
    fix x and st st' :: "'a custody_state"
    assume read: "read_cleanup_checkpoint env st = (Inr x, st')"
    show "touches (authorized env) (case x of (c, ws) \<Rightarrow> bindA (gather_evidence env c ws) (\<lambda>ev.
      thenA (print_line (snapshot_line c ev))
      (bindA (compensate_abort (cleanup_compensation env p c ws ev)) (\<lambda>r.
       thenA (assert_source_live_inventory_unchanged env (cl_api_token p))
       (thenA (print_line (report_line r)) (ret (if authoritative r then 0 else 2)))))))"
    proof (rule touches_prod, rule touches_bind_result)
      fix c ws ev and st1 st2 :: "'a custody_state"
      assume "x = (c, ws)" and gather: "gather_evidence env c ws st1 = (Inr ev, st2)"
      then have "touches (authorized env) (compensate_abort (cleanup_compensation env p c ws ev))"
        using read env by (intro touches_authorized) auto
      then show "touches (authorized env) (thenA (print_line (snapshot_line c ev))
          (bindA (compensate_abort (cleanup_compensation env p c ws ev)) (\<lambda>r.
           thenA (assert_source_live_inventory_unchanged env (cl_api_token p))
           (thenA (print_line (report_line r)) (ret (if authoritative r then 0 else 2))))))"
        by (intro touching)
    qed (rule touching)
  qed (rule touching)
qed

section \<open>The exit status\<close>


section \<open>A run\<close>

text \<open>
  A server that does not answer, one active resource whose run failed, a database that does not say it
  is removed: the emergency path revokes, removes and deletes, and proves it.
\<close>

definition run_urls :: url_library where
  "run_urls = \<lparr>ipv6 = \<lambda>_. False, plain_netloc = \<lambda>_. False\<rparr>"

definition cleanup_resource :: owned_resource where
  "cleanup_resource =
     \<lparr>provider_kind = ''cloudflare'', ingress_id = ''gw'', epoch = 1,
      coordinates = [(''tunnel_id'', ''t1''), (''dns_record_id'', ''d1''), (''hostname'', ''h''),
        (''zone_id'', ''z1'')],
      source_run_id = ''run-1'', secret_reference = ''secret://cpk/gw'', provider_version_id = ''v1'',
      provider_version_number = 3\<rparr>"

definition cleanup_run_row :: "json list" where
  "cleanup_run_row =
     [JStr ''run-1'', JStr ''failed'', JStr ''w1'', JStr ''p1'', JStr ''g2'',
      JObj [(''activities'', JArr [JObj [(''activity_id'', JStr ''a1''),
        (''operation'', JObj [(''kind'', JStr ''start-node''),
          (''target'', JObj [(''kind'', JStr ''node''), (''node_id'', JStr ''cloudflared-gateway'')])])]])],
      JObj [(''activity_id'', JStr ''a1''),
        (''evidence'', JObj [(''node_id'', JStr ''cloudflared-gateway''), (''runtime_id'', JStr ''r1''),
          (''container'', JStr ''c1'')])]]"

definition cleanup_loads :: "string \<Rightarrow> json option" where
  "cleanup_loads s =
     (if s = ''checkpoint'' then Some (JObj [(''workspace_id'', JStr ''w1''), (''phase'', JStr ''live''),
         (''current_graph_id'', JStr ''g1''), (''desired_graph_id'', JStr ''g2'')])
      else if s = ''audit'' then Some (JArr [JObj [(''outcome'', JStr ''revoked''), (''version_id'', JStr ''v1'')]])
      else if s = ''none'' then Some (JObj [(''success'', JBool True), (''result'', JArr [])])
      else if s = ''revoked'' then Some (JObj [(''outcome'', JStr ''revoked'')])
      else None)"

definition cleanup_hosted :: "unit hosted_env" where
  "cleanup_hosted =
     \<lparr>h_exchange = \<lambda>_ w. (Unreachable, w),
      h_docker = \<lparr>docker_networks = \<lambda>_. ret [], docker_container = \<lambda>_. ret None,
                  docker_attached = \<lambda>_. ret [], docker_connect = \<lambda>_ _. ret True\<rparr>,
      h_loads = cleanup_loads, h_float = \<lambda>_. [], h_repr = \<lambda>_. [], h_digits = \<lambda>_. None,
      h_hostname = ''host'', plan_request_scope = ''r'', plan_execute_scope = ''e'',
      execution_operate_scope = ''o''\<rparr>"

definition cleanup_env :: "unit custody_env" where
  "cleanup_env =
     \<lparr>cu_hosted = cleanup_hosted,
      cu_environ = [(''CPK_SOURCE_LIVE_STATE_FILE'', ''/s''), (''CPK_HOSTED_ACTIVITY_WORKSPACE_ID'', ''w1''),
        (''OPENJ92_CLOUDFLARE_ACCOUNT_ID'', ''acc''), (''OPENJ92_CLOUDFLARE_ZONE'', ''zone'')],
      cu_urls = run_urls, cu_sha256 = \<lambda>s. s, cu_loads_bytes = cleanup_loads,
      cu_file = \<lambda>_. ret ''token'', cu_provider = \<lambda>_. ret (200, ''revoked''),
      cu_cloudflare = \<lambda>rq. ret (if contains ''is_deleted'' (hr_path rq) then (200, ''none'') else (404, [])),
      cu_container = \<lambda>_. ret None, cu_stop = \<lambda>_. ret (), cu_remove = \<lambda>_. ret (),
      cu_node_containers = \<lambda>_ _. ret [], cu_disconnect = \<lambda>_ _. ret Disconnected,
      cu_authority = \<lambda>_. ret (), cu_client = \<lambda>_ _. ret (), cu_delete_dns = \<lambda>_ _. ret (),
      cu_delete_connections = \<lambda>_ _. ret (), cu_delete_tunnel = \<lambda>_ _. ret (),
      cu_active_rows = \<lambda>_. ret [owned_row cleanup_resource], cu_all_rows = \<lambda>_. ret [],
      cu_run_rows = \<lambda>_. ret [cleanup_run_row],
      cu_removal_rows = \<lambda>_. ret [[JStr ''t1'', JStr ''d1'', JStr ''n'', JStr ''h'', JStr ''z1'', JStr ''active'']],
      cu_audit = \<lambda>_ _. ret (0, ''audit''), cu_empty_graph = \<lambda>_. JNull\<rparr>"

definition cleanup_paths_sample :: cleanup_paths where
  "cleanup_paths_sample =
     \<lparr>cl_base_url = ''http://cpk'', cl_server_container = ''server'', cl_provider_container = ''provider'',
      cl_provider_token = ''/p'', cl_api_token = ''/a''\<rparr>"

definition cleanup_state :: "unit custody_state" where
  "cleanup_state =
     \<lparr>hosted = \<lparr>exchanges = [], desired_coordinates = [], plan_coordinates = [], outside = ()\<rparr>,
      disk = \<lparr>files = [(''/s'', ''checkpoint'')], faults = []\<rparr>, printed = [], effects = []\<rparr>"






definition cleanup_checkpoint :: checkpoint where
  "cleanup_checkpoint = \<lparr>cp_workspace_id = JStr ''w1'', cp_phase = JStr ''live'',
     cp_current_graph_id = JStr ''g1'', cp_desired_graph_id = JStr ''g2''\<rparr>"

definition cleanup_effect :: failed_effect where
  "cleanup_effect = \<lparr>fe_workspace_id = ''w1'', fe_run_id = ''run-1'', fe_plan_id = ''p1'',
     fe_desired_graph_id = ''g2'', fe_activity_id = ''a1'', fe_runtime_id = ''r1'',
     fe_node_id = ''cloudflared-gateway'', fe_container_name = ''c1''\<rparr>"

definition cleanup_evidence_sample :: cleanup_evidence where
  "cleanup_evidence_sample = \<lparr>ev_active = [cleanup_resource], ev_resources = [cleanup_resource],
     ev_connectors = ([(''run-1'', cleanup_effect)], [])\<rparr>"

lemma run_checkpoint: "checkpoint_of_document (JObj [(''workspace_id'', JStr ''w1''), (''phase'', JStr ''live''),
         (''current_graph_id'', JStr ''g1''), (''desired_graph_id'', JStr ''g2'')]) = Inr cleanup_checkpoint"
  by code_simp

lemma run_read: "read_cleanup_checkpoint cleanup_env cleanup_state = (Inr (cleanup_checkpoint, ''w1''), cleanup_state)"
  by (simp add: checked_def read_cleanup_checkpoint_def demand_env_def required_env_def cleanup_env_def bindA_def action_simps at_disk_def
    cleanup_state_def read_checkpoint_def tryA_def read_bytes_def disk_fault_def advance_def utf8_decode_def
    cleanup_hosted_def cleanup_loads_def run_checkpoint cleanup_checkpoint_def byte_of_def)

lemma run_rows:
  "decode_owned_resources run_urls (map bounded_columns [owned_row cleanup_resource]) = Inr [cleanup_resource]"
proof -
  have "int_text 3 = ''3''" by code_simp
  then have "bounded_columns (owned_row cleanup_resource) = owned_row cleanup_resource"
    by (simp add: owned_row_def cleanup_resource_def bounded_columns_def column_bounds_def left_text_def)
  moreover have "recorded run_urls cleanup_resource" by code_simp
  ultimately show ?thesis
    using decode_owned_rows_Inr [of run_urls "[]" "[owned_row cleanup_resource]" "[cleanup_resource]"]
    by (simp add: decode_owned_resources_def del: decode_owned_rows.simps)
qed

lemma run_conn: "decode_connector_run ''w1'' ''run-1'' CONNECTOR_NODE ''g1'' [cleanup_run_row] = Inr (Some cleanup_effect)"
  by (simp add: decode_connector_run_def cleanup_run_row_def same_identity_def decode_failed_connector_def 
    field_def get_def members_def is_dict_def starts_node_def event_of_def CONNECTOR_NODE_def has_def make_effect_def effect_text_def effect_pattern_def
    ascii_alnum_def lower_letter_def upper_letter_def digit_char_def byte_of_def cleanup_effect_def)
lemma run_gather: "gather_evidence cleanup_env cleanup_checkpoint ''w1'' cleanup_state = (Inr cleanup_evidence_sample, cleanup_state)"
proof -
  have "runs_of [cleanup_resource] = [''run-1'']" by (simp add: runs_of_def cleanup_resource_def)
  moreover have "cu_active_rows cleanup_env = (\<lambda>_. ret [owned_row cleanup_resource])"
    "cu_run_rows cleanup_env = (\<lambda>_. ret [cleanup_run_row])" "cu_urls cleanup_env = run_urls" by (simp_all add: cleanup_env_def)
  moreover have "string_value (cp_current_graph_id cleanup_checkpoint) = ''g1''" by (simp add: string_value_def cleanup_checkpoint_def)
  moreover have "outside (hosted cleanup_state) = ()" by simp
  ultimately show ?thesis
    using run_rows run_conn
    by (simp add: gather_evidence_def load_active_resources_def load_connector_run_def bindA_def tryA_def action_simps
      in_world_def checked_def cleanup_evidence_sample_def)
qed

lemma in_world_ret [simp]: "in_world (ret x) = ret x"
  by (rule ext) (simp add: in_world_def action_simps)

lemma checked_simps [simp]: "checked (Inr x) = ret x" "checked (Inl e) = raise Other_exception"
  by (simp_all add: checked_def)

lemma run_env [simp]:
  "cu_active_rows cleanup_env ws = ret [owned_row cleanup_resource]" "cu_run_rows cleanup_env r = ret [cleanup_run_row]" 
  "cu_urls cleanup_env = run_urls" "cu_hosted cleanup_env = cleanup_hosted" "cu_container cleanup_env n = ret None"
  "cu_node_containers cleanup_env ws n = ret []" "cu_audit cleanup_env c ws = ret (0, ''audit'')"
  "cu_removal_rows cleanup_env ws = ret [[JStr ''t1'', JStr ''d1'', JStr ''n'', JStr ''h'', JStr ''z1'', JStr ''active'']]"
  "cu_provider cleanup_env rq = ret (200, ''revoked'')" "cu_file cleanup_env f = ret ''token''"
  "cu_loads_bytes cleanup_env = cleanup_loads" "cu_client cleanup_env a s = ret ()" "cu_authority cleanup_env a = ret ()"
  "cu_delete_dns cleanup_env a s = ret ()" "cu_delete_connections cleanup_env a s = ret ()" "cu_delete_tunnel cleanup_env a s = ret ()"
  "h_loads cleanup_hosted = cleanup_loads"
  "demand_env cleanup_env ACCOUNT_ID = ret ''acc''" "demand_env cleanup_env ''OPENJ92_CLOUDFLARE_ZONE'' = ret ''zone''"
  by (simp_all add: cleanup_env_def cleanup_hosted_def demand_env_def required_env_def ACCOUNT_ID_def)

lemma run_runs: "runs_of [cleanup_resource] = [''run-1'']" "emergency_set cleanup_evidence_sample = [cleanup_resource]"
  by (simp_all add: runs_of_def cleanup_resource_def emergency_set_def cleanup_evidence_sample_def)

lemma run_connectors_absent:
  "assert_failed_connectors_absent cleanup_env [cleanup_resource] ([(''run-1'', cleanup_effect)], []) = ret ()"
  by (simp add: assert_failed_connectors_absent_def run_runs assert_exact_failed_connector_absent_def)

lemma run_revoked: "assert_versions_revoked cleanup_env [cleanup_resource] ''provider'' ''w1'' = ret ()"
proof -
  have "utf8_decode ''audit'' = Some ''audit''" by code_simp
  then show ?thesis
    by (simp add: assert_versions_revoked_def audit_rows_def cleanup_loads_def revoked_version_def
      subscript_def truth_def hashable_def is_list_def is_dict_def cleanup_resource_def)
qed

lemma run_authoritative_check:
  "verify_authoritative cleanup_env cleanup_paths_sample cleanup_checkpoint ''w1'' cleanup_evidence_sample = raise Other_exception"
  by (simp add: verify_authoritative_def run_runs, simp add: cleanup_evidence_sample_def assert_no_node_containers_def run_connectors_absent cleanup_paths_sample_def run_revoked
    assert_owned_resources_removed_def removal_row_def runtime_error_def cleanup_checkpoint_def)

lemma run_token: "stripped_file cleanup_env f = ret ''token''"
proof -
  have "utf8_decode ''token'' = Some ''token''" "strip (universal_newlines ''token'') = ''token''" by code_simp+
  then show ?thesis by (simp add: stripped_file_def)
qed

lemma run_physically_absent: 
  "verify_emergency cleanup_env cleanup_paths_sample ''w1'' cleanup_evidence_sample = ret ()"
proof -
  have "same_resource cleanup_resource cleanup_resource" by code_simp
  moreover have "cu_cloudflare cleanup_env (cloudflare_request (''/zones/z1/dns_records/d1'') ''token'') = ret (404, [])"
    "cu_cloudflare cleanup_env (cloudflare_request (''/accounts/acc/cfd_tunnel/t1'') ''token'') = ret (404, [])"
    "cu_cloudflare cleanup_env (cloudflare_request (''/accounts/acc/cfd_tunnel?is_deleted=false&uuid=t1&per_page=1'') ''token'') = ret (200, ''none'')"
    by (simp_all add: cleanup_env_def cloudflare_request_def CLOUDFLARE_URL_def starts_with_def)
  moreover have "decode_cloudflare cleanup_env 404 [] = Inr (404, None)"
    by (simp add: decode_cloudflare_def)
  moreover have "decode_cloudflare cleanup_env 200 ''none'' = Inr (200, Some [(''success'', JBool True), (''result'', JArr [])])"
  proof -
    have "utf8_decode ''none'' = Some ''none''" by code_simp
    then show ?thesis by (simp add: decode_cloudflare_def EVIDENCE_BYTES_def cleanup_loads_def)
  qed
  moreover have "take (Suc EVIDENCE_BYTES) ''none'' = ''none''" "take (Suc EVIDENCE_BYTES) [] = []" by (simp_all add: EVIDENCE_BYTES_def)
  moreover have "coordinate cleanup_resource ''zone_id'' = ''z1''" "coordinate cleanup_resource ''dns_record_id'' = ''d1''"
   "coordinate cleanup_resource ''tunnel_id'' = ''t1''" "provider_kind cleanup_resource = ''cloudflare''"
    by (simp_all add: coordinate_def cleanup_resource_def)
  ultimately show ?thesis
    by (simp add: verify_emergency_def run_runs, simp add: cleanup_evidence_sample_def assert_no_node_containers_def same_resources_def
       assert_physically_absent_def run_connectors_absent cleanup_paths_sample_def run_revoked
       assert_cloudflare_resource_absent_def cloudflare_get_def run_token assert_cloudflare_tunnel_deleted_def
       cloudflare_api_get_json_def validate_tunnel_deletion_def answer_result_def get_def)
qed

lemma run_not_ready: "\<exists>e h'. wait_ready cleanup_hosted flow timeout n h = (Inl e, h')"
proof (induction n arbitrary: h)
  case 0
  then show ?case by (simp add: raise_apply)
next
  case (Suc n)
  obtain h1 where "hosted_http cleanup_hosted flow ''GET'' ''/health/ready'' None False [] timeout h = (Inl Network_error, h1)"
    by (simp add: hosted_http_def exchange_def bindA_def cleanup_hosted_def decode_reply_def action_simps Let_def)
  then have "wait_ready cleanup_hosted flow timeout (Suc n) h = wait_ready cleanup_hosted flow timeout n h1"
    by (simp add: bindA_def tryA_def action_simps)
  then show ?case using Suc by simp
qed

lemma run_authoritative: "\<exists>h. authoritative_action cleanup_env p c ws st = (Inl Other_exception, st\<lparr>hosted := h\<rparr>)"
proof -
  obtain e h where "wait_ready cleanup_hosted (cleanup_flow p ws) 30 30 (hosted st) = (Inl e, h)"
    using run_not_ready by blast
  then have "on_hosted (wait_ready cleanup_hosted (cleanup_flow p ws) 30 30) st = (Inl Other_exception, st\<lparr>hosted := h\<rparr>)"
    by (simp add: on_hosted_def)
  then show ?thesis by (auto simp: authoritative_action_def bindA_def Let_def)
qed

definition cleanup_authority :: cloud_authority where
  "cleanup_authority = \<lparr>ca_account_id = ''acc'', ca_zone_id = ''z1'', ca_zone_name = ''zone'', ca_hostname = ''h'',
     ca_api_token_ref = CLOUDFLARE_API_TOKEN_REFERENCE\<rparr>"

lemma run_compensate: "\<exists>call. emergency_compensate cleanup_env ''w1'' pt at (Some cleanup_effect) b cleanup_resource st =
  (Inr [], st\<lparr>effects := effects st @ [Provider_call call, Delete_dns_record cleanup_authority ''d1'',
     Delete_connections cleanup_authority ''t1'', Delete_tunnel cleanup_authority ''t1'']\<rparr>)"
proof -
  have "coordinate cleanup_resource ''zone_id'' = ''z1''" "coordinate cleanup_resource ''dns_record_id'' = ''d1''"
   "coordinate cleanup_resource ''tunnel_id'' = ''t1''" "coordinate cleanup_resource ''hostname'' = ''h''"
    by (simp_all add: coordinate_def cleanup_resource_def)
  then show ?thesis
    by (simp add: emergency_compensate_def failed_stage_def failed_with_exception_def
      provider_revoke_exact_version_def provider_command_def provider_request_def run_token
      cleanup_loads_def get_def stop_remove_exact_failed_connector_def cloudflare_client_def
      delete_resources_def change_outside_def Let_def bindA_def tryA_def action_simps cleanup_authority_def)
      (rule exI, rule refl)
qed

lemma cleanup_run:
  "\<exists>st' call. run_abort_cleanup cleanup_env cleanup_paths_sample cleanup_state = (Inr 2, st') \<and>
     effects st' = [Provider_call call, Delete_dns_record cleanup_authority ''d1'',
       Delete_connections cleanup_authority ''t1'', Delete_tunnel cleanup_authority ''t1'']"
proof -
  let ?c = "cleanup_compensation cleanup_env cleanup_paths_sample cleanup_checkpoint ''w1'' cleanup_evidence_sample"
  let ?run = "\<lambda>r. emergency_compensate cleanup_env ''w1'' (cl_provider_token cleanup_paths_sample)
      (cl_api_token cleanup_paths_sample) (map_of [(''run-1'', cleanup_effect)] (source_run_id r))
      (list_ex (same_resource r) [cleanup_resource]) r"
  define st where "st = cleanup_state\<lparr>printed := printed cleanup_state @
      [snapshot_line cleanup_checkpoint cleanup_evidence_sample]\<rparr>"
  have c: "resources ?c = [cleanup_resource]" "emergency_resources ?c = [cleanup_resource]"
    "compensators ?c = [(''cloudflare'', ?run)]" "verify_authoritative_absence ?c = raise Other_exception"
    "verify_emergency_absence ?c = ret ()"
    "authoritative_cleanup ?c = authoritative_action cleanup_env cleanup_paths_sample cleanup_checkpoint ''w1''"
    by (simp_all add: cleanup_compensation_def run_runs run_authoritative_check run_physically_absent)
      (simp_all add: cleanup_evidence_sample_def)
  have same: "same_resource cleanup_resource cleanup_resource" by code_simp
  obtain h where h: "authoritative_cleanup ?c st = (Inl Other_exception, st\<lparr>hosted := h\<rparr>)"
    unfolding c using run_authoritative by blast
  have r: "source_run_id cleanup_resource = ''run-1''" "provider_kind cleanup_resource = ''cloudflare''"
    by (simp_all add: cleanup_resource_def)
  obtain call where call: "?run cleanup_resource (st\<lparr>hosted := h\<rparr>) = (Inr [], st\<lparr>hosted := h, effects := effects st @
      [Provider_call call, Delete_dns_record cleanup_authority ''d1'',
       Delete_connections cleanup_authority ''t1'', Delete_tunnel cleanup_authority ''t1'']\<rparr>)" (is "_ = (_, ?st')")
    using run_compensate [of _ _ True "st\<lparr>hosted := h\<rparr>"] same r by auto
  have "compensate_abort ?c st = (Inr \<lparr>authoritative = False, emergency_attempted = True, resource_count = 1\<rparr>, ?st')"
    unfolding compensate_abort_returns using same h call by (simp add: c r action_simps)
  moreover have "with_inventory_file cleanup_env m = ret ()" for m
    by (simp add: with_inventory_file_def INVENTORY_FILE_def cleanup_env_def)
  moreover have "effects st = []" by (simp add: st_def cleanup_state_def)
  ultimately show ?thesis
    by (simp add: run_abort_cleanup_def bindA_def run_read run_gather print_line_def modA_apply ret_apply st_def [symmetric]
        assert_source_live_inventory_unchanged_def)
qed

end
