(* ===== verification/HostedProperties.thy ===== *)
theory HostedProperties
  imports HostedTransition
begin

text \<open>
  What the hosted workflow guarantees: the order, the credentials and the number of its requests, that
  a graph is advanced only after the server reported the run completed, and what an accepted page of
  events holds.
\<close>

section \<open>Requests as they appear on the wire\<close>

text \<open>A request is a call of a path or of an MCP name, with the credential it carries.\<close>

datatype hosted_wire = Call string string "string option" | Tool string "string option"

definition tool_name :: "hosted_request \<Rightarrow> string" where
  "tool_name rq =
     (case hr_payload rq of
        None \<Rightarrow> []
      | Some p \<Rightarrow> (case field (field p ''params'') ''name'' of JStr s \<Rightarrow> s | _ \<Rightarrow> []))"

definition wire_of :: "workflow \<Rightarrow> hosted_request \<Rightarrow> hosted_wire" where
  "wire_of flow rq =
     (let auth = map_of (hr_headers rq) ''Authorization'' in
      if hr_path rq = base_url flow @ ''/mcp'' then Tool (tool_name rq) auth
      else Call (hr_method rq) (drop (length (base_url flow)) (hr_path rq)) auth)"

text \<open>What an operation sends, whether it returns or raises.\<close>

definition emits :: "(hosted_request \<times> hosted_reply \<Rightarrow> bool) \<Rightarrow> ('w, 'a) hosted_action \<Rightarrow> bool" where
  "emits P m \<longleftrightarrow>
     (\<forall>st r st'. m st = (r, st') \<longrightarrow>
        (\<exists>new. exchanges st' = exchanges st @ new \<and> (\<forall>x \<in> set new. P x)))"

named_theorems emits_rules \<open>what the operations send\<close>

lemma emitsD:
  assumes "emits P m" and "m st = (r, st')"
  obtains new where "exchanges st' = exchanges st @ new" and "\<forall>x \<in> set new. P x"
  using assms unfolding emits_def by blast

lemma emits_silent [emits_rules]:
  "emits P (ret x)" "emits P (raise e)" "emits P (liftE r)" "emits P (getA f)" "emits P (on_outside n)"
  by (auto simp: emits_def action_simps on_outside_def split: prod.splits)

lemma emits_coordinates [emits_rules]:
  "emits P (modA (\<lambda>st. st\<lparr>desired_coordinates := d st\<rparr>))"
  "emits P (modA (\<lambda>st. st\<lparr>plan_coordinates := p st\<rparr>))"
  by (auto simp: emits_def action_simps)

lemma emits_bind [emits_rules]:
  assumes "emits P m" and "\<And>x. emits P (k x)"
  shows "emits P (bindA m k)"
  unfolding emits_def
proof (intro allI impI)
  fix st r st'
  assume run: "bindA m k st = (r, st')"
  obtain x st1 where x: "m st = (x, st1)" by fastforce
  obtain new where new: "exchanges st1 = exchanges st @ new" "\<forall>y \<in> set new. P y"
    using emitsD [OF assms(1) x] .
  show "\<exists>new. exchanges st' = exchanges st @ new \<and> (\<forall>x\<in>set new. P x)"
  proof (cases x)
    case (Inl e)
    with run new show ?thesis by (auto simp: bindA_def x)
  next
    case (Inr y)
    then have "k y st1 = (r, st')" using run by (simp add: bindA_def x)
    then obtain new' where "exchanges st' = exchanges st1 @ new'" "\<forall>y \<in> set new'. P y"
      using emitsD [OF assms(2)] by metis
    with new show ?thesis by (intro exI [of _ "new @ new'"]) auto
  qed
qed

lemma emits_try [emits_rules]:
  assumes "emits P m" and "\<And>e. emits P (h e)"
  shows "emits P (tryA m h)"
  unfolding emits_def
proof (intro allI impI)
  fix st r st'
  assume run: "tryA m h st = (r, st')"
  obtain x st1 where x: "m st = (x, st1)" by fastforce
  obtain new where new: "exchanges st1 = exchanges st @ new" "\<forall>y \<in> set new. P y"
    using emitsD [OF assms(1) x] .
  show "\<exists>new. exchanges st' = exchanges st @ new \<and> (\<forall>x\<in>set new. P x)"
  proof (cases x)
    case (Inr y)
    with run new show ?thesis by (auto simp: tryA_def x)
  next
    case (Inl e)
    then have "h e st1 = (r, st')" using run by (simp add: tryA_def x)
    then obtain new' where "exchanges st' = exchanges st1 @ new'" "\<forall>y \<in> set new'. P y"
      using emitsD [OF assms(2)] by metis
    with new show ?thesis by (intro exI [of _ "new @ new'"]) auto
  qed
qed

lemma emits_if [emits_rules]: "(c \<Longrightarrow> emits P m) \<Longrightarrow> (\<not> c \<Longrightarrow> emits P n) \<Longrightarrow> emits P (if c then m else n)"
  by simp

lemma emits_option [emits_rules]:
  "(x = None \<Longrightarrow> emits P m) \<Longrightarrow> (\<And>y. x = Some y \<Longrightarrow> emits P (k y)) \<Longrightarrow>
   emits P (case x of None \<Rightarrow> m | Some y \<Rightarrow> k y)"
  by (cases x) auto

lemma emits_pair [emits_rules]: "(\<And>a b. emits P (k a b)) \<Longrightarrow> emits P (case x of (a, b) \<Rightarrow> k a b)"
  by (cases x) auto

lemma emits_mono: "emits P m \<Longrightarrow> (\<And>x. P x \<Longrightarrow> Q x) \<Longrightarrow> emits Q m"
  by (force simp: emits_def)

definition wire_request ::
  "workflow \<Rightarrow> string \<Rightarrow> string \<Rightarrow> json option \<Rightarrow> bool \<Rightarrow> (string \<times> string) list \<Rightarrow> int \<Rightarrow> hosted_request" where
  "wire_request flow meth path payload authorize extra timeout =
     \<lparr>hr_method = meth, hr_path = base_url flow @ path,
      hr_headers = dict_update
        ((''Content-Type'', ''application/json'') #
         (if authorize then [(''Authorization'', AUTHORIZATION)] else [])) extra,
      hr_payload = payload, hr_timeout = timeout\<rparr>"

lemma hosted_http_eq:
  "hosted_http env flow meth path payload authorize extra timeout st =
     (let rq = wire_request flow meth path payload authorize extra timeout;
          (a, w) = h_exchange env rq (outside st) in
      (decode_reply env rq a, st\<lparr>exchanges := exchanges st @ [(rq, a)], outside := w\<rparr>))"
  by (simp add: hosted_http_def wire_request_def exchange_def bindA_def action_simps Let_def split: prod.split)

lemma emits_http:
  assumes "\<And>a. P (wire_request flow meth path payload authorize extra timeout, a)"
  shows "emits P (hosted_http env flow meth path payload authorize extra timeout)"
  using assms by (auto simp: emits_def hosted_http_eq Let_def split: prod.splits)

section \<open>Wires of the calls\<close>

lemma authorization_header:
  "map_of (hr_headers (wire_request flow meth path payload True [] t)) ''Authorization'' = Some AUTHORIZATION"
  "map_of (hr_headers (wire_request flow meth path payload True (worker_headers flow) t)) ''Authorization'' =
     Some (worker_authorization flow)"
  by (simp_all add: wire_request_def dict_update_def worker_headers_def)

definition mcp_request ::
  "workflow \<Rightarrow> string \<Rightarrow> string \<Rightarrow> dict \<Rightarrow> int \<Rightarrow> string option \<Rightarrow> hosted_request" where
  "mcp_request flow meth name arguments timeout authorization =
     wire_request flow ''POST'' ''/mcp''
       (Some (JObj [(''jsonrpc'', JStr ''2.0''), (''id'', JStr (name @ '':1'')), (''method'', JStr meth),
          (''params'', JObj [(''name'', JStr name), (''arguments'', JObj arguments)])])) True
       ([(''Accept'', ''application/json''), (''MCP-Protocol-Version'', ''2025-06-18''),
         (''Mcp-Method'', meth)] @
        (case authorization of None \<Rightarrow> [] | Some a \<Rightarrow> [(''Authorization'', a)])) timeout"

lemma mcp_call_eq:
  "mcp_call env flow meth name arguments timeout authorization st =
     (let rq = mcp_request flow meth name arguments timeout authorization;
          (a, w) = h_exchange env rq (outside st) in
      (bindE (decode_reply env rq a) (mcp_result name),
       st\<lparr>exchanges := exchanges st @ [(rq, a)], outside := w\<rparr>))"
  unfolding mcp_call_def bindA_def hosted_http_eq mcp_request_def [symmetric] Let_def
  by (simp add: bindE_def action_simps split: prod.split sum.split)

lemma emits_mcp:
  assumes "\<And>a. P (mcp_request flow meth name arguments timeout authorization, a)"
  shows "emits P (mcp_call env flow meth name arguments timeout authorization)"
  using assms by (auto simp: emits_def mcp_call_eq Let_def split: prod.splits)

lemma wire_of_mcp:
  "wire_of flow (mcp_request flow meth name arguments timeout authorization) =
     Tool name (Some (case authorization of None \<Rightarrow> AUTHORIZATION | Some a \<Rightarrow> a))"
  by (simp add: wire_of_def mcp_request_def wire_request_def dict_update_def tool_name_def field_def
      members_def get_def split: option.split)

lemma wire_of_http:
  assumes "path \<noteq> ''/mcp''"
  shows "wire_of flow (wire_request flow meth path payload True [] t) = Call meth path (Some AUTHORIZATION)"
    and "wire_of flow (wire_request flow meth path payload True (worker_headers flow) t) =
      Call meth path (Some (worker_authorization flow))"
proof -
  have "hr_path (wire_request flow meth path payload True extra t) = base_url flow @ path"
    "hr_method (wire_request flow meth path payload True extra t) = meth" for extra
    by (simp_all add: wire_request_def)
  with assms show "wire_of flow (wire_request flow meth path payload True [] t) = Call meth path (Some AUTHORIZATION)"
    "wire_of flow (wire_request flow meth path payload True (worker_headers flow) t) =
      Call meth path (Some (worker_authorization flow))"
    by (simp_all add: wire_of_def authorization_header)
qed

lemma workspace_path_not_mcp [simp]: "workspace_path flow p \<noteq> ''/mcp''"
  by (simp add: workspace_path_def)

section \<open>Everything sent\<close>

definition sent :: "workflow \<Rightarrow> 'w hosted_state \<Rightarrow> hosted_wire list" where
  "sent flow st = map (\<lambda>x. wire_of flow (fst x)) (exchanges st)"

lemma sent_coordinates [simp]:
  "sent flow (st\<lparr>desired_coordinates := d\<rparr>) = sent flow st"
  "sent flow (st\<lparr>plan_coordinates := p\<rparr>) = sent flow st"
  "sent flow (st\<lparr>outside := w\<rparr>) = sent flow st"
  by (simp_all add: sent_def)

lemma sent_exchange [simp]:
  "sent flow (st\<lparr>exchanges := exchanges st @ [(rq, a)]\<rparr>) = sent flow st @ [wire_of flow rq]"
  by (simp add: sent_def)

lemma worker_headers_nonempty [simp]: "worker_headers flow \<noteq> []"
  by (simp add: worker_headers_def)

lemma post_sent:
  assumes "http_post env flow path payload extra st = (r, st')" and "path \<noteq> ''/mcp''"
    and "extra = [] \<or> extra = worker_headers flow"
  shows "sent flow st' = sent flow st @
    [Call ''POST'' path (Some (if extra = [] then AUTHORIZATION else worker_authorization flow))]"
  using assms
  by (auto simp: http_post_def hosted_http_eq Let_def wire_of_http split: prod.splits)

lemma operator_post_sent:
  "http_post env flow (workspace_path flow p) payload [] st = (r, st') \<Longrightarrow>
   sent flow st' = sent flow st @ [Call ''POST'' (workspace_path flow p) (Some AUTHORIZATION)]"
  by (drule post_sent) simp_all

lemma worker_post_sent:
  "http_post env flow (run_path flow run p) payload (worker_headers flow) st = (r, st') \<Longrightarrow>
   sent flow st' = sent flow st @ [Call ''POST'' (run_path flow run p) (Some (worker_authorization flow))]"
  by (drule post_sent) (simp_all add: run_path_def)

lemma get_sent:
  "http_get env flow (workspace_path flow p) st = (r, st') \<Longrightarrow>
   sent flow st' = sent flow st @ [Call ''GET'' (workspace_path flow p) (Some AUTHORIZATION)]"
  by (auto simp: http_get_def hosted_http_eq Let_def wire_of_http split: prod.splits)

lemma mcp_sent:
  "mcp_call env flow meth name arguments timeout authorization st = (r, st') \<Longrightarrow>
   sent flow st' = sent flow st @
     [Tool name (Some (case authorization of None \<Rightarrow> AUTHORIZATION | Some a \<Rightarrow> a))]"
  by (auto simp: mcp_call_eq Let_def wire_of_mcp split: prod.splits)

lemma tool_sent:
  "mcp_tool env flow name arguments timeout authorization st = (r, st') \<Longrightarrow>
   sent flow st' = sent flow st @
     [Tool name (Some (case authorization of None \<Rightarrow> AUTHORIZATION | Some a \<Rightarrow> a))]"
  unfolding mcp_tool_def by (rule mcp_sent)

lemma read_sent:
  "mcp_read env flow name arguments st = (r, st') \<Longrightarrow>
   sent flow st' = sent flow st @ [Tool name (Some AUTHORIZATION)]"
  unfolding mcp_read_def by (drule mcp_sent) simp

lemmas calls_sent = operator_post_sent worker_post_sent get_sent tool_sent read_sent

text \<open>The operations of a transition, one after the other.\<close>

lemma start_session_sent:
  "start_session env flow title st = (Inr s, st') \<Longrightarrow>
   sent flow st' = sent flow st @ [Call ''POST'' (workspace_path flow ''/sessions'') (Some AUTHORIZATION)]"
  by (auto simp: start_session_def bindA_Inr action_simps dest!: calls_sent)

lemma set_desired_graph_sent:
  "set_desired_graph env flow session graph title expected st = (Inr g, st') \<Longrightarrow>
   sent flow st' = sent flow st @
     [Tool ''read.workspace'' (Some AUTHORIZATION),
      Call ''POST'' (workspace_path flow ''/graphs/desired'') (Some AUTHORIZATION)]"
  by (auto simp: set_desired_graph_def hosted_read_workspace_def bindA_Inr action_simps Let_def
      split: if_splits dest!: calls_sent)

lemma plan_transition_sent:
  "plan_transition env flow session title current desired st = (Inr p, st') \<Longrightarrow>
   sent flow st' = sent flow st @
     [Call ''GET'' (workspace_path flow ''/graphs/current'') (Some AUTHORIZATION),
      Tool ''command.deployment.plan'' (Some AUTHORIZATION)]"
  by (auto simp: plan_transition_def bindA_Inr action_simps split: if_splits option.splits
      dest!: calls_sent)

lemma request_approval_sent:
  "request_approval env flow session title plan_id st = (Inr a, st') \<Longrightarrow>
   sent flow st' = sent flow st @
     [Call ''POST'' (workspace_path flow (''/plans/'' @ plan_id @ ''/approval'')) (Some AUTHORIZATION)]"
  unfolding request_approval_def by (drule operator_post_sent) simp

lemma assert_approval_visible_sent:
  "assert_approval_visible env flow approval_id plan_id st = (Inr u, st') \<Longrightarrow>
   sent flow st' = sent flow st @
     [Tool ''read.pending-approvals'' (Some AUTHORIZATION), Tool ''read.approval-detail'' (Some AUTHORIZATION)]"
  by (auto simp: assert_approval_visible_def bindA_Inr action_simps split: if_splits dest!: calls_sent)

lemma approve_sent:
  "approve env flow session title approval st = (Inr u, st') \<Longrightarrow>
   sent flow st' = sent flow st @ [Tool ''command.approval.decide'' (Some AUTHORIZATION)]"
  by (auto simp: approve_def bindA_Inr action_simps dest!: calls_sent)

lemma admit_sent:
  "admit env flow session title plan_id approval_id st = (Inr q, st') \<Longrightarrow>
   sent flow st' = sent flow st @
     [Call ''POST'' (workspace_path flow (''/plans/'' @ plan_id @ ''/admission'')) (Some AUTHORIZATION)]"
  by (auto simp: admit_def bindA_Inr action_simps dest!: calls_sent)

lemma claim_sent:
  "claim env flow title request_id st = (Inr c, st') \<Longrightarrow>
   sent flow st' = sent flow st @
     [Call ''POST'' (run_path flow request_id ''/claim'') (Some (worker_authorization flow))]"
  by (auto simp: claim_def bindA_Inr action_simps dest!: calls_sent)

lemma start_run_sent:
  "start_run env flow title c st = (Inr u, st') \<Longrightarrow>
   sent flow st' = sent flow st @
     [Call ''POST'' (run_path flow (run_id c) ''/start'') (Some (worker_authorization flow))]"
  by (auto simp: start_run_def bindA_Inr action_simps dest!: calls_sent)

lemma finish_transition_sent:
  "finish_transition env flow title c plan_id approval_id current desired st = (Inr res, st') \<Longrightarrow>
   sent flow st' = sent flow st @
     [Call ''POST'' (run_path flow (run_id c) ''/advance-current-graph'') (Some (worker_authorization flow)),
      Call ''GET'' (workspace_path flow ''/graphs/current'') (Some AUTHORIZATION)] \<and>
   res = \<lparr>tr_current_graph_id = desired, tr_desired_graph_id = desired, tr_plan_id = plan_id,
          tr_approval_id = approval_id, tr_run_id = run_id c\<rparr>"
  by (auto simp: finish_transition_def advance_current_graph_def read_current_graph_id_def bindA_Inr
      action_simps split: if_splits option.splits dest!: calls_sent)

section \<open>The execution loop\<close>

definition execute_request :: "'w hosted_env \<Rightarrow> workflow \<Rightarrow> claimed_run \<Rightarrow> nat \<Rightarrow> hosted_request" where
  "execute_request env flow c attempt =
     mcp_request flow ''tools/call'' ''command.deployment.execute'' (execute_arguments env flow c attempt)
       60 (Some (worker_authorization flow))"

text \<open>What the answer of an execution request says of the run: nothing when it is refused.\<close>

definition reported :: "'w hosted_env \<Rightarrow> claimed_run \<Rightarrow> hosted_request \<times> hosted_reply \<Rightarrow> string option" where
  "reported env c x =
     (case bindE (decode_reply env (fst x) (snd x)) (mcp_result ''command.deployment.execute'') of
        Inl _ \<Rightarrow> None
      | Inr v \<Rightarrow> (case validate_execute_result v c of Inl _ \<Rightarrow> None | Inr s \<Rightarrow> Some s))"

text \<open>How the loop ends after the answers it has seen, when nothing else fails.\<close>

definition loop_outcome ::
  "'w hosted_env \<Rightarrow> claimed_run \<Rightarrow> (hosted_request \<times> hosted_reply) list \<Rightarrow> hosted_error + unit" where
  "loop_outcome env c seen =
     (if seen = [] then Inl (Runtime ''hosted activity execution did not complete'')
      else case bindE (decode_reply env (fst (last seen)) (snd (last seen)))
                  (mcp_result ''command.deployment.execute'') of
        Inl _ \<Rightarrow> Inl (Runtime ''deployment execution failed'')
      | Inr v \<Rightarrow>
          bindE (validate_execute_result v c) (\<lambda>s.
            if s = ''completed'' then Inr ()
            else if s \<in> set STOPPED_STATUSES then Inl (Runtime ''deployment execution stopped'')
            else Inl (Runtime ''hosted activity execution did not complete'')))"

definition goes_on :: "'w hosted_env \<Rightarrow> claimed_run \<Rightarrow> hosted_request \<times> hosted_reply \<Rightarrow> bool" where
  "goes_on env c x \<longleftrightarrow> (\<exists>s. reported env c x = Some s \<and> s \<noteq> ''completed'' \<and> s \<notin> set STOPPED_STATUSES)"

lemma attempt_step:
  "tryA (mcp_tool env flow ''command.deployment.execute'' (execute_arguments env flow c k) 60
        (Some (worker_authorization flow))) (\<lambda>_. raise (Runtime ''deployment execution failed'')) st =
   (let rq = execute_request env flow c k; (a, w) = h_exchange env rq (outside st) in
    (case bindE (decode_reply env rq a) (mcp_result ''command.deployment.execute'') of
       Inl _ \<Rightarrow> Inl (Runtime ''deployment execution failed'')
     | Inr v \<Rightarrow> Inr v, st\<lparr>exchanges := exchanges st @ [(rq, a)], outside := w\<rparr>))"
proof -
  obtain a w where a: "h_exchange env (execute_request env flow c k) (outside st) = (a, w)" by fastforce
  show ?thesis
    unfolding tryA_def mcp_tool_def mcp_call_eq execute_request_def [symmetric] Let_def a prod.case
    by (cases "bindE (decode_reply env (execute_request env flow c k) a)
        (mcp_result ''command.deployment.execute'')")
      (simp_all only: sum.case raise_apply)
qed

lemma silent_exchanges:
  assumes "emits (\<lambda>_. False) m" and "m st = (r, st')"
  shows "exchanges st' = exchanges st"
  using emitsD [OF assms] by (metis append_Nil2 last_in_set)

lemma emits_connect [emits_rules]: "emits P (connect_containers env n attached cs)"
  by (induction env n attached cs rule: connect_containers.induct) (auto intro!: emits_rules)

lemma emits_attach [emits_rules]: "emits P (attach_networks env cs ns)"
  by (induction env cs ns rule: attach_networks.induct) (auto intro!: emits_rules)

lemma emits_find [emits_rules]: "emits P (find_containers env cs)"
  by (induction env cs rule: find_containers.induct) (auto intro!: emits_rules)

lemma emits_sync [emits_rules]: "emits P (sync_runtime_networks env flow required)"
  unfolding sync_runtime_networks_def owned_runtime_networks_def by (intro emits_rules)

definition sync_step :: "'w hosted_env \<Rightarrow> workflow \<Rightarrow> bool \<Rightarrow> bool \<Rightarrow> ('w, unit) hosted_action" where
  "sync_step env flow sync required = (if sync then sync_runtime_networks env flow required else ret ())"

lemma sync_step_exchanges: "sync_step env flow sync required st = (r, st') \<Longrightarrow> exchanges st' = exchanges st"
  by (rule silent_exchanges [of "sync_step env flow sync required"])
    (auto simp: sync_step_def intro!: emits_rules)

lemma no_sync: "sync_step env flow False required st = (Inr (), st)"
  by (simp add: sync_step_def action_simps)

lemma execute_attempts_trace:
  assumes "execute_attempts env flow c sync n st = (r, st')" and "n \<le> MAX_ATTEMPTS"
  shows "\<exists>seen. exchanges st' = exchanges st @ seen \<and> length seen \<le> n \<and>
    map fst seen = map (\<lambda>i. execute_request env flow c (MAX_ATTEMPTS - n + i)) [0..<length seen] \<and>
    (\<forall>x \<in> set (butlast seen). goes_on env c x) \<and>
    (r = Inr () \<longrightarrow> seen \<noteq> [] \<and> reported env c (last seen) = Some ''completed'') \<and>
    (\<not> sync \<longrightarrow> r = loop_outcome env c seen \<and>
       (seen = [] \<or> goes_on env c (last seen) \<longrightarrow> length seen = n))"
  using assms
proof (induction n arbitrary: st)
  case 0
  then show ?case by (intro exI [of _ "[]"]) (auto simp: action_simps loop_outcome_def)
next
  case (Suc n)
  let ?k = "MAX_ATTEMPTS - Suc n"
  let ?rq = "execute_request env flow c ?k"
  obtain x st1 where x: "sync_step env flow sync False st = (x, st1)" by fastforce
  have same: "exchanges st1 = exchanges st" by (rule sync_step_exchanges [OF x])
  have loop: "execute_attempts env flow c sync (Suc n) st =
    thenA (sync_step env flow sync False)
     (bindA (tryA (mcp_tool env flow ''command.deployment.execute''
          (execute_arguments env flow c ?k) 60 (Some (worker_authorization flow)))
        (\<lambda>_. raise (Runtime ''deployment execution failed'')))
     (\<lambda>result.
        bindA (liftE (validate_execute_result result c)) (\<lambda>status.
        thenA (sync_step env flow sync (status = ''completed''))
          (if status = ''completed'' then ret ()
           else if status \<in> set STOPPED_STATUSES then raise (Runtime ''deployment execution stopped'')
           else execute_attempts env flow c sync n)))) st"
    by (simp add: sync_step_def)
  show ?case
  proof (cases x)
    case (Inl e)
    then have "r = Inl e" "st' = st1" "sync"
      using Suc.prems(1) x unfolding loop by (auto simp: bindA_def no_sync split: if_splits)
        (cases sync; simp add: no_sync)
    with same show ?thesis by (intro exI [of _ "[]"]) auto
  next
    case (Inr u)
    obtain a w where a: "h_exchange env ?rq (outside st1) = (a, w)" by fastforce
    define st2 where "st2 = st1\<lparr>exchanges := exchanges st1 @ [(?rq, a)], outside := w\<rparr>"
    have st2: "exchanges st2 = exchanges st @ [(?rq, a)]" by (simp add: st2_def same)
    let ?result = "bindE (decode_reply env ?rq a) (mcp_result ''command.deployment.execute'')"
    show ?thesis
    proof (cases "reported env c (?rq, a)")
      case None
      then have "st' = st2 \<and> r = loop_outcome env c [(?rq, a)] \<and> r \<noteq> Inr ()"
        using Suc.prems(1) x Inr a unfolding loop bindA_def attempt_step Let_def
        by (auto simp: reported_def loop_outcome_def st2_def action_simps split: sum.splits)
      with st2 None show ?thesis by (intro exI [of _ "[(?rq, a)]"]) (auto simp: goes_on_def)
    next
      case (Some s)
      then obtain v where v: "?result = Inr v" "validate_execute_result v c = Inr s"
        by (auto simp: reported_def split: sum.splits)
      obtain y st3 where y: "sync_step env flow sync (s = ''completed'') st2 = (y, st3)" by fastforce
      have same3: "exchanges st3 = exchanges st @ [(?rq, a)]"
        using sync_step_exchanges [OF y] st2 by simp
      have rest: "(r, st') = (case y of Inl e \<Rightarrow> (Inl e, st3)
        | Inr _ \<Rightarrow> (if s = ''completed'' then ret ()
           else if s \<in> set STOPPED_STATUSES then raise (Runtime ''deployment execution stopped'')
           else execute_attempts env flow c sync n) st3)"
        using Suc.prems(1) x Inr a v y unfolding loop bindA_def attempt_step Let_def
        by (simp add: st2_def action_simps split: sum.splits)
      have y_ok: "y = Inr ()" "st3 = st2" if "\<not> sync"
        using y that by (simp_all add: no_sync)
      consider (stop) "y \<noteq> Inr ()" | (ended) "y = Inr ()" "s = ''completed'' \<or> s \<in> set STOPPED_STATUSES"
        | (again) "y = Inr ()" "s \<noteq> ''completed''" "s \<notin> set STOPPED_STATUSES" by blast
      then show ?thesis
      proof cases
        case stop
        then have "st' = st3 \<and> r \<noteq> Inr () \<and> sync" using rest y_ok by (cases y) auto
        with same3 show ?thesis by (intro exI [of _ "[(?rq, a)]"]) auto
      next
        case ended
        then have "st' = st3 \<and> r = loop_outcome env c [(?rq, a)] \<and> (r = Inr () \<longrightarrow> s = ''completed'')"
          using rest by (cases "s = ''completed''") (simp_all add: loop_outcome_def v action_simps)
        with same3 Some ended show ?thesis
          by (intro exI [of _ "[(?rq, a)]"]) (auto simp: goes_on_def)
      next
        case again
        then have "execute_attempts env flow c sync n st3 = (r, st')" using rest by simp
        then obtain seen where seen: "exchanges st' = exchanges st3 @ seen" "length seen \<le> n"
          "map fst seen = map (\<lambda>i. execute_request env flow c (MAX_ATTEMPTS - n + i)) [0..<length seen]"
          "\<forall>x \<in> set (butlast seen). goes_on env c x"
          "r = Inr () \<longrightarrow> seen \<noteq> [] \<and> reported env c (last seen) = Some ''completed''"
          "\<not> sync \<longrightarrow> r = loop_outcome env c seen \<and> (seen = [] \<or> goes_on env c (last seen) \<longrightarrow> length seen = n)"
          using Suc by (auto dest: Suc.IH [of st3])
        have goes: "goes_on env c (?rq, a)" using Some again by (auto simp: goes_on_def)
        have number: "Suc (MAX_ATTEMPTS - Suc n + i) = MAX_ATTEMPTS - n + i" for i
          using Suc.prems(2) by simp
        have numbered: "map fst ((?rq, a) # seen) =
            map (\<lambda>i. execute_request env flow c (MAX_ATTEMPTS - Suc n + i)) [0..<length ((?rq, a) # seen)]"
          using seen(3) by (simp add: upt_conv_Cons map_Suc_upt [symmetric] number del: upt_Suc)
        have outcome: "loop_outcome env c ((?rq, a) # seen) = loop_outcome env c seen" if "seen \<noteq> []"
          using that by (simp add: loop_outcome_def)
        have empty: "loop_outcome env c [(?rq, a)] = loop_outcome env c []"
          using again by (simp add: loop_outcome_def v)
        show ?thesis
          using seen(1,2,4-6) numbered same3 goes outcome empty
          by (intro exI [of _ "(?rq, a) # seen"]) (cases "seen = []"; auto)
      qed
    qed
  qed
qed

section \<open>Advancing\<close>

definition is_advance :: "workflow \<Rightarrow> hosted_request \<Rightarrow> bool" where
  "is_advance flow rq \<longleftrightarrow>
     (\<exists>meth run auth. wire_of flow rq = Call meth (run_path flow run ''/advance-current-graph'') auth)"

definition advance_request ::
  "'w hosted_env \<Rightarrow> workflow \<Rightarrow> string \<Rightarrow> claimed_run \<Rightarrow> string \<Rightarrow> string \<Rightarrow> string \<Rightarrow>
   string \<times> string \<times> int \<Rightarrow> hosted_request" where
  "advance_request env flow title c plan_id current_graph desired_graph coordinates =
     (case coordinates of (current_projection, desired_projection, revision) \<Rightarrow>
        wire_request flow ''POST'' (run_path flow (run_id c) ''/advance-current-graph'')
          (Some (JObj [(''plan_id'', JStr plan_id), (''expected_current_graph_id'', JStr current_graph),
              (''expected_current_realized_projection_id'', JStr current_projection),
              (''desired_graph_id'', JStr desired_graph),
              (''desired_realized_projection_id'', JStr desired_projection),
              (''expected_desired_graph_revision'', JInt revision),
              (''claim_generation'', JInt (claim_generation c)),
              (''worker_id'', JStr (worker flow)),
              (''actor_scopes'', JArr [JStr (execution_operate_scope env)]),
              (''idempotency_key'', key_for flow title ''advance'')]))
          True (worker_headers flow) 10)"

abbreviation no_advance :: "workflow \<Rightarrow> hosted_request \<times> hosted_reply \<Rightarrow> bool" where
  "no_advance flow x \<equiv> \<not> is_advance flow (fst x)"

lemma different_end:
  assumes "a \<noteq> []" and "b \<noteq> []" and "last a \<noteq> last b"
  shows "x @ a \<noteq> y @ b"
  using assms by (metis last_appendR)

lemma run_path_not_mcp [simp]: "run_path flow run p \<noteq> ''/mcp''"
  by (simp add: run_path_def)

lemma run_path_suffix:
  assumes "suffix \<noteq> []" and "last suffix \<noteq> CHR ''h''"
  shows "run_path flow run suffix \<noteq> run_path flow run' ''/advance-current-graph''"
  using assms different_end [of suffix "''/advance-current-graph''" "''/workspaces/'' @ workspace flow @ ''/runs/'' @ run"
      "''/workspaces/'' @ workspace flow @ ''/runs/'' @ run'"]
  by (simp add: run_path_def workspace_path_def)

lemma workspace_path_runs:
  assumes "take 3 p \<noteq> ''/ru''"
  shows "workspace_path flow p \<noteq> run_path flow run suffix"
  using assms by (auto simp: run_path_def workspace_path_def)

lemma is_advance_simps [simp]:
  "\<not> is_advance flow (mcp_request flow meth name arguments timeout authorization)"
  "take 3 p \<noteq> ''/ru'' \<Longrightarrow>
     \<not> is_advance flow (wire_request flow meth (workspace_path flow p) payload True [] t)"
  "suffix \<noteq> [] \<Longrightarrow> last suffix \<noteq> CHR ''h'' \<Longrightarrow>
     \<not> is_advance flow (wire_request flow meth (run_path flow run suffix) payload True (worker_headers flow) t)"
  by (simp_all add: is_advance_def wire_of_mcp wire_of_http workspace_path_runs run_path_suffix)

lemma quiet_calls [emits_rules]:
  "emits (no_advance flow) (mcp_call env flow meth name arguments timeout authorization)"
  "emits (no_advance flow) (mcp_tool env flow name arguments timeout authorization)"
  "emits (no_advance flow) (mcp_read env flow name arguments)"
  by (auto simp: mcp_tool_def mcp_read_def intro!: emits_mcp)

lemma quiet_http [emits_rules]:
  "take 3 p \<noteq> ''/ru'' \<Longrightarrow> emits (no_advance flow) (http_get env flow (workspace_path flow p))"
  "take 3 p \<noteq> ''/ru'' \<Longrightarrow> emits (no_advance flow) (http_post env flow (workspace_path flow p) payload [])"
  "suffix \<noteq> [] \<Longrightarrow> last suffix \<noteq> CHR ''h'' \<Longrightarrow>
     emits (no_advance flow) (http_post env flow (run_path flow run suffix) payload (worker_headers flow))"
  by (auto simp: http_get_def http_post_def intro!: emits_http)

lemma quiet_attempts [emits_rules]: "emits (no_advance flow) (execute_attempts env flow c sync n)"
  by (induction n) (auto intro!: emits_rules)

text \<open>The part of the transition before the advancement.\<close>

definition up_to_admission ::
  "'w hosted_env \<Rightarrow> workflow \<Rightarrow> string \<Rightarrow> json \<Rightarrow> string \<Rightarrow> string option \<Rightarrow>
   ('w, string \<times> string \<times> string \<times> string) hosted_action" where
  "up_to_admission env flow title graph current_graph expected =
     bindA (start_session env flow title) (\<lambda>session.
     bindA (set_desired_graph env flow session graph title expected) (\<lambda>desired_graph.
     bindA (plan_transition env flow session title current_graph desired_graph) (\<lambda>plan_id.
     bindA (request_approval env flow session title plan_id) (\<lambda>approval.
     bindA (liftE (text_at env approval ''request_id'')) (\<lambda>approval_id.
     thenA (assert_approval_visible env flow approval_id plan_id)
     (thenA (approve env flow session title approval)
     (bindA (admit env flow session title plan_id approval_id) (\<lambda>request_id.
      ret (request_id, plan_id, approval_id, desired_graph)))))))))"

definition claim_and_execute ::
  "'w hosted_env \<Rightarrow> workflow \<Rightarrow> string \<Rightarrow> string \<Rightarrow> bool \<Rightarrow> ('w, claimed_run) hosted_action" where
  "claim_and_execute env flow title request_id sync =
     bindA (claim env flow title request_id) (\<lambda>c.
     thenA (start_run env flow title c)
     (thenA (execute_to_completion env flow c sync) (ret c)))"

lemma transition_parts:
  "run_approved_transition env flow title graph current_graph expected sync =
     bindA (up_to_admission env flow title graph current_graph expected)
       (\<lambda>(request_id, plan_id, approval_id, desired_graph).
          bindA (claim_and_execute env flow title request_id sync) (\<lambda>c.
          finish_transition env flow title c plan_id approval_id current_graph desired_graph))"
  by (simp add: run_approved_transition_def up_to_admission_def claim_and_execute_def bindA_assoc)

lemma quiet_admission: "emits (no_advance flow) (up_to_admission env flow title graph current_graph expected)"
  unfolding up_to_admission_def start_session_def set_desired_graph_def hosted_read_workspace_def
    plan_transition_def request_approval_def assert_approval_visible_def approve_def admit_def Let_def
  by (intro emits_rules) simp_all

lemma quiet_start: "emits (no_advance flow) (start_run env flow title c)"
  unfolding start_run_def by (intro emits_rules) simp_all

lemma quiet_execution: "emits (no_advance flow) (claim_and_execute env flow title request_id sync)"
  unfolding claim_and_execute_def claim_def execute_to_completion_def
  by (intro emits_rules quiet_start) simp_all

text \<open>The claim the server granted.\<close>

definition granted :: "'w hosted_env \<Rightarrow> claimed_run \<Rightarrow> hosted_request \<times> hosted_reply \<Rightarrow> bool" where
  "granted env c x \<longleftrightarrow>
     (\<exists>request_id v. decode_reply env (fst x) (snd x) = Inr v \<and> claimed_run_from_result v request_id = Inr c)"

lemma claim_granted:
  "claim env flow title request_id st = (Inr c, st') \<Longrightarrow>
   \<exists>x. exchanges st' = exchanges st @ [x] \<and> granted env c x"
  by (auto simp: claim_def bindA_Inr http_post_def hosted_http_eq action_simps granted_def Let_def
      split: prod.splits)

lemma execution_succeeded:
  assumes "claim_and_execute env flow title request_id sync st = (Inr c, st')"
  obtains new where "exchanges st' = exchanges st @ new" and "new \<noteq> []"
    and "reported env c (last new) = Some ''completed''" and "\<exists>x \<in> set new. granted env c x"
proof -
  obtain st1 st2 where claim: "claim env flow title request_id st = (Inr c, st1)"
    and start: "start_run env flow title c st1 = (Inr (), st2)"
    and run: "execute_attempts env flow c sync MAX_ATTEMPTS st2 = (Inr (), st')"
    using assms by (auto simp: claim_and_execute_def execute_to_completion_def bindA_Inr action_simps)
  obtain x where x: "exchanges st1 = exchanges st @ [x]" "granted env c x"
    using claim_granted [OF claim] by blast
  obtain ys where ys: "exchanges st2 = exchanges st1 @ ys"
    using emitsD [OF quiet_start start] .
  obtain seen where seen: "exchanges st' = exchanges st2 @ seen" "seen \<noteq> []"
    "reported env c (last seen) = Some ''completed''"
    using execute_attempts_trace [OF run] by auto
  show thesis
    by (rule that [of "x # ys @ seen"]) (use x ys seen in auto)
qed

lemma finish_transition_trace:
  assumes "finish_transition env flow title c plan_id approval_id current_graph desired_graph st = (r, st')"
  obtains "exchanges st' = exchanges st"
  | cs a tail where
    "exchanges st' = exchanges st @ (advance_request env flow title c plan_id current_graph desired_graph cs, a) # tail"
    and "length tail \<le> 1" and "\<forall>x \<in> set tail. no_advance flow x"
    and "map_of (plan_coordinates st) plan_id = Some cs"
proof (cases "map_of (plan_coordinates st) plan_id")
  case None
  then have "exchanges st' = exchanges st"
    using assms by (auto simp: finish_transition_def advance_current_graph_def bindA_def action_simps)
  then show thesis by (rule that(1))
next
  case (Some cs)
  obtain p q n where cs: "cs = (p, q, n)" by (cases cs)
  let ?rq = "advance_request env flow title c plan_id current_graph desired_graph cs"
  obtain a w where a: "h_exchange env ?rq (outside st) = (a, w)" by fastforce
  define st1 where "st1 = st\<lparr>exchanges := exchanges st @ [(?rq, a)], outside := w\<rparr>"
  have advance: "advance_current_graph env flow title c plan_id current_graph desired_graph st =
    (case decode_reply env ?rq a of
       Inl e \<Rightarrow> (Inl e, st1)
     | Inr v \<Rightarrow>
         (case validate_advance_result v (workspace flow) c plan_id current_graph p desired_graph q n of
            Inl e \<Rightarrow> (Inl e, st1)
          | Inr _ \<Rightarrow> (Inr desired_graph, st1)))"
    using a Some
    by (simp add: advance_current_graph_def http_post_def bindA_def hosted_http_eq advance_request_def
        action_simps st1_def cs split: sum.split)
  have st1: "exchanges st1 = exchanges st @ [(?rq, a)]" by (simp add: st1_def)
  show thesis
  proof (cases "fst (advance_current_graph env flow title c plan_id current_graph desired_graph st)")
    case (Inl e)
    then have "st' = st1"
      using assms unfolding finish_transition_def bindA_def advance
      by (auto split: sum.splits)
    then show thesis using that(2) [of cs a "[]"] st1 Some by simp
  next
    case (Inr g)
    then have "g = desired_graph" "advance_current_graph env flow title c plan_id current_graph desired_graph st =
        (Inr desired_graph, st1)"
      unfolding advance by (auto split: sum.splits)
    then have "bindA (read_current_graph_id env flow) (\<lambda>readback.
           if readback \<noteq> desired_graph then raise (Runtime ''current graph readback mismatch'')
           else ret \<lparr>tr_current_graph_id = desired_graph, tr_desired_graph_id = desired_graph,
                     tr_plan_id = plan_id, tr_approval_id = approval_id, tr_run_id = run_id c\<rparr>) st1 = (r, st')"
      using assms unfolding finish_transition_def by (simp add: bindA_def)
    then have "\<exists>x. exchanges st' = exchanges st1 @ [x] \<and> no_advance flow x"
      by (auto simp: read_current_graph_id_def http_get_def bindA_def hosted_http_eq action_simps Let_def
          split: prod.splits sum.splits if_splits)
    then obtain x where "exchanges st' = exchanges st1 @ [x]" "no_advance flow x" by blast
    then show thesis using that(2) [of cs a "[x]"] st1 Some by simp
  qed
qed

section \<open>A sample server\<close>

definition run_document :: "string \<Rightarrow> string \<Rightarrow> int \<Rightarrow> string \<Rightarrow> json" where
  "run_document status event ordinal action =
     JObj [(''execution_request_id'', JStr ''q1''), (''run_id'', JStr ''r1''),
       (''run_status'', JStr status), (''event_id'', JStr ''e1''), (''event_type'', JStr event),
       (''event_ordinal'', JInt ordinal), (''action_id'', JStr ''x1''), (''action_type'', JStr action),
       (''replayed'', JBool False), (''claim_generation'', JInt 1)]"

definition execution_document :: "string \<Rightarrow> string \<Rightarrow> json \<Rightarrow> json" where
  "execution_document status coordinator activity =
     JObj [(''result'', JObj [(''run_id'', JStr ''r1''), (''run_status'', JStr status),
       (''coordinator_status'', JStr coordinator), (''effects_attempted'', JInt 1),
       (''activity_id'', activity)])]"

definition advance_document :: json where
  "advance_document =
     JObj [(''workspace_id'', JStr ''w''), (''from_authored_graph_id'', JStr ''g1''),
       (''from_realized_projection_id'', JStr ''p1''), (''to_authored_graph_id'', JStr ''g2''),
       (''to_realized_projection_id'', JStr ''p2''),
       (''to_realized_projection_digest'', JStr (replicate 64 (CHR ''a''))),
       (''desired_graph_revision'', JInt 1), (''from_graph_id'', JStr ''g1''),
       (''to_graph_id'', JStr ''g2''), (''run_id'', JStr ''r1''), (''plan_id'', JStr ''pl''),
       (''event_id'', JStr ''e9''), (''action_id'', JStr ''x9''), (''replayed'', JBool False)]"

text \<open>The answers in the order in which a transition asks for them; the body is the number.\<close>

definition sample_answers :: "json list" where
  "sample_answers =
     [JObj [(''session_id'', JStr ''s1'')],
      JObj [(''result'', JObj [(''workspace'', JObj [(''desired_graph_id'', JNull),
         (''desired_realized_projection_id'', JNull), (''desired_graph_revision'', JInt 0)])])],
      JObj [(''desired_graph_id'', JStr ''g2''), (''desired_realized_projection_id'', JStr ''p2''),
         (''desired_graph_revision'', JInt 1)],
      JObj [(''graph_id'', JStr ''g1''), (''realized_projection_id'', JStr ''p1'')],
      JObj [(''result'', JObj [(''ready_for_execution'', JBool True), (''plan_id'', JStr ''pl''),
         (''base_realized_projection_id'', JStr ''p1''),
         (''desired_realized_projection_id'', JStr ''p2''), (''desired_graph_revision'', JInt 1)])],
      JObj [(''request_id'', JStr ''a1''), (''required_scope'', JStr ''plan:approve'')],
      JObj [(''result'', JObj [(''items'', JArr [JObj [(''request_id'', JStr ''a1'')]])])],
      JObj [(''result'', JObj [(''plan'', JObj [(''plan_id'', JStr ''pl'')])])],
      JObj [(''result'', JObj [])],
      JObj [(''execution_request_id'', JStr ''q1'')],
      run_document ''claimed'' ''run_opened'' 1 ''claim-run'',
      run_document ''running'' ''run_started'' 2 ''start-run'',
      execution_document ''running'' ''progressed'' (JStr ''act''),
      execution_document ''succeeded'' ''completed'' JNull,
      advance_document,
      JObj [(''graph_id'', JStr ''g2'')]]"

definition hosted_sample_env :: "nat hosted_env" where
  "hosted_sample_env =
     \<lparr>h_exchange = (\<lambda>_ n. (Body [char_of n], Suc n)),
      h_docker = \<lparr>docker_networks = (\<lambda>_. ret []), docker_container = (\<lambda>_. ret None),
                  docker_attached = (\<lambda>_. ret []), docker_connect = (\<lambda>_ _. ret False)\<rparr>,
      h_loads = (\<lambda>s. case s of [c] \<Rightarrow> Some (sample_answers ! byte_of c) | _ \<Rightarrow> None),
      h_float = (\<lambda>_. []), h_repr = (\<lambda>_. []), h_digits = (\<lambda>_. None), h_hostname = ''controller'',
      plan_request_scope = ''plan:request'', plan_execute_scope = ''plan:execute'',
      execution_operate_scope = ''execution:operate''\<rparr>"

definition sample_flow :: workflow where
  "sample_flow = workflow_for ''http://cpk/'' ''server'' ''w''"

definition sample_start :: "nat hosted_state" where
  "sample_start = \<lparr>exchanges = [], desired_coordinates = [], plan_coordinates = [], outside = 0\<rparr>"

definition sample_transition :: "(hosted_error + transition_result) \<times> nat hosted_state" where
  "sample_transition =
     run_approved_transition hosted_sample_env sample_flow ''deploy'' (JObj []) ''g1'' None False sample_start"

lemma sample_decode:
  assumes "n < 16"
  shows "decode_reply hosted_sample_env rq (Body [char_of n]) = Inr (sample_answers ! n)"
proof -
  have n: "byte_of (char_of n) = n" using assms by (simp add: byte_of_def)
  then have "utf8_decode [char_of n] = Some [char_of n]"
    using assms by (simp add: utf8_decode_def valid_utf8_ascii)
  moreover have "list_all is_dict sample_answers" "length sample_answers = 16" by code_simp+
  then have "is_dict (sample_answers ! n)" using assms by (simp add: list_all_length)
  ultimately show ?thesis
    by (simp add: decode_reply_def RESPONSE_BYTES_def hosted_sample_env_def n)
qed

lemma sample_exchange: "h_exchange hosted_sample_env rq n = (Body [char_of n], Suc n)"
  by (simp add: hosted_sample_env_def)

lemma sample_http:
  "outside st = n \<Longrightarrow> n < 16 \<Longrightarrow>
   hosted_http hosted_sample_env flow meth path payload authorize extra timeout st =
     (Inr (sample_answers ! n),
      st\<lparr>exchanges := exchanges st @
            [(wire_request flow meth path payload authorize extra timeout, Body [char_of n])],
          outside := Suc n\<rparr>)"
  by (simp add: hosted_http_eq sample_exchange sample_decode)

lemma sample_mcp:
  "outside st = n \<Longrightarrow> n < 16 \<Longrightarrow>
   mcp_call hosted_sample_env flow meth name arguments timeout authorization st =
     (mcp_result name (sample_answers ! n),
      st\<lparr>exchanges := exchanges st @ [(mcp_request flow meth name arguments timeout authorization, Body [char_of n])],
          outside := Suc n\<rparr>)"
  by (simp add: mcp_call_eq sample_exchange sample_decode)

lemma sample_checks:
  "claimed_run_from_result (sample_answers ! 10) ''q1'' = Inr \<lparr>run_id = ''r1'', claim_generation = 1\<rparr>"
  "validate_start_result (sample_answers ! 11) \<lparr>run_id = ''r1'', claim_generation = 1\<rparr> = Inr ()"
  "bindE (mcp_result ''command.deployment.execute'' (sample_answers ! 12))
     (\<lambda>v. validate_execute_result v \<lparr>run_id = ''r1'', claim_generation = 1\<rparr>) = Inr ''progressed''"
  "bindE (mcp_result ''command.deployment.execute'' (sample_answers ! 13))
     (\<lambda>v. validate_execute_result v \<lparr>run_id = ''r1'', claim_generation = 1\<rparr>) = Inr ''completed''"
  "validate_advance_result (sample_answers ! 14) ''w'' \<lparr>run_id = ''r1'', claim_generation = 1\<rparr> ''pl'' ''g1'' ''p1''
     ''g2'' ''p2'' 1 = Inr ()"
  by code_simp+

lemma sample_early_answers:
  "sample_answers ! 0 = JObj [(''session_id'', JStr ''s1'')]"
  "sample_answers ! 1 = JObj [(''result'', JObj [(''workspace'', JObj [(''desired_graph_id'', JNull),
     (''desired_realized_projection_id'', JNull), (''desired_graph_revision'', JInt 0)])])]"
  "sample_answers ! 2 = JObj [(''desired_graph_id'', JStr ''g2''), (''desired_realized_projection_id'', JStr ''p2''),
     (''desired_graph_revision'', JInt 1)]"
  "sample_answers ! 3 = JObj [(''graph_id'', JStr ''g1''), (''realized_projection_id'', JStr ''p1'')]"
  "sample_answers ! 4 = JObj [(''result'', JObj [(''ready_for_execution'', JBool True), (''plan_id'', JStr ''pl''),
     (''base_realized_projection_id'', JStr ''p1''),
     (''desired_realized_projection_id'', JStr ''p2''), (''desired_graph_revision'', JInt 1)])]"
  "sample_answers ! 5 = JObj [(''request_id'', JStr ''a1''), (''required_scope'', JStr ''plan:approve'')]"
  "sample_answers ! 6 = JObj [(''result'', JObj [(''items'', JArr [JObj [(''request_id'', JStr ''a1'')]])])]"
  "sample_answers ! 7 = JObj [(''result'', JObj [(''plan'', JObj [(''plan_id'', JStr ''pl'')])])]"
  "sample_answers ! 8 = JObj [(''result'', JObj [])]"
  "sample_answers ! 9 = JObj [(''execution_request_id'', JStr ''q1'')]"
  "sample_answers ! 15 = JObj [(''graph_id'', JStr ''g2'')]"
  by (simp_all add: sample_answers_def)

lemmas sample_run = bindA_def sample_http sample_mcp sample_early_answers mcp_result_def action_simps
  text_at_def subscript_def str_of_def int_of_def field_def members_def has_def get_def is_dict_def

lemma sample_prepared:
  "\<exists>st. up_to_admission hosted_sample_env sample_flow ''deploy'' (JObj []) ''g1'' None sample_start =
     (Inr (''q1'', ''pl'', ''a1'', ''g2''), st) \<and> outside st = 10 \<and>
     plan_coordinates st = [(''pl'', (''p1'', ''p2'', 1))]"
  by (simp add: up_to_admission_def start_session_def set_desired_graph_def hosted_read_workspace_def
      plan_transition_def request_approval_def assert_approval_visible_def approve_def admit_def
      http_get_def http_post_def mcp_read_def mcp_tool_def request_ids_def iterate_def hashable_def
      is_list_def check_lineage_def truth_def sample_start_def sample_run
      flip: One_nat_def)

abbreviation sample_claim :: claimed_run where
  "sample_claim \<equiv> \<lparr>run_id = ''r1'', claim_generation = 1\<rparr>"

lemma sample_attempt:
  assumes "outside st = n" and "n < 16"
    and "bindE (mcp_result ''command.deployment.execute'' (sample_answers ! n))
      (\<lambda>v. validate_execute_result v sample_claim) = Inr s"
  shows "\<exists>st1. outside st1 = Suc n \<and> plan_coordinates st1 = plan_coordinates st \<and>
    execute_attempts hosted_sample_env sample_flow sample_claim False (Suc k) st =
      (if s = ''completed'' then ret ()
       else if s \<in> set STOPPED_STATUSES then raise (Runtime ''deployment execution stopped'')
       else execute_attempts hosted_sample_env sample_flow sample_claim False k) st1"
proof -
  obtain v where v: "mcp_result ''command.deployment.execute'' (sample_answers ! n) = Inr v"
    "validate_execute_result v sample_claim = Inr s"
    using assms(3) by auto
  define st1 where "st1 = snd (mcp_call hosted_sample_env sample_flow ''tools/call'' ''command.deployment.execute''
    (execute_arguments hosted_sample_env sample_flow sample_claim (MAX_ATTEMPTS - Suc k)) 60
    (Some (worker_authorization sample_flow)) st)"
  have st1: "outside st1 = Suc n" "plan_coordinates st1 = plan_coordinates st"
    by (simp_all add: st1_def sample_mcp [OF assms(1,2)])
  have "mcp_call hosted_sample_env sample_flow ''tools/call'' ''command.deployment.execute''
    (execute_arguments hosted_sample_env sample_flow sample_claim (MAX_ATTEMPTS - Suc k)) 60
    (Some (worker_authorization sample_flow)) st = (Inr v, st1)"
    by (simp add: st1_def sample_mcp [OF assms(1,2)] v)
  then have "execute_attempts hosted_sample_env sample_flow sample_claim False (Suc k) st =
      (if s = ''completed'' then ret ()
       else if s \<in> set STOPPED_STATUSES then raise (Runtime ''deployment execution stopped'')
       else execute_attempts hosted_sample_env sample_flow sample_claim False k) st1"
    unfolding execute_attempts.simps if_False bindA_ret mcp_tool_def
    by (simp add: bindA_def tryA_def v(2) action_simps)
  with st1 show ?thesis by blast
qed

lemma sample_executed:
  assumes "outside st = 10"
  shows "\<exists>st'. claim_and_execute hosted_sample_env sample_flow ''deploy'' ''q1'' False st = (Inr sample_claim, st') \<and>
    outside st' = 14 \<and> plan_coordinates st' = plan_coordinates st"
proof -
  obtain st1 where claim: "claim hosted_sample_env sample_flow ''deploy'' ''q1'' st = (Inr sample_claim, st1)"
    "outside st1 = 11" "plan_coordinates st1 = plan_coordinates st"
    by (simp add: claim_def http_post_def bindA_def sample_http assms sample_checks action_simps)
  obtain st2 where start: "start_run hosted_sample_env sample_flow ''deploy'' sample_claim st1 = (Inr (), st2)"
    "outside st2 = 12" "plan_coordinates st2 = plan_coordinates st"
    using claim by (simp add: start_run_def http_post_def bindA_def sample_http sample_checks action_simps)
  have attempts: "MAX_ATTEMPTS = Suc (Suc 78)" by (simp add: MAX_ATTEMPTS_def)
  obtain st3 where first: "outside st3 = 13" "plan_coordinates st3 = plan_coordinates st"
    "execute_attempts hosted_sample_env sample_flow sample_claim False (Suc (Suc 78)) st2 =
     execute_attempts hosted_sample_env sample_flow sample_claim False (Suc 78) st3"
    using sample_attempt [OF start(2) _ sample_checks(3), of "Suc 78"] start(3)
    by (auto simp: STOPPED_STATUSES_def simp del: execute_attempts.simps)
  obtain st4 where second: "outside st4 = 14" "plan_coordinates st4 = plan_coordinates st"
    "execute_attempts hosted_sample_env sample_flow sample_claim False (Suc 78) st3 = (Inr (), st4)"
    using sample_attempt [OF first(1) _ sample_checks(4), of 78] first(2)
    by (auto simp: action_simps simp del: execute_attempts.simps)
  have run: "execute_attempts hosted_sample_env sample_flow sample_claim False MAX_ATTEMPTS st2 = (Inr (), st4)"
    by (simp only: attempts first(3) second(3))
  show ?thesis
    by (intro exI [of _ st4])
      (simp add: claim_and_execute_def execute_to_completion_def bindA_def claim(1) start(1) run
        second(1,2) action_simps)
qed

lemma sample_transition_result:
  "fst sample_transition =
     Inr \<lparr>tr_current_graph_id = ''g2'', tr_desired_graph_id = ''g2'', tr_plan_id = ''pl'',
          tr_approval_id = ''a1'', tr_run_id = ''r1''\<rparr>"
proof -
  obtain st where prepared: "up_to_admission hosted_sample_env sample_flow ''deploy'' (JObj []) ''g1'' None sample_start =
      (Inr (''q1'', ''pl'', ''a1'', ''g2''), st)" "outside st = 10"
      "plan_coordinates st = [(''pl'', (''p1'', ''p2'', 1))]"
    using sample_prepared by blast
  obtain st' where executed: "claim_and_execute hosted_sample_env sample_flow ''deploy'' ''q1'' False st =
      (Inr sample_claim, st')" "outside st' = 14" "plan_coordinates st' = plan_coordinates st"
    using sample_executed [OF prepared(2)] by blast
  have w: "workspace sample_flow = ''w''" by (simp add: sample_flow_def workflow_for_def make_workflow_def)
  have "fst (finish_transition hosted_sample_env sample_flow ''deploy'' sample_claim ''pl'' ''a1'' ''g1'' ''g2'' st') =
     Inr \<lparr>tr_current_graph_id = ''g2'', tr_desired_graph_id = ''g2'', tr_plan_id = ''pl'',
          tr_approval_id = ''a1'', tr_run_id = ''r1''\<rparr>"
    using executed(2,3) prepared(3) sample_checks(5)
    by (simp add: finish_transition_def advance_current_graph_def read_current_graph_id_def http_post_def
        http_get_def bindA_def sample_http sample_early_answers text_at_def subscript_def str_of_def w action_simps)
  then show ?thesis
    by (simp add: sample_transition_def transition_parts bindA_def prepared(1) executed(1))
qed

section \<open>The properties\<close>

text \<open>
  C24.  The protocol of a transition.  A transition that returns has sent exactly these requests, in
  this order: the session, the read of the workspace and the new desired graph, the read of the
  current graph and the plan, the request for approval, the two reads that show it, the decision, the
  admission, the claim and start of the run, between one and 80 executions, the advancement of that
  run and the read of the current graph.  Each names the plan and the run of the result, and the
  worker's credential is on the claim, the start, the executions and the advancement only.
\<close>

theorem transition_protocol:
  assumes "run_approved_transition env flow title graph current_graph expected sync st = (Inr res, st')"
  shows "\<exists>request_id n. 1 \<le> n \<and> n \<le> 80 \<and>
    sent flow st' = sent flow st @
      [Call ''POST'' (workspace_path flow ''/sessions'') (Some AUTHORIZATION),
       Tool ''read.workspace'' (Some AUTHORIZATION),
       Call ''POST'' (workspace_path flow ''/graphs/desired'') (Some AUTHORIZATION),
       Call ''GET'' (workspace_path flow ''/graphs/current'') (Some AUTHORIZATION),
       Tool ''command.deployment.plan'' (Some AUTHORIZATION),
       Call ''POST'' (workspace_path flow (''/plans/'' @ tr_plan_id res @ ''/approval'')) (Some AUTHORIZATION),
       Tool ''read.pending-approvals'' (Some AUTHORIZATION),
       Tool ''read.approval-detail'' (Some AUTHORIZATION),
       Tool ''command.approval.decide'' (Some AUTHORIZATION),
       Call ''POST'' (workspace_path flow (''/plans/'' @ tr_plan_id res @ ''/admission'')) (Some AUTHORIZATION),
       Call ''POST'' (run_path flow request_id ''/claim'') (Some (worker_authorization flow)),
       Call ''POST'' (run_path flow (tr_run_id res) ''/start'') (Some (worker_authorization flow))] @
      replicate n (Tool ''command.deployment.execute'' (Some (worker_authorization flow))) @
      [Call ''POST'' (run_path flow (tr_run_id res) ''/advance-current-graph'') (Some (worker_authorization flow)),
       Call ''GET'' (workspace_path flow ''/graphs/current'') (Some AUTHORIZATION)] \<and>
    tr_current_graph_id res = tr_desired_graph_id res"
proof -
  obtain session desired plan_id approval approval_id request_id c s1 s2 s3 s4 s5 s6 s7 s8 s9 s10 where
    ops: "start_session env flow title st = (Inr session, s1)"
    "set_desired_graph env flow session graph title expected s1 = (Inr desired, s2)"
    "plan_transition env flow session title current_graph desired s2 = (Inr plan_id, s3)"
    "request_approval env flow session title plan_id s3 = (Inr approval, s4)"
    "assert_approval_visible env flow approval_id plan_id s4 = (Inr (), s5)"
    "approve env flow session title approval s5 = (Inr (), s6)"
    "admit env flow session title plan_id approval_id s6 = (Inr request_id, s7)"
    "claim env flow title request_id s7 = (Inr c, s8)"
    "start_run env flow title c s8 = (Inr (), s9)"
    and run: "execute_attempts env flow c sync MAX_ATTEMPTS s9 = (Inr (), s10)"
    and finish: "finish_transition env flow title c plan_id approval_id current_graph desired s10 = (Inr res, st')"
    using assms by (auto simp: run_approved_transition_def execute_to_completion_def bindA_Inr action_simps)
  obtain seen where seen: "exchanges s10 = exchanges s9 @ seen" "length seen \<le> MAX_ATTEMPTS" "seen \<noteq> []"
    "map fst seen = map (\<lambda>i. execute_request env flow c (MAX_ATTEMPTS - MAX_ATTEMPTS + i)) [0..<length seen]"
    using execute_attempts_trace [OF run] by auto
  have "map (\<lambda>x. wire_of flow (fst x)) seen = map (wire_of flow) (map fst seen)" by simp
  also have "\<dots> = replicate (length seen) (Tool ''command.deployment.execute'' (Some (worker_authorization flow)))"
    unfolding seen(4) by (simp add: execute_request_def wire_of_mcp comp_def map_replicate_const)
  finally have executions: "sent flow s10 = sent flow s9 @
      replicate (length seen) (Tool ''command.deployment.execute'' (Some (worker_authorization flow)))"
    by (simp add: sent_def seen(1))
  note rest = start_session_sent [OF ops(1)] set_desired_graph_sent [OF ops(2)] plan_transition_sent [OF ops(3)]
    request_approval_sent [OF ops(4)] assert_approval_visible_sent [OF ops(5)] approve_sent [OF ops(6)]
    admit_sent [OF ops(7)] claim_sent [OF ops(8)] start_run_sent [OF ops(9)]
  have end_: "sent flow st' = sent flow s10 @
     [Call ''POST'' (run_path flow (run_id c) ''/advance-current-graph'') (Some (worker_authorization flow)),
      Call ''GET'' (workspace_path flow ''/graphs/current'') (Some AUTHORIZATION)]"
    and res: "tr_plan_id res = plan_id" "tr_run_id res = run_id c" "tr_current_graph_id res = tr_desired_graph_id res"
    using finish_transition_sent [OF finish] by simp_all
  have "1 \<le> length seen" "length seen \<le> 80" using seen(2,3) by (simp_all add: MAX_ATTEMPTS_def Suc_le_eq)
  then show ?thesis
    by (intro exI [of _ request_id] exI [of _ "length seen"])
      (simp add: end_ executions rest res)
qed

lemma transition_protocol_witness:
  "\<exists>n. 1 \<le> n \<and> n \<le> 80 \<and> length (sent sample_flow (snd sample_transition)) = 14 + n"
proof -
  obtain st' where "sample_transition = (fst sample_transition, st')" by (metis prod.collapse)
  then have run: "run_approved_transition hosted_sample_env sample_flow ''deploy'' (JObj []) ''g1'' None False sample_start =
      (Inr \<lparr>tr_current_graph_id = ''g2'', tr_desired_graph_id = ''g2'', tr_plan_id = ''pl'',
          tr_approval_id = ''a1'', tr_run_id = ''r1''\<rparr>, snd sample_transition)"
    using sample_transition_result by (metis sample_transition_def snd_conv)
  have start: "sent sample_flow sample_start = []" by (simp add: sent_def sample_start_def)
  show ?thesis
    using transition_protocol [OF run]
    by (elim exE conjE) (rule_tac x = n in exI, simp add: start)
qed

text \<open>
  C23.  A graph is advanced only after the server reported the run completed.  Whatever the server
  answers and however a transition ends, nothing is advanced before the last exchange in which the
  server reported, for a run it had granted to this worker, that the coordinator completed and the
  run succeeded; then at most one advancement is sent, of that run, with the generation of the claim
  and the coordinates the plan was made with.
\<close>

theorem advance_needs_completion:
  assumes "run_approved_transition env flow title graph current_graph expected sync st = (r, st')"
  shows "\<exists>pre post. exchanges st' = exchanges st @ pre @ post \<and> (\<forall>x \<in> set pre. no_advance flow x) \<and>
    (post = [] \<or>
     (\<exists>c plan_id desired_graph coordinates a tail.
        post = (advance_request env flow title c plan_id current_graph desired_graph coordinates, a) # tail \<and>
        length tail \<le> 1 \<and> (\<forall>x \<in> set tail. no_advance flow x) \<and>
        pre \<noteq> [] \<and> reported env c (last pre) = Some ''completed'' \<and> (\<exists>x \<in> set pre. granted env c x)))"
proof -
  obtain x st1 where x: "up_to_admission env flow title graph current_graph expected st = (x, st1)"
    by fastforce
  obtain p1 where p1: "exchanges st1 = exchanges st @ p1" "\<forall>y \<in> set p1. no_advance flow y"
    using emitsD [OF quiet_admission x] .
  show ?thesis
  proof (cases x)
    case (Inl e)
    then have "st' = st1" using assms by (simp add: transition_parts bindA_def x)
    with p1 show ?thesis by (intro exI [of _ p1] exI [of _ "[]"]) simp
  next
    case (Inr ids)
    obtain request_id plan_id approval_id desired_graph where ids: "ids = (request_id, plan_id, approval_id, desired_graph)"
      by (cases ids)
    obtain y st2 where y: "claim_and_execute env flow title request_id sync st1 = (y, st2)" by fastforce
    obtain p2 where p2: "exchanges st2 = exchanges st1 @ p2" "\<forall>z \<in> set p2. no_advance flow z"
      using emitsD [OF quiet_execution y] .
    show ?thesis
    proof (cases y)
      case (Inl e)
      then have "st' = st2" using assms by (simp add: transition_parts bindA_def x Inr ids y)
      with p1 p2 show ?thesis by (intro exI [of _ "p1 @ p2"] exI [of _ "[]"]) auto
    next
      case c: (Inr c)
      have done': "p2 \<noteq> []" "reported env c (last p2) = Some ''completed''" "\<exists>z \<in> set p2. granted env c z"
        using execution_succeeded [OF y [unfolded c]] p2(1) by (metis same_append_eq)+
      have "finish_transition env flow title c plan_id approval_id current_graph desired_graph st2 = (r, st')"
        using assms by (simp add: transition_parts bindA_def x Inr ids y c)
      then show ?thesis
      proof (cases rule: finish_transition_trace)
        case 1
        with p1 p2 show ?thesis by (intro exI [of _ "p1 @ p2"] exI [of _ "[]"]) auto
      next
        case (2 cs a tail)
        then show ?thesis
          using p1 p2 done'
          by (intro exI [of _ "p1 @ p2"] exI [of _ "(advance_request env flow title c plan_id current_graph
              desired_graph cs, a) # tail"] conjI disjI2 exI [of _ c] exI [of _ plan_id] exI [of _ desired_graph]
              exI [of _ cs] exI [of _ a] exI [of _ tail]) auto
      qed
    qed
  qed
qed

lemma advance_needs_completion_witness:
  "\<exists>pre post. exchanges (snd sample_transition) = pre @ post \<and> (\<forall>x \<in> set pre. no_advance sample_flow x) \<and>
     length post \<le> 2"
proof -
  have "run_approved_transition hosted_sample_env sample_flow ''deploy'' (JObj []) ''g1'' None False sample_start =
      (fst sample_transition, snd sample_transition)"
    by (simp add: sample_transition_def)
  from advance_needs_completion [OF this]
  obtain pre post where "exchanges (snd sample_transition) = exchanges sample_start @ pre @ post"
    "\<forall>x \<in> set pre. no_advance sample_flow x"
    and post: "post = [] \<or> (\<exists>x tail. post = x # tail \<and> length tail \<le> 1)"
    by blast
  moreover from post have "length post \<le> 2" by auto
  moreover have "exchanges sample_start = []" by (simp add: sample_start_def)
  ultimately show ?thesis by auto
qed

text \<open>
  C25.  The execution loop ends.  It sends at most 80 executions, numbered from 0 in their idempotency
  keys, each for one effect of the claimed run with the generation of the claim; it goes on only after
  an answer that reports progress; and it returns only after an answer that reports completion.
  Without networks to attach, its result is the verdict on the last answer: success on completion, a
  stop on failed, unsupported, uncertain or blocked, an error on a refused answer, and after 80
  reports of progress the error that it did not complete.
\<close>

theorem execution_loop_ends:
  assumes "execute_to_completion env flow c sync st = (r, st')"
  shows "\<exists>seen. exchanges st' = exchanges st @ seen \<and> length seen \<le> 80 \<and>
    map fst seen = map (execute_request env flow c) [0..<length seen] \<and>
    (\<forall>x \<in> set (butlast seen). goes_on env c x) \<and>
    (r = Inr () \<longrightarrow> seen \<noteq> [] \<and> reported env c (last seen) = Some ''completed'') \<and>
    (\<not> sync \<longrightarrow> seen \<noteq> [] \<and> r = loop_outcome env c seen \<and>
       (goes_on env c (last seen) \<longrightarrow> length seen = 80))"
proof -
  have run: "execute_attempts env flow c sync MAX_ATTEMPTS st = (r, st')"
    using assms by (simp add: execute_to_completion_def)
  show ?thesis
    using execute_attempts_trace [OF run] by (force simp: MAX_ATTEMPTS_def)
qed

lemma execution_loop_ends_witness:
  "\<exists>seen. length seen \<le> 80 \<and>
     fst (execute_to_completion hosted_sample_env sample_flow sample_claim False (sample_start\<lparr>outside := 12\<rparr>)) =
       loop_outcome hosted_sample_env sample_claim seen"
  using execution_loop_ends [OF prod.collapse [symmetric], of hosted_sample_env sample_flow sample_claim False
      "sample_start\<lparr>outside := 12\<rparr>"]
  by blast

section \<open>Pages of events\<close>

lemma page_accepted:
  assumes "validate_run_event_page fr dv v ws run limit = Some events"
  shows "int (length events) \<le> limit" and "list_all (\<lambda>e. valid_run_event fr dv e run) events"
    and "sorted_wrt (<) (map ordinal_of events)" and "distinct (map event_id_of events)"
proof -
  have *: "sort (map ordinal_of events) = map ordinal_of events" "distinct (map ordinal_of events)"
    "distinct (map event_id_of events)" "list_all (\<lambda>e. valid_run_event fr dv e run) events"
    "int (length events) \<le> limit"
    using assms by (auto simp: validate_run_event_page_def Let_def card_distinct split: if_splits)
  then show "int (length events) \<le> limit" "list_all (\<lambda>e. valid_run_event fr dv e run) events"
    "distinct (map event_id_of events)" by blast+
  have "sorted (map ordinal_of events)" by (metis *(1) sorted_sort)
  then show "sorted_wrt (<) (map ordinal_of events)"
    using *(2) by (simp add: strict_sorted_iff)
qed

text \<open>
  The events a read returns.  They come from a page on which HTTP and MCP agreed, they are at
  most as many as asked for and never more than 100, all of the requested run, in strictly increasing
  order of their ordinals and with different identifiers; and the read sent exactly two requests,
  with the operator's credential.
\<close>

theorem run_events_are_ordered:
  assumes "read_run_events env flow run limit after st = (Inr events, st')"
  shows "length events \<le> 100 \<and> int (length events) \<le> limit \<and>
    (\<forall>e \<in> set events. field e ''run_id'' = JStr run) \<and>
    sorted_wrt (<) (map ordinal_of events) \<and> distinct (map event_id_of events) \<and>
    (\<exists>x y h m. exchanges st' = exchanges st @ [x, y] \<and>
       decode_reply env (fst x) (snd x) = Inr h \<and>
       bindE (decode_reply env (fst y) (snd y)) (mcp_result ''read.run-events'') = Inr m \<and>
       py_eq h m \<and> items_of h = events \<and>
       map_of (hr_headers (fst x)) ''Authorization'' = Some AUTHORIZATION \<and>
       map_of (hr_headers (fst y)) ''Authorization'' = Some AUTHORIZATION)"
proof -
  have limit: "limit \<le> 100" using assms by (auto simp: read_run_events_def action_simps split: if_splits)
  define path where "path = run_path flow run (''/events?limit='' @ int_text limit) @
    (case after of None \<Rightarrow> [] | Some d \<Rightarrow> ''&after='' @ quote (dump (h_float env) (canon (JObj d))))"
  define args where "args = [(''workspace_id'', JStr (workspace flow)), (''run_id'', JStr run), (''limit'', JInt limit)] @
    (case after of None \<Rightarrow> [] | Some d \<Rightarrow> [(''after'', JObj d)])"
  have reads: "bindA (tryA
          (bindA (http_get env flow path) (\<lambda>h.
           bindA (mcp_call env flow ''resources/read'' ''read.run-events'' args 10 (Some AUTHORIZATION))
           (\<lambda>m. ret (h, m))))
          (\<lambda>_. raise (Runtime ''run event read failed'')))
        (\<lambda>(h, m).
           case validate_run_event_page (h_float env) (h_digits env) h (workspace flow) run limit of
             None \<Rightarrow> raise (Runtime ''run events are invalid'')
           | Some events \<Rightarrow>
               if py_eq h m then ret events else raise (Runtime ''run events are invalid'')) st = (Inr events, st')"
    using assms unfolding read_run_events_def Let_def path_def [symmetric] args_def [symmetric]
    by (auto simp: action_simps split: if_splits)
  let ?rq = "wire_request flow ''GET'' path None True [] 10"
  let ?mq = "mcp_request flow ''resources/read'' ''read.run-events'' args 10 (Some AUTHORIZATION)"
  obtain a w where a: "h_exchange env ?rq (outside st) = (a, w)" by fastforce
  obtain b w' where b: "h_exchange env ?mq w = (b, w')" by fastforce
  obtain h m where h: "decode_reply env ?rq a = Inr h"
    and m: "bindE (decode_reply env ?mq b) (mcp_result ''read.run-events'') = Inr m"
    and page: "validate_run_event_page (h_float env) (h_digits env) h (workspace flow) run limit = Some events"
    and eq: "py_eq h m" and st': "exchanges st' = exchanges st @ [(?rq, a), (?mq, b)]"
  proof (cases "decode_reply env ?rq a")
    case (Inl e)
    with reads a that show thesis by (simp add: bindA_def tryA_def http_get_def hosted_http_eq action_simps)
  next
    case h: (Inr h)
    show thesis
    proof (cases "bindE (decode_reply env ?mq b) (mcp_result ''read.run-events'')")
      case (Inl e)
      with reads a b h that show thesis
        by (simp add: bindA_def tryA_def http_get_def hosted_http_eq mcp_call_eq action_simps)
    next
      case (Inr m)
      with reads a b h that [OF h Inr] show thesis
        by (auto simp: bindA_def tryA_def http_get_def hosted_http_eq mcp_call_eq action_simps
            simp del: bindE_eq_Inr split: option.splits if_splits)
    qed
  qed
  have items: "items_of h = events"
    using page by (auto simp: validate_run_event_page_def Let_def split: if_splits)
  have "map_of (hr_headers ?mq) ''Authorization'' = Some AUTHORIZATION"
    by (simp add: mcp_request_def wire_request_def dict_update_def)
  moreover have "\<forall>e \<in> set events. field e ''run_id'' = JStr run"
    using page_accepted(2) [OF page] by (auto simp: list_all_iff valid_run_event_def)
  ultimately show ?thesis
    using page_accepted(1,3,4) [OF page] limit h m eq st' items authorization_header(1)
    by (intro conjI exI [of _ "(?rq, a)"] exI [of _ "(?mq, b)"] exI [of _ h] exI [of _ m])
      (simp_all del: bindE_eq_Inr)
qed

definition sample_event :: json where
  "sample_event =
     JObj [(''event_id'', JStr ''e1''), (''run_id'', JStr ''r1''), (''ordinal'', JInt 1),
       (''event_type'', JStr ''step_succeeded''), (''occurred_at'', JStr ''2024-02-29T23:59:59Z''),
       (''activity_id'', JNull), (''payload'', JObj []), (''failure'', JNull)]"

definition sample_page :: json where
  "sample_page =
     JObj [(''workspace_id'', JStr ''w''), (''kind'', JStr ''run-events''), (''limit'', JInt 100),
       (''items'', JArr [sample_event]), (''next_cursor'', JNull)]"

definition page_env :: "nat hosted_env" where
  "page_env = hosted_sample_env\<lparr>h_exchange := (\<lambda>rq n. (Body (if hr_payload rq = None then ''h'' else ''m''), n)),
     h_loads := (\<lambda>s. if s = ''h'' then Some sample_page else Some (JObj [(''result'', sample_page)]))\<rparr>"

lemma sample_page_accepted:
  "validate_run_event_page fr dv sample_page ''w'' ''r1'' 100 = Some [sample_event]"
proof -
  have time: "canonical_timestamp dv (JStr ''2024-02-29T23:59:59Z'')"
  proof -
    have "codepoints ''2024-02-29T23:59:59Z'' =
        [50, 48, 50, 52, 45, 48, 50, 45, 50, 57, 84, 50, 51, 58, 53, 57, 58, 53, 57, 90]"
      by (simp add: byte_of_def)
    then show ?thesis
      by (simp add: canonical_timestamp_def Let_def decimal_digit_def month_field_def day_field_def
          two_digits_def hour_field_def minute_field_def second_field_def days_in_month_def leap_year_def)
  qed
  have texts: "nonempty_string (JStr ''e1'')" "nonempty_string (JStr ''step_succeeded'')"
    by (simp_all add: nonempty_string_def str_len_def is_cont_def byte_of_def)
  have "closed_mapping sample_event event_keys" "closed_mapping sample_page page_keys"
    by code_simp+
  then show ?thesis
    by (simp add: validate_run_event_page_def sample_page_def sample_event_def valid_run_event_def time texts
        field_def members_def get_def has_def is_list_def is_dict_def items_of_def hosted_bounded_json_def
        positive_integer_def MAX_CLAIM_GENERATION_def ordinal_of_def event_id_of_def)
qed

lemma run_events_are_ordered_witness:
  "fst (read_run_events page_env sample_flow ''r1'' 100 None sample_start) = Inr [sample_event] \<and>
   length [sample_event] \<le> (100 :: nat) \<and> field sample_event ''run_id'' = JStr ''r1''"
proof -
  have w: "workspace sample_flow = ''w''" by (simp add: sample_flow_def workflow_for_def make_workflow_def)
  have h: "decode_reply page_env rq (Body ''h'') = Inr sample_page"
    and m: "bindE (decode_reply page_env rq (Body ''m'')) (mcp_result ''read.run-events'') = Inr sample_page" for rq
    by (simp_all add: decode_reply_def utf8_decode_def valid_utf8_ascii byte_of_def RESPONSE_BYTES_def page_env_def
        is_dict_def sample_page_def mcp_result_def has_def members_def field_def get_def)
  have eq: "py_eq sample_page sample_page" by (simp add: sample_page_def sample_event_def)
  have ex: "h_exchange page_env rq n = (Body (if hr_payload rq = None then ''h'' else ''m''), n)" for rq n
    by (simp add: page_env_def)
  have run: "read_run_events page_env sample_flow ''r1'' 100 None sample_start =
      (Inr [sample_event], snd (read_run_events page_env sample_flow ''r1'' 100 None sample_start))"
    by (simp add: read_run_events_def bindA_def tryA_def http_get_def hosted_http_eq mcp_call_eq ex h m eq w
        sample_page_accepted wire_request_def mcp_request_def action_simps del: bindE_eq_Inr)
  from run_events_are_ordered [OF run] show ?thesis
    using run by (metis fst_conv list.set_intros(1) length_Cons)
qed

end
