(* ===== verification/HostedReadiness.thy ===== *)
theory HostedReadiness
  imports HostedProperties "HOL-Library.Code_Target_Numeral"
begin

text \<open>
  The readiness wait of the hosted workflow makes progress: a server that becomes ready within the
  attempts of the policy is noticed at its first ready answer, whatever it answered before.
\<close>

definition readiness_request :: "workflow \<Rightarrow> int \<Rightarrow> hosted_request" where
  "readiness_request flow timeout = wire_request flow ''GET'' ''/health/ready'' None False [] timeout"

text \<open>The answer to the attempt with this number, counted from 0, and the world it is made in.\<close>

fun world_after :: "'w hosted_env \<Rightarrow> hosted_request \<Rightarrow> nat \<Rightarrow> 'w \<Rightarrow> 'w" where
  "world_after env rq 0 w = w"
| "world_after env rq (Suc k) w = world_after env rq k (snd (h_exchange env rq w))"

definition nth_answer :: "'w hosted_env \<Rightarrow> hosted_request \<Rightarrow> nat \<Rightarrow> 'w \<Rightarrow> hosted_error + json" where
  "nth_answer env rq k w = decode_reply env rq (fst (h_exchange env rq (world_after env rq k w)))"

definition says_ready :: "hosted_error + json \<Rightarrow> bool" where
  "says_ready answer \<longleftrightarrow> (case answer of Inr v \<Rightarrow> field v ''status'' = JStr ''ready'' | Inl _ \<Rightarrow> False)"

definition runs_docker :: "hosted_error + json \<Rightarrow> bool" where
  "runs_docker answer \<longleftrightarrow>
     (case answer of Inr v \<Rightarrow> field v ''runtime_interpreters'' = JStr ''docker'' | Inl _ \<Rightarrow> False)"

lemma nth_answer_Suc: "nth_answer env rq (Suc k) w = nth_answer env rq k (snd (h_exchange env rq w))"
  by (simp add: nth_answer_def)

text \<open>One attempt: the request is sent, and the wait goes on unless the answer says ready.\<close>

lemma wait_ready_step:
  fixes st :: "'w hosted_state" and flow :: workflow and timeout :: int and env :: "'w hosted_env"
  defines "rq \<equiv> readiness_request flow timeout"
  defines "after \<equiv> st\<lparr>exchanges := exchanges st @ [(rq, fst (h_exchange env rq (outside st)))],
                     outside := snd (h_exchange env rq (outside st))\<rparr>"
  shows "wait_ready env flow timeout (Suc n) st =
    (if says_ready (nth_answer env rq 0 (outside st))
     then (if runs_docker (nth_answer env rq 0 (outside st)) then Inr ()
           else Inl (Runtime ''cpk-server did not boot with Docker runtime''), after)
     else wait_ready env flow timeout n after)"
  by (simp add: hosted_http_eq bindA_def tryA_def action_simps Let_def case_prod_unfold nth_answer_def says_ready_def
      runs_docker_def after_def rq_def readiness_request_def split: sum.split)

text \<open>
  C35.  Readiness is noticed.  If the server, asked again and again, first says that it is ready at attempt
  \<open>k\<close>, counted from 0, and runs the Docker interpreter, and the policy allows more than \<open>k\<close> attempts,
  then the wait returns after exactly \<open>k + 1\<close> requests.  Failures, errors and other answers before that
  attempt do not matter.
\<close>

theorem readiness_is_noticed:
  assumes "k < n"
    and "\<forall>i < k. \<not> says_ready (nth_answer env (readiness_request flow timeout) i (outside st))"
    and "says_ready (nth_answer env (readiness_request flow timeout) k (outside st))"
    and "runs_docker (nth_answer env (readiness_request flow timeout) k (outside st))"
  shows "\<exists>st' sent. wait_ready env flow timeout n st = (Inr (), st') \<and> exchanges st' = exchanges st @ sent \<and>
    map fst sent = replicate (Suc k) (readiness_request flow timeout)"
  using assms
proof (induction k arbitrary: n st)
  case 0
  then obtain m where "n = Suc m" by (cases n) auto
  with 0 show ?case by (simp add: wait_ready_step del: wait_ready.simps)
next
  case (Suc k)
  let ?rq = "readiness_request flow timeout"
  let ?next = "st\<lparr>exchanges := exchanges st @ [(?rq, fst (h_exchange env ?rq (outside st)))],
                  outside := snd (h_exchange env ?rq (outside st))\<rparr>"
  obtain m where n: "n = Suc m" using Suc(2) by (cases n) auto
  have "k < m" using Suc(2) n by simp
  moreover have "\<forall>i < k. \<not> says_ready (nth_answer env ?rq i (outside ?next))"
    using Suc(3) by (auto simp flip: nth_answer_Suc)
  moreover have "says_ready (nth_answer env ?rq k (outside ?next))" "runs_docker (nth_answer env ?rq k (outside ?next))"
    using Suc(4,5) by (simp_all add: nth_answer_Suc)
  ultimately obtain st' sent where rest: "wait_ready env flow timeout m ?next = (Inr (), st')"
    "exchanges st' = exchanges ?next @ sent" "map fst sent = replicate (Suc k) ?rq"
    using Suc(1) by blast
  have "\<not> says_ready (nth_answer env ?rq 0 (outside st))" using Suc(3) by blast
  then have "wait_ready env flow timeout n st = (Inr (), st')"
    using rest(1) unfolding n by (simp add: wait_ready_step del: wait_ready.simps)
  then show ?case using rest(2,3) 
    by (intro exI [of _ st'] exI [of _ "(?rq, fst (h_exchange env ?rq (outside st))) # sent"]) simp
qed

definition slow_server :: "nat hosted_env" where
  "slow_server = hosted_sample_env
     \<lparr>h_exchange := (\<lambda>_ n. (if n = 0 then Unreachable else Body [char_of n], Suc n)),
      h_loads := (\<lambda>s. Some (JObj (if s = [char_of (1 :: nat)] then [(''status'', JStr ''starting'')]
                              else [(''status'', JStr ''ready''), (''runtime_interpreters'', JStr ''docker'')])))\<rparr>"

lemma readiness_is_noticed_witness:
  "\<exists>st'. wait_ready slow_server sample_flow 30 30 sample_start = (Inr (), st') \<and> length (exchanges st') = 3"
proof -
  let ?answer = "\<lambda>i. nth_answer slow_server (readiness_request sample_flow 30) i (outside sample_start)"
  have silent: "\<not> says_ready (?answer 0)" "\<not> says_ready (?answer 1)" by code_simp+
  have "\<not> says_ready (?answer i)" if "i < 2" for i
  proof -
    from that have "i = 0 \<or> i = 1" by linarith
    with silent show ?thesis by blast
  qed
  moreover have "says_ready (?answer 2)" "runs_docker (?answer 2)" by code_simp+
  moreover have "(2 :: nat) < 30" by simp
  ultimately obtain st' sent where "wait_ready slow_server sample_flow 30 30 sample_start = (Inr (), st')"
    "exchanges st' = exchanges sample_start @ sent"
    "map fst sent = replicate (Suc 2) (readiness_request sample_flow 30)"
    using readiness_is_noticed [of 2 30 slow_server sample_flow 30 sample_start] by blast
  moreover from this(3) have "length sent = 3" by (metis length_map length_replicate numeral_3_eq_3 numeral_2_eq_2)
  ultimately show ?thesis by (simp add: sample_start_def)
qed

end
