(* ===== verification/Coordinates.thy ===== *)
theory Coordinates
  imports Catalogue
begin

text \<open>
  Product coordinates: \<open>scripts/apply_coordinates.py\<close>, which writes the dependency pins, the
  descriptors and the catalogue from one coordinate document or checks that they are up to date, and
  \<open>scripts/product_image_coordinate.py\<close>, which reads single coordinates out of that document.

  Both work on the files of the repository under a fixed root, kept in the state of theory
  \<open>Catalogue\<close>.  \<open>json.loads\<close>, SHA-256, the text of floats and \<open>str\<close> of a value that is
  no string are parameters.  Not modelled: \<open>argparse\<close> (its \<open>--check\<close> is a boolean) and
  the fallback of \<open>main\<close> to \<open>sys.argv\<close>.
\<close>

section \<open>Errors and environment\<close>

datatype coordinate_problem =
    RootNotAnObject
  | WrongCoordinateSchema
  | UpstreamsNotAnObject
  | ProductsNotAnArray
  | CoordinateNotAnObject
  | DuplicateCoordinate string
  | ImageNotAnObject string
  | NotSha256 string
  | EmptyCoordinate string
  | NotACommit string
  | UnsafeCoordinatePath string
  | StaleFiles "string list"

text \<open>
  \<open>Coordinate_error\<close> is the \<open>CoordinateError\<close> the script reports; all the others escape
  it.  An \<open>OSError\<close>, an undecodable file and whatever publishing raises are
  \<open>Catalogue_failure\<close>.
\<close>

datatype coordinate_exn =
    Coordinate_error coordinate_problem
  | Catalogue_failure catalogue_exn
  | Json_error
  | Key_error
  | Type_error

record 'doc coordinate_env =
  ce_root :: string
  ce_catalogue :: "'doc catalogue_env"
  ce_float :: "pyfloat \<Rightarrow> string"
  ce_str :: "json \<Rightarrow> string"

text \<open>
  A file of the repository.  A relative path loses its empty parts and its dots when it becomes a
  \<open>Path\<close>.
\<close>

fun slash_separated :: "string list \<Rightarrow> string" where
  "slash_separated [] = []"
| "slash_separated [p] = p"
| "slash_separated (p # q # ps) = p @ ''/'' @ slash_separated (q # ps)"

definition plain_relative :: "string \<Rightarrow> string" where
  "plain_relative s = slash_separated (filter (\<lambda>p. p \<noteq> [] \<and> p \<noteq> ''.'') (split_on (CHR ''/'') s))"

definition under_root :: "'doc coordinate_env \<Rightarrow> string \<Rightarrow> string" where
  "under_root env s = join_path (ce_root env) (plain_relative s)"

definition COORDINATES :: string where "COORDINATES = ''coordinates/server-products.json''"
definition PYPROJECT :: string where "PYPROJECT = ''pyproject.toml''"
definition CPK_SERVER_DOCKERFILE :: string where "CPK_SERVER_DOCKERFILE = ''products/cpk_server/Dockerfile''"
definition CPK_LOCAL_GATEWAY_DOCKERFILE :: string where
  "CPK_LOCAL_GATEWAY_DOCKERFILE = ''products/cpk_local_gateway/Dockerfile''"
definition SECRETS_SERVER_DOCKERFILE :: string where
  "SECRETS_SERVER_DOCKERFILE = ''products/secrets_server/Dockerfile''"
definition CATALOGUE :: string where "CATALOGUE = ''catalogue/products.json''"
definition PACKAGED_DIRECTORY :: string where "PACKAGED_DIRECTORY = ''src/control_plane_kit_servers/''"
definition PACKAGED_NAME :: string where "PACKAGED_NAME = ''catalogue.json''"

definition read_bytes_of :: "publication \<Rightarrow> string \<Rightarrow> coordinate_exn + string" where
  "read_bytes_of st path =
     (case map_of (files st) path of None \<Rightarrow> Inl (Catalogue_failure FileError) | Some b \<Rightarrow> Inr b)"

definition read_text_of :: "publication \<Rightarrow> string \<Rightarrow> coordinate_exn + string" where
  "read_text_of st path =
     bindE (read_bytes_of st path) (\<lambda>b.
       case utf8_decode b of
         None \<Rightarrow> Inl (Catalogue_failure UnicodeError)
       | Some s \<Rightarrow> Inr (universal_newlines s))"

definition read_json_of :: "'doc coordinate_env \<Rightarrow> publication \<Rightarrow> string \<Rightarrow> coordinate_exn + json" where
  "read_json_of env st path =
     bindE (read_text_of st path) (\<lambda>s.
       case cat_loads (ce_catalogue env) s of None \<Rightarrow> Inl Json_error | Some v \<Rightarrow> Inr v)"

section \<open>The coordinate document\<close>

definition coordinate_required :: "dict \<Rightarrow> string \<Rightarrow> coordinate_exn + string" where
  "coordinate_required d key =
     (case get d key of
        JStr (c # cs) \<Rightarrow> Inr (c # cs)
      | _ \<Rightarrow> Inl (Coordinate_error (EmptyCoordinate key)))"

definition commit :: "dict \<Rightarrow> string \<Rightarrow> coordinate_exn + string" where
  "commit d key =
     bindE (coordinate_required d key) (\<lambda>s.
     bindE (raise_if (\<not> is_lower_hex s 40) (Coordinate_error (NotACommit key))) (\<lambda>_. Inr s))"

definition relative :: "dict \<Rightarrow> string \<Rightarrow> coordinate_exn + string" where
  "relative d key =
     bindE (coordinate_required d key) (\<lambda>s.
     bindE (raise_if (starts_with ''/'' s \<or> ''..'' \<in> set (split_on (CHR ''/'') s))
              (Coordinate_error (UnsafeCoordinatePath key))) (\<lambda>_. Inr s))"

definition sha256_digest :: "string \<Rightarrow> bool" where
  "sha256_digest s \<longleftrightarrow> starts_with ''sha256:'' s \<and> is_lower_hex (drop 7 s) 64"

definition check_coordinate :: "string list \<Rightarrow> json \<Rightarrow> coordinate_exn + string" where
  "check_coordinate seen v =
     (case v of
        JObj p \<Rightarrow>
          bindE (coordinate_required p ''product_id'') (\<lambda>i.
          bindE (raise_if (i \<in> set seen) (Coordinate_error (DuplicateCoordinate i))) (\<lambda>_.
          bindE (relative p ''owner_directory'') (\<lambda>_.
          bindE (relative p ''descriptor_path'') (\<lambda>_.
          bindE (commit p ''source_commit'') (\<lambda>_.
          (case get p ''image'' of
             JObj img \<Rightarrow>
               bindE (coordinate_required img ''registry'') (\<lambda>_.
               bindE (coordinate_required img ''repository'') (\<lambda>_.
               bindE (coordinate_required img ''tag'') (\<lambda>_.
               bindE (coordinate_required img ''digest'') (\<lambda>digest.
               bindE (raise_if (\<not> sha256_digest digest) (Coordinate_error (NotSha256 i))) (\<lambda>_. Inr i)))))
           | _ \<Rightarrow> Inl (Coordinate_error (ImageNotAnObject i))))))))
      | _ \<Rightarrow> Inl (Coordinate_error CoordinateNotAnObject))"

fun check_coordinates :: "string list \<Rightarrow> json list \<Rightarrow> coordinate_exn + unit" where
  "check_coordinates seen [] = Inr ()"
| "check_coordinates seen (v # vs) =
     bindE (check_coordinate seen v) (\<lambda>i. check_coordinates (i # seen) vs)"

definition check_document :: "json \<Rightarrow> coordinate_exn + dict" where
  "check_document v =
     (case v of
        JObj raw \<Rightarrow>
          if get raw ''schema'' \<noteq> JStr ''cpk-servers.coordinates''
          then Inl (Coordinate_error WrongCoordinateSchema)
          else
            (case get raw ''upstreams'' of
               JObj upstreams \<Rightarrow>
                 (case get raw ''products'' of
                    JArr products \<Rightarrow>
                      bindE (commit upstreams ''control_plane_kit_commit'') (\<lambda>_.
                      bindE (commit upstreams ''control_plane_kit_interpreters_commit'') (\<lambda>_.
                      bindE (commit upstreams ''control_plane_kit_secrets_commit'') (\<lambda>_.
                      bindE (check_coordinates [] products) (\<lambda>_. Inr raw))))
                  | _ \<Rightarrow> Inl (Coordinate_error ProductsNotAnArray))
             | _ \<Rightarrow> Inl (Coordinate_error UpstreamsNotAnObject))
      | _ \<Rightarrow> Inl (Coordinate_error RootNotAnObject))"

definition load_coordinates :: "'doc coordinate_env \<Rightarrow> publication \<Rightarrow> coordinate_exn + dict" where
  "load_coordinates env st = bindE (read_json_of env st (under_root env COORDINATES)) check_document"

section \<open>Dependency pins\<close>

text \<open>
  \<open>re.sub\<close> with a literal address, forty hexadecimal digits and \<open>.zip\<close>: the leftmost match
  is replaced and the search goes on after it.  A replacement has no backslash, since the commits were
  checked.
\<close>

definition pin_here :: "string \<Rightarrow> string \<Rightarrow> bool" where
  "pin_here address s \<longleftrightarrow>
     starts_with address s \<and>
     (let h = take 40 (drop (length address) s) in
      length h = 40 \<and> list_all is_lower_hex_char h \<and> starts_with ''.zip'' (drop (length address + 40) s))"

function replace_pins :: "string \<Rightarrow> string \<Rightarrow> string \<Rightarrow> string" where
  "replace_pins address pin s =
     (case s of
        [] \<Rightarrow> []
      | c # t \<Rightarrow>
          if pin_here address s
          then address @ pin @ ''.zip'' @ replace_pins address pin (drop (length address + 44) s)
          else c # replace_pins address pin t)"
  by pat_completeness auto
termination by (relation "measure (\<lambda>(_, _, s). length s)") auto

declare replace_pins.simps [simp del]

definition PIN_BASE :: string where "PIN_BASE = ''https://github.com/OpenJ92/control-plane-kit''"

definition replace_dependency_pins :: "string \<Rightarrow> string \<Rightarrow> string \<Rightarrow> string \<Rightarrow> string" where
  "replace_dependency_pins cpk interpreters secrets s =
     replace_pins (PIN_BASE @ ''-secrets/archive/'') secrets
       (replace_pins (PIN_BASE @ ''-interpreters/archive/'') interpreters
          (replace_pins (PIN_BASE @ ''/archive/'') cpk s))"

section \<open>Descriptors\<close>

text \<open>\<open>v[key]\<close>; everything but a dictionary raises \<open>TypeError\<close> for a text as index.\<close>

definition member :: "json \<Rightarrow> string \<Rightarrow> coordinate_exn + json" where
  "member v key =
     (case v of
        JObj d \<Rightarrow> (case map_of d key of None \<Rightarrow> Inl Key_error | Some x \<Rightarrow> Inr x)
      | _ \<Rightarrow> Inl Type_error)"

text \<open>\<open>v[key] = x\<close>.\<close>

definition set_item :: "json \<Rightarrow> string \<Rightarrow> json \<Rightarrow> coordinate_exn + json" where
  "set_item v key x = (case v of JObj d \<Rightarrow> Inr (JObj (AList.update key x d)) | _ \<Rightarrow> Inl Type_error)"

text \<open>The provenance of an image names the source only where it named one before.\<close>

definition with_source :: "json \<Rightarrow> dict \<Rightarrow> coordinate_exn + json" where
  "with_source img p =
     (case img of
        JObj d \<Rightarrow>
          (case get d ''provenance'' of
             JObj provenance \<Rightarrow>
               if has provenance ''source-commit''
               then
                 bindE (member (JObj p) ''source_commit'') (\<lambda>source.
                 Inr (JObj (AList.update ''provenance''
                              (JObj (AList.update ''source-commit'' source provenance)) d)))
               else Inr img
           | _ \<Rightarrow> Inr img)
      | _ \<Rightarrow> Inl Type_error)"

definition copy_item :: "json \<Rightarrow> string \<Rightarrow> json \<Rightarrow> coordinate_exn + json" where
  "copy_item source key v = bindE (member source key) (set_item v key)"

definition with_image_coordinates :: "json \<Rightarrow> dict \<Rightarrow> coordinate_exn + json" where
  "with_image_coordinates descriptor p =
     bindE (member descriptor ''product'') (\<lambda>inner.
     bindE (member inner ''image'') (\<lambda>image.
     bindE (member (JObj p) ''image'') (\<lambda>coordinates.
     bindE (copy_item coordinates ''registry'' image) (\<lambda>image.
     bindE (copy_item coordinates ''repository'' image) (\<lambda>image.
     bindE (copy_item coordinates ''tag'' image) (\<lambda>image.
     bindE (copy_item coordinates ''digest'' image) (\<lambda>image.
     bindE (with_source image p) (\<lambda>image.
     bindE (set_item inner ''image'' image) (\<lambda>inner.
     set_item descriptor ''product'' inner)))))))))"

section \<open>Everything that is generated\<close>

text \<open>\<open>str(v)\<close> of a member, which a formatted string takes too.\<close>

definition member_string :: "'doc coordinate_env \<Rightarrow> json \<Rightarrow> string \<Rightarrow> coordinate_exn + string" where
  "member_string env v key =
     bindE (member v key) (\<lambda>x. Inr (case x of JStr s \<Rightarrow> s | _ \<Rightarrow> ce_str env x))"

definition coordinate_image_ref :: "'doc coordinate_env \<Rightarrow> dict \<Rightarrow> coordinate_exn + string" where
  "coordinate_image_ref env p =
     bindE (member (JObj p) ''image'') (\<lambda>image.
     bindE (member_string env image ''registry'') (\<lambda>registry.
     bindE (member_string env image ''repository'') (\<lambda>repository.
     bindE (member_string env image ''tag'') (\<lambda>tag.
     Inr (registry @ ''/'' @ repository @ '':'' @ tag)))))"

text \<open>
  One product: its file, its rewritten descriptor (\<open>json.dumps\<close> with its keys in the order they
  have) and its entry of the catalogue.
\<close>

definition generate_product ::
  "'doc coordinate_env \<Rightarrow> publication \<Rightarrow> json \<Rightarrow> coordinate_exn + (string \<times> string) \<times> json" where
  "generate_product env st v =
     bindE (member_string env v ''descriptor_path'') (\<lambda>path.
     bindE (read_json_of env st (under_root env path)) (\<lambda>descriptor.
     bindE (case v of JObj p \<Rightarrow> with_image_coordinates descriptor p | _ \<Rightarrow> Inl Type_error) (\<lambda>rewritten.
     let encoded = dump (ce_float env) rewritten in
     bindE (member_string env v ''product_id'') (\<lambda>i.
     bindE (member_string env v ''owner_directory'') (\<lambda>owner.
     bindE (member_string env v ''source_commit'') (\<lambda>source.
     bindE (case v of JObj p \<Rightarrow> coordinate_image_ref env p | _ \<Rightarrow> Inl Type_error) (\<lambda>reference.
     bindE (member v ''image'') (\<lambda>image.
     bindE (member_string env image ''digest'') (\<lambda>digest.
     Inr ((under_root env path, encoded),
          JObj [(''product_id'', JStr i), (''owner_directory'', JStr owner), (''descriptor_path'', JStr path),
                (''descriptor_sha256'', JStr (cat_sha256 (ce_catalogue env) encoded)),
                (''source_commit'', JStr source), (''image_ref'', JStr reference),
                (''image_digest'', JStr digest), (''status'', JStr ''completed'')]))))))))))"

definition pinned_file ::
  "'doc coordinate_env \<Rightarrow> publication \<Rightarrow> string \<Rightarrow> string \<Rightarrow> string \<Rightarrow> string \<Rightarrow> coordinate_exn + string \<times> string" where
  "pinned_file env st cpk interpreters secrets file =
     bindE (read_text_of st (under_root env file)) (\<lambda>s.
     Inr (under_root env file, replace_dependency_pins cpk interpreters secrets s))"

definition generated_catalogue :: "json list \<Rightarrow> string" where
  "generated_catalogue entries =
     pretty 0 (JObj [(''schema'', JStr ''cpk-servers.descriptor-catalogue''), (''products'', JArr entries)]) @
     line_break"

definition PINNED_FILES :: "string list" where
  "PINNED_FILES = [PYPROJECT, CPK_SERVER_DOCKERFILE, CPK_LOCAL_GATEWAY_DOCKERFILE, SECRETS_SERVER_DOCKERFILE]"

text \<open>The products of a checked document are a list, and its upstreams a dictionary.\<close>

definition generate_updates ::
  "'doc coordinate_env \<Rightarrow> publication \<Rightarrow> dict \<Rightarrow> coordinate_exn + (string \<times> string) list" where
  "generate_updates env st raw =
     bindE (member (JObj raw) ''upstreams'') (\<lambda>upstreams.
     bindE (member (JObj raw) ''products'') (\<lambda>products.
     bindE (case products of JArr vs \<Rightarrow> Inr vs | _ \<Rightarrow> Inl Type_error) (\<lambda>products.
     bindE (member_string env upstreams ''control_plane_kit_commit'') (\<lambda>cpk.
     bindE (member_string env upstreams ''control_plane_kit_interpreters_commit'') (\<lambda>interpreters.
     bindE (member_string env upstreams ''control_plane_kit_secrets_commit'') (\<lambda>secrets.
     bindE (mapE (pinned_file env st cpk interpreters secrets) PINNED_FILES) (\<lambda>pinned.
     bindE (mapE (generate_product env st) products) (\<lambda>generated.
     Inr (dict_update [] (pinned @ map fst generated @
            [(under_root env CATALOGUE, generated_catalogue (map snd generated))]))))))))))"

section \<open>Applying and checking\<close>

fun stale_files :: "publication \<Rightarrow> (string \<times> string) list \<Rightarrow> coordinate_exn + string list" where
  "stale_files st [] = Inr []"
| "stale_files st ((path, content) # updates) =
     bindE (read_bytes_of st path) (\<lambda>b.
     bindE (stale_files st updates) (\<lambda>stale.
     Inr (if b \<noteq> content then path # stale else stale)))"

type_synonym 'a applying = "(publication, coordinate_exn, 'a) action"

definition publishing_step :: "'a publishing \<Rightarrow> 'a applying" where
  "publishing_step m = (\<lambda>st. case m st of (Inl e, st') \<Rightarrow> (Inl (Catalogue_failure e), st') | (Inr x, st') \<Rightarrow> (Inr x, st'))"

fun write_updates :: "(string \<times> string) list \<Rightarrow> unit applying" where
  "write_updates [] = ret ()"
| "write_updates ((path, content) # updates) =
     thenA (publishing_step (write_file path content)) (write_updates updates)"

definition disk_env :: "'doc coordinate_env \<Rightarrow> publication \<Rightarrow> 'doc catalogue_env" where
  "disk_env env st =
     (ce_catalogue env)\<lparr>cat_file := (\<lambda>path. case map_of (files st) path of None \<Rightarrow> NoFile | Some b \<Rightarrow> Bytes b)\<rparr>"

definition publish_packaged :: "'doc coordinate_env \<Rightarrow> publication_report applying" where
  "publish_packaged env =
     bindA (getA (disk_env env)) (\<lambda>cat.
     publishing_step (publish_catalogue cat (under_root env CATALOGUE)
       (join_path (ce_root env) PACKAGED_DIRECTORY) PACKAGED_NAME))"

text \<open>
  \<open>main\<close>: the report printed after applying, nothing after a successful check.  Paths are shown
  relative to the root.
\<close>

definition apply_main :: "'doc coordinate_env \<Rightarrow> bool \<Rightarrow> publication_report option applying" where
  "apply_main env check =
     bindA (getA id) (\<lambda>st.
     bindA (liftE (bindE (load_coordinates env st) (generate_updates env st))) (\<lambda>updates.
     if check
     then
       bindA (liftE (stale_files st updates)) (\<lambda>stale.
       if stale \<noteq> []
       then raise (Coordinate_error (StaleFiles (sort (map (drop (length (ce_root env) + 1)) stale))))
       else ret None)
     else
       bindA (write_updates updates) (\<lambda>_.
       bindA (publish_packaged env) (\<lambda>report. ret (Some report)))))"

text \<open>The exit status of the script, with the errors it lets through.\<close>

definition apply_script :: "'doc coordinate_env \<Rightarrow> bool \<Rightarrow> int applying" where
  "apply_script env check =
     tryA (thenA (apply_main env check) (ret 0))
          (\<lambda>e. case e of Coordinate_error _ \<Rightarrow> ret 1 | _ \<Rightarrow> raise e)"

section \<open>Single coordinates\<close>

datatype selection_error =
    UnsupportedDocument
  | ProductsNotListed
  | NotExactlyOnce
  | ImageNotAMapping
  | DigestNotCanonical
  | SourceNotCanonical
  | TextMissing string
  | BadArguments
  | Escapes coordinate_exn

definition selected_text :: "dict \<Rightarrow> string \<Rightarrow> selection_error + string" where
  "selected_text d key = (case get d key of JStr (c # cs) \<Rightarrow> Inr (c # cs) | _ \<Rightarrow> Inl (TextMissing key))"

definition names_product :: "string \<Rightarrow> json \<Rightarrow> bool" where
  "names_product i v \<longleftrightarrow> (case v of JObj p \<Rightarrow> get p ''product_id'' = JStr i | _ \<Rightarrow> False)"

definition product_coordinate :: "json \<Rightarrow> string \<Rightarrow> selection_error + dict" where
  "product_coordinate document i =
     (case document of
        JObj raw \<Rightarrow>
          if get raw ''schema'' \<noteq> JStr ''cpk-servers.coordinates'' then Inl UnsupportedDocument
          else
            (case get raw ''products'' of
               JArr products \<Rightarrow>
                 (case filter (names_product i) products of
                    [JObj p] \<Rightarrow> Inr p
                  | _ \<Rightarrow> Inl NotExactlyOnce)
             | _ \<Rightarrow> Inl ProductsNotListed)
      | _ \<Rightarrow> Inl UnsupportedDocument)"

definition image_execution_reference :: "json \<Rightarrow> string \<Rightarrow> selection_error + string" where
  "image_execution_reference document i =
     bindE (product_coordinate document i) (\<lambda>p.
     (case get p ''image'' of
        JObj img \<Rightarrow>
          bindE (selected_text img ''registry'') (\<lambda>registry.
          bindE (selected_text img ''repository'') (\<lambda>repository.
          bindE (selected_text img ''digest'') (\<lambda>digest.
          bindE (raise_if (\<not> sha256_digest digest) DigestNotCanonical) (\<lambda>_.
          Inr (registry @ ''/'' @ repository @ ''@'' @ digest)))))
      | _ \<Rightarrow> Inl ImageNotAMapping))"

definition product_source_commit :: "json \<Rightarrow> string \<Rightarrow> selection_error + string" where
  "product_source_commit document i =
     bindE (product_coordinate document i) (\<lambda>p.
     bindE (selected_text p ''source_commit'') (\<lambda>source.
     bindE (raise_if (\<not> is_lower_hex source 40) SourceNotCanonical) (\<lambda>_. Inr source)))"

text \<open>What \<open>main\<close> prints for its arguments.\<close>

definition coordinate_main :: "'doc coordinate_env \<Rightarrow> publication \<Rightarrow> string list \<Rightarrow> selection_error + string" where
  "coordinate_main env st arguments =
     (let document =
        (case read_json_of env st (under_root env COORDINATES) of Inl e \<Rightarrow> Inl (Escapes e) | Inr v \<Rightarrow> Inr v) in
      case arguments of
        [i] \<Rightarrow> bindE document (\<lambda>v. image_execution_reference v i)
      | [option, i] \<Rightarrow>
          if option = ''--source-commit'' then bindE document (\<lambda>v. product_source_commit v i)
          else Inl BadArguments
      | _ \<Rightarrow> Inl BadArguments)"

end
