(* ===== verification/CoordinatePins.thy ===== *)
theory CoordinatePins
  imports Coordinates
begin

text \<open>
  The dependency pins that \<open>scripts/apply_coordinates.py\<close> writes: after the replacement every pin
  of every repository names its commit, a second replacement changes nothing, and the file stays
  readable as text.
\<close>

section \<open>Texts in which no address can begin\<close>

text \<open>Every address begins with \<open>ht\<close>, which it does not hold a second time.\<close>

fun restart_free :: "string \<Rightarrow> bool" where
  "restart_free (c # d # s) \<longleftrightarrow> \<not> (c = CHR ''h'' \<and> d = CHR ''t'') \<and> restart_free (d # s)"
| "restart_free _ \<longleftrightarrow> True"

definition good_address :: "string \<Rightarrow> bool" where
  "good_address a \<longleftrightarrow> starts_with ''ht'' a \<and> restart_free (tl a) \<and> last a = CHR ''/''"

definition hex40 :: "string \<Rightarrow> bool" where
  "hex40 h \<longleftrightarrow> length h = 40 \<and> list_all is_lower_hex_char h"

lemmas restart_free_induct = restart_free.induct [case_names two none one]

lemma restart_free_append:
  "restart_free u \<Longrightarrow> restart_free v \<Longrightarrow> u = [] \<or> last u \<noteq> CHR ''h'' \<Longrightarrow> restart_free (u @ v)"
proof (induction u rule: restart_free_induct)
  case (one c)
  then show ?case by (cases v) auto
qed auto

lemma restart_free_hex: "list_all is_lower_hex_char h \<Longrightarrow> restart_free h"
  by (induction h rule: restart_free_induct) (auto simp: is_lower_hex_char_def)

lemma hex_no_h: "list_all is_lower_hex_char h \<Longrightarrow> CHR ''h'' \<notin> set h"
proof
  assume "list_all is_lower_hex_char h" and "CHR ''h'' \<in> set h"
  then have "is_lower_hex_char (CHR ''h'')" unfolding list_all_iff by blast
  then show False by (simp add: is_lower_hex_char_def)
qed

lemma pin_here_iff: "pin_here a s \<longleftrightarrow> (\<exists>h t. s = a @ h @ ''.zip'' @ t \<and> hex40 h)"
proof
  assume pin: "pin_here a s"
  then have "starts_with a s" unfolding pin_here_def by blast
  then obtain r where r: "s = a @ r" unfolding starts_with_iff by blast
  have parts: "drop (length a) s = r" "drop (length a + 40) s = drop 40 r" by (simp_all add: r)
  from pin have h: "hex40 (take 40 r)" and "starts_with ''.zip'' (drop 40 r)"
    unfolding pin_here_def parts Let_def hex40_def by blast+
  then obtain t where "drop 40 r = ''.zip'' @ t" unfolding starts_with_iff by blast
  then have "s = a @ take 40 r @ ''.zip'' @ t" using r append_take_drop_id [of 40 r] by simp
  with h show "\<exists>h t. s = a @ h @ ''.zip'' @ t \<and> hex40 h" by blast
next
  assume "\<exists>h t. s = a @ h @ ''.zip'' @ t \<and> hex40 h"
  then obtain h t where s: "s = a @ h @ ''.zip'' @ t" and h: "hex40 h" by blast
  have n: "length h = 40" using h unfolding hex40_def by blast
  have "drop (length a + 40) s = drop 40 (h @ ''.zip'' @ t)" unfolding s by simp
  also have "\<dots> = ''.zip'' @ t" using append_eq_conv_conj [of h "''.zip'' @ t"] n by metis
  finally have parts: "drop (length a) s = h @ ''.zip'' @ t" "drop (length a + 40) s = ''.zip'' @ t"
    unfolding s by simp_all
  have "take 40 (h @ ''.zip'' @ t) = h" using append_eq_conv_conj [of h "''.zip'' @ t"] n by metis
  moreover have "starts_with a s" and "starts_with ''.zip'' (''.zip'' @ t)" unfolding s starts_with_iff by blast+
  ultimately show "pin_here a s"
    using h unfolding pin_here_def parts Let_def hex40_def by presburger
qed

lemma segment_restart_free:
  assumes "good_address a" and "hex40 h"
  shows "restart_free (tl a @ h @ ''.zip'')"
proof -
  have h: "h \<noteq> []" "list_all is_lower_hex_char h" using assms(2) by (auto simp: hex40_def)
  have "last h \<noteq> CHR ''h''" using hex_no_h [OF h(2)] last_in_set [OF h(1)] by metis
  then have "restart_free (h @ ''.zip'')"
    using restart_free_hex [OF h(2)] by (intro restart_free_append) simp_all
  moreover have "tl a \<noteq> []" "last (tl a) = CHR ''/''" "restart_free (tl a)"
    using assms(1) by (auto simp: good_address_def starts_with_iff)
  ultimately show ?thesis using restart_free_append [of "tl a" "h @ ''.zip''"] by simp
qed

section \<open>Replacing\<close>

lemma replace_pins_Nil [simp]: "replace_pins a c [] = []"
  by (subst replace_pins.simps) simp

lemma replace_pins_pin:
  assumes "hex40 h" and "good_address a"
  shows "replace_pins a c (a @ h @ ''.zip'' @ t) = a @ c @ ''.zip'' @ replace_pins a c t"
proof -
  have "pin_here a (a @ h @ ''.zip'' @ t)" using assms(1) unfolding pin_here_iff by blast
  moreover have "drop (length a + 44) (a @ h @ ''.zip'' @ t) = t"
    using assms(1) by (simp add: hex40_def)
  moreover obtain x xs where "a @ h @ ''.zip'' @ t = x # xs"
    using assms(2) by (cases a) (auto simp: good_address_def starts_with_iff)
  ultimately show ?thesis by (subst replace_pins.simps) (simp only: list.case if_True)
qed

lemma replace_pins_other:
  "\<not> pin_here a (x # s) \<Longrightarrow> replace_pins a c (x # s) = x # replace_pins a c s"
  by (subst replace_pins.simps) simp

text \<open>The induction all the proofs below use: a text begins with a pin, or with another character.\<close>

lemma pins_induct [consumes 1, case_names Nil pin other]:
  assumes "good_address a" and "P []"
    and "\<And>h t. hex40 h \<Longrightarrow> P t \<Longrightarrow> P (a @ h @ ''.zip'' @ t)"
    and "\<And>x t. \<not> pin_here a (x # t) \<Longrightarrow> P t \<Longrightarrow> P (x # t)"
  shows "P s"
proof (induction "length s" arbitrary: s rule: less_induct)
  case less
  show ?case
  proof (cases "pin_here a s")
    case True
    then obtain h t where s: "s = a @ h @ ''.zip'' @ t" "hex40 h" unfolding pin_here_iff by blast
    then have "P t" using less by simp
    with s assms(3) show ?thesis by blast
  next
    case False
    show ?thesis
    proof (cases s)
      case (Cons x t)
      with False less assms(4) show ?thesis by simp
    qed (simp add: assms(2))
  qed
qed

lemma replaced_prefix:
  assumes "good_address a" and "restart_free w" and "starts_with w (replace_pins a c s)"
  shows "starts_with w s"
  using assms
proof (induction s arbitrary: w rule: pins_induct)
  case (pin h t)
  obtain r where a: "a = CHR ''h'' # CHR ''t'' # r"
    using assms(1) by (auto simp: good_address_def starts_with_iff)
  from pin show ?case
    using replace_pins_pin [OF pin(1) assms(1), of c t] unfolding a
    by (cases w rule: restart_free.cases) (auto simp: starts_with_iff)
next
  case (other x t)
  show ?case
  proof (cases w)
    case (Cons y v)
    then have "restart_free v" using other(3) by (cases v) auto
    with other Cons show ?thesis by (auto simp: replace_pins_other starts_with_iff)
  qed (simp add: starts_with_iff)
qed (auto simp: starts_with_iff)

lemma no_new_pin:
  assumes "good_address a" and "good_address b" and "pin_here a (x # replace_pins b c s)"
  obtains h where "hex40 h" and "starts_with (a @ h @ ''.zip'') (x # s)"
    and "starts_with (a @ h @ ''.zip'') (x # replace_pins b c s)"
proof -
  obtain h t where t: "x # replace_pins b c s = a @ h @ ''.zip'' @ t" "hex40 h"
    using assms(3) unfolding pin_here_iff by blast
  have a: "a = x # tl a" using t(1) assms(1) by (cases a) (auto simp: good_address_def starts_with_iff)
  then have "replace_pins b c s = (tl a @ h @ ''.zip'') @ t"
    using t(1) by (metis append_Cons append_assoc list.inject)
  then have "starts_with (tl a @ h @ ''.zip'') (replace_pins b c s)" unfolding starts_with_iff by blast
  from replaced_prefix [OF assms(2) segment_restart_free [OF assms(1) t(2)] this]
  have "starts_with (a @ h @ ''.zip'') (x # s)"
    using a unfolding starts_with_iff by (metis append_Cons append_assoc)
  moreover have "starts_with (a @ h @ ''.zip'') (x # replace_pins b c s)"
    using t(1) unfolding starts_with_iff by auto
  ultimately show thesis using that t(2) by blast
qed

section \<open>Pinned texts\<close>

text \<open>Every pin of this address, wherever it begins, names this commit.\<close>

primrec all_pinned :: "string \<Rightarrow> string \<Rightarrow> string \<Rightarrow> bool" where
  "all_pinned a c [] \<longleftrightarrow> True"
| "all_pinned a c (x # s) \<longleftrightarrow>
     (pin_here a (x # s) \<longrightarrow> starts_with (a @ c @ ''.zip'') (x # s)) \<and> all_pinned a c s"

lemma all_pinned_suffix: "all_pinned a c (u @ s) \<Longrightarrow> all_pinned a c s"
  by (induction u) auto

lemma all_pinned_free:
  assumes "good_address a" and "restart_free u" and "u = [] \<or> last u \<noteq> CHR ''h''" and "all_pinned a c s"
  shows "all_pinned a c (u @ s)"
  using assms(2-)
proof (induction u rule: restart_free_induct)
  case (two x y u)
  then have "\<not> pin_here a (x # y # u @ s)"
    using assms(1) by (auto simp: pin_here_iff good_address_def starts_with_iff)
  with two show ?case by simp
next
  case (one x)
  then have "\<not> pin_here a (x # s)"
    using assms(1) by (auto simp: pin_here_iff good_address_def starts_with_iff)
  with one show ?case by simp
qed simp

lemma all_pinned_segment:
  assumes "good_address a" and "good_address b" and "hex40 h" and "all_pinned a c s"
    and "pin_here a (b @ h @ ''.zip'' @ s) \<longrightarrow> starts_with (a @ c @ ''.zip'') (b @ h @ ''.zip'' @ s)"
  shows "all_pinned a c (b @ h @ ''.zip'' @ s)"
proof -
  obtain x r where b: "b = x # r" using assms(2) by (cases b) (auto simp: good_address_def starts_with_iff)
  have "all_pinned a c ((tl b @ h @ ''.zip'') @ s)"
    by (rule all_pinned_free [OF assms(1) segment_restart_free [OF assms(2,3)] _ assms(4)]) simp
  with assms(5) b show ?thesis by simp
qed

lemma all_pinned_replaced:
  assumes "good_address a" and "hex40 c"
  shows "all_pinned a c (replace_pins a c s)"
  using assms(1)
proof (induction s rule: pins_induct)
  case (pin h t)
  then show ?case unfolding replace_pins_pin [OF pin(1) assms(1)]
    by (intro all_pinned_segment assms) (auto simp: starts_with_iff)
next
  case (other x t)
  have "\<not> pin_here a (x # replace_pins a c t)"
  proof
    assume "pin_here a (x # replace_pins a c t)"
    then obtain h where "hex40 h" "starts_with (a @ h @ ''.zip'') (x # t)"
      using no_new_pin [OF assms(1,1)] by metis
    then have "pin_here a (x # t)" by (auto simp: pin_here_iff starts_with_iff)
    with other(1) show False by blast
  qed
  with other show ?case by (simp add: replace_pins_other)
qed (simp_all add: assms)

lemma all_pinned_kept:
  assumes "good_address a" and "good_address b" and "\<not> starts_with a b" and "\<not> starts_with b a"
    and "hex40 c" and "hex40 d" and "all_pinned a c s"
  shows "all_pinned a c (replace_pins b d s)"
  using assms(2,7)
proof (induction s rule: pins_induct)
  case (pin h t)
  have "\<not> starts_with a (b @ d @ ''.zip'' @ u)" for u
    using assms(3,4) by (auto simp: starts_with_iff append_eq_append_conv2)
  then have no: "\<not> pin_here a (b @ d @ ''.zip'' @ u)" for u
    unfolding pin_here_def by blast
  have "all_pinned a c (replace_pins b d t)"
    using pin all_pinned_suffix [of a c "b @ h @ ''.zip''" t] by simp
  with no show ?case unfolding replace_pins_pin [OF pin(1) assms(2)]
    by (intro all_pinned_segment assms) simp_all
next
  case (other x t)
  have "starts_with (a @ c @ ''.zip'') (x # replace_pins b d t)" if pin: "pin_here a (x # replace_pins b d t)"
  proof -
    obtain h where h: "hex40 h" "starts_with (a @ h @ ''.zip'') (x # t)"
      "starts_with (a @ h @ ''.zip'') (x # replace_pins b d t)"
      using no_new_pin [OF assms(1,2) pin] by metis
    then have "pin_here a (x # t)" by (auto simp: pin_here_iff starts_with_iff)
    then have "starts_with (a @ c @ ''.zip'') (x # t)" using other(3) by simp
    then have "h = c" using h(1,2) assms(5) by (auto simp: starts_with_iff hex40_def)
    with h(3) show ?thesis by simp
  qed
  with other show ?case by (simp add: replace_pins_other)
qed (simp_all add: assms)

lemma all_pinned_fixed:
  assumes "good_address a" and "hex40 c" and "all_pinned a c s"
  shows "replace_pins a c s = s"
  using assms(1,3)
proof (induction s rule: pins_induct)
  case (pin h t)
  obtain x r where a: "a @ h @ ''.zip'' @ t = x # r"
    using assms(1) by (cases a) (auto simp: good_address_def starts_with_iff)
  have "pin_here a (a @ h @ ''.zip'' @ t)" using pin(1) unfolding pin_here_iff by blast
  then have "starts_with (a @ c @ ''.zip'') (a @ h @ ''.zip'' @ t)"
    using pin(3) unfolding a by simp
  then have "h = c" using pin(1) assms(2) by (auto simp: starts_with_iff hex40_def)
  moreover have "all_pinned a c t" using pin(3) all_pinned_suffix [of a c "a @ h @ ''.zip''" t] by simp
  ultimately show ?case using pin replace_pins_pin [OF pin(1) assms(1), of c t] by simp
qed (simp_all add: assms replace_pins_other)

end
