(* ===== verification/CoordinateProperties.thy ===== *)
theory CoordinateProperties
  imports CoordinatePins CatalogueProperties
begin

text \<open>
  What the coordinate scripts guarantee: the generated catalogue is exact, applying twice changes
  nothing, and every coordinate of an accepted document can be selected.
\<close>

section \<open>Texts that are read and written again\<close>

lemma universal_newlines_skip: "c \<noteq> CHR 0x0D \<Longrightarrow> universal_newlines (c # s) = c # universal_newlines s"
  by (cases s) auto

lemma universal_newlines_clean: "CHR 0x0D \<notin> set (universal_newlines s)"
  by (induction s rule: universal_newlines.induct) auto

lemma universal_newlines_id: "CHR 0x0D \<notin> set s \<Longrightarrow> universal_newlines s = s"
  by (induction s) (auto simp: universal_newlines_skip)

lemma valid_utf8_append: "is_ascii u \<Longrightarrow> valid_utf8 (u @ s) \<longleftrightarrow> valid_utf8 s"
  by (induction u) (auto simp: is_ascii_def)

text \<open>A valid text is an ASCII character, or a sequence of bytes outside ASCII, and a valid text.\<close>

lemma valid_utf8_cases:
  assumes "valid_utf8 s" and "s \<noteq> []"
  obtains (ascii) c t where "s = c # t" "byte_of c < 128" "valid_utf8 t"
    | (group) g t where "s = g @ t" "g \<noteq> []" "list_all (\<lambda>c. 128 \<le> byte_of c) g" "valid_utf8 t"
        "\<And>t'. valid_utf8 (g @ t') \<longleftrightarrow> valid_utf8 t'"
proof -
  obtain a r where s: "s = a # r" using assms(2) by (cases s) auto
  show thesis
  proof (cases "byte_of a < 128")
    case True
    with s assms(1) ascii show thesis by simp
  next
    case False
    note lead = False and cont = is_cont_def byte_in_def
    consider "byte_in 194 223 a" | "\<not> byte_in 194 223 a" "byte_in 224 239 a"
      | "\<not> byte_in 194 223 a" "\<not> byte_in 224 239 a" "byte_in 240 244 a"
      using assms(1) False unfolding s by (auto split: if_splits)
    then show thesis
    proof cases
      case 1
      then obtain b t where "r = b # t" "is_cont b" "valid_utf8 t"
        using assms(1) False unfolding s by (auto split: list.splits)
      with 1 False show thesis by (intro group [of "[a, b]" t]) (auto simp: s cont)
    next
      case 2
      let ?ok = "\<lambda>b. byte_in (if byte_of a = 224 then 160 else 128) (if byte_of a = 237 then 159 else 191) b"
      obtain b c t where "r = b # c # t" "?ok b" "is_cont c" "valid_utf8 t"
        using assms(1) 2 False unfolding s by (auto split: list.splits)
      moreover from this(2) have "128 \<le> byte_of b" by (auto simp: byte_in_def split: if_splits)
      ultimately show thesis using 2 False by (intro group [of "[a, b, c]" t]) (simp_all add: s is_cont_def)
    next
      case 3
      let ?ok = "\<lambda>b. byte_in (if byte_of a = 240 then 144 else 128) (if byte_of a = 244 then 143 else 191) b"
      obtain b c d t where "r = b # c # d # t" "?ok b" "is_cont c" "is_cont d" "valid_utf8 t"
        using assms(1) 3 False unfolding s by (auto split: list.splits)
      moreover from this(2) have "128 \<le> byte_of b" by (auto simp: byte_in_def split: if_splits)
      ultimately show thesis using 3 False by (intro group [of "[a, b, c, d]" t]) (simp_all add: s is_cont_def)
    qed
  qed
qed

lemma universal_newlines_group:
  "list_all (\<lambda>c. 128 \<le> byte_of c) g \<Longrightarrow> universal_newlines (g @ t) = g @ universal_newlines t"
proof (induction g)
  case (Cons c g)
  then have "c \<noteq> CHR 0x0D" by (auto simp: byte_of_def)
  with Cons show ?case by (simp add: universal_newlines_skip)
qed simp

lemma universal_newlines_utf8: "valid_utf8 s \<Longrightarrow> valid_utf8 (universal_newlines s)"
proof (induction "length s" arbitrary: s rule: less_induct)
  case less
  show ?case
  proof (cases "s = []")
    case False
    from less(2) False show ?thesis
    proof (cases rule: valid_utf8_cases)
      case (ascii c t)
      show ?thesis
      proof (cases "c = CHR 0x0D \<and> t \<noteq> [] \<and> hd t = CHR 0x0A")
        case True
        then obtain u where t: "t = CHR 0x0A # u" by (cases t) auto
        then have "valid_utf8 u" using ascii(3) by (simp add: byte_of_def)
        then show ?thesis using less(1) [of u] True ascii(1) t by (simp add: byte_of_def)
      next
        case False
        then have "universal_newlines s = (if c = CHR 0x0D then CHR 0x0A else c) # universal_newlines t"
          by (cases t) (auto simp: ascii(1))
        then show ?thesis using less(1) [of t] ascii by (simp add: byte_of_def)
      qed
    next
      case (group g t)
      then have "length t < length s" by simp
      then show ?thesis using less(1) [of t] group by (simp add: universal_newlines_group)
    qed
  qed simp
qed

lemma replace_pins_group:
  assumes "good_address a" and "list_all (\<lambda>c. 128 \<le> byte_of c) g"
  shows "replace_pins a p (g @ t) = g @ replace_pins a p t"
  using assms(2)
proof (induction g)
  case (Cons c g)
  obtain r where "a = CHR ''h'' # CHR ''t'' # r"
    using assms(1) by (auto simp: good_address_def starts_with_iff)
  then have "\<not> pin_here a (c # g @ t)"
    using Cons(2) by (auto simp: pin_here_iff byte_of_def)
  with Cons show ?case by (simp add: replace_pins_other)
qed simp

lemma hex_ascii: "hex40 h \<Longrightarrow> is_ascii h"
proof -
  assume "hex40 h"
  then have "c \<in> set h \<Longrightarrow> is_lower_hex_char c" for c by (auto simp: hex40_def list_all_iff)
  moreover have "is_lower_hex_char c \<Longrightarrow> byte_of c < 128" for c
    by (auto simp: is_lower_hex_char_def byte_of_def)
  ultimately show "is_ascii h" unfolding is_ascii_def list_all_iff by blast
qed

lemma replace_pins_utf8:
  assumes "good_address a" and "is_ascii a" and "hex40 p" and "valid_utf8 s"
  shows "valid_utf8 (replace_pins a p s)"
  using assms(4)
proof (induction "length s" arbitrary: s rule: less_induct)
  case less
  have segment: "valid_utf8 (a @ h @ ''.zip'' @ t) \<longleftrightarrow> valid_utf8 t" if "hex40 h" for h t
    using valid_utf8_append [of "a @ h @ ''.zip''" t] assms(2) hex_ascii [OF that]
    by (simp add: is_ascii_def byte_of_def)
  show ?case
  proof (cases "pin_here a s")
    case True
    then obtain h t where s: "s = a @ h @ ''.zip'' @ t" and h: "hex40 h" unfolding pin_here_iff by blast
    then have "valid_utf8 t" "length t < length s" using less(2) segment by simp_all
    then show ?thesis
      using less(1) segment [OF assms(3)] unfolding s replace_pins_pin [OF h assms(1)] by simp
  next
    case other: False
    show ?thesis
    proof (cases "s = []")
      case False
      from less(2) False show ?thesis
      proof (cases rule: valid_utf8_cases)
        case (ascii c t)
        then show ?thesis using less(1) [of t] other by (simp add: replace_pins_other)
      next
        case (group g t)
        then have "length t < length s" by simp
        then show ?thesis using less(1) [of t] group by (simp add: replace_pins_group [OF assms(1)])
      qed
    qed simp
  qed
qed

lemma replace_pins_no_return:
  assumes "good_address a" and "CHR 0x0D \<notin> set a" and "hex40 p" and "CHR 0x0D \<notin> set s"
  shows "CHR 0x0D \<notin> set (replace_pins a p s)"
proof -
  have "c \<in> set p \<Longrightarrow> is_lower_hex_char c" for c using assms(3) by (auto simp: hex40_def list_all_iff)
  moreover have "\<not> is_lower_hex_char (CHR 0x0D)" by (simp add: is_lower_hex_char_def)
  ultimately have p: "CHR 0x0D \<notin> set p" by blast
  show ?thesis using assms(1,4)
  proof (induction s rule: pins_induct)
    case (pin h t)
    then show ?case using assms(2) p unfolding replace_pins_pin [OF pin(1) assms(1)] by simp
  qed (simp_all add: replace_pins_other)
qed

section \<open>The pins of a file\<close>

abbreviation "cpk_address \<equiv> PIN_BASE @ ''/archive/''"
abbreviation "interpreters_address \<equiv> PIN_BASE @ ''-interpreters/archive/''"
abbreviation "secrets_address \<equiv> PIN_BASE @ ''-secrets/archive/''"

lemma addresses:
  "good_address cpk_address" "good_address interpreters_address" "good_address secrets_address"
  "is_ascii cpk_address" "is_ascii interpreters_address" "is_ascii secrets_address"
  "CHR 0x0D \<notin> set cpk_address" "CHR 0x0D \<notin> set interpreters_address" "CHR 0x0D \<notin> set secrets_address"
  by code_simp+

lemma addresses_differ:
  "\<not> starts_with cpk_address interpreters_address" "\<not> starts_with interpreters_address cpk_address"
  "\<not> starts_with cpk_address secrets_address" "\<not> starts_with secrets_address cpk_address"
  "\<not> starts_with interpreters_address secrets_address" "\<not> starts_with secrets_address interpreters_address"
  by code_simp+

lemma dependency_pins_named:
  assumes "hex40 x" and "hex40 y" and "hex40 z"
  shows "all_pinned cpk_address x (replace_dependency_pins x y z s)"
    and "all_pinned interpreters_address y (replace_dependency_pins x y z s)"
    and "all_pinned secrets_address z (replace_dependency_pins x y z s)"
  unfolding replace_dependency_pins_def
  using assms addresses(1-3) addresses_differ by (meson all_pinned_kept all_pinned_replaced)+

lemma dependency_pins_idempotent:
  assumes "hex40 x" and "hex40 y" and "hex40 z"
  shows "replace_dependency_pins x y z (replace_dependency_pins x y z s) = replace_dependency_pins x y z s"
  using dependency_pins_named [OF assms, of s] assms addresses(1-3)
  by (subst replace_dependency_pins_def) (simp only: all_pinned_fixed)

lemma dependency_pins_text:
  assumes "hex40 x" and "hex40 y" and "hex40 z" and "valid_utf8 s" and "CHR 0x0D \<notin> set s"
  shows "valid_utf8 (replace_dependency_pins x y z s)" and "CHR 0x0D \<notin> set (replace_dependency_pins x y z s)"
  unfolding replace_dependency_pins_def
  by (simp_all only: replace_pins_utf8 replace_pins_no_return addresses assms not_False_eq_True)

section \<open>Descriptors\<close>

lemma update_same: "map_of d k = Some x \<Longrightarrow> AList.update k x d = d"
  by (induction d) (auto split: if_splits)

lemma member_set_item:
  assumes "set_item v k x = Inr r"
  shows "member r k' = (if k' = k then Inr x else member v k')"
  using assms by (auto simp: set_item_def member_def dict_simps split: json.splits)

lemma set_item_same: "member v k = Inr x \<Longrightarrow> set_item v k x = Inr v"
  by (auto simp: set_item_def member_def update_same split: json.splits option.splits)

lemma member_copy_item:
  assumes "copy_item c k v = Inr r"
  shows "member r k = member c k" and "k' \<noteq> k \<Longrightarrow> member r k' = member v k'"
  using assms by (auto simp: copy_item_def member_set_item)

lemma copy_item_same: "member v k = member c k \<Longrightarrow> member c k = Inr x \<Longrightarrow> copy_item c k v = Inr v"
  by (simp add: copy_item_def set_item_same)

lemma with_source_cases:
  assumes "with_source v p = Inr r"
  obtains (same) "r = v"
    | (named) d provenance source where "v = JObj d" "get d ''provenance'' = JObj provenance"
      "has provenance ''source-commit''" "member (JObj p) ''source_commit'' = Inr source"
      "r = JObj (AList.update ''provenance'' (JObj (AList.update ''source-commit'' source provenance)) d)"
proof -
  obtain d where v: "v = JObj d" using assms by (cases v) (auto simp: with_source_def)
  from assms show thesis unfolding with_source_def v
    using same named [OF v] v by (auto split: json.splits if_splits)
qed

lemma with_source_frame: "with_source v p = Inr r \<Longrightarrow> k \<noteq> ''provenance'' \<Longrightarrow> member r k = member v k"
  by (erule with_source_cases) (simp_all add: member_def dict_simps)

lemma with_source_again: "with_source v p = Inr r \<Longrightarrow> with_source r p = Inr r"
  by (frule with_source_cases) (auto simp: with_source_def dict_simps update_same)

lemma with_image_coordinates_idempotent:
  assumes "with_image_coordinates d p = Inr r"
  shows "with_image_coordinates r p = Inr r"
proof -
  obtain inner img c i1 i2 i3 i4 i5 inner' where
    step: "member d ''product'' = Inr inner" "member inner ''image'' = Inr img" "member (JObj p) ''image'' = Inr c"
      "copy_item c ''registry'' img = Inr i1" "copy_item c ''repository'' i1 = Inr i2"
      "copy_item c ''tag'' i2 = Inr i3" "copy_item c ''digest'' i3 = Inr i4" "with_source i4 p = Inr i5"
      "set_item inner ''image'' i5 = Inr inner'" "set_item d ''product'' inner' = Inr r"
    using assms by (auto simp: with_image_coordinates_def)
  have kept: "member i5 ''registry'' = member c ''registry''" "member i5 ''repository'' = member c ''repository''"
    "member i5 ''tag'' = member c ''tag''" "member i5 ''digest'' = member c ''digest''"
    using member_copy_item [OF step(4)] member_copy_item [OF step(5)] member_copy_item [OF step(6)]
      member_copy_item [OF step(7)] with_source_frame [OF step(8)] by simp_all
  have "copy_item c ''registry'' i5 = Inr i5" "copy_item c ''repository'' i5 = Inr i5"
    "copy_item c ''tag'' i5 = Inr i5" "copy_item c ''digest'' i5 = Inr i5"
    using step(4-7) kept by (auto simp: copy_item_def set_item_same)
  then show ?thesis
    using member_set_item [OF step(9)] member_set_item [OF step(10)] step(3) with_source_again [OF step(8)]
    by (simp add: with_image_coordinates_def set_item_same)
qed

section \<open>Accepted documents\<close>

definition coordinate_string :: "dict \<Rightarrow> string \<Rightarrow> string" where
  "coordinate_string d key = (case get d key of JStr s \<Rightarrow> s | _ \<Rightarrow> [])"

definition coordinate_image :: "dict \<Rightarrow> dict" where
  "coordinate_image p = (case get p ''image'' of JObj img \<Rightarrow> img | _ \<Rightarrow> [])"

definition named_text :: "dict \<Rightarrow> string \<Rightarrow> bool" where
  "named_text d key \<longleftrightarrow> get d key = JStr (coordinate_string d key) \<and> coordinate_string d key \<noteq> []"

text \<open>What a coordinate is, as the release reads it.\<close>

definition valid_coordinate :: "dict \<Rightarrow> bool" where
  "valid_coordinate p \<longleftrightarrow>
     list_all (named_text p) [''product_id'', ''owner_directory'', ''descriptor_path'', ''source_commit''] \<and>
     relative_path (coordinate_string p ''owner_directory'') \<and>
     relative_path (coordinate_string p ''descriptor_path'') \<and>
     hex40 (coordinate_string p ''source_commit'') \<and>
     get p ''image'' = JObj (coordinate_image p) \<and>
     list_all (named_text (coordinate_image p)) [''registry'', ''repository'', ''tag'', ''digest''] \<and>
     sha256_digest (coordinate_string (coordinate_image p) ''digest'')"

lemma coordinate_required_Inr [simp]: "coordinate_required d key = Inr s \<longleftrightarrow> get d key = JStr s \<and> s \<noteq> []"
  by (auto simp: coordinate_required_def split: json.splits list.splits)

lemma is_lower_hex_40: "is_lower_hex s 40 \<longleftrightarrow> hex40 s"
proof -
  have "str_len s = length s" if "list_all is_lower_hex_char s"
  proof -
    have "is_lower_hex_char c \<Longrightarrow> \<not> is_cont c" for c
      by (auto simp: is_lower_hex_char_def is_cont_def byte_of_def)
    with that have "filter (\<lambda>c. \<not> is_cont c) s = s" by (auto simp: list_all_iff filter_id_conv)
    then show ?thesis by (simp add: str_len_def)
  qed
  then show ?thesis by (auto simp: is_lower_hex_def hex40_def)
qed

lemma commit_Inr: "commit d key = Inr s \<longleftrightarrow> get d key = JStr s \<and> s \<noteq> [] \<and> hex40 s"
  by (auto simp: commit_def is_lower_hex_40)

lemma relative_Inr: "relative d key = Inr s \<longleftrightarrow> get d key = JStr s \<and> s \<noteq> [] \<and> relative_path s"
  by (auto simp: relative_def relative_path_def)

lemma check_coordinate_Inr:
  assumes "check_coordinate seen v = Inr i"
  shows "\<exists>p. v = JObj p \<and> valid_coordinate p \<and> coordinate_string p ''product_id'' = i \<and> i \<notin> set seen"
proof -
  obtain p where v: "v = JObj p" using assms by (cases v) (auto simp: check_coordinate_def)
  obtain img where img: "get p ''image'' = JObj img"
    using assms unfolding v check_coordinate_def by (cases "get p ''image''") auto
  show ?thesis
    using assms unfolding v check_coordinate_def img
    by (auto simp: commit_Inr relative_Inr valid_coordinate_def named_text_def coordinate_string_def
        coordinate_image_def img)
qed

lemma check_coordinates_Inr:
  assumes "check_coordinates seen vs = Inr u"
  shows "\<exists>ps. vs = map JObj ps \<and> list_all valid_coordinate ps \<and>
    distinct (map (\<lambda>p. coordinate_string p ''product_id'') ps) \<and>
    (\<forall>p \<in> set ps. coordinate_string p ''product_id'' \<notin> set seen)"
  using assms
proof (induction vs arbitrary: seen)
  case (Cons v vs)
  then obtain i where i: "check_coordinate seen v = Inr i" "check_coordinates (i # seen) vs = Inr u" by auto
  obtain p where p: "v = JObj p" "valid_coordinate p" "coordinate_string p ''product_id'' = i" "i \<notin> set seen"
    using check_coordinate_Inr [OF i(1)] by blast
  obtain ps where "vs = map JObj ps" "list_all valid_coordinate ps"
    "distinct (map (\<lambda>p. coordinate_string p ''product_id'') ps)"
    "\<forall>p \<in> set ps. coordinate_string p ''product_id'' \<notin> set (i # seen)"
    using Cons(1) [OF i(2)] by blast
  with p show ?case by (intro exI [of _ "p # ps"]) auto
qed simp

definition UPSTREAM_COMMITS :: "string list" where
  "UPSTREAM_COMMITS =
     [''control_plane_kit_commit'', ''control_plane_kit_interpreters_commit'', ''control_plane_kit_secrets_commit'']"

definition valid_document :: "dict \<Rightarrow> dict \<Rightarrow> dict list \<Rightarrow> bool" where
  "valid_document raw upstreams ps \<longleftrightarrow>
     get raw ''schema'' = JStr ''cpk-servers.coordinates'' \<and> get raw ''upstreams'' = JObj upstreams \<and>
     get raw ''products'' = JArr (map JObj ps) \<and>
     list_all (\<lambda>k. named_text upstreams k \<and> hex40 (coordinate_string upstreams k)) UPSTREAM_COMMITS \<and>
     list_all valid_coordinate ps \<and> distinct (map (\<lambda>p. coordinate_string p ''product_id'') ps)"

lemma check_document_Inr:
  assumes "check_document v = Inr raw"
  obtains upstreams ps where "v = JObj raw" and "valid_document raw upstreams ps"
proof -
  have v: "v = JObj raw" and schema: "get raw ''schema'' = JStr ''cpk-servers.coordinates''"
    using assms by (auto simp: check_document_def split: json.splits if_splits)
  obtain upstreams where u: "get raw ''upstreams'' = JObj upstreams"
    using assms schema unfolding v check_document_def by (cases "get raw ''upstreams''") auto
  obtain vs where vs: "get raw ''products'' = JArr vs"
    using assms schema u unfolding v check_document_def by (cases "get raw ''products''") auto
  have commits: "list_all (\<lambda>k. named_text upstreams k \<and> hex40 (coordinate_string upstreams k)) UPSTREAM_COMMITS"
    and "check_coordinates [] vs = Inr ()"
    using assms schema u vs unfolding v check_document_def
    by (auto simp: commit_Inr UPSTREAM_COMMITS_def named_text_def coordinate_string_def)
  with check_coordinates_Inr [of "[]" vs] obtain ps where "vs = map JObj ps" "list_all valid_coordinate ps"
    "distinct (map (\<lambda>p. coordinate_string p ''product_id'') ps)" by blast
  with that v schema u vs commits show thesis unfolding valid_document_def by blast
qed

lemma member_text: "named_text d key \<Longrightarrow> member (JObj d) key = Inr (JStr (coordinate_string d key))"
  by (auto simp: named_text_def member_def get_def split: option.splits)

lemma member_string_text: "named_text d key \<Longrightarrow> member_string env (JObj d) key = Inr (coordinate_string d key)"
  by (simp add: member_string_def member_text)

lemma member_image: "valid_coordinate p \<Longrightarrow> member (JObj p) ''image'' = Inr (JObj (coordinate_image p))"
  by (auto simp: valid_coordinate_def member_def get_def split: option.splits)

section \<open>Selecting a coordinate\<close>

definition products_of :: "dict \<Rightarrow> json list" where
  "products_of raw = (case get raw ''products'' of JArr vs \<Rightarrow> vs | _ \<Rightarrow> [])"

lemma product_coordinate_listed:
  assumes "valid_document raw upstreams ps" and "p \<in> set ps"
  shows "product_coordinate (JObj raw) (coordinate_string p ''product_id'') = Inr p"
proof -
  let ?id = "\<lambda>p. coordinate_string p ''product_id''"
  have names: "names_product (?id p) (JObj q) \<longleftrightarrow> ?id q = ?id p" if "q \<in> set ps" for q
  proof -
    have "valid_coordinate q" using assms(1) that by (auto simp: valid_document_def list_all_iff)
    then have "get q ''product_id'' = JStr (?id q)" by (simp add: valid_coordinate_def named_text_def)
    then show ?thesis by (simp add: names_product_def)
  qed
  obtain xs ys where ps: "ps = xs @ p # ys" using split_list [OF assms(2)] by blast
  have distinct: "distinct (map ?id ps)" using assms(1) by (simp add: valid_document_def)
  have "?id q \<noteq> ?id p" if "q \<in> set xs \<union> set ys" for q
    using distinct that unfolding ps by (auto simp: image_iff)
  then have "filter (names_product (?id p)) (map JObj xs) = []" "filter (names_product (?id p)) (map JObj ys) = []"
    using names unfolding ps by (simp_all add: filter_empty_conv)
  moreover have "names_product (?id p) (JObj p)" using names assms(2) by blast
  ultimately have "filter (names_product (?id p)) (map JObj ps) = [JObj p]" unfolding ps by simp
  then show ?thesis using assms(1) by (simp add: product_coordinate_def valid_document_def)
qed

text \<open>
  Every coordinate of an accepted document can be selected.  If the script that applies the coordinates
  accepts the document, then the script that selects one finds every product of it: the reference is
  the registry, the repository and the canonical digest of exactly this product, and the source is its
  canonical commit.  No selection by a listed name can fail.
\<close>

theorem every_coordinate_is_selectable:
  assumes "load_coordinates env st = Inr raw" and "v \<in> set (products_of raw)"
  shows "\<exists>p img i registry repository digest source.
    v = JObj p \<and> get p ''product_id'' = JStr i \<and> get p ''image'' = JObj img \<and>
    get img ''registry'' = JStr registry \<and> get img ''repository'' = JStr repository \<and>
    get img ''digest'' = JStr digest \<and> get p ''source_commit'' = JStr source \<and>
    sha256_digest digest \<and> is_lower_hex source 40 \<and>
    coordinate_main env st [i] = Inr (registry @ ''/'' @ repository @ ''@'' @ digest) \<and>
    coordinate_main env st [''--source-commit'', i] = Inr source"
proof -
  obtain upstreams ps where read: "read_json_of env st (under_root env COORDINATES) = Inr (JObj raw)"
    and document: "valid_document raw upstreams ps"
    using assms(1) check_document_Inr unfolding load_coordinates_def bindE_eq_Inr by metis
  then obtain p where p: "p \<in> set ps" "v = JObj p"
    using assms(2) by (auto simp: products_of_def valid_document_def)
  have valid: "valid_coordinate p" using document p by (auto simp: valid_document_def list_all_iff)
  let ?img = "coordinate_image p"
  have texts: "get p ''product_id'' = JStr (coordinate_string p ''product_id'')"
    "get p ''source_commit'' = JStr (coordinate_string p ''source_commit'')"
    "get ?img ''registry'' = JStr (coordinate_string ?img ''registry'')"
    "get ?img ''repository'' = JStr (coordinate_string ?img ''repository'')"
    "get ?img ''digest'' = JStr (coordinate_string ?img ''digest'')"
    and nonempty: "coordinate_string p ''source_commit'' \<noteq> []" "coordinate_string ?img ''registry'' \<noteq> []"
    "coordinate_string ?img ''repository'' \<noteq> []" "coordinate_string ?img ''digest'' \<noteq> []"
    and image: "get p ''image'' = JObj ?img" and digest: "sha256_digest (coordinate_string ?img ''digest'')"
    and source: "is_lower_hex (coordinate_string p ''source_commit'') 40"
    using valid by (simp_all add: valid_coordinate_def named_text_def is_lower_hex_40)
  have selected: "selected_text d k = Inr (coordinate_string d k)"
    if "get d k = JStr (coordinate_string d k)" "coordinate_string d k \<noteq> []" for d k
    using that by (cases "coordinate_string d k") (simp_all add: selected_text_def)
  have "image_execution_reference (JObj raw) (coordinate_string p ''product_id'') =
      Inr (coordinate_string ?img ''registry'' @ ''/'' @ coordinate_string ?img ''repository'' @ ''@'' @
           coordinate_string ?img ''digest'')"
    using product_coordinate_listed [OF document p(1)] image digest
      selected [OF texts(3) nonempty(2)] selected [OF texts(4) nonempty(3)] selected [OF texts(5) nonempty(4)]
    by (simp add: image_execution_reference_def)
  moreover have "product_source_commit (JObj raw) (coordinate_string p ''product_id'') =
      Inr (coordinate_string p ''source_commit'')"
    using product_coordinate_listed [OF document p(1)] source selected [OF texts(2) nonempty(1)]
    by (simp add: product_source_commit_def)
  ultimately have "coordinate_main env st [coordinate_string p ''product_id''] =
      Inr (coordinate_string ?img ''registry'' @ ''/'' @ coordinate_string ?img ''repository'' @ ''@'' @
           coordinate_string ?img ''digest'')"
    and "coordinate_main env st [''--source-commit'', coordinate_string p ''product_id''] =
      Inr (coordinate_string p ''source_commit'')"
    using read by (simp_all add: coordinate_main_def)
  with p(2) texts image digest source show ?thesis by (intro exI conjI)
qed

section \<open>Generating\<close>

lemma dict_update_fresh: "distinct (keys (d @ e)) \<Longrightarrow> dict_update d e = d @ e"
proof (induction e arbitrary: d)
  case (Cons p e)
  have fresh: "k \<notin> set (keys d) \<Longrightarrow> AList.update k v d = d @ [(k, v)]" for k and v :: 'a
    by (induction d) (auto simp: keys_def)
  obtain k v where p: "p = (k, v)" by (cases p)
  with Cons(2) have "k \<notin> set (keys d)" and "distinct (keys ((d @ [(k, v)]) @ e))"
    by (auto simp: keys_def)
  with Cons(1) fresh show ?case by (simp add: p dict_update_def)
qed (simp add: dict_update_def)

text \<open>The entry of the catalogue for a product with this descriptor.\<close>

definition catalogue_entry :: "'doc coordinate_env \<Rightarrow> dict \<Rightarrow> string \<Rightarrow> product" where
  "catalogue_entry env p encoded =
     \<lparr>product_id = coordinate_string p ''product_id'', owner_directory = coordinate_string p ''owner_directory'',
      descriptor_path = coordinate_string p ''descriptor_path'',
      descriptor_sha256 = cat_sha256 (ce_catalogue env) encoded,
      source_commit = coordinate_string p ''source_commit'',
      image_ref = coordinate_string (coordinate_image p) ''registry'' @ ''/'' @
        coordinate_string (coordinate_image p) ''repository'' @ '':'' @ coordinate_string (coordinate_image p) ''tag'',
      image_digest = coordinate_string (coordinate_image p) ''digest'', product_status = ''completed''\<rparr>"

definition descriptor_file :: "'doc coordinate_env \<Rightarrow> dict \<Rightarrow> string" where
  "descriptor_file env p = under_root env (coordinate_string p ''descriptor_path'')"

lemma generate_product_Inr:
  assumes "valid_coordinate p"
  shows "generate_product env st (JObj p) = Inr out \<longleftrightarrow>
    (\<exists>d r. read_json_of env st (descriptor_file env p) = Inr d \<and> with_image_coordinates d p = Inr r \<and>
      out = ((descriptor_file env p, dump (ce_float env) r),
             JObj (product_descriptor (catalogue_entry env p (dump (ce_float env) r)))))"
proof -
  have "list_all (named_text p) [''product_id'', ''owner_directory'', ''descriptor_path'', ''source_commit'']"
    "list_all (named_text (coordinate_image p)) [''registry'', ''repository'', ''tag'', ''digest'']"
    using assms by (simp_all add: valid_coordinate_def)
  then show ?thesis
    using member_image [OF assms]
    by (auto simp: generate_product_def descriptor_file_def coordinate_image_ref_def member_string_text
        Let_def catalogue_entry_def product_descriptor_def)
qed

definition generated_files :: "'doc coordinate_env \<Rightarrow> dict list \<Rightarrow> string list" where
  "generated_files env ps =
     map (under_root env) PINNED_FILES @ map (descriptor_file env) ps @ [under_root env CATALOGUE]"

definition pinned_from :: "'doc coordinate_env \<Rightarrow> dict \<Rightarrow> publication \<Rightarrow> string \<Rightarrow> coordinate_exn + string \<times> string" where
  "pinned_from env upstreams st =
     pinned_file env st (coordinate_string upstreams ''control_plane_kit_commit'')
       (coordinate_string upstreams ''control_plane_kit_interpreters_commit'')
       (coordinate_string upstreams ''control_plane_kit_secrets_commit'')"

lemma pinned_from_Inr:
  "pinned_from env upstreams st f = Inr out \<longleftrightarrow>
     (\<exists>s. read_text_of st (under_root env f) = Inr s \<and>
        out = (under_root env f,
          replace_dependency_pins (coordinate_string upstreams ''control_plane_kit_commit'')
            (coordinate_string upstreams ''control_plane_kit_interpreters_commit'')
            (coordinate_string upstreams ''control_plane_kit_secrets_commit'') s))"
  by (auto simp: pinned_from_def pinned_file_def)

lemma generate_updates_eq:
  assumes "valid_document raw upstreams ps"
  shows "generate_updates env st raw =
    bindE (mapE (pinned_from env upstreams st) PINNED_FILES) (\<lambda>pinned.
    bindE (mapE (generate_product env st) (map JObj ps)) (\<lambda>generated.
    Inr (dict_update [] (pinned @ map fst generated @
           [(under_root env CATALOGUE, generated_catalogue (map snd generated))]))))"
proof -
  have "member (JObj raw) ''upstreams'' = Inr (JObj upstreams)"
    and "member (JObj raw) ''products'' = Inr (JArr (map JObj ps))"
    and "named_text upstreams ''control_plane_kit_commit''"
    and "named_text upstreams ''control_plane_kit_interpreters_commit''"
    and "named_text upstreams ''control_plane_kit_secrets_commit''"
    using assms
    by (auto simp: valid_document_def member_def get_def UPSTREAM_COMMITS_def split: option.splits)
  then show ?thesis by (simp add: generate_updates_def member_string_text pinned_from_def)
qed

text \<open>The generated files are the pinned ones, the descriptors and the catalogue.\<close>

definition all_generated ::
  "'doc coordinate_env \<Rightarrow> dict \<Rightarrow> dict list \<Rightarrow> publication \<Rightarrow> (string \<times> string) list \<Rightarrow>
   ((string \<times> string) \<times> json) list \<Rightarrow> bool" where
  "all_generated env upstreams ps st pinned generated \<longleftrightarrow>
     list_all2 (\<lambda>f out. pinned_from env upstreams st f = Inr out) PINNED_FILES pinned \<and>
     list_all2 (\<lambda>p out. generate_product env st (JObj p) = Inr out) ps generated"

lemma all_generated_keys:
  assumes "all_generated env upstreams ps st pinned generated" and "list_all valid_coordinate ps"
  shows "keys (pinned @ map fst generated @ [(under_root env CATALOGUE, c)]) = generated_files env ps"
proof -
  have "list_all2 (\<lambda>f out. pinned_from env upstreams st f = Inr out) fs pinned \<Longrightarrow>
      map fst pinned = map (under_root env) fs" for fs
    by (induction fs pinned rule: list_all2_induct) (auto simp: pinned_from_Inr)
  moreover have "map fst (map fst generated) = map (descriptor_file env) ps"
    if "list_all2 (\<lambda>p out. generate_product env st (JObj p) = Inr out) ps generated"
    using that assms(2)
    by (induction ps generated rule: list_all2_induct) (auto simp: generate_product_Inr)
  ultimately show ?thesis
    using assms(1) by (simp add: all_generated_def keys_def generated_files_def)
qed

lemma generate_updates_Inr:
  assumes "valid_document raw upstreams ps" and "distinct (generated_files env ps)"
  shows "generate_updates env st raw = Inr updates \<longleftrightarrow>
    (\<exists>pinned generated. all_generated env upstreams ps st pinned generated \<and>
       updates = pinned @ map fst generated @ [(under_root env CATALOGUE, generated_catalogue (map snd generated))])"
proof -
  have valid: "list_all valid_coordinate ps" using assms(1) by (simp add: valid_document_def)
  have "mapE (generate_product env st) (map JObj ps) = mapE (\<lambda>p. generate_product env st (JObj p)) ps"
    by (induction ps) simp_all
  then have "generate_updates env st raw = Inr updates \<longleftrightarrow>
    (\<exists>pinned generated. all_generated env upstreams ps st pinned generated \<and>
       updates = dict_update [] (pinned @ map fst generated @
                   [(under_root env CATALOGUE, generated_catalogue (map snd generated))]))"
    unfolding generate_updates_eq [OF assms(1)] all_generated_def mapE_Inr_iff [symmetric] by auto
  moreover have "dict_update [] (pinned @ map fst generated @ [(under_root env CATALOGUE, c)]) =
      pinned @ map fst generated @ [(under_root env CATALOGUE, c)]"
    if "all_generated env upstreams ps st pinned generated" for pinned generated c
    by (rule dict_update_fresh [of "[]", unfolded append_Nil])
      (simp only: all_generated_keys [OF that valid] assms(2))
  ultimately show ?thesis by metis
qed

section \<open>Writing\<close>

text \<open>What a sequence of writes relies on: a write that succeeds sets one file and no other.\<close>

locale file_store =
  fixes look :: "'s \<Rightarrow> string \<Rightarrow> string option"
    and put :: "string \<Rightarrow> string \<Rightarrow> ('s, 'e, unit) action"
  assumes put_sets: "put path content st = (Inr (), st') \<Longrightarrow> look st' path = Some content"
    and put_keeps: "put path content st = (Inr (), st') \<Longrightarrow> other \<noteq> path \<Longrightarrow> look st' other = look st other"
begin

lemma put_look:
  "put path content st = (Inr (), st') \<Longrightarrow> look st' = (look st)(path := Some content)"
  using put_sets put_keeps by (auto simp: fun_eq_iff)

lemma puts_look:
  assumes "foldr (\<lambda>(path, content). thenA (put path content)) updates (ret ()) st = (Inr (), st')"
  shows "look st' = look st ++ map_of (rev updates)"
  using assms
proof (induction updates arbitrary: st)
  case (Cons u updates)
  obtain path content where u: "u = (path, content)" by (cases u)
  obtain mid where "put path content st = (Inr (), mid)"
    and "foldr (\<lambda>(path, content). thenA (put path content)) updates (ret ()) mid = (Inr (), st')"
    using Cons(2) by (auto simp: u bindA_Inr)
  with Cons(1) put_look show ?case by (auto simp: u map_add_def fun_eq_iff split: option.splits)
qed (simp add: ret_apply)

lemma puts_each:
  assumes "foldr (\<lambda>(path, content). thenA (put path content)) updates (ret ()) st = (Inr (), st')"
    and "distinct (keys updates)"
  shows "(path, content) \<in> set updates \<Longrightarrow> look st' path = Some content"
    and "path \<notin> set (keys updates) \<Longrightarrow> look st' path = look st path"
proof -
  have "distinct (map fst (rev updates))" using assms(2) by (simp add: keys_def rev_map [symmetric])
  then show "(path, content) \<in> set updates \<Longrightarrow> look st' path = Some content"
    using puts_look [OF assms(1)] by (simp add: map_add_find_right)
  show "path \<notin> set (keys updates) \<Longrightarrow> look st' path = look st path"
    using puts_look [OF assms(1)]
    by (simp add: keys_def map_add_def map_of_eq_None_iff [THEN iffD2] split: option.split)
qed

end

interpretation repository_files: file_store "\<lambda>st. map_of (files st)" "\<lambda>path content. publishing_step (write_file path content)"
proof
  fix path content other and st st' :: publication
  assume "publishing_step (write_file path content) st = (Inr (), st')"
  then have "files st' = AList.update path content (files st)"
    by (auto simp: publishing_step_def write_file_def split: option.splits)
  then show "map_of (files st') path = Some content"
    and "other \<noteq> path \<Longrightarrow> map_of (files st') other = map_of (files st) other"
    by (simp_all add: dict_simps)
qed

lemma write_updates_fold:
  "write_updates updates = foldr (\<lambda>(path, content). thenA (publishing_step (write_file path content))) updates (ret ())"
  by (induction updates) auto

definition packaged_files :: "'doc coordinate_env \<Rightarrow> string list" where
  "packaged_files env =
     (let packaged = join_path (ce_root env) PACKAGED_DIRECTORY @ PACKAGED_NAME in [packaged, packaged @ ''.sha256''])"

lemma publish_packaged_frame:
  assumes "publish_packaged env st = (Inr report, st')" and "path \<notin> set (packaged_files env)"
  shows "map_of (files st') path = map_of (files st) path"
  using assms
  by (auto simp: publish_packaged_def publishing_step_def publish_catalogue_def bindA_def make_parent_def write_file_def
      write_text_file_def packaged_files_def action_simps Let_def dict_simps
      split: prod.splits sum.splits if_splits option.splits)

section \<open>Applying\<close>

text \<open>
  A run of the script that applied the coordinates, over a document whose products have files of their
  own: the coordinate document and the packaged files are none of the generated ones.
\<close>

definition separate_files :: "'doc coordinate_env \<Rightarrow> dict list \<Rightarrow> bool" where
  "separate_files env ps \<longleftrightarrow>
     distinct (under_root env COORDINATES # generated_files env ps @ packaged_files env)"

lemma loaded_document:
  assumes "load_coordinates env st = Inr raw" and "products_of raw = map JObj ps"
  obtains upstreams where "valid_document raw upstreams ps"
proof -
  obtain ups qs where document: "valid_document raw ups qs"
    using assms(1) check_document_Inr unfolding load_coordinates_def bindE_eq_Inr by metis
  then have "map JObj qs = map JObj ps" using assms(2) by (simp add: valid_document_def products_of_def)
  then have "qs = ps" by (simp add: inj_map_eq_map inj_def)
  with document that show thesis by blast
qed

lemma applied:
  assumes "apply_main env False st = (Inr report, st')" and "load_coordinates env st = Inr raw"
    and "valid_document raw upstreams ps" and "separate_files env ps"
  obtains pinned generated where "all_generated env upstreams ps st pinned generated"
    and "\<And>path content. (path, content) \<in> set (pinned @ map fst generated @
           [(under_root env CATALOGUE, generated_catalogue (map snd generated))]) \<Longrightarrow>
           map_of (files st') path = Some content"
    and "map_of (files st') (under_root env COORDINATES) = map_of (files st) (under_root env COORDINATES)"
proof -
  have files: "distinct (generated_files env ps)" "under_root env COORDINATES \<notin> set (generated_files env ps)"
    "under_root env COORDINATES \<notin> set (packaged_files env)"
    "set (generated_files env ps) \<inter> set (packaged_files env) = {}"
    using assms(4) by (auto simp: separate_files_def)
  obtain updates mid r where updates: "generate_updates env st raw = Inr updates"
    and written: "write_updates updates st = (Inr (), mid)" and published: "publish_packaged env mid = (Inr r, st')"
    using assms(1,2) by (auto simp: apply_main_def bindA_Inr action_simps)
  obtain pinned generated where all: "all_generated env upstreams ps st pinned generated"
    and u: "updates = pinned @ map fst generated @ [(under_root env CATALOGUE, generated_catalogue (map snd generated))]"
    using updates unfolding generate_updates_Inr [OF assms(3) files(1)] by blast
  have keys: "keys updates = generated_files env ps"
    using all_generated_keys [OF all] assms(3) unfolding u by (simp add: valid_document_def)
  have distinct: "distinct (keys updates)" using files(1) keys by simp
  note each = repository_files.puts_each [OF written [unfolded write_updates_fold] distinct]
  have "map_of (files st') path = Some content" if "(path, content) \<in> set updates" for path content
  proof -
    have "path \<in> set (keys updates)" using that by (force simp: keys_def)
    then have "path \<in> set (generated_files env ps)" using keys by simp
    then have "path \<notin> set (packaged_files env)" using files(4) by blast
    then show ?thesis using each(1) [OF that] publish_packaged_frame [OF published] by simp
  qed
  moreover have "map_of (files st') (under_root env COORDINATES) = map_of (files st) (under_root env COORDINATES)"
    using each(2) [of "under_root env COORDINATES"] files(2,3) keys publish_packaged_frame [OF published] by simp
  ultimately show thesis using that all u by blast
qed

lemma read_json_same:
  "map_of (files st') path = map_of (files st) path \<Longrightarrow> read_json_of env st' path = read_json_of env st path"
  by (simp add: read_json_of_def read_text_of_def read_bytes_of_def)

lemma read_text_printed:
  assumes "map_of (files st) path = Some s" and "valid_utf8 s" and "CHR 0x0D \<notin> set s"
  shows "read_text_of st path = Inr s"
  using assms by (simp add: read_text_of_def read_bytes_of_def utf8_decode_def universal_newlines_id)

lemma read_text_clean:
  assumes "read_text_of st path = Inr s"
  shows "valid_utf8 s" and "CHR 0x0D \<notin> set s"
  using assms
  by (auto simp: read_text_of_def read_bytes_of_def utf8_decode_def universal_newlines_utf8 universal_newlines_clean
      split: option.splits if_splits)

lemma stale_files_none:
  "(\<And>path content. (path, content) \<in> set updates \<Longrightarrow> map_of (files st) path = Some content) \<Longrightarrow>
   stale_files st updates = Inr []"
proof (induction updates)
  case (Cons u updates)
  obtain path content where u: "u = (path, content)" by (cases u)
  have "map_of (files st) path = Some content" using Cons(2) by (simp add: u)
  moreover have "stale_files st updates = Inr []" using Cons by simp
  ultimately show ?case by (simp add: u read_bytes_of_def)
qed simp

lemma pinned_again:
  assumes "pinned_from env upstreams st f = Inr (path, content)" and "map_of (files st') path = Some content"
    and "valid_document raw upstreams ps"
  shows "pinned_from env upstreams st' f = Inr (path, content)"
proof -
  let ?t = "coordinate_string upstreams"
  have commits: "hex40 (?t ''control_plane_kit_commit'')" "hex40 (?t ''control_plane_kit_interpreters_commit'')"
    "hex40 (?t ''control_plane_kit_secrets_commit'')"
    using assms(3) by (simp_all add: valid_document_def UPSTREAM_COMMITS_def)
  obtain s where s: "read_text_of st (under_root env f) = Inr s" "path = under_root env f"
    and content: "content = replace_dependency_pins (?t ''control_plane_kit_commit'')
       (?t ''control_plane_kit_interpreters_commit'') (?t ''control_plane_kit_secrets_commit'') s"
    using assms(1) by (auto simp: pinned_from_Inr)
  have "read_text_of st' (under_root env f) = Inr content"
    using assms(2) dependency_pins_text [OF commits read_text_clean [OF s(1)]] s(2)
    by (intro read_text_printed) (simp_all add: content)
  then show ?thesis using s(2) dependency_pins_idempotent [OF commits] by (auto simp: pinned_from_Inr content)
qed

text \<open>\<open>json.loads\<close> reads back what \<open>json.dumps\<close> printed for the rewritten descriptors.\<close>

definition reads_back :: "'doc coordinate_env \<Rightarrow> publication \<Rightarrow> dict \<Rightarrow> bool" where
  "reads_back env st p \<longleftrightarrow>
     (\<forall>d r. read_json_of env st (descriptor_file env p) = Inr d \<longrightarrow> with_image_coordinates d p = Inr r \<longrightarrow>
        cat_loads (ce_catalogue env) (dump (ce_float env) r) = Some r)"

lemma generated_again:
  assumes "generate_product env st (JObj p) = Inr ((path, content), entry)"
    and "map_of (files st') path = Some content" and "valid_coordinate p"
    and "reads_back env st p" and "\<And>f. list_all visible (ce_float env f)"
  shows "generate_product env st' (JObj p) = Inr ((path, content), entry)"
proof -
  obtain d r where d: "read_json_of env st (descriptor_file env p) = Inr d" "with_image_coordinates d p = Inr r"
    and out: "path = descriptor_file env p" "content = dump (ce_float env) r"
      "entry = JObj (product_descriptor (catalogue_entry env p (dump (ce_float env) r)))"
    using assms(1) unfolding generate_product_Inr [OF assms(3)] by blast
  have "list_all visible content" unfolding out by (rule dump_printable(1)) (rule assms(5))
  then have "read_text_of st' path = Inr content"
    using assms(2) printable_no_control [of content "CHR 0x0D"]
    by (intro read_text_printed valid_utf8_ascii printable_ascii) (simp_all add: byte_of_def)
  moreover have "cat_loads (ce_catalogue env) content = Some r" using assms(4) d by (auto simp: reads_back_def out)
  ultimately have "read_json_of env st' (descriptor_file env p) = Inr r"
    by (simp add: read_json_of_def out(1))
  then show ?thesis
    using with_image_coordinates_idempotent [OF d(2)] out unfolding generate_product_Inr [OF assms(3)] by blast
qed

text \<open>
  C33.  Applying settles the check.  After a run that applied the coordinates, and as long as nothing else
  writes, the check accepts: generating again reads what was written and gives the same bytes for every
  file.  This holds whatever the pinned files and the descriptors were before, if the generated files
  are distinct and \<open>json.loads\<close> reads back what \<open>json.dumps\<close> printed.
\<close>

theorem applied_coordinates_pass_the_check:
  assumes "apply_main env False st = (Inr report, st')" and "load_coordinates env st = Inr raw"
    and "products_of raw = map JObj ps" and "separate_files env ps"
    and "\<And>f. list_all visible (ce_float env f)" and "list_all (reads_back env st) ps"
  shows "apply_main env True st' = (Inr None, st') \<and> apply_script env True st' = (Inr 0, st')"
proof -
  obtain upstreams where document: "valid_document raw upstreams ps"
    using loaded_document [OF assms(2,3)] by blast
  obtain pinned generated where all: "all_generated env upstreams ps st pinned generated"
    and written: "\<And>path content. (path, content) \<in> set (pinned @ map fst generated @
           [(under_root env CATALOGUE, generated_catalogue (map snd generated))]) \<Longrightarrow>
           map_of (files st') path = Some content"
    and coordinates: "map_of (files st') (under_root env COORDINATES) = map_of (files st) (under_root env COORDINATES)"
    using applied [OF assms(1,2) document assms(4)] by blast
  have "list_all2 (\<lambda>f out. pinned_from env upstreams st' f = Inr out) PINNED_FILES pinned"
  proof (rule list.rel_mono_strong)
    show "list_all2 (\<lambda>f out. pinned_from env upstreams st f = Inr out) PINNED_FILES pinned"
      using all unfolding all_generated_def by blast
    fix f out assume "out \<in> set pinned" and "pinned_from env upstreams st f = Inr out"
    then show "pinned_from env upstreams st' f = Inr out"
      using pinned_again [OF _ _ document, of env st f "fst out" "snd out" st'] written [of "fst out" "snd out"] by simp
  qed
  moreover have "list_all2 (\<lambda>p out. generate_product env st' (JObj p) = Inr out) ps generated"
  proof (rule list.rel_mono_strong)
    show "list_all2 (\<lambda>p out. generate_product env st (JObj p) = Inr out) ps generated"
      using all unfolding all_generated_def by blast
    fix p out assume p: "p \<in> set ps" and out: "out \<in> set generated" and before: "generate_product env st (JObj p) = Inr out"
    obtain path content entry where o: "out = ((path, content), entry)" by (cases out) auto
    have "(path, content) \<in> set (map fst generated)" using out unfolding o by force
    then have "map_of (files st') path = Some content" using written by simp
    moreover have "valid_coordinate p" "reads_back env st p"
      using p document assms(6) by (auto simp: valid_document_def list_all_iff)
    ultimately show "generate_product env st' (JObj p) = Inr out"
      using generated_again [OF before [unfolded o]] assms(5) unfolding o by blast
  qed
  ultimately have again: "all_generated env upstreams ps st' pinned generated" unfolding all_generated_def by blast
  have "load_coordinates env st' = Inr raw"
    using assms(2) unfolding load_coordinates_def read_json_same [OF coordinates] .
  moreover have "distinct (generated_files env ps)" using assms(4) by (simp add: separate_files_def)
  then have "generate_updates env st' raw = Inr (pinned @ map fst generated @
      [(under_root env CATALOGUE, generated_catalogue (map snd generated))])"
    using again generate_updates_Inr [OF document] by blast
  moreover have "stale_files st' (pinned @ map fst generated @
      [(under_root env CATALOGUE, generated_catalogue (map snd generated))]) = Inr []"
    by (rule stale_files_none) (rule written)
  ultimately have "apply_main env True st' = (Inr None, st')"
    by (simp add: apply_main_def bindA_def action_simps)
  then show ?thesis by (simp add: apply_script_def tryA_def bindA_def action_simps)
qed


section \<open>A small repository\<close>

definition sample_coordinate :: dict where
  "sample_coordinate =
     [(''product_id'', JStr ''hello''), (''owner_directory'', JStr ''products/hello''),
      (''descriptor_path'', JStr ''products/hello/p.json''), (''source_commit'', JStr (replicate 40 (CHR ''1''))),
      (''image'', JObj [(''registry'', JStr ''ghcr.io''), (''repository'', JStr ''o/hello''), (''tag'', JStr ''v1''),
                       (''digest'', JStr (''sha256:'' @ replicate 64 (CHR ''b'')))])]"

definition sample_coordinates :: dict where
  "sample_coordinates =
     [(''schema'', JStr ''cpk-servers.coordinates''),
      (''upstreams'', JObj [(''control_plane_kit_commit'', JStr (replicate 40 (CHR ''a''))),
         (''control_plane_kit_interpreters_commit'', JStr (replicate 40 (CHR ''b''))),
         (''control_plane_kit_secrets_commit'', JStr (replicate 40 (CHR ''c'')))]),
      (''products'', JArr [JObj sample_coordinate])]"

definition sample_descriptor :: json where
  "sample_descriptor = JObj [(''product'', JObj [(''image'', JObj [(''tag'', JStr ''v0'')])])]"

definition sample_rewritten :: json where
  "sample_rewritten = JObj [(''product'', JObj [(''image'', JObj
     [(''tag'', JStr ''v1''), (''registry'', JStr ''ghcr.io''), (''repository'', JStr ''o/hello''),
      (''digest'', JStr (''sha256:'' @ replicate 64 (CHR ''b'')))])])]"

definition sample_loads :: "string \<Rightarrow> json option" where
  "sample_loads s =
     (if s = ''C'' then Some (JObj sample_coordinates)
      else if s = ''D'' then Some sample_descriptor
      else if s = dump (\<lambda>_. ''0'') sample_rewritten then Some sample_rewritten
      else Some (JObj [(''schema'', JStr SCHEMA), (''products'', JArr [])]))"

definition sample_repository :: publication where
  "sample_repository =
     \<lparr>files = [(''r/coordinates/server-products.json'', ''C''),
        (''r/pyproject.toml'', cpk_address @ replicate 40 (CHR ''0'') @ ''.zip''),
        (''r/products/cpk_server/Dockerfile'', [CHR ''x'', CHR 0x0D, CHR 0x0A]),
        (''r/products/cpk_local_gateway/Dockerfile'', ''y''), (''r/products/secrets_server/Dockerfile'', ''z''),
        (''r/products/hello/p.json'', ''D'')], faults = []\<rparr>"

definition sample_coordinate_env :: "unit coordinate_env" where
  "sample_coordinate_env =
     \<lparr>ce_root = ''r'',
      ce_catalogue = \<lparr>cat_file = (\<lambda>_. NoFile), cat_loads = sample_loads, cat_sha256 = (\<lambda>_. replicate 64 (CHR ''d'')),
                      cat_decode = (\<lambda>_. Some ()), cat_image_digest = (\<lambda>_. [])\<rparr>,
      ce_float = (\<lambda>_. ''0''), ce_str = (\<lambda>_. [])\<rparr>"

lemma sample_apply_succeeds:
  "isl (fst (apply_main sample_coordinate_env False sample_repository)) = False"
  by code_simp

lemma sample_loaded: "load_coordinates sample_coordinate_env sample_repository = Inr sample_coordinates"
  by code_simp

lemma sample_products: "products_of sample_coordinates = map JObj [sample_coordinate]"
  by code_simp

lemma sample_separate: "separate_files sample_coordinate_env [sample_coordinate]"
  by code_simp

lemma sample_reads_back: "reads_back sample_coordinate_env sample_repository sample_coordinate"
proof -
  have "read_json_of sample_coordinate_env sample_repository (descriptor_file sample_coordinate_env sample_coordinate) =
      Inr sample_descriptor" by code_simp
  moreover have "with_image_coordinates sample_descriptor sample_coordinate = Inr sample_rewritten" by code_simp
  moreover have "cat_loads (ce_catalogue sample_coordinate_env)
      (dump (ce_float sample_coordinate_env) sample_rewritten) = Some sample_rewritten" by code_simp
  ultimately show ?thesis unfolding reads_back_def by simp
qed

lemma sample_applies:
  obtains report where "apply_main sample_coordinate_env False sample_repository =
    (Inr report, snd (apply_main sample_coordinate_env False sample_repository))"
proof -
  obtain r st where "apply_main sample_coordinate_env False sample_repository = (r, st)" by (rule prod.exhaust)
  with that sample_apply_succeeds show thesis by (cases r) auto
qed

lemma applied_coordinates_pass_the_check_witness:
  "apply_script sample_coordinate_env True (snd (apply_main sample_coordinate_env False sample_repository)) =
     (Inr 0, snd (apply_main sample_coordinate_env False sample_repository))"
proof -
  obtain report where "apply_main sample_coordinate_env False sample_repository =
    (Inr report, snd (apply_main sample_coordinate_env False sample_repository))" by (rule sample_applies)
  moreover have "list_all visible (ce_float sample_coordinate_env f)" for f
    by (simp add: sample_coordinate_env_def visible_def byte_of_def)
  ultimately show ?thesis
    using applied_coordinates_pass_the_check [OF _ sample_loaded sample_products sample_separate] sample_reads_back
    by simp
qed


lemma every_coordinate_is_selectable_witness:
  "\<exists>reference. coordinate_main sample_coordinate_env sample_repository [''hello''] = Inr reference"
proof -
  have "JObj sample_coordinate \<in> set (products_of sample_coordinates)" by (simp add: sample_products)
  from every_coordinate_is_selectable [OF sample_loaded this]
  obtain p i reference where "JObj sample_coordinate = JObj p" "get p ''product_id'' = JStr i"
    "coordinate_main sample_coordinate_env sample_repository [i] = Inr reference" by blast
  moreover have "get sample_coordinate ''product_id'' = JStr ''hello''" by code_simp
  ultimately show ?thesis by auto
qed

end
