(* ===== verification/PackageIntegrity.thy ===== *)
theory PackageIntegrity
  imports Json PyText "HOL-Library.Product_Lexorder"
begin

text \<open>
  The package integrity checker (\<open>test_support/package_integrity.py\<close>): it reads the sources and tests of
  a package, the approved skips and the gate files, and reports what weakens the tests.

  A Python file is the tree \<open>ast.parse\<close> gives, with the node classes the checker looks at and
  \<open>Other\<close> for the rest.  Parameters: the files (\<open>repository\<close>), \<open>ast.parse\<close>, \<open>json.loads\<close>, the text of
  a parse error and whether a character outside ASCII is a word character.  Not modelled: \<open>argparse\<close>,
  and paths outside the package root, for which \<open>relative_to\<close> raises.
\<close>

section \<open>Syntax trees\<close>

text \<open>A constant is a text, a boolean, the ellipsis, or something else.\<close>

datatype literal = Text_literal string | Bool_literal bool | Ellipsis_literal | Other_literal

text \<open>
  The children of a node are what \<open>ast.iter_child_nodes\<close> yields: for a class its bases, keywords
  (\<open>Other\<close>), body and decorators, for a function its arguments and annotations (\<open>parts\<close>), body and
  decorators.  \<open>is_async\<close> tells \<open>FunctionDef\<close> from \<open>AsyncFunctionDef\<close>.
\<close>

datatype node =
    Name string
  | Attribute node string
  | Constant literal
  | Call nat node "node list" "node list"
  | Import nat "(string \<times> string option) list"
  | ImportFrom nat "string option" "(string \<times> string option) list"
  | ClassDef nat string "node list" "node list" "node list" "node list"
  | FunctionDef nat bool string "node list" "node list" "node list"
  | ExceptHandler nat "node list" "node list"
  | Expr node
  | Pass
  | Other "node list"

fun child_nodes :: "node \<Rightarrow> node list" where
  "child_nodes (Attribute v _) = [v]"
| "child_nodes (Call _ f args keywords) = f # args @ keywords"
| "child_nodes (ClassDef _ _ bases keywords body decorators) = bases @ keywords @ body @ decorators"
| "child_nodes (FunctionDef _ _ _ parts body decorators) = parts @ body @ decorators"
| "child_nodes (ExceptHandler _ parts body) = parts @ body"
| "child_nodes (Expr v) = [v]"
| "child_nodes (Other xs) = xs"
| "child_nodes _ = []"

lemma size_nodes: "size_list size xs = sum_list (map (\<lambda>x. Suc (size x)) xs)"
  by (induction xs) auto

lemma child_size: "sum_list (map (\<lambda>x. Suc (size x)) (child_nodes n)) \<le> size n"
  by (cases n) (simp_all add: size_nodes)

text \<open>\<open>ast.walk\<close>: breadth first, from a queue.\<close>

function walk_queue :: "node list \<Rightarrow> node list" where
  "walk_queue [] = []"
| "walk_queue (n # queue) = n # walk_queue (queue @ child_nodes n)"
  by pat_completeness auto
termination
  by (relation "measure (\<lambda>queue. sum_list (map (\<lambda>x. Suc (size x)) queue))")
    (auto simp: less_Suc_eq_le child_size)

definition walk_tree :: "node list \<Rightarrow> node list" where
  "walk_tree body = walk_queue [Other body]"

section \<open>Findings\<close>

text \<open>The fields of an \<open>IntegrityFinding\<close>, which orders by them.\<close>

datatype finding =
  Finding (finding_path: string) (finding_line: nat) (finding_code: string) (finding_message: string)

definition finding_key :: "finding \<Rightarrow> string \<times> nat \<times> string \<times> string" where
  "finding_key f = (finding_path f, finding_line f, finding_code f, finding_message f)"

lemma finding_key_inject [simp]: "finding_key a = finding_key b \<longleftrightarrow> a = b"
  by (cases a; cases b) (simp add: finding_key_def)

instantiation finding :: linorder
begin

definition less_eq_finding :: "finding \<Rightarrow> finding \<Rightarrow> bool" where
  "less_eq_finding a b \<longleftrightarrow> finding_key a \<le> finding_key b"

definition less_finding :: "finding \<Rightarrow> finding \<Rightarrow> bool" where
  "less_finding a b \<longleftrightarrow> finding_key a < finding_key b"

instance
  by standard (auto simp: less_eq_finding_def less_finding_def less_le_not_le simp flip: finding_key_inject)

end

record approval =
  skip_identity :: string
  skip_reason :: string

record integrity_report =
  report_findings :: "finding list"
  test_identities :: "string list"
  mock_locations :: "string list"
  approved_identities :: "string list"

definition valid_report :: "integrity_report \<Rightarrow> bool" where
  "valid_report r \<longleftrightarrow> report_findings r = []"

section \<open>Reading a tree\<close>

definition ends_with :: "string \<Rightarrow> string \<Rightarrow> bool" where
  "ends_with p s \<longleftrightarrow> starts_with (rev p) (rev s)"

text \<open>\<open>rsplit(".", 1)[-1]\<close> and \<open>split(".", 1)[0]\<close>.\<close>

definition last_part :: "string \<Rightarrow> string" where "last_part s = last (split_on (CHR ''.'') s)"
definition first_part :: "string \<Rightarrow> string" where "first_part s = hd (split_on (CHR ''.'') s)"

fun dotted_name :: "node \<Rightarrow> string option" where
  "dotted_name (Name i) = Some i"
| "dotted_name (Attribute v attr) =
     (case dotted_name v of
        Some (c # owner) \<Rightarrow> Some ((c # owner) @ ''.'' @ attr)
      | _ \<Rightarrow> Some attr)"
| "dotted_name _ = None"

definition name_text :: "node \<Rightarrow> string" where
  "name_text n = (case dotted_name n of None \<Rightarrow> [] | Some s \<Rightarrow> s)"

definition is_test_case :: "string list \<Rightarrow> node list \<Rightarrow> bool" where
  "is_test_case aliases bases \<longleftrightarrow>
     list_ex (\<lambda>b. ends_with ''TestCase'' (name_text b) \<or> name_text b \<in> set aliases) bases"

definition is_placeholder_body :: "node list \<Rightarrow> bool" where
  "is_placeholder_body body \<longleftrightarrow>
     (let statements = (case body of Expr (Constant (Text_literal _)) # rest \<Rightarrow> rest | _ \<Rightarrow> body) in
      statements = [Pass] \<or> statements = [Expr (Constant Ellipsis_literal)])"

definition is_swallowed_handler :: "node list \<Rightarrow> bool" where
  "is_swallowed_handler body \<longleftrightarrow> body = [Pass]"

text \<open>
  \<open>ast.literal_eval\<close> gives a text or a boolean for such a constant only; a value that is no literal
  becomes a fresh object.
\<close>

definition literal_text :: "node \<Rightarrow> string option" where
  "literal_text n = (case n of Constant (Text_literal s) \<Rightarrow> Some s | _ \<Rightarrow> None)"

definition literal_is_bool :: "node \<Rightarrow> bool" where
  "literal_is_bool n \<longleftrightarrow> (case n of Constant (Bool_literal _) \<Rightarrow> True | _ \<Rightarrow> False)"

type_synonym skip = "string \<times> node option \<times> string option"

definition skip_decorator :: "(string \<times> string) list \<Rightarrow> node \<Rightarrow> skip option" where
  "skip_decorator aliases decorator =
     (case decorator of
        Call _ f args _ \<Rightarrow>
          (let base = last_part (name_text f); name = get_or aliases base base in
           if name = ''skip'' \<and> args \<noteq> [] then Some (name, None, literal_text (hd args))
           else if name \<in> {''skipIf'', ''skipUnless''} \<and> 2 \<le> length args
                then Some (name, Some (hd args), literal_text (args ! 1))
           else None)
      | _ \<Rightarrow> None)"

section \<open>Approved skips\<close>

datatype file_text = Text_bytes string | No_access string

text \<open>Exceptions that end the check: a file that is not UTF-8, a gate file that cannot be read.\<close>

datatype integrity_exn = Undecodable | Unreadable_gate

record repository =
  approvals_name :: string
  approvals_file :: "file_text option"
  read_json :: "string \<Rightarrow> string + json"
  python_under :: "string list \<Rightarrow> string list list option"
  read_python :: "string list \<Rightarrow> file_text"
  parse_python :: "string \<Rightarrow> string \<Rightarrow> (nat option \<times> string) + node list"
  gate_text :: "string list \<Rightarrow> file_text option"
  word_outside_ascii :: "string \<Rightarrow> bool"

definition invalid_approval :: "repository \<Rightarrow> nat \<Rightarrow> string \<Rightarrow> finding" where
  "invalid_approval repo line message = Finding (approvals_name repo) line ''invalid-skip-approval'' message"

text \<open>One entry of the document: an approval, or a finding.\<close>

definition read_approval :: "repository \<Rightarrow> string list \<Rightarrow> nat \<Rightarrow> json \<Rightarrow> finding + approval" where
  "read_approval repo seen index item =
     (case item of
        JObj d \<Rightarrow>
          (case get d ''identity'' of
             JStr identity \<Rightarrow>
               if blank identity then Inl (invalid_approval repo index ''approved skip identity must be non-blank'')
               else
                 (case get d ''reason'' of
                    JStr reason \<Rightarrow>
                      if blank reason \<or> 240 < str_len reason
                      then Inl (invalid_approval repo index ''approved skip reason must contain 1-240 characters'')
                      else if identity \<in> set seen
                      then Inl (Finding (approvals_name repo) index ''duplicate-skip-approval'' identity)
                      else Inr \<lparr>skip_identity = identity, skip_reason = reason\<rparr>
                  | _ \<Rightarrow> Inl (invalid_approval repo index ''approved skip reason must contain 1-240 characters''))
           | _ \<Rightarrow> Inl (invalid_approval repo index ''approved skip identity must be non-blank''))
      | _ \<Rightarrow> Inl (invalid_approval repo index ''approved skip entry must be an object''))"

fun read_approvals :: "repository \<Rightarrow> string list \<Rightarrow> nat \<Rightarrow> json list \<Rightarrow> approval list \<times> finding list" where
  "read_approvals repo seen index [] = ([], [])"
| "read_approvals repo seen index (item # items) =
     (case read_approval repo seen index item of
        Inl f \<Rightarrow> (case read_approvals repo seen (Suc index) items of (as, fs) \<Rightarrow> (as, f # fs))
      | Inr a \<Rightarrow> (case read_approvals repo (skip_identity a # seen) (Suc index) items of (as, fs) \<Rightarrow> (a # as, fs)))"

definition read_approved_skips :: "repository \<Rightarrow> integrity_exn + approval list \<times> finding list" where
  "read_approved_skips repo =
     (case approvals_file repo of
        None \<Rightarrow> Inr ([], [])
      | Some (No_access message) \<Rightarrow> Inr ([], [invalid_approval repo 1 message])
      | Some (Text_bytes b) \<Rightarrow>
          (case utf8_decode b of
             None \<Rightarrow> Inl Undecodable
           | Some s \<Rightarrow>
               (case read_json repo (universal_newlines s) of
                  Inl message \<Rightarrow> Inr ([], [invalid_approval repo 1 message])
                | Inr (JArr items) \<Rightarrow> Inr (read_approvals repo [] 1 items)
                | Inr _ \<Rightarrow> Inr ([], [invalid_approval repo 1 ''approved skip document must be a JSON list'']))))"

section \<open>One file\<close>

text \<open>What is found in a file, under its path relative to the package.\<close>

record file_report =
  file_findings :: "finding list"
  file_tests :: "string list"
  file_mocks :: "string list"
  file_skips :: "string list"

definition import_roots :: "node \<Rightarrow> string list" where
  "import_roots n =
     (case n of
        Import _ names \<Rightarrow> map (first_part \<circ> fst) names
      | ImportFrom _ (Some (c # m)) _ \<Rightarrow> [first_part (c # m)]
      | _ \<Rightarrow> [])"

definition node_line :: "node \<Rightarrow> nat" where
  "node_line n =
     (case n of
        Call l _ _ _ \<Rightarrow> l | Import l _ \<Rightarrow> l | ImportFrom l _ _ \<Rightarrow> l | ClassDef l _ _ _ _ _ \<Rightarrow> l
      | FunctionDef l _ _ _ _ _ \<Rightarrow> l | ExceptHandler l _ _ \<Rightarrow> l | _ \<Rightarrow> 0)"

text \<open>The aliases under which a module imports \<open>TestCase\<close> and the skip decorators.\<close>

definition unittest_names :: "node \<Rightarrow> (string \<times> string option) list" where
  "unittest_names n =
     (case n of
        ImportFrom _ (Some m) names \<Rightarrow> if m \<in> {''unittest'', ''unittest.case''} then names else []
      | _ \<Rightarrow> [])"

definition local_name :: "string \<times> string option \<Rightarrow> string" where
  "local_name a = (case snd a of Some (c # s) \<Rightarrow> c # s | _ \<Rightarrow> fst a)"

definition test_case_aliases :: "node list \<Rightarrow> string list" where
  "test_case_aliases body =
     ''TestCase'' # map local_name (filter (\<lambda>a. fst a = ''TestCase'') (concat (map unittest_names body)))"

definition skip_aliases :: "node list \<Rightarrow> (string \<times> string) list" where
  "skip_aliases body =
     dict_update [] (map (\<lambda>a. (local_name a, fst a))
       (filter (\<lambda>a. fst a \<in> {''skip'', ''skipIf'', ''skipUnless''}) (concat (map unittest_names body))))"

definition location :: "string \<Rightarrow> node \<Rightarrow> string" where
  "location relative n = relative @ '':'' @ nat_text (node_line n)"

definition node_findings :: "bool \<Rightarrow> string \<Rightarrow> node \<Rightarrow> finding list" where
  "node_findings in_test relative n =
     (if ''control_plane_kit'' \<in> set (import_roots n)
      then [Finding relative (node_line n) ''mutable-legacy-import'' ''imports mutable control_plane_kit package'']
      else []) @
     (if ''pytest'' \<in> set (import_roots n)
      then [Finding relative (node_line n) ''pytest-import'' ''unittest is the only permitted test framework'']
      else []) @
     (case n of
        ExceptHandler l _ body \<Rightarrow>
          if in_test \<and> is_swallowed_handler body
          then [Finding relative l ''swallowed-exception'' ''test code swallows an exception with pass'']
          else []
      | _ \<Rightarrow> [])"

definition node_mocks :: "bool \<Rightarrow> string \<Rightarrow> node \<Rightarrow> string list" where
  "node_mocks in_test relative n =
     (if \<not> in_test then []
      else
        (case n of
           ImportFrom _ m _ \<Rightarrow> if m = Some ''unittest.mock'' then [location relative n] else []
         | Call _ f _ _ \<Rightarrow>
             if last_part (name_text f) \<in> {''Mock'', ''MagicMock'', ''patch''} then [location relative n] else []
         | _ \<Rightarrow> []))"

text \<open>
  The walk yields the module, then its statements, then everything below them: a class it yields after
  those is no statement of the module.
\<close>

definition nested_nodes :: "node list \<Rightarrow> node list" where
  "nested_nodes body = drop (Suc (length body)) (walk_tree body)"

definition nested_findings :: "string list \<Rightarrow> string \<Rightarrow> node \<Rightarrow> finding list" where
  "nested_findings aliases relative n =
     (case n of
        ClassDef l name bases _ _ _ \<Rightarrow>
          if is_test_case aliases bases
          then [Finding relative l ''hidden-test-class'' (''nested TestCase '' @ name @ '' is not collected by unittest'')]
          else []
      | _ \<Rightarrow> [])"

definition method_findings :: "string \<Rightarrow> string \<Rightarrow> node \<Rightarrow> finding list" where
  "method_findings relative class m =
     (case m of
        FunctionDef l _ name _ body _ \<Rightarrow>
          if starts_with ''test'' name \<and> is_placeholder_body body
          then [Finding relative l ''placeholder-test'' (relative @ ''::'' @ class @ ''.'' @ name)]
          else []
      | _ \<Rightarrow> [])"

definition test_methods :: "string \<Rightarrow> string \<Rightarrow> node list \<Rightarrow> (string \<times> nat \<times> node list) list" where
  "test_methods relative class body =
     concat (map (\<lambda>m. case m of
         FunctionDef l _ name _ _ decorators \<Rightarrow>
           if starts_with ''test'' name then [(relative @ ''::'' @ class @ ''.'' @ name, l, decorators)] else []
       | _ \<Rightarrow> []) body)"

text \<open>Whether a skip is admitted for this identity, and what is found when it is not.\<close>

definition judge_skip :: "approval list \<Rightarrow> string \<Rightarrow> string \<Rightarrow> nat \<Rightarrow> skip \<Rightarrow> finding option" where
  "judge_skip approvals relative identity line s =
     (case s of (kind, condition, reason) \<Rightarrow>
        if kind = ''skip'' then Some (Finding relative line ''unconditional-skip'' identity)
        else if (case condition of Some c \<Rightarrow> literal_is_bool c | None \<Rightarrow> False)
        then Some (Finding relative line ''literal-skip-condition'' identity)
        else
          (case map_of (map (\<lambda>a. (skip_identity a, skip_reason a)) (rev approvals)) identity of
             None \<Rightarrow> Some (Finding relative line ''unapproved-skip'' identity)
           | Some approved \<Rightarrow>
               if reason \<noteq> Some approved then Some (Finding relative line ''skip-reason-mismatch'' identity)
               else None))"

definition skip_results ::
  "approval list \<Rightarrow> (string \<times> string) list \<Rightarrow> string \<Rightarrow> string \<times> nat \<times> node list \<Rightarrow> (finding + string) list" where
  "skip_results approvals aliases relative candidate =
     (case candidate of (identity, line, decorators) \<Rightarrow>
        map (\<lambda>s. case judge_skip approvals relative identity line s of Some f \<Rightarrow> Inl f | None \<Rightarrow> Inr identity)
          (List.map_filter (skip_decorator aliases) decorators))"

definition inspect_class ::
  "approval list \<Rightarrow> string list \<Rightarrow> (string \<times> string) list \<Rightarrow> bool \<Rightarrow> bool \<Rightarrow> string \<Rightarrow> node \<Rightarrow> file_report" where
  "inspect_class approvals cases skips in_test discoverable relative n =
     (case n of
        ClassDef l name bases _ body decorators \<Rightarrow>
          if is_test_case cases bases
          then
            (let methods = test_methods relative name body;
                 candidates = (relative @ ''::'' @ name, l, decorators) # methods;
                 results = concat (map (skip_results approvals skips relative) candidates) in
             \<lparr>file_findings =
                (if in_test \<and> \<not> discoverable
                 then [Finding relative l ''hidden-test-file''
                        (''TestCase '' @ name @ '' is outside unittest discovery pattern'')]
                 else []) @
                concat (map (method_findings relative name) body) @
                List.map_filter (\<lambda>r. case r of Inl f \<Rightarrow> Some f | Inr _ \<Rightarrow> None) results,
              file_tests = map fst methods, file_mocks = [],
              file_skips = List.map_filter (\<lambda>r. case r of Inl _ \<Rightarrow> None | Inr i \<Rightarrow> Some i) results\<rparr>)
          else \<lparr>file_findings = [], file_tests = [], file_mocks = [], file_skips = []\<rparr>
      | _ \<Rightarrow> \<lparr>file_findings = [], file_tests = [], file_mocks = [], file_skips = []\<rparr>)"

definition function_findings :: "string \<Rightarrow> node \<Rightarrow> finding list" where
  "function_findings relative n =
     (case n of
        FunctionDef l _ name _ _ _ \<Rightarrow>
          if starts_with ''test'' name
          then [Finding relative l ''hidden-test-function''
                 (''top-level test function '' @ name @ '' is not collected by unittest'')]
          else []
      | _ \<Rightarrow> [])"

definition inspect_tree :: "approval list \<Rightarrow> bool \<Rightarrow> bool \<Rightarrow> string \<Rightarrow> node list \<Rightarrow> file_report" where
  "inspect_tree approvals in_test discoverable relative body =
     (let cases = test_case_aliases body; skips = skip_aliases body; nodes = walk_tree body;
          classes = map (inspect_class approvals cases skips in_test discoverable relative) body in
      \<lparr>file_findings =
         concat (map (node_findings in_test relative) nodes) @
         concat (map (nested_findings cases relative) (nested_nodes body)) @
         concat (map file_findings classes) @
         (if in_test then concat (map (function_findings relative) body) else []),
       file_tests = concat (map file_tests classes),
       file_mocks = concat (map (node_mocks in_test relative) nodes),
       file_skips = concat (map file_skips classes)\<rparr>)"

section \<open>Gate files\<close>

text \<open>\<open>str.splitlines\<close> on the characters of a text whose line ends were translated.\<close>

definition line_boundary :: "string \<Rightarrow> bool" where
  "line_boundary g \<longleftrightarrow> list_all (\<lambda>n. n \<in> {10, 11, 12, 13, 28, 29, 30, 133, 8232, 8233}) (codepoints g)"

fun lines_from :: "string list \<Rightarrow> string list \<Rightarrow> string list list" where
  "lines_from current [] = (if current = [] then [] else [current])"
| "lines_from current (g # gs) =
     (if line_boundary g then current # lines_from [] gs else lines_from (current @ [g]) gs)"

definition PROOF_CHANGING :: "string list" where
  "PROOF_CHANGING = [''SKIP'', ''OPTIONAL'', ''NO_BUILD'', ''LOCAL_REBUILD'', ''NO_TEST'']"

definition option_start :: "string \<Rightarrow> bool" where
  "option_start g \<longleftrightarrow> (case g of [c] \<Rightarrow> upper_letter c | _ \<Rightarrow> False)"

definition name_part :: "string \<Rightarrow> bool" where
  "name_part g \<longleftrightarrow> (case g of [c] \<Rightarrow> upper_letter c \<or> digit_char c \<or> c = CHR ''_'' | _ \<Rightarrow> False)"

definition word_character :: "repository \<Rightarrow> string \<Rightarrow> bool" where
  "word_character repo g \<longleftrightarrow>
     (case g of
        [c] \<Rightarrow> upper_letter c \<or> lower_letter c \<or> digit_char c \<or> c = CHR ''_''
      | _ \<Rightarrow> word_outside_ascii repo g)"

text \<open>
  A match of the pattern from here: it takes every capital, digit and underscore (a shorter match would
  not end at a word boundary), must end at one, and holds a key word after its first character.
\<close>

definition proof_changing_at :: "repository \<Rightarrow> string list \<Rightarrow> string option" where
  "proof_changing_at repo gs =
     (let run = takeWhile name_part gs; rest = dropWhile name_part gs in
      if gs \<noteq> [] \<and> option_start (hd gs) \<and> (rest = [] \<or> \<not> word_character repo (hd rest)) \<and>
         list_ex (\<lambda>k. contains k (concat (tl run))) PROOF_CHANGING
      then Some (concat run) else None)"

text \<open>
  \<open>finditer\<close>: a match begins where no word character precedes, so after a match the rest of its
  characters cannot begin another.
\<close>

fun proof_changing_names :: "repository \<Rightarrow> bool \<Rightarrow> string list \<Rightarrow> string list" where
  "proof_changing_names repo after_word [] = []"
| "proof_changing_names repo after_word (g # gs) =
     (case (if after_word then None else proof_changing_at repo (g # gs)) of
        Some m \<Rightarrow> m # proof_changing_names repo (word_character repo g) gs
      | None \<Rightarrow> proof_changing_names repo (word_character repo g) gs)"

fun line_findings :: "repository \<Rightarrow> string \<Rightarrow> nat \<Rightarrow> string list list \<Rightarrow> finding list" where
  "line_findings repo relative number [] = []"
| "line_findings repo relative number (line # lines) =
     map (Finding relative number ''proof-changing-option'') (proof_changing_names repo False line) @
     line_findings repo relative (Suc number) lines"

section \<open>The package\<close>

text \<open>Absolute paths are lists of parts.  \<open>as_text\<close> is \<open>str\<close> of a path.\<close>

fun parts_text :: "string list \<Rightarrow> string" where
  "parts_text [] = ''.''"
| "parts_text [p] = p"
| "parts_text (p # q # ps) = p @ ''/'' @ parts_text (q # ps)"

definition as_text :: "string list \<Rightarrow> string" where
  "as_text path = ''/'' @ (case path of [] \<Rightarrow> [] | _ \<Rightarrow> parts_text path)"

definition is_under :: "string list \<Rightarrow> string list \<Rightarrow> bool" where
  "is_under root path \<longleftrightarrow> take (length root) path = root"

definition relative_text :: "string list \<Rightarrow> string list \<Rightarrow> string" where
  "relative_text root path = parts_text (drop (length root) path)"

definition python_files :: "repository \<Rightarrow> string list list \<Rightarrow> string list list" where
  "python_files repo roots =
     sort (remdups (filter (\<lambda>path. ''__pycache__'' \<notin> set path)
       (concat (map (\<lambda>root. case python_under repo root of None \<Rightarrow> [] | Some paths \<Rightarrow> paths) roots))))"

text \<open>\<open>^test.*\.py$\<close> on the name of a file that ends in \<open>.py\<close>.\<close>

definition discoverable_name :: "string \<Rightarrow> bool" where
  "discoverable_name name \<longleftrightarrow>
     starts_with ''test'' name \<and> ends_with ''.py'' (drop 4 name) \<and> CHR 0x0A \<notin> set name"

definition unparseable :: "string \<Rightarrow> nat \<Rightarrow> string \<Rightarrow> file_report" where
  "unparseable relative line message =
     \<lparr>file_findings = [Finding relative line ''unparseable-python'' message], file_tests = [], file_mocks = [],
      file_skips = []\<rparr>"

definition inspect_file ::
  "repository \<Rightarrow> approval list \<Rightarrow> string list \<Rightarrow> string list list \<Rightarrow> string list \<Rightarrow> integrity_exn + file_report" where
  "inspect_file repo approvals root test_roots path =
     (let relative = relative_text root path in
      case read_python repo path of
        No_access message \<Rightarrow> Inr (unparseable relative 1 message)
      | Text_bytes b \<Rightarrow>
          (case utf8_decode b of
             None \<Rightarrow> Inl Undecodable
           | Some s \<Rightarrow>
               (case parse_python repo relative (universal_newlines s) of
                  Inl (line, message) \<Rightarrow>
                    Inr (unparseable relative (case line of Some (Suc l) \<Rightarrow> Suc l | _ \<Rightarrow> 1) message)
                | Inr body \<Rightarrow>
                    Inr (inspect_tree approvals (list_ex (\<lambda>r. is_under r path) test_roots)
                           (discoverable_name (last path)) relative body))))"

definition stale_approvals :: "repository \<Rightarrow> approval list \<Rightarrow> string list \<Rightarrow> finding list" where
  "stale_approvals repo approvals encountered =
     map (\<lambda>a. Finding (approvals_name repo) 1 ''stale-skip-approval'' (skip_identity a))
       (filter (\<lambda>a. skip_identity a \<notin> set encountered) approvals)"

definition inspect_gate :: "repository \<Rightarrow> string list \<Rightarrow> string list \<Rightarrow> integrity_exn + finding list" where
  "inspect_gate repo root path =
     (case gate_text repo path of
        None \<Rightarrow> Inr [Finding (as_text path) 1 ''missing-gate-file'' ''gate file does not exist'']
      | Some (No_access _) \<Rightarrow> Inl Unreadable_gate
      | Some (Text_bytes b) \<Rightarrow>
          (case utf8_decode b of
             None \<Rightarrow> Inl Undecodable
           | Some s \<Rightarrow>
               Inr (line_findings repo (relative_text root path) 1 (lines_from [] (chars_of (universal_newlines s))))))"

definition inspect_package ::
  "repository \<Rightarrow> string list \<Rightarrow> string list list \<Rightarrow> string list list \<Rightarrow> string list list \<Rightarrow>
   integrity_exn + integrity_report" where
  "inspect_package repo root source_roots test_roots gates =
     bindE (read_approved_skips repo) (\<lambda>(approvals, malformed).
     bindE (mapE (inspect_file repo approvals root test_roots) (python_files repo (source_roots @ test_roots))) (\<lambda>inspected.
     let encountered = concat (map file_skips inspected) in
     bindE (mapE (inspect_gate repo root) gates) (\<lambda>gated.
     Inr \<lparr>report_findings =
            sort (remdups (malformed @ concat (map file_findings inspected) @
                           stale_approvals repo approvals encountered @ concat gated)),
          test_identities = sort (remdups (concat (map file_tests inspected))),
          mock_locations = sort (remdups (concat (map file_mocks inspected))),
          approved_identities = sort (remdups encountered)\<rparr>)))"

text \<open>What \<open>main\<close> prints, and its exit status.\<close>

definition integrity_lines :: "integrity_report \<Rightarrow> string list" where
  "integrity_lines r =
     (''package-integrity contract=1 tests='' @ nat_text (length (test_identities r)) @ '' mocks='' @
      nat_text (length (mock_locations r)) @ '' approved_skips='' @ nat_text (length (approved_identities r))) #
     map (\<lambda>l. ''mock-evidence '' @ l) (mock_locations r) @
     map (\<lambda>f. finding_path f @ '':'' @ nat_text (finding_line f) @ '': '' @ finding_code f @ '': '' @
              finding_message f) (report_findings r)"

definition or_default :: "string list \<Rightarrow> string \<Rightarrow> string list" where
  "or_default values d = (if values = [] then [d] else values)"

definition integrity_main ::
  "repository \<Rightarrow> string list \<Rightarrow> string list \<Rightarrow> string list \<Rightarrow> string list \<Rightarrow> integrity_exn + string list \<times> int" where
  "integrity_main repo root sources tests gates =
     (let under = map (\<lambda>v. root @ filter (\<lambda>p. p \<noteq> [] \<and> p \<noteq> ''.'') (split_on (CHR ''/'') v)) in
      bindE (inspect_package repo root (under (or_default sources ''src'')) (under (or_default tests ''tests''))
               (under (or_default gates ''test.sh''))) (\<lambda>r.
      Inr (integrity_lines r, if valid_report r then 0 else 1)))"

end
