(* ===== verification/IntegrityProperties.thy ===== *)
theory IntegrityProperties
  imports PackageIntegrity "HOL-Library.Code_Target_Numeral"
begin

text \<open>
  What the integrity checker guarantees: a package passes exactly when it is clean, where clean is said
  of the trees, the skips and the approvals without the order in which the checker looks at them; and
  which skips it does not see.
\<close>

section \<open>The walk\<close>

inductive descends :: "node \<Rightarrow> node \<Rightarrow> bool" where
  self: "descends n n"
| child: "m \<in> set (child_nodes n) \<Longrightarrow> descends m x \<Longrightarrow> descends n x"

inductive_cases descends_cases: "descends n x"

lemma descends_iff: "descends n x \<longleftrightarrow> x = n \<or> (\<exists>m \<in> set (child_nodes n). descends m x)"
  by (auto intro: descends.intros elim: descends_cases)

lemma walk_queue_set: "x \<in> set (walk_queue queue) \<longleftrightarrow> (\<exists>n \<in> set queue. descends n x)"
proof (induction queue rule: walk_queue.induct)
  case (2 n queue)
  then show ?case by (simp add: descends_iff [of n]) blast
qed simp

lemma walk_queue_append: "walk_queue (xs @ ys) = xs @ walk_queue (ys @ concat (map child_nodes xs))"
  by (induction xs arbitrary: ys) simp_all

lemma walk_levels: "walk_tree body = Other body # body @ walk_queue (concat (map child_nodes body))"
  using walk_queue_append [of body "[]"] by (simp add: walk_tree_def)

lemma walk_set: "x \<in> set (walk_tree body) \<longleftrightarrow> descends (Other body) x"
  by (simp add: walk_tree_def walk_queue_set descends_iff [of "Other body"])

lemma nested_set: "x \<in> set (nested_nodes body) \<longleftrightarrow> (\<exists>s \<in> set body. \<exists>m \<in> set (child_nodes s). descends m x)"
  by (simp add: nested_nodes_def walk_levels walk_queue_set)

section \<open>Approvals\<close>

definition approval_of :: "json \<Rightarrow> approval option" where
  "approval_of item =
     (case item of
        JObj d \<Rightarrow>
          (case (get d ''identity'', get d ''reason'') of
             (JStr identity, JStr reason) \<Rightarrow>
               if blank identity \<or> blank reason \<or> 240 < str_len reason then None
               else Some \<lparr>skip_identity = identity, skip_reason = reason\<rparr>
           | _ \<Rightarrow> None)
      | _ \<Rightarrow> None)"

lemma read_approval_Inr:
  "read_approval repo seen index item = Inr a \<longleftrightarrow> approval_of item = Some a \<and> skip_identity a \<notin> set seen"
  by (auto simp: read_approval_def approval_of_def split: json.splits)

lemma read_approvals_distinct:
  "distinct (map skip_identity (fst (read_approvals repo seen index items))) \<and>
   set (map skip_identity (fst (read_approvals repo seen index items))) \<inter> set seen = {}"
proof (induction repo seen index items rule: read_approvals.induct)
  case (2 repo seen index item items)
  show ?case
  proof (cases "read_approval repo seen index item")
    case (Inl f)
    then show ?thesis using 2(1) by (simp add: case_prod_unfold)
  next
    case (Inr a)
    then have "skip_identity a \<notin> set seen" by (simp add: read_approval_Inr)
    then show ?thesis using 2(2) [OF Inr] Inr by (simp add: case_prod_unfold)
  qed
qed simp

text \<open>An accepted document is a list of approvals with distinct identities.\<close>

lemma read_approvals_clean:
  "read_approvals repo seen index items = (as, []) \<longleftrightarrow>
     map approval_of items = map Some as \<and> distinct (map skip_identity as) \<and>
     set (map skip_identity as) \<inter> set seen = {}"
proof (induction items arbitrary: seen index as)
  case (Cons item items)
  show ?case
  proof (cases "read_approval repo seen index item")
    case (Inl f)
    then have "\<not> (approval_of item = Some a \<and> skip_identity a \<notin> set seen)" for a
      using read_approval_Inr [of repo seen index item a] by simp
    then show ?thesis using Inl by (auto simp: Cons_eq_map_conv split: prod.split)
  next
    case (Inr a)
    then have "approval_of item = Some a" "skip_identity a \<notin> set seen" by (simp_all add: read_approval_Inr)
    then show ?thesis
      using Inr Cons [of "skip_identity a # seen" "Suc index" "tl as"]
      by (cases as) (auto split: prod.splits)
  qed
qed auto

definition approved_document :: "repository \<Rightarrow> approval list \<Rightarrow> bool" where
  "approved_document repo as \<longleftrightarrow>
     distinct (map skip_identity as) \<and>
     (case approvals_file repo of
        None \<Rightarrow> as = []
      | Some (Text_bytes b) \<Rightarrow> (\<exists>items. read_json repo (universal_newlines b) = Inr (JArr items) \<and>
          map approval_of items = map Some as)
      | Some (No_access _) \<Rightarrow> False)"

lemma read_approved_skips_clean:
  assumes "read_approved_skips repo = Inr (as, fs)"
  shows "fs = [] \<longleftrightarrow> approved_document repo as" and "distinct (map skip_identity as)"
proof -
  have doc: "read_approvals repo [] 1 items = (as, fs) \<Longrightarrow>
      (fs = [] \<longleftrightarrow> map approval_of items = map Some as) \<and> distinct (map skip_identity as)" for items
    using read_approvals_clean [of repo "[]" 1 items as] read_approvals_distinct [of repo "[]" 1 items] by auto
  show "fs = [] \<longleftrightarrow> approved_document repo as" and "distinct (map skip_identity as)"
    using assms doc
    by (auto simp: read_approved_skips_def approved_document_def utf8_decode_def
        split: option.splits file_text.splits sum.splits json.splits if_splits)
qed

section \<open>Skips\<close>

text \<open>A skip is admitted when it is conditional, not by a constant, and approved for this reason.\<close>

definition admitted :: "approval list \<Rightarrow> string \<Rightarrow> skip \<Rightarrow> bool" where
  "admitted as identity s \<longleftrightarrow>
     (case s of (kind, condition, reason) \<Rightarrow>
        kind \<noteq> ''skip'' \<and> (\<forall>c. condition = Some c \<longrightarrow> \<not> literal_is_bool c) \<and>
        (\<exists>a \<in> set as. skip_identity a = identity \<and> reason = Some (skip_reason a)))"

lemma judge_skip_None:
  assumes "distinct (map skip_identity as)"
  shows "judge_skip as relative identity line s = None \<longleftrightarrow> admitted as identity s"
proof -
  let ?m = "map (\<lambda>a. (skip_identity a, skip_reason a)) (rev as)"
  have "distinct (map fst ?m)" using assms by (simp add: comp_def rev_map [symmetric])
  then have m: "map_of ?m identity = Some r \<longleftrightarrow> (\<exists>a \<in> set as. skip_identity a = identity \<and> r = skip_reason a)" for r
    by (auto simp: map_of_eq_Some_iff image_iff)
  have "judge_skip as relative identity line s = None \<longleftrightarrow>
      (case s of (kind, condition, reason) \<Rightarrow> kind \<noteq> ''skip'' \<and> (\<forall>c. condition = Some c \<longrightarrow> \<not> literal_is_bool c) \<and>
        (\<exists>r. map_of ?m identity = Some r \<and> reason = Some r))"
    by (auto simp: judge_skip_def split: prod.split option.splits)
  then show ?thesis unfolding m admitted_def by (auto split: prod.splits)
qed

text \<open>The skips a class, and a file, hold: with the identity and the line they are reported under.\<close>

definition class_skips ::
  "string list \<Rightarrow> (string \<times> string) list \<Rightarrow> string \<Rightarrow> node \<Rightarrow> (string \<times> nat \<times> skip) list" where
  "class_skips cases skips relative n =
     (case n of
        ClassDef l name bases _ body decorators \<Rightarrow>
          if is_test_case cases bases
          then concat (map (\<lambda>(identity, line, ds). map (\<lambda>s. (identity, line, s)) (List.map_filter (skip_decorator skips) ds))
                 ((relative @ ''::'' @ name, l, decorators) # test_methods relative name body))
          else []
      | _ \<Rightarrow> [])"

definition tree_skips :: "string \<Rightarrow> node list \<Rightarrow> (string \<times> nat \<times> skip) list" where
  "tree_skips relative body =
     concat (map (class_skips (test_case_aliases body) (skip_aliases body) relative) body)"

definition clean_class :: "string list \<Rightarrow> bool \<Rightarrow> bool \<Rightarrow> node \<Rightarrow> bool" where
  "clean_class cases in_test discoverable n \<longleftrightarrow>
     (case n of
        ClassDef l name bases _ body decorators \<Rightarrow>
          is_test_case cases bases \<longrightarrow>
            (in_test \<longrightarrow> discoverable) \<and>
            (\<forall>l' a name' parts body' ds. FunctionDef l' a name' parts body' ds \<in> set body \<longrightarrow>
               starts_with ''test'' name' \<longrightarrow> \<not> is_placeholder_body body')
      | _ \<Rightarrow> True)"

lemma map_filter_empty: "List.map_filter f xs = [] \<longleftrightarrow> (\<forall>x \<in> set xs. f x = None)"
  by (induction xs) (auto simp: List.map_filter_simps split: option.splits)

lemma map_filter_set: "y \<in> set (List.map_filter f xs) \<longleftrightarrow> (\<exists>x \<in> set xs. f x = Some y)"
  by (induction xs) (auto simp: List.map_filter_simps split: option.splits)

definition judged :: "approval list \<Rightarrow> string \<Rightarrow> string \<times> nat \<times> skip \<Rightarrow> finding + string" where
  "judged as relative = (\<lambda>(i, l, s). case judge_skip as relative i l s of Some f \<Rightarrow> Inl f | None \<Rightarrow> Inr i)"

lemma skip_results_judged:
  "concat (map (skip_results as skips relative) candidates) =
     map (judged as relative) (concat (map (\<lambda>(identity, line, ds).
       map (\<lambda>s. (identity, line, s)) (List.map_filter (skip_decorator skips) ds)) candidates))"
  by (induction candidates) (auto simp: skip_results_def judged_def)

lemma judged_findings:
  assumes "distinct (map skip_identity as)"
  shows "List.map_filter (\<lambda>r. case r of Inl f \<Rightarrow> Some f | Inr _ \<Rightarrow> None) (map (judged as relative) xs) = [] \<longleftrightarrow>
      (\<forall>(i, l, s) \<in> set xs. admitted as i s)"
    and "set (List.map_filter (\<lambda>r. case r of Inl _ \<Rightarrow> None | Inr i \<Rightarrow> Some i) (map (judged as relative) xs)) =
      {i. \<exists>l s. (i, l, s) \<in> set xs \<and> admitted as i s}"
proof -
  have "(case judged as relative x of Inl f \<Rightarrow> Some f | Inr _ \<Rightarrow> None) = None \<longleftrightarrow>
      (case x of (i, l, s) \<Rightarrow> admitted as i s)" for x
  proof -
    obtain i l s where x: "x = (i, l, s)" by (rule prod_cases3)
    show ?thesis unfolding x judged_def using judge_skip_None [OF assms, of relative i l s]
      by (cases "judge_skip as relative i l s") auto
  qed
  then show "List.map_filter (\<lambda>r. case r of Inl f \<Rightarrow> Some f | Inr _ \<Rightarrow> None) (map (judged as relative) xs) = [] \<longleftrightarrow>
      (\<forall>(i, l, s) \<in> set xs. admitted as i s)"
    unfolding map_filter_empty by simp
  have each: "(case judged as relative x of Inl _ \<Rightarrow> None | Inr i \<Rightarrow> Some i) = Some i \<longleftrightarrow>
      (\<exists>l s. x = (i, l, s) \<and> admitted as i s)" for x i
  proof -
    obtain j l s where x: "x = (j, l, s)" by (rule prod_cases3)
    show ?thesis unfolding x judged_def using judge_skip_None [OF assms, of relative j l s]
      by (cases "judge_skip as relative j l s") auto
  qed
  show "set (List.map_filter (\<lambda>r. case r of Inl _ \<Rightarrow> None | Inr i \<Rightarrow> Some i) (map (judged as relative) xs)) =
      {i. \<exists>l s. (i, l, s) \<in> set xs \<and> admitted as i s}"
  proof (rule set_eqI)
    fix i
    have "i \<in> set (List.map_filter (\<lambda>r. case r of Inl _ \<Rightarrow> None | Inr i \<Rightarrow> Some i) (map (judged as relative) xs)) \<longleftrightarrow>
        (\<exists>x \<in> set xs. (case judged as relative x of Inl _ \<Rightarrow> None | Inr i \<Rightarrow> Some i) = Some i)"
      by (simp add: map_filter_set)
    also have "\<dots> \<longleftrightarrow> (\<exists>x \<in> set xs. \<exists>l s. x = (i, l, s) \<and> admitted as i s)" unfolding each ..
    finally show "i \<in> set (List.map_filter (\<lambda>r. case r of Inl _ \<Rightarrow> None | Inr i \<Rightarrow> Some i) (map (judged as relative) xs)) \<longleftrightarrow>
        i \<in> {i. \<exists>l s. (i, l, s) \<in> set xs \<and> admitted as i s}" by blast
  qed
qed

lemma methods_clean:
  "(\<forall>m \<in> set body. method_findings relative name m = []) \<longleftrightarrow>
     (\<forall>l a name' parts body' ds. FunctionDef l a name' parts body' ds \<in> set body \<longrightarrow>
        starts_with ''test'' name' \<longrightarrow> \<not> is_placeholder_body body')"
proof -
  have "method_findings relative name m = [] \<longleftrightarrow>
      (\<forall>l a name' parts body' ds. m = FunctionDef l a name' parts body' ds \<longrightarrow>
         starts_with ''test'' name' \<longrightarrow> \<not> is_placeholder_body body')" for m
    by (cases m) (simp_all add: method_findings_def)
  then show ?thesis by blast
qed

lemma inspect_class_skips:
  assumes "distinct (map skip_identity as)"
  shows "file_findings (inspect_class as cases skips in_test discoverable relative n) = [] \<longleftrightarrow>
      clean_class cases in_test discoverable n \<and>
      (\<forall>(i, l, s) \<in> set (class_skips cases skips relative n). admitted as i s)"
    and "set (file_skips (inspect_class as cases skips in_test discoverable relative n)) =
      {i. \<exists>l s. (i, l, s) \<in> set (class_skips cases skips relative n) \<and> admitted as i s}"
proof -
  have "(file_findings (inspect_class as cases skips in_test discoverable relative n) = [] \<longleftrightarrow>
      clean_class cases in_test discoverable n \<and>
      (\<forall>(i, l, s) \<in> set (class_skips cases skips relative n). admitted as i s)) \<and>
    set (file_skips (inspect_class as cases skips in_test discoverable relative n)) =
      {i. \<exists>l s. (i, l, s) \<in> set (class_skips cases skips relative n) \<and> admitted as i s}"
  proof (cases "\<exists>l name bases kws body ds. n = ClassDef l name bases kws body ds \<and> is_test_case cases bases")
    case True
    then obtain l name bases kws body ds where n: "n = ClassDef l name bases kws body ds"
      and test: "is_test_case cases bases" by blast
    show ?thesis
      unfolding n inspect_class_def class_skips_def clean_class_def node.case Let_def skip_results_judged
      using test methods_clean [of body relative name]
      by (simp only: if_True file_report.simps judged_findings [OF assms] append_is_Nil_conv concat_eq_Nil_conv
          ball_simps) (simp add: append_is_Nil_conv)
  next
    case False
    then show ?thesis by (auto simp: inspect_class_def class_skips_def clean_class_def split: node.split)
  qed
  then show "file_findings (inspect_class as cases skips in_test discoverable relative n) = [] \<longleftrightarrow>
      clean_class cases in_test discoverable n \<and>
      (\<forall>(i, l, s) \<in> set (class_skips cases skips relative n). admitted as i s)"
    and "set (file_skips (inspect_class as cases skips in_test discoverable relative n)) =
      {i. \<exists>l s. (i, l, s) \<in> set (class_skips cases skips relative n) \<and> admitted as i s}" by blast+
qed

section \<open>Clean files\<close>

text \<open>
  A clean module: no import of the mutable package or of another test framework anywhere; in a test
  root, no handler that swallows an exception, no nested test class, no test class in a file discovery
  passes over, no placeholder test and no test function outside a class.
\<close>

definition clean_tree :: "bool \<Rightarrow> bool \<Rightarrow> node list \<Rightarrow> bool" where
  "clean_tree in_test discoverable body \<longleftrightarrow>
     (\<forall>n. descends (Other body) n \<longrightarrow>
        ''control_plane_kit'' \<notin> set (import_roots n) \<and> ''pytest'' \<notin> set (import_roots n) \<and>
        (in_test \<longrightarrow> (\<forall>l parts. n \<noteq> ExceptHandler l parts [Pass]))) \<and>
     (\<forall>s \<in> set body. \<forall>m \<in> set (child_nodes s). \<forall>l name bases kws b ds.
        descends m (ClassDef l name bases kws b ds) \<longrightarrow> \<not> is_test_case (test_case_aliases body) bases) \<and>
     (\<forall>n \<in> set body. clean_class (test_case_aliases body) in_test discoverable n) \<and>
     (in_test \<longrightarrow>
        (\<forall>l a name parts b ds. FunctionDef l a name parts b ds \<in> set body \<longrightarrow> \<not> starts_with ''test'' name))"

lemma inspect_tree_clean:
  assumes "distinct (map skip_identity as)"
  shows "file_findings (inspect_tree as in_test discoverable relative body) = [] \<longleftrightarrow>
      clean_tree in_test discoverable body \<and> (\<forall>(i, l, s) \<in> set (tree_skips relative body). admitted as i s)"
    and "set (file_skips (inspect_tree as in_test discoverable relative body)) =
      {i. \<exists>l s. (i, l, s) \<in> set (tree_skips relative body) \<and> admitted as i s}"
proof -
  have nodes: "node_findings in_test relative n = [] \<longleftrightarrow>
      ''control_plane_kit'' \<notin> set (import_roots n) \<and> ''pytest'' \<notin> set (import_roots n) \<and>
      (in_test \<longrightarrow> (\<forall>l parts. n \<noteq> ExceptHandler l parts [Pass]))" for n
    by (auto simp: node_findings_def is_swallowed_handler_def split: node.splits)
  have nested: "nested_findings cases relative n = [] \<longleftrightarrow>
      (\<forall>l name bases kws b ds. n = ClassDef l name bases kws b ds \<longrightarrow> \<not> is_test_case cases bases)" for cases n
    by (auto simp: nested_findings_def split: node.splits)
  have funs: "function_findings relative n = [] \<longleftrightarrow>
      (\<forall>l a name parts b ds. n = FunctionDef l a name parts b ds \<longrightarrow> \<not> starts_with ''test'' name)" for n
    by (auto simp: function_findings_def split: node.splits)
  note parts = inspect_class_skips [OF assms]
  let ?cases = "test_case_aliases body"
  have a: "concat (map (node_findings in_test relative) (walk_tree body)) = [] \<longleftrightarrow>
     (\<forall>n. descends (Other body) n \<longrightarrow>
        ''control_plane_kit'' \<notin> set (import_roots n) \<and> ''pytest'' \<notin> set (import_roots n) \<and>
        (in_test \<longrightarrow> (\<forall>l parts. n \<noteq> ExceptHandler l parts [Pass])))"
  proof -
    have "concat (map (node_findings in_test relative) (walk_tree body)) = [] \<longleftrightarrow>
        (\<forall>n \<in> set (walk_tree body). node_findings in_test relative n = [])" by simp
    then show ?thesis unfolding Ball_def walk_set nodes .
  qed
  have b: "concat (map (nested_findings ?cases relative) (nested_nodes body)) = [] \<longleftrightarrow>
     (\<forall>s \<in> set body. \<forall>m \<in> set (child_nodes s). \<forall>l name bases kws b ds.
        descends m (ClassDef l name bases kws b ds) \<longrightarrow> \<not> is_test_case ?cases bases)"
  proof -
    have "concat (map (nested_findings ?cases relative) (nested_nodes body)) = [] \<longleftrightarrow>
        (\<forall>n \<in> set (nested_nodes body). nested_findings ?cases relative n = [])" by simp
    then show ?thesis unfolding Ball_def nested_set nested by blast
  qed
  have c: "concat (map file_findings (map (inspect_class as ?cases (skip_aliases body) in_test discoverable relative) body)) = [] \<longleftrightarrow>
     (\<forall>n \<in> set body. clean_class ?cases in_test discoverable n) \<and>
     (\<forall>(i, l, s) \<in> set (tree_skips relative body). admitted as i s)"
    by (simp add: parts tree_skips_def ball_conj_distrib)
  have d: "(if in_test then concat (map (function_findings relative) body) else []) = [] \<longleftrightarrow>
     (in_test \<longrightarrow>
        (\<forall>l a name parts b ds. FunctionDef l a name parts b ds \<in> set body \<longrightarrow> \<not> starts_with ''test'' name))"
    by (simp add: funs) blast
  show "file_findings (inspect_tree as in_test discoverable relative body) = [] \<longleftrightarrow>
      clean_tree in_test discoverable body \<and> (\<forall>(i, l, s) \<in> set (tree_skips relative body). admitted as i s)"
    unfolding inspect_tree_def clean_tree_def Let_def file_report.simps append_is_Nil_conv a b c d
    by (rule iffI; elim conjE; intro conjI; assumption)
  show "set (file_skips (inspect_tree as in_test discoverable relative body)) =
      {i. \<exists>l s. (i, l, s) \<in> set (tree_skips relative body) \<and> admitted as i s}"
    unfolding inspect_tree_def tree_skips_def Let_def by (simp add: parts) blast
qed

section \<open>Clean packages\<close>

definition parsed :: "repository \<Rightarrow> string list \<Rightarrow> string list \<Rightarrow> node list option" where
  "parsed repo root path =
     (case read_python repo path of
        Text_bytes b \<Rightarrow>
          (case parse_python repo (relative_text root path) (universal_newlines b) of
             Inr body \<Rightarrow> Some body
           | Inl _ \<Rightarrow> None)
      | No_access _ \<Rightarrow> None)"

definition clean_file :: "repository \<Rightarrow> approval list \<Rightarrow> string list \<Rightarrow> string list list \<Rightarrow> string list \<Rightarrow> bool" where
  "clean_file repo as root test_roots path \<longleftrightarrow>
     (\<exists>body. parsed repo root path = Some body \<and>
        clean_tree (list_ex (\<lambda>r. is_under r path) test_roots) (discoverable_name (last path)) body \<and>
        (\<forall>(i, l, s) \<in> set (tree_skips (relative_text root path) body). admitted as i s))"

definition skips_in :: "repository \<Rightarrow> string list \<Rightarrow> string list \<Rightarrow> string set" where
  "skips_in repo root path =
     (case parsed repo root path of
        None \<Rightarrow> {}
      | Some body \<Rightarrow> fst ` set (tree_skips (relative_text root path) body))"

definition clean_gate :: "repository \<Rightarrow> string list \<Rightarrow> bool" where
  "clean_gate repo path \<longleftrightarrow>
     (\<exists>b. gate_text repo path = Some (Text_bytes b) \<and>
        (\<forall>line \<in> set (lines_from [] (chars_of (universal_newlines b))). proof_changing_names repo False line = []))"

definition clean_package ::
  "repository \<Rightarrow> string list \<Rightarrow> string list list \<Rightarrow> string list list \<Rightarrow> string list list \<Rightarrow> approval list \<Rightarrow> bool" where
  "clean_package repo root source_roots test_roots gates as \<longleftrightarrow>
     (let paths = set (python_files repo (source_roots @ test_roots)) in
      approved_document repo as \<and>
      (\<forall>path \<in> paths. clean_file repo as root test_roots path) \<and>
      (\<forall>a \<in> set as. \<exists>path \<in> paths. skip_identity a \<in> skips_in repo root path) \<and>
      (\<forall>gate \<in> set gates. clean_gate repo gate))"

lemma inspect_file_clean:
  assumes "distinct (map skip_identity as)" and "inspect_file repo as root test_roots path = Inr fr"
  shows "file_findings fr = [] \<longleftrightarrow> clean_file repo as root test_roots path"
    and "clean_file repo as root test_roots path \<Longrightarrow> set (file_skips fr) = skips_in repo root path"
proof -
  note tree = inspect_tree_clean [OF assms(1)]
  have "(file_findings fr = [] \<longleftrightarrow> clean_file repo as root test_roots path) \<and>
      (clean_file repo as root test_roots path \<longrightarrow> set (file_skips fr) = skips_in repo root path)"
  proof (cases "parsed repo root path")
    case None
    then have "file_findings fr \<noteq> []"
      using assms(2)
      by (auto simp: inspect_file_def parsed_def utf8_decode_def unparseable_def Let_def
          split: file_text.splits sum.splits if_splits)
    with None show ?thesis by (simp add: clean_file_def)
  next
    case (Some body)
    then have "fr = inspect_tree as (list_ex (\<lambda>r. is_under r path) test_roots) (discoverable_name (last path))
        (relative_text root path) body"
      using assms(2)
      by (auto simp: inspect_file_def parsed_def utf8_decode_def Let_def split: file_text.splits sum.splits if_splits)
    with Some show ?thesis unfolding clean_file_def skips_in_def by (force simp: tree)
  qed
  then show "file_findings fr = [] \<longleftrightarrow> clean_file repo as root test_roots path"
    and "clean_file repo as root test_roots path \<Longrightarrow> set (file_skips fr) = skips_in repo root path" by blast+
qed

lemma line_findings_empty:
  "line_findings repo relative number lines = [] \<longleftrightarrow>
     (\<forall>line \<in> set lines. proof_changing_names repo False line = [])"
  by (induction lines arbitrary: number) auto

lemma inspect_gate_clean:
  "inspect_gate repo root path = Inr fs \<Longrightarrow> fs = [] \<longleftrightarrow> clean_gate repo path"
  by (auto simp: inspect_gate_def clean_gate_def utf8_decode_def line_findings_empty
      split: option.splits file_text.splits if_splits)

lemma approved_document_read:
  assumes "approved_document repo as" and "read_approved_skips repo = Inr x"
  shows "x = (as, [])"
  using assms read_approvals_clean [of repo "[]" 1]
  by (auto simp: approved_document_def read_approved_skips_def utf8_decode_def
      split: option.splits file_text.splits if_splits)

lemma sorted_empty: "sort (remdups xs) = [] \<longleftrightarrow> xs = []"
  by (metis set_empty set_remdups set_sort)

text \<open>
  C34.  A package passes exactly when it is clean.  If the check ends with a report, the report has no finding
  if and only if: the approvals are a well-formed list with distinct identities; every Python file under
  the roots parses to a clean module; every skip of a collected test class or method that the checker
  recognises is conditional, not by a constant, and approved for its reason; every approval is used by
  such a skip; and no gate file is missing or names an option that changes what is proved.
\<close>

theorem package_passes_iff_clean:
  assumes "inspect_package repo root source_roots test_roots gates = Inr r"
  shows "valid_report r \<longleftrightarrow> (\<exists>as. clean_package repo root source_roots test_roots gates as)"
proof -
  let ?paths = "python_files repo (source_roots @ test_roots)"
  obtain as malformed inspected gated where read: "read_approved_skips repo = Inr (as, malformed)"
    and files: "list_all2 (\<lambda>path fr. inspect_file repo as root test_roots path = Inr fr) ?paths inspected"
    and gate: "list_all2 (\<lambda>path fs. inspect_gate repo root path = Inr fs) gates gated"
    and r: "report_findings r = sort (remdups (malformed @ concat (map file_findings inspected) @
       stale_approvals repo as (concat (map file_skips inspected)) @ concat gated))"
    using assms by (auto simp: inspect_package_def mapE_Inr_iff Let_def)
  note approvals = read_approved_skips_clean [OF read]
  have per_file: "(\<forall>fr \<in> set frs. file_findings fr = []) \<longleftrightarrow> (\<forall>path \<in> set paths. clean_file repo as root test_roots path)"
    if "list_all2 (\<lambda>path fr. inspect_file repo as root test_roots path = Inr fr) paths frs" for paths frs
    using that by (induction paths frs rule: list_all2_induct) (simp_all add: inspect_file_clean [OF approvals(2)])
  have per_skip: "\<Union> (set ` file_skips ` set frs) = \<Union> (skips_in repo root ` set paths)"
    if "list_all2 (\<lambda>path fr. inspect_file repo as root test_roots path = Inr fr) paths frs"
      and "\<forall>path \<in> set paths. clean_file repo as root test_roots path" for paths frs
    using that by (induction paths frs rule: list_all2_induct) (simp_all add: inspect_file_clean [OF approvals(2)])
  have per_gate: "(\<forall>fs \<in> set fss. fs = []) \<longleftrightarrow> (\<forall>g \<in> set gs. clean_gate repo g)"
    if "list_all2 (\<lambda>path fs. inspect_gate repo root path = Inr fs) gs fss" for gs fss
    using that by (induction gs fss rule: list_all2_induct) (simp_all add: inspect_gate_clean)
  have stale: "stale_approvals repo as (concat (map file_skips inspected)) = [] \<longleftrightarrow>
      (\<forall>a \<in> set as. skip_identity a \<in> \<Union> (set ` file_skips ` set inspected))"
    by (auto simp: stale_approvals_def filter_empty_conv)
  have used: "stale_approvals repo as (concat (map file_skips inspected)) = [] \<longleftrightarrow>
      (\<forall>a \<in> set as. \<exists>path \<in> set ?paths. skip_identity a \<in> skips_in repo root path)"
    if "\<forall>path \<in> set ?paths. clean_file repo as root test_roots path"
    unfolding stale per_skip [OF files that] by blast
  have "valid_report r \<longleftrightarrow> malformed = [] \<and> (\<forall>fr \<in> set inspected. file_findings fr = []) \<and>
      stale_approvals repo as (concat (map file_skips inspected)) = [] \<and> (\<forall>fs \<in> set gated. fs = [])"
    by (simp add: valid_report_def r sorted_empty)
  also have "\<dots> \<longleftrightarrow> clean_package repo root source_roots test_roots gates as"
    unfolding clean_package_def Let_def approvals(1) per_file [OF files] per_gate [OF gate]
    using used by blast
  also have "\<dots> \<longleftrightarrow> (\<exists>as'. clean_package repo root source_roots test_roots gates as')"
    using approved_document_read [OF _ read] unfolding clean_package_def Let_def by blast
  finally show ?thesis .
qed

lemma report_is_canonical:
  assumes "inspect_package repo root source_roots test_roots gates = Inr r"
  shows "sorted (report_findings r) \<and> distinct (report_findings r) \<and> sorted (test_identities r) \<and>
    distinct (test_identities r) \<and> sorted (mock_locations r) \<and> distinct (mock_locations r)"
  using assms by (auto simp: inspect_package_def Let_def)

section \<open>Skips the checker does not see\<close>

text \<open>
  A decorator that is no call, and a call whose reason is a keyword argument, is not recognised: for
  \<open>skip\<close> that is every call without a positional argument, for the conditional forms every call with
  fewer than two.
\<close>

lemma unseen_skips:
  "\<not> (\<exists>l f args kws. d = Call l f args kws) \<Longrightarrow> skip_decorator aliases d = None"
  "skip_decorator aliases (Call l f [] kws) = None"
  "length args < 2 \<Longrightarrow> last_part (name_text f) \<noteq> ''skip'' \<Longrightarrow> aliases = [] \<Longrightarrow>
     skip_decorator aliases (Call l f args kws) = None"
  by (auto simp: skip_decorator_def get_or_def Let_def split: node.split)

section \<open>A small package\<close>

definition sample_package :: "node list \<Rightarrow> file_text option \<Rightarrow> repository" where
  "sample_package module approvals =
     \<lparr>approvals_name = ''approved_skips.json'', approvals_file = approvals,
      read_json = (\<lambda>_. Inr (JArr [JObj [(''identity'', JStr ''tests/test_a.py::A.test_b''), (''reason'', JStr ''slow'')]])),
      python_under = (\<lambda>r. if r = [''p'', ''tests''] then Some [[''p'', ''tests'', ''test_a.py'']] else None),
      read_python = (\<lambda>_. Text_bytes ''x''), parse_python = (\<lambda>_ _. Inr module),
      gate_text = (\<lambda>_. Some (Text_bytes ''python -m unittest'')), word_outside_ascii = (\<lambda>_. False)\<rparr>"

definition sample_test :: "node list \<Rightarrow> node list" where
  "sample_test decorators =
     [ImportFrom 1 (Some ''unittest'') [(''TestCase'', None), (''skip'', None), (''skipIf'', None)],
      ClassDef 2 ''A'' [Name ''TestCase''] []
        [FunctionDef 3 False ''test_b'' [] [Expr (Call 4 (Attribute (Name ''self'') ''fail'') [] [])] decorators] []]"

abbreviation "inspect_sample decorators approvals \<equiv>
  inspect_package (sample_package (sample_test decorators) approvals) [''p''] [] [[''p'', ''tests'']] [[''p'', ''test.sh'']]"

definition approved_skip :: node where
  "approved_skip = Call 3 (Name ''skipIf'') [Name ''SLOW'', Constant (Text_literal ''slow'')] []"

lemma package_passes_iff_clean_witness:
  "\<exists>as. clean_package (sample_package (sample_test [approved_skip]) (Some (Text_bytes ''y''))) [''p''] []
     [[''p'', ''tests'']] [[''p'', ''test.sh'']] as"
proof -
  have "case inspect_sample [approved_skip] (Some (Text_bytes ''y'')) of Inr r \<Rightarrow> valid_report r | Inl _ \<Rightarrow> False"
    by code_simp
  then obtain r where "inspect_sample [approved_skip] (Some (Text_bytes ''y'')) = Inr r" and "valid_report r"
    by (auto split: sum.splits)
  then show ?thesis using package_passes_iff_clean by blast
qed

text \<open>The same package passes when its only test is skipped unconditionally, with the reason as a keyword.\<close>

lemma keyword_skip_passes:
  "case inspect_sample [Call 3 (Name ''skip'') [] [Other [Constant (Text_literal ''broken'')]]] None of
     Inr r \<Rightarrow> valid_report r
   | Inl _ \<Rightarrow> False"
  by code_simp

lemma positional_skip_is_found:
  "case inspect_sample [Call 3 (Name ''skip'') [Constant (Text_literal ''broken'')] []] None of
     Inr r \<Rightarrow> report_findings r = [Finding ''tests/test_a.py'' 3 ''unconditional-skip'' ''tests/test_a.py::A.test_b'']
   | Inl _ \<Rightarrow> False"
  by code_simp

end
