(* ===== verification/ReleaseChecks.thy ===== *)
theory ReleaseChecks
  imports Json PyText
begin

text \<open>
  The image lane (\<open>scripts/product_image_lane.py\<close>), which reports for every product of the inventory
  whether its image is defined, and the test runner (\<open>scripts/run_all_tests.py\<close>), which runs every check
  of the repository.

  Parameters: the inventory as \<open>json.loads\<close> gives it, which files exist, and what a command does.  Not
  modelled: \<open>argparse\<close>, printing the report, and reading the inventory file.
\<close>

section \<open>The image lane\<close>

datatype lane_error =
    NoProductsList
  | EntryNotAnObject
  | EntryWithoutId
  | EntryWithoutDockerfile
  | NotDigestPinned
  | UnknownImageSource json
  | InventoryNotAnObject

definition nonempty_text :: "json \<Rightarrow> string option" where
  "nonempty_text v = (case v of JStr (c # cs) \<Rightarrow> Some (c # cs) | _ \<Rightarrow> None)"

text \<open>\<open>exists\<close>: whether a path below the root of the inventory exists.\<close>

definition lane_item :: "(string \<Rightarrow> bool) \<Rightarrow> json \<Rightarrow> lane_error + dict" where
  "lane_item exists v =
     (case v of
        JObj p \<Rightarrow>
          (case nonempty_text (get p ''product_id'') of
             None \<Rightarrow> Inl EntryWithoutId
           | Some i \<Rightarrow>
               (let source = (if has p ''image_source'' then get p ''image_source'' else JStr ''local-dockerfile'') in
                if source = JStr ''local-dockerfile''
                then
                  (case nonempty_text (get p ''dockerfile'') of
                     None \<Rightarrow> Inl EntryWithoutDockerfile
                   | Some dockerfile \<Rightarrow>
                       Inr [(''product_id'', JStr i), (''image_source'', source), (''dockerfile'', JStr dockerfile),
                            (''status'', JStr (if exists dockerfile then ''image-definition-present''
                                               else ''requires-product-local-image-definition''))])
                else if source = JStr ''external-oci''
                then
                  (case get p ''external_image'' of
                     JStr ref \<Rightarrow>
                       if contains ''@sha256:'' ref
                       then Inr [(''product_id'', JStr i), (''image_source'', source), (''external_image'', JStr ref),
                                 (''status'', JStr ''external-oci-pinned'')]
                       else Inl NotDigestPinned
                   | _ \<Rightarrow> Inl NotDigestPinned)
                else Inl (UnknownImageSource source)))
      | _ \<Rightarrow> Inl EntryNotAnObject)"

definition lane_status :: "json list \<Rightarrow> dict list \<Rightarrow> string" where
  "lane_status products items =
     (if products = [] then ''no-products''
      else if list_all (\<lambda>i. get i ''status'' \<in> {JStr ''image-definition-present'', JStr ''external-oci-pinned''}) items
      then ''product-image-definitions-present''
      else ''product-image-definitions-required'')"

definition build_report :: "(string \<Rightarrow> bool) \<Rightarrow> json \<Rightarrow> lane_error + dict" where
  "build_report exists inventory =
     (case inventory of
        JObj d \<Rightarrow>
          (case get d ''products'' of
             JArr products \<Rightarrow>
               bindE (mapE (lane_item exists) products) (\<lambda>items.
               Inr [(''schema'', JStr ''cpk-servers.product-image-lane-report''), (''products'', JArr products),
                    (''image_builds'', JArr (map JObj items)), (''status'', JStr (lane_status products items))])
           | _ \<Rightarrow> Inl NoProductsList)
      | _ \<Rightarrow> Inl InventoryNotAnObject)"

section \<open>The test runner\<close>

text \<open>An entry of \<open>products/\<close>, with what the runner asks of it.\<close>

record product_entry =
  entry_name :: string
  entry_is_dir :: bool
  has_descriptor :: bool
  has_source :: bool
  has_dockerfile :: bool
  has_tests :: bool

datatype runner_error = Missing_tests "string list" | Command_failed "string list"

record 'w runner =
  commands :: "(string list \<times> int) list"
  outside_world :: 'w

record 'w runner_env =
  product_entries :: "'w \<Rightarrow> product_entry list"
  execute :: "string list \<Rightarrow> 'w \<Rightarrow> int \<times> 'w"
  python :: string

definition owned_products :: "product_entry list \<Rightarrow> product_entry list" where
  "owned_products entries =
     filter (\<lambda>p. has_descriptor p \<or> has_source p \<or> has_dockerfile p) (sort_key entry_name (filter entry_is_dir entries))"

definition product_test_roots :: "'w runner_env \<Rightarrow> ('w runner, runner_error, string list) action" where
  "product_test_roots env = (\<lambda>st.
     let owned = owned_products (product_entries env (outside_world st));
         missing = map (\<lambda>p. ''products/'' @ entry_name p) (filter (\<lambda>p. \<not> has_tests p) owned) in
     (if missing \<noteq> [] then Inl (Missing_tests missing)
      else Inr (map (\<lambda>p. ''products/'' @ entry_name p @ ''/tests'') owned), st))"

text \<open>\<open>subprocess.run(command, check=True)\<close>; \<open>commands\<close> is a history variable of the model.\<close>

definition run_checked :: "'w runner_env \<Rightarrow> string list \<Rightarrow> ('w runner, runner_error, unit) action" where
  "run_checked env command = (\<lambda>st.
     case execute env command (outside_world st) of (status, w) \<Rightarrow>
       (if status = 0 then Inr () else Inl (Command_failed command),
        \<lparr>commands = commands st @ [(command, status)], outside_world = w\<rparr>))"

definition discover :: "'w runner_env \<Rightarrow> string \<Rightarrow> string list" where
  "discover env root = [python env, ''-m'', ''unittest'', ''discover'', ''-s'', root, ''-v'']"

fun run_each :: "'w runner_env \<Rightarrow> string list list \<Rightarrow> ('w runner, runner_error, unit) action" where
  "run_each env [] = ret ()"
| "run_each env (c # cs) = thenA (run_checked env c) (run_each env cs)"

definition first_commands :: "'w runner_env \<Rightarrow> string list list" where
  "first_commands env =
     [[python env, ''scripts/apply_coordinates.py'', ''--check''],
      [python env, ''-m'', ''compileall'', ''-q'', ''src'', ''products'', ''scripts'', ''tests'']]"

definition lane_command :: "'w runner_env \<Rightarrow> string list" where
  "lane_command env =
     [python env, ''scripts/product_image_lane.py'', ''--inventory'', ''coordination/product-inventory.json'']"

definition run_all_tests :: "'w runner_env \<Rightarrow> ('w runner, runner_error, int) action" where
  "run_all_tests env =
     thenA (run_each env (first_commands env))
     (bindA (product_test_roots env) (\<lambda>roots.
      thenA (run_each env (map (discover env) (''tests'' # roots)))
      (thenA (run_checked env (lane_command env)) (ret 0))))"

section \<open>What they report\<close>

text \<open>A product whose image is defined: by a Dockerfile that exists, or by a digest.\<close>

definition image_defined :: "(string \<Rightarrow> bool) \<Rightarrow> json \<Rightarrow> bool" where
  "image_defined exists v \<longleftrightarrow>
     (\<exists>p. v = JObj p \<and>
        ((\<not> has p ''image_source'' \<or> get p ''image_source'' = JStr ''local-dockerfile'') \<and>
           (\<exists>d. get p ''dockerfile'' = JStr d \<and> exists d) \<or>
         get p ''image_source'' = JStr ''external-oci'' \<and>
           (\<exists>r. get p ''external_image'' = JStr r \<and> contains ''@sha256:'' r)))"

lemma lane_item_defined:
  assumes "lane_item exists v = Inr item"
  shows "get item ''status'' \<in> {JStr ''image-definition-present'', JStr ''external-oci-pinned''} \<longleftrightarrow> image_defined exists v"
proof -
  obtain p where v: "v = JObj p" using assms by (cases v) (auto simp: lane_item_def)
  have nonempty: "nonempty_text x = Some s \<longleftrightarrow> x = JStr s \<and> s \<noteq> []" for x s
    by (auto simp: nonempty_text_def split: json.splits list.splits)
  have missing: "\<not> has p ''image_source'' \<Longrightarrow> get p ''image_source'' = JNull" by (simp add: has_def get_def)
  show ?thesis
    using assms missing unfolding v lane_item_def image_defined_def
    by (auto simp: nonempty Let_def get_def [of "_ # _"] split: option.splits if_splits json.splits)
qed

text \<open>
  The lane's verdict is exact: for an inventory with products the report says that the definitions are
  present if and only if the image of every product is defined, and otherwise that some are required.
\<close>

theorem lane_verdict_is_exact:
  assumes "build_report exists inventory = Inr report"
  shows "\<exists>d products items. inventory = JObj d \<and> get d ''products'' = JArr products \<and>
    get report ''image_builds'' = JArr (map JObj items) \<and> length items = length products \<and>
    get report ''status'' =
      JStr (if products = [] then ''no-products''
            else if list_all (image_defined exists) products then ''product-image-definitions-present''
            else ''product-image-definitions-required'')"
proof -
  obtain d where d: "inventory = JObj d" using assms by (cases inventory) (auto simp: build_report_def)
  obtain products where products: "get d ''products'' = JArr products"
    using assms unfolding d build_report_def by (cases "get d ''products''") auto
  obtain items where items: "mapE (lane_item exists) products = Inr items"
    and report: "report = [(''schema'', JStr ''cpk-servers.product-image-lane-report''), (''products'', JArr products),
      (''image_builds'', JArr (map JObj items)), (''status'', JStr (lane_status products items))]"
    using assms unfolding d build_report_def by (auto simp: products)
  have "list_all2 (\<lambda>v i. lane_item exists v = Inr i) products items" using items by (simp add: mapE_Inr_iff)
  then have "list_all (\<lambda>i. get i ''status'' \<in> {JStr ''image-definition-present'', JStr ''external-oci-pinned''}) items
      \<longleftrightarrow> list_all (image_defined exists) products"
    by (induction rule: list_all2_induct) (simp_all only: list.pred_inject lane_item_defined)
  then have "lane_status products items = (if products = [] then ''no-products''
            else if list_all (image_defined exists) products then ''product-image-definitions-present''
            else ''product-image-definitions-required'')"
    by (simp only: lane_status_def)
  then show ?thesis
    using d products mapE_length [OF items] by (auto simp: report get_def)
qed

lemma run_each_ok:
  "run_each env cs st = (Inr (), st') \<Longrightarrow> commands st' = commands st @ map (\<lambda>c. (c, 0)) cs"
proof (induction cs arbitrary: st)
  case (Cons c cs)
  then obtain mid where first: "run_checked env c st = (Inr (), mid)" and rest: "run_each env cs mid = (Inr (), st')"
    by (auto simp: bindA_Inr)
  from first have "commands mid = commands st @ [(c, 0)]"
    by (auto simp: run_checked_def split: prod.splits if_splits)
  with Cons(1) [OF rest] show ?case by simp
qed (simp add: ret_apply)

text \<open>
  A green run ran everything: if the runner returns, then it returns 0 and it ran exactly the coordinate
  check, the compilation, the tests of the repository, the tests of every owned product in the order of
  the names, and the image lane, each with status 0; and every owned product had tests.
\<close>

theorem green_run_ran_everything:
  assumes "run_all_tests env st = (Inr status, st')"
  shows "status = 0 \<and> (\<exists>entries. list_all has_tests (owned_products entries) \<and>
    commands st' = commands st @ map (\<lambda>c. (c, 0))
      (first_commands env @ discover env ''tests'' #
       map (\<lambda>p. discover env (''products/'' @ entry_name p @ ''/tests'')) (owned_products entries) @
       [lane_command env]))"
proof -
  obtain s1 roots s2 s3 where s1: "run_each env (first_commands env) st = (Inr (), s1)"
    and roots: "product_test_roots env s1 = (Inr roots, s2)"
    and s3: "run_each env (map (discover env) (''tests'' # roots)) s2 = (Inr (), s3)"
    and last: "run_checked env (lane_command env) s3 = (Inr (), st')" and "status = 0"
    using assms unfolding run_all_tests_def bindA_Inr by (auto simp: ret_apply)
  let ?owned = "owned_products (product_entries env (outside_world s1))"
  have "list_all has_tests ?owned" and r: "roots = map (\<lambda>p. ''products/'' @ entry_name p @ ''/tests'') ?owned" and "s2 = s1"
    using roots by (auto simp: product_test_roots_def Let_def list_all_iff filter_empty_conv split: if_splits)
  moreover have "commands st' = commands s3 @ [(lane_command env, 0)]"
    using last by (auto simp: run_checked_def split: prod.splits if_splits)
  ultimately show ?thesis
    using run_each_ok [OF s1] run_each_ok [OF s3] \<open>status = 0\<close>
    by (intro conjI exI [of _ "product_entries env (outside_world s1)"]) (simp_all add: comp_def)
qed

section \<open>Witnesses\<close>

definition sample_inventory :: json where
  "sample_inventory = JObj [(''products'', JArr
     [JObj [(''product_id'', JStr ''hello''), (''dockerfile'', JStr ''products/hello/Dockerfile'')],
      JObj [(''product_id'', JStr ''postgres''), (''image_source'', JStr ''external-oci''),
            (''external_image'', JStr ''postgres@sha256:0'')]])]"

lemma lane_verdict_is_exact_witness:
  "\<exists>report. build_report (\<lambda>d. d = ''products/hello/Dockerfile'') sample_inventory = Inr report \<and>
     get report ''status'' = JStr ''product-image-definitions-present''"
proof -
  let ?exists = "\<lambda>d. d = ''products/hello/Dockerfile''"
  have "case build_report ?exists sample_inventory of Inr _ \<Rightarrow> True | Inl _ \<Rightarrow> False" by code_simp
  then obtain report where report: "build_report ?exists sample_inventory = Inr report"
    by (auto split: sum.splits)
  from lane_verdict_is_exact [OF this] obtain d products where d: "sample_inventory = JObj d"
    "get d ''products'' = JArr products" and status: "get report ''status'' =
      JStr (if products = [] then ''no-products''
            else if list_all (image_defined ?exists) products then ''product-image-definitions-present''
            else ''product-image-definitions-required'')" by blast
  have "list_all (image_defined ?exists) products" and "products \<noteq> []"
    using d by (auto simp: sample_inventory_def get_def has_def image_defined_def starts_with_def)
  with report status show ?thesis by auto
qed

definition sample_runner :: "unit runner_env" where
  "sample_runner =
     \<lparr>product_entries = (\<lambda>_. [\<lparr>entry_name = ''hello'', entry_is_dir = True, has_descriptor = True, has_source = True,
                               has_dockerfile = True, has_tests = True\<rparr>]),
      execute = (\<lambda>_ w. (0, w)), python = ''python3''\<rparr>"

lemma green_run_ran_everything_witness:
  "\<exists>entries. length (commands (snd (run_all_tests sample_runner \<lparr>commands = [], outside_world = ()\<rparr>))) =
     4 + length (owned_products entries)"
proof -
  let ?st = "\<lparr>commands = [], outside_world = ()\<rparr>"
  have "fst (run_all_tests sample_runner ?st) = Inr 0" by code_simp
  then have "run_all_tests sample_runner ?st = (Inr 0, snd (run_all_tests sample_runner ?st))"
    by (metis prod.collapse)
  from green_run_ran_everything [OF this] show ?thesis by (auto simp: first_commands_def)
qed

end
