(* ===== verification/Spec2Isabelle.thy ===== *)
theory Spec2Isabelle
  imports ClientProperties StoreProperties GatewayServerProperties BoundaryProperties
    Composition TransportProperties ServerProperties ForwardingProperties HelloProperties CatalogueProperties
    PhaseReportProperties AbortCleanupProperties CustodyProperties HostedSetup HostedReadiness CoordinateProperties
    IntegrityProperties ReleaseChecks
begin

text \<open>
  A verification development for control-plane-kit-servers.

  \<^bold>\<open>The program.\<close>  The repository holds the server products of the control-plane kit: \<open>cpk-server\<close>,
  the process that serves the topology API over HTTP and MCP, with the client that drives it
  (\<open>products/cpk_server\<close>); the local gateway that runs probes for it (\<open>products/cpk_local_gateway\<close>); an
  active router, a multiplexer and the Hello product that deployments are built from
  (\<open>products/http_active_router\<close>, \<open>products/http_multiplexer\<close>, \<open>products/hello_server\<close>); the
  publication catalogue of the products (\<open>src/control_plane_kit_servers\<close>); and the scripts that accept and
  release them (\<open>scripts\<close>, \<open>test_support\<close>).

  How the parts interact: the client reads a profile and credentials from private files, keeps a journal
  per operation, and sends requests whose paths the server's boundaries take apart again; the server
  authenticates a request before it dispatches it, and signs the probe grants that the gateway verifies
  and uses once; the acceptance workflow calls the same API and runs inside the phase runner, whose
  failure leads to a compensation; the catalogue is written from the coordinate document and read when
  products are admitted.

  \<^bold>\<open>Layers.\<close>  \<open>Prelude\<close> has the error monad (\<open>bindE\<close>), state-passing actions with their Hoare
  triples (\<open>bindA\<close>, \<open>triple\<close>, \<open>keeps\<close>) and Python's strings and dictionaries; \<open>Json\<close> the values
  \<open>json.loads\<close> gives, Python's equality and \<open>json.dumps\<close>; \<open>PyText\<close> the string methods, UTF-8,
  percent-encoding and \<open>urlsplit\<close>.  A Python string is the list of its UTF-8 bytes (a lone surrogate
  keeps its three-byte form), a dictionary an association list in insertion order, an exception a value
  of the left summand.  Code that mutates a shared object is a function of the state it mutates.

  \<^bold>\<open>Which theory models which file\<close>, and what its lemmas show:

  \<^item> \<open>Journal\<close> -- the documents of \<open>client/journal.py\<close>: one definition per validator.
    \<open>FileSystem\<close>, \<open>JournalStore\<close> -- the private directory, the lock and the replacement of a journal, as
    sequences of system calls, before each of which other processes may act and each of which may
    fail.  \<open>JournalDisk\<close>, \<open>JournalLocks\<close>, \<open>StoreProperties\<close>: replacement is atomic, creation never
    replaces, the lock is exclusive, no descriptor leaks.
  \<^item> \<open>ClientErrors\<close>, \<open>ClientValues\<close>, \<open>Workflow\<close>, \<open>TopologyClient\<close>, \<open>Apply\<close> -- \<open>client/workflow.py\<close>: the
    readers of answers, the mutation step with its write-ahead record, plan, resume, apply, status.
    \<open>Cli\<close> -- \<open>client/cli.py\<close>.  \<open>ClientSafety\<close> proves the write-ahead discipline once, in the locale
    \<open>journal_store\<close>, which \<open>JournalStore\<close> interprets with the store on disk; \<open>ClientProperties\<close> states the
    results for the commands.
  \<^item> \<open>Profile\<close>, \<open>Transport\<close> -- \<open>client/profile.py\<close> and \<open>client/transport.py\<close>; \<open>TransportProperties\<close>:
    credentials stay at the endpoint and in private files, and what the client writes into a path or
    a query is what the server's boundary reads (the two models composed).
  \<^item> \<open>Authentication\<close>, \<open>Boundary\<close>, \<open>Composition\<close>, \<open>Bootstrap\<close>, \<open>HostedServer\<close> -- the files of those names of
    cpk-server, the last two for \<open>server.py\<close>; \<open>BoundaryProperties\<close>, \<open>ServerProperties\<close>: what reaches a
    service is authenticated, bounded and routed, a configuration that is accepted is coherent, and the
    process state refines its specification.
  \<^item> \<open>GatewayVerification\<close>, \<open>GatewayServer\<close> -- \<open>verification.py\<close> and \<open>server.py\<close> of the gateway;
    \<open>GatewayProperties\<close>, \<open>GatewayServerProperties\<close>: a grant is exact and used once, the replay cache
    keeps its invariant, a probe reaches its configured target only.
  \<^item> \<open>HttpForwarding\<close>, \<open>HttpRouter\<close>, \<open>HttpMultiplexer\<close>, \<open>ForwardingProperties\<close> -- the router and the
    multiplexer: requests stay on the target, observers cannot change the answer.
  \<^item> \<open>HelloServer\<close>, \<open>HelloProperties\<close> -- the Hello product: the log refines the history, readiness rests
    on evidence.
  \<^item> \<open>Catalogue\<close>, \<open>CatalogueProperties\<close> -- \<open>catalogue.py\<close>: products are valid, descriptors pinned, a
    publication canonical.
  \<^item> \<open>PhaseReport\<close>, \<open>PhaseReportProperties\<close> -- \<open>cpk_server_source_live_report.py\<close>: the runner refines an
    account of its phases, its ledger lines are bounded.
  \<^item> \<open>AbortCompensation\<close>, \<open>AbortProperties\<close> -- \<open>cpk_server_source_live_abort.py\<close>: a compensation is
    reported exactly when absence was verified.
  \<^item> \<open>IngressEvidence\<close>, \<open>Custody\<close>, \<open>CloudflareEvidence\<close>, \<open>AbortCleanup\<close> -- of
    \<open>cpk_server_secret_provider_source_live.py\<close>: the decoders of database rows, the client of the secret
    provider, the reads of Cloudflare with the protected inventory, and the abort clean-up, which runs the
    compensation of \<open>AbortCompensation\<close> over the workflow of \<open>HostedTransition\<close>.  \<open>IngressProperties\<close>: the
    decoders accept exactly the listings of valid resources, and cutting columns loses nothing;
    \<open>CustodyProperties\<close>: secret identifiers are distinct; \<open>AbortCleanupProperties\<close>: the clean-up touches only
    what the evidence names (the collection \<open>touching\<close> has one rule per construct), and its exit status is a
    proof of absence.
  \<^item> \<open>HostedResults\<close>, \<open>HostedReads\<close>, \<open>HostedTransition\<close>, \<open>HostedSetup\<close>, \<open>HostedProperties\<close>, \<open>HostedReadiness\<close> --
    \<open>cpk_server_hosted_activity.py\<close>: the checks of answers and \<open>HostedWorkflow\<close>; a transition follows its
    protocol, a graph is advanced only after completion, the execution loop ends, readiness is noticed.
  \<^item> \<open>Coordinates\<close>, \<open>CoordinatePins\<close>, \<open>CoordinateProperties\<close> -- \<open>apply_coordinates.py\<close> and
    \<open>product_image_coordinate.py\<close>: the pins, the descriptors and the catalogue generated from one document
    are exact, applying twice changes nothing.  Writing many files is reasoned about in the locale
    \<open>file_store\<close>, interpreted with the files of the repository.
  \<^item> \<open>PackageIntegrity\<close>, \<open>IntegrityProperties\<close> -- \<open>test_support/package_integrity.py\<close>: a package passes
    exactly when it is clean.
  \<^item> \<open>ReleaseChecks\<close> -- \<open>product_image_lane.py\<close> and \<open>run_all_tests.py\<close>: the lane's verdict is exact, a green
    run ran everything.

  \<^bold>\<open>Bounds and termination.\<close>  Loops over data are structural recursion or have a measure.  The loops that
  wait for something outside have the bound of the code: 80 executions of a run, 16 pages of a public
  read, 20 pages of an inventory, the deadline of the readiness wait; where reading and writing a file may go on as long as the
  kernel transfers bytes, the remaining number of bytes is the measure.  No definition uses fuel beyond
  what the code counts itself.  Integers are Python's unbounded ones; file modes and open flags are words.

  \<^bold>\<open>Parameters.\<close>  Everything outside the repository is an argument: the packages \<open>control_plane_kit_core\<close>,
  \<open>_operations\<close>, \<open>_interpreters\<close> and \<open>_secrets\<close> (contracts, codecs, enumerations by their values), PyJWT
  and cryptography, psycopg, the Docker client, the network and the answers of servers, the process
  environment, clocks, SHA-256, the identity factory, \<open>json.loads\<close> (and not \<open>json.dumps\<close>), the decimal text
  of a float, the IDNA and bracketed-host checks of \<open>urlsplit\<close>, digits and letters outside ASCII.  A
  property that relies on documented behaviour of one of them says so in a premise, and its witness
  instantiates it.

  \<^bold>\<open>Not modelled\<close>, and why: FastAPI, uvicorn and \<open>http.server\<close> themselves (handlers are functions of the
  request they are given; the accept loops and threads have no code here); \<open>argparse\<close> (commands are the
  values it produces); the interpreter's own limits (recursion depth, digits of an integer, memory);
  \<open>__repr__\<close> texts of exceptions that no code reads; the services and the unit of work that
  \<open>server.py\<close> takes from other packages and only passes on.  The recursive, TLS and public-graph
  acceptance scripts, the scenario mains of \<open>cpk_server_secret_provider_source_live.py\<close> and
  \<open>cpk_server_hosted_activity.py\<close> and their graph builders are straight-line programs over Docker,
  Cloudflare, Postgres and the value constructors of \<open>control_plane_kit_core\<close>, whose code is not
  here: a model of them would consist of parameters.  Products without implementation code
  (\<open>cloudflared_connector\<close>, \<open>postgres_server\<close>, \<open>secrets_server\<close>) have descriptors only.
\<close>

end
